(* ===== verification/Prelude.thy ===== *)
theory Prelude
  imports Complex_Main "HOL-Library.Char_ord" "HOL-Library.List_Lexorder"
    "HOL-Library.Product_Lexorder" "HOL-Library.Word"
begin

section \<open>Vocabulary shared by every component\<close>

text \<open>
  Names for the types of the model, Python's built-in dictionary and sorting idioms, its
  exceptions as values, and the generic lemmas about them.

  Strings are character lists; a character stands for one code point below 256. Timestamps are
  integers, microseconds since the epoch in UTC. Identifiers (UUIDs) are 128-bit words. Floats
  are rationals: the model computes exactly where the interpreter rounds.
\<close>

type_synonym instant = int
type_synonym uuid = "128 word"
type_synonym sha256 = string

text \<open>One second and one minute in microseconds.\<close>

abbreviation second :: int where "second \<equiv> 1000000"
abbreviation minute :: int where "minute \<equiv> 60 * second"
abbreviation hour :: int where "hour \<equiv> 3600 * second"
abbreviation day :: int where "day \<equiv> 24 * hour"

subsection \<open>Exceptions as values\<close>

text \<open>
  One constructor per exception class that the modelled code raises. A string argument is the
  constant part of the message; values that a message interpolates are dropped unless the class
  keeps them as attributes. \<open>ServiceError c m\<close> is the subclass \<open>c\<close> of \<open>RuntimeError\<close> that a client of an
  external service defines.
\<close>

datatype exn =
    ValueError string
  | KeyError string
  | TypeError string
  | RuntimeError string
  | ValidationError string
  | UniqueViolation string
  | ForeignKeyViolation string
  | CheckViolation string
  | InsufficientPrivilege string
  | TenantConflictError
  | TenantSuspendedError
  | LastTenantAdminError
  | TenantQuotaExceededError string int int
  | ArtifactIntegrityError string uuid sha256 sha256
  | ArtifactAuthenticityError string uuid "string option" string "string option"
  | ArtifactVerificationError
  | ArtifactSigningError
  | CheckpointPublicationError string
  | FederationError string
  | HTTPException nat string
  | PromotionError string
  | RecoveryDrillError string
  | OverflowError string
  | AttributeError string
  | ServiceError string string

type_synonym 'a result = "exn + 'a"

text \<open>Sequencing of computations that may raise: the first exception wins.\<close>

definition bind_result :: "'a result \<Rightarrow> ('a \<Rightarrow> 'b result) \<Rightarrow> 'b result" where
  "bind_result m f = (case m of Inl e \<Rightarrow> Inl e | Inr x \<Rightarrow> f x)"

lemma bind_result_simps [simp]:
  "bind_result (Inl e) f = Inl e"
  "bind_result (Inr x) f = f x"
  by (simp_all add: bind_result_def)

lemma bind_result_Inr [simp]:
  "bind_result m f = Inr y \<longleftrightarrow> (\<exists>x. m = Inr x \<and> f x = Inr y)"
  by (cases m) auto

lemma bind_result_Inl:
  "bind_result m f = Inl e \<longleftrightarrow> m = Inl e \<or> (\<exists>x. m = Inr x \<and> f x = Inl e)"
  by (cases m) auto

text \<open>\<open>guard_result b e\<close> is \<open>if b: raise e\<close>.\<close>

definition guard_result :: "bool \<Rightarrow> exn \<Rightarrow> unit result" where
  "guard_result b e = (if b then Inl e else Inr ())"

lemma guard_result_Inr [simp]: "guard_result b e = Inr u \<longleftrightarrow> \<not> b"
  by (simp add: guard_result_def)

lemma guard_result_Inl [simp]: "guard_result b e = Inl e' \<longleftrightarrow> b \<and> e = e'"
  by (auto simp: guard_result_def)

text \<open>A list comprehension whose body may raise stops at the first exception.\<close>

fun map_result :: "('a \<Rightarrow> 'b result) \<Rightarrow> 'a list \<Rightarrow> 'b list result" where
  "map_result f [] = Inr []"
| "map_result f (x # xs) =
     bind_result (f x) (\<lambda>y. bind_result (map_result f xs) (\<lambda>ys. Inr (y # ys)))"

lemma map_result_Inr_length: "map_result f xs = Inr ys \<Longrightarrow> length ys = length xs"
  by (induction xs arbitrary: ys) auto

lemma map_result_all_Inr:
  "(\<And>x. x \<in> set xs \<Longrightarrow> f x = Inr (g x)) \<Longrightarrow> map_result f xs = Inr (map g xs)"
  by (induction xs) auto

text \<open>A loop over a list whose body may raise.\<close>

fun fold_result :: "('a \<Rightarrow> 's \<Rightarrow> 's result) \<Rightarrow> 'a list \<Rightarrow> 's \<Rightarrow> 's result" where
  "fold_result f [] st = Inr st"
| "fold_result f (x # xs) st = bind_result (f x st) (fold_result f xs)"

lemma fold_result_invariant:
  "fold_result f xs st = Inr st' \<Longrightarrow> P st \<Longrightarrow>
     (\<And>x st st'. x \<in> set xs \<Longrightarrow> P st \<Longrightarrow> f x st = Inr st' \<Longrightarrow> P st') \<Longrightarrow> P st'"
  by (induction xs arbitrary: st) auto

lemma fold_result_append [simp]:
  "fold_result f (xs @ ys) st = bind_result (fold_result f xs st) (fold_result f ys)"
  by (induction xs arbitrary: st) (auto simp: bind_result_def split: sum.splits)

lemma fold_result_error: "fold_result f xs st = Inl e \<Longrightarrow> \<exists>x st. f x st = Inl e"
  by (induction xs arbitrary: st) (auto simp: bind_result_Inl)

lemma fold_result_prefix:
  assumes "fold_result f xs st = Inr st'" "P ys st"
    "\<And>ys x st st'. P ys st \<Longrightarrow> f x st = Inr st' \<Longrightarrow> P (ys @ [x]) st'"
  shows "P (ys @ xs) st'"
  using assms(1,2)
proof (induction xs arbitrary: ys st)
  case (Cons x xs)
  then obtain st1 where "f x st = Inr st1" "fold_result f xs st1 = Inr st'" by auto
  then show ?case using Cons.IH [of st1 "ys @ [x]"] Cons.prems(2) assms(3) by auto
qed simp

text \<open>\<open>str.encode()\<close>: UTF-8, for code points below 256.\<close>

definition utf8 :: "string \<Rightarrow> string" where
  "utf8 s = concat (map (\<lambda>c. let n = of_char c :: nat in
     if n < 128 then [c] else [char_of (192 + n div 64), char_of (128 + n mod 64)]) s)"

definition ascii :: "string \<Rightarrow> bool" where
  "ascii s \<longleftrightarrow> list_all (\<lambda>c. (of_char c :: nat) < 128) s"

lemma ascii_append [simp]: "ascii (a @ b) \<longleftrightarrow> ascii a \<and> ascii b"
  by (simp add: ascii_def)

lemma utf8_ascii [simp]: "ascii s \<Longrightarrow> utf8 s = s"
  by (induction s) (auto simp: utf8_def ascii_def)

text \<open>\<open>hmac.compare_digest\<close> on two strings: text that is not ASCII is a \<open>TypeError\<close>.\<close>

definition compare_digest :: "string \<Rightarrow> string \<Rightarrow> bool result" where
  "compare_digest a b =
     (if ascii a \<and> ascii b then Inr (a = b)
      else Inl (TypeError ''comparing strings with non-ASCII characters is not supported''))"

subsection \<open>Dictionaries\<close>

text \<open>
  A Python dictionary keeps insertion order, and assigning to a present key keeps its place.
  It is an association list with distinct keys.
\<close>

type_synonym ('k, 'v) dict = "('k \<times> 'v) list"

fun dict_set :: "'k \<Rightarrow> 'v \<Rightarrow> ('k, 'v) dict \<Rightarrow> ('k, 'v) dict" where
  "dict_set k v [] = [(k, v)]"
| "dict_set k v ((k', v') # d) = (if k = k' then (k, v) # d else (k', v') # dict_set k v d)"

definition dict_of :: "('k \<times> 'v) list \<Rightarrow> ('k, 'v) dict" where
  "dict_of kvs = fold (\<lambda>(k, v) d. dict_set k v d) kvs []"

abbreviation dict_keys :: "('k, 'v) dict \<Rightarrow> 'k list" where
  "dict_keys d \<equiv> map fst d"

abbreviation dict_get :: "('k, 'v) dict \<Rightarrow> 'k \<Rightarrow> 'v \<Rightarrow> 'v" where
  "dict_get d k v \<equiv> (case map_of d k of None \<Rightarrow> v | Some x \<Rightarrow> x)"

text \<open>Subscription of a dictionary by a key taken from it.\<close>

definition dict_item :: "('k, 'v) dict \<Rightarrow> 'k \<Rightarrow> 'v" where
  "dict_item d k = the (map_of d k)"

lemma map_of_dict_set [simp]: "map_of (dict_set k v d) = (map_of d)(k \<mapsto> v)"
  by (induction d) auto

lemma keys_dict_set [simp]: "fst ` set (dict_set k v d) = insert k (fst ` set d)"
  by (induction k v d rule: dict_set.induct) (simp_all add: insert_commute)

lemma distinct_dict_set [simp]: "distinct (map fst (dict_set k v d)) = distinct (map fst d)"
  by (induction k v d rule: dict_set.induct) auto

lemma map_of_fold_dict_set:
  "map_of (fold (\<lambda>(k, v) d. dict_set k v d) kvs d) = map_of d ++ map_of (rev kvs)"
  by (induction kvs arbitrary: d)
    (auto simp: map_add_def fun_eq_iff split: option.splits prod.splits)

lemma map_of_dict_of: "map_of (dict_of kvs) = map_of (rev kvs)"
  by (simp add: dict_of_def map_of_fold_dict_set)

lemma distinct_fold_dict_set:
  "distinct (map fst d) \<Longrightarrow> distinct (map fst (fold (\<lambda>(k, v) d. dict_set k v d) kvs d))"
  by (induction kvs arbitrary: d) auto

lemma distinct_dict_of [simp]: "distinct (map fst (dict_of kvs))"
  by (simp add: dict_of_def distinct_fold_dict_set)

lemma map_of_map_keys:
  "map_of (map (\<lambda>x. (k x, f x)) xs) key = map_option f (find (\<lambda>x. k x = key) xs)"
  by (induction xs) auto

lemma keys_dict_of: "fst ` set (dict_of kvs) = fst ` set kvs"
  by (metis (no_types) dom_map_of_conv_image_fst map_of_dict_of set_rev)

subsection \<open>Sorting\<close>

text \<open>\<open>sorted(set(xs))\<close>.\<close>

definition sorted_set :: "'a::linorder list \<Rightarrow> 'a list" where
  "sorted_set xs = sort (remdups xs)"

lemma set_sorted_set [simp]: "set (sorted_set xs) = set xs"
  by (simp add: sorted_set_def)

lemma distinct_sorted_set [simp]: "distinct (sorted_set xs)"
  by (simp add: sorted_set_def)

lemma sorted_sorted_set [simp]: "sorted (sorted_set xs)"
  by (simp add: sorted_set_def)

lemma sorted_set_cong: "set xs = set ys \<Longrightarrow> sorted_set xs = sorted_set ys"
  by (intro sorted_distinct_set_unique) simp_all

subsection \<open>Counting and summing\<close>

text \<open>\<open>sum(p(x) for x in xs)\<close> for a boolean \<open>p\<close>.\<close>

definition count_if :: "('a \<Rightarrow> bool) \<Rightarrow> 'a list \<Rightarrow> nat" where
  "count_if p xs = length (filter p xs)"

lemma count_if_simps [simp]:
  "count_if p [] = 0"
  "count_if p (x # xs) = (if p x then Suc (count_if p xs) else count_if p xs)"
  "count_if p (xs @ ys) = count_if p xs + count_if p ys"
  by (simp_all add: count_if_def)

lemma count_if_le_length: "count_if p xs \<le> length xs"
  by (simp add: count_if_def)

lemma count_if_mono: "(\<And>x. x \<in> set xs \<Longrightarrow> p x \<Longrightarrow> q x) \<Longrightarrow> count_if p xs \<le> count_if q xs"
  by (induction xs) (auto intro: le_SucI)

lemma count_if_cong:
  "(\<And>x. x \<in> set xs \<Longrightarrow> p x = q x) \<Longrightarrow> count_if p xs = count_if q xs"
  by (induction xs) auto

lemma count_if_split: "count_if p xs + count_if (\<lambda>x. \<not> p x) xs = length xs"
  by (induction xs) auto

lemma count_if_zero: "count_if p xs = 0 \<longleftrightarrow> (\<forall>x \<in> set xs. \<not> p x)"
  by (induction xs) auto

text \<open>Summing over groups is summing over everything.\<close>

lemma sum_list_groups:
  fixes f :: "'a \<Rightarrow> 'b::comm_monoid_add"
  assumes "distinct ns" "g ` set xs \<subseteq> set ns"
  shows "(\<Sum>n\<leftarrow>ns. \<Sum>x\<leftarrow>filter (\<lambda>x. g x = n) xs. f x) = (\<Sum>x\<leftarrow>xs. f x)"
  using assms(2)
proof (induction xs)
  case (Cons x xs)
  have "(\<Sum>n\<leftarrow>ns. if g x = n then f x else 0) = f x"
    using Cons.prems assms(1) by (simp add: sum_list_distinct_conv_sum_set)
  moreover have "(\<Sum>n\<leftarrow>ns. \<Sum>x\<leftarrow>filter (\<lambda>y. g y = n) (x # xs). f x) =
      (\<Sum>n\<leftarrow>ns. (if g x = n then f x else 0) + (\<Sum>x\<leftarrow>filter (\<lambda>x. g x = n) xs. f x))"
    by (intro arg_cong [where f = sum_list] map_cong) simp_all
  ultimately show ?case using Cons by (simp add: sum_list_addf)
qed simp

lemma sum_list_of_bool: "(\<Sum>x\<leftarrow>xs. of_bool (p x)) = of_nat (count_if p xs)"
  by (induction xs) simp_all

subsection \<open>Searching\<close>

lemma find_SomeD: "find p xs = Some x \<Longrightarrow> x \<in> set xs \<and> p x"
  by (induction xs) (auto split: if_splits)

subsection \<open>Prefixes and suffixes of strings\<close>

lemma append_separator_inj:
  "c \<notin> set a \<Longrightarrow> c \<notin> set b \<Longrightarrow> a @ c # x = b @ c # y \<longleftrightarrow> a = b \<and> x = y"
proof (induction a arbitrary: b)
  case Nil
  then show ?case by (cases b) auto
next
  case (Cons d a)
  then show ?case by (cases b) auto
qed

definition starts_with :: "string \<Rightarrow> string \<Rightarrow> bool" where
  "starts_with p s \<longleftrightarrow> take (length p) s = p"

definition remove_prefix :: "string \<Rightarrow> string \<Rightarrow> string" where
  "remove_prefix p s = (if starts_with p s then drop (length p) s else s)"

lemma starts_with_append [simp]: "starts_with p (p @ s)"
  by (simp add: starts_with_def)

text \<open>\<open>str.strip()\<close> removes white space at both ends; \<open>str.lower()\<close> maps the ASCII letters.\<close>

definition is_space :: "char \<Rightarrow> bool" where
  "is_space c \<longleftrightarrow> of_char c \<in> {9::nat, 10, 11, 12, 13, 28, 29, 30, 31, 32, 133, 160}"

definition strip :: "string \<Rightarrow> string" where
  "strip s = rev (dropWhile is_space (rev (dropWhile is_space s)))"

definition lower_char :: "char \<Rightarrow> char" where
  "lower_char c = (let n = of_char c :: nat in
     if 65 \<le> n \<and> n \<le> 90 \<or> 192 \<le> n \<and> n \<le> 222 \<and> n \<noteq> 215 then char_of (n + 32) else c)"

definition lower :: "string \<Rightarrow> string" where
  "lower s = map lower_char s"

text \<open>\<open>str.split(sep)\<close> for one separator character, and \<open>sep.join\<close>.\<close>

fun split_on :: "char \<Rightarrow> string \<Rightarrow> string list" where
  "split_on c [] = [[]]"
| "split_on c (d # s) =
     (if d = c then [] # split_on c s
      else (case split_on c s of [] \<Rightarrow> [[d]] | p # ps \<Rightarrow> (d # p) # ps))"

fun join_with :: "string \<Rightarrow> string list \<Rightarrow> string" where
  "join_with sep [] = []"
| "join_with sep [s] = s"
| "join_with sep (s # ss) = s @ sep @ join_with sep ss"

lemma split_on_not_Nil [simp]: "split_on c s \<noteq> []"
  by (induction s) (auto split: list.splits)

lemma split_on_no_sep: "c \<notin> set s \<Longrightarrow> split_on c s = [s]"
  by (induction s) auto

lemma split_on_append: "c \<notin> set a \<Longrightarrow> split_on c (a @ c # s) = a # split_on c s"
  by (induction a) auto

text \<open>\<open>str.strip(chars)\<close> and \<open>str.rstrip(chars)\<close> for one character.\<close>

definition strip_char :: "char \<Rightarrow> string \<Rightarrow> string" where
  "strip_char c s = rev (dropWhile ((=) c) (rev (dropWhile ((=) c) s)))"

definition rstrip_char :: "char \<Rightarrow> string \<Rightarrow> string" where
  "rstrip_char c s = rev (dropWhile ((=) c) (rev s))"

text \<open>\<open>str.partition(c)\<close> and \<open>str.rpartition(c)\<close> for one character: before, whether it was found, after.\<close>

definition partition_at :: "char \<Rightarrow> string \<Rightarrow> string \<times> bool \<times> string" where
  "partition_at c s = (takeWhile (\<lambda>x. x \<noteq> c) s, c \<in> set s, tl (dropWhile (\<lambda>x. x \<noteq> c) s))"

definition rpartition_at :: "char \<Rightarrow> string \<Rightarrow> string \<times> bool \<times> string" where
  "rpartition_at c s =
     (if c \<in> set s
      then (rev (tl (dropWhile (\<lambda>x. x \<noteq> c) (rev s))), True, rev (takeWhile (\<lambda>x. x \<noteq> c) (rev s)))
      else ([], False, s))"

text \<open>\<open>str.split()\<close>: the words between runs of white space.\<close>

fun words :: "string \<Rightarrow> string list" where
  "words [] = []"
| "words (c # s) =
     (if is_space c then words s
      else (case s of [] \<Rightarrow> [[c]]
        | d # _ \<Rightarrow> if is_space d then [c] # words s
                 else (case words s of [] \<Rightarrow> [[c]] | w # ws \<Rightarrow> (c # w) # ws)))"

subsection \<open>Deadlines\<close>

text \<open>A loop that waits at least \<open>p\<close> before each next round has fewer rounds left before its deadline.\<close>

lemma deadline_rounds_less:
  fixes t :: rat
  assumes "0 < p" "t < deadline" "t + p \<le> t'"
  shows "nat \<lceil>(deadline - t') / p\<rceil> < nat \<lceil>(deadline - t) / p\<rceil>"
proof -
  have "(deadline - t') / p \<le> (deadline - t - p) / p" using assms by (intro divide_right_mono) simp_all
  then have "(deadline - t') / p \<le> (deadline - t) / p - 1" using assms(1) by (simp add: diff_divide_distrib)
  moreover have "0 < (deadline - t) / p" using assms(1,2) by simp
  ultimately show ?thesis by linarith
qed

end
