(* ===== verification/Py_Regex.thy ===== *)
theory Py_Regex
  imports Prelude
begin

section \<open>Regular expressions\<close>

text \<open>
  The fragment of Python's \<open>re\<close> that the validation patterns use: character classes, literals,
  sequencing, optional groups and counted or unbounded repetition, always under \<open>fullmatch\<close> (or
  anchored at both ends). \<open>fullmatch\<close> runs Brzozowski derivatives, so a witness can evaluate it on
  a concrete string, and it is proved equal to membership in the language of the expression.
\<close>

text \<open>A character class is a list of ranges of code points, as \<open>[a-z0-9._-]\<close> writes them.\<close>

datatype regex =
    Never
  | Eps
  | Cls "(char \<times> char) list"
  | Seq regex regex
  | Alt regex regex
  | Star regex

definition in_class :: "char \<Rightarrow> (char \<times> char) list \<Rightarrow> bool" where
  "in_class c rs \<longleftrightarrow>
     list_ex (\<lambda>(a, b). (of_char a :: nat) \<le> of_char c \<and> (of_char c :: nat) \<le> of_char b) rs"

fun nullable :: "regex \<Rightarrow> bool" where
  "nullable Never = False"
| "nullable Eps = True"
| "nullable (Cls rs) = False"
| "nullable (Seq r s) = (nullable r \<and> nullable s)"
| "nullable (Alt r s) = (nullable r \<or> nullable s)"
| "nullable (Star r) = True"

text \<open>Smart constructors keep derivatives small on concrete strings.\<close>

fun mk_seq :: "regex \<Rightarrow> regex \<Rightarrow> regex" where
  "mk_seq Never s = Never"
| "mk_seq Eps s = s"
| "mk_seq r s = Seq r s"

fun mk_alt :: "regex \<Rightarrow> regex \<Rightarrow> regex" where
  "mk_alt Never s = s"
| "mk_alt r Never = r"
| "mk_alt r s = (if r = s then r else Alt r s)"

fun deriv :: "char \<Rightarrow> regex \<Rightarrow> regex" where
  "deriv c Never = Never"
| "deriv c Eps = Never"
| "deriv c (Cls rs) = (if in_class c rs then Eps else Never)"
| "deriv c (Seq r s) =
     (if nullable r then mk_alt (mk_seq (deriv c r) s) (deriv c s) else mk_seq (deriv c r) s)"
| "deriv c (Alt r s) = mk_alt (deriv c r) (deriv c s)"
| "deriv c (Star r) = mk_seq (deriv c r) (Star r)"

fun fullmatch :: "regex \<Rightarrow> string \<Rightarrow> bool" where
  "fullmatch r [] = nullable r"
| "fullmatch r (c # s) = fullmatch (deriv c r) s"

subsection \<open>Derived forms\<close>

definition lit :: "string \<Rightarrow> regex" where
  "lit s = foldr (\<lambda>c r. if r = Eps then Cls [(c, c)] else Seq (Cls [(c, c)]) r) s Eps"

definition opt :: "regex \<Rightarrow> regex" where
  "opt r = Alt r Eps"

definition plus1 :: "regex \<Rightarrow> regex" where
  "plus1 r = Seq r (Star r)"

text \<open>\<open>r{m,m+n}\<close>: exactly \<open>m\<close> copies, then at most \<open>n\<close> more.\<close>

fun up_to :: "nat \<Rightarrow> regex \<Rightarrow> regex" where
  "up_to 0 r = Eps"
| "up_to (Suc n) r = Alt (Seq r (up_to n r)) Eps"

fun exactly :: "nat \<Rightarrow> regex \<Rightarrow> regex" where
  "exactly 0 r = Eps"
| "exactly (Suc n) r = Seq r (exactly n r)"

abbreviation "digits09 \<equiv> [(CHR ''0'', CHR ''9'')]"
abbreviation "lower_az \<equiv> [(CHR ''a'', CHR ''z'')]"
abbreviation "upper_az \<equiv> [(CHR ''A'', CHR ''Z'')]"
abbreviation one_char :: "char \<Rightarrow> (char \<times> char) list" where
  "one_char c \<equiv> [(c, c)]"

subsection \<open>Languages\<close>

inductive in_lang :: "string \<Rightarrow> regex \<Rightarrow> bool" where
  eps: "in_lang [] Eps"
| cls: "in_class c rs \<Longrightarrow> in_lang [c] (Cls rs)"
| seq: "in_lang s r \<Longrightarrow> in_lang t q \<Longrightarrow> in_lang (s @ t) (Seq r q)"
| alt1: "in_lang s r \<Longrightarrow> in_lang s (Alt r q)"
| alt2: "in_lang s q \<Longrightarrow> in_lang s (Alt r q)"
| star0: "in_lang [] (Star r)"
| star1: "in_lang s r \<Longrightarrow> in_lang t (Star r) \<Longrightarrow> in_lang (s @ t) (Star r)"

inductive_simps in_lang_simps [simp]:
  "in_lang s Never"
  "in_lang s Eps"
  "in_lang s (Cls rs)"
  "in_lang s (Alt r q)"

inductive_simps in_lang_Seq: "in_lang s (Seq r q)"

lemma nullable_iff: "nullable r \<longleftrightarrow> in_lang [] r"
  by (induction r) (auto simp: in_lang_Seq intro: star0)

lemma in_lang_mk_seq [simp]: "in_lang s (mk_seq r q) \<longleftrightarrow> in_lang s (Seq r q)"
  by (induction r q rule: mk_seq.induct) (auto simp: in_lang_Seq)

lemma in_lang_mk_alt [simp]: "in_lang s (mk_alt r q) \<longleftrightarrow> in_lang s (Alt r q)"
  by (induction r q rule: mk_alt.induct) auto

lemma in_lang_Seq_Nil [simp]: "in_lang [] (Seq r q) \<longleftrightarrow> in_lang [] r \<and> in_lang [] q"
  by (auto simp: in_lang_Seq)

lemma in_lang_Seq_Cons:
  "in_lang (c # s) (Seq r q) \<longleftrightarrow>
     (\<exists>u v. s = u @ v \<and> in_lang (c # u) r \<and> in_lang v q) \<or> in_lang [] r \<and> in_lang (c # s) q"
  by (simp only: in_lang_Seq append_eq_Cons_conv eq_commute [of "c # s"]) blast

lemma in_lang_Seq_Cls [simp]:
  "in_lang (c # s) (Seq (Cls rs) q) \<longleftrightarrow> in_class c rs \<and> in_lang s q"
  by (auto simp: in_lang_Seq_Cons)

text \<open>A non-empty word of \<open>Star r\<close> starts with a non-empty word of \<open>r\<close>.\<close>

lemma in_lang_Star_ConsD:
  "in_lang w (Star r) \<Longrightarrow> w = c # s \<Longrightarrow>
     \<exists>u v. s = u @ v \<and> in_lang (c # u) r \<and> in_lang v (Star r)"
proof (induction w "Star r" arbitrary: c s rule: in_lang.induct)
  case (star1 x t)
  show ?case
  proof (cases x)
    case Nil
    with star1 show ?thesis by simp
  next
    case (Cons d x')
    then have "d = c" "s = x' @ t" using star1.prems by auto
    with Cons star1.hyps show ?thesis by blast
  qed
qed simp

lemma in_lang_Star_Cons:
  "in_lang (c # s) (Star r) \<longleftrightarrow>
     (\<exists>u v. s = u @ v \<and> in_lang (c # u) r \<and> in_lang v (Star r))"
  using in_lang_Star_ConsD in_lang.star1 by (metis append_Cons)

lemma in_lang_Star_Nil [simp]: "in_lang [] (Star r)"
  by (rule star0)

lemma in_lang_deriv: "in_lang s (deriv c r) \<longleftrightarrow> in_lang (c # s) r"
proof (induction r arbitrary: s)
  case (Seq r q)
  have "in_lang s (Seq (deriv c r) q) \<longleftrightarrow>
      (\<exists>u v. s = u @ v \<and> in_lang (c # u) r \<and> in_lang v q)"
    by (simp add: in_lang_Seq Seq.IH)
  then show ?case
    by (simp add: in_lang_Seq_Cons nullable_iff Seq.IH)
next
  case (Star r)
  have "in_lang s (Seq (deriv c r) (Star r)) \<longleftrightarrow>
      (\<exists>u v. s = u @ v \<and> in_lang (c # u) r \<and> in_lang v (Star r))"
    by (simp add: in_lang_Seq Star.IH)
  then show ?case by (simp add: in_lang_Star_Cons)
qed auto

lemma fullmatch_iff: "fullmatch r s \<longleftrightarrow> in_lang s r"
  by (induction s arbitrary: r) (simp_all add: nullable_iff in_lang_deriv)

subsection \<open>The language of the derived forms\<close>

lemma in_class_single [simp]: "in_class c [(a, a)] \<longleftrightarrow> c = a"
  by (auto simp: in_class_def)

lemma lit_Nil [simp]: "lit [] = Eps"
  by (simp add: lit_def)

lemma lit_Cons: "lit (c # w) = (if lit w = Eps then Cls [(c, c)] else Seq (Cls [(c, c)]) (lit w))"
  by (simp add: lit_def)

lemma lit_eq_Eps [simp]: "lit w = Eps \<longleftrightarrow> w = []"
  by (cases w) (auto simp: lit_Cons)

lemma in_lang_lit [simp]: "in_lang s (lit w) \<longleftrightarrow> s = w"
proof (induction w arbitrary: s)
  case (Cons c w)
  then show ?case by (cases s) (auto simp: lit_Cons)
qed simp

lemma in_lang_Star_Cls: "in_lang s (Star (Cls rs)) \<longleftrightarrow> (\<forall>c \<in> set s. in_class c rs)"
  by (induction s) (auto simp: in_lang_Star_Cons)

lemma in_lang_up_to_Cls:
  "in_lang s (up_to n (Cls rs)) \<longleftrightarrow> length s \<le> n \<and> (\<forall>c \<in> set s. in_class c rs)"
proof (induction n arbitrary: s)
  case (Suc n)
  then show ?case by (cases s) auto
qed auto

lemma in_lang_exactly_Cls:
  "in_lang s (exactly n (Cls rs)) \<longleftrightarrow> length s = n \<and> (\<forall>c \<in> set s. in_class c rs)"
proof (induction n arbitrary: s)
  case (Suc n)
  then show ?case by (cases s) auto
qed auto

subsection \<open>The characters of a match\<close>

fun class_ranges :: "regex \<Rightarrow> (char \<times> char) list" where
  "class_ranges Never = []"
| "class_ranges Eps = []"
| "class_ranges (Cls rs) = rs"
| "class_ranges (Seq r q) = class_ranges r @ class_ranges q"
| "class_ranges (Alt r q) = class_ranges r @ class_ranges q"
| "class_ranges (Star r) = class_ranges r"

lemma in_lang_chars: "in_lang s r \<Longrightarrow> c \<in> set s \<Longrightarrow> in_class c (class_ranges r)"
  by (induction rule: in_lang.induct) (auto simp: in_class_def)

end
