(* ===== verification/Canonical_Json.thy ===== *)
theory Canonical_Json
  imports Prelude
begin

section \<open>Canonical JSON (\<open>integrity.py\<close>)\<close>

text \<open>
  The byte encoding under every artifact digest: \<open>_normalize_json\<close>, then \<open>json.dumps\<close> with
  sorted keys, compact separators, ASCII escapes and no NaN. The lemmas show that the encoding is
  a prefix code: two values with the same bytes have the same canonical form.

  A float is an exact rational, the negative zero, or a value that is not finite; the text
  \<open>float.__repr__\<close> prints for a rational is a parameter \<open>fr\<close>.
\<close>

datatype jfloat = Fin rat | NegZero | NonFinite

datatype json =
    JNull
  | JBool bool
  | JInt int
  | JFloat jfloat
  | JStr string
  | JList "json list"
  | JObj "(string \<times> json) list"

subsection \<open>Decimal and hexadecimal text\<close>

definition dec_digit :: "nat \<Rightarrow> char" where
  "dec_digit n = char_of (48 + n)"

fun nat_str :: "nat \<Rightarrow> string" where
  "nat_str n = (if n < 10 then [dec_digit n] else nat_str (n div 10) @ [dec_digit (n mod 10)])"

declare nat_str.simps [simp del]

text \<open>\<open>str(int)\<close>\<close>

definition int_str :: "int \<Rightarrow> string" where
  "int_str i = (if i < 0 then CHR ''-'' # nat_str (nat (- i)) else nat_str (nat i))"

definition hex_digit :: "nat \<Rightarrow> char" where
  "hex_digit n = (if n < 10 then char_of (48 + n) else char_of (87 + n))"

fun hex_fixed :: "nat \<Rightarrow> nat \<Rightarrow> string" where
  "hex_fixed 0 n = []"
| "hex_fixed (Suc w) n = hex_fixed w (n div 16) @ [hex_digit (n mod 16)]"

text \<open>\<open>str(uuid)\<close>: 32 hexadecimal digits grouped as 8-4-4-4-12.\<close>

definition uuid_str :: "uuid \<Rightarrow> string" where
  "uuid_str u = (let h = hex_fixed 32 (unat u) in
     take 8 h @ ''-'' @ take 4 (drop 8 h) @ ''-'' @ take 4 (drop 12 h) @ ''-''
       @ take 4 (drop 16 h) @ ''-'' @ drop 20 h)"

subsection \<open>The encoder\<close>

text \<open>\<open>_normalize_json\<close> sends both zeros to \<open>0.0\<close>.\<close>

fun normalize_json :: "json \<Rightarrow> json" where
  "normalize_json (JFloat f) = JFloat (if f = NegZero then Fin 0 else f)"
| "normalize_json (JObj kvs) = JObj (map (\<lambda>(k, v). (k, normalize_json v)) kvs)"
| "normalize_json (JList vs) = JList (map normalize_json vs)"
| "normalize_json v = v"

text \<open>\<open>sort_keys=True\<close>\<close>

fun sort_keys :: "json \<Rightarrow> json" where
  "sort_keys (JObj kvs) = JObj (sort_key fst (map (\<lambda>(k, v). (k, sort_keys v)) kvs))"
| "sort_keys (JList vs) = JList (map sort_keys vs)"
| "sort_keys v = v"

text \<open>\<open>ensure_ascii=True\<close>\<close>

definition escape_char :: "char \<Rightarrow> string" where
  "escape_char c = (let n = of_char c :: nat in
     if n = 34 then [CHR 0x5C, CHR 0x22]
     else if n = 92 then [CHR 0x5C, CHR 0x5C]
     else if n = 10 then [CHR 0x5C, CHR ''n'']
     else if n = 13 then [CHR 0x5C, CHR ''r'']
     else if n = 9 then [CHR 0x5C, CHR ''t'']
     else if n = 12 then [CHR 0x5C, CHR ''f'']
     else if n = 8 then [CHR 0x5C, CHR ''b'']
     else if n < 32 \<or> 126 < n then [CHR 0x5C, CHR ''u''] @ hex_fixed 4 n
     else [c])"

definition print_str :: "string \<Rightarrow> string" where
  "print_str s = CHR 0x22 # concat (map escape_char s) @ [CHR 0x22]"

text \<open>The compact text of a value; \<open>allow_nan=False\<close> makes a non-finite float a \<open>ValueError\<close>.\<close>

fun finite_json :: "json \<Rightarrow> bool" where
  "finite_json (JFloat f) = (f \<noteq> NonFinite)"
| "finite_json (JList vs) = list_all finite_json vs"
| "finite_json (JObj kvs) = list_all (\<lambda>(k, v). finite_json v) kvs"
| "finite_json v = True"

fun float_text :: "(rat \<Rightarrow> string) \<Rightarrow> jfloat \<Rightarrow> string" where
  "float_text fr (Fin r) = fr r"
| "float_text fr NegZero = ''-0.0''"
| "float_text fr NonFinite = ''nan''"

fun print_json :: "(rat \<Rightarrow> string) \<Rightarrow> json \<Rightarrow> string"
  and print_items :: "(rat \<Rightarrow> string) \<Rightarrow> json list \<Rightarrow> string"
  and print_members :: "(rat \<Rightarrow> string) \<Rightarrow> (string \<times> json) list \<Rightarrow> string"
where
  "print_json fr JNull = ''null''"
| "print_json fr (JBool b) = (if b then ''true'' else ''false'')"
| "print_json fr (JInt i) = int_str i"
| "print_json fr (JFloat f) = float_text fr f"
| "print_json fr (JStr s) = print_str s"
| "print_json fr (JList []) = ''[]''"
| "print_json fr (JList (v # vs)) = CHR ''['' # print_json fr v @ print_items fr vs"
| "print_json fr (JObj []) = ''{}''"
| "print_json fr (JObj ((k, v) # kvs)) =
     CHR ''{'' # print_str k @ CHR '':'' # print_json fr v @ print_members fr kvs"
| "print_items fr [] = '']''"
| "print_items fr (v # vs) = CHR '','' # print_json fr v @ print_items fr vs"
| "print_members fr [] = ''}''"
| "print_members fr ((k, v) # kvs) =
     CHR '','' # print_str k @ CHR '':'' # print_json fr v @ print_members fr kvs"

definition canonical_form :: "json \<Rightarrow> json" where
  "canonical_form v = sort_keys (normalize_json v)"

definition canonical_json_bytes :: "(rat \<Rightarrow> string) \<Rightarrow> json \<Rightarrow> string result" where
  "canonical_json_bytes fr v =
     (let w = canonical_form v in
      if finite_json w then Inr (print_json fr w)
      else Inl (ValueError ''Out of range float values are not JSON compliant''))"

text \<open>\<open>artifact_digest\<close>; the SHA-256 function \<open>H\<close> is a parameter.\<close>

definition artifact_digest :: "(string \<Rightarrow> sha256) \<Rightarrow> (rat \<Rightarrow> string) \<Rightarrow> json \<Rightarrow> sha256 result" where
  "artifact_digest H fr v = bind_result (canonical_json_bytes fr v) (\<lambda>b. Inr (H b))"

subsection \<open>Digits\<close>

definition dec_val :: "string \<Rightarrow> nat" where
  "dec_val s = foldl (\<lambda>n c. 10 * n + (of_char c - 48)) 0 s"

definition is_dec :: "char \<Rightarrow> bool" where
  "is_dec c \<longleftrightarrow> 48 \<le> (of_char c :: nat) \<and> (of_char c :: nat) \<le> 57"

lemma of_char_dec_digit [simp]: "n < 10 \<Longrightarrow> (of_char (dec_digit n) :: nat) = 48 + n"
  by (simp add: dec_digit_def)

lemma dec_val_snoc [simp]: "dec_val (s @ [c]) = 10 * dec_val s + (of_char c - 48)"
  by (simp add: dec_val_def)

lemma dec_val_nat_str [simp]: "dec_val (nat_str n) = n"
proof (induction n rule: nat_str.induct)
  case (1 n)
  show ?case
  proof (cases "n < 10")
    case True
    then show ?thesis by (simp add: nat_str.simps [of n] dec_val_def)
  next
    case False
    then show ?thesis using 1 by (simp add: nat_str.simps [of n])
  qed
qed

lemma nat_str_inj [simp]: "nat_str m = nat_str n \<longleftrightarrow> m = n"
  by (metis dec_val_nat_str)

lemma is_dec_nat_str: "\<forall>c \<in> set (nat_str n). is_dec c"
proof (induction n rule: nat_str.induct)
  case (1 n)
  then show ?case
    by (cases "n < 10") (simp_all add: nat_str.simps [of n] is_dec_def)
qed

lemma nat_str_not_Nil [simp]: "nat_str n \<noteq> []"
  by (simp add: nat_str.simps [of n])

lemma is_dec_hd_nat_str: "is_dec (hd (nat_str n))"
  using is_dec_nat_str [of n] by (cases "nat_str n") simp_all

lemma not_is_dec_minus [simp]: "\<not> is_dec CHR ''-''"
  by (simp add: is_dec_def)

lemma int_str_inj [simp]: "int_str i = int_str j \<longleftrightarrow> i = j"
proof
  assume eq: "int_str i = int_str j"
  have "CHR ''-'' # s \<noteq> nat_str n" for s n
    using is_dec_hd_nat_str [of n] by (metis list.sel(1) not_is_dec_minus)
  with eq show "i = j"
    by (auto simp: int_str_def split: if_splits dest: sym)
qed simp

lemma hex_digit_inj: "m < 16 \<Longrightarrow> n < 16 \<Longrightarrow> hex_digit m = hex_digit n \<longleftrightarrow> m = n"
proof
  assume *: "m < 16" "n < 16" "hex_digit m = hex_digit n"
  then have "(of_char (hex_digit m) :: nat) = of_char (hex_digit n)" by simp
  with * show "m = n" by (auto simp: hex_digit_def split: if_splits)
qed simp

lemma length_hex_fixed [simp]: "length (hex_fixed w n) = w"
  by (induction w n rule: hex_fixed.induct) simp_all

lemma hex_fixed_inj:
  "m < 16 ^ w \<Longrightarrow> n < 16 ^ w \<Longrightarrow> hex_fixed w m = hex_fixed w n \<Longrightarrow> m = n"
proof (induction w arbitrary: m n)
  case (Suc w)
  have "m div 16 < 16 ^ w" "n div 16 < 16 ^ w"
    using Suc.prems by (auto simp: less_mult_imp_div_less mult.commute)
  then have "m div 16 = n div 16" using Suc by simp
  moreover have "m mod 16 = n mod 16" using Suc.prems by (simp add: hex_digit_inj)
  ultimately show ?case by (metis div_mult_mod_eq)
qed simp

lemma uuid_str_inj [simp]: "uuid_str u = uuid_str v \<longleftrightarrow> u = v"
proof
  let ?g = "\<lambda>h :: string. take 8 h @ ''-'' @ take 4 (drop 8 h) @ ''-'' @ take 4 (drop 12 h)
    @ ''-'' @ take 4 (drop 16 h) @ ''-'' @ drop 20 h"
  let ?h = "hex_fixed 32 (unat u)" and ?k = "hex_fixed 32 (unat v)"
  have join: "take n (drop m h) @ drop (m + n) h = drop m h" for m n and h :: string
    by (metis add.commute append_take_drop_id drop_drop)
  have split: "h = take 8 h @ take 4 (drop 8 h) @ take 4 (drop 12 h) @ take 4 (drop 16 h)
    @ drop 20 h" for h :: string
    using join [of 4 16 h] join [of 4 12 h] join [of 4 8 h] join [of 8 0 h] by simp
  assume "uuid_str u = uuid_str v"
  then have "?g ?h = ?g ?k" by (simp add: uuid_str_def Let_def)
  then have "take 8 ?h = take 8 ?k" "take 4 (drop 8 ?h) = take 4 (drop 8 ?k)"
    "take 4 (drop 12 ?h) = take 4 (drop 12 ?k)" "take 4 (drop 16 ?h) = take 4 (drop 16 ?k)"
    "drop 20 ?h = drop 20 ?k"
    by (simp_all add: append_eq_append_conv)
  then have "?h = ?k" using split by metis
  moreover have "unat u < 16 ^ 32" "unat v < 16 ^ 32"
    using unsigned_less [of u, where ?'a = nat] unsigned_less [of v, where ?'a = nat]
    by simp_all
  ultimately have "unat u = unat v" using hex_fixed_inj by blast
  then show "u = v" by (simp only: word_unat_eq_iff)
qed simp

subsection \<open>Strings are a prefix code\<close>

text \<open>Reading back one escaped character.\<close>

definition unhex :: "char \<Rightarrow> nat" where
  "unhex c = (let n = of_char c :: nat in if n < 58 then n - 48 else n - 87)"

fun unescape :: "string \<Rightarrow> (char \<times> string) option" where
  "unescape [] = None"
| "unescape (c # s) =
     (if c \<noteq> CHR 0x5C then Some (c, s)
      else case s of
        [] \<Rightarrow> None
      | d # t \<Rightarrow>
          if d = CHR ''n'' then Some (CHR 0x0A, t)
          else if d = CHR ''r'' then Some (CHR 0x0D, t)
          else if d = CHR ''t'' then Some (CHR 0x09, t)
          else if d = CHR ''f'' then Some (CHR 0x0C, t)
          else if d = CHR ''b'' then Some (CHR 0x08, t)
          else if d = CHR ''u'' then
            Some (char_of (16 * unhex (t ! 2) + unhex (t ! 3)), drop 4 t)
          else Some (d, t))"

lemma unhex_hex_digit [simp]: "n < 16 \<Longrightarrow> unhex (hex_digit n) = n"
  by (simp add: unhex_def hex_digit_def)

lemma hex_fixed_4: "hex_fixed 4 n =
  [hex_digit (n div 4096 mod 16), hex_digit (n div 256 mod 16), hex_digit (n div 16 mod 16),
   hex_digit (n mod 16)]"
proof -
  have "hex_fixed (Suc (Suc (Suc (Suc 0)))) n =
    [hex_digit (n div 4096 mod 16), hex_digit (n div 256 mod 16), hex_digit (n div 16 mod 16),
     hex_digit (n mod 16)]"
    by (simp add: div_mult2_eq [symmetric])
  moreover have "(4::nat) = Suc (Suc (Suc (Suc 0)))" by simp
  ultimately show ?thesis by metis
qed

lemma char_eq_of_char: "c = d \<longleftrightarrow> (of_char c :: nat) = of_char d"
  by simp

lemma unescape_escape_char: "unescape (escape_char c @ s) = Some (c, s)"
proof -
  have "(of_char c :: nat) < 256" by simp
  then have hi: "(of_char c :: nat) div 16 < 16" by (simp add: less_mult_imp_div_less)
  show ?thesis
    using hi unfolding escape_char_def Let_def
    by (auto simp: hex_fixed_4 char_eq_of_char simp del: of_char_eq_iff)
qed

lemma escape_char_neq_quote: "escape_char c @ s \<noteq> CHR 0x22 # t"
  by (auto simp: escape_char_def Let_def)

lemma print_chars_inj:
  "concat (map escape_char s) @ CHR 0x22 # u = concat (map escape_char t) @ CHR 0x22 # v
     \<Longrightarrow> s = t \<and> u = v"
proof (induction s arbitrary: t)
  case Nil
  then show ?case
    by (cases t) (simp_all add: escape_char_neq_quote [symmetric])
next
  case (Cons c s)
  show ?case
  proof (cases t)
    case Nil
    with Cons.prems show ?thesis by (simp add: escape_char_neq_quote)
  next
    case (Cons d t')
    let ?x = "concat (map escape_char s) @ CHR 0x22 # u"
    let ?y = "concat (map escape_char t') @ CHR 0x22 # v"
    have "escape_char c @ ?x = escape_char d @ ?y" using Cons Cons.prems by simp
    then have "c = d \<and> ?x = ?y" by (metis unescape_escape_char option.inject prod.inject)
    then show ?thesis using Cons Cons.IH by auto
  qed
qed

lemma print_str_inj: "print_str s @ u = print_str t @ v \<longleftrightarrow> s = t \<and> u = v"
proof
  assume "print_str s @ u = print_str t @ v"
  then have "concat (map escape_char s) @ CHR 0x22 # u = concat (map escape_char t) @ CHR 0x22 # v"
    by (simp add: print_str_def)
  then show "s = t \<and> u = v" by (rule print_chars_inj)
qed simp

subsection \<open>Values are a prefix code\<close>

text \<open>
  What the code relies on of \<open>float.__repr__\<close>: different floats print differently, and the text of
  a finite float is a number token that is not the text of an integer.
\<close>

definition float_repr_ok :: "(rat \<Rightarrow> string) \<Rightarrow> bool" where
  "float_repr_ok fr \<longleftrightarrow> inj fr \<and>
     (\<forall>r. fr r \<noteq> [] \<and> (is_dec (hd (fr r)) \<or> hd (fr r) = CHR ''-'') \<and>
          set (fr r) \<inter> {CHR '','', CHR '']'', CHR ''}''} = {} \<and>
          (\<exists>c \<in> set (fr r). \<not> is_dec c \<and> c \<noteq> CHR ''-''))"

fun plain :: "json \<Rightarrow> bool" where
  "plain (JFloat f) = (case f of Fin r \<Rightarrow> True | _ \<Rightarrow> False)"
| "plain (JList vs) = list_all plain vs"
| "plain (JObj kvs) = list_all (\<lambda>(k, v). plain v) kvs"
| "plain v = True"

definition ends :: "string \<Rightarrow> bool" where
  "ends s \<longleftrightarrow> (case s of [] \<Rightarrow> True | c # _ \<Rightarrow> c \<in> {CHR '','', CHR '']'', CHR ''}''})"

definition token :: "string \<Rightarrow> bool" where
  "token x \<longleftrightarrow> set x \<inter> {CHR '','', CHR '']'', CHR ''}''} = {}"

lemma token_split:
  "x @ s = y @ t \<Longrightarrow> token x \<Longrightarrow> token y \<Longrightarrow> ends s \<Longrightarrow> ends t \<Longrightarrow> x = y \<and> s = t"
proof (induction x arbitrary: y)
  case Nil
  then show ?case by (cases y) (auto simp: ends_def token_def split: list.splits)
next
  case (Cons c x)
  then show ?case by (cases y) (auto simp: ends_def token_def split: list.splits)
qed

text \<open>The first character of a value's text tells the kind of value.\<close>

definition kind_of_char :: "char \<Rightarrow> nat" where
  "kind_of_char c =
     (if is_dec c \<or> c = CHR ''-'' then 2
      else if c = CHR ''n'' then 0 else if c = CHR ''t'' \<or> c = CHR ''f'' then 1
      else if c = CHR 0x22 then 3 else if c = CHR ''['' then 4
      else if c = CHR ''{'' then 5 else 6)"

fun json_kind :: "json \<Rightarrow> nat" where
  "json_kind JNull = 0"
| "json_kind (JBool _) = 1"
| "json_kind (JInt _) = 2"
| "json_kind (JFloat _) = 2"
| "json_kind (JStr _) = 3"
| "json_kind (JList _) = 4"
| "json_kind (JObj _) = 5"

lemma is_dec_hd_int_str: "is_dec (hd (int_str i)) \<or> hd (int_str i) = CHR ''-''"
  by (simp add: int_str_def is_dec_hd_nat_str)

lemma int_str_not_Nil [simp]: "int_str i \<noteq> []"
  by (simp add: int_str_def)

lemma set_int_str: "c \<in> set (int_str i) \<Longrightarrow> is_dec c \<or> c = CHR ''-''"
  using is_dec_nat_str by (auto simp: int_str_def split: if_splits)

lemma token_int_str [simp]: "token (int_str i)"
  by (auto simp: token_def is_dec_def dest!: set_int_str)

lemma token_float [simp]: "float_repr_ok fr \<Longrightarrow> token (fr r)"
  by (simp add: float_repr_ok_def token_def)

lemma float_neq_int: "float_repr_ok fr \<Longrightarrow> fr r \<noteq> int_str i"
  by (metis float_repr_ok_def set_int_str)

lemma print_json_lead:
  assumes "float_repr_ok fr" "plain v"
  shows "print_json fr v \<noteq> [] \<and> kind_of_char (hd (print_json fr v)) = json_kind v"
proof (cases v)
  case (JInt i)
  then show ?thesis using is_dec_hd_int_str [of i] by (simp add: kind_of_char_def)
next
  case (JFloat f)
  then show ?thesis using assms
    by (cases f) (auto simp: kind_of_char_def float_repr_ok_def)
next
  case (JList vs)
  then show ?thesis by (cases vs) (simp_all add: kind_of_char_def is_dec_def)
next
  case (JObj kvs)
  then show ?thesis
    by (cases kvs) (auto simp: kind_of_char_def is_dec_def)
qed (auto simp: kind_of_char_def print_str_def is_dec_def)

lemma same_kind:
  assumes "float_repr_ok fr" "plain v" "plain w" "print_json fr v @ s = print_json fr w @ t"
  shows "json_kind v = json_kind w"
  using assms print_json_lead [of fr v] print_json_lead [of fr w] by (metis hd_append2)

lemma print_json_no_bracket:
  assumes "float_repr_ok fr" "plain v"
  shows "print_json fr v @ s \<noteq> CHR '']'' # t"
proof
  assume *: "print_json fr v @ s = CHR '']'' # t"
  have "kind_of_char (hd (CHR '']'' # t)) = json_kind v"
    using print_json_lead [OF assms] * by (metis hd_append2)
  then show False by (cases v) (simp_all add: kind_of_char_def is_dec_def)
qed

lemma ends_items [simp]: "ends (print_items fr vs @ s)"
  by (cases vs) (simp_all add: ends_def)

lemma ends_members [simp]: "ends (print_members fr kvs @ s)"
  by (cases kvs) (auto simp: ends_def)

lemma print_inj:
  "float_repr_ok fr \<Longrightarrow> plain v \<Longrightarrow> plain w \<Longrightarrow> ends s \<Longrightarrow> ends t
     \<Longrightarrow> print_json fr v @ s = print_json fr w @ t \<Longrightarrow> v = w \<and> s = t"
  "float_repr_ok fr \<Longrightarrow> list_all plain vs \<Longrightarrow> list_all plain ws
     \<Longrightarrow> print_items fr vs @ s = print_items fr ws @ t \<Longrightarrow> vs = ws \<and> s = t"
  "float_repr_ok fr \<Longrightarrow> list_all (\<lambda>(k, v). plain v) kvs \<Longrightarrow> list_all (\<lambda>(k, v). plain v) lws
     \<Longrightarrow> print_members fr kvs @ s = print_members fr lws @ t \<Longrightarrow> kvs = lws \<and> s = t"
proof (induction fr v and fr vs and fr kvs arbitrary: w s t and ws s t and lws s t
    rule: print_json_print_items_print_members.induct)
  case (1 fr)
  then show ?case using same_kind [OF 1(1-3,6)] by (cases w) simp_all
next
  case (2 fr b)
  then show ?case using same_kind [OF 2(1-3,6)] by (cases w) (auto split: if_splits)
next
  case (3 fr i)
  then show ?case using same_kind [OF 3(1-3,6)] token_split [OF 3(6)]
    by (cases w) (auto simp: float_neq_int [OF 3(1), symmetric] split: jfloat.splits)
next
  case (4 fr f)
  then obtain r where f: "f = Fin r" by (cases f) auto
  have "json_kind w = 2" using same_kind [OF 4(1-3,6)] by simp
  then consider i where "w = JInt i" | q where "w = JFloat (Fin q)"
    using 4(3) by (cases w) (auto split: jfloat.splits)
  then show ?case
  proof cases
    case 1
    then show ?thesis using 4 f token_split [OF 4(6)] float_neq_int by fastforce
  next
    case 2
    then show ?thesis using 4 f token_split [OF 4(6)]
      by (auto simp: float_repr_ok_def inj_eq)
  qed
next
  case (5 fr x)
  then show ?case using same_kind [OF 5(1-3,6)] by (cases w) (auto simp: print_str_inj)
next
  case (6 fr)
  obtain ws where w: "w = JList ws" using same_kind [OF 6(1-3,6)] by (cases w) auto
  show ?case
  proof (cases ws)
    case (Cons v' vs')
    then show ?thesis using 6 w print_json_no_bracket [OF 6(1), of v', symmetric] by simp
  qed (use 6 w in simp)
next
  case (7 fr v vs)
  obtain ws where w: "w = JList ws" using same_kind [OF 7(3-5,8)] by (cases w) auto
  show ?case
  proof (cases ws)
    case Nil
    then show ?thesis using 7 w print_json_no_bracket [OF 7(3), of v] by simp
  next
    case (Cons v' vs')
    then have "v = v' \<and> print_items fr vs @ s = print_items fr vs' @ t"
      by (intro 7(1)) (use 7 w in simp_all)
    then have e: "v = v'" "print_items fr vs @ s = print_items fr vs' @ t" by simp_all
    have "vs = vs' \<and> s = t"
      by (rule 7(2) [OF 7(3) _ _ e(2)]) (use 7(4,5) w Cons in simp_all)
    then show ?thesis using w Cons e(1) by simp
  qed
next
  case (8 fr)
  obtain ws where w: "w = JObj ws" using same_kind [OF 8(1-3,6)] by (cases w) auto
  then show ?case using 8 by (cases ws) (auto simp: print_str_def)
next
  case (9 fr k v kvs)
  obtain ws where w: "w = JObj ws" using same_kind [OF 9(3-5,8)] by (cases w) auto
  show ?case
  proof (cases ws)
    case Nil
    then show ?thesis using 9 w by (simp add: print_str_def)
  next
    case (Cons p ws')
    obtain k' v' where p: "p = (k', v')" by (cases p)
    with 9(8) w Cons have k: "k = k'" and
      vs: "print_json fr v @ print_members fr kvs @ s = print_json fr v' @ print_members fr ws' @ t"
      by (auto simp: print_str_inj)
    have e: "v = v' \<and> print_members fr kvs @ s = print_members fr ws' @ t"
      by (rule 9(1) [OF 9(3) _ _ _ _ vs]) (use 9(4,5) w Cons p in simp_all)
    have "kvs = ws' \<and> s = t"
      by (rule 9(2) [OF 9(3) _ _ conjunct2 [OF e]]) (use 9(4,5) w Cons p in simp_all)
    then show ?thesis using w Cons p k e by simp
  qed
next
  case (10 fr)
  then show ?case by (cases ws) simp_all
next
  case (11 fr v vs)
  show ?case
  proof (cases ws)
    case (Cons v' vs')
    then have "print_json fr v @ print_items fr vs @ s = print_json fr v' @ print_items fr vs' @ t"
      using 11(6) by simp
    then have e: "v = v' \<and> print_items fr vs @ s = print_items fr vs' @ t"
      by (rule 11(1) [OF 11(3), rotated 4]) (use 11(4,5) Cons in simp_all)
    have "vs = vs' \<and> s = t"
      by (rule 11(2) [OF 11(3) _ _ conjunct2 [OF e]]) (use 11(4,5) Cons in simp_all)
    then show ?thesis using Cons e by simp
  qed (use 11 in simp)
next
  case (12 fr)
  then show ?case by (cases lws) auto
next
  case (13 fr k v kvs)
  show ?case
  proof (cases lws)
    case (Cons p ws')
    obtain k' v' where p: "p = (k', v')" by (cases p)
    with 13(6) Cons have k: "k = k'" and
      vs: "print_json fr v @ print_members fr kvs @ s = print_json fr v' @ print_members fr ws' @ t"
      by (auto simp: print_str_inj)
    have e: "v = v' \<and> print_members fr kvs @ s = print_members fr ws' @ t"
      by (rule 13(1) [OF 13(3) _ _ _ _ vs]) (use 13(4,5) Cons p in simp_all)
    have "kvs = ws' \<and> s = t"
      by (rule 13(2) [OF 13(3) _ _ conjunct2 [OF e]]) (use 13(4,5) Cons p in simp_all)
    then show ?thesis using Cons p k e by simp
  qed (use 13 in simp)
qed

lemma print_json_inj:
  "float_repr_ok fr \<Longrightarrow> plain v \<Longrightarrow> plain w \<Longrightarrow> print_json fr v = print_json fr w \<longleftrightarrow> v = w"
  using print_inj(1) [of fr v w "[]" "[]"] by (auto simp: ends_def)

subsection \<open>The canonical form\<close>

lemma finite_plain: "finite_json (canonical_form v) \<Longrightarrow> plain (canonical_form v)"
proof -
  have sort: "list_all (\<lambda>(k, v). p v) (sort_key fst kvs) \<longleftrightarrow> list_all (\<lambda>(k, v). p v) kvs"
    for p and kvs :: "(string \<times> json) list"
    by (simp add: list_all_iff)
  have "finite_json (sort_keys (normalize_json v)) \<Longrightarrow> plain (sort_keys (normalize_json v))" for v
  proof (induction v)
    case (JFloat f)
    then show ?case by (cases f) simp_all
  next
    case (JList vs)
    then show ?case by (auto simp: list_all_iff)
  next
    case (JObj kvs)
    then show ?case by (fastforce simp: sort list_all_iff)
  qed simp_all
  then show "finite_json (canonical_form v) \<Longrightarrow> plain (canonical_form v)"
    by (simp add: canonical_form_def)
qed

text \<open>Two encodable values have the same bytes exactly when their canonical forms agree.\<close>

lemma canonical_json_bytes_eq_iff:
  assumes "float_repr_ok fr"
    and "canonical_json_bytes fr v = Inr a" "canonical_json_bytes fr w = Inr b"
  shows "a = b \<longleftrightarrow> canonical_form v = canonical_form w"
  using assms finite_plain print_json_inj
  by (auto simp: canonical_json_bytes_def Let_def split: if_splits)

end
