(* ===== verification/Models.thy ===== *)
theory Models
  imports Py_Regex Canonical_Json
begin

section \<open>Data model (\<open>models.py\<close>)\<close>

text \<open>
  The enumerations and records of \<open>models.py\<close> that the modelled components exchange, with the
  validators that pydantic runs when a model is built. Field names carry a short prefix of their
  class. Fields that no modelled code reads are kept where they are part of a stored payload.
\<close>

subsection \<open>Enumerations\<close>

datatype execution_status = PASSED | FAILED | ERROR
datatype gate_outcome = PASS | WARN | BLOCK | INCONCLUSIVE
datatype job_status = QUEUED | RUNNING | COMPLETED | FAILED_JOB | CANCELLED
datatype accelerator = CPU | CUDA
datatype rule_severity = Blocking | Warning
datatype classification = Improved | Regressed | UnchangedPass | UnchangedFail
datatype step_kind =
  Step_message | Step_tool_call | Step_tool_result | Step_graph_node | Step_graph_event
  | Step_error | Step_final

subsection \<open>NVIDIA MIG profiles\<close>

text \<open>\<open>^(?:[1-9][0-9]*c\.)?[1-9][0-9]*g\.[1-9][0-9]*gb(?:\+me)?$\<close>\<close>

abbreviation pos_number :: regex where
  "pos_number \<equiv> Seq (Cls [(CHR ''1'', CHR ''9'')]) (Star (Cls digits09))"

definition MIG_PROFILE_PATTERN :: regex where
  "MIG_PROFILE_PATTERN =
     Seq (opt (Seq pos_number (lit ''c.'')))
       (Seq pos_number (Seq (lit ''g.'') (Seq pos_number (Seq (lit ''gb'') (opt (lit ''+me''))))))"

definition normalize_mig_profile :: "string \<Rightarrow> string result" where
  "normalize_mig_profile value =
     (let profile = lower (strip value) in
      if \<not> fullmatch MIG_PROFILE_PATTERN profile
      then Inl (ValueError ''invalid NVIDIA MIG profile'') else Inr profile)"

text \<open>A profile that matches the pattern is its own normal form.\<close>

lemma normalize_mig_profile_idem:
  assumes "fullmatch MIG_PROFILE_PATTERN p"
  shows "normalize_mig_profile p = Inr p"
proof -
  have ranges: "class_ranges MIG_PROFILE_PATTERN =
      [(CHR ''1'', CHR ''9''), (CHR ''0'', CHR ''9''), (CHR ''c'', CHR ''c''), (CHR ''.'', CHR ''.''), (CHR ''1'', CHR ''9''),
       (CHR ''0'', CHR ''9''), (CHR ''g'', CHR ''g''), (CHR ''.'', CHR ''.''), (CHR ''1'', CHR ''9''), (CHR ''0'', CHR ''9''),
       (CHR ''g'', CHR ''g''), (CHR ''b'', CHR ''b''), (CHR ''+'', CHR ''+''), (CHR ''m'', CHR ''m''), (CHR ''e'', CHR ''e'')]"
    by code_simp
  have plain: "\<not> is_space c \<and> lower_char c = c" if "c \<in> set p" for c
  proof -
    have "(of_char c :: nat) \<in> {43, 46} \<union> {48..57} \<union> {98..109}"
      using in_lang_chars [OF assms [unfolded fullmatch_iff] that]
      unfolding ranges by (simp add: in_class_def) linarith
    then show ?thesis by (auto simp: is_space_def lower_char_def Let_def)
  qed
  have drop: "dropWhile is_space xs = xs" if "\<forall>c \<in> set xs. \<not> is_space c" for xs
    using that by (cases xs) auto
  have "strip p = p" using plain by (simp add: strip_def drop)
  moreover have "lower p = p" using plain by (simp add: lower_def map_idI)
  ultimately show ?thesis using assms by (simp add: normalize_mig_profile_def Let_def del: fullmatch.simps)
qed

definition normalize_optional_mig :: "string option \<Rightarrow> string option result" where
  "normalize_optional_mig value =
     (case value of None \<Rightarrow> Inr None
      | Some v \<Rightarrow> bind_result (normalize_mig_profile v) (\<lambda>p. Inr (Some p)))"

subsection \<open>Datasets, outputs and evaluation results\<close>

record dataset_case =
  dc_case_id :: string
  dc_title :: string
  dc_slice :: string
  dc_bug_kind :: string
  dc_severity :: string
  dc_expected_tools :: "string list"
  dc_forbidden_tools :: "string list"
  dc_expected_modified_files :: "string list"
  dc_forbidden_modified_files :: "string list"

text \<open>The validators of \<open>DatasetCase\<close>: non-blank identifiers and a known severity.\<close>

definition valid_dataset_case :: "dataset_case \<Rightarrow> bool" where
  "valid_dataset_case c \<longleftrightarrow>
     strip (dc_case_id c) \<noteq> [] \<and> strip (dc_slice c) \<noteq> [] \<and> strip (dc_bug_kind c) \<noteq> [] \<and>
     dc_severity c \<in> {''low'', ''medium'', ''high'', ''critical''}"

record dataset_slice =
  ds_name :: string
  ds_case_ids :: "string list"

record dataset =
  dset_name :: string
  dset_version :: string
  dset_cases :: "dataset_case list"
  dset_slices :: "dataset_slice list"

record evaluation_suite =
  es_name :: string
  es_dataset_path :: string
  es_evaluators :: "string list"
  es_concurrency :: int

record trajectory_step =
  ts_kind :: step_kind
  ts_timestamp :: instant
  ts_data :: "(string, json) dict"

record agent_trajectory =
  at_started_at :: instant
  at_completed_at :: "instant option"
  at_steps :: "trajectory_step list"

record agent_output =
  ao_final_response :: "(string \<times> string) option"
  ao_trajectory :: agent_trajectory
  ao_patch :: string
  ao_modified_files :: "string list"
  ao_public_test_output :: string
  ao_hidden_test_output :: string
  ao_duration_seconds :: rat
  ao_status :: execution_status
  ao_error :: "(string \<times> string) option"
  ao_runtime_metadata :: "(string, json) dict"

record evaluation_result =
  er_name :: string
  er_passed :: bool
  er_score :: rat
  er_metric_value :: "rat option"

record case_result =
  cr_case :: dataset_case
  cr_agent_version :: string
  cr_status :: execution_status
  cr_started_at :: instant
  cr_completed_at :: instant
  cr_output :: agent_output
  cr_evaluator_results :: "evaluation_result list"

definition hidden_success :: "case_result \<Rightarrow> bool" where
  "hidden_success cr \<longleftrightarrow>
     list_ex (\<lambda>r. er_name r = ''hidden_test_success'' \<and> er_passed r) (cr_evaluator_results cr)"

record evaluation_run =
  run_id :: uuid
  run_suite_name :: string
  run_dataset_name :: string
  run_dataset_version :: string
  run_agent_version :: string
  run_started_at :: instant
  run_completed_at :: instant
  run_case_results :: "case_result list"

subsection \<open>Comparisons and gate decisions\<close>

record case_comparison =
  cc_case_id :: string
  cc_slice :: string
  cc_baseline_passed :: bool
  cc_candidate_passed :: bool
  cc_classification :: classification
  cc_metric_deltas :: "(string, rat) dict"

record slice_comparison =
  sc_slice :: string
  sc_paired_cases :: nat
  sc_baseline_pass_rate :: rat
  sc_candidate_pass_rate :: rat
  sc_pass_rate_delta :: rat

record run_comparison =
  rc_baseline_run_id :: uuid
  rc_candidate_run_id :: uuid
  rc_paired_cases :: nat
  rc_missing_pairs :: "string list"
  rc_aggregate_pass_rate_delta :: rat
  rc_metric_deltas :: "(string, rat) dict"
  rc_confidence_interval :: "(rat \<times> rat) option"
  rc_limited_evidence :: bool
  rc_improved_cases :: "string list"
  rc_regressed_cases :: "string list"
  rc_unchanged_passes :: nat
  rc_unchanged_failures :: nat
  rc_slice_comparisons :: "slice_comparison list"
  rc_case_comparisons :: "case_comparison list"

record metric_rule =
  mr_required :: bool
  mr_maximum_absolute_drop :: "rat option"
  mr_maximum_absolute_increase :: "rat option"
  mr_severity :: rule_severity

record quality_gate_policy =
  qp_schema_version :: string
  qp_policy :: "(string, string) dict"
  qp_defaults :: "(string, int) dict"
  qp_metrics :: "(string, metric_rule) dict"
  qp_slices :: "(string, (string, metric_rule) dict) dict"

text \<open>The scope of a finding: the whole run, or \<open>slice:<name>\<close>.\<close>

datatype finding_scope = Scope_run | Scope_slice string

record gate_finding =
  gf_scope :: finding_scope
  gf_metric :: string
  gf_outcome :: gate_outcome
  gf_observed_delta :: "rat option"
  gf_threshold :: "rat option"

record quality_gate_decision =
  qd_outcome :: gate_outcome
  qd_findings :: "gate_finding list"
  qd_regressed_cases :: "string list"

end
