(* ===== verification/Compare.thy ===== *)
theory Compare
  imports Models
begin

section \<open>Paired run comparison (\<open>compare.py\<close>)\<close>

text \<open>
  \<open>compare_runs\<close> pairs the case results of two runs by case identifier, classifies every pair and
  aggregates pass rates per run, slice and metric. Its loop is \<open>compare_loop\<close> over an accumulator
  record with the loop's local variables. The random choices of the bootstrap are a parameter:
  \<open>pick s i\<close> is the index that draw \<open>i\<close> of sample \<open>s\<close> picks.
\<close>

subsection \<open>Per-case and per-run metrics\<close>

definition scores_by_name :: "case_result \<Rightarrow> (string, rat) dict" where
  "scores_by_name cr = dict_of (map (\<lambda>r. (er_name r, er_score r)) (cr_evaluator_results cr))"

text \<open>\<open>sorted(set(a) & set(b))\<close> and \<open>sorted(set(a) ^ set(b))\<close> of two dictionaries.\<close>

definition common_keys :: "('k::linorder, 'v) dict \<Rightarrow> ('k, 'w) dict \<Rightarrow> 'k list" where
  "common_keys a b = sorted_set (filter (\<lambda>k. k \<in> set (dict_keys b)) (dict_keys a))"

definition exclusive_keys :: "('k::linorder, 'v) dict \<Rightarrow> ('k, 'w) dict \<Rightarrow> 'k list" where
  "exclusive_keys a b = sorted_set
     (filter (\<lambda>k. k \<notin> set (dict_keys b)) (dict_keys a) @
      filter (\<lambda>k. k \<notin> set (dict_keys a)) (dict_keys b))"

definition dict_deltas :: "(string, rat) dict \<Rightarrow> (string, rat) dict \<Rightarrow> (string, rat) dict" where
  "dict_deltas base cand =
     map (\<lambda>name. (name, dict_item cand name - dict_item base name)) (common_keys base cand)"

definition case_metric_deltas :: "case_result \<Rightarrow> case_result \<Rightarrow> (string, rat) dict" where
  "case_metric_deltas baseline candidate =
     dict_deltas (scores_by_name baseline) (scores_by_name candidate)"

text \<open>\<open>totals[name].append(score)\<close> on a \<open>defaultdict(list)\<close>, and the average of every list.\<close>

definition dict_append :: "'k \<Rightarrow> 'v \<Rightarrow> ('k, 'v list) dict \<Rightarrow> ('k, 'v list) dict" where
  "dict_append k v d = dict_set k (dict_get d k [] @ [v]) d"

definition average :: "rat list \<Rightarrow> rat" where
  "average xs = sum_list xs / of_nat (length xs)"

definition average_metric_scores :: "evaluation_run \<Rightarrow> (string, rat) dict" where
  "average_metric_scores run =
     (let totals = fold (\<lambda>r d. dict_append (er_name r) (er_score r) d)
        (concat (map cr_evaluator_results (run_case_results run))) [] in
      map (\<lambda>(name, values). (name, average values)) (filter (\<lambda>(name, values). values \<noteq> []) totals))"

definition forbidden_failure :: "case_result \<Rightarrow> bool" where
  "forbidden_failure cr =
     (case find (\<lambda>r. er_name r = ''forbidden_file_modification'') (cr_evaluator_results cr) of
        None \<Rightarrow> False
      | Some r \<Rightarrow> \<not> er_passed r)"

definition forbidden_modification_rate :: "evaluation_run \<Rightarrow> rat" where
  "forbidden_modification_rate run =
     (if run_case_results run = [] then 0
      else of_nat (count_if forbidden_failure (run_case_results run))
             / of_nat (length (run_case_results run)))"

definition run_metric_deltas :: "evaluation_run \<Rightarrow> evaluation_run \<Rightarrow> (string, rat) dict" where
  "run_metric_deltas baseline candidate =
     dict_set ''forbidden_modification_rate''
       (forbidden_modification_rate candidate - forbidden_modification_rate baseline)
       (dict_deltas (average_metric_scores baseline) (average_metric_scores candidate))"

subsection \<open>Slices\<close>

definition slice_comparisons :: "case_comparison list \<Rightarrow> slice_comparison list" where
  "slice_comparisons cases = map
     (\<lambda>name. let rows = filter (\<lambda>c. cc_slice c = name) cases;
                 baseline_rate = of_nat (count_if cc_baseline_passed rows) / of_nat (length rows);
                 candidate_rate = of_nat (count_if cc_candidate_passed rows) / of_nat (length rows)
             in \<lparr>sc_slice = name, sc_paired_cases = length rows,
                 sc_baseline_pass_rate = baseline_rate, sc_candidate_pass_rate = candidate_rate,
                 sc_pass_rate_delta = candidate_rate - baseline_rate\<rparr>)
     (sorted_set (map cc_slice cases))"

subsection \<open>The bootstrap interval\<close>

definition bootstrap_means :: "(nat \<Rightarrow> nat \<Rightarrow> nat) \<Rightarrow> nat \<Rightarrow> int list \<Rightarrow> rat list" where
  "bootstrap_means pick samples deltas = map
     (\<lambda>s. average (map (\<lambda>i. of_int (deltas ! pick s i)) [0..<length deltas])) [0..<samples]"

text \<open>500 samples; \<open>int(500 * 0.025)\<close> is 12 and \<open>int(500 * 0.975)\<close> is 487.\<close>

definition bootstrap_ci :: "(nat \<Rightarrow> nat \<Rightarrow> nat) \<Rightarrow> int list \<Rightarrow> rat \<times> rat" where
  "bootstrap_ci pick deltas =
     (let means = sort (bootstrap_means pick 500 deltas) in (means ! 12, means ! 487))"

subsection \<open>The comparison\<close>

record compare_state =
  cs_case_comparisons :: "case_comparison list"
  cs_improved :: "string list"
  cs_regressed :: "string list"
  cs_unchanged_passes :: nat
  cs_unchanged_failures :: nat
  cs_deltas :: "int list"

definition compare_state0 :: compare_state where
  "compare_state0 = \<lparr>cs_case_comparisons = [], cs_improved = [], cs_regressed = [],
     cs_unchanged_passes = 0, cs_unchanged_failures = 0, cs_deltas = []\<rparr>"

definition classify :: "bool \<Rightarrow> bool \<Rightarrow> classification" where
  "classify base_passed cand_passed =
     (if cand_passed \<and> \<not> base_passed then Improved
      else if base_passed \<and> \<not> cand_passed then Regressed
      else if base_passed \<and> cand_passed then UnchangedPass
      else UnchangedFail)"

definition compare_case :: "string \<Rightarrow> case_result \<Rightarrow> case_result \<Rightarrow> case_comparison" where
  "compare_case case_id b c =
     \<lparr>cc_case_id = case_id, cc_slice = dc_slice (cr_case b),
      cc_baseline_passed = hidden_success b, cc_candidate_passed = hidden_success c,
      cc_classification = classify (hidden_success b) (hidden_success c),
      cc_metric_deltas = case_metric_deltas b c\<rparr>"

definition compare_step ::
  "(string, case_result) dict \<Rightarrow> (string, case_result) dict \<Rightarrow> string \<Rightarrow> compare_state
     \<Rightarrow> compare_state" where
  "compare_step baseline_by_id candidate_by_id case_id st =
     (let b = dict_item baseline_by_id case_id;
          c = dict_item candidate_by_id case_id;
          st = st\<lparr>cs_deltas := cs_deltas st @
                   [of_bool (hidden_success c) - of_bool (hidden_success b)]\<rparr>;
          st = (case classify (hidden_success b) (hidden_success c) of
              Improved \<Rightarrow> st\<lparr>cs_improved := cs_improved st @ [case_id]\<rparr>
            | Regressed \<Rightarrow> st\<lparr>cs_regressed := cs_regressed st @ [case_id]\<rparr>
            | UnchangedPass \<Rightarrow> st\<lparr>cs_unchanged_passes := Suc (cs_unchanged_passes st)\<rparr>
            | UnchangedFail \<Rightarrow> st\<lparr>cs_unchanged_failures := Suc (cs_unchanged_failures st)\<rparr>)
      in st\<lparr>cs_case_comparisons := cs_case_comparisons st @ [compare_case case_id b c]\<rparr>)"

definition by_case_id :: "evaluation_run \<Rightarrow> (string, case_result) dict" where
  "by_case_id run = dict_of (map (\<lambda>r. (dc_case_id (cr_case r), r)) (run_case_results run))"

definition compare_loop :: "evaluation_run \<Rightarrow> evaluation_run \<Rightarrow> compare_state" where
  "compare_loop baseline candidate =
     (let baseline_by_id = by_case_id baseline; candidate_by_id = by_case_id candidate in
      fold (compare_step baseline_by_id candidate_by_id)
        (common_keys baseline_by_id candidate_by_id) compare_state0)"

definition compare_runs ::
  "(nat \<Rightarrow> nat \<Rightarrow> nat) \<Rightarrow> evaluation_run \<Rightarrow> evaluation_run \<Rightarrow> run_comparison" where
  "compare_runs pick baseline candidate =
     (let baseline_by_id = by_case_id baseline;
          candidate_by_id = by_case_id candidate;
          paired_ids = common_keys baseline_by_id candidate_by_id;
          missing = exclusive_keys baseline_by_id candidate_by_id;
          st = compare_loop baseline candidate;
          deltas = cs_deltas st;
          aggregate_delta =
            (if deltas \<noteq> [] then of_int (sum_list deltas) / of_nat (length deltas) else 0)
      in \<lparr>rc_baseline_run_id = run_id baseline, rc_candidate_run_id = run_id candidate,
          rc_paired_cases = length paired_ids, rc_missing_pairs = missing,
          rc_aggregate_pass_rate_delta = aggregate_delta,
          rc_metric_deltas = run_metric_deltas baseline candidate,
          rc_confidence_interval =
            (if length deltas \<ge> 10 then Some (bootstrap_ci pick deltas) else None),
          rc_limited_evidence = (length deltas < 30),
          rc_improved_cases = cs_improved st, rc_regressed_cases = cs_regressed st,
          rc_unchanged_passes = cs_unchanged_passes st,
          rc_unchanged_failures = cs_unchanged_failures st,
          rc_slice_comparisons = slice_comparisons (cs_case_comparisons st),
          rc_case_comparisons = cs_case_comparisons st\<rparr>)"

subsection \<open>The loop in closed form\<close>

definition pair_classification ::
  "(string, case_result) dict \<Rightarrow> (string, case_result) dict \<Rightarrow> string \<Rightarrow> classification" where
  "pair_classification b c k =
     classify (hidden_success (dict_item b k)) (hidden_success (dict_item c k))"

definition pair_delta ::
  "(string, case_result) dict \<Rightarrow> (string, case_result) dict \<Rightarrow> string \<Rightarrow> int" where
  "pair_delta b c k =
     of_bool (hidden_success (dict_item c k)) - of_bool (hidden_success (dict_item b k))"

lemma compare_step_eq:
  "compare_step b c k st =
     \<lparr>cs_case_comparisons = cs_case_comparisons st @
        [compare_case k (dict_item b k) (dict_item c k)],
      cs_improved = cs_improved st @ (if pair_classification b c k = Improved then [k] else []),
      cs_regressed = cs_regressed st @ (if pair_classification b c k = Regressed then [k] else []),
      cs_unchanged_passes = cs_unchanged_passes st +
        (if pair_classification b c k = UnchangedPass then 1 else 0),
      cs_unchanged_failures = cs_unchanged_failures st +
        (if pair_classification b c k = UnchangedFail then 1 else 0),
      cs_deltas = cs_deltas st @ [pair_delta b c k]\<rparr>"
  by (simp add: compare_step_def Let_def pair_classification_def pair_delta_def
      split: classification.split)

lemma compare_fold:
  "fold (compare_step b c) ks st =
     \<lparr>cs_case_comparisons = cs_case_comparisons st @
        map (\<lambda>k. compare_case k (dict_item b k) (dict_item c k)) ks,
      cs_improved = cs_improved st @ filter (\<lambda>k. pair_classification b c k = Improved) ks,
      cs_regressed = cs_regressed st @ filter (\<lambda>k. pair_classification b c k = Regressed) ks,
      cs_unchanged_passes = cs_unchanged_passes st +
        count_if (\<lambda>k. pair_classification b c k = UnchangedPass) ks,
      cs_unchanged_failures = cs_unchanged_failures st +
        count_if (\<lambda>k. pair_classification b c k = UnchangedFail) ks,
      cs_deltas = cs_deltas st @ map (pair_delta b c) ks\<rparr>"
  by (induction ks arbitrary: st) (simp_all add: compare_step_eq)

lemma compare_loop_eq:
  "compare_loop baseline candidate =
     (let b = by_case_id baseline; c = by_case_id candidate; ks = common_keys b c in
      \<lparr>cs_case_comparisons = map (\<lambda>k. compare_case k (dict_item b k) (dict_item c k)) ks,
       cs_improved = filter (\<lambda>k. pair_classification b c k = Improved) ks,
       cs_regressed = filter (\<lambda>k. pair_classification b c k = Regressed) ks,
       cs_unchanged_passes = count_if (\<lambda>k. pair_classification b c k = UnchangedPass) ks,
       cs_unchanged_failures = count_if (\<lambda>k. pair_classification b c k = UnchangedFail) ks,
       cs_deltas = map (pair_delta b c) ks\<rparr>)"
  by (simp add: compare_loop_def compare_fold compare_state0_def Let_def)

lemmas compare_runs_simps = compare_runs_def compare_loop_eq Let_def

lemma sum_pair_delta:
  "sum_list (map (pair_delta b c) ks) =
     int (length (filter (\<lambda>k. pair_classification b c k = Improved) ks)) -
     int (length (filter (\<lambda>k. pair_classification b c k = Regressed) ks))"
  by (induction ks) (auto simp: pair_delta_def pair_classification_def classify_def)

lemma classification_total:
  "length (filter (\<lambda>k. pair_classification b c k = Improved) ks) +
   length (filter (\<lambda>k. pair_classification b c k = Regressed) ks) +
   count_if (\<lambda>k. pair_classification b c k = UnchangedPass) ks +
   count_if (\<lambda>k. pair_classification b c k = UnchangedFail) ks = length ks"
proof (induction ks)
  case (Cons k ks)
  then show ?case by (cases "pair_classification b c k") simp_all
qed simp

lemma common_keys_commute: "common_keys a b = common_keys b a"
  unfolding common_keys_def by (rule sorted_set_cong) auto

lemma exclusive_keys_commute: "exclusive_keys a b = exclusive_keys b a"
  unfolding exclusive_keys_def by (rule sorted_set_cong) auto

lemma classify_swap:
  "classify c b = (case classify b c of Improved \<Rightarrow> Regressed | Regressed \<Rightarrow> Improved | x \<Rightarrow> x)"
  by (cases b; cases c) (simp_all add: classify_def)

lemma pair_classification_swap:
  "pair_classification c b k =
     (case pair_classification b c k of Improved \<Rightarrow> Regressed | Regressed \<Rightarrow> Improved | x \<Rightarrow> x)"
  unfolding pair_classification_def by (rule classify_swap)

lemma pair_delta_swap: "pair_delta c b k = - pair_delta b c k"
  by (simp add: pair_delta_def)

lemma pair_classification_swap_iff:
  "pair_classification c b k = Improved \<longleftrightarrow> pair_classification b c k = Regressed"
  "pair_classification c b k = Regressed \<longleftrightarrow> pair_classification b c k = Improved"
  "pair_classification c b k = UnchangedPass \<longleftrightarrow> pair_classification b c k = UnchangedPass"
  "pair_classification c b k = UnchangedFail \<longleftrightarrow> pair_classification b c k = UnchangedFail"
  by (subst pair_classification_swap; cases "pair_classification b c k"; simp)+

lemma distinct_common_keys [simp]: "distinct (common_keys a b)"
  by (simp add: common_keys_def)

lemma set_common_keys [simp]: "set (common_keys a b) = fst ` set a \<inter> fst ` set b"
  by (auto simp: common_keys_def)

lemma set_exclusive_keys [simp]:
  "set (exclusive_keys a b) = (fst ` set a - fst ` set b) \<union> (fst ` set b - fst ` set a)"
  by (auto simp: exclusive_keys_def)

lemma keys_by_case_id: "fst ` set (by_case_id run) = (\<lambda>r. dc_case_id (cr_case r)) ` set (run_case_results run)"
  by (simp add: by_case_id_def keys_dict_of image_image)

lemma map_of_map_pair: "map_of (map (\<lambda>k. (k, f k)) ks) x = (if x \<in> set ks then Some (f x) else None)"
  by (induction ks) auto

lemma map_of_dict_deltas_swap:
  "map_of (dict_deltas b a) k = map_option uminus (map_of (dict_deltas a b) k)"
  by (simp add: dict_deltas_def map_of_map_pair Int_commute)

text \<open>The bootstrap interval of deltas in [-1, 1] stays there, and its ends are in order.\<close>

lemma average_bounds:
  assumes "xs \<noteq> []" "\<forall>x \<in> set xs. l \<le> x \<and> x \<le> u"
  shows "l \<le> average xs \<and> average xs \<le> u"
proof -
  have "of_nat (length xs) * l \<le> sum_list xs \<and> sum_list xs \<le> of_nat (length xs) * u"
    using assms(2) by (induction xs) (auto simp: algebra_simps)
  then show ?thesis
    using assms(1) by (simp add: average_def field_simps)
qed

lemma bootstrap_ci_bounds:
  assumes "deltas \<noteq> []" "\<forall>d \<in> set deltas. \<bar>d\<bar> \<le> 1" "\<And>s i. pick s i < length deltas"
    and "bootstrap_ci pick deltas = (lo, hi)"
  shows "- 1 \<le> lo \<and> lo \<le> hi \<and> hi \<le> 1"
proof -
  let ?ms = "bootstrap_means pick 500 deltas"
  have b: "\<forall>m \<in> set ?ms. - 1 \<le> m \<and> m \<le> 1"
  proof
    fix m assume "m \<in> set ?ms"
    then obtain s where
      m: "m = average (map (\<lambda>i. of_int (deltas ! pick s i)) [0..<length deltas])"
      by (auto simp: bootstrap_means_def)
    have "\<forall>x \<in> set (map (\<lambda>i. of_int (deltas ! pick s i) :: rat) [0..<length deltas]). - 1 \<le> x \<and> x \<le> 1"
    proof (clarsimp)
      fix i
      have "\<bar>deltas ! pick s i\<bar> \<le> 1" using assms(2,3) by simp
      then have "- 1 \<le> deltas ! pick s i \<and> deltas ! pick s i \<le> 1" by linarith
      then show "- 1 \<le> (of_int (deltas ! pick s i) :: rat) \<and> deltas ! pick s i \<le> 1"
        by (metis of_int_1 of_int_le_iff of_int_minus)
    qed
    then show "- 1 \<le> m \<and> m \<le> 1"
      unfolding m using assms(1) by (intro average_bounds) simp_all
  qed
  have len: "length ?ms = 500" by (simp add: bootstrap_means_def)
  then have "sort ?ms ! 12 \<in> set (sort ?ms)" "sort ?ms ! 487 \<in> set (sort ?ms)"
    by (intro nth_mem; simp)+
  moreover have "sort ?ms ! 12 \<le> sort ?ms ! 487"
    using len by (intro sorted_nth_mono) simp_all
  moreover have "lo = sort ?ms ! 12" "hi = sort ?ms ! 487"
    using assms(4) by (simp_all add: bootstrap_ci_def Let_def)
  ultimately show ?thesis using b by auto
qed

subsection \<open>Slices add up to the run\<close>

lemma count_if_sum: "of_nat (count_if p xs) = (\<Sum>x\<leftarrow>xs. of_bool (p x))"
  by (simp add: sum_list_of_bool)

lemma slice_paired_total:
  "sum_list (map sc_paired_cases (slice_comparisons cases)) = length cases"
  using sum_list_groups [of "sorted_set (map cc_slice cases)" cc_slice cases "\<lambda>_. 1 :: nat"]
  by (simp add: slice_comparisons_def Let_def comp_def sum_list_triv)

lemma slice_weighted_delta:
  "(\<Sum>s\<leftarrow>slice_comparisons cases. of_nat (sc_paired_cases s) * sc_pass_rate_delta s) =
   (\<Sum>c\<leftarrow>cases. of_bool (cc_candidate_passed c) - of_bool (cc_baseline_passed c))"
proof -
  let ?rows = "\<lambda>n. filter (\<lambda>c. cc_slice c = n) cases"
  let ?f = "\<lambda>c. of_bool (cc_candidate_passed c) - of_bool (cc_baseline_passed c) :: rat"
  have "(\<Sum>s\<leftarrow>slice_comparisons cases. of_nat (sc_paired_cases s) * sc_pass_rate_delta s) =
      (\<Sum>n\<leftarrow>sorted_set (map cc_slice cases). \<Sum>c\<leftarrow>?rows n. ?f c)"
    unfolding slice_comparisons_def map_map comp_def Let_def
    by (intro arg_cong [where f = sum_list] map_cong refl)
      (auto simp: sum_list_subtractf sum_list_of_bool right_diff_distrib filter_empty_conv)
  also have "\<dots> = (\<Sum>c\<leftarrow>cases. ?f c)"
    by (rule sum_list_groups) simp_all
  finally show ?thesis .
qed

subsection \<open>The fields of a comparison\<close>

abbreviation paired :: "evaluation_run \<Rightarrow> evaluation_run \<Rightarrow> string list" where
  "paired b c \<equiv> common_keys (by_case_id b) (by_case_id c)"

definition pairs_with :: "classification \<Rightarrow> evaluation_run \<Rightarrow> evaluation_run \<Rightarrow> string list" where
  "pairs_with k b c =
     filter (\<lambda>i. pair_classification (by_case_id b) (by_case_id c) i = k) (paired b c)"

lemma compare_runs_fields:
  "rc_paired_cases (compare_runs pick b c) = length (paired b c)"
  "rc_missing_pairs (compare_runs pick b c) = exclusive_keys (by_case_id b) (by_case_id c)"
  "rc_improved_cases (compare_runs pick b c) = pairs_with Improved b c"
  "rc_regressed_cases (compare_runs pick b c) = pairs_with Regressed b c"
  "rc_unchanged_passes (compare_runs pick b c) = length (pairs_with UnchangedPass b c)"
  "rc_unchanged_failures (compare_runs pick b c) = length (pairs_with UnchangedFail b c)"
  "rc_metric_deltas (compare_runs pick b c) = run_metric_deltas b c"
  by (simp_all add: compare_runs_simps pairs_with_def count_if_def)

lemma compare_runs_delta:
  "rc_aggregate_pass_rate_delta (compare_runs pick b c) * of_nat (length (paired b c)) =
     of_nat (length (pairs_with Improved b c)) - of_nat (length (pairs_with Regressed b c))"
  by (simp add: compare_runs_simps pairs_with_def sum_pair_delta)

lemma compare_runs_delta_nil:
  "paired b c = [] \<Longrightarrow> rc_aggregate_pass_rate_delta (compare_runs pick b c) = 0"
  by (simp add: compare_runs_simps)

lemma compare_runs_cases:
  "rc_case_comparisons (compare_runs pick b c) =
     map (\<lambda>k. compare_case k (dict_item (by_case_id b) k) (dict_item (by_case_id c) k)) (paired b c)"
  "rc_slice_comparisons (compare_runs pick b c) =
     slice_comparisons (rc_case_comparisons (compare_runs pick b c))"
  by (simp_all add: compare_runs_simps)

lemma pairs_with_total:
  "length (pairs_with Improved b c) + length (pairs_with Regressed b c) +
   length (pairs_with UnchangedPass b c) + length (pairs_with UnchangedFail b c) = length (paired b c)"
  using classification_total [of "by_case_id b" "by_case_id c" "paired b c"]
  by (simp add: pairs_with_def count_if_def)

lemma pairs_with_swap:
  "pairs_with Improved c b = pairs_with Regressed b c"
  "pairs_with Regressed c b = pairs_with Improved b c"
  "pairs_with UnchangedPass c b = pairs_with UnchangedPass b c"
  "pairs_with UnchangedFail c b = pairs_with UnchangedFail b c"
  by (simp_all add: pairs_with_def common_keys_commute [of "by_case_id c"]
      pair_classification_swap_iff [of "by_case_id c" "by_case_id b"])

lemma slice_names: "map sc_slice (slice_comparisons cs) = sorted_set (map cc_slice cs)"
  by (simp add: slice_comparisons_def Let_def comp_def)

lemma case_delta_total:
  "(\<Sum>x\<leftarrow>rc_case_comparisons (compare_runs pick b c).
      of_bool (cc_candidate_passed x) - of_bool (cc_baseline_passed x)) =
   (of_nat (length (pairs_with Improved b c)) - of_nat (length (pairs_with Regressed b c)) :: rat)"
proof -
  let ?b = "by_case_id b" and ?c = "by_case_id c"
  have "(\<Sum>k\<leftarrow>ks. of_bool (hidden_success (dict_item ?c k)) - of_bool (hidden_success (dict_item ?b k)))
      = (of_int (sum_list (map (pair_delta ?b ?c) ks)) :: rat)" for ks
    by (induction ks) (simp_all add: pair_delta_def)
  then show ?thesis
    unfolding compare_runs_cases map_map comp_def by (simp add: compare_case_def sum_pair_delta pairs_with_def)
qed

subsection \<open>Properties\<close>

text \<open>C11. Every case identifier that both runs have is classified exactly once: the improved, the
  regressed and the two kinds of unchanged pairs add up to the paired cases, the improved and
  regressed lists have no common or repeated case, the missing pairs are exactly the
  identifiers of one run only, and the aggregate pass-rate delta times the number of pairs is the
  number of improved cases minus the number of regressed ones.\<close>

theorem compare_runs_partition:
  "let r = compare_runs pick b c;
       ids = \<lambda>run. {dc_case_id (cr_case x) | x. x \<in> set (run_case_results run)} in
     rc_paired_cases r = length (rc_improved_cases r) + length (rc_regressed_cases r)
       + rc_unchanged_passes r + rc_unchanged_failures r
   \<and> rc_paired_cases r = card (ids b \<inter> ids c)
   \<and> distinct (rc_improved_cases r @ rc_regressed_cases r)
   \<and> set (rc_improved_cases r @ rc_regressed_cases r) \<subseteq> ids b \<inter> ids c
   \<and> set (rc_missing_pairs r) = (ids b - ids c) \<union> (ids c - ids b)
   \<and> rc_aggregate_pass_rate_delta r * of_nat (rc_paired_cases r) =
       of_nat (length (rc_improved_cases r)) - of_nat (length (rc_regressed_cases r))"
proof -
  let ?ids = "\<lambda>run. {dc_case_id (cr_case x) | x. x \<in> set (run_case_results run)}"
  have ids: "fst ` set (by_case_id run) = ?ids run" for run
    by (auto simp: keys_by_case_id)
  have paired: "set (paired b c) = ?ids b \<inter> ?ids c" by (simp add: ids)
  then have "length (paired b c) = card (?ids b \<inter> ?ids c)"
    by (metis distinct_card distinct_common_keys)
  moreover have "distinct (pairs_with Improved b c @ pairs_with Regressed b c)"
    by (auto simp: pairs_with_def)
  moreover have "set (pairs_with Improved b c @ pairs_with Regressed b c) \<subseteq> ?ids b \<inter> ?ids c"
    using paired by (auto simp: pairs_with_def)
  ultimately show ?thesis
    using pairs_with_total [of b c]
    unfolding Let_def compare_runs_fields compare_runs_delta by (simp add: ids)
qed

text \<open>Comparing in the other direction is the mirror image: the paired, missing and unchanged
  cases are the same, improved and regressed swap, and the aggregate delta changes sign.\<close>

theorem compare_runs_swap:
  "let r = compare_runs pick b c; r' = compare_runs pick' c b in
     rc_improved_cases r' = rc_regressed_cases r
   \<and> rc_regressed_cases r' = rc_improved_cases r
   \<and> rc_unchanged_passes r' = rc_unchanged_passes r
   \<and> rc_unchanged_failures r' = rc_unchanged_failures r
   \<and> rc_paired_cases r' = rc_paired_cases r
   \<and> rc_missing_pairs r' = rc_missing_pairs r
   \<and> rc_aggregate_pass_rate_delta r' = - rc_aggregate_pass_rate_delta r
   \<and> (\<forall>m. map_of (rc_metric_deltas r') m = map_option uminus (map_of (rc_metric_deltas r) m))"
proof -
  have len: "length (paired c b) = length (paired b c)"
    by (simp add: common_keys_commute [of "by_case_id c"])
  have "rc_aggregate_pass_rate_delta (compare_runs pick' c b) =
      - rc_aggregate_pass_rate_delta (compare_runs pick b c)"
  proof (cases "paired b c = []")
    case True
    then show ?thesis using len by (simp add: compare_runs_delta_nil)
  next
    case False
    have "(rc_aggregate_pass_rate_delta (compare_runs pick' c b) +
        rc_aggregate_pass_rate_delta (compare_runs pick b c)) * of_nat (length (paired b c)) = 0"
      using compare_runs_delta [of pick' c b] compare_runs_delta [of pick b c] len
      by (simp add: pairs_with_swap [of c b] distrib_right)
    with False show ?thesis by (simp add: eq_neg_iff_add_eq_0)
  qed
  then show ?thesis
    by (simp add: Let_def compare_runs_fields len pairs_with_swap [of c b]
        exclusive_keys_commute [of "by_case_id c"] run_metric_deltas_def
        map_of_dict_deltas_swap [of "average_metric_scores c"])
qed

text \<open>The slices partition the pairs: their case counts add up to the paired cases, and their
  pass-rate deltas, weighted by their counts, add up to the aggregate delta of the run.\<close>

theorem compare_runs_slices:
  "let r = compare_runs pick b c in
     sum_list (map sc_paired_cases (rc_slice_comparisons r)) = rc_paired_cases r
   \<and> (\<Sum>s\<leftarrow>rc_slice_comparisons r. of_nat (sc_paired_cases s) * sc_pass_rate_delta s)
       = rc_aggregate_pass_rate_delta r * of_nat (rc_paired_cases r)
   \<and> sorted (map sc_slice (rc_slice_comparisons r)) \<and> distinct (map sc_slice (rc_slice_comparisons r))"
proof -
  have "length (rc_case_comparisons (compare_runs pick b c)) = length (paired b c)"
    by (simp add: compare_runs_cases)
  then show ?thesis
    unfolding Let_def compare_runs_fields compare_runs_delta compare_runs_cases(2)
      slice_weighted_delta slice_paired_total case_delta_total slice_names by simp
qed

end
