(* ===== verification/Gate.thy ===== *)
theory Gate
  imports Compare
begin

section \<open>Quality gate (\<open>gate.py\<close>)\<close>

text \<open>
  \<open>evaluate_gate\<close> turns a comparison and a policy into findings and an outcome. Each group of
  findings is a function in the order of the code; the lemmas characterise when the outcome is
  PASS, and what a looser policy does. \<open>load_policy\<close> only parses YAML and is not modelled.
\<close>

definition severity_outcome :: "metric_rule \<Rightarrow> gate_outcome" where
  "severity_outcome rule = (if mr_severity rule = Blocking then BLOCK else WARN)"

definition paired_findings :: "run_comparison \<Rightarrow> quality_gate_policy \<Rightarrow> gate_finding list" where
  "paired_findings comparison policy =
     (let minimum = dict_get (qp_defaults policy) ''minimum_paired_cases'' 0 in
      if int (rc_paired_cases comparison) < minimum then
        [\<lparr>gf_scope = Scope_run, gf_metric = ''paired_cases'', gf_outcome = INCONCLUSIVE,
          gf_observed_delta = None, gf_threshold = Some (of_int minimum)\<rparr>]
      else [])"

text \<open>The check of \<open>hidden_test_success\<close>, shared by the run and the slices.\<close>

definition drop_findings :: "finding_scope \<Rightarrow> metric_rule option \<Rightarrow> rat \<Rightarrow> gate_finding list" where
  "drop_findings scope rule delta =
     (case rule of None \<Rightarrow> []
      | Some rule \<Rightarrow>
          case mr_maximum_absolute_drop rule of None \<Rightarrow> []
          | Some max_drop \<Rightarrow>
              let threshold = - max_drop in
              if delta < threshold then
                [\<lparr>gf_scope = scope, gf_metric = ''hidden_test_success'',
                  gf_outcome = severity_outcome rule, gf_observed_delta = Some delta,
                  gf_threshold = Some threshold\<rparr>]
              else [])"

definition hidden_findings :: "run_comparison \<Rightarrow> quality_gate_policy \<Rightarrow> gate_finding list" where
  "hidden_findings comparison policy =
     drop_findings Scope_run (map_of (qp_metrics policy) ''hidden_test_success'')
       (rc_aggregate_pass_rate_delta comparison)"

definition forbidden_findings :: "run_comparison \<Rightarrow> quality_gate_policy \<Rightarrow> gate_finding list" where
  "forbidden_findings comparison policy =
     (case map_of (qp_metrics policy) ''forbidden_modification_rate'' of None \<Rightarrow> []
      | Some rule \<Rightarrow>
          case mr_maximum_absolute_increase rule of None \<Rightarrow> []
          | Some increase \<Rightarrow>
              case map_of (rc_metric_deltas comparison) ''forbidden_modification_rate'' of
                None \<Rightarrow>
                  [\<lparr>gf_scope = Scope_run, gf_metric = ''forbidden_modification_rate'',
                    gf_outcome = INCONCLUSIVE, gf_observed_delta = None,
                    gf_threshold = Some increase\<rparr>]
              | Some observed \<Rightarrow>
                  if observed > increase then
                    [\<lparr>gf_scope = Scope_run, gf_metric = ''forbidden_modification_rate'',
                      gf_outcome = severity_outcome rule, gf_observed_delta = Some observed,
                      gf_threshold = Some increase\<rparr>]
                  else [])"

definition slice_findings ::
  "run_comparison \<Rightarrow> string \<times> (string, metric_rule) dict \<Rightarrow> gate_finding list" where
  "slice_findings comparison = (\<lambda>(slice_name, rules).
     case find (\<lambda>row. sc_slice row = slice_name) (rc_slice_comparisons comparison) of
       None \<Rightarrow>
         [\<lparr>gf_scope = Scope_slice slice_name, gf_metric = ''hidden_test_success'',
           gf_outcome = INCONCLUSIVE, gf_observed_delta = None, gf_threshold = None\<rparr>]
     | Some row \<Rightarrow>
         drop_findings (Scope_slice slice_name) (map_of rules ''hidden_test_success'')
           (sc_pass_rate_delta row))"

definition gate_findings :: "run_comparison \<Rightarrow> quality_gate_policy \<Rightarrow> gate_finding list" where
  "gate_findings comparison policy =
     paired_findings comparison policy @ hidden_findings comparison policy @
     forbidden_findings comparison policy @
     concat (map (slice_findings comparison) (qp_slices policy))"

definition findings_outcome :: "gate_finding list \<Rightarrow> gate_outcome" where
  "findings_outcome findings =
     (if list_ex (\<lambda>f. gf_outcome f = BLOCK) findings then BLOCK
      else if list_ex (\<lambda>f. gf_outcome f = INCONCLUSIVE) findings then INCONCLUSIVE
      else if list_ex (\<lambda>f. gf_outcome f = WARN) findings then WARN
      else PASS)"

definition evaluate_gate :: "run_comparison \<Rightarrow> quality_gate_policy \<Rightarrow> quality_gate_decision" where
  "evaluate_gate comparison policy =
     (let findings = gate_findings comparison policy in
      \<lparr>qd_outcome = findings_outcome findings, qd_findings = findings,
       qd_regressed_cases = rc_regressed_cases comparison\<rparr>)"

subsection \<open>Outcomes\<close>

lemma no_PASS_finding: "f \<in> set (gate_findings comparison policy) \<Longrightarrow> gf_outcome f \<noteq> PASS"
  by (auto simp: gate_findings_def paired_findings_def hidden_findings_def forbidden_findings_def
      slice_findings_def drop_findings_def severity_outcome_def Let_def
      split: option.splits if_splits)

lemma findings_outcome_PASS:
  "(\<And>f. f \<in> set fs \<Longrightarrow> gf_outcome f \<noteq> PASS) \<Longrightarrow> findings_outcome fs = PASS \<longleftrightarrow> fs = []"
  by (cases fs) (auto simp: findings_outcome_def list_ex_iff intro: gate_outcome.exhaust)

text \<open>The outcomes are ordered by severity, as the last lines of \<open>evaluate_gate\<close> follow.\<close>

fun gate_rank :: "gate_outcome \<Rightarrow> nat" where
  "gate_rank PASS = 0"
| "gate_rank WARN = 1"
| "gate_rank INCONCLUSIVE = 2"
| "gate_rank BLOCK = 3"

lemma gate_rank_inj [simp]: "gate_rank a = gate_rank b \<longleftrightarrow> a = b"
  by (cases a; cases b) simp_all

instantiation gate_outcome :: linorder
begin

definition less_eq_gate_outcome :: "gate_outcome \<Rightarrow> gate_outcome \<Rightarrow> bool" where
  "a \<le> b \<longleftrightarrow> gate_rank a \<le> gate_rank b"

definition less_gate_outcome :: "gate_outcome \<Rightarrow> gate_outcome \<Rightarrow> bool" where
  "a < b \<longleftrightarrow> gate_rank a < gate_rank b"

instance
  by standard (auto simp: less_eq_gate_outcome_def less_gate_outcome_def)

end

lemma outcome_order [simp]:
  "PASS \<le> a" "a \<le> BLOCK" "a \<le> PASS \<longleftrightarrow> a = PASS" "BLOCK \<le> a \<longleftrightarrow> a = BLOCK"
  "WARN \<le> INCONCLUSIVE" "\<not> INCONCLUSIVE \<le> WARN"
  by (cases a; simp add: less_eq_gate_outcome_def)+

lemma findings_outcome_worst: "findings_outcome fs = Max (insert PASS (gf_outcome ` set fs))"
proof (rule Max_eqI [symmetric])
  show "a \<le> findings_outcome fs" if "a \<in> insert PASS (gf_outcome ` set fs)" for a
  proof -
    have "gf_outcome f \<le> findings_outcome fs" if "f \<in> set fs" for f
      using that by (cases "gf_outcome f") (auto simp: findings_outcome_def list_ex_iff)
    with that show ?thesis by auto
  qed
  show "findings_outcome fs \<in> insert PASS (gf_outcome ` set fs)"
    by (auto simp: findings_outcome_def list_ex_iff image_iff) metis+
qed simp

subsection \<open>What a passing comparison satisfies\<close>

definition drop_allowed :: "metric_rule option \<Rightarrow> rat \<Rightarrow> bool" where
  "drop_allowed rule delta \<longleftrightarrow>
     (\<forall>r d. rule = Some r \<and> mr_maximum_absolute_drop r = Some d \<longrightarrow> - d \<le> delta)"

definition gate_spec :: "run_comparison \<Rightarrow> quality_gate_policy \<Rightarrow> bool" where
  "gate_spec comparison policy \<longleftrightarrow>
     dict_get (qp_defaults policy) ''minimum_paired_cases'' 0 \<le> int (rc_paired_cases comparison)
   \<and> drop_allowed (map_of (qp_metrics policy) ''hidden_test_success'')
       (rc_aggregate_pass_rate_delta comparison)
   \<and> (\<forall>r m. map_of (qp_metrics policy) ''forbidden_modification_rate'' = Some r \<and>
            mr_maximum_absolute_increase r = Some m \<longrightarrow>
            (\<exists>x \<le> m. map_of (rc_metric_deltas comparison) ''forbidden_modification_rate'' = Some x))
   \<and> (\<forall>(name, rules) \<in> set (qp_slices policy).
        \<exists>row. find (\<lambda>row. sc_slice row = name) (rc_slice_comparisons comparison) = Some row \<and>
              drop_allowed (map_of rules ''hidden_test_success'') (sc_pass_rate_delta row))"

lemma drop_findings_Nil: "drop_findings scope rule delta = [] \<longleftrightarrow> drop_allowed rule delta"
  by (auto simp: drop_findings_def drop_allowed_def Let_def not_less split: option.splits)

lemma gate_findings_Nil: "gate_findings comparison policy = [] \<longleftrightarrow> gate_spec comparison policy"
proof -
  have "paired_findings comparison policy = [] \<longleftrightarrow>
      dict_get (qp_defaults policy) ''minimum_paired_cases'' 0 \<le> int (rc_paired_cases comparison)"
    by (auto simp: paired_findings_def Let_def)
  moreover have "forbidden_findings comparison policy = [] \<longleftrightarrow>
      (\<forall>r m. map_of (qp_metrics policy) ''forbidden_modification_rate'' = Some r \<and>
            mr_maximum_absolute_increase r = Some m \<longrightarrow>
            (\<exists>x \<le> m. map_of (rc_metric_deltas comparison) ''forbidden_modification_rate'' = Some x))"
    by (auto simp: forbidden_findings_def not_less split: option.splits)
  moreover have "slice_findings comparison (name, rules) = [] \<longleftrightarrow>
      (\<exists>row. find (\<lambda>row. sc_slice row = name) (rc_slice_comparisons comparison) = Some row \<and>
             drop_allowed (map_of rules ''hidden_test_success'') (sc_pass_rate_delta row))"
    for name rules
    by (auto simp: slice_findings_def drop_findings_Nil split: option.splits)
  ultimately show ?thesis
    by (auto simp: gate_findings_def gate_spec_def hidden_findings_def drop_findings_Nil)
qed

subsection \<open>Looser policies\<close>

text \<open>\<open>looser_rule a b\<close>: rule \<open>b\<close> allows whatever \<open>a\<close> allows, and is at most as severe.\<close>

definition looser_bound :: "rat option \<Rightarrow> rat option \<Rightarrow> bool" where
  "looser_bound a b \<longleftrightarrow> (case b of None \<Rightarrow> True | Some y \<Rightarrow> (case a of None \<Rightarrow> False | Some x \<Rightarrow> x \<le> y))"

definition looser_rule :: "metric_rule option \<Rightarrow> metric_rule option \<Rightarrow> bool" where
  "looser_rule a b \<longleftrightarrow>
     (case b of None \<Rightarrow> True
      | Some s \<Rightarrow> (case a of None \<Rightarrow> False
          | Some r \<Rightarrow> looser_bound (mr_maximum_absolute_drop r) (mr_maximum_absolute_drop s) \<and>
                      looser_bound (mr_maximum_absolute_increase r) (mr_maximum_absolute_increase s) \<and>
                      (mr_severity s = Blocking \<longrightarrow> mr_severity r = Blocking)))"

definition looser_policy :: "quality_gate_policy \<Rightarrow> quality_gate_policy \<Rightarrow> bool" where
  "looser_policy p q \<longleftrightarrow>
     dict_get (qp_defaults q) ''minimum_paired_cases'' 0 \<le> dict_get (qp_defaults p) ''minimum_paired_cases'' 0
   \<and> looser_rule (map_of (qp_metrics p) ''hidden_test_success'') (map_of (qp_metrics q) ''hidden_test_success'')
   \<and> looser_rule (map_of (qp_metrics p) ''forbidden_modification_rate'')
       (map_of (qp_metrics q) ''forbidden_modification_rate'')
   \<and> list_all (\<lambda>(n, rules). list_ex (\<lambda>(m, rules'). m = n \<and>
        looser_rule (map_of rules' ''hidden_test_success'') (map_of rules ''hidden_test_success''))
        (qp_slices p)) (qp_slices q)"

text \<open>Every finding of \<open>b\<close> has one in \<open>a\<close> that weighs at least as much.\<close>

definition outweighs :: "gate_finding list \<Rightarrow> gate_finding list \<Rightarrow> bool" where
  "outweighs a b \<longleftrightarrow> (\<forall>g \<in> set b. \<exists>f \<in> set a. gf_outcome g \<le> gf_outcome f)"

lemma outweighs_Nil [simp]: "outweighs a []"
  by (simp add: outweighs_def)

lemma outweighs_single [simp]:
  "outweighs [f] [g] \<longleftrightarrow> gf_outcome g \<le> gf_outcome f"
  "\<not> outweighs [] [g]"
  by (simp_all add: outweighs_def)

lemma outweighs_append: "outweighs a b \<Longrightarrow> outweighs a' b' \<Longrightarrow> outweighs (a @ a') (b @ b')"
  by (auto simp: outweighs_def)

lemma outweighs_concat:
  "(\<And>y. y \<in> set ys \<Longrightarrow> \<exists>x \<in> set xs. outweighs (f x) (g y)) \<Longrightarrow>
     outweighs (concat (map f xs)) (concat (map g ys))"
  by (fastforce simp: outweighs_def)

lemma outweighs_outcome:
  "outweighs a b \<Longrightarrow> findings_outcome b \<le> findings_outcome a"
  unfolding findings_outcome_worst by (subst Max_le_iff) (force simp: outweighs_def Max_ge_iff)+

lemma outweighs_drop:
  "looser_rule r s \<Longrightarrow> outweighs (drop_findings sc r delta) (drop_findings sc' s delta)"
  by (auto simp: looser_rule_def looser_bound_def drop_findings_def Let_def
      severity_outcome_def split: option.splits if_splits)

lemma outweighs_forbidden:
  "looser_rule (map_of (qp_metrics p) ''forbidden_modification_rate'')
     (map_of (qp_metrics q) ''forbidden_modification_rate'') \<Longrightarrow>
   outweighs (forbidden_findings comparison p) (forbidden_findings comparison q)"
  by (auto simp: looser_rule_def looser_bound_def forbidden_findings_def
      severity_outcome_def split: option.splits if_splits)

lemma outweighs_paired:
  "dict_get (qp_defaults q) ''minimum_paired_cases'' 0 \<le> dict_get (qp_defaults p) ''minimum_paired_cases'' 0
     \<Longrightarrow> outweighs (paired_findings comparison p) (paired_findings comparison q)"
  by (auto simp: paired_findings_def Let_def)

lemma outweighs_slice:
  "looser_rule (map_of rules ''hidden_test_success'') (map_of rules' ''hidden_test_success'') \<Longrightarrow>
     outweighs (slice_findings comparison (n, rules)) (slice_findings comparison (n, rules'))"
  by (auto simp: slice_findings_def outweighs_drop outweighs_def [of "[_]"] split: option.splits)

lemma looser_policy_outweighs:
  assumes "looser_policy p q"
  shows "outweighs (gate_findings comparison p) (gate_findings comparison q)"
  unfolding gate_findings_def hidden_findings_def
  using assms
  by (intro outweighs_append outweighs_concat outweighs_drop outweighs_forbidden outweighs_paired)
    (fastforce simp: looser_policy_def list_all_iff list_ex_iff intro: outweighs_slice)+

subsection \<open>Properties\<close>

text \<open>C10. The gate passes exactly when the comparison meets every requirement of the policy: enough
  paired cases, the aggregate drop within the bound, the forbidden-modification rate present and
  within the bound, and every required slice present and within its bound. The outcome is always
  the most severe finding, and a finding is never a PASS.\<close>

theorem gate_passes_iff:
  "(qd_outcome (evaluate_gate comparison policy) = PASS \<longleftrightarrow> gate_spec comparison policy)
   \<and> qd_outcome (evaluate_gate comparison policy) =
       Max (insert PASS (gf_outcome ` set (qd_findings (evaluate_gate comparison policy))))"
proof -
  have "findings_outcome (gate_findings comparison policy) = PASS \<longleftrightarrow> gate_findings comparison policy = []"
    by (rule findings_outcome_PASS) (rule no_PASS_finding)
  then show ?thesis
    by (simp add: evaluate_gate_def Let_def findings_outcome_worst gate_findings_Nil)
qed

text \<open>Loosening a policy (a smaller minimum of pairs, larger allowed drops and increases, milder
  severities, fewer slices) never makes the outcome of the same comparison more severe.\<close>

theorem gate_monotone:
  assumes "looser_policy p q"
  shows "qd_outcome (evaluate_gate comparison q) \<le>
         qd_outcome (evaluate_gate comparison p)"
  using outweighs_outcome [OF looser_policy_outweighs [OF assms]]
  by (simp add: evaluate_gate_def Let_def)

definition example_rule :: "rat \<Rightarrow> metric_rule" where
  "example_rule d = \<lparr>mr_required = True, mr_maximum_absolute_drop = Some d,
     mr_maximum_absolute_increase = None, mr_severity = Blocking\<rparr>"

definition example_policy :: "rat \<Rightarrow> quality_gate_policy" where
  "example_policy d = \<lparr>qp_schema_version = ''1'', qp_policy = [],
     qp_defaults = [(''minimum_paired_cases'', 1)],
     qp_metrics = [(''hidden_test_success'', example_rule d)],
     qp_slices = [(''security'', [(''hidden_test_success'', example_rule 0)])]\<rparr>"

definition example_comparison :: run_comparison where
  "example_comparison = \<lparr>rc_baseline_run_id = 1, rc_candidate_run_id = 2, rc_paired_cases = 10,
     rc_missing_pairs = [], rc_aggregate_pass_rate_delta = - (1 / 10), rc_metric_deltas = [],
     rc_confidence_interval = None, rc_limited_evidence = True, rc_improved_cases = [],
     rc_regressed_cases = [''A''], rc_unchanged_passes = 9, rc_unchanged_failures = 0,
     rc_slice_comparisons = [\<lparr>sc_slice = ''security'', sc_paired_cases = 5,
       sc_baseline_pass_rate = 1, sc_candidate_pass_rate = 1, sc_pass_rate_delta = 0\<rparr>],
     rc_case_comparisons = []\<rparr>"

theorem gate_monotone_witness:
  "qd_outcome (evaluate_gate example_comparison (example_policy (1 / 5))) \<le>
     qd_outcome (evaluate_gate example_comparison (example_policy (1 / 20)))
   \<and> qd_outcome (evaluate_gate example_comparison (example_policy (1 / 5))) = PASS
   \<and> qd_outcome (evaluate_gate example_comparison (example_policy (1 / 20))) = BLOCK"
proof (intro conjI)
  show "qd_outcome (evaluate_gate example_comparison (example_policy (1 / 5))) \<le>
     qd_outcome (evaluate_gate example_comparison (example_policy (1 / 20)))"
    by (rule gate_monotone)
      (simp add: looser_policy_def looser_rule_def looser_bound_def example_policy_def example_rule_def)
qed (simp_all add: evaluate_gate_def gate_findings_def paired_findings_def hidden_findings_def
    forbidden_findings_def slice_findings_def drop_findings_def severity_outcome_def
    findings_outcome_def example_comparison_def example_policy_def example_rule_def)

end
