(* ===== verification/Job_Models.thy ===== *)
theory Job_Models
  imports Models
begin

section \<open>Jobs, workers and GPUs (\<open>models.py\<close>)\<close>

text \<open>
  The records of evaluation jobs, GPU devices and workers, the reports the scheduler returns, and
  the validation pydantic runs when a job is built. Reasons and blockers, which the code formats
  as sentences, are data types that keep the values of the sentence.
\<close>

record evaluation_job =
  ej_job_id :: uuid
  ej_suite_path :: string
  ej_agent_version :: string
  ej_status :: job_status
  ej_priority :: int
  ej_attempts :: int
  ej_max_attempts :: int
  ej_created_at :: instant
  ej_updated_at :: instant
  ej_started_at :: "instant option"
  ej_lease_owner :: "string option"
  ej_lease_expires_at :: "instant option"
  ej_run_id :: "uuid option"
  ej_error :: "string option"
  ej_required_accelerator :: accelerator
  ej_required_labels :: "(string, string) dict"
  ej_minimum_gpu_memory_mb :: int
  ej_minimum_cuda_compute_capability :: "rat option"
  ej_minimum_gpu_memory_available_mb :: int
  ej_maximum_gpu_utilization_percent :: "rat option"
  ej_required_mig_profile :: "string option"
  ej_traceparent :: "string option"
  ej_request_id :: "string option"

text \<open>\<open>^00-[0-9a-f]{32}-[0-9a-f]{16}-[0-9a-f]{2}$\<close>\<close>

abbreviation hex_class :: "(char \<times> char) list" where
  "hex_class \<equiv> [(CHR ''0'', CHR ''9''), (CHR ''a'', CHR ''f'')]"

definition TRACEPARENT_FIELD_PATTERN :: regex where
  "TRACEPARENT_FIELD_PATTERN =
     Seq (lit ''00-'') (Seq (exactly 32 (Cls hex_class)) (Seq (lit ''-'')
       (Seq (exactly 16 (Cls hex_class)) (Seq (lit ''-'') (exactly 2 (Cls hex_class))))))"

definition in_range :: "'a::linorder \<Rightarrow> 'a \<Rightarrow> 'a \<Rightarrow> bool" where
  "in_range lo hi x \<longleftrightarrow> lo \<le> x \<and> x \<le> hi"

definition opt_all :: "('a \<Rightarrow> bool) \<Rightarrow> 'a option \<Rightarrow> bool" where
  "opt_all p x = (case x of None \<Rightarrow> True | Some y \<Rightarrow> p y)"

lemma opt_all_simps [simp]: "opt_all p None" "opt_all p (Some y) = p y"
  by (simp_all add: opt_all_def)

text \<open>The \<open>Field\<close> constraints of \<open>EvaluationJob\<close>.\<close>

definition job_fields_ok :: "evaluation_job \<Rightarrow> bool" where
  "job_fields_ok j \<longleftrightarrow>
     in_range (- 100) 100 (ej_priority j) \<and> 0 \<le> ej_attempts j
   \<and> in_range 1 10 (ej_max_attempts j)
   \<and> 0 \<le> ej_minimum_gpu_memory_mb j
   \<and> opt_all (\<lambda>x. 1 \<le> x) (ej_minimum_cuda_compute_capability j)
   \<and> 0 \<le> ej_minimum_gpu_memory_available_mb j
   \<and> opt_all (in_range 0 100) (ej_maximum_gpu_utilization_percent j)
   \<and> opt_all (fullmatch MIG_PROFILE_PATTERN) (ej_required_mig_profile j)
   \<and> opt_all (fullmatch TRACEPARENT_FIELD_PATTERN) (ej_traceparent j)"

definition has_gpu_constraints :: "evaluation_job \<Rightarrow> bool" where
  "has_gpu_constraints j \<longleftrightarrow>
     ej_minimum_gpu_memory_mb j > 0 \<or> ej_minimum_cuda_compute_capability j \<noteq> None \<or>
     ej_minimum_gpu_memory_available_mb j > 0 \<or> ej_maximum_gpu_utilization_percent j \<noteq> None \<or>
     ej_required_mig_profile j \<noteq> None"

definition gpu_constraints_require_cuda :: "evaluation_job \<Rightarrow> evaluation_job result" where
  "gpu_constraints_require_cuda j =
     (if has_gpu_constraints j \<and> ej_required_accelerator j \<noteq> CUDA
      then Inl (ValueError ''GPU resource constraints require the cuda accelerator'') else Inr j)"

text \<open>Building an \<open>EvaluationJob\<close>: the before-validator, the fields, then the model validator.\<close>

definition validate_evaluation_job :: "evaluation_job \<Rightarrow> evaluation_job result" where
  "validate_evaluation_job j =
     bind_result (normalize_optional_mig (ej_required_mig_profile j)) (\<lambda>profile.
     let j = j\<lparr>ej_required_mig_profile := profile\<rparr> in
     if \<not> job_fields_ok j then Inl (ValidationError ''EvaluationJob'')
     else gpu_constraints_require_cuda j)"

definition valid_job :: "evaluation_job \<Rightarrow> bool" where
  "valid_job j \<longleftrightarrow> job_fields_ok j \<and> (has_gpu_constraints j \<longrightarrow> ej_required_accelerator j = CUDA)"

lemma validate_evaluation_job_valid: "validate_evaluation_job j = Inr j' \<Longrightarrow> valid_job j'"
  by (auto simp: validate_evaluation_job_def gpu_constraints_require_cuda_def valid_job_def Let_def
      split: if_splits)

text \<open>A float that need not be finite, and where the live values of a GPU come from.\<close>

datatype py_float = PyFinite rat | PyInf | PyNegInf | PyNan

datatype telemetry_source = Nvidia_smi | Dcgm_exporter | Unavailable

record gpu_device =
  gpu_index :: int
  gpu_uuid :: string
  gpu_name :: string
  gpu_memory_total_mb :: int
  gpu_compute_capability :: string
  gpu_memory_used_mb :: "int option"
  gpu_utilization_percent :: "rat option"
  gpu_temperature_celsius :: "py_float option"
  gpu_power_draw_watts :: "py_float option"
  gpu_mig_profile :: "string option"
  gpu_telemetry_source :: telemetry_source

text \<open>\<open>ge=0\<close> on a float: infinity is accepted, NaN is not.\<close>

definition non_negative_float :: "py_float \<Rightarrow> bool" where
  "non_negative_float x = (case x of PyFinite v \<Rightarrow> 0 \<le> v | PyInf \<Rightarrow> True | _ \<Rightarrow> False)"

definition gpu_fields_ok :: "gpu_device \<Rightarrow> bool" where
  "gpu_fields_ok g \<longleftrightarrow>
     0 \<le> gpu_index g \<and> 0 \<le> gpu_memory_total_mb g \<and> opt_all (\<lambda>x. 0 \<le> x) (gpu_memory_used_mb g)
   \<and> opt_all (in_range 0 100) (gpu_utilization_percent g)
   \<and> opt_all non_negative_float (gpu_power_draw_watts g)
   \<and> opt_all (fullmatch MIG_PROFILE_PATTERN) (gpu_mig_profile g)"

text \<open>Building a \<open>GpuDevice\<close>: the before-validator, then the fields.\<close>

definition validate_gpu_device :: "gpu_device \<Rightarrow> gpu_device result" where
  "validate_gpu_device g =
     bind_result (normalize_optional_mig (gpu_mig_profile g)) (\<lambda>profile.
     let g = g\<lparr>gpu_mig_profile := profile\<rparr> in
     if gpu_fields_ok g then Inr g else Inl (ValidationError ''GpuDevice''))"

lemma validate_gpu_device_ok: "validate_gpu_device g = Inr g' \<Longrightarrow> gpu_fields_ok g'"
  by (auto simp: validate_gpu_device_def Let_def split: if_splits)

lemma validate_gpu_device_idem:
  assumes "gpu_fields_ok g"
  shows "validate_gpu_device g = Inr g"
proof -
  have "normalize_optional_mig (gpu_mig_profile g) = Inr (gpu_mig_profile g)"
    using assms normalize_mig_profile_idem
    by (cases "gpu_mig_profile g") (auto simp: normalize_optional_mig_def gpu_fields_ok_def)
  then show ?thesis using assms by (simp add: validate_gpu_device_def)
qed

record worker_capabilities =
  wc_hostname :: string
  wc_operating_system :: string
  wc_architecture :: string
  wc_cpu_count :: int
  wc_accelerators :: "accelerator list"
  wc_gpus :: "gpu_device list"
  wc_labels :: "(string, string) dict"

text \<open>A device is already validated when it is put into the capabilities.\<close>

definition validate_worker_capabilities :: "worker_capabilities \<Rightarrow> worker_capabilities result" where
  "validate_worker_capabilities c =
     (if 1 \<le> wc_cpu_count c then Inr c else Inl (ValidationError ''WorkerCapabilities''))"

record worker_record =
  wr_worker_id :: string
  wr_capabilities :: worker_capabilities
  wr_registered_at :: instant
  wr_last_seen_at :: instant

datatype placement_reason =
    Stale_heartbeat
  | Missing_accelerator accelerator
  | Label_mismatch string string "string option"
  | No_gpu_telemetry
  | Gpu_memory_low int int
  | Compute_capability_unavailable
  | Compute_capability_low rat rat
  | Free_memory_unavailable
  | Free_memory_low int int
  | Utilization_unavailable
  | Utilization_high rat rat
  | Mig_profile_unavailable
  | Mig_profile_mismatch string "string list"
  | No_single_gpu_under_load
  | No_single_gpu

record worker_placement_diagnostic =
  wd_worker_id :: string
  wd_active :: bool
  wd_eligible :: bool
  wd_last_seen_at :: instant
  wd_reasons :: "placement_reason list"

datatype placement_blocker =
  Not_queued job_status | No_workers | No_active_worker | No_matching_worker

record job_placement_diagnostic =
  jd_job_id :: uuid
  jd_job_status :: job_status
  jd_observed_at :: instant
  jd_active_worker_window_seconds :: int
  jd_schedulable :: bool
  jd_active_workers :: nat
  jd_matching_workers :: nat
  jd_blockers :: "placement_blocker list"
  jd_workers :: "worker_placement_diagnostic list"

end
