(* ===== verification/Tenant_Table.thy ===== *)
theory Tenant_Table
  imports Prelude
begin

section \<open>Tables under row-level security\<close>

text \<open>
  Every tenant table of the store carries a \<open>tenant_id\<close> column; the policy \<open>tenant_isolation\<close> lets
  a connection see and change only the rows of the tenant that \<open>_set_tenant_context\<close> bound, and a
  new row takes that tenant. A table is the list of its rows with their tenant. Statements on it
  are a select (\<open>visible\<close>), an insert (at the end), and an update with a condition, whose
  \<open>RETURNING\<close> clause yields the first changed row.
\<close>

type_synonym tenant = string
type_synonym 'row table = "(tenant \<times> 'row) list"

definition visible :: "tenant \<Rightarrow> 'row table \<Rightarrow> 'row list" where
  "visible t tbl = map snd (filter (\<lambda>r. fst r = t) tbl)"

definition insert_row :: "tenant \<Rightarrow> 'row \<Rightarrow> 'row table \<Rightarrow> 'row table" where
  "insert_row t x tbl = tbl @ [(t, x)]"

definition update_where ::
  "tenant \<Rightarrow> ('row \<Rightarrow> bool) \<Rightarrow> ('row \<Rightarrow> 'row) \<Rightarrow> 'row table \<Rightarrow> 'row table" where
  "update_where t p f tbl = map (\<lambda>(t', x). if t' = t \<and> p x then (t', f x) else (t', x)) tbl"

definition returning :: "tenant \<Rightarrow> ('row \<Rightarrow> bool) \<Rightarrow> ('row \<Rightarrow> 'row) \<Rightarrow> 'row table \<Rightarrow> 'row option" where
  "returning t p f tbl = map_option f (find p (visible t tbl))"

lemma visible_simps [simp]:
  "visible t [] = []"
  "visible t ((t', x) # tbl) = (if t' = t then x # visible t tbl else visible t tbl)"
  "visible t (tbl @ tbl') = visible t tbl @ visible t tbl'"
  by (simp_all add: visible_def)

lemma set_visible: "x \<in> set (visible t tbl) \<longleftrightarrow> (t, x) \<in> set tbl"
  by (force simp: visible_def)

lemma visible_insert_row [simp]:
  "visible t (insert_row t x tbl) = visible t tbl @ [x]"
  "t' \<noteq> t \<Longrightarrow> visible t' (insert_row t x tbl) = visible t' tbl"
  by (simp_all add: insert_row_def)

lemma visible_update_where [simp]:
  "visible t (update_where t p f tbl) = map (\<lambda>x. if p x then f x else x) (visible t tbl)"
  by (induction tbl) (auto simp: update_where_def)

lemma visible_update_other [simp]:
  "t' \<noteq> t \<Longrightarrow> visible t' (update_where t p f tbl) = visible t' tbl"
  by (induction tbl) (auto simp: update_where_def)

lemma snd_update_where:
  "map snd (update_where t p f tbl) = map (\<lambda>(t', x). if t' = t \<and> p x then f x else x) tbl"
  by (induction tbl) (auto simp: update_where_def)

lemma update_where_keys:
  "(\<And>x. k (f x) = k x) \<Longrightarrow> map (\<lambda>(t, x). (t, k x)) (update_where t p f tbl) = map (\<lambda>(t, x). (t, k x)) tbl"
  by (induction tbl) (auto simp: update_where_def)

lemma set_update_where:
  "set (update_where t p f tbl) = (\<lambda>(t', x). if t' = t \<and> p x then (t', f x) else (t', x)) ` set tbl"
  by (simp add: update_where_def)

lemma returning_Some:
  "returning t p f tbl = Some y \<Longrightarrow> \<exists>x. (t, x) \<in> set tbl \<and> p x \<and> y = f x"
  unfolding returning_def using find_SomeD by (fastforce simp: set_visible [symmetric])

lemma returning_None: "returning t p f tbl = None \<longleftrightarrow> (\<forall>x \<in> set (visible t tbl). \<not> p x)"
  by (auto simp: returning_def find_None_iff)

text \<open>An update whose condition no visible row meets changes nothing.\<close>

lemma update_where_none: "(\<forall>x \<in> set (visible t tbl). \<not> p x) \<Longrightarrow> update_where t p f tbl = tbl"
  by (induction tbl) (auto simp: update_where_def)

text \<open>A property of every row of a table.\<close>

definition all_rows :: "('row \<Rightarrow> bool) \<Rightarrow> 'row table \<Rightarrow> bool" where
  "all_rows P tbl \<longleftrightarrow> (\<forall>(t, x) \<in> set tbl. P x)"

lemma all_rowsD: "all_rows P tbl \<Longrightarrow> (t, x) \<in> set tbl \<Longrightarrow> P x"
  by (auto simp: all_rows_def)

lemma all_rows_insert [simp]: "all_rows P (insert_row t x tbl) \<longleftrightarrow> all_rows P tbl \<and> P x"
  by (auto simp: all_rows_def insert_row_def)

lemma all_rows_update:
  "all_rows P tbl \<Longrightarrow> (\<And>x. P x \<Longrightarrow> p x \<Longrightarrow> P (f x)) \<Longrightarrow> all_rows P (update_where t p f tbl)"
  unfolding all_rows_def set_update_where by (auto split: if_splits)

text \<open>A key column with the same value in no two rows, whatever their tenants.\<close>

definition unique_key :: "('row \<Rightarrow> 'k) \<Rightarrow> 'row table \<Rightarrow> bool" where
  "unique_key k tbl \<longleftrightarrow> distinct (map (k \<circ> snd) tbl)"

lemma unique_key_insert [simp]:
  "unique_key k (insert_row t x tbl) \<longleftrightarrow> unique_key k tbl \<and> k x \<notin> (k \<circ> snd) ` set tbl"
  by (auto simp: unique_key_def insert_row_def)

lemma unique_key_update:
  assumes "\<And>x. k (f x) = k x"
  shows "unique_key k (update_where t p f tbl) \<longleftrightarrow> unique_key k tbl"
proof -
  have "map (k \<circ> snd) (update_where t p f tbl) = map (k \<circ> snd) tbl"
    using assms by (induction tbl) (auto simp: update_where_def)
  then show ?thesis by (simp add: unique_key_def)
qed

lemma unique_keyD:
  "unique_key k tbl \<Longrightarrow> (t, x) \<in> set tbl \<Longrightarrow> (t', y) \<in> set tbl \<Longrightarrow> k x = k y \<Longrightarrow> (t, x) = (t', y)"
  unfolding unique_key_def by (metis comp_apply distinct_map inj_onD snd_conv)

lemma unique_visible:
  "unique_key k tbl \<Longrightarrow> distinct (map k (visible t tbl))"
  by (induction tbl) (force simp: unique_key_def set_visible)+

lemma find_unique_key:
  "distinct (map k xs) \<Longrightarrow> x \<in> set xs \<Longrightarrow> find (\<lambda>y. k y = k x) xs = Some x"
  by (induction xs) auto

lemma find_unique:
  "distinct (map k xs) \<Longrightarrow> x \<in> set xs \<Longrightarrow> p x \<Longrightarrow> (\<And>y. p y \<Longrightarrow> k y = k x) \<Longrightarrow> find p xs = Some x"
proof (induction xs)
  case (Cons a xs)
  show ?case
  proof (cases "x = a")
    case False
    then have x: "x \<in> set xs" using Cons.prems(2) by simp
    then have "k a \<noteq> k x" using Cons.prems(1) by auto
    then have "\<not> p a" using Cons.prems(4) by blast
    then show ?thesis using Cons.IH [OF _ x Cons.prems(3,4)] Cons.prems(1) by simp
  next
    case True
    then show ?thesis using Cons.prems(3) by simp
  qed
qed simp

end
