(* ===== verification/Quotas.thy ===== *)
theory Quotas
  imports Job_Models Tenant_Table
begin

section \<open>Resource quotas (\<open>tenants.py\<close>, \<open>store.py\<close>)\<close>

text \<open>
  The limits of a tenant with their validator, the usage the store counts, and reading and
  setting a quota. The table of quotas has one row per registered tenant.
\<close>

record tenant_quota_limits =
  max_queued_jobs :: "int option"
  max_jobs_per_hour :: "int option"
  max_running_jobs :: "int option"
  max_running_cuda_jobs :: "int option"

record tenant_quota_record = tenant_quota_limits +
  qr_tenant_id :: tenant
  qr_updated_at :: instant
  qr_updated_by :: string

record tenant_quota_usage =
  qu_queued_jobs :: nat
  qu_active_running_jobs :: nat
  qu_active_running_cuda_jobs :: nat
  qu_jobs_submitted_last_hour :: nat
  qu_measured_at :: instant
  qu_submission_window_started_at :: instant

text \<open>The \<open>Field\<close> bounds and \<open>cuda_limit_cannot_exceed_total\<close>.\<close>

definition validate_quota_limits ::
  "'a tenant_quota_limits_scheme \<Rightarrow> 'a tenant_quota_limits_scheme result" where
  "validate_quota_limits q =
     (if \<not> (opt_all (in_range 0 100000) (max_queued_jobs q) \<and>
            opt_all (in_range 0 1000000) (max_jobs_per_hour q) \<and>
            opt_all (in_range 0 100000) (max_running_jobs q) \<and>
            opt_all (in_range 0 100000) (max_running_cuda_jobs q))
      then Inl (ValidationError ''TenantQuotaLimits'')
      else if (case (max_running_jobs q, max_running_cuda_jobs q) of
                 (Some limit, Some cuda) \<Rightarrow> cuda > limit | _ \<Rightarrow> False)
      then Inl (ValueError ''max_running_cuda_jobs cannot exceed max_running_jobs'')
      else Inr q)"

text \<open>\<open>SELECT count(*) FILTER (...)\<close> over the jobs the tenant sees.\<close>

definition active_lease :: "instant \<Rightarrow> evaluation_job \<Rightarrow> bool" where
  "active_lease now j \<longleftrightarrow>
     ej_status j = RUNNING \<and> (case ej_lease_expires_at j of None \<Rightarrow> False | Some e \<Rightarrow> now \<le> e)"

definition tenant_quota_usage :: "instant \<Rightarrow> evaluation_job list \<Rightarrow> tenant_quota_usage" where
  "tenant_quota_usage now jobs =
     \<lparr>qu_queued_jobs = count_if (\<lambda>j. ej_status j = QUEUED) jobs,
      qu_active_running_jobs = count_if (active_lease now) jobs,
      qu_active_running_cuda_jobs =
        count_if (\<lambda>j. active_lease now j \<and> ej_required_accelerator j = CUDA) jobs,
      qu_jobs_submitted_last_hour = count_if (\<lambda>j. now - hour \<le> ej_created_at j) jobs,
      qu_measured_at = now, qu_submission_window_started_at = now - hour\<rparr>"

type_synonym quota_table = "(tenant, tenant_quota_record) dict"

definition tenant_quota :: "quota_table \<Rightarrow> tenant \<Rightarrow> tenant_quota_record option" where
  "tenant_quota quotas t = map_of quotas t"

definition get_tenant_quota :: "quota_table \<Rightarrow> tenant \<Rightarrow> tenant_quota_record result" where
  "get_tenant_quota quotas t =
     (case map_of quotas t of None \<Rightarrow> Inl (KeyError t) | Some q \<Rightarrow> Inr q)"

definition set_tenant_quota ::
  "instant \<Rightarrow> tenant \<Rightarrow> tenant_quota_limits \<Rightarrow> string \<Rightarrow> quota_table
     \<Rightarrow> (quota_table \<times> tenant_quota_record) result" where
  "set_tenant_quota now t quota updated_by quotas =
     (case map_of quotas t of
        None \<Rightarrow> Inl (KeyError t)
      | Some old \<Rightarrow>
          let new = \<lparr>max_queued_jobs = max_queued_jobs quota,
                     max_jobs_per_hour = max_jobs_per_hour quota,
                     max_running_jobs = max_running_jobs quota,
                     max_running_cuda_jobs = max_running_cuda_jobs quota,
                     qr_tenant_id = t, qr_updated_at = now, qr_updated_by = updated_by\<rparr>
          in Inr (dict_set t new quotas, new))"

definition tenant_quota_status ::
  "instant \<Rightarrow> tenant \<Rightarrow> quota_table \<Rightarrow> evaluation_job list
     \<Rightarrow> (tenant_quota_record \<times> tenant_quota_usage) result" where
  "tenant_quota_status now t quotas jobs =
     (case tenant_quota quotas t of None \<Rightarrow> Inl (KeyError t)
      | Some q \<Rightarrow> Inr (q, tenant_quota_usage now jobs))"

text \<open>A limit is exceeded when the usage has reached it; no limit is never exceeded.\<close>

definition limit_reached :: "int option \<Rightarrow> nat \<Rightarrow> bool" where
  "limit_reached limit used \<longleftrightarrow> (case limit of None \<Rightarrow> False | Some l \<Rightarrow> l \<le> int used)"

definition within_limit :: "int option \<Rightarrow> nat \<Rightarrow> bool" where
  "within_limit limit used \<longleftrightarrow> (case limit of None \<Rightarrow> True | Some l \<Rightarrow> int used \<le> l)"

lemma reached_within: "\<not> limit_reached l n \<Longrightarrow> within_limit l (Suc n)"
  by (cases l) (auto simp: limit_reached_def within_limit_def)

end
