(* ===== verification/Placement.thy ===== *)
theory Placement
  imports Job_Models
begin

section \<open>Placement diagnostics (\<open>placement.py\<close>)\<close>

text \<open>
  Why a job can or cannot run on the registered workers. \<open>fl\<close> stands for \<open>float()\<close> on the text of
  a compute capability: \<open>None\<close> is the \<open>ValueError\<close> branch.
\<close>

definition DEFAULT_WORKER_ACTIVE_SECONDS :: int where
  "DEFAULT_WORKER_ACTIVE_SECONDS = 120"

abbreviation free_memory :: "gpu_device \<Rightarrow> int \<Rightarrow> int" where
  "free_memory gpu used \<equiv> max 0 (gpu_memory_total_mb gpu - used)"

definition gpu_matches :: "(string \<Rightarrow> rat option) \<Rightarrow> evaluation_job \<Rightarrow> gpu_device \<Rightarrow> bool" where
  "gpu_matches fl job gpu =
     (if ej_required_mig_profile job \<noteq> None \<and> gpu_mig_profile gpu \<noteq> ej_required_mig_profile job
      then False
      else if gpu_memory_total_mb gpu < ej_minimum_gpu_memory_mb job then False
      else if (case ej_minimum_cuda_compute_capability job of None \<Rightarrow> False
               | Some minimum \<Rightarrow>
                   (case fl (gpu_compute_capability gpu) of None \<Rightarrow> True
                    | Some x \<Rightarrow> x < minimum)) then False
      else if ej_minimum_gpu_memory_available_mb job > 0 \<and>
               (case gpu_memory_used_mb gpu of None \<Rightarrow> True
                | Some used \<Rightarrow> free_memory gpu used < ej_minimum_gpu_memory_available_mb job)
      then False
      else \<not> (case ej_maximum_gpu_utilization_percent job of None \<Rightarrow> False
               | Some maximum \<Rightarrow>
                   (case gpu_utilization_percent gpu of None \<Rightarrow> True
                    | Some u \<Rightarrow> u > maximum)))"

definition load_constrained :: "evaluation_job \<Rightarrow> bool" where
  "load_constrained job \<longleftrightarrow>
     ej_minimum_gpu_memory_available_mb job > 0 \<or> ej_maximum_gpu_utilization_percent job \<noteq> None"

text \<open>The reasons collected when no single GPU matches, one group per constraint.\<close>

definition memory_reasons :: "evaluation_job \<Rightarrow> gpu_device list \<Rightarrow> placement_reason list" where
  "memory_reasons job gpus =
     (let maximum = Max (set (map gpu_memory_total_mb gpus)) in
      if maximum < ej_minimum_gpu_memory_mb job
      then [Gpu_memory_low (ej_minimum_gpu_memory_mb job) maximum] else [])"

definition compute_reasons ::
  "(string \<Rightarrow> rat option) \<Rightarrow> evaluation_job \<Rightarrow> gpu_device list \<Rightarrow> placement_reason list" where
  "compute_reasons fl job gpus =
     (let values = List.map_filter (\<lambda>gpu. fl (gpu_compute_capability gpu)) gpus in
      case ej_minimum_cuda_compute_capability job of None \<Rightarrow> []
      | Some minimum \<Rightarrow>
          if values = [] then [Compute_capability_unavailable]
          else if Max (set values) < minimum
          then [Compute_capability_low minimum (Max (set values))] else [])"

definition free_memory_reasons :: "evaluation_job \<Rightarrow> gpu_device list \<Rightarrow> placement_reason list" where
  "free_memory_reasons job gpus =
     (let values = List.map_filter
        (\<lambda>gpu. map_option (\<lambda>used. free_memory gpu used) (gpu_memory_used_mb gpu)) gpus in
      if ej_minimum_gpu_memory_available_mb job > 0 then
        if values = [] then [Free_memory_unavailable]
        else if Max (set values) < ej_minimum_gpu_memory_available_mb job
        then [Free_memory_low (ej_minimum_gpu_memory_available_mb job) (Max (set values))] else []
      else [])"

definition utilization_reasons :: "evaluation_job \<Rightarrow> gpu_device list \<Rightarrow> placement_reason list" where
  "utilization_reasons job gpus =
     (let values = List.map_filter gpu_utilization_percent gpus in
      case ej_maximum_gpu_utilization_percent job of None \<Rightarrow> []
      | Some maximum \<Rightarrow>
          if values = [] then [Utilization_unavailable]
          else if Min (set values) > maximum
          then [Utilization_high maximum (Min (set values))] else [])"

definition mig_reasons :: "evaluation_job \<Rightarrow> gpu_device list \<Rightarrow> placement_reason list" where
  "mig_reasons job gpus =
     (case ej_required_mig_profile job of None \<Rightarrow> []
      | Some required \<Rightarrow>
          let profiles = sorted_set (List.map_filter gpu_mig_profile gpus) in
          if profiles = [] then [Mig_profile_unavailable]
          else if required \<notin> set profiles then [Mig_profile_mismatch required profiles] else [])"

definition gpu_reasons ::
  "(string \<Rightarrow> rat option) \<Rightarrow> evaluation_job \<Rightarrow> gpu_device list \<Rightarrow> placement_reason list" where
  "gpu_reasons fl job gpus =
     (if ej_minimum_gpu_memory_mb job = 0 \<and> ej_minimum_cuda_compute_capability job = None \<and>
         \<not> load_constrained job \<and> ej_required_mig_profile job = None then []
      else if gpus = [] then [No_gpu_telemetry]
      else if list_ex (gpu_matches fl job) gpus then []
      else
        let reasons = memory_reasons job gpus @ compute_reasons fl job gpus @
              free_memory_reasons job gpus @ utilization_reasons job gpus @ mig_reasons job gpus in
        if reasons = [] then
          [if load_constrained job then No_single_gpu_under_load else No_single_gpu]
        else reasons)"

definition label_reasons ::
  "(string, string) dict \<Rightarrow> (string, string) dict \<Rightarrow> placement_reason list" where
  "label_reasons required labels = concat (map
     (\<lambda>(key, value). let actual = map_of labels key in
        if actual \<noteq> Some value then [Label_mismatch key value actual] else []) required)"

definition diagnose_worker ::
  "(string \<Rightarrow> rat option) \<Rightarrow> evaluation_job \<Rightarrow> worker_record \<Rightarrow> bool
     \<Rightarrow> worker_placement_diagnostic" where
  "diagnose_worker fl job worker active =
     (let capabilities = wr_capabilities worker;
          reasons =
            (if \<not> active then [Stale_heartbeat] else []) @
            (if ej_required_accelerator job \<notin> set (wc_accelerators capabilities)
             then [Missing_accelerator (ej_required_accelerator job)] else []) @
            label_reasons (ej_required_labels job) (wc_labels capabilities) @
            gpu_reasons fl job (wc_gpus capabilities)
      in \<lparr>wd_worker_id = wr_worker_id worker, wd_active = active, wd_eligible = (reasons = []),
          wd_last_seen_at = wr_last_seen_at worker, wd_reasons = reasons\<rparr>)"

definition placement_blockers ::
  "evaluation_job \<Rightarrow> worker_record list \<Rightarrow> nat \<Rightarrow> nat \<Rightarrow> placement_blocker list" where
  "placement_blockers job workers active_workers matching_workers =
     (if ej_status job \<noteq> QUEUED then [Not_queued (ej_status job)] else []) @
     (if workers = [] then [No_workers]
      else if active_workers = 0 then [No_active_worker]
      else if matching_workers = 0 then [No_matching_worker] else [])"

definition diagnose_placement ::
  "(string \<Rightarrow> rat option) \<Rightarrow> instant \<Rightarrow> int \<Rightarrow> evaluation_job \<Rightarrow> worker_record list
     \<Rightarrow> job_placement_diagnostic result" where
  "diagnose_placement fl observed_at active_within_seconds job workers =
     (if active_within_seconds \<le> 0 then Inl (ValueError ''active worker window must be positive'')
      else
        let active_after = observed_at - active_within_seconds * second;
            worker_diagnostics =
              map (\<lambda>w. diagnose_worker fl job w (active_after \<le> wr_last_seen_at w)) workers;
            active_workers = count_if wd_active worker_diagnostics;
            matching_workers = count_if wd_eligible worker_diagnostics
        in Inr \<lparr>jd_job_id = ej_job_id job, jd_job_status = ej_status job,
             jd_observed_at = observed_at,
             jd_active_worker_window_seconds = active_within_seconds,
             jd_schedulable = (ej_status job = QUEUED \<and> matching_workers > 0),
             jd_active_workers = active_workers, jd_matching_workers = matching_workers,
             jd_blockers = placement_blockers job workers active_workers matching_workers,
             jd_workers = worker_diagnostics\<rparr>)"

subsection \<open>When there are no reasons\<close>

lemma map_filter_Nil: "List.map_filter f xs = [] \<longleftrightarrow> (\<forall>x \<in> set xs. f x = None)"
  by (induction xs) (auto simp: List.map_filter_simps split: option.splits)

text \<open>The reasons about GPUs are empty exactly for an unconstrained job or a matching GPU.\<close>

lemma gpu_reasons_Nil:
  "gpu_reasons fl job gpus = [] \<longleftrightarrow>
     (ej_minimum_gpu_memory_mb job = 0 \<and> ej_minimum_cuda_compute_capability job = None \<and>
      \<not> load_constrained job \<and> ej_required_mig_profile job = None) \<or>
     (\<exists>gpu \<in> set gpus. gpu_matches fl job gpu)"
  by (auto simp: gpu_reasons_def Let_def list_ex_iff)

lemma label_reasons_Nil:
  "label_reasons required labels = [] \<longleftrightarrow> (\<forall>(k, v) \<in> set required. map_of labels k = Some v)"
  by (fastforce simp: label_reasons_def Let_def split: if_splits)

lemma eligible_iff:
  "wd_eligible (diagnose_worker fl job worker active) \<longleftrightarrow>
     active \<and> ej_required_accelerator job \<in> set (wc_accelerators (wr_capabilities worker)) \<and>
     (\<forall>(k, v) \<in> set (ej_required_labels job). map_of (wc_labels (wr_capabilities worker)) k = Some v) \<and>
     gpu_reasons fl job (wc_gpus (wr_capabilities worker)) = []"
  by (auto simp: diagnose_worker_def Let_def label_reasons_Nil)

lemma diagnose_worker_fields [simp]:
  "wd_worker_id (diagnose_worker fl job w a) = wr_worker_id w"
  "wd_active (diagnose_worker fl job w a) = a"
  by (simp_all add: diagnose_worker_def Let_def)

lemma eligible_active: "wd_eligible (diagnose_worker fl job w a) \<Longrightarrow> a"
  by (simp add: eligible_iff)

end
