(* ===== verification/Jobs.thy ===== *)
theory Jobs
  imports Quotas Placement
begin

section \<open>The job queue (\<open>store.py\<close>)\<close>

text \<open>
  The \<open>evaluation_jobs\<close> and \<open>workers\<close> tables and the operations of \<open>ArtifactStore\<close> on them: enqueue,
  lease, renew, complete, fail, cancel, and the reads. An operation runs as the bound tenant \<open>t\<close> at
  the database time \<open>now\<close>; one that raises leaves the state as it was, the transaction being rolled
  back, so it returns only the exception. \<open>FOR UPDATE SKIP LOCKED\<close> and the advisory lock of a
  tenant make each operation one step.

  \<open>fl\<close> is \<open>float()\<close> on a compute capability. Where \<open>ORDER BY\<close> leaves ties, table order decides.
\<close>

record job_db =
  db_jobs :: "evaluation_job table"
  db_workers :: "worker_record table"
  db_quotas :: quota_table
  db_runs :: "uuid table"

subsection \<open>Enqueue\<close>

record job_request =
  jr_suite_path :: string
  jr_agent_version :: string
  jr_priority :: int
  jr_max_attempts :: int
  jr_required_accelerator :: accelerator
  jr_required_labels :: "(string, string) dict"
  jr_minimum_gpu_memory_mb :: int
  jr_minimum_cuda_compute_capability :: "rat option"
  jr_minimum_gpu_memory_available_mb :: int
  jr_maximum_gpu_utilization_percent :: "rat option"
  jr_required_mig_profile :: "string option"
  jr_traceparent :: "string option"
  jr_request_id :: "string option"

text \<open>\<open>setdefault("runtime", label)\<close> for an agent version with the given prefix, then the check.\<close>

definition require_runtime ::
  "string \<Rightarrow> string \<times> string \<Rightarrow> (string, string) dict \<Rightarrow> (string, string) dict result" where
  "require_runtime agent_version = (\<lambda>(prefix, label) labels.
     if starts_with prefix agent_version then
       (case map_of labels ''runtime'' of
          None \<Rightarrow> Inr (dict_set ''runtime'' label labels)
        | Some runtime_label \<Rightarrow>
            if runtime_label \<noteq> label then Inl (ValueError ''jobs require the runtime label'')
            else Inr labels)
     else Inr labels)"

definition RUNTIME_LABELS :: "(string \<times> string) list" where
  "RUNTIME_LABELS = [(''ollama/'', ''ollama''), (''openai/'', ''openai-compatible''),
     (''nim/'', ''nvidia-nim''), (''bedrock/'', ''aws-bedrock'')]"

definition effective_labels ::
  "string \<Rightarrow> (string, string) dict \<Rightarrow> (string, string) dict result" where
  "effective_labels agent_version labels =
     fold (\<lambda>entry m. bind_result m (require_runtime agent_version entry)) RUNTIME_LABELS (Inr labels)"

definition new_job :: "uuid \<Rightarrow> instant \<Rightarrow> (string, string) dict \<Rightarrow> job_request \<Rightarrow> evaluation_job" where
  "new_job fresh_id created labels r =
     \<lparr>ej_job_id = fresh_id, ej_suite_path = jr_suite_path r, ej_agent_version = jr_agent_version r,
      ej_status = QUEUED, ej_priority = jr_priority r, ej_attempts = 0,
      ej_max_attempts = jr_max_attempts r, ej_created_at = created, ej_updated_at = created,
      ej_started_at = None, ej_lease_owner = None, ej_lease_expires_at = None, ej_run_id = None,
      ej_error = None, ej_required_accelerator = jr_required_accelerator r,
      ej_required_labels = labels, ej_minimum_gpu_memory_mb = jr_minimum_gpu_memory_mb r,
      ej_minimum_cuda_compute_capability = jr_minimum_cuda_compute_capability r,
      ej_minimum_gpu_memory_available_mb = jr_minimum_gpu_memory_available_mb r,
      ej_maximum_gpu_utilization_percent = jr_maximum_gpu_utilization_percent r,
      ej_required_mig_profile = jr_required_mig_profile r, ej_traceparent = jr_traceparent r,
      ej_request_id = jr_request_id r\<rparr>"

definition enqueue_quota_check :: "instant \<Rightarrow> tenant \<Rightarrow> job_db \<Rightarrow> unit result" where
  "enqueue_quota_check now t db =
     (case tenant_quota (db_quotas db) t of None \<Rightarrow> Inr ()
      | Some quota \<Rightarrow>
          let usage = tenant_quota_usage now (visible t (db_jobs db)) in
          if limit_reached (max_queued_jobs quota) (qu_queued_jobs usage) then
            Inl (TenantQuotaExceededError ''max_queued_jobs'' (the (max_queued_jobs quota))
              (int (qu_queued_jobs usage) + 1))
          else if limit_reached (max_jobs_per_hour quota) (qu_jobs_submitted_last_hour usage) then
            Inl (TenantQuotaExceededError ''max_jobs_per_hour'' (the (max_jobs_per_hour quota))
              (int (qu_jobs_submitted_last_hour usage) + 1))
          else Inr ())"

definition job_id_taken :: "uuid \<Rightarrow> job_db \<Rightarrow> bool" where
  "job_id_taken i db \<longleftrightarrow> i \<in> set (map (ej_job_id \<circ> snd) (db_jobs db))"

text \<open>\<open>fresh_id\<close> is \<open>uuid4()\<close>, \<open>created\<close> the clock of the process; \<open>job_id\<close> is the primary key.\<close>

definition enqueue_job ::
  "uuid \<Rightarrow> instant \<Rightarrow> instant \<Rightarrow> tenant \<Rightarrow> job_request \<Rightarrow> job_db \<Rightarrow> (job_db \<times> evaluation_job) result"
where
  "enqueue_job fresh_id created now t r db =
     bind_result (effective_labels (jr_agent_version r) (jr_required_labels r)) (\<lambda>labels.
     bind_result (validate_evaluation_job (new_job fresh_id created labels r)) (\<lambda>job.
     bind_result (enqueue_quota_check now t db) (\<lambda>_.
       if job_id_taken fresh_id db then Inl (UniqueViolation ''evaluation_jobs_pkey'')
       else Inr (db\<lparr>db_jobs := insert_row t job (db_jobs db)\<rparr>, job))))"

subsection \<open>Reads\<close>

definition get_job :: "tenant \<Rightarrow> uuid \<Rightarrow> job_db \<Rightarrow> evaluation_job result" where
  "get_job t job_id db =
     (case find (\<lambda>j. ej_job_id j = job_id) (visible t (db_jobs db)) of
        None \<Rightarrow> Inl (KeyError ''job'')
      | Some j \<Rightarrow> Inr j)"

definition list_jobs :: "tenant \<Rightarrow> nat \<Rightarrow> job_status option \<Rightarrow> job_db \<Rightarrow> evaluation_job list" where
  "list_jobs t limit status db =
     take limit (sort_key (\<lambda>j. - ej_created_at j)
       (filter (\<lambda>j. case status of None \<Rightarrow> True | Some s \<Rightarrow> ej_status j = s) (visible t (db_jobs db))))"

definition list_workers :: "tenant \<Rightarrow> job_db \<Rightarrow> worker_record list" where
  "list_workers t db = sort_key (\<lambda>w. - wr_last_seen_at w) (visible t (db_workers db))"

definition placement_diagnostic ::
  "(string \<Rightarrow> rat option) \<Rightarrow> instant \<Rightarrow> tenant \<Rightarrow> uuid \<Rightarrow> job_db \<Rightarrow> job_placement_diagnostic result" where
  "placement_diagnostic fl now t job_id db =
     bind_result (get_job t job_id db)
       (\<lambda>job. diagnose_placement fl now DEFAULT_WORKER_ACTIVE_SECONDS job (list_workers t db))"

subsection \<open>Lease\<close>

text \<open>The profile of a GPU as the claim query sees it; a SQL comparison with NULL is not true.\<close>

record gpu_profile =
  gp_memory_total_mb :: int
  gp_memory_used_mb :: "int option"
  gp_compute_capability :: "rat option"
  gp_utilization_percent :: "rat option"
  gp_mig_profile :: "string option"

definition gpu_profile_of :: "(string \<Rightarrow> rat option) \<Rightarrow> gpu_device \<Rightarrow> gpu_profile" where
  "gpu_profile_of fl gpu =
     \<lparr>gp_memory_total_mb = gpu_memory_total_mb gpu, gp_memory_used_mb = gpu_memory_used_mb gpu,
      gp_compute_capability = fl (gpu_compute_capability gpu),
      gp_utilization_percent = gpu_utilization_percent gpu, gp_mig_profile = gpu_mig_profile gpu\<rparr>"

definition sql_ge :: "'a::linorder option \<Rightarrow> 'a \<Rightarrow> bool" where
  "sql_ge x y = (case x of None \<Rightarrow> False | Some v \<Rightarrow> y \<le> v)"

definition profile_fits :: "evaluation_job \<Rightarrow> gpu_profile \<Rightarrow> bool" where
  "profile_fits job gpu \<longleftrightarrow>
     gp_memory_total_mb gpu \<ge> ej_minimum_gpu_memory_mb job
   \<and> (case ej_minimum_cuda_compute_capability job of None \<Rightarrow> True
      | Some minimum \<Rightarrow> sql_ge (gp_compute_capability gpu) minimum)
   \<and> (ej_minimum_gpu_memory_available_mb job = 0 \<or>
      (case gp_memory_used_mb gpu of None \<Rightarrow> False
       | Some used \<Rightarrow> max 0 (gp_memory_total_mb gpu - used) \<ge> ej_minimum_gpu_memory_available_mb job))
   \<and> (case ej_maximum_gpu_utilization_percent job of None \<Rightarrow> True
      | Some maximum \<Rightarrow>
          (case gp_utilization_percent gpu of None \<Rightarrow> False | Some u \<Rightarrow> u \<le> maximum))
   \<and> (case ej_required_mig_profile job of None \<Rightarrow> True
      | Some profile \<Rightarrow> gp_mig_profile gpu = Some profile)"

text \<open>What a worker offers: without capabilities, a CPU and nothing else.\<close>

definition offered_accelerators :: "worker_capabilities option \<Rightarrow> accelerator list" where
  "offered_accelerators caps = (case caps of None \<Rightarrow> [CPU] | Some c \<Rightarrow> wc_accelerators c)"

definition offered_labels :: "worker_capabilities option \<Rightarrow> (string, string) dict" where
  "offered_labels caps = (case caps of None \<Rightarrow> [] | Some c \<Rightarrow> wc_labels c)"

definition offered_gpus ::
  "(string \<Rightarrow> rat option) \<Rightarrow> worker_capabilities option \<Rightarrow> gpu_profile list" where
  "offered_gpus fl caps = (case caps of None \<Rightarrow> [] | Some c \<Rightarrow> map (gpu_profile_of fl) (wc_gpus c))"

text \<open>The part of the \<open>WHERE\<close> clause about the worker.\<close>

definition capabilities_fit ::
  "(string \<Rightarrow> rat option) \<Rightarrow> worker_capabilities option \<Rightarrow> evaluation_job \<Rightarrow> bool" where
  "capabilities_fit fl caps job \<longleftrightarrow>
     ej_required_accelerator job \<in> set (offered_accelerators caps)
   \<and> list_all (\<lambda>(k, v). map_of (offered_labels caps) k = Some v) (ej_required_labels job)
   \<and> ((ej_minimum_gpu_memory_mb job = 0 \<and> ej_minimum_cuda_compute_capability job = None \<and>
       ej_minimum_gpu_memory_available_mb job = 0 \<and> ej_maximum_gpu_utilization_percent job = None \<and>
       ej_required_mig_profile job = None)
      \<or> list_ex (profile_fits job) (offered_gpus fl caps))"

definition lease_expired :: "instant \<Rightarrow> evaluation_job \<Rightarrow> bool" where
  "lease_expired now j = (case ej_lease_expires_at j of None \<Rightarrow> False | Some e \<Rightarrow> e < now)"

definition claimable ::
  "(string \<Rightarrow> rat option) \<Rightarrow> instant \<Rightarrow> worker_capabilities option \<Rightarrow> bool \<Rightarrow> evaluation_job \<Rightarrow> bool" where
  "claimable fl now caps cuda_quota_available job \<longleftrightarrow>
     ej_attempts job < ej_max_attempts job
   \<and> (ej_required_accelerator job \<noteq> CUDA \<or> cuda_quota_available)
   \<and> capabilities_fit fl caps job
   \<and> (ej_status job = QUEUED \<or> ej_status job = RUNNING \<and> lease_expired now job)"

text \<open>\<open>ORDER BY priority DESC, created_at ... LIMIT 1\<close>\<close>

definition claim ::
  "(string \<Rightarrow> rat option) \<Rightarrow> instant \<Rightarrow> worker_capabilities option \<Rightarrow> bool \<Rightarrow> evaluation_job list
     \<Rightarrow> evaluation_job option" where
  "claim fl now caps cuda_quota_available jobs =
     (case sort_key (\<lambda>j. (- ej_priority j, ej_created_at j))
             (filter (claimable fl now caps cuda_quota_available) jobs) of
        [] \<Rightarrow> None
      | j # _ \<Rightarrow> Some j)"

definition leased :: "instant \<Rightarrow> string \<Rightarrow> int \<Rightarrow> evaluation_job \<Rightarrow> evaluation_job" where
  "leased now worker_id lease_seconds j =
     j\<lparr>ej_status := RUNNING, ej_attempts := ej_attempts j + 1, ej_started_at := Some now,
       ej_lease_owner := Some worker_id,
       ej_lease_expires_at := Some (now + lease_seconds * second),
       ej_updated_at := now, ej_error := None\<rparr>"

text \<open>The quota gate of a lease: \<open>None\<close> when no job may start, else whether a CUDA job may.\<close>

definition lease_quota :: "instant \<Rightarrow> tenant \<Rightarrow> job_db \<Rightarrow> bool option" where
  "lease_quota now t db =
     (case tenant_quota (db_quotas db) t of None \<Rightarrow> Some True
      | Some quota \<Rightarrow>
          let usage = tenant_quota_usage now (visible t (db_jobs db)) in
          if limit_reached (max_running_jobs quota) (qu_active_running_jobs usage) then None
          else Some (\<not> limit_reached (max_running_cuda_jobs quota) (qu_active_running_cuda_jobs usage)))"

definition lease_job ::
  "(string \<Rightarrow> rat option) \<Rightarrow> instant \<Rightarrow> tenant \<Rightarrow> string \<Rightarrow> int \<Rightarrow> worker_capabilities option \<Rightarrow> job_db
     \<Rightarrow> job_db \<times> evaluation_job option" where
  "lease_job fl now t worker_id lease_seconds caps db =
     (case lease_quota now t db of None \<Rightarrow> (db, None)
      | Some cuda_quota_available \<Rightarrow>
          (case claim fl now caps cuda_quota_available (visible t (db_jobs db)) of
             None \<Rightarrow> (db, None)
           | Some j \<Rightarrow>
               (db\<lparr>db_jobs := update_where t (\<lambda>x. ej_job_id x = ej_job_id j)
                     (leased now worker_id lease_seconds) (db_jobs db)\<rparr>,
                Some (leased now worker_id lease_seconds j))))"

subsection \<open>Lease holders\<close>

text \<open>\<open>WHERE job_id = %s AND status = 'running' AND lease_owner = %s\<close>\<close>

definition holds_lease :: "uuid \<Rightarrow> string \<Rightarrow> evaluation_job \<Rightarrow> bool" where
  "holds_lease job_id worker_id j \<longleftrightarrow>
     ej_job_id j = job_id \<and> ej_status j = RUNNING \<and> ej_lease_owner j = Some worker_id"

definition leased_job_or_error ::
  "job_db \<Rightarrow> evaluation_job option \<Rightarrow> (job_db \<times> evaluation_job) result" where
  "leased_job_or_error db row =
     (case row of None \<Rightarrow> Inl (RuntimeError ''worker no longer owns the lease for job'')
      | Some j \<Rightarrow> Inr (db, j))"

definition update_job ::
  "tenant \<Rightarrow> (evaluation_job \<Rightarrow> bool) \<Rightarrow> (evaluation_job \<Rightarrow> evaluation_job) \<Rightarrow> job_db
     \<Rightarrow> job_db \<times> evaluation_job option" where
  "update_job t p f db =
     (db\<lparr>db_jobs := update_where t p f (db_jobs db)\<rparr>, returning t p f (db_jobs db))"

definition renewed :: "instant \<Rightarrow> int \<Rightarrow> evaluation_job \<Rightarrow> evaluation_job" where
  "renewed now lease_seconds j =
     j\<lparr>ej_lease_expires_at := Some (now + lease_seconds * second), ej_updated_at := now\<rparr>"

definition renew_job_lease ::
  "instant \<Rightarrow> tenant \<Rightarrow> uuid \<Rightarrow> string \<Rightarrow> int \<Rightarrow> job_db \<Rightarrow> (job_db \<times> evaluation_job) result" where
  "renew_job_lease now t job_id worker_id lease_seconds db =
     (case update_job t (holds_lease job_id worker_id) (renewed now lease_seconds) db of
        (db', row) \<Rightarrow> leased_job_or_error db' row)"

definition completed :: "instant \<Rightarrow> uuid \<Rightarrow> evaluation_job \<Rightarrow> evaluation_job" where
  "completed now run j =
     j\<lparr>ej_status := COMPLETED, ej_run_id := Some run, ej_updated_at := now,
       ej_lease_owner := None, ej_lease_expires_at := None, ej_error := None\<rparr>"

text \<open>The foreign key \<open>(tenant_id, run_id)\<close> is checked for the row that the update changes.\<close>

definition complete_job ::
  "instant \<Rightarrow> tenant \<Rightarrow> uuid \<Rightarrow> string \<Rightarrow> uuid \<Rightarrow> job_db \<Rightarrow> (job_db \<times> evaluation_job) result" where
  "complete_job now t job_id worker_id run db =
     (case update_job t (holds_lease job_id worker_id) (completed now run) db of
        (db', row) \<Rightarrow>
          if row \<noteq> None \<and> run \<notin> set (visible t (db_runs db))
          then Inl (ForeignKeyViolation ''evaluation_jobs_tenant_run_fkey'')
          else leased_job_or_error db' row)"

definition failed :: "instant \<Rightarrow> string \<Rightarrow> evaluation_job \<Rightarrow> evaluation_job" where
  "failed now error j =
     j\<lparr>ej_status := (if ej_attempts j \<ge> ej_max_attempts j then FAILED_JOB else QUEUED),
       ej_updated_at := now,
       ej_started_at := (if ej_attempts j \<ge> ej_max_attempts j then ej_started_at j else None),
       ej_lease_owner := None, ej_lease_expires_at := None, ej_error := Some (take 4000 error)\<rparr>"

definition fail_job ::
  "instant \<Rightarrow> tenant \<Rightarrow> uuid \<Rightarrow> string \<Rightarrow> string \<Rightarrow> job_db \<Rightarrow> (job_db \<times> evaluation_job) result" where
  "fail_job now t job_id worker_id error db =
     (case update_job t (holds_lease job_id worker_id) (failed now error) db of
        (db', row) \<Rightarrow> leased_job_or_error db' row)"

definition cancelled :: "instant \<Rightarrow> evaluation_job \<Rightarrow> evaluation_job" where
  "cancelled now j =
     j\<lparr>ej_status := CANCELLED, ej_updated_at := now, ej_lease_owner := None, ej_lease_expires_at := None\<rparr>"

definition cancel_job ::
  "instant \<Rightarrow> tenant \<Rightarrow> uuid \<Rightarrow> job_db \<Rightarrow> (job_db \<times> evaluation_job) result" where
  "cancel_job now t job_id db =
     (case update_job t (\<lambda>j. ej_job_id j = job_id \<and> (ej_status j = QUEUED \<or> ej_status j = RUNNING))
             (cancelled now) db of
        (db', Some j) \<Rightarrow> Inr (db', j)
      | (db', None) \<Rightarrow> bind_result (get_job t job_id db)
          (\<lambda>existing. Inl (ValueError ''job cannot be cancelled in this state'')))"

subsection \<open>Workers\<close>

text \<open>\<open>INSERT ... ON CONFLICT(tenant_id, worker_id) DO UPDATE\<close>\<close>

definition register_worker ::
  "instant \<Rightarrow> tenant \<Rightarrow> string \<Rightarrow> worker_capabilities \<Rightarrow> job_db \<Rightarrow> job_db \<times> worker_record" where
  "register_worker now t worker_id caps db =
     (let p = (\<lambda>w. wr_worker_id w = worker_id);
          f = (\<lambda>w. w\<lparr>wr_capabilities := caps, wr_last_seen_at := now\<rparr>);
          new = \<lparr>wr_worker_id = worker_id, wr_capabilities = caps, wr_registered_at = now,
                 wr_last_seen_at = now\<rparr>
      in case returning t p f (db_workers db) of
           Some w \<Rightarrow> (db\<lparr>db_workers := update_where t p f (db_workers db)\<rparr>, w)
         | None \<Rightarrow> (db\<lparr>db_workers := insert_row t new (db_workers db)\<rparr>, new))"

end
