(* ===== verification/Job_Lifecycle.thy ===== *)
theory Job_Lifecycle
  imports Jobs
begin

section \<open>The life of a job\<close>

text \<open>
  The queue as a state machine: \<open>job_step\<close> has one rule per operation of \<open>Jobs\<close> that changes the
  state, at a database time that never runs backwards, with any tenant and any arguments. The
  lemmas give the invariant of the reachable states, what a lease picks, who may end a job and how
  often it can be tried.
\<close>

subsection \<open>Invariant\<close>

definition job_ok :: "evaluation_job \<Rightarrow> bool" where
  "job_ok j \<longleftrightarrow> valid_job j
   \<and> (ej_status j = RUNNING \<longleftrightarrow> ej_lease_owner j \<noteq> None)
   \<and> (ej_status j = RUNNING \<longleftrightarrow> ej_lease_expires_at j \<noteq> None)
   \<and> ej_attempts j \<le> ej_max_attempts j
   \<and> (ej_status j = QUEUED \<longrightarrow> ej_attempts j < ej_max_attempts j \<and> ej_started_at j = None)
   \<and> (ej_status j = RUNNING \<longrightarrow> 1 \<le> ej_attempts j \<and> ej_started_at j \<noteq> None \<and> ej_error j = None)
   \<and> (ej_status j = COMPLETED \<longrightarrow> 1 \<le> ej_attempts j \<and> ej_error j = None)
   \<and> (ej_status j = COMPLETED \<longleftrightarrow> ej_run_id j \<noteq> None)
   \<and> (ej_status j = FAILED_JOB \<longrightarrow> ej_attempts j = ej_max_attempts j \<and> ej_error j \<noteq> None)"

definition runs_exist :: "job_db \<Rightarrow> bool" where
  "runs_exist db \<longleftrightarrow> (\<forall>(t, j) \<in> set (db_jobs db). \<forall>r. ej_run_id j = Some r \<longrightarrow> (t, r) \<in> set (db_runs db))"

definition job_db_ok :: "job_db \<Rightarrow> bool" where
  "job_db_ok db \<longleftrightarrow> all_rows job_ok (db_jobs db) \<and> unique_key ej_job_id (db_jobs db) \<and> runs_exist db"

lemma valid_job_simps [simp]:
  "valid_job (leased now w s j) \<longleftrightarrow> valid_job (j\<lparr>ej_attempts := ej_attempts j + 1\<rparr>)"
  "valid_job (renewed now s j) = valid_job j"
  "valid_job (completed now r j) = valid_job j"
  "valid_job (failed now e j) = valid_job j"
  "valid_job (cancelled now j) = valid_job j"
  by (simp_all add: valid_job_def job_fields_ok_def has_gpu_constraints_def leased_def renewed_def
      completed_def failed_def cancelled_def)

lemma valid_job_attempt: "valid_job j \<Longrightarrow> valid_job (j\<lparr>ej_attempts := ej_attempts j + 1\<rparr>)"
  by (simp add: valid_job_def job_fields_ok_def has_gpu_constraints_def)

lemma job_id_simps [simp]:
  "ej_job_id (leased now w s j) = ej_job_id j"
  "ej_job_id (renewed now s j) = ej_job_id j"
  "ej_job_id (completed now r j) = ej_job_id j"
  "ej_job_id (failed now e j) = ej_job_id j"
  "ej_job_id (cancelled now j) = ej_job_id j"
  by (simp_all add: leased_def renewed_def completed_def failed_def cancelled_def)

lemma leased_fields [simp]:
  "ej_status (leased now w s j) = RUNNING" "ej_attempts (leased now w s j) = ej_attempts j + 1"
  "ej_max_attempts (leased now w s j) = ej_max_attempts j"
  "ej_started_at (leased now w s j) = Some now" "ej_lease_owner (leased now w s j) = Some w"
  "ej_lease_expires_at (leased now w s j) = Some (now + s * second)"
  "ej_error (leased now w s j) = None" "ej_run_id (leased now w s j) = ej_run_id j"
  by (simp_all add: leased_def)

lemma renewed_fields [simp]:
  "ej_status (renewed now s j) = ej_status j" "ej_attempts (renewed now s j) = ej_attempts j"
  "ej_max_attempts (renewed now s j) = ej_max_attempts j"
  "ej_started_at (renewed now s j) = ej_started_at j" "ej_lease_owner (renewed now s j) = ej_lease_owner j"
  "ej_lease_expires_at (renewed now s j) = Some (now + s * second)"
  "ej_error (renewed now s j) = ej_error j" "ej_run_id (renewed now s j) = ej_run_id j"
  by (simp_all add: renewed_def)

lemma completed_fields [simp]:
  "ej_status (completed now r j) = COMPLETED" "ej_attempts (completed now r j) = ej_attempts j"
  "ej_max_attempts (completed now r j) = ej_max_attempts j"
  "ej_started_at (completed now r j) = ej_started_at j" "ej_lease_owner (completed now r j) = None"
  "ej_lease_expires_at (completed now r j) = None"
  "ej_error (completed now r j) = None" "ej_run_id (completed now r j) = Some r"
  by (simp_all add: completed_def)

lemma failed_fields [simp]:
  "ej_status (failed now e j) = (if ej_max_attempts j \<le> ej_attempts j then FAILED_JOB else QUEUED)"
  "ej_attempts (failed now e j) = ej_attempts j" "ej_max_attempts (failed now e j) = ej_max_attempts j"
  "ej_started_at (failed now e j) = (if ej_max_attempts j \<le> ej_attempts j then ej_started_at j else None)"
  "ej_lease_owner (failed now e j) = None" "ej_lease_expires_at (failed now e j) = None"
  "ej_error (failed now e j) = Some (take 4000 e)" "ej_run_id (failed now e j) = ej_run_id j"
  by (simp_all add: failed_def)

lemma cancelled_fields [simp]:
  "ej_status (cancelled now j) = CANCELLED" "ej_attempts (cancelled now j) = ej_attempts j"
  "ej_max_attempts (cancelled now j) = ej_max_attempts j"
  "ej_started_at (cancelled now j) = ej_started_at j" "ej_lease_owner (cancelled now j) = None"
  "ej_lease_expires_at (cancelled now j) = None"
  "ej_error (cancelled now j) = ej_error j" "ej_run_id (cancelled now j) = ej_run_id j"
  by (simp_all add: cancelled_def)

lemma job_ok_leased:
  "job_ok j \<Longrightarrow> ej_attempts j < ej_max_attempts j \<Longrightarrow> ej_status j = QUEUED \<or> ej_status j = RUNNING \<Longrightarrow>
     job_ok (leased now w s j)"
  unfolding job_ok_def by (auto simp: valid_job_attempt) (simp add: valid_job_def job_fields_ok_def)

lemma job_ok_renewed: "job_ok j \<Longrightarrow> ej_status j = RUNNING \<Longrightarrow> job_ok (renewed now s j)"
  unfolding job_ok_def by simp

lemma job_ok_completed: "job_ok j \<Longrightarrow> ej_status j = RUNNING \<Longrightarrow> job_ok (completed now r j)"
  unfolding job_ok_def by simp

lemma job_ok_failed: "job_ok j \<Longrightarrow> ej_status j = RUNNING \<Longrightarrow> job_ok (failed now e j)"
  unfolding job_ok_def by auto

lemma job_ok_cancelled:
  "job_ok j \<Longrightarrow> ej_status j = QUEUED \<or> ej_status j = RUNNING \<Longrightarrow> job_ok (cancelled now j)"
  unfolding job_ok_def by auto

lemma job_ok_new:
  "validate_evaluation_job (new_job i c labels r) = Inr j \<Longrightarrow>
     job_ok j \<and> ej_job_id j = i \<and> ej_status j = QUEUED \<and> ej_attempts j = 0"
  using validate_evaluation_job_valid [of "new_job i c labels r" j]
  by (auto simp: validate_evaluation_job_def gpu_constraints_require_cuda_def Let_def new_job_def
      job_ok_def valid_job_def job_fields_ok_def in_range_def split: if_splits)

subsection \<open>Steps\<close>

datatype job_event =
    Enqueue tenant job_request uuid instant
  | Lease tenant string int "worker_capabilities option" "uuid option"
  | Renew tenant uuid string int
  | Complete tenant uuid string uuid
  | Fail tenant uuid string string
  | Cancel tenant uuid
  | Register tenant string worker_capabilities
  | Save_run_row tenant uuid
  | Set_quota tenant tenant_quota_limits string

text \<open>
  An operation that raises leaves the state; a step is one that does not. The event of a lease says
  which job it returned. \<open>Save_run_row\<close> is the row
  \<open>save_run\<close> adds to \<open>evaluation_runs\<close>, which the queue only refers to.
\<close>

inductive job_step ::
  "(string \<Rightarrow> rat option) \<Rightarrow> instant \<times> job_db \<Rightarrow> job_event \<Rightarrow> instant \<times> job_db \<Rightarrow> bool" for fl where
  enqueue: "now \<le> now' \<Longrightarrow> enqueue_job i c now' t r db = Inr (db', j) \<Longrightarrow>
     job_step fl (now, db) (Enqueue t r i c) (now', db')"
| lease: "now \<le> now' \<Longrightarrow> lease_job fl now' t w s caps db = (db', row) \<Longrightarrow>
     job_step fl (now, db) (Lease t w s caps (map_option ej_job_id row)) (now', db')"
| renew: "now \<le> now' \<Longrightarrow> renew_job_lease now' t i w s db = Inr (db', j) \<Longrightarrow>
     job_step fl (now, db) (Renew t i w s) (now', db')"
| complete: "now \<le> now' \<Longrightarrow> complete_job now' t i w r db = Inr (db', j) \<Longrightarrow>
     job_step fl (now, db) (Complete t i w r) (now', db')"
| fail: "now \<le> now' \<Longrightarrow> fail_job now' t i w e db = Inr (db', j) \<Longrightarrow>
     job_step fl (now, db) (Fail t i w e) (now', db')"
| cancel: "now \<le> now' \<Longrightarrow> cancel_job now' t i db = Inr (db', j) \<Longrightarrow>
     job_step fl (now, db) (Cancel t i) (now', db')"
| register: "now \<le> now' \<Longrightarrow> register_worker now' t w c db = (db', rec) \<Longrightarrow>
     job_step fl (now, db) (Register t w c) (now', db')"
| save_run: "now \<le> now' \<Longrightarrow>
     job_step fl (now, db) (Save_run_row t r) (now', db\<lparr>db_runs := insert_row t r (db_runs db)\<rparr>)"
| set_quota: "now \<le> now' \<Longrightarrow> set_tenant_quota now' t q by_whom (db_quotas db) = Inr (quotas', rec') \<Longrightarrow>
     job_step fl (now, db) (Set_quota t q by_whom) (now', db\<lparr>db_quotas := quotas'\<rparr>)"

inductive job_run ::
  "(string \<Rightarrow> rat option) \<Rightarrow> instant \<times> job_db \<Rightarrow> job_event list \<Rightarrow> instant \<times> job_db \<Rightarrow> bool" for fl where
  nil: "job_run fl c [] c"
| snoc: "job_run fl c es c' \<Longrightarrow> job_step fl c' e c'' \<Longrightarrow> job_run fl c (es @ [e]) c''"

lemma job_run_trans: "job_run fl c' es' c'' \<Longrightarrow> job_run fl c es c' \<Longrightarrow> job_run fl c (es @ es') c''"
proof (induction rule: job_run.induct)
  case (snoc c' es' c'' e c''')
  then show ?case using job_run.snoc by (metis append_assoc)
qed simp

inductive_cases job_stepE: "job_step fl (now, db) e (now', db')"

text \<open>What an event can do to one job of its tenant.\<close>

inductive job_effect ::
  "(string \<Rightarrow> rat option) \<Rightarrow> instant \<Rightarrow> job_event \<Rightarrow> tenant \<Rightarrow> evaluation_job \<Rightarrow> evaluation_job \<Rightarrow> bool"
  for fl now where
  "claimable fl now caps q j \<Longrightarrow> i = ej_job_id j \<Longrightarrow>
     job_effect fl now (Lease t w s caps (Some i)) t j (leased now w s j)"
| "holds_lease i w j \<Longrightarrow> job_effect fl now (Renew t i w s) t j (renewed now s j)"
| "holds_lease i w j \<Longrightarrow> job_effect fl now (Complete t i w r) t j (completed now r j)"
| "holds_lease i w j \<Longrightarrow> job_effect fl now (Fail t i w e) t j (failed now e j)"
| "ej_job_id j = i \<Longrightarrow> ej_status j = QUEUED \<or> ej_status j = RUNNING \<Longrightarrow>
     job_effect fl now (Cancel t i) t j (cancelled now j)"

inductive_cases job_effectE: "job_effect fl now e t j j'"

lemma job_effect_id: "job_effect fl now e t j j' \<Longrightarrow> ej_job_id j' = ej_job_id j"
  by (auto elim: job_effectE)

lemma job_effect_ok: "job_effect fl now e t j j' \<Longrightarrow> job_ok j \<Longrightarrow> job_ok j'"
  by (elim job_effectE)
    (auto simp: claimable_def holds_lease_def
      intro: job_ok_leased job_ok_renewed job_ok_completed job_ok_failed job_ok_cancelled)

subsection \<open>Operations by their effect\<close>

lemma claim_Some:
  assumes "claim fl now caps q jobs = Some j"
  shows "j \<in> set jobs \<and> claimable fl now caps q j \<and>
    (\<forall>x \<in> set jobs. claimable fl now caps q x \<longrightarrow>
       ej_priority x < ej_priority j \<or> ej_priority x = ej_priority j \<and> ej_created_at j \<le> ej_created_at x)"
proof -
  let ?k = "\<lambda>j. (- ej_priority j, ej_created_at j)"
  let ?cs = "filter (claimable fl now caps q) jobs"
  obtain js where js: "sort_key ?k ?cs = j # js"
    using assms by (auto simp: claim_def split: list.splits)
  then have set: "set ?cs = insert j (set js)" by (metis list.simps(15) set_sort)
  have "sorted (map ?k (j # js))" using sorted_sort_key [of ?k ?cs] js by simp
  then have "?k j \<le> ?k x" if "x \<in> insert j (set js)" for x using that by auto
  then have "ej_priority x < ej_priority j \<or> ej_priority x = ej_priority j \<and> ej_created_at j \<le> ej_created_at x"
    if "x \<in> set ?cs" for x using that unfolding set by (fastforce simp: less_eq_prod_def)
  then show ?thesis using set by auto
qed

lemma claim_None: "claim fl now caps q jobs = None \<longleftrightarrow> (\<forall>j \<in> set jobs. \<not> claimable fl now caps q j)"
proof -
  have "claim fl now caps q jobs = None \<longleftrightarrow> filter (claimable fl now caps q) jobs = []"
    by (auto simp: claim_def split: list.splits) (metis length_0_conv length_sort)+
  then show ?thesis by (auto simp: filter_empty_conv)
qed

lemma lease_job_Some:
  assumes "lease_job fl now t w s caps db = (db', Some j')"
  shows "\<exists>j q. (t, j) \<in> set (db_jobs db) \<and> lease_quota now t db = Some q
    \<and> claim fl now caps q (visible t (db_jobs db)) = Some j \<and> j' = leased now w s j
    \<and> db' = db\<lparr>db_jobs := update_where t (\<lambda>x. ej_job_id x = ej_job_id j) (leased now w s) (db_jobs db)\<rparr>"
  using assms claim_Some by (fastforce simp: lease_job_def set_visible split: option.splits)

lemma lease_job_None: "lease_job fl now t w s caps db = (db', None) \<Longrightarrow> db' = db"
  by (auto simp: lease_job_def split: option.splits)

lemma update_job_Some:
  "update_job t p f db = (db', Some j') \<Longrightarrow>
     db' = db\<lparr>db_jobs := update_where t p f (db_jobs db)\<rparr> \<and> (\<exists>j. (t, j) \<in> set (db_jobs db) \<and> p j \<and> j' = f j)"
  using returning_Some by (auto simp: update_job_def)

lemma renew_Inr: "renew_job_lease now t i w s db = Inr (db', j) \<Longrightarrow>
    update_job t (holds_lease i w) (renewed now s) db = (db', Some j)"
  by (auto simp: renew_job_lease_def leased_job_or_error_def split: prod.splits option.splits)

lemma complete_Inr: "complete_job now t i w r db = Inr (db', j) \<Longrightarrow>
    update_job t (holds_lease i w) (completed now r) db = (db', Some j) \<and> (t, r) \<in> set (db_runs db)"
  by (auto simp: complete_job_def leased_job_or_error_def set_visible
      split: prod.splits option.splits if_splits)

lemma fail_Inr: "fail_job now t i w e db = Inr (db', j) \<Longrightarrow>
    update_job t (holds_lease i w) (failed now e) db = (db', Some j)"
  by (auto simp: fail_job_def leased_job_or_error_def split: prod.splits option.splits)

lemma cancel_Inr: "cancel_job now t i db = Inr (db', j) \<Longrightarrow>
    update_job t (\<lambda>j. ej_job_id j = i \<and> (ej_status j = QUEUED \<or> ej_status j = RUNNING)) (cancelled now) db
      = (db', Some j)"
  by (auto simp: cancel_job_def split: prod.splits option.splits)

lemma enqueue_Inr:
  assumes "enqueue_job i c now t r db = Inr (db', j)"
  shows "db' = db\<lparr>db_jobs := insert_row t j (db_jobs db)\<rparr> \<and> job_ok j \<and> ej_job_id j = i
    \<and> ej_status j = QUEUED \<and> ej_attempts j = 0 \<and> \<not> job_id_taken i db \<and> enqueue_quota_check now t db = Inr ()"
  using assms job_ok_new by (auto simp: enqueue_job_def split: if_splits)

lemma update_where_map:
  "update_where t p f tbl = map (\<lambda>(t', x). (t', if t' = t \<and> p x then f x else x)) tbl"
  by (induction tbl) (auto simp: update_where_def)

definition row_wise ::
  "(string \<Rightarrow> rat option) \<Rightarrow> instant \<Rightarrow> job_event \<Rightarrow> evaluation_job table \<Rightarrow> evaluation_job table \<Rightarrow> bool" where
  "row_wise fl now e tbl tbl' \<longleftrightarrow> (\<exists>g. tbl' = map (\<lambda>(t, j). (t, g t j)) tbl \<and>
     (\<forall>(t, j) \<in> set tbl. g t j = j \<or> job_effect fl now e t j (g t j)))"

lemma row_wise_refl: "row_wise fl now e tbl tbl"
  unfolding row_wise_def by (intro exI [of _ "\<lambda>_ j. j"]) simp

lemma row_wise_update:
  assumes "\<And>j. (t, j) \<in> set tbl \<Longrightarrow> p j \<Longrightarrow> job_effect fl now e t j (f j)"
  shows "row_wise fl now e tbl (update_where t p f tbl)"
  unfolding row_wise_def update_where_map
  by (intro exI [of _ "\<lambda>t' x. if t' = t \<and> p x then f x else x"]) (use assms in auto)

text \<open>
  A step rewrites the rows of the table one by one and may add one; a row that changes does so by
  an effect of the event.
\<close>

lemma step_rows:
  assumes "job_step fl (now, db) e (now', db')" and unique: "unique_key ej_job_id (db_jobs db)"
  shows "\<exists>tbl new. row_wise fl now' e (db_jobs db) tbl \<and> db_jobs db' = tbl @ new
    \<and> (new = [] \<or> (\<exists>t r i c j. e = Enqueue t r i c \<and> new = [(t, j)] \<and> job_ok j \<and> ej_job_id j = i
          \<and> ej_status j = QUEUED \<and> ej_attempts j = 0 \<and> \<not> job_id_taken i db))"
proof -
  have kept: ?thesis if "db_jobs db' = db_jobs db"
    using that row_wise_refl by (intro exI [of _ "db_jobs db"] exI [of _ "[]"]) simp
  have rewritten: ?thesis if "db_jobs db' = update_where t p f (db_jobs db)"
    "\<And>j. (t, j) \<in> set (db_jobs db) \<Longrightarrow> p j \<Longrightarrow> job_effect fl now' e t j (f j)" for t p f
    using that row_wise_update [of t "db_jobs db" p]
    by (intro exI [of _ "db_jobs db'"] exI [of _ "[]"]) simp
  from assms(1) show ?thesis
  proof (cases rule: job_step.cases)
    case (enqueue i c t r j)
    then show ?thesis
      using enqueue_Inr [of i c now' t r db db' j] row_wise_refl
      by (intro exI [of _ "db_jobs db"] exI [of _ "[(t, j)]"]) (auto simp: insert_row_def)
  next
    case (lease t w s caps row)
    show ?thesis
    proof (cases row)
      case None
      then have "lease_job fl now' t w s caps db = (db', None)" using lease by simp
      then have "db' = db" by (rule lease_job_None)
      then show ?thesis by (intro kept) simp
    next
      case (Some j')
      then obtain j q where j: "(t, j) \<in> set (db_jobs db)"
        "claim fl now' caps q (visible t (db_jobs db)) = Some j" "j' = leased now' w s j"
        "db' = db\<lparr>db_jobs := update_where t (\<lambda>x. ej_job_id x = ej_job_id j) (leased now' w s) (db_jobs db)\<rparr>"
        using lease lease_job_Some by blast
      have "job_effect fl now' e t x (leased now' w s x)"
        if "(t, x) \<in> set (db_jobs db)" "ej_job_id x = ej_job_id j" for x
      proof -
        have "x = j" using unique_keyD [OF unique that(1) j(1) that(2)] by simp
        then show ?thesis using lease Some j claim_Some [OF j(2)] by (auto intro: job_effect.intros)
      qed
      then show ?thesis using j(4)
        by (intro rewritten [of t "\<lambda>x. ej_job_id x = ej_job_id j" "leased now' w s"]) auto
    qed
  next
    case (renew t i w s j)
    then show ?thesis using renew_Inr update_job_Some
      by (intro rewritten [of t "holds_lease i w" "renewed now' s"]) (fastforce intro: job_effect.intros)+
  next
    case (complete t i w r j)
    then show ?thesis using complete_Inr update_job_Some
      by (intro rewritten [of t "holds_lease i w" "completed now' r"]) (fastforce intro: job_effect.intros)+
  next
    case (fail t i w e' j)
    then show ?thesis using fail_Inr update_job_Some
      by (intro rewritten [of t "holds_lease i w" "failed now' e'"]) (fastforce intro: job_effect.intros)+
  next
    case (cancel t i j)
    then show ?thesis using cancel_Inr update_job_Some
      by (intro rewritten [of t "\<lambda>j. ej_job_id j = i \<and> (ej_status j = QUEUED \<or> ej_status j = RUNNING)" "cancelled now'"])
        (fastforce intro: job_effect.intros)+
  next
    case (register t w c rec)
    then have "db_jobs db' = db_jobs db"
      by (auto simp: register_worker_def Let_def split: option.splits)
    then show ?thesis by (rule kept)
  next
    case (save_run t r)
    then show ?thesis by (intro kept) simp
  next
    case (set_quota t q by_whom quotas' rec')
    then show ?thesis by (intro kept) simp
  qed
qed

lemma step_runs:
  assumes "job_step fl (now, db) e (now', db')"
  shows "set (db_runs db) \<subseteq> set (db_runs db') \<and>
    (\<forall>t i w r. e = Complete t i w r \<longrightarrow> (t, r) \<in> set (db_runs db'))"
  using assms
proof (cases rule: job_step.cases)
  case (enqueue i c t r j)
  then show ?thesis by (auto dest!: enqueue_Inr)
next
  case (lease t w s caps row)
  then show ?thesis by (auto simp: lease_job_def split: option.splits)
next
  case (complete t i w r j)
  then show ?thesis by (auto dest!: complete_Inr update_job_Some)
next
  case (register t w c rec)
  then show ?thesis by (auto simp: register_worker_def Let_def split: option.splits)
qed (auto dest!: renew_Inr fail_Inr cancel_Inr update_job_Some simp: insert_row_def)

lemma step_clock: "job_step fl (now, db) e (now', db') \<Longrightarrow> now \<le> now'"
  by (auto elim: job_step.cases)

text \<open>The same row by row, for a row before and for a row after the step.\<close>

lemma step_forward:
  assumes "job_step fl (now, db) e (now', db')" "unique_key ej_job_id (db_jobs db)" "(t, j) \<in> set (db_jobs db)"
  shows "\<exists>j'. (t, j') \<in> set (db_jobs db') \<and> (j' = j \<or> job_effect fl now' e t j j')"
  using step_rows [OF assms(1,2)] assms(3) by (fastforce simp: row_wise_def)

lemma step_backward:
  assumes "job_step fl (now, db) e (now', db')" "unique_key ej_job_id (db_jobs db)" "(t, j') \<in> set (db_jobs db')"
  shows "(\<exists>j. (t, j) \<in> set (db_jobs db) \<and> (j' = j \<or> job_effect fl now' e t j j')) \<or>
    (\<exists>r i c. e = Enqueue t r i c \<and> job_ok j' \<and> ej_job_id j' = i \<and> ej_status j' = QUEUED
       \<and> ej_attempts j' = 0 \<and> \<not> job_id_taken i db)"
  using step_rows [OF assms(1,2)] assms(3) by (fastforce simp: row_wise_def)

lemma step_unique:
  assumes "job_step fl (now, db) e (now', db')" "unique_key ej_job_id (db_jobs db)"
  shows "unique_key ej_job_id (db_jobs db')"
proof -
  obtain tbl new where rows: "row_wise fl now' e (db_jobs db) tbl" "db_jobs db' = tbl @ new"
    and new: "new = [] \<or> (\<exists>t r i c j. e = Enqueue t r i c \<and> new = [(t, j)] \<and> job_ok j \<and> ej_job_id j = i
          \<and> ej_status j = QUEUED \<and> ej_attempts j = 0 \<and> \<not> job_id_taken i db)"
    using step_rows [OF assms] by blast
  obtain g where g: "tbl = map (\<lambda>(t, j). (t, g t j)) (db_jobs db)"
    "\<forall>(t, j) \<in> set (db_jobs db). g t j = j \<or> job_effect fl now' e t j (g t j)"
    using rows(1) by (auto simp: row_wise_def)
  have ids: "map (ej_job_id \<circ> snd) tbl = map (ej_job_id \<circ> snd) (db_jobs db)"
    using g by (auto simp: comp_def dest!: job_effect_id)
  show ?thesis
    using assms(2) new unfolding unique_key_def job_id_taken_def rows(2) map_append ids
    by (elim disjE exE conjE) (simp_all del: list.set_map set_map)
qed

text \<open>The invariant holds initially and every step keeps it.\<close>

definition job_db0 :: "quota_table \<Rightarrow> job_db" where
  "job_db0 quotas = \<lparr>db_jobs = [], db_workers = [], db_quotas = quotas, db_runs = []\<rparr>"

lemma job_db0_ok: "job_db_ok (job_db0 quotas)"
  by (simp add: job_db_ok_def job_db0_def all_rows_def unique_key_def runs_exist_def)

lemma runs_existD:
  "job_db_ok db \<Longrightarrow> (t, j) \<in> set (db_jobs db) \<Longrightarrow> ej_run_id j = Some r \<Longrightarrow> (t, r) \<in> set (db_runs db)"
  unfolding job_db_ok_def runs_exist_def by blast

lemma effect_run_id:
  "job_effect fl now e t j j' \<Longrightarrow> ej_run_id j' = Some r \<Longrightarrow>
     ej_run_id j = Some r \<or> (\<exists>i w. e = Complete t i w r)"
  by (elim job_effectE) auto

lemma step_ok:
  assumes step: "job_step fl (now, db) e (now', db')" and ok: "job_db_ok db"
  shows "job_db_ok db'"
proof -
  have unique: "unique_key ej_job_id (db_jobs db)" using ok by (simp add: job_db_ok_def)
  have rows: "job_ok j" if "(t, j) \<in> set (db_jobs db)" for t j
    using ok that by (auto simp: job_db_ok_def all_rows_def)
  have "job_ok j'" if "(t, j') \<in> set (db_jobs db')" for t j'
    using step_backward [OF step unique that] rows job_effect_ok by blast
  moreover have "(t, r) \<in> set (db_runs db')" if j': "(t, j') \<in> set (db_jobs db')" "ej_run_id j' = Some r" for t j' r
  proof -
    from step_backward [OF step unique j'(1)] show ?thesis
    proof
      assume "\<exists>j. (t, j) \<in> set (db_jobs db) \<and> (j' = j \<or> job_effect fl now' e t j j')"
      then obtain j where j: "(t, j) \<in> set (db_jobs db)" "j' = j \<or> job_effect fl now' e t j j'" by blast
      then have "ej_run_id j = Some r \<or> (\<exists>i w. e = Complete t i w r)"
        using effect_run_id j'(2) by blast
      then show ?thesis
        using step_runs [OF step] runs_existD [OF ok j(1)] by blast
    next
      assume "\<exists>r i c. e = Enqueue t r i c \<and> job_ok j' \<and> ej_job_id j' = i \<and> ej_status j' = QUEUED
         \<and> ej_attempts j' = 0 \<and> \<not> job_id_taken i db"
      then show ?thesis using j'(2) by (auto simp: job_ok_def)
    qed
  qed
  ultimately show ?thesis
    using step_unique [OF step unique] by (auto simp: job_db_ok_def all_rows_def runs_exist_def)
qed

lemma run_ok:
  "job_run fl c es c' \<Longrightarrow> job_db_ok (snd c) \<Longrightarrow> job_db_ok (snd c') \<and> fst c \<le> fst c'"
proof (induction rule: job_run.induct)
  case (snoc c es c' e c'')
  obtain now db now' db' where c: "c' = (now, db)" "c'' = (now', db')" by (cases c'; cases c'')
  then show ?case using snoc step_ok step_clock by fastforce
qed simp

lemma get_job_row:
  assumes "job_db_ok db" "(t, j) \<in> set (db_jobs db)"
  shows "get_job t (ej_job_id j) db = Inr j"
proof -
  have "distinct (map ej_job_id (visible t (db_jobs db)))"
    using assms(1) by (auto simp: job_db_ok_def intro: unique_visible)
  then have "find (\<lambda>y. ej_job_id y = ej_job_id j) (visible t (db_jobs db)) = Some j"
    using assms(2) by (intro find_unique_key) (simp_all add: set_visible)
  then show ?thesis by (simp add: get_job_def)
qed

subsection \<open>Ended jobs\<close>

definition terminal :: "evaluation_job \<Rightarrow> bool" where
  "terminal j \<longleftrightarrow> ej_status j \<in> {COMPLETED, FAILED_JOB, CANCELLED}"

lemma effect_not_terminal: "job_effect fl now e t j j' \<Longrightarrow> \<not> terminal j"
  by (elim job_effectE) (auto simp: terminal_def claimable_def holds_lease_def)

lemma terminal_step:
  "job_step fl (now, db) e (now', db') \<Longrightarrow> job_db_ok db \<Longrightarrow> (t, j) \<in> set (db_jobs db) \<Longrightarrow> terminal j \<Longrightarrow>
     (t, j) \<in> set (db_jobs db')"
  using step_forward effect_not_terminal by (metis job_db_ok_def)

text \<open>
  A property of one row that no effect of the allowed events breaks is kept by runs of such events.
\<close>

lemma run_row_invariant:
  assumes "job_run fl c es c'" and "job_db_ok (snd c)" and "(t, j) \<in> set (db_jobs (snd c))" "P j"
    and allowed: "\<forall>e \<in> set es. E e" and "fst c' \<le> limit"
    and keep: "\<And>now e j j'. E e \<Longrightarrow> now \<le> limit \<Longrightarrow> P j \<Longrightarrow> job_effect fl now e t j j' \<Longrightarrow> P j'"
  shows "\<exists>j'. (t, j') \<in> set (db_jobs (snd c')) \<and> P j' \<and> ej_job_id j' = ej_job_id j"
  using assms(1-6)
proof (induction rule: job_run.induct)
  case (nil c)
  then show ?case by blast
next
  case (snoc c es c' e c'')
  obtain now db where c': "c' = (now, db)" by (cases c')
  obtain now' db' where c'': "c'' = (now', db')" by (cases c'')
  have step: "job_step fl (now, db) e (now', db')" using snoc.hyps(2) c' c'' by simp
  have bound: "now' \<le> limit" "now \<le> limit" using snoc.prems(5) step_clock [OF step] c'' by auto
  obtain j' where j': "(t, j') \<in> set (db_jobs db)" "P j'" "ej_job_id j' = ej_job_id j"
    using snoc.IH snoc.prems bound c' by auto
  have unique: "unique_key ej_job_id (db_jobs db)"
    using run_ok [OF snoc.hyps(1) snoc.prems(1)] c' by (simp add: job_db_ok_def)
  obtain j'' where j'': "(t, j'') \<in> set (db_jobs db')" "j'' = j' \<or> job_effect fl now' e t j' j''"
    using step_forward [OF step unique j'(1)] by blast
  have "P j''" using j''(2) j'(2) keep bound(1) snoc.prems(4) by auto
  moreover have "ej_job_id j'' = ej_job_id j" using j''(2) j'(3) job_effect_id by metis
  ultimately show ?case using j''(1) c'' by auto
qed

subsection \<open>Attempts\<close>

fun leases_job :: "uuid \<Rightarrow> job_event \<Rightarrow> bool" where
  "leases_job i (Lease t w s caps row) = (row = Some i)"
| "leases_job i _ = False"

lemma lease_step_changes:
  assumes "job_step fl (now, db) (Lease t w s caps (Some i)) (now', db')"
    and unique: "unique_key ej_job_id (db_jobs db)"
  shows "\<exists>j. (t, j) \<in> set (db_jobs db) \<and> ej_job_id j = i \<and> (t, leased now' w s j) \<in> set (db_jobs db')"
  using assms(1)
proof (cases rule: job_step.cases)
  case (lease row)
  then obtain j' where row: "row = Some j'" "ej_job_id j' = i" by (cases row) auto
  then obtain j where "(t, j) \<in> set (db_jobs db)" "j' = leased now' w s j"
    "db' = db\<lparr>db_jobs := update_where t (\<lambda>x. ej_job_id x = ej_job_id j) (leased now' w s) (db_jobs db)\<rparr>"
    using lease lease_job_Some by blast
  then show ?thesis using row by (intro exI [of _ j]) (force simp: set_update_where)
qed

lemma effect_attempts:
  "job_effect fl now e t j j' \<Longrightarrow>
     ej_attempts j' = ej_attempts j + (if leases_job (ej_job_id j) e then 1 else 0)
     \<and> (leases_job i e \<longrightarrow> i = ej_job_id j)"
  by (elim job_effectE) auto

lemma step_attempts:
  assumes step: "job_step fl (now, db) e (now', db')" and unique: "unique_key ej_job_id (db_jobs db)"
    and j: "(t, j) \<in> set (db_jobs db)" and j': "(t', j') \<in> set (db_jobs db')" "ej_job_id j' = ej_job_id j"
  shows "ej_attempts j' = ej_attempts j + (if leases_job (ej_job_id j) e then 1 else 0)"
proof -
  obtain k where k: "(t, k) \<in> set (db_jobs db')" "k = j \<or> job_effect fl now' e t j k"
    using step_forward [OF step unique j] by blast
  have "ej_job_id k = ej_job_id j" using k(2) job_effect_id by metis
  then have kj': "k = j'" using unique_keyD [OF step_unique [OF step unique] k(1) j'(1)] j'(2) by simp
  show ?thesis
  proof (cases "job_effect fl now' e t j k")
    case True
    then show ?thesis using effect_attempts kj' by metis
  next
    case False
    then have same: "j' = j" using k(2) kj' by simp
    have "\<not> leases_job (ej_job_id j) e"
    proof
      assume "leases_job (ej_job_id j) e"
      then obtain u w s caps where e: "e = Lease u w s caps (Some (ej_job_id j))"
        by (cases e) auto
      obtain l where l: "(u, l) \<in> set (db_jobs db)" "ej_job_id l = ej_job_id j"
        "(u, leased now' w s l) \<in> set (db_jobs db')"
        using lease_step_changes [OF step [unfolded e] unique] by blast
      then have "l = j" using unique_keyD [OF unique l(1) j] by simp
      moreover have "(u, leased now' w s l) = (t', j')"
        using unique_keyD [OF step_unique [OF step unique] l(3) j'(1)] l(2) j'(2) by simp
      ultimately have "leased now' w s j = j" using same by simp
      then have "ej_attempts (leased now' w s j) = ej_attempts j" by simp
      then show False by simp
    qed
    then show ?thesis using same by simp
  qed
qed

text \<open>No lease of a job that is not in the table.\<close>

lemma lease_known:
  assumes "job_step fl (now, db) e (now', db')" "unique_key ej_job_id (db_jobs db)" "leases_job i e"
  shows "\<exists>t j. (t, j) \<in> set (db_jobs db) \<and> ej_job_id j = i"
proof -
  obtain u w s caps where "e = Lease u w s caps (Some i)" using assms(3) by (cases e) auto
  then show ?thesis using lease_step_changes assms(1,2) by metis
qed

lemma run_attempts:
  "job_run fl c es c' \<Longrightarrow> job_db_ok (snd c) \<Longrightarrow> db_jobs (snd c) = [] \<Longrightarrow>
     (\<forall>(t, j) \<in> set (db_jobs (snd c')). ej_attempts j = int (count_if (leases_job (ej_job_id j)) es)) \<and>
     (\<forall>i. (\<forall>(t, j) \<in> set (db_jobs (snd c')). ej_job_id j \<noteq> i) \<longrightarrow> count_if (leases_job i) es = 0)"
proof (induction rule: job_run.induct)
  case (snoc c es c' e c'')
  obtain now db where c': "c' = (now, db)" by (cases c')
  obtain now' db' where c'': "c'' = (now', db')" by (cases c'')
  have step: "job_step fl (now, db) e (now', db')" using snoc.hyps(2) c' c'' by simp
  have unique: "unique_key ej_job_id (db_jobs db)"
    using run_ok [OF snoc.hyps(1) snoc.prems(1)] c' by (simp add: job_db_ok_def)
  have IH: "\<And>t j. (t, j) \<in> set (db_jobs db) \<Longrightarrow> ej_attempts j = int (count_if (leases_job (ej_job_id j)) es)"
    "\<And>i. (\<forall>(t, j) \<in> set (db_jobs db). ej_job_id j \<noteq> i) \<Longrightarrow> count_if (leases_job i) es = 0"
    using snoc.IH [OF snoc.prems] c' by auto
  have "ej_attempts j' = int (count_if (leases_job (ej_job_id j')) (es @ [e]))"
    if j': "(t, j') \<in> set (db_jobs db')" for t j'
    using step_backward [OF step unique j']
  proof
    assume "\<exists>j. (t, j) \<in> set (db_jobs db) \<and> (j' = j \<or> job_effect fl now' e t j j')"
    then obtain j where j: "(t, j) \<in> set (db_jobs db)" "ej_job_id j' = ej_job_id j"
      using job_effect_id by metis
    then show ?thesis using step_attempts [OF step unique j(1) j' j(2)] IH(1) [OF j(1)] by simp
  next
    assume "\<exists>r i c. e = Enqueue t r i c \<and> job_ok j' \<and> ej_job_id j' = i \<and> ej_status j' = QUEUED
      \<and> ej_attempts j' = 0 \<and> \<not> job_id_taken i db"
    then show ?thesis using IH(2) [of "ej_job_id j'"] by (force simp: job_id_taken_def)
  qed
  moreover have "count_if (leases_job i) (es @ [e]) = 0"
    if absent: "\<forall>(t, j) \<in> set (db_jobs db'). ej_job_id j \<noteq> i" for i
  proof -
    have "\<forall>(t, j) \<in> set (db_jobs db). ej_job_id j \<noteq> i"
      using absent step_forward [OF step unique] job_effect_id by fastforce
    then show ?thesis using IH(2) lease_known [OF step unique, of i] by fastforce
  qed
  ultimately show ?case using c'' by auto
qed simp

text \<open>A row that no effect of the allowed events changes stays, and its job is not leased.\<close>

lemma run_row_fixed:
  assumes "job_run fl c es c'" and "job_db_ok (snd c)" and "(t, j) \<in> set (db_jobs (snd c))"
    and "list_all E es" and "fst c' \<le> limit"
    and fixed: "\<And>now e j'. E e \<Longrightarrow> now \<le> limit \<Longrightarrow> \<not> job_effect fl now e t j j'"
  shows "(t, j) \<in> set (db_jobs (snd c')) \<and> list_all (\<lambda>e. \<not> leases_job (ej_job_id j) e) es"
  using assms(1-5)
proof (induction rule: job_run.induct)
  case (snoc c es c' e c'')
  obtain now db where c': "c' = (now, db)" by (cases c')
  obtain now' db' where c'': "c'' = (now', db')" by (cases c'')
  have step: "job_step fl (now, db) e (now', db')" using snoc.hyps(2) c' c'' by simp
  have bound: "now' \<le> limit" "now \<le> limit" using snoc.prems(4) step_clock [OF step] c'' by auto
  have IH: "(t, j) \<in> set (db_jobs db)" "list_all (\<lambda>e. \<not> leases_job (ej_job_id j) e) es"
    using snoc.IH snoc.prems bound c' by auto
  have unique: "unique_key ej_job_id (db_jobs db)"
    using run_ok [OF snoc.hyps(1) snoc.prems(1)] c' by (simp add: job_db_ok_def)
  have "(t, j) \<in> set (db_jobs db')"
    using step_forward [OF step unique IH(1)] fixed bound(1) snoc.prems(3) by auto
  moreover have "\<not> leases_job (ej_job_id j) e"
    using step_attempts [OF step unique IH(1) calculation refl] by (auto split: if_splits)
  ultimately show ?case using IH(2) c'' by simp
qed simp

end
