(* ===== verification/Worker.thy ===== *)
theory Worker
  imports Job_Lifecycle
begin

section \<open>The worker (\<open>jobs.py\<close>)\<close>

text \<open>
  \<open>EvaluationWorker\<close>: one call of \<open>run_once\<close> as a machine whose steps are the calls it awaits, so
  that other workers, tenants and its own heartbeat can act between any two of them. What the outside
  answers is a parameter: the capability provider, the run of the evaluation engine (a run id or an
  exception) and the exception of \<open>save_run\<close>, if any. \<open>describe\<close> is \<open>f"{type(error).__name__}: {error}"\<close>.
\<close>

record worker =
  wk_worker_id :: string
  wk_lease_seconds :: int
  wk_has_provider :: bool
  wk_capabilities :: worker_capabilities

record worker_input =
  wi_capabilities :: worker_capabilities
  wi_engine :: "evaluation_job \<Rightarrow> uuid result"
  wi_save_run :: "uuid \<Rightarrow> unit result"

text \<open>\<open>__init__\<close>; \<open>detected\<close> is what the provider (the given one, or \<open>detect_worker_capabilities\<close>) answers.\<close>

definition new_worker ::
  "string \<Rightarrow> int \<Rightarrow> worker_capabilities option \<Rightarrow> bool \<Rightarrow> worker_capabilities \<Rightarrow> worker result" where
  "new_worker worker_id lease_seconds capabilities provider_given detected =
     (if lease_seconds < 3 then Inl (ValueError ''lease_seconds must be at least 3'')
      else if capabilities \<noteq> None \<and> provider_given
      then Inl (ValueError ''provide capabilities or capability_provider, not both'')
      else Inr \<lparr>wk_worker_id = worker_id, wk_lease_seconds = lease_seconds,
             wk_has_provider = (capabilities = None),
             wk_capabilities = (case capabilities of None \<Rightarrow> detected | Some c \<Rightarrow> c)\<rparr>)"

definition refresh_capabilities :: "worker_input \<Rightarrow> worker \<Rightarrow> worker" where
  "refresh_capabilities input w =
     (if wk_has_provider w then w\<lparr>wk_capabilities := wi_capabilities input\<rparr> else w)"

text \<open>Where \<open>run_once\<close> is: before each call, or at its end.\<close>

datatype worker_phase =
    Starting
  | Registered worker_capabilities
  | Leased evaluation_job
  | Run_made evaluation_job uuid
  | Run_saved evaluation_job uuid
  | Failing evaluation_job exn
  | Lease_lost evaluation_job
  | Returned "evaluation_job option"
  | Raised exn

fun worker_step ::
  "(string \<Rightarrow> rat option) \<Rightarrow> (exn \<Rightarrow> string) \<Rightarrow> tenant \<Rightarrow> worker_input \<Rightarrow> instant
     \<Rightarrow> worker \<times> worker_phase \<times> job_db \<Rightarrow> worker \<times> worker_phase \<times> job_db" where
  "worker_step fl describe t input now (w, Starting, db) =
     (let w' = refresh_capabilities input w in
      (w', Registered (wk_capabilities w'),
       fst (register_worker now t (wk_worker_id w') (wk_capabilities w') db)))"
| "worker_step fl describe t input now (w, Registered caps, db) =
     (case lease_job fl now t (wk_worker_id w) (wk_lease_seconds w) (Some caps) db of
        (db', None) \<Rightarrow> (w, Returned None, db')
      | (db', Some j) \<Rightarrow> (w, Leased j, db'))"
| "worker_step fl describe t input now (w, Leased j, db) =
     (case wi_engine input j of
        Inl e \<Rightarrow> (w, Failing j e, db)
      | Inr run \<Rightarrow> (w, Run_made j run, db))"
| "worker_step fl describe t input now (w, Run_made j run, db) =
     (case wi_save_run input run of
        Inl e \<Rightarrow> (w, Failing j e, db)
      | Inr _ \<Rightarrow> (w, Run_saved j run, db\<lparr>db_runs := insert_row t run (db_runs db)\<rparr>))"
| "worker_step fl describe t input now (w, Run_saved j run, db) =
     (case complete_job now t (ej_job_id j) (wk_worker_id w) run db of
        Inl e \<Rightarrow> (w, Failing j e, db)
      | Inr (db', j') \<Rightarrow> (w, Returned (Some j'), db'))"
| "worker_step fl describe t input now (w, Failing j e, db) =
     (case fail_job now t (ej_job_id j) (wk_worker_id w) (describe e) db of
        Inl (RuntimeError m) \<Rightarrow> (w, Lease_lost j, db)
      | Inl e' \<Rightarrow> (w, Raised e', db)
      | Inr (db', j') \<Rightarrow> (w, Returned (Some j'), db'))"
| "worker_step fl describe t input now (w, Lease_lost j, db) =
     (case get_job t (ej_job_id j) db of
        Inl e \<Rightarrow> (w, Raised e, db)
      | Inr j' \<Rightarrow> (w, Returned (Some j'), db))"
| "worker_step fl describe t input now (w, Returned r, db) = (w, Returned r, db)"
| "worker_step fl describe t input now (w, Raised e, db) = (w, Raised e, db)"

text \<open>The job whose heartbeat runs, from the lease to the end of \<open>run_once\<close>.\<close>

fun heartbeat_job :: "worker_phase \<Rightarrow> evaluation_job option" where
  "heartbeat_job (Leased j) = Some j"
| "heartbeat_job (Run_made j run) = Some j"
| "heartbeat_job (Run_saved j run) = Some j"
| "heartbeat_job (Failing j e) = Some j"
| "heartbeat_job (Lease_lost j) = Some j"
| "heartbeat_job _ = None"

text \<open>One turn of \<open>_heartbeat\<close>; the last component says whether it goes on.\<close>

definition heartbeat ::
  "tenant \<Rightarrow> worker_input \<Rightarrow> instant \<Rightarrow> evaluation_job \<Rightarrow> worker \<Rightarrow> job_db \<Rightarrow> (worker \<times> job_db \<times> bool) result" where
  "heartbeat t input now j w db =
     (let w' = refresh_capabilities input w;
          db' = fst (register_worker now t (wk_worker_id w') (wk_capabilities w') db)
      in case renew_job_lease now t (ej_job_id j) (wk_worker_id w') (wk_lease_seconds w') db' of
           Inr (db'', _) \<Rightarrow> Inr (w', db'', True)
         | Inl (RuntimeError m) \<Rightarrow> Inr (w', db', False)
         | Inl e \<Rightarrow> Inl e)"

subsection \<open>\<open>run_once\<close> without interference\<close>

fun remaining_calls :: "worker_phase \<Rightarrow> nat" where
  "remaining_calls Starting = 7"
| "remaining_calls (Registered caps) = 6"
| "remaining_calls (Leased j) = 5"
| "remaining_calls (Run_made j run) = 4"
| "remaining_calls (Run_saved j run) = 3"
| "remaining_calls (Failing j e) = 2"
| "remaining_calls (Lease_lost j) = 1"
| "remaining_calls (Returned r) = 0"
| "remaining_calls (Raised e) = 0"

lemma worker_step_progress:
  "worker_step fl describe t input now (w, ph, db) = (w', ph', db') \<Longrightarrow> 0 < remaining_calls ph \<Longrightarrow>
     remaining_calls ph' < remaining_calls ph"
  by (cases ph) (auto simp: Let_def split: prod.splits option.splits sum.splits exn.splits)

function run_once ::
  "(string \<Rightarrow> rat option) \<Rightarrow> (exn \<Rightarrow> string) \<Rightarrow> tenant \<Rightarrow> worker_input \<Rightarrow> instant
     \<Rightarrow> worker \<times> worker_phase \<times> job_db \<Rightarrow> worker \<times> worker_phase \<times> job_db" where
  "run_once fl describe t input now (w, ph, db) =
     (if remaining_calls ph = 0 then (w, ph, db)
      else run_once fl describe t input now (worker_step fl describe t input now (w, ph, db)))"
  by pat_completeness auto

termination
proof (relation "measure (\<lambda>(fl, describe, t, input, now, w, ph, db). remaining_calls ph)")
  fix fl describe t input now w ph db
  assume "remaining_calls ph \<noteq> 0"
  then show "((fl, describe, t, input, now, worker_step fl describe t input now (w, ph, db)),
      (fl, describe, t, input, now, w, ph, db)) \<in> measure (\<lambda>(fl, describe, t, input, now, w, ph, db). remaining_calls ph)"
    using worker_step_progress [of fl describe t input now w ph db]
    by (cases "worker_step fl describe t input now (w, ph, db)") simp
qed simp

declare run_once.simps [simp del]

end
