(* ===== verification/Job_Properties.thy ===== *)
theory Job_Properties
  imports Job_Lifecycle
begin

section \<open>Properties of the job queue\<close>

text \<open>
  The claims about the queue, over runs of \<open>job_step\<close> from an empty queue or about single
  operations, and a concrete run that their witnesses use.
\<close>

subsection \<open>A concrete run\<close>

definition no_float :: "string \<Rightarrow> rat option" where
  "no_float s = None"

definition ex_request :: job_request where
  "ex_request = \<lparr>jr_suite_path = ''s.yaml'', jr_agent_version = ''baseline'', jr_priority = 5,
     jr_max_attempts = 1, jr_required_accelerator = CPU, jr_required_labels = [],
     jr_minimum_gpu_memory_mb = 0, jr_minimum_cuda_compute_capability = None,
     jr_minimum_gpu_memory_available_mb = 0, jr_maximum_gpu_utilization_percent = None,
     jr_required_mig_profile = None, jr_traceparent = None, jr_request_id = None\<rparr>"

definition ex_job :: evaluation_job where
  "ex_job = new_job 7 100 [] ex_request"

definition ex_quotas :: quota_table where
  "ex_quotas = [(''acme'', \<lparr>max_queued_jobs = Some 1, max_jobs_per_hour = Some 5,
     max_running_jobs = Some 1, max_running_cuda_jobs = None, qr_tenant_id = ''acme'',
     qr_updated_at = 0, qr_updated_by = ''op''\<rparr>)]"

definition ex_db1 :: job_db where
  "ex_db1 = \<lparr>db_jobs = [(''acme'', ex_job)], db_workers = [], db_quotas = ex_quotas, db_runs = []\<rparr>"

definition ex_db2 :: job_db where
  "ex_db2 = \<lparr>db_jobs = [(''acme'', leased 200 ''w1'' 60 ex_job)], db_workers = [],
     db_quotas = ex_quotas, db_runs = []\<rparr>"

definition ex_db3 :: job_db where
  "ex_db3 = \<lparr>db_jobs = [(''acme'', cancelled 300 (leased 200 ''w1'' 60 ex_job))], db_workers = [],
     db_quotas = ex_quotas, db_runs = []\<rparr>"

lemma ex_enqueue: "enqueue_job 7 100 150 ''acme'' ex_request (job_db0 ex_quotas) = Inr (ex_db1, ex_job)"
  by (simp add: enqueue_job_def effective_labels_def RUNTIME_LABELS_def require_runtime_def
      starts_with_def ex_request_def ex_job_def new_job_def validate_evaluation_job_def
      normalize_optional_mig_def job_fields_ok_def in_range_def gpu_constraints_require_cuda_def
      has_gpu_constraints_def enqueue_quota_check_def tenant_quota_def job_db0_def ex_quotas_def
      tenant_quota_usage_def limit_reached_def job_id_taken_def insert_row_def ex_db1_def)

lemma ex_lease:
  "lease_job no_float 200 ''acme'' ''w1'' 60 None ex_db1 = (ex_db2, Some (leased 200 ''w1'' 60 ex_job))"
  by (simp add: lease_job_def lease_quota_def tenant_quota_def ex_db1_def ex_db2_def ex_quotas_def
      tenant_quota_usage_def active_lease_def limit_reached_def claim_def claimable_def
      capabilities_fit_def offered_accelerators_def ex_job_def ex_request_def new_job_def
      update_where_def)

lemma ex_cancel: "cancel_job 300 ''acme'' 7 ex_db2 =
    Inr (ex_db3, cancelled 300 (leased 200 ''w1'' 60 ex_job))"
  by (simp add: cancel_job_def update_job_def returning_def update_where_def ex_db2_def ex_db3_def
      ex_job_def new_job_def)

definition ex_events :: "job_event list" where
  "ex_events = [Enqueue ''acme'' ex_request 7 100, Lease ''acme'' ''w1'' 60 None (Some 7)]"

lemma ex_run1: "job_run no_float (0, job_db0 ex_quotas) [Enqueue ''acme'' ex_request 7 100] (150, ex_db1)"
  using job_run.snoc [OF job_run.nil job_step.enqueue [OF _ ex_enqueue, of 0]] by simp

lemma ex_job_id: "ej_job_id ex_job = 7"
  by (simp add: ex_job_def new_job_def)

lemma ex_run2: "job_run no_float (0, job_db0 ex_quotas) ex_events (200, ex_db2)"
  using job_run.snoc [OF ex_run1 job_step.lease [OF _ ex_lease, of 150]]
  by (simp add: ex_events_def ex_job_id)

lemma ex_run_cancel: "job_run no_float (200, ex_db2) [Cancel ''acme'' 7] (300, ex_db3)"
  using job_run.snoc [OF job_run.nil job_step.cancel [OF _ ex_cancel, of 200]] by simp

subsection \<open>The invariant\<close>

text \<open>C1. In every reachable state of the queue job ids are unique and every job is well formed: it
  satisfies its validators; it has a lease owner and a lease end exactly while it runs; it was
  tried at most \<open>max_attempts\<close> times, and less while queued; it has a run, which is in the
  tenant's runs, exactly when it completed; and it failed only with its attempts used up and an
  error recorded.\<close>

theorem job_queue_invariant:
  assumes "job_run fl (start, job_db0 quotas) es (now, db)" and "(t, j) \<in> set (db_jobs db)"
  shows "unique_key ej_job_id (db_jobs db) \<and> valid_job j
    \<and> (ej_status j = RUNNING \<longleftrightarrow> ej_lease_owner j \<noteq> None)
    \<and> (ej_status j = RUNNING \<longleftrightarrow> ej_lease_expires_at j \<noteq> None)
    \<and> ej_attempts j \<le> ej_max_attempts j
    \<and> (ej_status j = QUEUED \<longrightarrow> ej_attempts j < ej_max_attempts j)
    \<and> (ej_status j = COMPLETED \<longleftrightarrow> ej_run_id j \<noteq> None)
    \<and> (\<forall>r. ej_run_id j = Some r \<longrightarrow> (t, r) \<in> set (db_runs db))
    \<and> (ej_status j = FAILED_JOB \<longrightarrow> ej_attempts j = ej_max_attempts j \<and> ej_error j \<noteq> None)"
proof -
  have ok: "job_db_ok db" using run_ok [OF assms(1)] job_db0_ok by simp
  then have "job_ok j" "unique_key ej_job_id (db_jobs db)"
    using all_rowsD assms(2) by (auto simp: job_db_ok_def)
  then show ?thesis using runs_existD [OF ok assms(2)] by (auto simp: job_ok_def)
qed

theorem job_queue_invariant_witness:
  "(''acme'', leased 200 ''w1'' 60 ex_job) \<in> set (db_jobs ex_db2)
   \<and> ej_status (leased 200 ''w1'' 60 ex_job) = RUNNING
   \<and> ej_attempts (leased 200 ''w1'' 60 ex_job) \<le> ej_max_attempts (leased 200 ''w1'' 60 ex_job)"
proof -
  have mem: "(''acme'', leased 200 ''w1'' 60 ex_job) \<in> set (db_jobs ex_db2)" by (simp add: ex_db2_def)
  from job_queue_invariant [OF ex_run2 mem] mem show ?thesis by simp
qed

subsection \<open>Ended jobs stay ended\<close>

text \<open>C2. A job that completed, failed or was cancelled is never changed again by any operation of any
  tenant or worker.\<close>

theorem terminal_jobs_final:
  assumes "job_run fl (start, job_db0 quotas) es (now, db)" and "(t, j) \<in> set (db_jobs db)"
    and "ej_status j \<in> {COMPLETED, FAILED_JOB, CANCELLED}"
    and "job_run fl (now, db) es' (now', db')"
  shows "(t, j) \<in> set (db_jobs db')"
proof -
  have ok: "job_db_ok (snd (now, db))" using run_ok [OF assms(1)] job_db0_ok by simp
  have "\<exists>j'. (t, j') \<in> set (db_jobs (snd (now', db'))) \<and> j' = j \<and> ej_job_id j' = ej_job_id j"
  proof (rule run_row_invariant [OF assms(4) ok, where E = "\<lambda>_. True" and limit = now'])
    show "j'' = j" if "j' = j" "job_effect fl n e t j' j''" for n e j' j''
      using that assms(3) effect_not_terminal by (auto simp: terminal_def)
  qed (use assms(2) in auto)
  then show ?thesis by simp
qed

theorem terminal_jobs_final_witness:
  "(''acme'', cancelled 300 (leased 200 ''w1'' 60 ex_job)) \<in> set (db_jobs ex_db3)"
proof (rule terminal_jobs_final)
  show "job_run no_float (0, job_db0 ex_quotas) (ex_events @ [Cancel ''acme'' 7]) (300, ex_db3)"
    using job_run.snoc [OF ex_run2 job_step.cancel [OF _ ex_cancel, of 200]] by simp
  show "job_run no_float (300, ex_db3) [] (300, ex_db3)" by (rule job_run.nil)
qed (simp_all add: ex_db3_def)

subsection \<open>Attempts\<close>

text \<open>A job's attempt counter is the number of times the queue leased it, and that number never
  exceeds \<open>max_attempts\<close>.\<close>

theorem attempts_count_leases:
  assumes "job_run fl (start, job_db0 quotas) es (now, db)" and "(t, j) \<in> set (db_jobs db)"
  shows "ej_attempts j = int (count_if (leases_job (ej_job_id j)) es)
    \<and> int (count_if (leases_job (ej_job_id j)) es) \<le> ej_max_attempts j"
proof -
  have ok: "job_db_ok db" using run_ok [OF assms(1)] job_db0_ok by simp
  then have "ej_attempts j \<le> ej_max_attempts j"
    using all_rowsD assms(2) by (fastforce simp: job_db_ok_def job_ok_def)
  moreover have "ej_attempts j = int (count_if (leases_job (ej_job_id j)) es)"
    using run_attempts [OF assms(1)] job_db0_ok assms(2) by (auto simp: job_db0_def)
  ultimately show ?thesis by simp
qed

theorem attempts_count_leases_witness:
  "count_if (leases_job 7) ex_events = 1 \<and> int (count_if (leases_job 7) ex_events) \<le> 1"
  using attempts_count_leases [OF ex_run2, of "''acme''" "leased 200 ''w1'' 60 ex_job"]
  by (simp add: ex_db2_def ex_events_def ex_job_def new_job_def ex_request_def)

subsection \<open>What a lease picks\<close>

text \<open>C3. A lease returns nothing and changes nothing only when the running quota is used up or no job
  of the tenant can be claimed. Otherwise the job it returns could be claimed, no other claimable
  job has a higher priority or the same priority and an earlier creation, it is now running with
  one more attempt, owned by the worker until the end of the lease, and that is the only change.\<close>

theorem lease_job_picks_best:
  "case lease_job fl now t w s caps db of
     (db', None) \<Rightarrow> db' = db \<and>
       (case lease_quota now t db of None \<Rightarrow> True
        | Some q \<Rightarrow> list_all (\<lambda>x. \<not> claimable fl now caps q x) (visible t (db_jobs db)))
   | (db', Some j') \<Rightarrow> (\<exists>j q. j \<in> set (visible t (db_jobs db)) \<and> lease_quota now t db = Some q
       \<and> claimable fl now caps q j \<and> j' = leased now w s j
       \<and> list_all (\<lambda>x. claimable fl now caps q x \<longrightarrow>
            ej_priority x < ej_priority j \<or> ej_priority x = ej_priority j \<and> ej_created_at j \<le> ej_created_at x)
            (visible t (db_jobs db))
       \<and> db' = db\<lparr>db_jobs := update_where t (\<lambda>x. ej_job_id x = ej_job_id j) (leased now w s) (db_jobs db)\<rparr>)"
proof (cases "lease_job fl now t w s caps db")
  case (Pair db' row)
  show ?thesis
  proof (cases row)
    case None
    then have "db' = db" using Pair lease_job_None by simp
    moreover have "lease_quota now t db = Some q \<Longrightarrow> claim fl now caps q (visible t (db_jobs db)) = None" for q
      using Pair None by (auto simp: lease_job_def split: option.splits)
    ultimately show ?thesis
      using Pair None claim_None by (fastforce simp: list_all_iff split: option.splits)
  next
    case (Some j')
    then obtain j q where "lease_quota now t db = Some q" "j' = leased now w s j"
      "claim fl now caps q (visible t (db_jobs db)) = Some j"
      "db' = db\<lparr>db_jobs := update_where t (\<lambda>x. ej_job_id x = ej_job_id j) (leased now w s) (db_jobs db)\<rparr>"
      using Pair lease_job_Some by blast
    with Pair Some claim_Some show ?thesis by (fastforce simp: list_all_iff)
  qed
qed

theorem lease_job_picks_best_witness:
  "case lease_job no_float 200 ''acme'' ''w1'' 60 None ex_db1 of
     (db', None) \<Rightarrow> False
   | (db', Some j') \<Rightarrow> (\<exists>j q. j \<in> set (visible ''acme'' (db_jobs ex_db1))
        \<and> claimable no_float 200 None q j \<and> j' = leased 200 ''w1'' 60 j)"
  using lease_job_picks_best [where fl = no_float and now = 200 and t = "''acme''"
      and w = "''w1''" and s = 60 and caps = None and db = ex_db1]
  by (auto simp: ex_lease)

subsection \<open>Leases\<close>

fun keeps_lease :: "tenant \<Rightarrow> uuid \<Rightarrow> string \<Rightarrow> job_event \<Rightarrow> bool" where
  "keeps_lease t i w (Renew t' i' w' s) = (\<not> (t' = t \<and> i' = i \<and> w' = w))"
| "keeps_lease t i w (Complete t' i' w' r) = (\<not> (t' = t \<and> i' = i \<and> w' = w))"
| "keeps_lease t i w (Fail t' i' w' e) = (\<not> (t' = t \<and> i' = i \<and> w' = w))"
| "keeps_lease t i w (Cancel t' i') = (\<not> (t' = t \<and> i' = i))"
| "keeps_lease t i w _ = True"

text \<open>C4. While a lease has not ended, the job stays exactly as it was leased through any operations of
  any tenants and workers other than a cancellation of it and the renewal, completion or failure
  its owner reports: no other worker can take it, and no other worker can end it.\<close>

theorem active_lease_exclusive:
  assumes "job_run fl (start, job_db0 quotas) es (now, db)" and "(t, j) \<in> set (db_jobs db)"
    and "ej_status j = RUNNING" "ej_lease_owner j = Some w" "ej_lease_expires_at j = Some limit"
    and "job_run fl (now, db) es' (now', db')" "now' \<le> limit"
    and "list_all (keeps_lease t (ej_job_id j) w) es'"
  shows "(t, j) \<in> set (db_jobs db') \<and> list_all (\<lambda>e. \<not> leases_job (ej_job_id j) e) es'"
proof -
  have ok: "job_db_ok (snd (now, db))" using run_ok [OF assms(1)] job_db0_ok by simp
  have "\<not> job_effect fl n e t j j'" if "keeps_lease t (ej_job_id j) w e" "n \<le> limit" for n e j'
    using that assms(3-5)
    by (auto elim!: job_effectE simp: claimable_def lease_expired_def holds_lease_def)
  then show ?thesis
    using run_row_fixed [OF assms(6) ok, of t j "keeps_lease t (ej_job_id j) w" limit] assms(2,7,8) by auto
qed

lemma ex_second_lease:
  "lease_job no_float 250 ''acme'' ''w2'' 60 None ex_db2 = (ex_db2, None)"
  by (simp add: lease_job_def lease_quota_def tenant_quota_def ex_db2_def ex_quotas_def
      tenant_quota_usage_def active_lease_def limit_reached_def leased_def)

theorem active_lease_exclusive_witness:
  "(''acme'', leased 200 ''w1'' 60 ex_job) \<in> set (db_jobs ex_db2)
    \<and> \<not> leases_job 7 (Lease ''acme'' ''w2'' 60 None None)"
proof -
  have run: "job_run no_float (200, ex_db2) [Lease ''acme'' ''w2'' 60 None None] (250, ex_db2)"
    using job_run.snoc [OF job_run.nil job_step.lease [OF _ ex_second_lease, of 200]] by simp
  have mem: "(''acme'', leased 200 ''w1'' 60 ex_job) \<in> set (db_jobs ex_db2)" by (simp add: ex_db2_def)
  show ?thesis
    using active_lease_exclusive [OF ex_run2 mem _ _ _ run, of "''w1''"] by (simp add: ex_job_id)
qed

text \<open>A worker that does not hold the lease cannot renew, complete or fail the job: the operation
  raises.\<close>

theorem stale_worker_rejected:
  assumes "list_all (\<lambda>j. ej_job_id j = i \<longrightarrow> ej_status j \<noteq> RUNNING \<or> ej_lease_owner j \<noteq> Some w)
    (visible t (db_jobs db))"
  shows "renew_job_lease now t i w s db = Inl (RuntimeError ''worker no longer owns the lease for job'')
    \<and> complete_job now t i w r db = Inl (RuntimeError ''worker no longer owns the lease for job'')
    \<and> fail_job now t i w e db = Inl (RuntimeError ''worker no longer owns the lease for job'')"
proof -
  have "returning t (holds_lease i w) f (db_jobs db) = None" for f :: "evaluation_job \<Rightarrow> evaluation_job"
    using assms by (auto simp: returning_None list_all_iff holds_lease_def)
  then show ?thesis
    by (simp add: renew_job_lease_def complete_job_def fail_job_def update_job_def leased_job_or_error_def)
qed

theorem stale_worker_rejected_witness:
  "fail_job 300 ''acme'' 7 ''w2'' ''boom'' ex_db2
     = Inl (RuntimeError ''worker no longer owns the lease for job'')"
  by (rule stale_worker_rejected [THEN conjunct2, THEN conjunct2])
    (simp add: ex_db2_def ex_job_id)

text \<open>C20. A running job that has used its last attempt stays running for ever, whatever time passes and
  whatever leases are asked for, unless its last owner reports or somebody cancels it: when that
  worker is lost, the job neither runs again nor fails.\<close>

theorem exhausted_job_never_recovered:
  assumes "job_run fl (start, job_db0 quotas) es (now, db)" and "(t, j) \<in> set (db_jobs db)"
    and "ej_status j = RUNNING" "ej_lease_owner j = Some w" "ej_attempts j = ej_max_attempts j"
    and "job_run fl (now, db) es' (now', db')" "list_all (keeps_lease t (ej_job_id j) w) es'"
  shows "(t, j) \<in> set (db_jobs db') \<and> list_all (\<lambda>e. \<not> leases_job (ej_job_id j) e) es'"
proof -
  have ok: "job_db_ok (snd (now, db))" using run_ok [OF assms(1)] job_db0_ok by simp
  have "\<not> job_effect fl n e t j j'" if "keeps_lease t (ej_job_id j) w e" for n e j'
    using that assms(3-5) by (auto elim!: job_effectE simp: claimable_def holds_lease_def)
  then show ?thesis
    using run_row_fixed [OF assms(6) ok, of t j "keeps_lease t (ej_job_id j) w" now'] assms(2,7) by auto
qed

lemma ex_late_lease:
  "lease_job no_float (10 * day) ''acme'' ''w2'' 60 None ex_db2 = (ex_db2, None)"
  by (simp add: lease_job_def lease_quota_def tenant_quota_def ex_db2_def ex_quotas_def
      tenant_quota_usage_def active_lease_def limit_reached_def leased_def claim_def claimable_def
      ex_job_def new_job_def ex_request_def)

theorem exhausted_job_never_recovered_witness:
  "lease_expired (10 * day) (leased 200 ''w1'' 60 ex_job)
    \<and> (''acme'', leased 200 ''w1'' 60 ex_job) \<in> set (db_jobs ex_db2)"
proof -
  have run: "job_run no_float (200, ex_db2) [Lease ''acme'' ''w2'' 60 None None] (10 * day, ex_db2)"
    using job_run.snoc [OF job_run.nil job_step.lease [OF _ ex_late_lease, of 200]] by simp
  have mem: "(''acme'', leased 200 ''w1'' 60 ex_job) \<in> set (db_jobs ex_db2)" by (simp add: ex_db2_def)
  have "ej_attempts (leased 200 ''w1'' 60 ex_job) = ej_max_attempts (leased 200 ''w1'' 60 ex_job)"
    by (simp add: ex_job_def new_job_def ex_request_def)
  then show ?thesis
    using exhausted_job_never_recovered [OF ex_run2 mem _ _ _ run, of "''w1''"]
    by (simp add: lease_expired_def)
qed

subsection \<open>Quotas\<close>

lemma usage_counts [simp]:
  "qu_queued_jobs (tenant_quota_usage now jobs) = count_if (\<lambda>j. ej_status j = QUEUED) jobs"
  "qu_active_running_jobs (tenant_quota_usage now jobs) = count_if (active_lease now) jobs"
  "qu_active_running_cuda_jobs (tenant_quota_usage now jobs) =
     count_if (\<lambda>j. active_lease now j \<and> ej_required_accelerator j = CUDA) jobs"
  "qu_jobs_submitted_last_hour (tenant_quota_usage now jobs) =
     count_if (\<lambda>j. now - hour \<le> ej_created_at j) jobs"
  by (simp_all add: tenant_quota_usage_def)

lemma enqueue_quota_ok:
  "enqueue_quota_check now t db = Inr () \<Longrightarrow> tenant_quota (db_quotas db) t = Some q \<Longrightarrow>
     \<not> limit_reached (max_queued_jobs q) (count_if (\<lambda>j. ej_status j = QUEUED) (visible t (db_jobs db)))
     \<and> \<not> limit_reached (max_jobs_per_hour q)
          (count_if (\<lambda>j. now - hour \<le> ej_created_at j) (visible t (db_jobs db)))"
  by (auto simp: enqueue_quota_check_def Let_def split: if_splits)

text \<open>Rewriting one row, whose key is unique, adds at most one to any count.\<close>

lemma count_if_rewrite_one:
  assumes "distinct (map k xs)"
  shows "count_if p (map (\<lambda>x. if k x = i then f x else x) xs) \<le> Suc (count_if p xs)"
  using assms
proof (induction xs)
  case (Cons x xs)
  show ?case
  proof (cases "k x = i")
    case True
    then have "k y \<noteq> i" if "y \<in> set xs" for y
      using Cons.prems that True by (simp add: image_iff) metis
    then have "map (\<lambda>x. if k x = i then f x else x) xs = xs" by (intro map_idI) simp
    then show ?thesis using True by simp
  qed (use Cons in auto)
qed simp

lemma within_reached: "\<not> limit_reached l n \<Longrightarrow> m \<le> Suc n \<Longrightarrow> within_limit l m"
  by (cases l) (auto simp: limit_reached_def within_limit_def)

lemma enqueue_within_quota:
  assumes "enqueue_job i c now t r db = Inr (db', j)" and "tenant_quota (db_quotas db) t = Some q"
  shows "within_limit (max_queued_jobs q) (count_if (\<lambda>j. ej_status j = QUEUED) (visible t (db_jobs db')))
    \<and> \<not> limit_reached (max_jobs_per_hour q)
         (count_if (\<lambda>j. now - hour \<le> ej_created_at j) (visible t (db_jobs db)))"
proof -
  note facts = enqueue_Inr [OF assms(1)]
  then have "visible t (db_jobs db') = visible t (db_jobs db) @ [j]" by simp
  moreover have "\<not> limit_reached (max_queued_jobs q)
      (count_if (\<lambda>j. ej_status j = QUEUED) (visible t (db_jobs db)))"
    using enqueue_quota_ok facts assms(2) by blast
  moreover have "\<not> limit_reached (max_jobs_per_hour q)
      (count_if (\<lambda>j. now - hour \<le> ej_created_at j) (visible t (db_jobs db)))"
    using enqueue_quota_ok facts assms(2) by blast
  ultimately show ?thesis by (simp add: within_reached)
qed

lemma lease_within_quota:
  assumes "job_db_ok db" and "lease_job fl now t w s caps db = (db', Some j)"
    and q: "tenant_quota (db_quotas db) t = Some q"
  shows "within_limit (max_running_jobs q) (count_if (active_lease now) (visible t (db_jobs db')))
    \<and> (ej_required_accelerator j = CUDA \<longrightarrow> within_limit (max_running_cuda_jobs q)
         (count_if (\<lambda>j. active_lease now j \<and> ej_required_accelerator j = CUDA) (visible t (db_jobs db'))))"
proof -
  have unique: "distinct (map ej_job_id (visible t (db_jobs db)))"
    using assms(1) by (auto simp: job_db_ok_def intro: unique_visible)
  obtain j0 cuda where j: "lease_quota now t db = Some cuda"
    "claim fl now caps cuda (visible t (db_jobs db)) = Some j0" "j = leased now w s j0"
    "db' = db\<lparr>db_jobs := update_where t (\<lambda>x. ej_job_id x = ej_job_id j0) (leased now w s) (db_jobs db)\<rparr>"
    using lease_job_Some assms(2) by blast
  have quota: "\<not> limit_reached (max_running_jobs q) (count_if (active_lease now) (visible t (db_jobs db)))"
    "cuda \<longleftrightarrow> \<not> limit_reached (max_running_cuda_jobs q)
       (count_if (\<lambda>j. active_lease now j \<and> ej_required_accelerator j = CUDA) (visible t (db_jobs db)))"
    using j(1) q by (auto simp: lease_quota_def Let_def split: if_splits)
  have cuda: "ej_required_accelerator j = CUDA \<Longrightarrow> cuda"
    using claim_Some [OF j(2)] j(3) by (simp add: claimable_def leased_def)
  have grows: "count_if p (visible t (db_jobs db')) \<le> Suc (count_if p (visible t (db_jobs db)))" for p
    using count_if_rewrite_one [OF unique] by (simp add: j(4))
  show ?thesis
    using within_reached [OF quota(1) grows] within_reached [OF _ grows] cuda quota(2) by simp
qed

text \<open>C17. A submission that succeeds finds the hourly limit not yet reached and leaves the tenant within
  its limit of queued jobs; a lease that hands out a job leaves the tenant within its limit of running
  jobs and, for a CUDA job, within that of running CUDA jobs.\<close>

theorem quotas_enforced:
  assumes "job_run fl (start, job_db0 quotas) es (earlier, db)" and "tenant_quota (db_quotas db) t = Some q"
  shows "(case enqueue_job i c now t r db of Inl _ \<Rightarrow> True
      | Inr (db', j) \<Rightarrow>
          within_limit (max_queued_jobs q) (count_if (\<lambda>j. ej_status j = QUEUED) (visible t (db_jobs db')))
        \<and> \<not> limit_reached (max_jobs_per_hour q)
             (count_if (\<lambda>j. now - hour \<le> ej_created_at j) (visible t (db_jobs db))))
    \<and> (case lease_job fl now t w s caps db of (_, None) \<Rightarrow> True
      | (db', Some j) \<Rightarrow>
          within_limit (max_running_jobs q) (count_if (active_lease now) (visible t (db_jobs db')))
        \<and> (ej_required_accelerator j = CUDA \<longrightarrow> within_limit (max_running_cuda_jobs q)
             (count_if (\<lambda>j. active_lease now j \<and> ej_required_accelerator j = CUDA)
               (visible t (db_jobs db')))))"
proof -
  have "job_db_ok db" using run_ok [OF assms(1)] job_db0_ok by simp
  then show ?thesis
    using enqueue_within_quota lease_within_quota assms(2)
    by (auto split: sum.splits prod.splits option.splits)
qed

theorem quotas_enforced_witness:
  "enqueue_job 7 100 150 ''acme'' ex_request (job_db0 ex_quotas) = Inr (ex_db1, ex_job)
    \<and> within_limit (Some 1) (count_if (\<lambda>j. ej_status j = QUEUED) (visible ''acme'' (db_jobs ex_db1)))"
proof -
  have q: "tenant_quota (db_quotas (job_db0 ex_quotas)) ''acme'' = Some (snd (hd ex_quotas))"
    by (simp add: job_db0_def tenant_quota_def ex_quotas_def)
  show ?thesis
    using quotas_enforced [OF job_run.nil q, where i = 7 and c = 100 and now = 150 and r = ex_request]
    by (simp add: ex_enqueue) (simp add: ex_quotas_def)
qed

subsection \<open>Tenants\<close>

fun event_tenant :: "job_event \<Rightarrow> tenant" where
  "event_tenant (Enqueue t r i c) = t"
| "event_tenant (Lease t w s caps row) = t"
| "event_tenant (Renew t i w s) = t"
| "event_tenant (Complete t i w r) = t"
| "event_tenant (Fail t i w e) = t"
| "event_tenant (Cancel t i) = t"
| "event_tenant (Register t w c) = t"
| "event_tenant (Save_run_row t r) = t"
| "event_tenant (Set_quota t q u) = t"

text \<open>What a tenant can see of the queue.\<close>

definition tenant_view ::
  "tenant \<Rightarrow> job_db \<Rightarrow> evaluation_job list \<times> worker_record list \<times> uuid list \<times> tenant_quota_record option" where
  "tenant_view t db =
     (visible t (db_jobs db), visible t (db_workers db), visible t (db_runs db), tenant_quota (db_quotas db) t)"

lemma update_job_view:
  "update_job t p f db = (db', row) \<Longrightarrow> t' \<noteq> t \<Longrightarrow> tenant_view t' db' = tenant_view t' db"
  by (auto simp: update_job_def tenant_view_def)

lemma set_quota_other:
  "set_tenant_quota now t q u quotas = Inr (quotas', rec) \<Longrightarrow> t' \<noteq> t \<Longrightarrow>
     tenant_quota quotas' t' = tenant_quota quotas t'"
  by (auto simp: set_tenant_quota_def tenant_quota_def Let_def split: option.splits)

lemma step_view:
  assumes "job_step fl (now, db) e (now', db')" "t' \<noteq> event_tenant e"
  shows "tenant_view t' db' = tenant_view t' db"
  using assms(1)
proof (cases rule: job_step.cases)
  case (enqueue i c t r j)
  then show ?thesis using assms(2) by (auto dest!: enqueue_Inr simp: tenant_view_def)
next
  case (lease t w s caps row)
  then show ?thesis using assms(2) by (auto simp: lease_job_def tenant_view_def split: option.splits)
next
  case (register t w c rec)
  then show ?thesis
    using assms(2) by (auto simp: register_worker_def Let_def tenant_view_def split: option.splits)
next
  case (set_quota t q u quotas' rec)
  then show ?thesis using assms(2) set_quota_other by (auto simp: tenant_view_def)
next
  case (complete t i w r j)
  then show ?thesis using assms(2) complete_Inr update_job_view by fastforce
qed (use assms(2) in \<open>auto dest!: renew_Inr fail_Inr cancel_Inr dest: update_job_view simp: tenant_view_def\<close>)



subsection \<open>Placement\<close>

lemma gpu_matches_profile:
  "0 \<le> ej_minimum_gpu_memory_available_mb job \<Longrightarrow>
     gpu_matches fl job gpu = profile_fits job (gpu_profile_of fl gpu)"
  by (auto simp: gpu_matches_def profile_fits_def gpu_profile_of_def sql_ge_def split: option.splits)

lemma eligible_capabilities_fit:
  assumes "valid_job job"
  shows "wd_eligible (diagnose_worker fl job w active) \<longleftrightarrow>
    active \<and> capabilities_fit fl (Some (wr_capabilities w)) job"
proof -
  have nonneg: "0 \<le> ej_minimum_gpu_memory_available_mb job"
    using assms by (simp add: valid_job_def job_fields_ok_def in_range_def)
  then show ?thesis
    unfolding eligible_iff gpu_reasons_Nil capabilities_fit_def load_constrained_def
    by (auto simp: offered_accelerators_def offered_labels_def offered_gpus_def list_all_iff list_ex_iff
        gpu_matches_profile)
qed

lemma count_if_pos: "0 < count_if p xs \<longleftrightarrow> list_ex p xs"
  by (induction xs) auto

text \<open>C19. The diagnostic agrees with the scheduler: it calls a job schedulable, and reports no blocker,
  exactly when the job is queued and some worker that was seen within the active window could claim
  it with the capabilities it registered, quotas aside.\<close>

theorem placement_agrees_with_lease:
  assumes "job_run fl (start, job_db0 quotas) es (earlier, db)" and "(t, j) \<in> set (db_jobs db)"
  shows "case placement_diagnostic fl now t (ej_job_id j) db of Inl _ \<Rightarrow> False
    | Inr d \<Rightarrow>
        jd_schedulable d = (ej_status j = QUEUED \<and> list_ex (\<lambda>w.
            now - DEFAULT_WORKER_ACTIVE_SECONDS * second \<le> wr_last_seen_at w
            \<and> claimable fl now (Some (wr_capabilities w)) True j) (visible t (db_workers db)))
      \<and> (jd_blockers d = []) = jd_schedulable d"
proof -
  have ok: "job_db_ok db" using run_ok [OF assms(1)] job_db0_ok by simp
  then have j: "job_ok j" using assms(2) all_rowsD by (auto simp: job_db_ok_def)
  then have fits: "capabilities_fit fl (Some c) j = claimable fl now (Some c) True j"
    if "ej_status j = QUEUED" for c
    using that by (auto simp: claimable_def job_ok_def)
  have eligible: "wd_eligible (diagnose_worker fl j w a) = (a \<and> capabilities_fit fl (Some (wr_capabilities w)) j)"
    for w a using j eligible_capabilities_fit by (simp add: job_ok_def)
  have workers: "set (list_workers t db) = set (visible t (db_workers db))" by (simp add: list_workers_def)
  define seen where "seen w \<longleftrightarrow> now - DEFAULT_WORKER_ACTIVE_SECONDS * second \<le> wr_last_seen_at w" for w :: worker_record
  define found where "found = map (\<lambda>w. diagnose_worker fl j w (seen w)) (list_workers t db)"
  have active: "list_ex wd_active found = list_ex seen (visible t (db_workers db))"
    by (auto simp: found_def list_ex_iff workers)
  have matching: "list_ex wd_eligible found =
      list_ex (\<lambda>w. seen w \<and> capabilities_fit fl (Some (wr_capabilities w)) j) (visible t (db_workers db))"
    by (auto simp: found_def list_ex_iff workers eligible)
  obtain d where d: "placement_diagnostic fl now t (ej_job_id j) db = Inr d"
    "jd_schedulable d = (ej_status j = QUEUED \<and> 0 < count_if wd_eligible found)"
    "jd_blockers d = placement_blockers j (list_workers t db) (count_if wd_active found) (count_if wd_eligible found)"
    by (simp add: placement_diagnostic_def get_job_row [OF ok assms(2)] diagnose_placement_def Let_def
        DEFAULT_WORKER_ACTIVE_SECONDS_def found_def seen_def)
  have "(jd_blockers d = []) = jd_schedulable d"
    using d(2,3) matching active workers count_if_pos [of wd_eligible found] count_if_pos [of wd_active found]
    by (auto simp: placement_blockers_def list_ex_iff split: if_splits)
  moreover have "jd_schedulable d = (ej_status j = QUEUED \<and>
      list_ex (\<lambda>w. seen w \<and> claimable fl now (Some (wr_capabilities w)) True j) (visible t (db_workers db)))"
    unfolding d(2) count_if_pos matching using fits by (auto simp: list_ex_iff)
  ultimately show ?thesis using d(1) by (simp add: seen_def)
qed

theorem placement_agrees_with_lease_witness:
  "case placement_diagnostic no_float 160 ''acme'' 7 ex_db1 of Inl _ \<Rightarrow> False
    | Inr d \<Rightarrow> \<not> jd_schedulable d"
  using placement_agrees_with_lease [OF ex_run1, of "''acme''" ex_job 160]
  by (simp add: ex_db1_def ex_job_id split: sum.splits)

end
