(* ===== verification/Worker_Properties.thy ===== *)
theory Worker_Properties
  imports Worker Job_Properties
begin

section \<open>What a worker guarantees\<close>

text \<open>
  \<open>worker_run\<close> interleaves the calls of one \<open>run_once\<close> with its heartbeat and with any operations of
  others, other workers included. Every such run is a run of the queue, so the properties of
  \<open>Job_Properties\<close> hold with any number of workers.
\<close>

inductive worker_run ::
  "(string \<Rightarrow> rat option) \<Rightarrow> (exn \<Rightarrow> string) \<Rightarrow> tenant \<Rightarrow> instant \<times> worker \<times> worker_phase \<times> job_db
     \<Rightarrow> instant \<times> worker \<times> worker_phase \<times> job_db \<Rightarrow> bool" for fl describe t where
  start: "worker_run fl describe t c c"
| own: "worker_run fl describe t c (now, w, ph, db) \<Longrightarrow> now \<le> now' \<Longrightarrow>
     worker_step fl describe t input now' (w, ph, db) = (w', ph', db') \<Longrightarrow>
     worker_run fl describe t c (now', w', ph', db')"
| beat: "worker_run fl describe t c (now, w, ph, db) \<Longrightarrow> now \<le> now' \<Longrightarrow> heartbeat_job ph = Some j \<Longrightarrow>
     heartbeat t input now' j w db = Inr (w', db', continues) \<Longrightarrow>
     worker_run fl describe t c (now', w', ph, db')"
| other: "worker_run fl describe t c (now, w, ph, db) \<Longrightarrow> job_step fl (now, db) e (now', db') \<Longrightarrow>
     worker_run fl describe t c (now', w, ph, db')"

text \<open>Every call of a worker changes the queue by one operation, or not at all.\<close>

lemma own_step_event:
  assumes "worker_step fl describe t input now' (w, ph, db) = (w', ph', db')" "now \<le> now'"
  shows "db' = db \<or> (\<exists>e. job_step fl (now, db) e (now', db'))"
proof -
  have register: "\<exists>e. job_step fl (now, db) e (now', fst (register_worker now' t i c db))" for i c
    using job_step.register [OF assms(2), of t i c db] by (metis prod.collapse)
  show ?thesis
    using assms
    by (cases ph)
      (auto simp: Let_def register split: prod.splits option.splits sum.splits exn.splits
        intro: job_step.lease job_step.complete job_step.fail job_step.save_run)
qed

lemma heartbeat_events:
  assumes "heartbeat t input now' j w db = Inr (w', db', continues)" "now \<le> now'"
  shows "\<exists>es. job_run fl (now, db) es (now', db')"
proof -
  let ?w = "refresh_capabilities input w"
  let ?db = "fst (register_worker now' t (wk_worker_id ?w) (wk_capabilities ?w) db)"
  have register: "job_step fl (now, db) (Register t (wk_worker_id ?w) (wk_capabilities ?w)) (now', ?db)"
    using job_step.register [OF assms(2)] by (metis prod.collapse)
  show ?thesis
  proof (cases "renew_job_lease now' t (ej_job_id j) (wk_worker_id ?w) (wk_lease_seconds ?w) ?db")
    case (Inl e)
    then have "db' = ?db" using assms(1) by (cases e) (auto simp: heartbeat_def Let_def)
    then show ?thesis using job_run.snoc [OF job_run.nil register] by blast
  next
    case (Inr r)
    obtain db'' j' where r: "r = (db'', j')" by (cases r)
    then have "db'' = db'" using assms(1) Inr by (auto simp: heartbeat_def Let_def)
    then show ?thesis
      using job_run.snoc [OF job_run.snoc [OF job_run.nil register] job_step.renew [OF order_refl]] Inr r by blast
  qed
qed

lemma job_step_earlier: "job_step fl (now, db) e (now', db') \<Longrightarrow> n \<le> now \<Longrightarrow> job_step fl (n, db) e (now', db')"
  by (erule job_stepE) (auto intro!: job_step.intros dest: order_trans)

lemma worker_run_queue:
  "worker_run fl describe t c c' \<Longrightarrow>
     \<exists>es n. job_run fl (fst c, snd (snd (snd c))) es (n, snd (snd (snd c'))) \<and> n \<le> fst c'"
proof (induction rule: worker_run.induct)
  case (start c)
  show ?case by (intro exI [of _ "[]"] exI [of _ "fst c"]) (simp add: job_run.nil)
next
  case (own c now w ph db now' input w' ph' db')
  then obtain es n where es: "job_run fl (fst c, snd (snd (snd c))) es (n, db)" "n \<le> now" by auto
  then have "db' = db \<or> (\<exists>e. job_step fl (n, db) e (now', db'))"
    using own_step_event [OF own.hyps(3), of n] own.hyps(2) by simp
  then show ?case using es own.hyps(2) job_run.snoc by fastforce
next
  case (beat c now w ph db now' j input w' db' continues)
  then obtain es n where es: "job_run fl (fst c, snd (snd (snd c))) es (n, db)" "n \<le> now" by auto
  then obtain es' where "job_run fl (n, db) es' (now', db')"
    using heartbeat_events [OF beat.hyps(4), of n] beat.hyps(2) by auto
  then show ?case using job_run_trans [OF _ es(1)] by (auto intro!: exI)
next
  case (other c now w ph db e now' db')
  then obtain es n where es: "job_run fl (fst c, snd (snd (snd c))) es (n, db)" "n \<le> now" by auto
  then show ?case using job_run.snoc [OF es(1) job_step_earlier [OF other.hyps(2) es(2)]] by auto
qed

subsection \<open>Phases\<close>

definition known_job :: "tenant \<Rightarrow> job_db \<Rightarrow> uuid \<Rightarrow> bool" where
  "known_job t db i \<longleftrightarrow> i \<in> set (map ej_job_id (visible t (db_jobs db)))"

fun phase_ok :: "tenant \<Rightarrow> job_db \<Rightarrow> worker_phase \<Rightarrow> bool" where
  "phase_ok t db (Run_saved j run) \<longleftrightarrow> known_job t db (ej_job_id j) \<and> (t, run) \<in> set (db_runs db)"
| "phase_ok t db (Returned (Some j)) \<longleftrightarrow> job_ok j \<and> known_job t db (ej_job_id j)
     \<and> (case ej_run_id j of None \<Rightarrow> True | Some run \<Rightarrow> (t, run) \<in> set (db_runs db))"
| "phase_ok t db (Raised e) \<longleftrightarrow> False"
| "phase_ok t db ph \<longleftrightarrow> (case heartbeat_job ph of None \<Rightarrow> True | Some j \<Rightarrow> known_job t db (ej_job_id j))"

lemma phase_ok_mono:
  "phase_ok t db ph \<Longrightarrow> (\<And>i. known_job t db i \<Longrightarrow> known_job t db' i) \<Longrightarrow>
     set (db_runs db) \<subseteq> set (db_runs db') \<Longrightarrow> phase_ok t db' ph"
  by (cases "(t, db, ph)" rule: phase_ok.cases) (auto split: option.splits)

lemma known_job_step:
  assumes "job_step fl (now, db) e (now', db')" "unique_key ej_job_id (db_jobs db)" "known_job t db i"
  shows "known_job t db' i"
proof -
  obtain j where j: "(t, j) \<in> set (db_jobs db)" "ej_job_id j = i"
    using assms(3) by (auto simp: known_job_def set_visible)
  obtain j' where "(t, j') \<in> set (db_jobs db')" "j' = j \<or> job_effect fl now' e t j j'"
    using step_forward [OF assms(1,2) j(1)] by blast
  moreover from this(2) have "ej_job_id j' = i" using j(2) job_effect_id by blast
  ultimately show ?thesis by (force simp: known_job_def set_visible)
qed

lemma phase_ok_step:
  assumes "job_step fl (now, db) e (now', db')" "job_db_ok db" "phase_ok t db ph"
  shows "phase_ok t db' ph"
  using assms phase_ok_mono [OF assms(3)] known_job_step [OF assms(1)] step_runs [OF assms(1)]
  by (auto simp: job_db_ok_def)

lemma phase_ok_run:
  "job_run fl c es c' \<Longrightarrow> job_db_ok (snd c) \<Longrightarrow> phase_ok t (snd c) ph \<Longrightarrow> phase_ok t (snd c') ph"
proof (induction rule: job_run.induct)
  case (snoc c es c' e c'')
  then show ?case
    using run_ok [OF snoc.hyps(1)] phase_ok_step [of fl "fst c'" "snd c'" e "fst c''" "snd c''"] by simp
qed

lemma returned_row:
  assumes "update_job t p f db = (db', Some j)" "job_db_ok db'"
  shows "phase_ok t db' (Returned (Some j))"
proof -
  obtain k where "db' = db\<lparr>db_jobs := update_where t p f (db_jobs db)\<rparr>" "(t, k) \<in> set (db_jobs db)" "p k" "j = f k"
    using update_job_Some [OF assms(1)] by blast
  then have "(t, j) \<in> set (db_jobs db')" by (force simp: set_update_where)
  then show ?thesis
    using assms(2) by (force simp: job_db_ok_def all_rows_def runs_exist_def known_job_def set_visible split: option.splits)
qed

lemma fail_job_Inl: "fail_job now t i w e db = Inl x \<Longrightarrow> \<exists>m. x = RuntimeError m"
  by (auto simp: fail_job_def leased_job_or_error_def split: prod.splits option.splits)

lemma get_job_known:
  assumes "known_job t db i" "job_db_ok db"
  shows "\<exists>j. get_job t i db = Inr j \<and> (t, j) \<in> set (db_jobs db)"
  using get_job_row [OF assms(2)] assms(1) by (auto simp: known_job_def set_visible)

lemma own_step_phase:
  assumes "worker_step fl describe t input now' (w, ph, db) = (w', ph', db')" "now \<le> now'"
    and ok: "job_db_ok db" "phase_ok t db ph"
  shows "job_db_ok db' \<and> phase_ok t db' ph'"
proof
  show ok': "job_db_ok db'" using own_step_event [OF assms(1,2)] step_ok ok(1) by blast
  have keep: "phase_ok t db' ph"
    using own_step_event [OF assms(1,2)] phase_ok_step ok by blast
  show "phase_ok t db' ph'"
  proof (cases ph)
    case (Registered caps)
    then show ?thesis
      using assms(1) ok' lease_job_Some [of fl now' t "wk_worker_id w" "wk_lease_seconds w" "Some caps" db db']
      by (auto simp: known_job_def set_visible set_update_where image_iff split: prod.splits option.splits)
        (auto intro!: bexI simp: set_visible)
  next
    case (Run_saved j run)
    show ?thesis
    proof (cases "complete_job now' t (ej_job_id j) (wk_worker_id w) run db")
      case (Inl e)
      then show ?thesis using assms(1) keep Run_saved by auto
    next
      case (Inr r)
      then show ?thesis
        using assms(1) Run_saved returned_row [OF conjunct1 [OF complete_Inr] ok'] by (cases r) auto
    qed
  next
    case (Failing j e)
    show ?thesis
    proof (cases "fail_job now' t (ej_job_id j) (wk_worker_id w) (describe e) db")
      case (Inl x)
      then show ?thesis using assms(1) keep Failing fail_job_Inl [OF Inl] by auto
    next
      case (Inr r)
      then show ?thesis
        using assms(1) Failing returned_row [OF fail_Inr ok'] by (cases r) auto
    qed
  next
    case (Lease_lost j)
    then obtain k where k: "get_job t (ej_job_id j) db = Inr k" "(t, k) \<in> set (db_jobs db)"
      using get_job_known [of t db "ej_job_id j"] ok Lease_lost by auto
    then show ?thesis
      using assms(1) ok Lease_lost
      by (force simp: job_db_ok_def all_rows_def runs_exist_def known_job_def set_visible split: option.splits)
  qed (use assms(1) keep in \<open>auto simp: Let_def insert_row_def split: sum.splits\<close>)
qed

lemma worker_run_phase:
  "worker_run fl describe t c c' \<Longrightarrow> job_db_ok (snd (snd (snd c))) \<Longrightarrow>
     phase_ok t (snd (snd (snd c))) (fst (snd (snd c))) \<Longrightarrow>
     job_db_ok (snd (snd (snd c'))) \<and> phase_ok t (snd (snd (snd c'))) (fst (snd (snd c')))"
proof (induction rule: worker_run.induct)
  case (own c now w ph db now' input w' ph' db')
  then show ?case using own_step_phase [OF own.hyps(3,2)] by simp
next
  case (beat c now w ph db now' j input w' db' continues)
  then obtain es where "job_run fl (now, db) es (now', db')" using heartbeat_events by blast
  then show ?case using beat phase_ok_run [of fl "(now, db)" es "(now', db')" t ph] run_ok by fastforce
next
  case (other c now w ph db e now' db')
  then show ?case using phase_ok_step [OF other.hyps(2)] step_ok [OF other.hyps(2)] by simp
qed simp

subsection \<open>Claims\<close>


lemma run_once_worker_run:
  "worker_run fl describe t c (n, w, ph, db) \<Longrightarrow> n \<le> now \<Longrightarrow>
     run_once fl describe t input now (w, ph, db) = (w', ph', db') \<Longrightarrow>
     \<exists>n'. n' \<le> now \<and> worker_run fl describe t c (n', w', ph', db')"
proof (induction fl describe t input now "(w, ph, db)" arbitrary: n w ph db rule: run_once.induct)
  case (1 fl describe t input now w ph db)
  show ?case
  proof (cases "remaining_calls ph = 0")
    case True
    then show ?thesis using 1 by (auto simp: run_once.simps)
  next
    case False
    obtain w1 ph1 db1 where step: "worker_step fl describe t input now (w, ph, db) = (w1, ph1, db1)"
      by (metis prod_cases3)
    have "worker_run fl describe t c (now, w1, ph1, db1)"
      using worker_run.own [OF 1(2,3) step] .
    then show ?thesis using 1(1,4) False step by (simp add: run_once.simps [of _ _ _ _ _ w])
  qed
qed

subsection \<open>A quiet run\<close>

lemma find_holder:
  assumes "job_db_ok db" "(t, j) \<in> set (db_jobs db)" "holds_lease i w j"
  shows "update_job t (holds_lease i w) f db =
    (db\<lparr>db_jobs := update_where t (holds_lease i w) f (db_jobs db)\<rparr>, Some (f j))"
proof -
  have "distinct (map ej_job_id (visible t (db_jobs db)))"
    using assms(1) by (auto simp: job_db_ok_def intro: unique_visible)
  moreover have "j \<in> set (visible t (db_jobs db))" using assms(2) by (simp add: set_visible)
  ultimately have "find (holds_lease i w) (visible t (db_jobs db)) = Some j"
    using assms(3) find_unique [of ej_job_id _ j "holds_lease i w"] by (auto simp: holds_lease_def)
  then show ?thesis by (simp add: update_job_def returning_def)
qed

text \<open>Undisturbed, \<open>run_once\<close> comes to its end: with nothing to lease it returns nothing; otherwise the
  job it leased is completed with the run that the engine made when that run could be saved, and
  failed with the exception of the engine or of the save when not; in each case the row in the queue
  is the one returned.\<close>

theorem run_once_outcome:
  assumes "job_run fl (start, job_db0 quotas) es (now, db)" and "now \<le> now'"
    and "w' = refresh_capabilities input w"
    and "db0 = fst (register_worker now' t (wk_worker_id w) (wk_capabilities w') db)"
  shows "case (lease_job fl now' t (wk_worker_id w) (wk_lease_seconds w) (Some (wk_capabilities w')) db0,
      run_once fl describe t input now' (w, Starting, db)) of
      ((db1, None), (v, ph, db')) \<Rightarrow> v = w' \<and> ph = Returned None \<and> db' = db0
    | ((db1, Some j), (v, ph, db')) \<Rightarrow>
        v = w' \<and> (\<exists>j'. ph = Returned (Some j') \<and> (t, j') \<in> set (db_jobs db') \<and>
          j' = (case bind_result (wi_engine input j) (\<lambda>run. bind_result (wi_save_run input run) (\<lambda>_. Inr run)) of
                  Inr run \<Rightarrow> completed now' run j
                | Inl e \<Rightarrow> failed now' (describe e) j))"
proof -
  have ok: "job_db_ok db" using run_ok [OF assms(1)] job_db0_ok by simp
  have id: "wk_worker_id w' = wk_worker_id w" "wk_lease_seconds w' = wk_lease_seconds w"
    by (simp_all add: assms(3) refresh_capabilities_def)
  have ok0: "job_db_ok db0"
    using step_ok [OF job_step.register [OF assms(2)] ok] assms(4) by (metis prod.collapse)
  obtain db1 row where lease: "lease_job fl now' t (wk_worker_id w) (wk_lease_seconds w)
      (Some (wk_capabilities w')) db0 = (db1, row)" by fastforce
  have quiet: "run_once fl describe t input now' (w, Starting, db) =
      run_once fl describe t input now' (case row of None \<Rightarrow> (w', Returned None, db1) | Some j \<Rightarrow> (w', Leased j, db1))"
    using lease id assms(3,4)
    by (simp add: run_once.simps [of _ _ _ _ _ _ Starting] run_once.simps [of _ _ _ _ _ _ "Registered _"] Let_def
        split: option.splits)
  show ?thesis
  proof (cases row)
    case None
    then show ?thesis
      using lease quiet lease_job_None by (simp add: run_once.simps)
  next
    case (Some j)
    have ok1: "job_db_ok db1"
      using step_ok [OF job_step.lease [OF order_refl lease] ok0] .
    obtain k where k: "(t, k) \<in> set (db_jobs db0)" "j = leased now' (wk_worker_id w) (wk_lease_seconds w) k"
      "db1 = db0\<lparr>db_jobs := update_where t (\<lambda>x. ej_job_id x = ej_job_id k)
         (leased now' (wk_worker_id w) (wk_lease_seconds w)) (db_jobs db0)\<rparr>"
      using lease_job_Some lease Some by blast
    have mem: "(t, j) \<in> set (db_jobs db1)" using k by (force simp: set_update_where)
    have holds: "holds_lease (ej_job_id j) (wk_worker_id w) j" using k(2) by (simp add: holds_lease_def)
    note found = find_holder [OF ok1 mem holds]
    have after: "(t, f j) \<in> set (update_where t (holds_lease (ej_job_id j) (wk_worker_id w)) f (db_jobs db1))" for f
      using mem holds by (force simp: set_update_where)
    have fail: "run_once fl describe t input now' (w', Failing j e, db1) =
        (w', Returned (Some (failed now' (describe e) j)),
         db1\<lparr>db_jobs := update_where t (holds_lease (ej_job_id j) (wk_worker_id w)) (failed now' (describe e)) (db_jobs db1)\<rparr>)" for e
      using found id by (simp add: run_once.simps fail_job_def leased_job_or_error_def)
    show ?thesis
    proof (cases "wi_engine input j")
      case (Inl e)
      then show ?thesis
        using lease Some quiet fail after by (simp add: run_once.simps [of _ _ _ _ _ _ "Leased _"])
    next
      case (Inr run)
      show ?thesis
      proof (cases "wi_save_run input run")
        case (Inl e)
        then show ?thesis
          using lease Some quiet fail after Inr
          by (simp add: run_once.simps [of _ _ _ _ _ _ "Leased _"] run_once.simps [of _ _ _ _ _ _ "Run_made _ _"])
      next
        case saved: (Inr u)
        let ?db = "db1\<lparr>db_runs := insert_row t run (db_runs db1)\<rparr>"
        have ok2: "job_db_ok ?db" using step_ok [OF job_step.save_run [OF order_refl] ok1] .
        have "update_job t (holds_lease (ej_job_id j) (wk_worker_id w)) f ?db =
            (?db\<lparr>db_jobs := update_where t (holds_lease (ej_job_id j) (wk_worker_id w)) f (db_jobs ?db)\<rparr>, Some (f j))" for f
          using find_holder [OF ok2 _ holds, of t] mem by simp
        then show ?thesis
          using lease Some quiet after Inr saved id
          by (simp add: run_once.simps complete_job_def leased_job_or_error_def)
      qed
    qed
  qed
qed

subsection \<open>A concrete run\<close>

definition ex_capabilities :: worker_capabilities where
  "ex_capabilities = \<lparr>wc_hostname = ''h'', wc_operating_system = ''linux'', wc_architecture = ''x86_64'', wc_cpu_count = 1, wc_accelerators = [CPU], wc_gpus = [], wc_labels = []\<rparr>"

definition ex_worker :: worker where
  "ex_worker = \<lparr>wk_worker_id = ''w1'', wk_lease_seconds = 60, wk_has_provider = False,
     wk_capabilities = ex_capabilities\<rparr>"

definition ex_input :: worker_input where
  "ex_input = \<lparr>wi_capabilities = ex_capabilities, wi_engine = (\<lambda>j. Inr 9), wi_save_run = (\<lambda>r. Inr ())\<rparr>"

lemma ex_worker_lease:
  "lease_job no_float 200 ''acme'' ''w1'' 60 (Some ex_capabilities)
      (fst (register_worker 200 ''acme'' ''w1'' ex_capabilities ex_db1)) =
    (ex_db2\<lparr>db_workers := db_workers (fst (register_worker 200 ''acme'' ''w1'' ex_capabilities ex_db1))\<rparr>,
     Some (leased 200 ''w1'' 60 ex_job))"
  by (simp add: lease_job_def lease_quota_def tenant_quota_def ex_db1_def ex_db2_def ex_quotas_def
      tenant_quota_usage_def limit_reached_def claim_def claimable_def capabilities_fit_def ex_job_def
      new_job_def ex_request_def active_lease_def update_where_def register_worker_def returning_def
      ex_capabilities_def offered_accelerators_def offered_labels_def offered_gpus_def insert_row_def Let_def)

lemma ex_run_once:
  "\<exists>db'. run_once no_float (\<lambda>e. ''error'') ''acme'' ex_input 200 (ex_worker, Starting, ex_db1) =
     (ex_worker, Returned (Some (completed 200 9 (leased 200 ''w1'' 60 ex_job))), db')"
proof -
  have refresh: "refresh_capabilities ex_input ex_worker = ex_worker"
    "wk_worker_id ex_worker = ''w1''" "wk_lease_seconds ex_worker = 60" "wk_capabilities ex_worker = ex_capabilities"
    by (simp_all add: refresh_capabilities_def ex_worker_def)
  show ?thesis
    by (simp add: run_once.simps refresh ex_worker_lease Let_def complete_job_def leased_job_or_error_def)
      (simp add: ex_input_def ex_db2_def update_job_def returning_def holds_lease_def run_once.simps
        complete_job_def leased_job_or_error_def refresh ex_job_id insert_row_def)
qed


theorem run_once_outcome_witness:
  "\<exists>v db'. run_once no_float (\<lambda>e. ''error'') ''acme'' ex_input 200 (ex_worker, Starting, ex_db1) =
     (v, Returned (Some (completed 200 9 (leased 200 ''w1'' 60 ex_job))), db')"
proof -
  have refresh: "refresh_capabilities ex_input ex_worker = ex_worker"
    "wk_worker_id ex_worker = ''w1''" "wk_lease_seconds ex_worker = 60" "wk_capabilities ex_worker = ex_capabilities"
    by (simp_all add: refresh_capabilities_def ex_worker_def)
  obtain v ph db' where run:
    "run_once no_float (\<lambda>e. ''error'') ''acme'' ex_input 200 (ex_worker, Starting, ex_db1) = (v, ph, db')"
    by (metis prod_cases3)
  have answers: "wi_engine ex_input = (\<lambda>j. Inr 9)" "wi_save_run ex_input = (\<lambda>r. Inr ())"
    by (simp_all add: ex_input_def)
  show ?thesis
    using run_once_outcome [where now' = 200 and t = "''acme''" and w = ex_worker and input = ex_input and describe = "\<lambda>e. ''error''", OF ex_run1 _ refl refl]
    by (simp add: refresh ex_worker_lease run answers)
qed

end
