(* ===== verification/Matching.thy ===== *)
theory Matching
  imports Prelude
begin

section \<open>Maximum matching (\<open>capacity._maximum_matching\<close>)\<close>

text \<open>
  Bipartite matching of jobs to slots by breadth-first augmenting paths, written as the code has
  it: the search from one root job with its queue, visited sets and parent map, the loop that
  flips the path it found, and the loop over the root jobs. \<open>eligible\<close> is the list of slots of a
  job. The flipping loop follows parent pointers until a job had no slot; it is a
  \<open>partial_function\<close>, so a loop that does not end, or that misses a parent, is \<open>None\<close>. The lemmas
  show that this does not happen, that the result is a matching, that it is maximum, and that it
  prefers earlier jobs.
\<close>

subsection \<open>The search from one root\<close>

record ('j, 's) search =
  queue :: "'j list"
  visited_jobs :: "'j set"
  visited_slots :: "'s set"
  slot_parent :: "('s, 'j) dict"
  free_slot :: "'s option"

text \<open>The loop over the slots of one job; it stops at the first free slot.\<close>

fun scan_slots ::
  "('s, 'j) dict \<Rightarrow> 'j \<Rightarrow> 's list \<Rightarrow> ('j, 's) search \<Rightarrow> ('j, 's) search" where
  "scan_slots slot_to_job job [] st = st"
| "scan_slots slot_to_job job (slot # slots) st =
     (if slot \<in> visited_slots st then scan_slots slot_to_job job slots st
      else
        let st = st\<lparr>visited_slots := insert slot (visited_slots st),
                    slot_parent := dict_set slot job (slot_parent st)\<rparr>
        in case map_of slot_to_job slot of
             None \<Rightarrow> st\<lparr>free_slot := Some slot\<rparr>
           | Some incumbent \<Rightarrow>
               scan_slots slot_to_job job slots
                 (if incumbent \<in> visited_jobs st then st
                  else st\<lparr>visited_jobs := insert incumbent (visited_jobs st),
                          queue := queue st @ [incumbent]\<rparr>))"

text \<open>Matched jobs that the search has not seen: the search queues each of them at most once.\<close>

definition unseen :: "('s, 'j) dict \<Rightarrow> ('j, 's) search \<Rightarrow> 'j set" where
  "unseen slot_to_job st = snd ` set slot_to_job - visited_jobs st"

lemma unseen_queue [simp]: "unseen slot_to_job (st\<lparr>queue := q\<rparr>) = unseen slot_to_job st"
  by (simp add: unseen_def)

lemma scan_slots_measure:
  "card (unseen slot_to_job (scan_slots slot_to_job job slots st)) +
     length (queue (scan_slots slot_to_job job slots st)) =
   card (unseen slot_to_job st) + length (queue st)"
proof (induction slots arbitrary: st)
  case (Cons slot slots)
  show ?case
  proof (cases "slot \<in> visited_slots st")
    case False
    let ?st = "st\<lparr>visited_slots := insert slot (visited_slots st),
                    slot_parent := dict_set slot job (slot_parent st)\<rparr>"
    show ?thesis
    proof (cases "map_of slot_to_job slot")
      case (Some incumbent)
      show ?thesis
      proof (cases "incumbent \<in> visited_jobs st")
        case True
        with False Some show ?thesis by (simp add: Cons.IH) (simp add: unseen_def)
      next
        case new: False
        have "incumbent \<in> unseen slot_to_job st"
          using Some new by (force simp: unseen_def dest: map_of_SomeD)
        then have "Suc (card (unseen slot_to_job st - {incumbent})) = card (unseen slot_to_job st)"
          by (intro card_Suc_Diff1) (simp_all add: unseen_def)
        moreover have "unseen slot_to_job (?st\<lparr>visited_jobs := insert incumbent (visited_jobs st),
            queue := queue st @ [incumbent]\<rparr>) = unseen slot_to_job st - {incumbent}"
          by (auto simp: unseen_def)
        ultimately show ?thesis using False Some new by (simp add: Cons.IH)
      qed
    qed (use False in \<open>simp add: unseen_def\<close>)
  qed (simp add: Cons.IH)
qed simp

function search_free ::
  "('s, 'j) dict \<Rightarrow> ('j \<Rightarrow> 's list) \<Rightarrow> ('j, 's) search \<Rightarrow> ('j, 's) search" where
  "search_free slot_to_job eligible st =
     (case queue st of [] \<Rightarrow> st
      | job # rest \<Rightarrow>
          if free_slot st \<noteq> None then st
          else search_free slot_to_job eligible
                 (scan_slots slot_to_job job (eligible job) (st\<lparr>queue := rest\<rparr>)))"
  by pat_completeness auto
termination
  by (relation "measure (\<lambda>(slot_to_job, _, st). card (unseen slot_to_job st) + length (queue st))")
    (auto simp: scan_slots_measure)

declare search_free.simps [simp del]

definition search0 :: "'j \<Rightarrow> ('j, 's) search" where
  "search0 root_job = \<lparr>queue = [root_job], visited_jobs = {root_job}, visited_slots = {},
     slot_parent = [], free_slot = None\<rparr>"

subsection \<open>Flipping the path\<close>

record ('j, 's) matching =
  slot_to_job :: "('s, 'j) dict"
  job_to_slot :: "('j, 's) dict"

partial_function (option) flip_path ::
  "('s, 'j) dict \<Rightarrow> 's option \<Rightarrow> ('j, 's) matching \<Rightarrow> ('j, 's) matching option" where
  "flip_path parent free m =
     (case free of None \<Rightarrow> Some m
      | Some slot \<Rightarrow>
          (case map_of parent slot of None \<Rightarrow> None
           | Some job \<Rightarrow>
               let previous_slot = map_of (job_to_slot m) job in
               flip_path parent previous_slot
                 (m\<lparr>slot_to_job := dict_set slot job (slot_to_job m),
                    job_to_slot := dict_set job slot (job_to_slot m)\<rparr>)))"

definition match_root ::
  "('j \<Rightarrow> 's list) \<Rightarrow> 'j \<Rightarrow> ('j, 's) matching \<Rightarrow> ('j, 's) matching option" where
  "match_root eligible root_job m =
     (let st = search_free (slot_to_job m) eligible (search0 root_job) in
      flip_path (slot_parent st) (free_slot st) m)"

fun match_roots ::
  "('j \<Rightarrow> 's list) \<Rightarrow> 'j list \<Rightarrow> ('j, 's) matching \<Rightarrow> ('j, 's) matching option" where
  "match_roots eligible [] m = Some m"
| "match_roots eligible (root_job # jobs) m =
     (case match_root eligible root_job m of None \<Rightarrow> None
      | Some m' \<Rightarrow> match_roots eligible jobs m')"

definition maximum_matching :: "'j list \<Rightarrow> ('j \<Rightarrow> 's list) \<Rightarrow> ('j, 's) dict option" where
  "maximum_matching job_ids eligible =
     map_option job_to_slot (match_roots eligible job_ids \<lparr>slot_to_job = [], job_to_slot = []\<rparr>)"

subsection \<open>Matchings\<close>

text \<open>
  \<open>agree N M s\<close>: the two maps are inverse to each other but for slot \<open>s\<close>, which no job has. With
  \<open>None\<close> for \<open>s\<close> they are inverse everywhere.
\<close>

definition agree :: "('s \<rightharpoonup> 'j) \<Rightarrow> ('j \<rightharpoonup> 's) \<Rightarrow> 's option \<Rightarrow> bool" where
  "agree N M hole \<longleftrightarrow>
     (\<forall>j t. hole \<noteq> Some t \<longrightarrow> (M j = Some t \<longleftrightarrow> N t = Some j)) \<and>
     (\<forall>j t. hole = Some t \<longrightarrow> M j \<noteq> Some t)"

definition uses_eligible :: "('j \<Rightarrow> 's list) \<Rightarrow> ('j \<rightharpoonup> 's) \<Rightarrow> bool" where
  "uses_eligible eligible M \<longleftrightarrow> (\<forall>j t. M j = Some t \<longrightarrow> t \<in> set (eligible j))"

lemma agreeD: "agree N M hole \<Longrightarrow> hole \<noteq> Some t \<Longrightarrow> M j = Some t \<longleftrightarrow> N t = Some j"
  by (simp add: agree_def)

lemma agree_hole: "agree N M (Some s) \<Longrightarrow> M j \<noteq> Some s"
  by (simp add: agree_def)

lemma agree_free: "agree N M None \<Longrightarrow> N s = None \<Longrightarrow> agree N M (Some s)"
  by (simp add: agree_def)

lemma agree_flip:
  assumes "agree N M (Some s)"
  shows "agree (N(s \<mapsto> j)) (M(j \<mapsto> s)) (M j)"
proof (cases "M j")
  case None
  have "N t \<noteq> Some j" if "t \<noteq> s" for t
  proof -
    have "M j = Some t \<longleftrightarrow> N t = Some j" using assms that by (simp add: agree_def)
    then show ?thesis using None by simp
  qed
  then show ?thesis using assms None by (auto simp: agree_def)
next
  case (Some s')
  have ne: "s \<noteq> s'" using agree_hole [OF assms] Some by metis
  then have "M j' = Some s' \<longleftrightarrow> N s' = Some j'" for j' using agreeD [OF assms] by simp
  then have s': "M j' = Some s' \<longleftrightarrow> j' = j" for j' using Some by (metis option.inject)
  have "(M(j \<mapsto> s)) k = Some t \<longleftrightarrow> (N(s \<mapsto> j)) t = Some k" if "t \<noteq> s'" for k t
  proof (cases "t = s")
    case True
    then show ?thesis using agree_hole [OF assms, of k] by auto
  next
    case False
    then have "M k = Some t \<longleftrightarrow> N t = Some k" using agreeD [OF assms] by simp
    then show ?thesis using False that Some by auto
  qed
  moreover have "(M(j \<mapsto> s)) k \<noteq> Some s'" for k using s' ne by simp
  ultimately show ?thesis using Some by (simp add: agree_def)
qed

text \<open>
  The path from a slot to the root: the slot's parent, that job's slot, its parent, and so on. A
  path is determined by its slot, so it has no repeated job.
\<close>

inductive path :: "('s \<rightharpoonup> 'j) \<Rightarrow> ('j \<rightharpoonup> 's) \<Rightarrow> 'j \<Rightarrow> 's \<Rightarrow> 'j list \<Rightarrow> bool"
  for parent M rt where
  base: "parent s = Some rt \<Longrightarrow> M rt = None \<Longrightarrow> path parent M rt s [rt]"
| step: "parent s = Some j \<Longrightarrow> M j = Some s' \<Longrightarrow> path parent M rt s' js \<Longrightarrow>
     path parent M rt s (j # js)"

inductive_cases path_ConsE: "path parent M rt s (j # js)"

lemma path_parent: "path P M r s (j # js) \<Longrightarrow> P s = Some j"
  by (erule path_ConsE) simp_all

lemma path_ConsD:
  "path P M r s (j # js) \<Longrightarrow>
     j = r \<and> js = [] \<and> M r = None \<or> (\<exists>s'. M j = Some s' \<and> path P M r s' js)"
  by (erule path_ConsE) auto

lemma path_unique: "path P M r s js \<Longrightarrow> path P M r s js' \<Longrightarrow> js = js'"
proof (induction arbitrary: js' rule: path.induct)
  case (base s)
  from base(3) show ?case by cases (use base(1,2) in auto)
next
  case (step s j s' js)
  from step.prems obtain js'' where js': "js' = j # js''" "path P M r s' js''"
    by cases (use step.hyps in auto)
  then show ?case using step.IH by simp
qed

lemma path_suffix:
  "path P M r s js \<Longrightarrow> j \<in> set js \<Longrightarrow> M j = Some t \<Longrightarrow>
     \<exists>js'. path P M r t js' \<and> length js' < length js"
proof (induction rule: path.induct)
  case (step s j' s' js)
  show ?case
  proof (cases "j = j'")
    case True
    then show ?thesis using step.hyps step.prems by auto
  next
    case False
    then obtain js' where "path P M r t js'" "length js' < length js"
      using step.IH step.prems by auto
    then show ?thesis by (intro exI [of _ js']) simp
  qed
qed simp

lemma path_distinct: "path P M r s js \<Longrightarrow> distinct js"
proof (induction rule: path.induct)
  case (step s j s' js)
  have "j \<notin> set js"
  proof
    assume "j \<in> set js"
    then obtain js' where "path P M r s' js'" "length js' < length js"
      using path_suffix step.hyps(2,3) by metis
    then show False using path_unique [OF step.hyps(3)] by auto
  qed
  then show ?case using step.IH by simp
qed simp

lemma path_cong:
  "path P M r s js \<Longrightarrow> (\<And>j. j \<in> set js \<Longrightarrow> M' j = M j) \<Longrightarrow> path P M' r s js"
  by (induction rule: path.induct) (auto intro: path.intros)

lemma path_extend: "path P M r s js \<Longrightarrow> t \<notin> dom P \<Longrightarrow> path (P(t \<mapsto> j)) M r s js"
proof (induction rule: path.induct)
  case (base s)
  then have "(P(t \<mapsto> j)) s = Some r" by auto
  then show ?case using base(2) by (rule path.base)
next
  case (step s j' s' js)
  then have "(P(t \<mapsto> j)) s = Some j'" by auto
  then show ?case using step by (auto intro: path.step)
qed

lemma path_jobs: "path P M r s js \<Longrightarrow> set js \<subseteq> insert r (dom M) \<and> r \<in> set js"
  by (induction rule: path.induct) auto

text \<open>A closed set of jobs: their slots are in \<open>T\<close>, and the slots of \<open>T\<close> are held by them.\<close>

definition closed :: "('j \<Rightarrow> 's list) \<Rightarrow> ('s \<rightharpoonup> 'j) \<Rightarrow> 'j set \<Rightarrow> 's set \<Rightarrow> bool" where
  "closed eligible N D T \<longleftrightarrow>
     (\<forall>j \<in> D. set (eligible j) \<subseteq> T) \<and> (\<forall>t \<in> T. \<exists>j \<in> D. N t = Some j)"

lemma flip_path_correct:
  assumes "path (map_of parent) (map_of (job_to_slot m)) r s js"
    and "agree (map_of (slot_to_job m)) (map_of (job_to_slot m)) (Some s)"
    and "uses_eligible eligible (map_of (job_to_slot m))"
    and "\<forall>t j. map_of parent t = Some j \<longrightarrow> t \<in> set (eligible j)"
  shows "\<exists>m'. flip_path parent (Some s) m = Some m'
     \<and> agree (map_of (slot_to_job m')) (map_of (job_to_slot m')) None
     \<and> uses_eligible eligible (map_of (job_to_slot m'))
     \<and> dom (map_of (job_to_slot m')) = insert r (dom (map_of (job_to_slot m)))
     \<and> distinct (dict_keys (job_to_slot m')) = distinct (dict_keys (job_to_slot m))"
  using assms
proof (induction js arbitrary: s m rule: list.induct)
  case Nil
  then show ?case by (auto elim: path.cases)
next
  case (Cons j js)
  let ?m = "m\<lparr>slot_to_job := dict_set s j (slot_to_job m), job_to_slot := dict_set j s (job_to_slot m)\<rparr>"
  let ?prev = "map_of (job_to_slot m) j"
  have parent: "map_of parent s = Some j" using path_parent [OF Cons.prems(1)] .
  have flip: "flip_path parent (Some s) m = flip_path parent ?prev ?m"
    by (subst flip_path.simps) (simp add: parent Let_def)
  have agree: "agree (map_of (slot_to_job ?m)) (map_of (job_to_slot ?m)) ?prev"
    using agree_flip [OF Cons.prems(2)] by simp
  have elig: "uses_eligible eligible (map_of (job_to_slot ?m))"
    using Cons.prems(3,4) parent by (auto simp: uses_eligible_def)
  from path_ConsD [OF Cons.prems(1)] show ?case
  proof (elim disjE exE)
    assume 1: "j = r \<and> js = [] \<and> map_of (job_to_slot m) r = None"
    then have prev: "?prev = None" by simp
    have "flip_path parent (Some s) m = Some ?m"
      unfolding flip prev by (subst flip_path.simps) simp
    then show ?thesis using agree elig 1 by auto
  next
    fix s' assume 2: "map_of (job_to_slot m) j = Some s' \<and> path (map_of parent) (map_of (job_to_slot m)) r s' js"
    have "j \<notin> set js" using path_distinct [OF Cons.prems(1)] by simp
    then have "path (map_of parent) (map_of (job_to_slot ?m)) r s' js"
      by (intro path_cong [OF conjunct2 [OF 2]]) auto
    moreover have "agree (map_of (slot_to_job ?m)) (map_of (job_to_slot ?m)) (Some s')"
      using agree 2 by simp
    ultimately obtain m' where "flip_path parent (Some s') ?m = Some m'"
      "agree (map_of (slot_to_job m')) (map_of (job_to_slot m')) None"
      "uses_eligible eligible (map_of (job_to_slot m'))"
      "dom (map_of (job_to_slot m')) = insert r (dom (map_of (job_to_slot ?m)))"
      "distinct (dict_keys (job_to_slot m')) = distinct (dict_keys (job_to_slot ?m))"
      using Cons.IH [of ?m s'] elig Cons.prems(4) by blast
    moreover have "j \<in> dom (map_of (job_to_slot m))" using 2 by auto
    ultimately show ?thesis using 2 unfolding flip by auto
  qed
qed

subsection \<open>What the search knows\<close>

text \<open>
  The invariant of the search from root \<open>r\<close>: every visited slot has a path to the root, is an
  eligible slot of its parent and is held by a visited job unless it is the free one; every
  visited job is the root or holds a visited slot; while no slot is free, the jobs that left the
  queue (but those of \<open>X\<close>) have had all their slots visited.
\<close>

definition search_inv ::
  "('j \<Rightarrow> 's list) \<Rightarrow> ('s \<rightharpoonup> 'j) \<Rightarrow> ('j \<rightharpoonup> 's) \<Rightarrow> 'j \<Rightarrow> 'j set \<Rightarrow> ('j, 's) search \<Rightarrow> bool" where
  "search_inv eligible N M r X st \<longleftrightarrow>
     r \<in> visited_jobs st \<and> set (queue st) \<subseteq> visited_jobs st
   \<and> dom (map_of (slot_parent st)) = visited_slots st
   \<and> (\<forall>t \<in> visited_slots st. \<exists>js. path (map_of (slot_parent st)) M r t js)
   \<and> (\<forall>t j. map_of (slot_parent st) t = Some j \<longrightarrow> t \<in> set (eligible j))
   \<and> (\<forall>t \<in> visited_slots st. free_slot st \<noteq> Some t \<longrightarrow> (\<exists>j \<in> visited_jobs st. N t = Some j))
   \<and> (\<forall>j \<in> visited_jobs st. j = r \<or> (\<exists>t \<in> visited_slots st. M j = Some t))
   \<and> (\<forall>t. free_slot st = Some t \<longrightarrow> t \<in> visited_slots st \<and> N t = None)
   \<and> (free_slot st = None \<longrightarrow>
        (\<forall>j \<in> visited_jobs st - set (queue st) - X. set (eligible j) \<subseteq> visited_slots st))"

lemma search_invD:
  assumes "search_inv eligible N M r X st"
  shows "r \<in> visited_jobs st" "set (queue st) \<subseteq> visited_jobs st"
    "dom (map_of (slot_parent st)) = visited_slots st"
    "t \<in> visited_slots st \<Longrightarrow> \<exists>js. path (map_of (slot_parent st)) M r t js"
    "map_of (slot_parent st) t = Some j \<Longrightarrow> t \<in> set (eligible j)"
    "t \<in> visited_slots st \<Longrightarrow> free_slot st \<noteq> Some t \<Longrightarrow> \<exists>j \<in> visited_jobs st. N t = Some j"
    "j \<in> visited_jobs st \<Longrightarrow> j = r \<or> (\<exists>t \<in> visited_slots st. M j = Some t)"
    "free_slot st = Some t \<Longrightarrow> t \<in> visited_slots st \<and> N t = None"
    "free_slot st = None \<Longrightarrow> j \<in> visited_jobs st - set (queue st) - X \<Longrightarrow>
       set (eligible j) \<subseteq> visited_slots st"
  using assms unfolding search_inv_def by blast+

text \<open>Visiting one new slot \<open>t\<close> of a visited job.\<close>

definition visit :: "'s \<Rightarrow> 'j \<Rightarrow> ('j, 's) search \<Rightarrow> ('j, 's) search" where
  "visit t job st = st\<lparr>visited_slots := insert t (visited_slots st),
                      slot_parent := dict_set t job (slot_parent st)\<rparr>"

lemma visit_path:
  assumes inv: "search_inv eligible N M r X st" and root: "M r = None"
    and job: "job \<in> visited_jobs st" and new: "t \<notin> visited_slots st"
    and u: "u \<in> insert t (visited_slots st)"
  shows "\<exists>js. path ((map_of (slot_parent st))(t \<mapsto> job)) M r u js"
proof -
  let ?P = "map_of (slot_parent st)" and ?P' = "(map_of (slot_parent st))(t \<mapsto> job)"
  have fresh: "t \<notin> dom ?P" using new search_invD(3) [OF inv] by simp
  have old: "\<exists>js. path ?P' M r v js" if "v \<in> visited_slots st" for v
    using search_invD(4) [OF inv that] path_extend [OF _ fresh] by blast
  show ?thesis
  proof (cases "u = t")
    case False
    then show ?thesis using u old by simp
  next
    case True
    have P: "?P' t = Some job" by simp
    from search_invD(7) [OF inv job] show ?thesis
    proof
      assume "job = r"
      then have "path ?P' M r t [r]" using P root by (auto intro: path.base)
      then show ?thesis using True by blast
    next
      assume "\<exists>v \<in> visited_slots st. M job = Some v"
      then obtain v js where "M job = Some v" "path ?P' M r v js" using old by blast
      then have "path ?P' M r t (job # js)" using P by (intro path.step)
      then show ?thesis using True by blast
    qed
  qed
qed

lemma visit_free:
  assumes inv: "search_inv eligible N M r X st" and root: "M r = None"
    and job: "job \<in> visited_jobs st" and new: "t \<notin> visited_slots st"
    and elig: "t \<in> set (eligible job)" and none: "free_slot st = None" and free: "N t = None"
  shows "search_inv eligible N M r Y ((visit t job st)\<lparr>free_slot := Some t\<rparr>)"
  unfolding search_inv_def visit_def
  using search_invD [OF inv] visit_path [OF inv root job new] elig none free
  by (simp add: Ball_def) (metis option.inject)

lemma visit_held:
  assumes inv: "search_inv eligible N M r X st" and root: "M r = None"
    and agree: "agree N M None" and job: "job \<in> visited_jobs st" and new: "t \<notin> visited_slots st"
    and elig: "t \<in> set (eligible job)" and none: "free_slot st = None" and held: "N t = Some k"
  shows "search_inv eligible N M r X
     (if k \<in> visited_jobs st then visit t job st
      else (visit t job st)\<lparr>visited_jobs := insert k (visited_jobs st), queue := queue st @ [k]\<rparr>)"
proof -
  have k: "M k = Some t" using agreeD [OF agree] held by simp
  have paths: "\<forall>u \<in> insert t (visited_slots st). \<exists>js. path ((map_of (slot_parent st))(t \<mapsto> job)) M r u js"
    using visit_path [OF inv root job new] by blast
  have holders: "\<forall>u \<in> visited_slots st. \<exists>j \<in> visited_jobs st. N u = Some j"
    using search_invD(6) [OF inv] none by simp
  have jobs: "\<forall>j \<in> visited_jobs st. j = r \<or> (\<exists>u \<in> insert t (visited_slots st). M j = Some u)"
    using search_invD(7) [OF inv] by blast
  have closed: "\<forall>j \<in> visited_jobs st - set (queue st) - X. set (eligible j) \<subseteq> insert t (visited_slots st)"
    using search_invD(9) [OF inv none] by blast
  have parents: "\<forall>u j. ((map_of (slot_parent st))(t \<mapsto> job)) u = Some j \<longrightarrow> u \<in> set (eligible j)"
    using search_invD(5) [OF inv] elig by simp
  show ?thesis
    unfolding search_inv_def visit_def
    using search_invD(1-3) [OF inv] paths holders jobs closed parents none held k
    by (cases "k \<in> visited_jobs st") auto
qed

lemma scan_slots_visit:
  "t \<notin> visited_slots st \<Longrightarrow> scan_slots stj job (t # slots) st =
     (case map_of stj t of
        None \<Rightarrow> (visit t job st)\<lparr>free_slot := Some t\<rparr>
      | Some k \<Rightarrow> scan_slots stj job slots
          (if k \<in> visited_jobs st then visit t job st
           else (visit t job st)\<lparr>visited_jobs := insert k (visited_jobs st), queue := queue st @ [k]\<rparr>))"
  by (simp add: visit_def Let_def split: option.split)

lemma scan_slots_inv:
  assumes "search_inv eligible (map_of stj) M r {job} st" and "M r = None"
    and "agree (map_of stj) M None" and "job \<in> visited_jobs st" and "free_slot st = None"
    and "set slots \<subseteq> set (eligible job)" and "set (eligible job) \<subseteq> visited_slots st \<union> set slots"
  shows "search_inv eligible (map_of stj) M r {} (scan_slots stj job slots st)"
  using assms
proof (induction slots arbitrary: st)
  case Nil
  then show ?case unfolding search_inv_def by auto
next
  case (Cons t slots)
  show ?case
  proof (cases "t \<in> visited_slots st")
    case True
    then show ?thesis using Cons.prems by (auto intro!: Cons.IH)
  next
    case new: False
    have elig: "t \<in> set (eligible job)" using Cons.prems(6) by simp
    show ?thesis
    proof (cases "map_of stj t")
      case None
      then show ?thesis
        using visit_free [OF Cons.prems(1,2,4) new elig Cons.prems(5) None]
        by (simp only: scan_slots_visit [OF new] option.case)
    next
      case (Some k)
      let ?st = "if k \<in> visited_jobs st then visit t job st
        else (visit t job st)\<lparr>visited_jobs := insert k (visited_jobs st), queue := queue st @ [k]\<rparr>"
      have "search_inv eligible (map_of stj) M r {job} ?st"
        by (rule visit_held [OF Cons.prems(1,2,3,4) new elig Cons.prems(5) Some])
      moreover have "job \<in> visited_jobs ?st" "free_slot ?st = None"
        "set (eligible job) \<subseteq> visited_slots ?st \<union> set slots"
        using Cons.prems by (auto simp: visit_def)
      ultimately have "search_inv eligible (map_of stj) M r {} (scan_slots stj job slots ?st)"
        using Cons.prems by (intro Cons.IH) auto
      then show ?thesis using Some by (simp only: scan_slots_visit [OF new] option.case)
    qed
  qed
qed

lemma search_free_inv:
  assumes "search_inv eligible (map_of stj) M r {} st" and "M r = None"
    and "agree (map_of stj) M None"
  shows "search_inv eligible (map_of stj) M r {} (search_free stj eligible st)
     \<and> (free_slot (search_free stj eligible st) = None \<longrightarrow>
          queue (search_free stj eligible st) = [])"
  using assms
proof (induction stj eligible st rule: search_free.induct)
  case (1 stj eligible st)
  show ?case
  proof (cases "queue st")
    case Nil
    then show ?thesis using 1 by (simp add: search_free.simps [of _ _ st])
  next
    case (Cons job rest)
    show ?thesis
    proof (cases "free_slot st")
      case None
      let ?st = "scan_slots stj job (eligible job) (st\<lparr>queue := rest\<rparr>)"
      have "search_inv eligible (map_of stj) M r {job} (st\<lparr>queue := rest\<rparr>)"
        using 1(2) Cons unfolding search_inv_def by auto
      moreover have "job \<in> visited_jobs st" using search_invD(2) [OF 1(2)] Cons by simp
      ultimately have "search_inv eligible (map_of stj) M r {} ?st"
        using None 1(3,4) by (intro scan_slots_inv) auto
      then show ?thesis using 1(1) [OF Cons] 1(3,4) None Cons
        by (simp add: search_free.simps [of _ _ st])
    next
      case (Some s)
      then show ?thesis using 1(2) Cons by (simp add: search_free.simps [of _ _ st])
    qed
  qed
qed

lemma search0_inv: "search_inv eligible N M r {} (search0 r)"
  by (simp add: search_inv_def search0_def)

subsection \<open>Assignments and deficient sets\<close>

text \<open>Any assignment of jobs to eligible slots, no slot twice.\<close>

definition valid_assignment :: "('j \<Rightarrow> 's list) \<Rightarrow> ('j \<rightharpoonup> 's) \<Rightarrow> bool" where
  "valid_assignment eligible A \<longleftrightarrow> uses_eligible eligible A \<and> inj_on A (dom A)"

definition slots_of :: "('j \<Rightarrow> 's list) \<Rightarrow> 'j set \<Rightarrow> 's set" where
  "slots_of eligible V = (\<Union>j \<in> V. set (eligible j))"

text \<open>A set of jobs with fewer slots than jobs cannot be covered by an assignment.\<close>

definition deficient :: "('j \<Rightarrow> 's list) \<Rightarrow> 'j set \<Rightarrow> bool" where
  "deficient eligible V \<longleftrightarrow> finite V \<and> card (slots_of eligible V) < card V"

lemma finite_slots_of [simp]: "finite V \<Longrightarrow> finite (slots_of eligible V)"
  by (simp add: slots_of_def)

lemma slots_of_Un: "slots_of eligible (V \<union> W) = slots_of eligible V \<union> slots_of eligible W"
  by (simp add: slots_of_def)

lemma assignment_card:
  assumes "valid_assignment eligible A" "V \<subseteq> dom A" "finite V"
  shows "card V \<le> card (slots_of eligible V)"
proof (rule card_inj_on_le)
  show "inj_on (the \<circ> A) V"
  proof (rule inj_onI)
    fix i j assume "i \<in> V" "j \<in> V" "(the \<circ> A) i = (the \<circ> A) j"
    moreover from this have "i \<in> dom A" "j \<in> dom A" using assms(2) by auto
    ultimately have "A i = A j" by auto
    then show "i = j" using assms(1) \<open>i \<in> dom A\<close> \<open>j \<in> dom A\<close>
      by (auto simp: valid_assignment_def dest: inj_onD)
  qed
  show "(the \<circ> A) ` V \<subseteq> slots_of eligible V"
    using assms(1,2) by (fastforce simp: valid_assignment_def uses_eligible_def slots_of_def)
  show "finite (slots_of eligible V)" using assms(3) by simp
qed

lemma deficient_uncovered: "deficient eligible V \<Longrightarrow> valid_assignment eligible A \<Longrightarrow> \<not> V \<subseteq> dom A"
  using assignment_card [of eligible A V] by (auto simp: deficient_def)

lemma agree_assignment: "agree N M None \<Longrightarrow> uses_eligible eligible M \<Longrightarrow> valid_assignment eligible M"
proof -
  assume *: "agree N M None" "uses_eligible eligible M"
  have "inj_on M (dom M)"
  proof (rule inj_onI)
    fix i j assume "i \<in> dom M" "j \<in> dom M" "M i = M j"
    then obtain t where "M i = Some t" "M j = Some t" by auto
    then have "N t = Some i" "N t = Some j" using agreeD [OF *(1)] by simp_all
    then show "i = j" by simp
  qed
  with * show ?thesis by (simp add: valid_assignment_def)
qed

text \<open>A search that ends with no free slot has visited a deficient set around its root.\<close>

lemma search_deficient:
  assumes inv: "search_inv eligible N M r {} st" and root: "M r = None" and agree: "agree N M None"
    and "finite (dom M)" and none: "free_slot st = None" and "queue st = []"
  shows "r \<in> visited_jobs st \<and> visited_jobs st \<subseteq> insert r (dom M) \<and> deficient eligible (visited_jobs st)"
proof -
  have sub: "visited_jobs st \<subseteq> insert r (dom M)" using search_invD(7) [OF inv] by blast
  then have fin: "finite (visited_jobs st)" using assms(4) by (metis finite_insert finite_subset)
  have closed: "slots_of eligible (visited_jobs st) \<subseteq> visited_slots st"
    using search_invD(9) [OF inv none] assms(6) by (force simp: slots_of_def)
  have held: "visited_slots st \<subseteq> (the \<circ> M) ` (visited_jobs st - {r})"
  proof
    fix t assume t: "t \<in> visited_slots st"
    then obtain j where "j \<in> visited_jobs st" "N t = Some j" using search_invD(6) [OF inv] none by auto
    moreover have "M j = Some t" using agreeD [OF agree] \<open>N t = Some j\<close> by simp
    ultimately show "t \<in> (the \<circ> M) ` (visited_jobs st - {r})" using root by force
  qed
  have "card (slots_of eligible (visited_jobs st)) \<le> card ((the \<circ> M) ` (visited_jobs st - {r}))"
    using closed held fin by (intro card_mono) auto
  also have "\<dots> \<le> card (visited_jobs st - {r})" using fin by (intro card_image_le) simp
  also have "\<dots> < card (visited_jobs st)"
    using fin search_invD(1) [OF inv] by (intro card_Diff1_less)
  finally show ?thesis using sub fin search_invD(1) [OF inv] by (simp add: deficient_def)
qed

subsection \<open>One root and all roots\<close>

abbreviation assigned :: "('j, 's) matching \<Rightarrow> 'j \<rightharpoonup> 's" where
  "assigned m \<equiv> map_of (job_to_slot m)"

definition matching_ok :: "('j \<Rightarrow> 's list) \<Rightarrow> ('j, 's) matching \<Rightarrow> bool" where
  "matching_ok eligible m \<longleftrightarrow>
     agree (map_of (slot_to_job m)) (assigned m) None \<and> uses_eligible eligible (assigned m) \<and>
     distinct (dict_keys (job_to_slot m))"

lemma match_root_correct:
  assumes ok: "matching_ok eligible m" and r: "r \<notin> dom (assigned m)"
  shows "\<exists>m'. match_root eligible r m = Some m' \<and> matching_ok eligible m' \<and>
     (dom (assigned m') = insert r (dom (assigned m)) \<or>
      dom (assigned m') = dom (assigned m) \<and>
      (\<exists>V. r \<in> V \<and> V \<subseteq> insert r (dom (assigned m)) \<and> deficient eligible V))"
proof -
  let ?st = "search_free (slot_to_job m) eligible (search0 r)"
  have root: "assigned m r = None" using r by auto
  have agree: "agree (map_of (slot_to_job m)) (assigned m) None"
    and elig: "uses_eligible eligible (assigned m)" using ok by (simp_all add: matching_ok_def)
  have inv: "search_inv eligible (map_of (slot_to_job m)) (assigned m) r {} ?st"
    and queue: "free_slot ?st = None \<Longrightarrow> queue ?st = []"
    using search_free_inv [OF search0_inv root agree] by blast+
  show ?thesis
  proof (cases "free_slot ?st")
    case None
    then have "match_root eligible r m = Some m"
      by (simp add: match_root_def Let_def flip_path.simps)
    moreover have "finite (dom (assigned m))" by (rule finite_dom_map_of)
    ultimately show ?thesis
      using ok search_deficient [OF inv root agree _ None queue [OF None]] by blast
  next
    case (Some s)
    then obtain js where path: "path (map_of (slot_parent ?st)) (assigned m) r s js"
      using search_invD(4,8) [OF inv] by blast
    have "agree (map_of (slot_to_job m)) (assigned m) (Some s)"
      using agree_free [OF agree] search_invD(8) [OF inv Some] by blast
    moreover have "\<forall>t j. map_of (slot_parent ?st) t = Some j \<longrightarrow> t \<in> set (eligible j)"
      using search_invD(5) [OF inv] by blast
    ultimately show ?thesis
      using flip_path_correct [OF path _ elig] Some ok
      by (auto simp: match_root_def Let_def matching_ok_def)
  qed
qed

text \<open>
  Jobs are matched in the order of the list: a job is left out only when it is deficient together
  with jobs that are matched and precede it.
\<close>

definition greedy :: "('j \<Rightarrow> 's list) \<Rightarrow> 'j list \<Rightarrow> 'j set \<Rightarrow> bool" where
  "greedy eligible jobs D \<longleftrightarrow>
     (\<forall>i < length jobs. jobs ! i \<notin> D \<longrightarrow>
        (\<exists>V. jobs ! i \<in> V \<and> V \<subseteq> insert (jobs ! i) (D \<inter> set (take i jobs)) \<and> deficient eligible V))"

lemma greedy_snoc:
  "greedy eligible (jobs @ [r]) D \<longleftrightarrow>
     greedy eligible jobs D \<and>
     (r \<notin> D \<longrightarrow> (\<exists>V. r \<in> V \<and> V \<subseteq> insert r (D \<inter> set jobs) \<and> deficient eligible V))"
  by (auto simp: greedy_def less_Suc_eq nth_append)

lemma greedy_mono: "greedy eligible jobs D \<Longrightarrow> D \<subseteq> D' \<Longrightarrow> greedy eligible jobs D'"
  unfolding greedy_def by (meson Int_mono insert_mono order_refl subset_iff subset_trans)

lemma match_roots_snoc:
  "match_roots eligible (jobs @ [r]) m =
     Option.bind (match_roots eligible jobs m) (match_root eligible r)"
  by (induction jobs arbitrary: m) (auto split: option.splits)

lemma match_roots_correct:
  assumes "distinct jobs"
  shows "\<exists>m'. match_roots eligible jobs \<lparr>slot_to_job = [], job_to_slot = []\<rparr> = Some m' \<and>
     matching_ok eligible m' \<and> dom (assigned m') \<subseteq> set jobs \<and>
     greedy eligible jobs (dom (assigned m'))"
  using assms
proof (induction jobs rule: rev_induct)
  case Nil
  then show ?case
    by (simp add: matching_ok_def agree_def uses_eligible_def greedy_def)
next
  case (snoc r jobs)
  then obtain m where m: "match_roots eligible jobs \<lparr>slot_to_job = [], job_to_slot = []\<rparr> = Some m"
    "matching_ok eligible m" "dom (assigned m) \<subseteq> set jobs" "greedy eligible jobs (dom (assigned m))"
    by auto
  have r: "r \<notin> dom (assigned m)" using m(3) snoc.prems by auto
  obtain m' where m': "match_root eligible r m = Some m'" "matching_ok eligible m'"
    and step: "dom (assigned m') = insert r (dom (assigned m)) \<or> dom (assigned m') = dom (assigned m) \<and>
      (\<exists>V. r \<in> V \<and> V \<subseteq> insert r (dom (assigned m)) \<and> deficient eligible V)"
    using match_root_correct [OF m(2) r] by blast
  have "greedy eligible (jobs @ [r]) (dom (assigned m'))"
    using step
  proof
    assume "dom (assigned m') = insert r (dom (assigned m))"
    then show ?thesis using greedy_mono [OF m(4)] by (auto simp: greedy_snoc)
  next
    assume fail: "dom (assigned m') = dom (assigned m) \<and>
      (\<exists>V. r \<in> V \<and> V \<subseteq> insert r (dom (assigned m)) \<and> deficient eligible V)"
    then have "dom (assigned m') \<inter> set jobs = dom (assigned m)" using m(3) by auto
    then show ?thesis using fail m(4) by (auto simp: greedy_snoc)
  qed
  moreover have "dom (assigned m') \<subseteq> insert r (dom (assigned m))"
    using step by (elim disjE conjE) (simp_all add: subset_insertI)
  then have "dom (assigned m') \<subseteq> set (jobs @ [r])"
    by (rule order_trans) (use m(3) in auto)
  ultimately show ?case using m(1) m' by (auto simp: match_roots_snoc)
qed

subsection \<open>Greedy is maximum\<close>

text \<open>
  The deficient sets of the jobs left out combine: the slots of their union are fewer than its
  jobs by at least the number of jobs left out.
\<close>

lemma combine_deficient:
  assumes M: "valid_assignment eligible M" and "finite U"
    and V: "\<And>r. r \<in> U \<Longrightarrow> r \<in> V r \<and> V r \<subseteq> insert r (dom M) \<and> deficient eligible (V r)"
    and U: "U \<inter> dom M = {}"
  shows "finite (\<Union> (V ` U)) \<and> card (slots_of eligible (\<Union> (V ` U))) + card U \<le> card (\<Union> (V ` U))"
  using assms(2) V U
proof (induction U rule: finite_induct)
  case (insert r U)
  let ?A = "\<Union> (V ` U)" and ?B = "V r"
  have IH: "finite ?A" "card (slots_of eligible ?A) + card U \<le> card ?A"
    using insert.IH insert.prems by auto
  have B: "finite ?B" "card (slots_of eligible ?B) < card ?B"
    using insert.prems(1) [of r] by (auto simp: deficient_def)
  have "?A \<inter> ?B \<subseteq> dom M"
  proof
    fix j assume j: "j \<in> ?A \<inter> ?B"
    then obtain q where q: "q \<in> U" "j \<in> V q" by blast
    then have "j \<in> insert q (dom M)" "j \<in> insert r (dom M)" using insert.prems(1) j by auto
    then show "j \<in> dom M" using q(1) insert.hyps(2) by auto
  qed
  then have "card (?A \<inter> ?B) \<le> card (slots_of eligible (?A \<inter> ?B))"
    using M IH(1) by (intro assignment_card) auto
  also have "\<dots> \<le> card (slots_of eligible ?A \<inter> slots_of eligible ?B)"
    using B(1) finite_slots_of [OF B(1), of eligible]
    by (intro card_mono) (auto simp: slots_of_def)
  finally have "card (?A \<inter> ?B) \<le> card (slots_of eligible ?A \<inter> slots_of eligible ?B)" .
  moreover have "card (?A \<union> ?B) + card (?A \<inter> ?B) = card ?A + card ?B"
    using IH(1) B(1) by (metis card_Un_Int)
  moreover have "card (slots_of eligible ?A \<union> slots_of eligible ?B) +
      card (slots_of eligible ?A \<inter> slots_of eligible ?B) =
      card (slots_of eligible ?A) + card (slots_of eligible ?B)"
    using IH(1) B(1) by (metis card_Un_Int finite_slots_of)
  moreover have "\<Union> (V ` insert r U) = ?A \<union> ?B" by auto
  ultimately show ?case using IH B insert.hyps by (simp add: slots_of_Un)
qed (simp add: slots_of_def)

lemma greedy_maximum:
  assumes "distinct jobs" and M: "valid_assignment eligible M" "dom M \<subseteq> set jobs"
    and greedy: "greedy eligible jobs (dom M)"
    and A: "valid_assignment eligible A" "dom A \<subseteq> set jobs"
  shows "card (dom A) \<le> card (dom M)"
proof -
  let ?U = "set jobs - dom M"
  have "\<exists>V. r \<in> V \<and> V \<subseteq> insert r (dom M) \<and> deficient eligible V" if "r \<in> ?U" for r
  proof -
    from that obtain i where "i < length jobs" "jobs ! i = r" "r \<notin> dom M"
      by (auto simp: in_set_conv_nth)
    then show ?thesis using greedy unfolding greedy_def by (metis Int_lower1 insert_mono order_trans)
  qed
  then obtain V where V: "\<And>r. r \<in> ?U \<Longrightarrow> r \<in> V r \<and> V r \<subseteq> insert r (dom M) \<and> deficient eligible (V r)"
    by metis
  let ?D = "\<Union> (V ` ?U)"
  have D: "finite ?D" "card (slots_of eligible ?D) + card ?U \<le> card ?D"
    using combine_deficient [OF M(1) _ V, of ?U] by blast+
  have sub: "?D \<subseteq> set jobs" using V M(2) by blast
  have "card (dom A \<inter> ?D) \<le> card (slots_of eligible (dom A \<inter> ?D))"
    using D(1) by (intro assignment_card [OF A(1)]) auto
  also have "\<dots> \<le> card (slots_of eligible ?D)"
    using D(1) by (intro card_mono) (auto simp: slots_of_def)
  finally have 1: "card (dom A \<inter> ?D) + card ?U \<le> card ?D" using D(2) by linarith
  have 2: "card (dom A - ?D) \<le> card (set jobs - ?D)" using A(2) by (intro card_mono) auto
  have "card (dom A) = card (dom A \<inter> ?D) + card (dom A - ?D)"
    using A(2) by (metis List.finite_set finite_subset card_Int_Diff)
  moreover have "card (set jobs) = card ?D + card (set jobs - ?D)"
    using sub by (metis List.finite_set card_Int_Diff inf.absorb2 inf.commute)
  moreover have "card (set jobs) = card (dom M) + card ?U"
    using M(2) by (metis List.finite_set card_Int_Diff inf.absorb2)
  ultimately show ?thesis using 1 2 by linarith
qed

subsection \<open>The interface of a matcher\<close>

text \<open>
  What the capacity forecast relies on: for distinct jobs the solver returns a dictionary that is
  an assignment of some of them, no assignment covers more of them, and a job that is left out
  cannot be covered together with the covered jobs that precede it.
\<close>

definition prefers_earlier :: "('j \<Rightarrow> 's list) \<Rightarrow> 'j list \<Rightarrow> 'j set \<Rightarrow> bool" where
  "prefers_earlier eligible jobs D \<longleftrightarrow>
     (\<forall>i < length jobs. jobs ! i \<notin> D \<longrightarrow>
        \<not> (\<exists>A. valid_assignment eligible A \<and> insert (jobs ! i) (D \<inter> set (take i jobs)) \<subseteq> dom A))"

definition is_maximum_matching :: "'j list \<Rightarrow> ('j \<Rightarrow> 's list) \<Rightarrow> ('j, 's) dict \<Rightarrow> bool" where
  "is_maximum_matching jobs eligible d \<longleftrightarrow>
     distinct (dict_keys d) \<and> valid_assignment eligible (map_of d) \<and> fst ` set d \<subseteq> set jobs
   \<and> (\<forall>A. valid_assignment eligible A \<and> dom A \<subseteq> set jobs \<longrightarrow> card (dom A) \<le> length d)
   \<and> prefers_earlier eligible jobs (fst ` set d)"

locale matcher =
  fixes solve :: "'j list \<Rightarrow> ('j \<Rightarrow> 's list) \<Rightarrow> ('j, 's) dict option"
  assumes solve_maximum:
    "distinct jobs \<Longrightarrow> \<exists>d. solve jobs eligible = Some d \<and> is_maximum_matching jobs eligible d"
begin

text \<open>The solver covers every job exactly when some assignment does.\<close>

lemma solve_complete:
  assumes "distinct jobs"
  shows "\<exists>d. solve jobs eligible = Some d \<and>
     (length d = length jobs \<longleftrightarrow> (\<exists>A. valid_assignment eligible A \<and> dom A = set jobs))"
proof -
  obtain d where d: "solve jobs eligible = Some d" "is_maximum_matching jobs eligible d"
    using solve_maximum [OF assms] by blast
  then have D: "distinct (dict_keys d)" "valid_assignment eligible (map_of d)"
    "fst ` set d \<subseteq> set jobs"
    "\<And>A. valid_assignment eligible A \<Longrightarrow> dom A \<subseteq> set jobs \<Longrightarrow> card (dom A) \<le> length d"
    by (auto simp: is_maximum_matching_def)
  have len: "length d = card (fst ` set d)" using D(1) by (metis distinct_card length_map list.set_map)
  have "length d = length jobs \<longleftrightarrow> (\<exists>A. valid_assignment eligible A \<and> dom A = set jobs)"
  proof
    assume "length d = length jobs"
    then have "fst ` set d = set jobs"
      using len D(3) assms by (metis List.finite_set card_subset_eq distinct_card)
    then show "\<exists>A. valid_assignment eligible A \<and> dom A = set jobs"
      using D(2) by (metis dom_map_of_conv_image_fst)
  next
    assume "\<exists>A. valid_assignment eligible A \<and> dom A = set jobs"
    then have "card (set jobs) \<le> length d" using D(4) by (metis order_refl)
    moreover have "length d \<le> card (set jobs)" using len D(3) by (simp add: card_mono)
    ultimately show "length d = length jobs" using assms by (simp add: distinct_card)
  qed
  then show ?thesis using d(1) by blast
qed

end

interpretation bfs: matcher maximum_matching
proof
  fix jobs :: "'a list" and eligible :: "'a \<Rightarrow> 'b list"
  assume distinct: "distinct jobs"
  obtain m where m: "match_roots eligible jobs \<lparr>slot_to_job = [], job_to_slot = []\<rparr> = Some m"
    "matching_ok eligible m" "dom (assigned m) \<subseteq> set jobs" "greedy eligible jobs (dom (assigned m))"
    using match_roots_correct [OF distinct, of eligible] by (elim exE conjE) (rule that)
  have valid: "valid_assignment eligible (assigned m)"
    using m(2) unfolding matching_ok_def by (blast intro: agree_assignment)
  have keys: "fst ` set (job_to_slot m) = dom (assigned m)" by (rule dom_map_of_conv_image_fst [symmetric])
  have len: "length (job_to_slot m) = card (dom (assigned m))"
  proof -
    have "distinct (dict_keys (job_to_slot m))" using m(2) by (simp add: matching_ok_def)
    then have "card (set (dict_keys (job_to_slot m))) = length (dict_keys (job_to_slot m))"
      by (rule distinct_card)
    then show ?thesis using keys by simp
  qed
  have "prefers_earlier eligible jobs (dom (assigned m))"
    unfolding prefers_earlier_def
  proof (intro allI impI notI)
    fix i assume i: "i < length jobs" "jobs ! i \<notin> dom (assigned m)"
    assume "\<exists>A. valid_assignment eligible A \<and>
      insert (jobs ! i) (dom (assigned m) \<inter> set (take i jobs)) \<subseteq> dom A"
    then obtain A where A: "valid_assignment eligible A"
      "insert (jobs ! i) (dom (assigned m) \<inter> set (take i jobs)) \<subseteq> dom A" by blast
    obtain V where "V \<subseteq> insert (jobs ! i) (dom (assigned m) \<inter> set (take i jobs))" "deficient eligible V"
      using m(4) i unfolding greedy_def by blast
    then show False using deficient_uncovered A by (metis subset_trans)
  qed
  then have "is_maximum_matching jobs eligible (job_to_slot m)"
    using m valid keys len greedy_maximum [OF distinct valid m(3,4)]
    by (simp add: is_maximum_matching_def matching_ok_def)
  then show "\<exists>d. maximum_matching jobs eligible = Some d \<and> is_maximum_matching jobs eligible d"
    by (simp add: maximum_matching_def m(1))
qed

end
