(* ===== verification/Capacity.thy ===== *)
theory Capacity
  imports Matching Placement
begin

section \<open>Capacity forecast (\<open>capacity.py\<close>)\<close>

text \<open>
  \<open>_minimum_clearance_waves\<close>, a binary search over the matcher, and \<open>forecast_gpu_capacity\<close>. The
  least number of waves is proved inside the interface of the matcher, so it rests on the
  contract of \<open>_maximum_matching\<close> and not on its search.
\<close>

subsection \<open>Clearance waves\<close>

text \<open>The dictionary of \<open>(worker, wave)\<close> slots of every job.\<close>

definition worker_slots :: "('j \<Rightarrow> 'w list) \<Rightarrow> nat \<Rightarrow> 'j \<Rightarrow> ('w \<times> nat) list" where
  "worker_slots eligible_workers waves job_id =
     concat (map (\<lambda>worker_id. map (\<lambda>wave. (worker_id, wave)) [0..<waves]) (eligible_workers job_id))"

text \<open>The binary search; \<open>None\<close> when the matcher does not return.\<close>

function bisect_waves :: "(nat \<Rightarrow> bool option) \<Rightarrow> nat \<Rightarrow> nat \<Rightarrow> nat option" where
  "bisect_waves all_placed lo hi =
     (if lo < hi then
        let waves = (lo + hi) div 2 in
        (case all_placed waves of None \<Rightarrow> None
         | Some True \<Rightarrow> bisect_waves all_placed lo waves
         | Some False \<Rightarrow> bisect_waves all_placed (waves + 1) hi)
      else Some lo)"
  by pat_completeness auto
termination
  by (relation "measure (\<lambda>(_, lo, hi). hi - lo)") auto

declare bisect_waves.simps [simp del]

definition minimum_clearance_waves :: "'j list \<Rightarrow> ('j \<Rightarrow> 'w list) \<Rightarrow> nat option" where
  "minimum_clearance_waves job_ids eligible_workers =
     (if job_ids = [] then Some 0
      else bisect_waves
        (\<lambda>waves. map_option (\<lambda>m. length m = length job_ids)
           (maximum_matching job_ids (worker_slots eligible_workers waves)))
        1 (length job_ids))"

text \<open>
  The search finds the least number that passes, for a test that never fails to answer and
  passes from some number on.
\<close>

lemma bisect_waves_least:
  assumes "\<And>w. all_placed w = Some (p w)" and "\<And>w w'. w \<le> w' \<Longrightarrow> p w \<Longrightarrow> p w'"
    and "lo \<le> hi" "p hi" "\<And>w. w < lo \<Longrightarrow> \<not> p w"
  shows "\<exists>w. bisect_waves all_placed lo hi = Some w \<and> w \<le> hi \<and> p w \<and> (\<forall>v < w. \<not> p v)"
  using assms
proof (induction all_placed lo hi rule: bisect_waves.induct)
  case (1 all_placed lo hi)
  show ?case
  proof (cases "lo < hi")
    case True
    let ?w = "(lo + hi) div 2"
    have mid: "lo \<le> ?w" "?w < hi" using True by auto
    show ?thesis
    proof (cases "p ?w")
      case pass: True
      then have "\<exists>w. bisect_waves all_placed lo ?w = Some w \<and> w \<le> ?w \<and> p w \<and> (\<forall>v < w. \<not> p v)"
        using 1 True mid by (intro 1(1)) auto
      then show ?thesis
        using pass True mid 1(3) by (subst bisect_waves.simps) (auto simp: Let_def)
    next
      case fail: False
      have "\<not> p w" if "w < ?w + 1" for w using 1(4) [of w ?w] fail that by auto
      then have "\<exists>w. bisect_waves all_placed (?w + 1) hi = Some w \<and> w \<le> hi \<and> p w \<and> (\<forall>v < w. \<not> p v)"
        using 1 True mid fail by (intro 1(2)) auto
      then show ?thesis
        using fail True 1(3) by (subst bisect_waves.simps) (auto simp: Let_def)
    qed
  next
    case False
    then show ?thesis using 1 by (subst bisect_waves.simps) auto
  qed
qed

text \<open>
  A schedule in \<open>w\<close> waves: every job runs on an eligible worker in one of the waves, and no worker
  runs two jobs in the same wave.
\<close>

definition schedulable :: "'j list \<Rightarrow> ('j \<Rightarrow> 'w list) \<Rightarrow> nat \<Rightarrow> bool" where
  "schedulable job_ids eligible_workers waves \<longleftrightarrow>
     (\<exists>place :: 'j \<Rightarrow> 'w \<times> nat. inj_on place (set job_ids) \<and>
        (\<forall>j \<in> set job_ids. fst (place j) \<in> set (eligible_workers j) \<and> snd (place j) < waves))"

lemma set_worker_slots:
  "s \<in> set (worker_slots e w j) \<longleftrightarrow> fst s \<in> set (e j) \<and> snd s < w"
  by (cases s) (auto simp: worker_slots_def image_iff)

lemma schedulable_mono: "w \<le> w' \<Longrightarrow> schedulable jobs e w \<Longrightarrow> schedulable jobs e w'"
  unfolding schedulable_def by (meson order_less_le_trans)

lemma schedulable_length:
  assumes "\<forall>j \<in> set jobs. e j \<noteq> []"
  shows "schedulable jobs e (length jobs)"
proof -
  have "\<forall>j \<in> set jobs. \<exists>i. i < length jobs \<and> jobs ! i = j" by (auto simp: in_set_conv_nth)
  from bchoice [OF this] obtain pos where
    pos: "\<forall>j \<in> set jobs. pos j < length jobs \<and> jobs ! pos j = j" ..
  let ?place = "\<lambda>j. (hd (e j), pos j)"
  have "inj_on ?place (set jobs)"
  proof (rule inj_onI)
    fix i j assume "i \<in> set jobs" "j \<in> set jobs" "?place i = ?place j"
    then show "i = j" using pos by (metis prod.inject)
  qed
  with pos assms show ?thesis
    unfolding schedulable_def by (intro exI [of _ ?place]) auto
qed

lemma schedulable_assignment:
  "schedulable jobs e w \<longleftrightarrow> (\<exists>A. valid_assignment (worker_slots e w) A \<and> dom A = set jobs)"
proof
  assume "schedulable jobs e w"
  then obtain place where place: "inj_on place (set jobs)"
    "\<forall>j \<in> set jobs. fst (place j) \<in> set (e j) \<and> snd (place j) < w"
    by (auto simp: schedulable_def)
  let ?A = "\<lambda>j. if j \<in> set jobs then Some (place j) else None"
  have "dom ?A = set jobs" by (auto split: if_splits)
  moreover have "uses_eligible (worker_slots e w) ?A"
    using place(2) by (auto simp: uses_eligible_def set_worker_slots split: if_splits)
  moreover have "inj_on ?A (set jobs)" using place(1) by (auto simp: inj_on_def)
  ultimately show "\<exists>A. valid_assignment (worker_slots e w) A \<and> dom A = set jobs"
    by (auto simp: valid_assignment_def intro!: exI [of _ ?A])
next
  assume "\<exists>A. valid_assignment (worker_slots e w) A \<and> dom A = set jobs"
  then obtain A where A: "uses_eligible (worker_slots e w) A" "inj_on A (set jobs)" "dom A = set jobs"
    by (auto simp: valid_assignment_def)
  have val: "A j = Some (the (A j))" if "j \<in> set jobs" for j using A(3) that by (metis domD option.sel)
  have "inj_on (the \<circ> A) (set jobs)"
    using A(2) val by (intro inj_onI) (metis comp_apply inj_onD)
  moreover have "the (A j) \<in> set (worker_slots e w j)" if "j \<in> set jobs" for j
    using A(1) val [OF that] unfolding uses_eligible_def by blast
  ultimately show "schedulable jobs e w"
    unfolding schedulable_def by (intro exI [of _ "the \<circ> A"]) (auto simp: set_worker_slots)
qed

text \<open>The binary search over any matcher finds the least number of waves.\<close>

locale wave_matcher = matcher solve
  for solve :: "'j list \<Rightarrow> ('j \<Rightarrow> ('w \<times> nat) list) \<Rightarrow> ('j, 'w \<times> nat) dict option"
begin

lemma least_waves:
  assumes "distinct jobs" "jobs \<noteq> []" "\<forall>j \<in> set jobs. e j \<noteq> []"
  shows "\<exists>w. bisect_waves (\<lambda>w. map_option (\<lambda>m. length m = length jobs) (solve jobs (worker_slots e w)))
      1 (length jobs) = Some w \<and> w \<le> length jobs \<and> schedulable jobs e w
      \<and> (\<forall>v < w. \<not> schedulable jobs e v)"
proof (rule bisect_waves_least)
  show "map_option (\<lambda>m. length m = length jobs) (solve jobs (worker_slots e w)) =
      Some (schedulable jobs e w)" for w
    using solve_complete [OF assms(1), of "worker_slots e w"] by (auto simp: schedulable_assignment)
  show "schedulable jobs e w'" if "w \<le> w'" "schedulable jobs e w" for w w'
    using that by (rule schedulable_mono)
  show "1 \<le> length jobs" using assms(2) by (cases jobs) simp_all
  show "schedulable jobs e (length jobs)" using assms(3) by (rule schedulable_length)
  show "\<not> schedulable jobs e w" if "w < 1" for w
    using that assms(2) by (cases jobs) (auto simp: schedulable_def)
qed

end

interpretation bfs_waves: wave_matcher maximum_matching
  by unfold_locales

subsection \<open>The forecast\<close>

datatype forecast_state = First_wave | Deferred | Blocked
datatype confidence = Unavailable | Low | High

record gpu_queue_job_forecast =
  qf_job_id :: uuid
  qf_agent_version :: string
  qf_priority :: int
  qf_state :: forecast_state
  qf_matching_workers :: nat
  qf_assigned_worker_id :: "string option"
  qf_blockers :: "placement_blocker list"

record gpu_duration_estimate =
  de_mig_profile :: "string option"
  de_sample_count :: int
  de_average_seconds :: rat
  de_p90_seconds :: rat

record gpu_capacity_forecast =
  cf_observed_at :: instant
  cf_active_worker_window_seconds :: int
  cf_active_cuda_workers :: nat
  cf_active_gpus :: nat
  cf_memory_telemetry_gpus :: nat
  cf_utilization_telemetry_gpus :: nat
  cf_total_gpu_memory_mb :: int
  cf_available_gpu_memory_mb :: int
  cf_average_gpu_utilization_percent :: "rat option"
  cf_queued_cuda_jobs :: nat
  cf_first_wave_jobs :: nat
  cf_deferred_jobs :: nat
  cf_blocked_jobs :: nat
  cf_minimum_clearance_waves :: nat
  cf_estimated_clearance_seconds :: "rat option"
  cf_estimate_confidence :: confidence
  cf_duration_estimates :: "gpu_duration_estimate list"
  cf_jobs :: "gpu_queue_job_forecast list"

definition active_cuda_workers :: "instant \<Rightarrow> worker_record list \<Rightarrow> worker_record list" where
  "active_cuda_workers active_after workers = sort_key wr_worker_id
     (filter (\<lambda>w. active_after \<le> wr_last_seen_at w \<and> CUDA \<in> set (wc_accelerators (wr_capabilities w)))
        workers)"

definition queued_cuda_jobs :: "evaluation_job list \<Rightarrow> evaluation_job list" where
  "queued_cuda_jobs jobs = sort_key (\<lambda>j. (- ej_priority j, ej_created_at j, uuid_str (ej_job_id j)))
     (filter (\<lambda>j. ej_status j = QUEUED \<and> ej_required_accelerator j = CUDA) jobs)"

definition eligible_worker_ids :: "job_placement_diagnostic \<Rightarrow> string list" where
  "eligible_worker_ids d =
     map wd_worker_id (filter (\<lambda>item. wd_active item \<and> wd_eligible item) (jd_workers d))"

text \<open>The estimate of the time to clear the queue, from the duration history.\<close>

definition clearance_estimate ::
  "gpu_duration_estimate list \<Rightarrow> evaluation_job list \<Rightarrow> nat \<Rightarrow> rat option \<times> confidence" where
  "clearance_estimate estimates compatible_jobs waves =
     (let by_profile = dict_of (map (\<lambda>e. (de_mig_profile e, e)) estimates);
          selected = map (\<lambda>j. map_of by_profile (ej_required_mig_profile j)) compatible_jobs;
          complete = List.map_filter id selected in
      if selected \<noteq> [] \<and> list_all (\<lambda>e. e \<noteq> None) selected then
        (Some (Max (set (map de_p90_seconds complete)) * of_nat waves),
         if Min (set (map de_sample_count complete)) \<ge> 10 then High else Low)
      else (None, Unavailable))"

definition job_forecast ::
  "(uuid, job_placement_diagnostic) dict \<Rightarrow> (uuid, string) dict \<Rightarrow> evaluation_job
     \<Rightarrow> gpu_queue_job_forecast" where
  "job_forecast diagnostics first_wave job =
     (let matching = eligible_worker_ids (dict_item diagnostics (ej_job_id job));
          assigned_worker = map_of first_wave (ej_job_id job);
          state = (if matching = [] then Blocked
                   else if assigned_worker = None then Deferred else First_wave)
      in \<lparr>qf_job_id = ej_job_id job, qf_agent_version = ej_agent_version job,
          qf_priority = ej_priority job, qf_state = state, qf_matching_workers = length matching,
          qf_assigned_worker_id = assigned_worker,
          qf_blockers = (if state = Blocked then jd_blockers (dict_item diagnostics (ej_job_id job))
                         else [])\<rparr>)"

text \<open>
  \<open>None\<close> stands for a matcher that does not return. Diagnoses cannot raise here, the window having
  been checked.
\<close>

definition diagnostics_of ::
  "(string \<Rightarrow> rat option) \<Rightarrow> instant \<Rightarrow> int \<Rightarrow> evaluation_job list \<Rightarrow> worker_record list
     \<Rightarrow> (uuid, job_placement_diagnostic) dict result" where
  "diagnostics_of fl observed_at window queued_jobs workers =
     bind_result
       (map_result (\<lambda>job. bind_result (diagnose_placement fl observed_at window job workers)
          (\<lambda>d. Inr (ej_job_id job, d))) queued_jobs)
       (\<lambda>kvs. Inr (dict_of kvs))"

definition capacity_forecast_of ::
  "instant \<Rightarrow> int \<Rightarrow> worker_record list \<Rightarrow> evaluation_job list \<Rightarrow> gpu_duration_estimate list
     \<Rightarrow> (uuid, job_placement_diagnostic) dict \<Rightarrow> (uuid, string) dict \<Rightarrow> nat \<Rightarrow> gpu_capacity_forecast" where
  "capacity_forecast_of observed_at window cuda_workers queued_jobs estimates diagnostics first_wave waves =
     (let compatible_jobs =
            filter (\<lambda>j. eligible_worker_ids (dict_item diagnostics (ej_job_id j)) \<noteq> []) queued_jobs;
          (seconds, confidence) = clearance_estimate estimates compatible_jobs waves;
          job_forecasts = map (job_forecast diagnostics first_wave) queued_jobs;
          gpus = concat (map (\<lambda>w. wc_gpus (wr_capabilities w)) cuda_workers);
          utilization = List.map_filter gpu_utilization_percent gpus
      in \<lparr>cf_observed_at = observed_at, cf_active_worker_window_seconds = window,
          cf_active_cuda_workers = length cuda_workers, cf_active_gpus = length gpus,
          cf_memory_telemetry_gpus = count_if (\<lambda>g. gpu_memory_used_mb g \<noteq> None) gpus,
          cf_utilization_telemetry_gpus = length utilization,
          cf_total_gpu_memory_mb = sum_list (map gpu_memory_total_mb gpus),
          cf_available_gpu_memory_mb = sum_list (List.map_filter
            (\<lambda>g. map_option (free_memory g) (gpu_memory_used_mb g)) gpus),
          cf_average_gpu_utilization_percent =
            (if utilization \<noteq> [] then Some (sum_list utilization / of_nat (length utilization)) else None),
          cf_queued_cuda_jobs = length queued_jobs, cf_first_wave_jobs = length first_wave,
          cf_deferred_jobs = count_if (\<lambda>f. qf_state f = Deferred) job_forecasts,
          cf_blocked_jobs = count_if (\<lambda>f. qf_state f = Blocked) job_forecasts,
          cf_minimum_clearance_waves = waves, cf_estimated_clearance_seconds = seconds,
          cf_estimate_confidence = confidence, cf_duration_estimates = estimates,
          cf_jobs = job_forecasts\<rparr>)"

definition forecast_gpu_capacity ::
  "(string \<Rightarrow> rat option) \<Rightarrow> instant \<Rightarrow> int \<Rightarrow> gpu_duration_estimate list \<Rightarrow> evaluation_job list
     \<Rightarrow> worker_record list \<Rightarrow> gpu_capacity_forecast result option" where
  "forecast_gpu_capacity fl observed_at window estimates jobs workers =
     (if window \<le> 0 then Some (Inl (ValueError ''active worker window must be positive''))
      else
        let cuda_workers = active_cuda_workers (observed_at - window * second) workers;
            queued_jobs = queued_cuda_jobs jobs in
        case diagnostics_of fl observed_at window queued_jobs workers of
          Inl e \<Rightarrow> Some (Inl e)
        | Inr diagnostics \<Rightarrow>
            let eligible_workers = (\<lambda>job_id. eligible_worker_ids (dict_item diagnostics job_id));
                compatible = map ej_job_id (filter (\<lambda>j. eligible_workers (ej_job_id j) \<noteq> []) queued_jobs)
            in Option.bind (maximum_matching compatible eligible_workers) (\<lambda>first_wave.
               Option.bind (minimum_clearance_waves compatible eligible_workers) (\<lambda>waves.
               Some (Inr (capacity_forecast_of observed_at window cuda_workers queued_jobs estimates
                 diagnostics first_wave waves)))))"

subsection \<open>What the forecast is made of\<close>

definition fresh_worker :: "instant \<Rightarrow> int \<Rightarrow> worker_record \<Rightarrow> bool" where
  "fresh_worker observed_at window w \<longleftrightarrow> observed_at - window * second \<le> wr_last_seen_at w"

text \<open>The workers that could start a job now, by their diagnosis.\<close>

definition startable_workers ::
  "(string \<Rightarrow> rat option) \<Rightarrow> instant \<Rightarrow> int \<Rightarrow> worker_record list \<Rightarrow> evaluation_job \<Rightarrow> string list" where
  "startable_workers fl observed_at window workers job = map wr_worker_id
     (filter (\<lambda>w. wd_eligible (diagnose_worker fl job w (fresh_worker observed_at window w))) workers)"

definition diagnosis ::
  "(string \<Rightarrow> rat option) \<Rightarrow> instant \<Rightarrow> int \<Rightarrow> worker_record list \<Rightarrow> evaluation_job
     \<Rightarrow> job_placement_diagnostic" where
  "diagnosis fl observed_at window workers job =
     projr (diagnose_placement fl observed_at window job workers)"

lemma diagnose_placement_diagnosis:
  "0 < window \<Longrightarrow>
     diagnose_placement fl observed_at window job workers = Inr (diagnosis fl observed_at window workers job)"
  by (simp add: diagnosis_def diagnose_placement_def Let_def)

lemma eligible_worker_ids_diagnosis:
  "0 < window \<Longrightarrow> eligible_worker_ids (diagnosis fl observed_at window workers job) =
     startable_workers fl observed_at window workers job"
  by (auto simp: diagnosis_def diagnose_placement_def Let_def eligible_worker_ids_def
      startable_workers_def fresh_worker_def filter_map comp_def
      dest: eligible_active intro!: filter_cong arg_cong [where f = "map wr_worker_id"])

lemma diagnostics_of_eq:
  assumes "0 < window"
  shows "diagnostics_of fl observed_at window jobs workers =
     Inr (dict_of (map (\<lambda>j. (ej_job_id j, diagnosis fl observed_at window workers j)) jobs))"
  using map_result_all_Inr [of jobs
      "\<lambda>job. bind_result (diagnose_placement fl observed_at window job workers) (\<lambda>d. Inr (ej_job_id job, d))"
      "\<lambda>j. (ej_job_id j, diagnosis fl observed_at window workers j)"]
  by (simp add: diagnostics_of_def diagnose_placement_diagnosis [OF assms])

lemma dict_item_dict_of:
  "distinct (map k xs) \<Longrightarrow> x \<in> set xs \<Longrightarrow> dict_item (dict_of (map (\<lambda>x. (k x, f x)) xs)) (k x) = f x"
  by (simp add: dict_item_def map_of_dict_of rev_map [symmetric] map_of_is_SomeI [of _ _ "f x"]
      map_of_eq_Some_iff comp_def)

subsection \<open>The states of the queue\<close>

lemma set_queued_cuda_jobs:
  "set (queued_cuda_jobs jobs) = {j \<in> set jobs. ej_status j = QUEUED \<and> ej_required_accelerator j = CUDA}"
  by (auto simp: queued_cuda_jobs_def)

lemma distinct_queued_ids:
  assumes "distinct (map ej_job_id jobs)"
  shows "distinct (map ej_job_id (queued_cuda_jobs jobs))"
proof -
  have "inj_on ej_job_id (set (filter (\<lambda>j. ej_status j = QUEUED \<and> ej_required_accelerator j = CUDA) jobs))"
    using assms by (auto simp: distinct_map inj_on_def)
  then show ?thesis
    using assms by (simp add: queued_cuda_jobs_def distinct_map)
qed

text \<open>
  The specification of a first wave: every queued job is started, deferred or blocked; a started
  job has a worker that can run it now and no two share one; a blocked job has no such worker; no
  assignment of workers to queued jobs starts more jobs.
\<close>

definition first_wave_spec ::
  "evaluation_job list \<Rightarrow> (evaluation_job \<Rightarrow> string list) \<Rightarrow> gpu_capacity_forecast \<Rightarrow> bool" where
  "first_wave_spec queued startable f \<longleftrightarrow>
     map qf_job_id (cf_jobs f) = map ej_job_id queued
   \<and> cf_queued_cuda_jobs f = length queued
   \<and> cf_first_wave_jobs f = count_if (\<lambda>q. qf_state q = First_wave) (cf_jobs f)
   \<and> cf_deferred_jobs f = count_if (\<lambda>q. qf_state q = Deferred) (cf_jobs f)
   \<and> cf_blocked_jobs f = count_if (\<lambda>q. qf_state q = Blocked) (cf_jobs f)
   \<and> cf_first_wave_jobs f + cf_deferred_jobs f + cf_blocked_jobs f = cf_queued_cuda_jobs f
   \<and> (\<forall>(j, q) \<in> set (zip queued (cf_jobs f)).
        (qf_state q = Blocked \<longleftrightarrow> startable j = []) \<and>
        (qf_state q = First_wave \<longleftrightarrow> qf_assigned_worker_id q \<noteq> None) \<and>
        (\<forall>w. qf_assigned_worker_id q = Some w \<longrightarrow> w \<in> set (startable j)))
   \<and> distinct (List.map_filter qf_assigned_worker_id (cf_jobs f))
   \<and> (\<forall>A. uses_eligible startable A \<and> inj_on A (dom A) \<and> dom A \<subseteq> set queued
        \<longrightarrow> card (dom A) \<le> cf_first_wave_jobs f)"

lemma schedulable_cong:
  "(\<And>j. j \<in> set js \<Longrightarrow> e j = e' j) \<Longrightarrow> schedulable js e w = schedulable js e' w"
  by (auto simp: schedulable_def)

text \<open>Renaming the jobs changes neither schedules nor assignments.\<close>

lemma schedulable_map:
  assumes "inj_on f (set js)"
  shows "schedulable (map f js) e w \<longleftrightarrow> schedulable js (e \<circ> f) w"
proof
  assume "schedulable (map f js) e w"
  then obtain place where "inj_on place (f ` set js)"
    "\<forall>j \<in> set js. fst (place (f j)) \<in> set (e (f j)) \<and> snd (place (f j)) < w"
    by (auto simp: schedulable_def)
  then show "schedulable js (e \<circ> f) w"
    unfolding schedulable_def using assms by (intro exI [of _ "place \<circ> f"]) (auto intro: comp_inj_on)
next
  assume "schedulable js (e \<circ> f) w"
  then obtain place where place: "inj_on place (set js)"
    "\<forall>j \<in> set js. fst (place j) \<in> set (e (f j)) \<and> snd (place j) < w"
    by (auto simp: schedulable_def)
  let ?g = "the_inv_into (set js) f"
  have g: "?g (f j) = j" if "j \<in> set js" for j using assms that by (rule the_inv_into_f_f)
  have "inj_on (place \<circ> ?g) (f ` set js)"
    using place(1) g by (auto simp: inj_on_def)
  then show "schedulable (map f js) e w"
    unfolding schedulable_def using place(2) g by (intro exI [of _ "place \<circ> ?g"]) auto
qed

lemma assignment_map:
  assumes inj: "inj_on f (set js)" and A: "valid_assignment (e \<circ> f) A" "dom A \<subseteq> set js"
  shows "\<exists>B. valid_assignment e B \<and> dom B = f ` dom A \<and> card (dom B) = card (dom A)"
proof -
  let ?g = "the_inv_into (set js) f"
  let ?B = "\<lambda>i. if i \<in> f ` dom A then A (?g i) else None"
  have g: "?g (f j) = j" if "j \<in> dom A" for j
    using inj that A(2) by (intro the_inv_into_f_f) auto
  have B: "?B (f j) = A j" if "j \<in> dom A" for j using that g by auto
  have "i \<in> dom ?B \<longleftrightarrow> i \<in> f ` dom A" for i
  proof (cases "i \<in> f ` dom A")
    case True
    then obtain j where "i = f j" "j \<in> dom A" by (rule imageE)
    then show ?thesis using True B [of j] by (simp add: domIff)
  qed (simp add: domIff)
  then have "dom ?B = f ` dom A" by (rule set_eqI)
  moreover have "uses_eligible e ?B"
    unfolding uses_eligible_def
  proof (intro allI impI)
    fix i t assume t: "?B i = Some t"
    then have "i \<in> f ` dom A" by (metis option.distinct(1))
    then obtain j where j: "i = f j" "j \<in> dom A" by (rule imageE)
    then have "A j = Some t" using B [OF j(2)] t by simp
    then show "t \<in> set (e i)"
      using A(1) j(1) by (auto simp: valid_assignment_def uses_eligible_def)
  qed
  moreover have "inj_on ?B (f ` dom A)"
  proof (rule inj_onI)
    fix i k assume ik: "i \<in> f ` dom A" "k \<in> f ` dom A" "?B i = ?B k"
    then obtain j l where jl: "i = f j" "j \<in> dom A" "k = f l" "l \<in> dom A" by auto
    then have "A j = A l" using ik(3) B [OF jl(2)] B [OF jl(4)] by simp
    then have "j = l" using A(1) jl(2,4) by (auto simp: valid_assignment_def dest: inj_onD)
    then show "i = k" using jl by simp
  qed
  moreover have "card (f ` dom A) = card (dom A)"
    using inj A(2) by (intro card_image) (rule inj_on_subset)
  ultimately show ?thesis by (auto simp: valid_assignment_def intro!: exI [of _ ?B])
qed

lemma forecast_fields:
  "cf_jobs (capacity_forecast_of now win ws qs es D fw n) = map (job_forecast D fw) qs"
  "cf_queued_cuda_jobs (capacity_forecast_of now win ws qs es D fw n) = length qs"
  "cf_first_wave_jobs (capacity_forecast_of now win ws qs es D fw n) = length fw"
  "cf_deferred_jobs (capacity_forecast_of now win ws qs es D fw n) =
     count_if (\<lambda>f. qf_state f = Deferred) (map (job_forecast D fw) qs)"
  "cf_blocked_jobs (capacity_forecast_of now win ws qs es D fw n) =
     count_if (\<lambda>f. qf_state f = Blocked) (map (job_forecast D fw) qs)"
  "cf_minimum_clearance_waves (capacity_forecast_of now win ws qs es D fw n) = n"
  by (simp_all add: capacity_forecast_of_def Let_def split: prod.splits)

lemma job_forecast_fields:
  "qf_job_id (job_forecast D fw j) = ej_job_id j"
  "qf_assigned_worker_id (job_forecast D fw j) = map_of fw (ej_job_id j)"
  "qf_state (job_forecast D fw j) =
     (if eligible_worker_ids (dict_item D (ej_job_id j)) = [] then Blocked
      else if map_of fw (ej_job_id j) = None then Deferred else First_wave)"
  by (simp_all add: job_forecast_def Let_def)

lemma count_states:
  "count_if (\<lambda>q. qf_state q = First_wave) fs + count_if (\<lambda>q. qf_state q = Deferred) fs +
   count_if (\<lambda>q. qf_state q = Blocked) fs = length fs"
proof (induction fs)
  case (Cons q fs)
  then show ?case by (cases "qf_state q") simp_all
qed simp

lemma set_map_filter: "set (List.map_filter g xs) = {y. \<exists>x \<in> set xs. g x = Some y}"
  by (induction xs) (auto simp: List.map_filter_simps split: option.splits)

lemma distinct_map_filter_inj:
  "distinct xs \<Longrightarrow> inj_on g (dom g) \<Longrightarrow> distinct (List.map_filter g xs)"
proof (induction xs)
  case (Cons x xs)
  then show ?case
    by (auto simp: List.map_filter_simps set_map_filter split: option.split)
      (metis domI inj_onD)
qed (simp add: List.map_filter_simps)

lemma forecast_first_wave:
  assumes ids: "distinct (map ej_job_id qs)"
    and D: "\<And>j. j \<in> set qs \<Longrightarrow> eligible_worker_ids (dict_item D (ej_job_id j)) = startable j"
    and fw: "is_maximum_matching (map ej_job_id (filter (\<lambda>j. startable j \<noteq> []) qs))
      (\<lambda>i. eligible_worker_ids (dict_item D i)) fw"
  shows "first_wave_spec qs startable (capacity_forecast_of now win ws qs es D fw n)"
proof -
  let ?e = "\<lambda>i. eligible_worker_ids (dict_item D i)"
  let ?cs = "filter (\<lambda>j. startable j \<noteq> []) qs"
  have inj: "inj_on ej_job_id (set qs)" "distinct qs" using ids by (simp_all add: distinct_map)
  have F: "distinct (dict_keys fw)" "uses_eligible ?e (map_of fw)" "inj_on (map_of fw) (dom (map_of fw))"
    "fst ` set fw \<subseteq> set (map ej_job_id ?cs)"
    "\<And>A. valid_assignment ?e A \<Longrightarrow> dom A \<subseteq> set (map ej_job_id ?cs) \<Longrightarrow> card (dom A) \<le> length fw"
    using fw by (auto simp: is_maximum_matching_def valid_assignment_def)
  have assigned: "w \<in> set (startable j)" if "j \<in> set qs" "map_of fw (ej_job_id j) = Some w" for j w
    using F(2) D [OF that(1)] that(2) unfolding uses_eligible_def by metis
  have state: "qf_state (job_forecast D fw j) = First_wave \<longleftrightarrow> map_of fw (ej_job_id j) \<noteq> None"
    "qf_state (job_forecast D fw j) = Blocked \<longleftrightarrow> startable j = []" if "j \<in> set qs" for j
    using that D assigned [OF that] by (auto simp: job_forecast_fields)
  have started: "length fw = count_if (\<lambda>q. qf_state q = First_wave) (map (job_forecast D fw) qs)"
  proof -
    have "count_if (\<lambda>q. qf_state q = First_wave) (map (job_forecast D fw) qs) =
        length (filter (\<lambda>j. map_of fw (ej_job_id j) \<noteq> None) qs)"
      using state(1) by (auto simp: count_if_def filter_map comp_def intro!: arg_cong [where f = length] filter_cong)
    also have "\<dots> = card (ej_job_id ` set (filter (\<lambda>j. map_of fw (ej_job_id j) \<noteq> None) qs))"
      using inj by (simp add: card_image inj_on_subset distinct_card [symmetric])
    also have "ej_job_id ` set (filter (\<lambda>j. map_of fw (ej_job_id j) \<noteq> None) qs) = fst ` set fw"
    proof (intro equalityI subsetI)
      fix k assume "k \<in> ej_job_id ` set (filter (\<lambda>j. map_of fw (ej_job_id j) \<noteq> None) qs)"
      then show "k \<in> fst ` set fw"
        by (rule imageE) (simp only: set_filter mem_Collect_eq map_of_eq_None_iff, simp)
    next
      fix k assume k: "k \<in> fst ` set fw"
      then obtain j where "j \<in> set qs" "k = ej_job_id j" using F(4) by auto
      moreover from this have "map_of fw (ej_job_id j) \<noteq> None" using k by (simp add: map_of_eq_None_iff)
      ultimately show "k \<in> ej_job_id ` set (filter (\<lambda>j. map_of fw (ej_job_id j) \<noteq> None) qs)" by simp
    qed
    also have "card (fst ` set fw) = length fw"
      using F(1) by (metis distinct_card length_map list.set_map)
    finally show ?thesis by simp
  qed
  have "card (dom A) \<le> length fw"
    if A: "uses_eligible startable A" "inj_on A (dom A)" "dom A \<subseteq> set qs" for A
  proof -
    have compatible: "dom A \<subseteq> set ?cs"
      using A(1,3) by (force simp: uses_eligible_def)
    have "valid_assignment (?e \<circ> ej_job_id) A"
      using A D by (auto simp: valid_assignment_def uses_eligible_def)
    then obtain B where "valid_assignment ?e B" "dom B = ej_job_id ` dom A" "card (dom B) = card (dom A)"
      using assignment_map [OF inj(1) _ A(3), of ?e] by auto
    then show ?thesis using F(5) [of B] image_mono [OF compatible, of ej_job_id] by simp
  qed
  moreover have "distinct (List.map_filter qf_assigned_worker_id (map (job_forecast D fw) qs))"
  proof -
    have "List.map_filter qf_assigned_worker_id (map (job_forecast D fw) qs) =
        List.map_filter (map_of fw) (map ej_job_id qs)"
      by (induction qs) (simp_all add: List.map_filter_simps job_forecast_fields split: option.split)
    then show ?thesis using distinct_map_filter_inj [OF ids F(3)] by simp
  qed
  moreover have "\<forall>(j, q) \<in> set (zip qs (map (job_forecast D fw) qs)).
      (qf_state q = Blocked \<longleftrightarrow> startable j = []) \<and>
      (qf_state q = First_wave \<longleftrightarrow> qf_assigned_worker_id q \<noteq> None) \<and>
      (\<forall>w. qf_assigned_worker_id q = Some w \<longrightarrow> w \<in> set (startable j))"
  proof -
    have "\<forall>(j, q) \<in> set (zip qs (map (job_forecast D fw) qs)). j \<in> set qs \<and> q = job_forecast D fw j"
      by (auto simp: set_zip)
    then show ?thesis using state assigned by (auto simp: job_forecast_fields(2))
  qed
  moreover have "map qf_job_id (map (job_forecast D fw) qs) = map ej_job_id qs"
    by (simp add: job_forecast_fields(1))
  ultimately show ?thesis
    unfolding first_wave_spec_def forecast_fields
    using started count_states [of "map (job_forecast D fw) qs"] by simp
qed

subsection \<open>Properties\<close>

text \<open>C15. On distinct jobs \<open>_maximum_matching\<close> returns (its flipping loop ends and never misses a
  parent), what it returns assigns eligible slots to jobs without using a slot twice, no
  assignment covers more jobs, and it respects the order of the list: a job it leaves out cannot
  be covered together with the covered jobs that precede it.\<close>

theorem maximum_matching_correct:
  assumes "distinct job_ids"
  shows "\<exists>m. maximum_matching job_ids eligible = Some m
    \<and> distinct (dict_keys m) \<and> fst ` set m \<subseteq> set job_ids
    \<and> uses_eligible eligible (map_of m) \<and> inj_on (map_of m) (dom (map_of m))
    \<and> (\<forall>A. valid_assignment eligible A \<and> dom A \<subseteq> set job_ids \<longrightarrow> card (dom A) \<le> length m)
    \<and> (\<forall>i < length job_ids. job_ids ! i \<notin> fst ` set m \<longrightarrow>
         (\<forall>A. valid_assignment eligible A \<longrightarrow>
            \<not> insert (job_ids ! i) (fst ` set m \<inter> set (take i job_ids)) \<subseteq> dom A))"
proof -
  obtain m where "maximum_matching job_ids eligible = Some m" "is_maximum_matching job_ids eligible m"
    using bfs.solve_maximum [OF assms, of eligible] by blast
  then show ?thesis
    by (intro exI [of _ m])
      (simp add: is_maximum_matching_def valid_assignment_def prefers_earlier_def)
qed

definition example_slots :: "nat \<Rightarrow> nat list" where
  "example_slots j = (if j = 5 then [10, 11] else if j = 6 then [10] else [10, 11])"

lemma example_matching: "maximum_matching [5, 6, 7] example_slots = Some [(5, 11), (6, 10)]"
  by (simp add: maximum_matching_def match_root_def search0_def search_free.simps flip_path.simps
      example_slots_def Let_def)

theorem maximum_matching_correct_witness:
  "maximum_matching [5, 6, 7] example_slots = Some [(5, 11), (6, 10)]
   \<and> \<not> (\<exists>A. valid_assignment example_slots A \<and> dom A = {5, 6, 7})"
proof -
  have at_most: "card (dom A) \<le> 2" if "valid_assignment example_slots A" "dom A \<subseteq> {5, 6, 7}" for A
    using maximum_matching_correct [of "[5, 6, 7 :: nat]" example_slots] that
    by (simp add: example_matching numeral_2_eq_2)
  have "\<not> valid_assignment example_slots A" if "dom A = {5, 6, 7}" for A
    using at_most [of A] that by auto
  then show ?thesis by (auto simp: example_matching)
qed

lemma clearance_waves_least:
  assumes "distinct job_ids" and "\<forall>j \<in> set job_ids. eligible_workers j \<noteq> []"
  shows "\<exists>w. minimum_clearance_waves job_ids eligible_workers = Some w
    \<and> schedulable job_ids eligible_workers w
    \<and> (\<forall>v < w. \<not> schedulable job_ids eligible_workers v) \<and> w \<le> length job_ids"
proof (cases "job_ids = []")
  case True
  then show ?thesis by (simp add: minimum_clearance_waves_def schedulable_def)
next
  case False
  then show ?thesis
    using bfs_waves.least_waves [OF assms(1) False assms(2)]
    by (auto simp: minimum_clearance_waves_def)
qed

text \<open>\<open>_minimum_clearance_waves\<close> is exact: for distinct jobs that each have an eligible worker it
  returns a number of waves in which all jobs can be scheduled, and no smaller number will do.\<close>

theorem minimum_clearance_waves_least:
  assumes "distinct job_ids" and "\<forall>j \<in> set job_ids. eligible_workers j \<noteq> []"
  shows "\<exists>w. minimum_clearance_waves job_ids eligible_workers = Some w
    \<and> schedulable job_ids eligible_workers w
    \<and> (\<forall>v < w. \<not> schedulable job_ids eligible_workers v) \<and> w \<le> length job_ids"
  using assms by (rule clearance_waves_least)

theorem minimum_clearance_waves_least_witness:
  "\<exists>w. minimum_clearance_waves [5, 6, 7] example_slots = Some w
     \<and> schedulable [5, 6, 7] example_slots w \<and> \<not> schedulable [5, 6, 7] example_slots (w - 1) \<and> w \<le> 3"
proof -
  obtain w where w: "minimum_clearance_waves [5, 6, 7] example_slots = Some w" "w \<le> 3"
    "schedulable [5, 6, 7] example_slots w" "\<And>v. v < w \<Longrightarrow> \<not> schedulable [5, 6, 7] example_slots v"
    using minimum_clearance_waves_least [of "[5, 6, 7 :: nat]" example_slots]
    by (auto simp: example_slots_def numeral_3_eq_3)
  have "w \<noteq> 0" using w(3) by (auto simp: schedulable_def)
  then show ?thesis using w by (intro exI [of _ w]) auto
qed

text \<open>C16. The capacity forecast of a queue with distinct job ids returns. Every queued CUDA job is
  started in the first wave, deferred or blocked, the three counts add up, a started job has its
  own worker that the placement diagnosis accepts, a job is blocked exactly when no worker is
  accepted, no other choice starts more jobs at once, and the clearance waves are the least
  number in which the unblocked jobs can all run.\<close>

theorem forecast_gpu_capacity_correct:
  assumes "distinct (map ej_job_id jobs)" and "0 < window"
  shows "\<exists>f. forecast_gpu_capacity fl now window estimates jobs workers = Some (Inr f)
    \<and> first_wave_spec (queued_cuda_jobs jobs) (startable_workers fl now window workers) f
    \<and> (let unblocked = filter (\<lambda>j. startable_workers fl now window workers j \<noteq> []) (queued_cuda_jobs jobs);
           schedule = schedulable unblocked (startable_workers fl now window workers)
       in schedule (cf_minimum_clearance_waves f) \<and> (\<forall>v < cf_minimum_clearance_waves f. \<not> schedule v))"
proof -
  let ?qs = "queued_cuda_jobs jobs" and ?s = "startable_workers fl now window workers"
  let ?D = "dict_of (map (\<lambda>j. (ej_job_id j, diagnosis fl now window workers j)) ?qs)"
  let ?e = "\<lambda>i. eligible_worker_ids (dict_item ?D i)"
  let ?cs = "filter (\<lambda>j. ?s j \<noteq> []) ?qs"
  note ids = distinct_queued_ids [OF assms(1)]
  have D: "?e (ej_job_id j) = ?s j" if "j \<in> set ?qs" for j
    using dict_item_dict_of [OF ids that, of "diagnosis fl now window workers"]
    by (simp add: eligible_worker_ids_diagnosis [OF assms(2)])
  have compatible: "filter (\<lambda>j. ?e (ej_job_id j) \<noteq> []) ?qs = ?cs"
    using D by (auto intro: filter_cong)
  have distinct: "distinct (map ej_job_id ?cs)" using ids by (rule distinct_map_filter)
  have inj: "inj_on ej_job_id (set ?cs)" using distinct by (simp add: distinct_map)
  obtain fw where fw: "maximum_matching (map ej_job_id ?cs) ?e = Some fw"
    "is_maximum_matching (map ej_job_id ?cs) ?e fw"
    using bfs.solve_maximum [OF distinct, of ?e] by blast
  obtain w where w: "minimum_clearance_waves (map ej_job_id ?cs) ?e = Some w"
    "schedulable (map ej_job_id ?cs) ?e w" "\<forall>v < w. \<not> schedulable (map ej_job_id ?cs) ?e v"
    using clearance_waves_least [OF distinct, of ?e] D by auto
  have sched: "schedulable (map ej_job_id ?cs) ?e v = schedulable ?cs ?s v" for v
    unfolding schedulable_map [OF inj] using D by (intro schedulable_cong) simp
  show ?thesis
    using assms(2) fw(1) w forecast_first_wave [OF ids D fw(2)]
    by (simp add: forecast_gpu_capacity_def diagnostics_of_eq compatible Let_def forecast_fields(6) sched)
qed

definition example_job :: evaluation_job where
  "example_job = \<lparr>ej_job_id = 1, ej_suite_path = ''s'', ej_agent_version = ''a'', ej_status = QUEUED,
     ej_priority = 0, ej_attempts = 0, ej_max_attempts = 3, ej_created_at = 0, ej_updated_at = 0,
     ej_started_at = None, ej_lease_owner = None, ej_lease_expires_at = None, ej_run_id = None,
     ej_error = None, ej_required_accelerator = CUDA, ej_required_labels = [],
     ej_minimum_gpu_memory_mb = 0, ej_minimum_cuda_compute_capability = None,
     ej_minimum_gpu_memory_available_mb = 0, ej_maximum_gpu_utilization_percent = None,
     ej_required_mig_profile = None, ej_traceparent = None, ej_request_id = None\<rparr>"

definition example_worker :: worker_record where
  "example_worker = \<lparr>wr_worker_id = ''w'',
     wr_capabilities = \<lparr>wc_hostname = ''h'', wc_operating_system = ''linux'', wc_architecture = ''x86_64'', wc_cpu_count = 1, wc_accelerators = [CUDA], wc_gpus = [],
       wc_labels = []\<rparr>, wr_registered_at = 0, wr_last_seen_at = 0\<rparr>"

lemma example_startable:
  "queued_cuda_jobs [example_job] = [example_job]"
  "startable_workers (\<lambda>_. None) 0 120 [example_worker] example_job = [''w'']"
  by (simp_all add: queued_cuda_jobs_def example_job_def startable_workers_def fresh_worker_def
      example_worker_def diagnose_worker_def label_reasons_def gpu_reasons_def load_constrained_def)

theorem forecast_gpu_capacity_correct_witness:
  "\<exists>f. forecast_gpu_capacity (\<lambda>_. None) 0 120 [] [example_job] [example_worker] = Some (Inr f)
     \<and> cf_first_wave_jobs f = 1 \<and> cf_blocked_jobs f = 0"
proof -
  obtain f where f: "forecast_gpu_capacity (\<lambda>_. None) 0 120 [] [example_job] [example_worker] = Some (Inr f)"
    "first_wave_spec [example_job] (startable_workers (\<lambda>_. None) 0 120 [example_worker]) f"
    using forecast_gpu_capacity_correct [of "[example_job]" 120 "\<lambda>_. None" 0 "[]" "[example_worker]"]
    unfolding example_startable(1) by auto
  have "card (dom [example_job \<mapsto> ''w'']) \<le> cf_first_wave_jobs f"
    using f(2) unfolding first_wave_spec_def
    by (elim conjE allE [of _ "[example_job \<mapsto> ''w'']"])
      (auto simp: uses_eligible_def example_startable(2) split: if_splits)
  moreover have "cf_first_wave_jobs f + cf_deferred_jobs f + cf_blocked_jobs f = 1"
    using f(2) by (simp add: first_wave_spec_def)
  ultimately show ?thesis using f(1) by auto
qed

end
