(* ===== verification/Demand.thy ===== *)
theory Demand
  imports Capacity Jobs
begin

section \<open>GPU demand forecast (\<open>demand.py\<close>, \<open>store.py\<close>)\<close>

text \<open>
  The forecast of CUDA arrivals from the same hour of the week in the past, and the queries of the
  store that feed it and the capacity forecast. All timestamps are aware and in UTC, so the check of
  the time zone has no counterpart. \<open>defaultdict(int)\<close> is a dictionary read with the default 0.
\<close>

definition DEFAULT_LOOKBACK_DAYS :: int where "DEFAULT_LOOKBACK_DAYS = 56"
definition DEFAULT_HORIZON_HOURS :: int where "DEFAULT_HORIZON_HOURS = 24"
definition HIGH_CONFIDENCE_HISTORY_HOURS :: int where "HIGH_CONFIDENCE_HISTORY_HOURS = 28 * 24"
definition HIGH_CONFIDENCE_JOBS :: int where "HIGH_CONFIDENCE_JOBS = 20"
definition HIGH_CONFIDENCE_DURATIONS :: int where "HIGH_CONFIDENCE_DURATIONS = 10"

definition floor_hour :: "instant \<Rightarrow> instant" where
  "floor_hour v = v - v mod hour"

definition ceil_hour :: "instant \<Rightarrow> instant" where
  "ceil_hour v = (let below = floor_hour v in if v = below then below else below + hour)"

text \<open>\<open>(value.weekday(), value.hour)\<close>; day 0 of the epoch was a Thursday.\<close>

definition week_slot :: "instant \<Rightarrow> int \<times> int" where
  "week_slot v = ((v div day + 3) mod 7, v div hour mod 24)"

definition bump :: "'k \<Rightarrow> int \<Rightarrow> ('k, int) dict \<Rightarrow> ('k, int) dict" where
  "bump k n d = dict_set k (dict_get d k 0 + n) d"

function count_hours :: "instant \<Rightarrow> instant \<Rightarrow> (int \<times> int, int) dict \<Rightarrow> (int \<times> int, int) dict" where
  "count_hours cursor observed_hour counts =
     (if cursor < observed_hour
      then count_hours (cursor + hour) observed_hour (bump (week_slot cursor) 1 counts)
      else counts)"
  by pat_completeness auto

termination
  by (relation "measure (\<lambda>(cursor, observed_hour, counts). nat (observed_hour - cursor))") auto

declare count_hours.simps [simp del]

definition count_arrival ::
  "instant \<Rightarrow> instant \<Rightarrow> instant \<times> int \<Rightarrow> (int \<times> int, int) dict \<times> int
     \<Rightarrow> ((int \<times> int, int) dict \<times> int) result" where
  "count_arrival first_hour observed_hour = (\<lambda>(hour_start, count) (by_slot, total).
     if count < 0 then Inl (ValueError ''GPU arrival counts cannot be negative'')
     else
       let h = floor_hour hour_start in
       if first_hour \<le> h \<and> h < observed_hour
       then Inr (bump (week_slot h) count by_slot, total + count) else Inr (by_slot, total))"

record gpu_demand_hour =
  dh_hour_start :: instant
  dh_historical_occurrences :: int
  dh_historical_arrivals :: int
  dh_predicted_arrivals :: rat

datatype demand_saturation = Saturation_unavailable | Within_capacity | At_risk | Over_capacity

record gpu_demand_forecast =
  df_observed_at :: instant
  df_history_start :: instant
  df_lookback_days :: int
  df_horizon_hours :: int
  df_historical_cuda_jobs :: int
  df_observed_history_hours :: int
  df_current_queued_cuda_jobs :: int
  df_current_running_cuda_jobs :: int
  df_predicted_cuda_arrivals :: rat
  df_average_cuda_duration_seconds :: "rat option"
  df_projected_gpu_seconds :: "rat option"
  df_available_gpu_seconds :: rat
  df_projected_capacity_ratio :: "rat option"
  df_active_cuda_workers :: int
  df_confidence :: confidence
  df_saturation :: demand_saturation
  df_hours :: "gpu_demand_hour list"

definition demand_hour ::
  "instant \<Rightarrow> (int \<times> int, int) dict \<Rightarrow> (int \<times> int, int) dict \<Rightarrow> int \<Rightarrow> gpu_demand_hour" where
  "demand_hour observed_hour occurrence_counts arrivals_by_slot offset =
     (let hour_start = observed_hour + offset * hour;
          occurrences = dict_get occurrence_counts (week_slot hour_start) 0;
          arrivals = dict_get arrivals_by_slot (week_slot hour_start) 0
      in \<lparr>dh_hour_start = hour_start, dh_historical_occurrences = occurrences,
          dh_historical_arrivals = arrivals,
          dh_predicted_arrivals = (if occurrences = 0 then 0 else of_int arrivals / of_int occurrences)\<rparr>)"

definition demand_confidence :: "int \<Rightarrow> int \<Rightarrow> gpu_duration_estimate option \<Rightarrow> confidence" where
  "demand_confidence jobs history_hours estimate =
     (case estimate of
        Some e \<Rightarrow>
          if jobs > 0 \<and> history_hours > 0 then
            (if history_hours \<ge> HIGH_CONFIDENCE_HISTORY_HOURS \<and> jobs \<ge> HIGH_CONFIDENCE_JOBS
                \<and> de_sample_count e \<ge> HIGH_CONFIDENCE_DURATIONS
             then High else Low)
          else Unavailable
      | None \<Rightarrow> Unavailable)"

definition demand_saturation_of :: "rat option \<Rightarrow> confidence \<Rightarrow> demand_saturation" where
  "demand_saturation_of capacity_ratio confidence =
     (case capacity_ratio of
        Some r \<Rightarrow>
          if confidence = Unavailable then Saturation_unavailable
          else if r > 1 then Over_capacity
          else if r \<ge> 8 / 10 then At_risk
          else Within_capacity
      | None \<Rightarrow> Saturation_unavailable)"

text \<open>The forecast from the two tables of the history.\<close>

definition demand_forecast_of ::
  "instant \<Rightarrow> instant \<Rightarrow> int \<Rightarrow> int \<Rightarrow> int \<Rightarrow> int \<Rightarrow> int \<Rightarrow> gpu_duration_estimate option
     \<Rightarrow> (int \<times> int, int) dict \<Rightarrow> int \<Rightarrow> gpu_demand_forecast" where
  "demand_forecast_of earliest observed_at queued running workers lookback_days horizon_hours estimate
     arrivals_by_slot historical_cuda_jobs =
     (let first_hour = ceil_hour earliest;
          observed_hour = floor_hour observed_at;
          occurrence_counts = count_hours first_hour observed_hour [];
          hours = map (demand_hour observed_hour occurrence_counts arrivals_by_slot) [1..horizon_hours];
          history_hours = max 0 ((observed_hour - first_hour) div hour);
          predicted = sum_list (map dh_predicted_arrivals hours);
          average = map_option de_average_seconds estimate;
          projected = map_option (\<lambda>a. (of_int queued + of_int running + predicted) * a) average;
          available = of_int (workers * horizon_hours * 3600);
          ratio = (case projected of None \<Rightarrow> None
                   | Some p \<Rightarrow> if available > 0 then Some (p / available) else None);
          confidence = demand_confidence historical_cuda_jobs history_hours estimate
      in \<lparr>df_observed_at = observed_at, df_history_start = earliest, df_lookback_days = lookback_days,
          df_horizon_hours = horizon_hours, df_historical_cuda_jobs = historical_cuda_jobs,
          df_observed_history_hours = history_hours, df_current_queued_cuda_jobs = queued,
          df_current_running_cuda_jobs = running, df_predicted_cuda_arrivals = predicted,
          df_average_cuda_duration_seconds = average, df_projected_gpu_seconds = projected,
          df_available_gpu_seconds = available, df_projected_capacity_ratio = ratio,
          df_active_cuda_workers = workers, df_confidence = confidence,
          df_saturation = demand_saturation_of ratio confidence, df_hours = hours\<rparr>)"

definition forecast_gpu_demand ::
  "(instant \<times> int) list \<Rightarrow> instant \<Rightarrow> instant \<Rightarrow> int \<Rightarrow> int \<Rightarrow> int \<Rightarrow> gpu_duration_estimate option
     \<Rightarrow> int \<Rightarrow> int \<Rightarrow> gpu_demand_forecast result" where
  "forecast_gpu_demand arrivals history_start observed_at queued running workers estimate lookback_days horizon_hours =
     (if history_start > observed_at
      then Inl (ValueError ''GPU demand history cannot start after the observation time'')
      else if lookback_days \<le> 0 \<or> horizon_hours \<le> 0
      then Inl (ValueError ''GPU demand lookback and horizon must be positive'')
      else if queued < 0 \<or> running < 0 \<or> workers < 0
      then Inl (ValueError ''GPU demand queue and worker counts cannot be negative'')
      else
        let earliest = max history_start (observed_at - lookback_days * day)
        in bind_result (fold_result (count_arrival (ceil_hour earliest) (floor_hour observed_at)) arrivals ([], 0))
             (\<lambda>(arrivals_by_slot, historical_cuda_jobs).
                Inr (demand_forecast_of earliest observed_at queued running workers lookback_days horizon_hours
                  estimate arrivals_by_slot historical_cuda_jobs)))"

subsection \<open>The store's queries\<close>

text \<open>The 500 most recent completed CUDA jobs, with their durations in seconds.\<close>

definition job_duration :: "evaluation_job \<Rightarrow> rat option" where
  "job_duration j =
     (case ej_started_at j of None \<Rightarrow> None
      | Some started \<Rightarrow>
          if ej_status j = COMPLETED \<and> ej_required_accelerator j = CUDA \<and> ej_updated_at j > started
          then Some (of_int (ej_updated_at j - started) / of_int second) else None)"

definition recent_durations :: "evaluation_job list \<Rightarrow> (string option \<times> rat) list" where
  "recent_durations jobs =
     List.map_filter (\<lambda>j. map_option (Pair (ej_required_mig_profile j)) (job_duration j))
       (take 500 (sort_key (\<lambda>j. - ej_updated_at j) (filter (\<lambda>j. job_duration j \<noteq> None) jobs)))"

text \<open>\<open>percentile_cont(p) WITHIN GROUP (ORDER BY x)\<close> interpolates between the two nearest values.\<close>

definition percentile_cont :: "rat \<Rightarrow> rat list \<Rightarrow> rat" where
  "percentile_cont p xs =
     (let s = sort xs; r = p * of_nat (length xs - 1);
          lo = nat \<lfloor>r\<rfloor>; hi = nat \<lceil>r\<rceil>
      in s ! lo + (r - of_nat lo) * (s ! hi - s ! lo))"

definition duration_estimate :: "string option \<Rightarrow> rat list \<Rightarrow> gpu_duration_estimate" where
  "duration_estimate profile seconds =
     \<lparr>de_mig_profile = profile, de_sample_count = int (length seconds),
      de_average_seconds = sum_list seconds / of_nat (length seconds),
      de_p90_seconds = percentile_cont (9 / 10) seconds\<rparr>"

definition gpu_duration_estimates :: "tenant \<Rightarrow> job_db \<Rightarrow> gpu_duration_estimate list" where
  "gpu_duration_estimates t db =
     (let recent = recent_durations (visible t (db_jobs db));
          profiles = sorted_set (List.map_filter fst recent)
      in (if recent = [] then [] else [duration_estimate None (map snd recent)]) @
         map (\<lambda>p. duration_estimate (Some p) (map snd (filter (\<lambda>d. fst d = Some p) recent))) profiles)"

definition store_gpu_capacity_forecast ::
  "(string \<Rightarrow> rat option) \<Rightarrow> instant \<Rightarrow> tenant \<Rightarrow> worker_record list option \<Rightarrow> job_db
     \<Rightarrow> gpu_capacity_forecast result option" where
  "store_gpu_capacity_forecast fl now t workers db =
     (let jobs = sort_key (\<lambda>j. (- ej_priority j, ej_created_at j, ej_job_id j))
            (filter (\<lambda>j. ej_status j = QUEUED \<and> ej_required_accelerator j = CUDA) (visible t (db_jobs db)))
      in forecast_gpu_capacity fl now DEFAULT_WORKER_ACTIVE_SECONDS (gpu_duration_estimates t db) jobs
           (case workers of None \<Rightarrow> list_workers t db | Some ws \<Rightarrow> ws))"

text \<open>\<open>GROUP BY date_trunc('hour', created_at)\<close>, the session in UTC.\<close>

definition hourly_arrivals :: "instant \<Rightarrow> instant \<Rightarrow> evaluation_job list \<Rightarrow> (instant \<times> int) list" where
  "hourly_arrivals history_start observed_at jobs =
     (let hours = map (\<lambda>j. floor_hour (ej_created_at j))
            (filter (\<lambda>j. ej_required_accelerator j = CUDA \<and> history_start \<le> ej_created_at j
               \<and> ej_created_at j < observed_at) jobs)
      in map (\<lambda>h. (h, int (count_list hours h))) (sorted_set hours))"

definition store_gpu_demand_forecast ::
  "instant \<Rightarrow> tenant \<Rightarrow> worker_record list option \<Rightarrow> job_db \<Rightarrow> gpu_demand_forecast result" where
  "store_gpu_demand_forecast observed_at t workers db =
     (let jobs = visible t (db_jobs db);
          lookback_start = observed_at - DEFAULT_LOOKBACK_DAYS * day;
          stored_start = (case map ej_created_at jobs of [] \<Rightarrow> lookback_start | c # cs \<Rightarrow> fold min cs c);
          history_start = max stored_start lookback_start;
          cuda = filter (\<lambda>j. ej_required_accelerator j = CUDA) jobs;
          all_cuda = find (\<lambda>e. de_mig_profile e = None) (gpu_duration_estimates t db);
          active_after = observed_at - DEFAULT_WORKER_ACTIVE_SECONDS * second
      in forecast_gpu_demand (hourly_arrivals history_start observed_at jobs) history_start observed_at
           (int (count_if (\<lambda>j. ej_status j = QUEUED) cuda)) (int (count_if (\<lambda>j. ej_status j = RUNNING) cuda))
           (int (count_if (\<lambda>w. active_after \<le> wr_last_seen_at w \<and> CUDA \<in> set (wc_accelerators (wr_capabilities w)))
              (case workers of None \<Rightarrow> list_workers t db | Some ws \<Rightarrow> ws)))
           all_cuda DEFAULT_LOOKBACK_DAYS DEFAULT_HORIZON_HOURS)"

subsection \<open>What the forecast counts\<close>

lemma dict_get_bump [simp]: "dict_get (bump k n d) k' 0 = dict_get d k' 0 + (if k = k' then n else 0)"
  by (simp add: bump_def)

lemma floor_hour_aligned [simp]: "floor_hour v mod 3600000000 = 0"
  by (simp add: floor_hour_def)

lemma floor_hour_bounds: "floor_hour v \<le> v" "v < floor_hour v + 3600000000"
  by (simp_all add: floor_hour_def)

lemma ceil_hour_aligned [simp]: "ceil_hour v mod 3600000000 = 0"
proof (cases "v = floor_hour v")
  case True
  then show ?thesis using floor_hour_aligned [of v] by (simp add: ceil_hour_def Let_def)
next
  case False
  then show ?thesis by (simp add: ceil_hour_def Let_def)
qed

lemma aligned_gap:
  assumes "p mod (c :: int) = 0" "q mod c = 0" "0 < c"
  shows "q < p \<longleftrightarrow> q + c \<le> p"
proof -
  obtain a b where ab: "p = c * a" "q = c * b" using assms(1,2) by (auto simp: mod_eq_0_iff_dvd elim!: dvdE)
  have "q < p \<longleftrightarrow> b + 1 \<le> a" using assms(3) by (simp add: ab mult_less_cancel_left_pos add1_zle_eq)
  also have "\<dots> \<longleftrightarrow> c * (b + 1) \<le> c * a" using assms(3) by (simp add: mult_le_cancel_left_pos)
  finally show ?thesis by (simp add: ab distrib_left)
qed

lemma ceil_hour_le:
  assumes "p mod 3600000000 = 0"
  shows "ceil_hour v \<le> p \<longleftrightarrow> v \<le> p"
proof (cases "v = floor_hour v")
  case True
  then show ?thesis by (simp add: ceil_hour_def Let_def)
next
  case False
  then have "floor_hour v < v" using floor_hour_bounds(1) [of v] by (metis less_le)
  moreover have "floor_hour v < p \<longleftrightarrow> floor_hour v + 3600000000 \<le> p" by (rule aligned_gap) (simp_all add: assms)
  ultimately show ?thesis
    using False floor_hour_bounds(2) [of v] by (auto simp: ceil_hour_def Let_def)
qed

lemma week_hours:
  "(b - a) mod 168 = (0 :: int) \<longleftrightarrow> (a div 24 + 3) mod 7 = (b div 24 + 3) mod 7 \<and> a mod 24 = b mod 24"
proof
  assume "(b - a) mod 168 = 0"
  then have dvd: "168 dvd b - a" by (simp add: mod_eq_0_iff_dvd)
  then have "24 dvd b - a" by (rule dvd_trans [rotated]) simp
  then have r: "b mod 24 = a mod 24" by (simp add: mod_eq_dvd_iff)
  have "b - a = 24 * (b div 24 - a div 24)"
    using r by (simp add: right_diff_distrib minus_mod_eq_mult_div [symmetric])
  then have "24 * 7 dvd 24 * (b div 24 - a div 24)" using dvd by simp
  then have "7 dvd b div 24 - a div 24" by (subst (asm) dvd_mult_cancel_left) simp
  then have "(b div 24 + 3) mod 7 = (a div 24 + 3) mod 7" by (simp add: mod_eq_dvd_iff)
  then show "(a div 24 + 3) mod 7 = (b div 24 + 3) mod 7 \<and> a mod 24 = b mod 24" using r by simp
next
  assume eq: "(a div 24 + 3) mod 7 = (b div 24 + 3) mod 7 \<and> a mod 24 = b mod 24"
  then have "7 dvd (b div 24 + 3) - (a div 24 + 3)" by (metis mod_eq_dvd_iff)
  then obtain m where "b div 24 - a div 24 = 7 * m" by (auto elim: dvdE)
  moreover have "b - a = 24 * (b div 24 - a div 24)"
    using eq by (simp add: right_diff_distrib minus_mod_eq_mult_div [symmetric])
  ultimately have "b - a = 168 * m" by simp
  then show "(b - a) mod 168 = 0" by simp
qed

lemma week_slot_eq:
  assumes "p mod 3600000000 = 0" "q mod 3600000000 = 0"
  shows "week_slot p = week_slot q \<longleftrightarrow> (q - p) mod (7 * day) = 0"
proof -
  obtain a b where ab: "p = 3600000000 * a" "q = 3600000000 * b" using assms by (auto simp: mod_eq_0_iff_dvd elim!: dvdE)
  have slot: "week_slot (3600000000 * x) = ((x div 24 + 3) mod 7, x mod 24)" for x
    using zdiv_zmult2_eq [of 24 "3600000000 * x" 3600000000] by (simp add: week_slot_def)
  have "(q - p) mod (7 * day) = 3600000000 * ((b - a) mod 168)"
    using mult_mod_right [of 3600000000 "b - a" 168] by (simp add: ab right_diff_distrib)
  then have "(q - p) mod (7 * day) = 0 \<longleftrightarrow> (b - a) mod 168 = 0" by simp
  also have "\<dots> \<longleftrightarrow> (a div 24 + 3) mod 7 = (b div 24 + 3) mod 7 \<and> a mod 24 = b mod 24"
    using week_hours [of b a] by simp
  finally show ?thesis by (simp add: ab slot)
qed

definition past_slots :: "instant \<Rightarrow> instant \<Rightarrow> int \<times> int \<Rightarrow> instant set" where
  "past_slots first_hour observed_hour k =
     {p. first_hour \<le> p \<and> p < observed_hour \<and> p mod 3600000000 = 0 \<and> week_slot p = k}"

lemma count_hours_card:
  "cursor mod 3600000000 = 0 \<Longrightarrow>
     dict_get (count_hours cursor observed_hour counts) k 0 =
     dict_get counts k 0 + int (card (past_slots cursor observed_hour k))"
proof (induction cursor observed_hour counts rule: count_hours.induct)
  case (1 cursor observed_hour counts)
  have next_hour: "cursor + hour \<le> p \<longleftrightarrow> cursor \<le> p \<and> p \<noteq> cursor" if "p mod 3600000000 = 0" for p
    using aligned_gap [OF that 1(2)] by auto
  show ?case
  proof (cases "cursor < observed_hour")
    case True
    have "finite (past_slots (cursor + hour) observed_hour k)"
      by (rule finite_subset [of _ "{cursor..observed_hour}"]) (auto simp: past_slots_def)
    moreover have "past_slots cursor observed_hour k =
        (if week_slot cursor = k then insert cursor else id) (past_slots (cursor + hour) observed_hour k)"
      using True 1(2) next_hour by (auto simp: past_slots_def)
    moreover have "cursor \<notin> past_slots (cursor + hour) observed_hour k" by (simp add: past_slots_def)
    ultimately have "card (past_slots cursor observed_hour k) =
        card (past_slots (cursor + hour) observed_hour k) + (if week_slot cursor = k then 1 else 0)"
      by simp
    moreover have "(cursor + hour) mod 3600000000 = 0" using 1(2) by simp
    ultimately show ?thesis
      using 1(1) True by (simp add: count_hours.simps [of cursor])
  next
    case False
    then have "past_slots cursor observed_hour k = {}" by (auto simp: past_slots_def)
    then show ?thesis using False by (simp add: count_hours.simps [of cursor])
  qed
qed

lemma count_arrivals:
  "fold_result (count_arrival first_hour observed_hour) arrivals (d, n) = Inr (d', n') \<Longrightarrow>
     dict_get d' k 0 = dict_get d k 0 + sum_list (map snd
        (filter (\<lambda>a. first_hour \<le> floor_hour (fst a) \<and> floor_hour (fst a) < observed_hour
           \<and> week_slot (floor_hour (fst a)) = k) arrivals))
     \<and> n' = n + sum_list (map snd
        (filter (\<lambda>a. first_hour \<le> floor_hour (fst a) \<and> floor_hour (fst a) < observed_hour) arrivals))"
proof (induction arrivals arbitrary: d n)
  case (Cons a arrivals)
  then obtain d1 n1 where "count_arrival first_hour observed_hour a (d, n) = Inr (d1, n1)"
    "fold_result (count_arrival first_hour observed_hour) arrivals (d1, n1) = Inr (d', n')" by auto
  then show ?case using Cons.IH [of d1 n1] by (cases a) (auto simp: count_arrival_def Let_def split: if_splits)
qed simp

lemma demand_forecast_fields:
  "df_observed_at (demand_forecast_of e ob q r w lb hz est d n) = ob"
  "df_history_start (demand_forecast_of e ob q r w lb hz est d n) = e"
  "df_historical_cuda_jobs (demand_forecast_of e ob q r w lb hz est d n) = n"
  "df_hours (demand_forecast_of e ob q r w lb hz est d n) =
     map (demand_hour (floor_hour ob) (count_hours (ceil_hour e) (floor_hour ob) []) d) [1..hz]"
  by (simp_all add: demand_forecast_of_def Let_def)

text \<open>The hours of the history that are whole weeks before a forecast hour.\<close>

definition weeks_before :: "gpu_demand_forecast \<Rightarrow> instant \<Rightarrow> instant set" where
  "weeks_before f h = {p. df_history_start f \<le> p \<and> p < floor_hour (df_observed_at f) \<and> p mod 3600000000 = 0
     \<and> (h - p) mod (7 * day) = 0}"

text \<open>The demand forecast covers the next \<open>horizon\<close> hours. For each, the occurrences are the number of
  hours of the history that lie whole weeks before it, the arrivals are those that fell into these
  hours, and the prediction is their average; the number of historical jobs is the sum of all arrivals
  of the complete hours of the history.\<close>

theorem demand_forecast_correct:
  assumes "forecast_gpu_demand arrivals history_start observed_at queued running workers estimate lookback horizon
    = Inr f"
  shows "map dh_hour_start (df_hours f) = map (\<lambda>i. floor_hour observed_at + i * hour) [1..horizon]
    \<and> list_all (\<lambda>h. dh_historical_occurrences h = int (card (weeks_before f (dh_hour_start h)))
        \<and> dh_historical_arrivals h = sum_list (map snd
            (filter (\<lambda>a. floor_hour (fst a) \<in> weeks_before f (dh_hour_start h)) arrivals))
        \<and> dh_predicted_arrivals h = (if dh_historical_occurrences h = 0 then 0
            else of_int (dh_historical_arrivals h) / of_int (dh_historical_occurrences h))) (df_hours f)
    \<and> df_historical_cuda_jobs f = sum_list (map snd
        (filter (\<lambda>a. df_history_start f \<le> floor_hour (fst a) \<and> floor_hour (fst a) < floor_hour observed_at) arrivals))"
proof -
  let ?first = "ceil_hour (df_history_start f)" and ?last = "floor_hour observed_at"
  obtain d n where run: "fold_result (count_arrival ?first ?last) arrivals ([], 0) = Inr (d, n)"
    and f: "df_hours f = map (demand_hour ?last (count_hours ?first ?last []) d) [1..horizon]"
      "df_historical_cuda_jobs f = n" "df_observed_at f = observed_at"
    using assms by (auto simp: forecast_gpu_demand_def Let_def demand_forecast_fields split: if_splits)
  have same: "p \<in> past_slots ?first ?last (week_slot (?last + i * 3600000000))
      \<longleftrightarrow> p \<in> weeks_before f (?last + i * 3600000000)" for p i
    using week_slot_eq [of p "?last + i * 3600000000"] ceil_hour_le [of p]
    by (auto simp: past_slots_def weeks_before_def f(3))
  then have slots: "past_slots ?first ?last (week_slot (?last + i * 3600000000)) = weeks_before f (?last + i * 3600000000)" for i
    by blast
  have in_window: "?first \<le> floor_hour a \<longleftrightarrow> df_history_start f \<le> floor_hour a" for a
    by (rule ceil_hour_le) simp
  have filters: "(df_history_start f \<le> floor_hour a \<and> floor_hour a < ?last
        \<and> week_slot (floor_hour a) = week_slot (?last + i * 3600000000))
      \<longleftrightarrow> floor_hour a \<in> weeks_before f (?last + i * 3600000000)" for a i
    using same [of "floor_hour a" i] by (simp add: past_slots_def in_window)
  show ?thesis
    using count_arrivals [OF run] count_hours_card [OF ceil_hour_aligned, of "df_history_start f" ?last "[]"]
    by (simp add: f(1,2) list_all_iff demand_hour_def Let_def slots filters in_window)
qed

theorem demand_forecast_correct_witness:
  "\<exists>f. forecast_gpu_demand [(0, 3)] 0 (7 * day) 1 0 1 None 56 24 = Inr f
     \<and> df_historical_cuda_jobs f = 3 \<and> length (df_hours f) = 24"
proof -
  have hours: "floor_hour 604800000000 = 604800000000" "ceil_hour 0 = 0" "floor_hour 0 = 0"
    by (simp_all add: floor_hour_def ceil_hour_def)
  have "fold_result (count_arrival 0 604800000000) [(0, 3)] ([], 0) = Inr (bump (week_slot 0) 3 [], 3)"
    by (simp add: count_arrival_def hours)
  then obtain f where f: "forecast_gpu_demand [(0, 3)] 0 (7 * day) 1 0 1 None 56 24 = Inr f"
    by (simp add: forecast_gpu_demand_def Let_def hours)
  have "df_history_start f = 0" using f by (auto simp: forecast_gpu_demand_def Let_def demand_forecast_fields)
  moreover have "length (df_hours f) = 24"
    using arg_cong [OF demand_forecast_correct [OF f, THEN conjunct1], of length] by simp
  ultimately show ?thesis
    using demand_forecast_correct [OF f] f by (auto simp: floor_hour_def)
qed

end
