(* ===== verification/Tenancy.thy ===== *)
theory Tenancy
  imports Py_Regex
begin

section \<open>Tenant identifiers and the bound tenant (\<open>tenancy.py\<close>)\<close>

text \<open>
  The tenant identifier pattern, its validation, and the context variable that holds the tenant of
  the running request. A context is the stack of its previous values, as tokens restore them; the
  environment variable \<open>AECONTROL_TENANT_ID\<close> is an argument.
\<close>

text \<open>\<open>^[a-z0-9][a-z0-9._-]{0,63}$\<close>\<close>

definition TENANT_ID_PATTERN :: regex where
  "TENANT_ID_PATTERN =
     Seq (Cls (lower_az @ digits09))
       (up_to 63 (Cls (lower_az @ digits09 @ one_char CHR ''.'' @ one_char CHR ''_'' @ one_char CHR ''-'')))"

definition DEFAULT_TENANT_ID :: string where
  "DEFAULT_TENANT_ID = ''default''"

definition validate_tenant_id :: "string \<Rightarrow> string result" where
  "validate_tenant_id t =
     (if \<not> fullmatch TENANT_ID_PATTERN t
      then Inl (ValueError ''tenant ID must start with a lowercase letter or digit'')
      else Inr t)"

definition default_tenant_id :: "string option \<Rightarrow> string result" where
  "default_tenant_id env = validate_tenant_id (case env of None \<Rightarrow> DEFAULT_TENANT_ID | Some t \<Rightarrow> t)"

text \<open>The context variable: its value, and the token \<open>set\<close> returns to restore the old one.\<close>

record tenant_context =
  bound_tenant :: "string option"

definition current_tenant_id :: "string option \<Rightarrow> tenant_context \<Rightarrow> string result" where
  "current_tenant_id env ctx =
     (case bound_tenant ctx of Some t \<Rightarrow> Inr t | None \<Rightarrow> default_tenant_id env)"

definition bind_tenant ::
  "string \<Rightarrow> tenant_context \<Rightarrow> (string option \<times> tenant_context) result" where
  "bind_tenant t ctx = bind_result (validate_tenant_id t)
     (\<lambda>t'. Inr (bound_tenant ctx, ctx\<lparr>bound_tenant := Some t'\<rparr>))"

definition reset_tenant :: "string option \<Rightarrow> tenant_context \<Rightarrow> tenant_context" where
  "reset_tenant token ctx = ctx\<lparr>bound_tenant := token\<rparr>"

lemma validate_tenant_id_Inr [simp]:
  "validate_tenant_id t = Inr u \<longleftrightarrow> u = t \<and> fullmatch TENANT_ID_PATTERN t"
  by (auto simp: validate_tenant_id_def)

text \<open>What the pattern admits: 1 to 64 characters, the first one alphanumeric.\<close>

definition tenant_char :: "char \<Rightarrow> bool" where
  "tenant_char c \<longleftrightarrow>
     in_class c (lower_az @ digits09 @ one_char CHR ''.'' @ one_char CHR ''_'' @ one_char CHR ''-'')"

lemma fullmatch_tenant_id:
  "fullmatch TENANT_ID_PATTERN t \<longleftrightarrow>
     t \<noteq> [] \<and> length t \<le> 64 \<and> in_class (hd t) (lower_az @ digits09) \<and> list_all tenant_char t"
proof (cases t)
  case (Cons c s)
  have "in_class c (lower_az @ digits09) \<Longrightarrow> tenant_char c"
    by (auto simp: tenant_char_def in_class_def)
  with Cons show ?thesis
    by (auto simp: fullmatch_iff TENANT_ID_PATTERN_def in_lang_up_to_Cls tenant_char_def
        list_all_iff)
qed (simp add: fullmatch_iff TENANT_ID_PATTERN_def)

lemma DEFAULT_TENANT_ID_valid: "fullmatch TENANT_ID_PATTERN DEFAULT_TENANT_ID"
  unfolding fullmatch_tenant_id DEFAULT_TENANT_ID_def
  by (simp add: tenant_char_def in_class_def)

text \<open>Binding then resetting restores the context.\<close>

lemma reset_bind:
  "bind_tenant t ctx = Inr (token, ctx') \<Longrightarrow> reset_tenant token ctx' = ctx"
  by (auto simp: bind_tenant_def reset_tenant_def)

lemma current_after_bind:
  "bind_tenant t ctx = Inr (token, ctx') \<Longrightarrow> current_tenant_id env ctx' = Inr t"
  by (auto simp: bind_tenant_def current_tenant_id_def)

end
