(* ===== verification/Base64.thy ===== *)
theory Base64
  imports Prelude
begin

section \<open>Base64 (\<open>base64.b64encode\<close>, \<open>b64decode(validate=True)\<close>)\<close>

text \<open>
  The two standard-library functions that keys, signatures and checkpoints go through. Bytes are
  characters. The strict decoder is the loop of \<open>binascii.a2b_base64\<close>; the round trip is proved.
\<close>

definition b64_char :: "nat \<Rightarrow> char" where
  "b64_char n =
     (if n < 26 then char_of (65 + n) else if n < 52 then char_of (71 + n)
      else if n < 62 then char_of (n - 4) else if n = 62 then CHR ''+'' else CHR ''/'')"

definition b64_val :: "char \<Rightarrow> nat option" where
  "b64_val c = (let n = of_char c :: nat in
     if 65 \<le> n \<and> n \<le> 90 then Some (n - 65) else if 97 \<le> n \<and> n \<le> 122 then Some (n - 71)
     else if 48 \<le> n \<and> n \<le> 57 then Some (n + 4) else if n = 43 then Some 62
     else if n = 47 then Some 63 else None)"

fun b64encode :: "string \<Rightarrow> string" where
  "b64encode [] = []"
| "b64encode [a] = (let x = of_char a :: nat in
     [b64_char (x div 4), b64_char (x mod 4 * 16), CHR ''='', CHR ''=''])"
| "b64encode [a, b] = (let x = of_char a :: nat; y = of_char b in
     [b64_char (x div 4), b64_char (x mod 4 * 16 + y div 16), b64_char (y mod 16 * 4), CHR ''=''])"
| "b64encode (a # b # c # s) = (let x = of_char a :: nat; y = of_char b; z = of_char c in
     [b64_char (x div 4), b64_char (x mod 4 * 16 + y div 16),
      b64_char (y mod 16 * 4 + z div 64), b64_char (z mod 64)] @ b64encode s)"

text \<open>
  The decoder reads a character at a time. Its state is the position in the group of four, the
  bits left over, and the number of padding characters seen in this group; \<open>padding\<close> tells whether
  any has been seen.
\<close>

record b64_state =
  quad_pos :: nat
  left_bits :: nat
  pads :: nat
  padding :: bool

definition b64_start :: b64_state where
  "b64_start = \<lparr>quad_pos = 0, left_bits = 0, pads = 0, padding = False\<rparr>"

fun b64_loop :: "b64_state \<Rightarrow> string \<Rightarrow> string option" where
  "b64_loop st [] = (if quad_pos st = 0 then Some [] else None)"
| "b64_loop st (c # s) =
     (if c = CHR ''='' then
        if 2 \<le> quad_pos st \<and> 4 \<le> quad_pos st + (pads st + 1) then (if s = [] then Some [] else None)
        else b64_loop (st\<lparr>padding := True, pads := (if 2 \<le> quad_pos st then pads st + 1 else pads st)\<rparr>) s
      else
        (case b64_val c of None \<Rightarrow> None
         | Some v \<Rightarrow>
             if padding st then None
             else if quad_pos st = 0 then b64_loop (st\<lparr>quad_pos := 1, left_bits := v, pads := 0\<rparr>) s
             else if quad_pos st = 1 then
               map_option (Cons (char_of (left_bits st * 4 + v div 16)))
                 (b64_loop (st\<lparr>quad_pos := 2, left_bits := v mod 16, pads := 0\<rparr>) s)
             else if quad_pos st = 2 then
               map_option (Cons (char_of (left_bits st * 16 + v div 4)))
                 (b64_loop (st\<lparr>quad_pos := 3, left_bits := v mod 4, pads := 0\<rparr>) s)
             else
               map_option (Cons (char_of (left_bits st * 64 + v)))
                 (b64_loop (st\<lparr>quad_pos := 0, left_bits := 0, pads := 0\<rparr>) s)))"

text \<open>\<open>None\<close> is \<open>binascii.Error\<close>, or \<open>ValueError\<close> for text that is not ASCII.\<close>

definition b64decode :: "string \<Rightarrow> string option" where
  "b64decode s = (if starts_with ''='' s then None else b64_loop b64_start s)"

lemma b64_val_char [simp]: "n < 64 \<Longrightarrow> b64_val (b64_char n) = Some n"
  by (auto simp: b64_val_def b64_char_def Let_def)

lemma b64_char_no_pad [simp]: "n < 64 \<Longrightarrow> b64_char n \<noteq> CHR ''=''"
proof
  assume "n < 64" "b64_char n = CHR ''=''"
  then have "Some n = b64_val CHR ''=''" by (metis b64_val_char)
  then show False by (simp add: b64_val_def)
qed

lemma sextet_bounds [simp]:
  fixes x y z :: nat
  shows "x < 256 \<Longrightarrow> x div 4 < 64" "y < 256 \<Longrightarrow> x mod 4 * 16 + y div 16 < 64"
    and "z < 256 \<Longrightarrow> y mod 16 * 4 + z div 64 < 64" "x mod 4 * 16 < 64" "y mod 16 * 4 < 64"
  by linarith+

lemma byte_parts [simp]:
  fixes y :: nat
  assumes "y < 256"
  shows "y div 16 mod 16 * 16 + y mod 16 = y" "y div 64 mod 4 * 64 + y mod 64 = y"
    and "y div 16 div 16 = 0" "y div 64 div 4 = 0"
proof -
  have small: "y div 16 < 16" "y div 64 < 4" using assms by linarith+
  then show "y div 16 mod 16 * 16 + y mod 16 = y" "y div 64 mod 4 * 64 + y mod 64 = y"
    by (simp_all add: div_mult_mod_eq)
  show "y div 16 div 16 = 0" "y div 64 div 4 = 0" using small by simp_all
qed

lemma b64_loop_encode: "b64_loop b64_start (b64encode s) = Some s"
  by (induction s rule: b64encode.induct) (simp_all add: b64_start_def Let_def)

lemma b64decode_encode [simp]: "b64decode (b64encode s) = Some s"
proof -
  have "\<not> starts_with ''='' (b64encode s)"
    by (cases s rule: b64encode.cases) (auto simp: starts_with_def Let_def)
  then show ?thesis by (simp add: b64decode_def b64_loop_encode)
qed

lemma b64encode_eq_Nil [simp]: "b64encode s = [] \<longleftrightarrow> s = []"
  by (cases s rule: b64encode.cases) (simp_all add: Let_def)

end
