(* ===== verification/Integrity.thy ===== *)
theory Integrity
  imports Canonical_Json Base64 Py_Regex "HOL-Library.Multiset"
begin

section \<open>Digests and signatures (\<open>integrity.py\<close>)\<close>

text \<open>
  The digest of a ledger entry, the keyring that signs new artifacts and verifies old ones, and its
  construction from keys and from the environment. The cryptographic primitives, the text of a
  float, \<open>json.loads\<close> and a remote signer are parameters; what is assumed of them is stated as named
  predicates. Keys, signatures and messages are byte strings.
\<close>

record primitives =
  sha256_hex :: "string \<Rightarrow> sha256"
  hmac_sha256_hex :: "string \<Rightarrow> string \<Rightarrow> string"
  ed25519_public :: "string \<Rightarrow> string"
  ed25519_sign :: "string \<Rightarrow> string \<Rightarrow> string"
  ed25519_verify :: "string \<Rightarrow> string \<Rightarrow> string \<Rightarrow> bool"
  float_repr :: "rat \<Rightarrow> string"

text \<open>\<open>^[a-f0-9]{64}$\<close>\<close>

definition is_sha256 :: "string \<Rightarrow> bool" where
  "is_sha256 s \<longleftrightarrow> length s = 64 \<and> list_all (\<lambda>c. in_class c [(CHR ''a'', CHR ''f''), (CHR ''0'', CHR ''9'')]) s"

text \<open>
  A SHA-256 digest is 64 hexadecimal digits, an HMAC is ASCII, and a signature made with a private key
  verifies with its public key.
\<close>

definition primitives_ok :: "primitives \<Rightarrow> bool" where
  "primitives_ok P \<longleftrightarrow>
     (\<forall>x. is_sha256 (sha256_hex P x)) \<and> (\<forall>k m. ascii (hmac_sha256_hex P k m))
   \<and> (\<forall>k m. ed25519_verify P (ed25519_public P k) (ed25519_sign P k m) m)
   \<and> float_repr_ok (float_repr P)"

lemma is_sha256_ascii: "is_sha256 s \<Longrightarrow> ascii s"
  by (fastforce simp: is_sha256_def ascii_def in_class_def list_all_iff)

definition HMAC_SHA256 :: string where "HMAC_SHA256 = ''hmac-sha256''"
definition ED25519 :: string where "ED25519 = ''ed25519''"

definition LEDGER_GENESIS_SHA256 :: sha256 where
  "LEDGER_GENESIS_SHA256 = replicate 64 CHR ''0''"

definition digest_of :: "primitives \<Rightarrow> json \<Rightarrow> sha256 result" where
  "digest_of P payload = artifact_digest (sha256_hex P) (float_repr P) payload"

definition json_opt :: "string option \<Rightarrow> json" where
  "json_opt x = (case x of None \<Rightarrow> JNull | Some s \<Rightarrow> JStr s)"

definition ledger_entry_json ::
  "string \<Rightarrow> int \<Rightarrow> string \<Rightarrow> uuid \<Rightarrow> sha256 \<Rightarrow> string option \<Rightarrow> string option \<Rightarrow> string option
     \<Rightarrow> sha256 \<Rightarrow> json" where
  "ledger_entry_json tenant_id sequence artifact_type artifact_id payload_sha256 signature_algorithm
       signing_key_id signature previous_entry_sha256 =
     JObj [(''tenant_id'', JStr tenant_id), (''sequence'', JInt sequence),
       (''artifact_type'', JStr artifact_type), (''artifact_id'', JStr (uuid_str artifact_id)),
       (''payload_sha256'', JStr payload_sha256),
       (''signature_algorithm'', json_opt signature_algorithm),
       (''signing_key_id'', json_opt signing_key_id), (''signature'', json_opt signature),
       (''previous_entry_sha256'', JStr previous_entry_sha256)]"

definition ledger_entry_digest ::
  "primitives \<Rightarrow> string \<Rightarrow> int \<Rightarrow> string \<Rightarrow> uuid \<Rightarrow> sha256 \<Rightarrow> string option \<Rightarrow> string option
     \<Rightarrow> string option \<Rightarrow> sha256 \<Rightarrow> sha256 result" where
  "ledger_entry_digest P tenant_id sequence artifact_type artifact_id payload_sha256
       signature_algorithm signing_key_id signature previous_entry_sha256 =
     digest_of P (ledger_entry_json tenant_id sequence artifact_type artifact_id payload_sha256
       signature_algorithm signing_key_id signature previous_entry_sha256)"

definition verify_digest :: "primitives \<Rightarrow> sha256 \<Rightarrow> json \<Rightarrow> sha256 result" where
  "verify_digest P expected payload =
     bind_result (digest_of P payload) (\<lambda>actual.
     bind_result (compare_digest expected actual) (\<lambda>same.
       if \<not> same then Inl (ValueError actual) else Inr actual))"

subsection \<open>The keyring\<close>

text \<open>\<open>^[A-Za-z0-9._-]{1,64}$\<close>\<close>

definition KEY_ID_PATTERN :: regex where
  "KEY_ID_PATTERN = (let c = Cls (upper_az @ lower_az @ digits09 @ one_char CHR ''.'' @ one_char CHR ''_''
     @ one_char CHR ''-'') in Seq c (up_to 63 c))"

record remote_signer =
  rs_algorithm :: string
  rs_key_id :: string
  rs_sign :: "string \<Rightarrow> string result"

record keyring =
  hmac_keys :: "(string, string) dict"
  private_keys :: "(string, string) dict"
  public_keys :: "(string, string) dict"
  active_key_id :: "string option"
  active_algorithm :: "string option"
  kr_remote_signer :: "remote_signer option"

definition add_private_key ::
  "primitives \<Rightarrow> string \<times> string \<Rightarrow> (string, string) dict \<times> (string, string) dict
     \<Rightarrow> ((string, string) dict \<times> (string, string) dict) result" where
  "add_private_key P = (\<lambda>(key_id, key) (private_keys, public_keys).
     if length key \<noteq> 32 then Inl (ValueError ''Ed25519 private key must contain exactly 32 bytes'')
     else Inr (dict_set key_id key private_keys, dict_set key_id (ed25519_public P key) public_keys))"

definition add_public_key ::
  "string \<times> string \<Rightarrow> (string, string) dict \<Rightarrow> (string, string) dict result" where
  "add_public_key = (\<lambda>(key_id, key) public_keys.
     if length key \<noteq> 32 then Inl (ValueError ''Ed25519 public key must contain exactly 32 bytes'')
     else if (case map_of public_keys key_id of None \<Rightarrow> False | Some derived \<Rightarrow> derived \<noteq> key)
     then Inl (ValueError ''Ed25519 public key does not match its private key'')
     else Inr (dict_set key_id key public_keys))"

text \<open>The checks of the constructor on the active key and the remote signer.\<close>

definition check_active_key :: "keyring \<Rightarrow> unit result" where
  "check_active_key k =
     (if (active_key_id k = None) \<noteq> (active_algorithm k = None)
      then Inl (ValueError ''active artifact signing key ID and algorithm must be set together'')
      else if active_algorithm k \<notin> {Some HMAC_SHA256, Some ED25519, None}
      then Inl (ValueError ''unsupported artifact signing algorithm'')
      else if active_key_id k \<noteq> None \<and> active_algorithm k = Some HMAC_SHA256 \<and>
              map_of (hmac_keys k) (the (active_key_id k)) = None
      then Inl (ValueError ''active artifact signing key is not in the keyring for hmac-sha256'')
      else if active_key_id k \<noteq> None \<and> active_algorithm k = Some ED25519 \<and>
              map_of (private_keys k) (the (active_key_id k)) = None \<and> kr_remote_signer k = None
      then Inl (ValueError ''active artifact signing key has no Ed25519 private key'')
      else
        (case kr_remote_signer k of None \<Rightarrow> Inr ()
         | Some r \<Rightarrow>
             if active_key_id k \<noteq> Some (rs_key_id r) \<or> active_algorithm k \<noteq> Some (rs_algorithm r)
                \<or> active_algorithm k \<noteq> Some ED25519
             then Inl (ValueError ''remote signer must match the active Ed25519 signing key'')
             else if map_of (private_keys k) (rs_key_id r) \<noteq> None
             then Inl (ValueError ''remote signer cannot be combined with an active local private key'')
             else if map_of (public_keys k) (rs_key_id r) = None
             then Inl (ValueError ''remote signer requires its active Ed25519 public verification key'')
             else Inr ()))"

definition artifact_keyring ::
  "primitives \<Rightarrow> (string, string) dict \<Rightarrow> string option \<Rightarrow> string option \<Rightarrow> (string, string) dict
     \<Rightarrow> (string, string) dict \<Rightarrow> remote_signer option \<Rightarrow> keyring result" where
  "artifact_keyring P hmac key_id algorithm private public remote =
     (let algorithm' = (if key_id \<noteq> None \<and> algorithm = None \<and> hmac \<noteq> [] then Some HMAC_SHA256
                        else algorithm) in
      bind_result (fold_result (\<lambda>k _. guard_result (\<not> fullmatch KEY_ID_PATTERN k)
          (ValueError ''invalid artifact signing key ID'')) (map fst (hmac @ private @ public)) ()) (\<lambda>_.
      bind_result (fold_result (\<lambda>(_, key) _. guard_result (length key < 32)
          (ValueError ''artifact signing key must contain at least 32 bytes'')) hmac ()) (\<lambda>_.
      bind_result (fold_result (add_private_key P) private ([], [])) (\<lambda>(privates, derived).
      bind_result (fold_result add_public_key public derived) (\<lambda>publics.
        let k = \<lparr>hmac_keys = hmac, private_keys = privates, public_keys = publics,
                 active_key_id = key_id, active_algorithm = algorithm', kr_remote_signer = remote\<rparr> in
        bind_result (check_active_key k) (\<lambda>_. Inr k))))))"

subsection \<open>Signing and verifying\<close>

definition signature_message :: "string \<Rightarrow> uuid \<Rightarrow> sha256 \<Rightarrow> string" where
  "signature_message artifact_type artifact_id payload_sha256 =
     utf8 (''aecontrol:v1:'' @ artifact_type @ '':'' @ uuid_str artifact_id @ '':'' @ payload_sha256)"

definition keyring_verify ::
  "primitives \<Rightarrow> keyring \<Rightarrow> string \<Rightarrow> string \<Rightarrow> string \<Rightarrow> uuid \<Rightarrow> sha256 \<Rightarrow> string \<Rightarrow> bool result" where
  "keyring_verify P k algorithm key_id artifact_type artifact_id payload_sha256 signature =
     (let message = signature_message artifact_type artifact_id payload_sha256 in
      if algorithm = HMAC_SHA256 then
        (case map_of (hmac_keys k) key_id of None \<Rightarrow> Inl (KeyError key_id)
         | Some hmac_key \<Rightarrow> compare_digest (hmac_sha256_hex P hmac_key message) signature)
      else if algorithm \<noteq> ED25519 then Inl (ValueError ''unsupported artifact signature algorithm'')
      else
        (case map_of (public_keys k) key_id of None \<Rightarrow> Inl (KeyError key_id)
         | Some public_key \<Rightarrow>
             Inr (case b64decode signature of None \<Rightarrow> False
                  | Some decoded \<Rightarrow> ed25519_verify P public_key decoded message)))"

text \<open>A subscription of a dictionary: a missing key is a \<open>KeyError\<close>.\<close>

definition subscript :: "(string, 'v) dict \<Rightarrow> string \<Rightarrow> 'v result" where
  "subscript d key = (case map_of d key of None \<Rightarrow> Inl (KeyError key) | Some v \<Rightarrow> Inr v)"

definition keyring_sign ::
  "primitives \<Rightarrow> keyring \<Rightarrow> string \<Rightarrow> uuid \<Rightarrow> sha256 \<Rightarrow> string result" where
  "keyring_sign P k artifact_type artifact_id payload_sha256 =
     (case (active_key_id k, active_algorithm k) of
        (Some key_id, Some algorithm) \<Rightarrow>
          let message = signature_message artifact_type artifact_id payload_sha256 in
          if algorithm = HMAC_SHA256 then
            bind_result (subscript (hmac_keys k) key_id) (\<lambda>key. Inr (hmac_sha256_hex P key message))
          else
            (case kr_remote_signer k of
               Some remote \<Rightarrow>
                 bind_result (rs_sign remote message) (\<lambda>signature.
                 bind_result (keyring_verify P k algorithm key_id artifact_type artifact_id
                   payload_sha256 signature) (\<lambda>valid.
                   if \<not> valid then Inl ArtifactSigningError else Inr signature))
             | None \<Rightarrow>
                 bind_result (subscript (private_keys k) key_id)
                   (\<lambda>key. Inr (b64encode (ed25519_sign P key message))))
      | _ \<Rightarrow> Inl (ValueError ''artifact keyring has no active signing key''))"

subsection \<open>Configuration from the environment\<close>

text \<open>
  \<open>loads\<close> is \<open>json.loads\<close>, \<open>None\<close> being \<open>JSONDecodeError\<close>. The Vault, AWS and Google Cloud signers are
  given as functions from the active key id to a signer, or as not configured.
\<close>

definition decode_key_map ::
  "(string \<Rightarrow> json option) \<Rightarrow> string \<Rightarrow> (string, string) dict result" where
  "decode_key_map loads value =
     (case loads value of
        None \<Rightarrow> Inl (ValueError ''must be a JSON object'')
      | Some (JObj (kv # kvs)) \<Rightarrow>
          fold_result (\<lambda>(key_id, encoded_key) keys.
            case encoded_key of
              JStr encoded \<Rightarrow>
                (case b64decode encoded of
                   None \<Rightarrow> Inl (ValueError ''artifact signing key must be valid base64'')
                 | Some key \<Rightarrow> Inr (dict_set key_id key keys))
            | _ \<Rightarrow> Inl (ValueError ''must map key IDs to base64 strings'')) (kv # kvs) []
      | Some _ \<Rightarrow> Inl (ValueError ''must be a non-empty JSON object''))"

definition decode_optional_key_map ::
  "(string \<Rightarrow> json option) \<Rightarrow> string option \<Rightarrow> (string, string) dict result" where
  "decode_optional_key_map loads value =
     (case value of None \<Rightarrow> Inr [] | Some v \<Rightarrow> decode_key_map loads v)"

record signing_environment =
  env_signing_keys :: "string option"
  env_signing_key_id :: "string option"
  env_signing_algorithm :: "string option"
  env_private_keys :: "string option"
  env_public_keys :: "string option"
  env_vault :: "(string \<Rightarrow> remote_signer result) option"
  env_aws_kms :: "(string \<Rightarrow> remote_signer result) option"
  env_gcp_kms :: "(string \<Rightarrow> remote_signer result) option"

definition remote_requires_ed25519 :: "signing_environment \<Rightarrow> ('a \<Rightarrow> 'b) option \<Rightarrow> string \<Rightarrow> unit result" where
  "remote_requires_ed25519 e configuration message =
     guard_result (configuration \<noteq> None \<and>
       (env_signing_key_id e = None \<or> env_signing_algorithm e \<noteq> Some ED25519)) (ValueError message)"

definition environment_remote_signer :: "signing_environment \<Rightarrow> remote_signer option result" where
  "environment_remote_signer e =
     (case env_signing_key_id e of None \<Rightarrow> Inr None
      | Some key_id \<Rightarrow>
          (case (env_vault e, env_aws_kms e, env_gcp_kms e) of
             (Some signer, _, _) \<Rightarrow> bind_result (signer key_id) (\<lambda>r. Inr (Some r))
           | (None, Some signer, _) \<Rightarrow> bind_result (signer key_id) (\<lambda>r. Inr (Some r))
           | (None, None, Some signer) \<Rightarrow> bind_result (signer key_id) (\<lambda>r. Inr (Some r))
           | (None, None, None) \<Rightarrow> Inr None))"

text \<open>An empty string in the environment is falsy.\<close>

abbreviation unset :: "string option \<Rightarrow> bool" where
  "unset v \<equiv> v = None \<or> v = Some []"

definition keyring_from_environment ::
  "primitives \<Rightarrow> (string \<Rightarrow> json option) \<Rightarrow> signing_environment \<Rightarrow> keyring option result" where
  "keyring_from_environment P loads e =
     (if count_if (\<lambda>b. b) [env_vault e \<noteq> None, env_aws_kms e \<noteq> None, env_gcp_kms e \<noteq> None] > 1
      then Inl (ValueError ''Vault Transit, AWS KMS, and Google Cloud KMS artifact signing are mutually exclusive'')
      else
        let new_configuration = (env_signing_algorithm e \<noteq> None \<or> env_private_keys e \<noteq> None \<or>
              env_public_keys e \<noteq> None \<or> env_vault e \<noteq> None \<or> env_aws_kms e \<noteq> None \<or> env_gcp_kms e \<noteq> None)
        in
        if \<not> new_configuration \<and> env_signing_keys e = None \<and> env_signing_key_id e = None then Inr None
        else if \<not> new_configuration then
          (if unset (env_signing_keys e) \<or> unset (env_signing_key_id e)
           then Inl (ValueError ''signing keys and key ID must be set together'')
           else bind_result (decode_key_map loads (the (env_signing_keys e))) (\<lambda>keys.
                bind_result (artifact_keyring P keys (env_signing_key_id e) (Some HMAC_SHA256) [] [] None)
                  (\<lambda>k. Inr (Some k))))
        else if (env_signing_key_id e = None) \<noteq> (env_signing_algorithm e = None)
        then Inl (ValueError ''signing key ID and algorithm must be set together'')
        else
          bind_result (remote_requires_ed25519 e (env_vault e) ''Vault Transit requires an active Ed25519 signing key configuration'') (\<lambda>_.
          bind_result (remote_requires_ed25519 e (env_aws_kms e) ''AWS KMS requires an active Ed25519 signing key configuration'') (\<lambda>_.
          bind_result (remote_requires_ed25519 e (env_gcp_kms e) ''Google Cloud KMS requires an active Ed25519 signing key configuration'') (\<lambda>_.
          bind_result (decode_optional_key_map loads (env_public_keys e)) (\<lambda>publics.
          bind_result (environment_remote_signer e) (\<lambda>remote.
          bind_result (decode_optional_key_map loads (env_signing_keys e)) (\<lambda>hmacs.
          bind_result (decode_optional_key_map loads (env_private_keys e)) (\<lambda>privates.
          bind_result (artifact_keyring P hmacs (env_signing_key_id e) (env_signing_algorithm e)
            privates publics remote) (\<lambda>k. Inr (Some k))))))))))"

subsection \<open>What a constructed keyring satisfies\<close>

definition keyring_ok :: "primitives \<Rightarrow> keyring \<Rightarrow> bool" where
  "keyring_ok P k \<longleftrightarrow> check_active_key k = Inr ()
   \<and> (\<forall>i key. map_of (private_keys k) i = Some key \<longrightarrow>
        length key = 32 \<and> map_of (public_keys k) i = Some (ed25519_public P key))
   \<and> (\<forall>(i, key) \<in> set (hmac_keys k). fullmatch KEY_ID_PATTERN i \<and> 32 \<le> length key)"

lemma fold_guard: "fold_result (\<lambda>x _. guard_result (p x) (e x)) xs () = Inr u \<Longrightarrow> \<forall>x \<in> set xs. \<not> p x"
  by (induction xs) auto

lemma private_fold:
  assumes "fold_result (add_private_key P) kvs st = Inr st'"
    and "\<forall>i key. map_of (fst st) i = Some key \<longrightarrow>
      length key = 32 \<and> map_of (snd st) i = Some (ed25519_public P key)"
  shows "\<forall>i key. map_of (fst st') i = Some key \<longrightarrow>
    length key = 32 \<and> map_of (snd st') i = Some (ed25519_public P key)"
  using assms
proof (rule fold_result_invariant)
  fix kv s s'
  assume "\<forall>i key. map_of (fst s) i = Some key \<longrightarrow>
      length key = 32 \<and> map_of (snd s) i = Some (ed25519_public P key)"
    and "add_private_key P kv s = Inr s'"
  then show "\<forall>i key. map_of (fst s') i = Some key \<longrightarrow>
      length key = 32 \<and> map_of (snd s') i = Some (ed25519_public P key)"
    by (cases kv; cases s) (auto simp: add_private_key_def split: if_splits)
qed

lemma public_fold:
  assumes "fold_result add_public_key kvs pubs = Inr pubs'" "map_of pubs i = Some key"
  shows "map_of pubs' i = Some key"
  using assms
proof (rule fold_result_invariant)
  fix kv s s'
  assume "map_of s i = Some key" "add_public_key kv s = Inr s'"
  then show "map_of s' i = Some key"
    by (cases kv) (auto simp: add_public_key_def split: if_splits option.splits)
qed

lemma artifact_keyring_ok:
  assumes "artifact_keyring P hmac key_id algorithm private public remote = Inr k"
  shows "keyring_ok P k \<and> active_key_id k = key_id \<and> kr_remote_signer k = remote \<and> hmac_keys k = hmac"
proof -
  obtain privates derived publics where
    ids: "fold_result (\<lambda>k _. guard_result (\<not> fullmatch KEY_ID_PATTERN k)
      (ValueError ''invalid artifact signing key ID'')) (map fst (hmac @ private @ public)) () = Inr ()"
    and lengths: "fold_result (\<lambda>(_, key) _. guard_result (length key < 32)
      (ValueError ''artifact signing key must contain at least 32 bytes'')) hmac () = Inr ()"
    and privates: "fold_result (add_private_key P) private ([], []) = Inr (privates, derived)"
    and publics: "fold_result add_public_key public derived = Inr publics"
    and active: "check_active_key k = Inr ()" "hmac_keys k = hmac" "private_keys k = privates"
      "public_keys k = publics" "active_key_id k = key_id" "kr_remote_signer k = remote"
    using assms by (fastforce simp: artifact_keyring_def Let_def split: prod.splits)
  have "length key = 32 \<and> map_of publics i = Some (ed25519_public P key)"
    if "map_of privates i = Some key" for i key
    using private_fold [OF privates] public_fold [OF publics] that by simp
  moreover have "fullmatch KEY_ID_PATTERN i" if "(i, key) \<in> set hmac" for i key
    using fold_guard [OF ids] that by force
  moreover have "32 \<le> length key" if "(i, key) \<in> set hmac" for i key
    using fold_guard [OF lengths [unfolded case_prod_unfold]] that by fastforce
  ultimately show ?thesis using active by (auto simp: keyring_ok_def)
qed

lemma keyring_sign_verify:
  assumes "keyring_ok P k" "primitives_ok P" "active_key_id k = Some i" "active_algorithm k = Some a"
    and "keyring_sign P k typ artifact sha = Inr s"
  shows "keyring_verify P k a i typ artifact sha s = Inr True"
proof (cases "a = HMAC_SHA256")
  case True
  then show ?thesis
    using assms(2-5)
    by (auto simp: keyring_sign_def keyring_verify_def Let_def subscript_def compare_digest_def
        primitives_ok_def split: option.splits)
next
  case False
  show ?thesis
  proof (cases "kr_remote_signer k")
    case (Some r)
    then show ?thesis using assms(3-5) False by (auto simp: keyring_sign_def Let_def split: if_splits)
  next
    case None
    have "a = ED25519" using assms(1,3,4) False
      by (auto simp: keyring_ok_def check_active_key_def split: if_splits)
    then show ?thesis
      using assms False None
      by (auto simp: keyring_sign_def keyring_verify_def Let_def subscript_def keyring_ok_def
          primitives_ok_def split: option.splits)
  qed
qed

lemma keyring_sign_local:
  assumes "keyring_ok P k" "active_key_id k = Some i" "kr_remote_signer k = None"
  shows "\<exists>s. keyring_sign P k typ artifact sha = Inr s"
proof -
  have check: "check_active_key k = Inr ()" using assms(1) by (simp add: keyring_ok_def)
  obtain a where a: "active_algorithm k = Some a" "a = HMAC_SHA256 \<or> a = ED25519"
    using check assms(2) by (auto simp: check_active_key_def split: if_splits)
  have differ: "ED25519 \<noteq> HMAC_SHA256" by (simp add: HMAC_SHA256_def ED25519_def)
  have key: "a = HMAC_SHA256 \<Longrightarrow> \<exists>key. map_of (hmac_keys k) i = Some key"
    "a = ED25519 \<Longrightarrow> \<exists>key. map_of (private_keys k) i = Some key"
    using check assms(2,3) a(1) by (auto simp: check_active_key_def split: if_splits)
  show ?thesis
    using a(2)
  proof
    assume "a = HMAC_SHA256"
    then show ?thesis using key(1) assms(2) a(1) by (auto simp: keyring_sign_def subscript_def Let_def)
  next
    assume "a = ED25519"
    then show ?thesis
      using key(2) assms(2,3) a(1) differ by (auto simp: keyring_sign_def subscript_def Let_def)
  qed
qed

subsection \<open>Ledger entries\<close>

definition entry_bytes ::
  "primitives \<Rightarrow> string \<Rightarrow> int \<Rightarrow> string \<Rightarrow> uuid \<Rightarrow> sha256 \<Rightarrow> string option \<Rightarrow> string option
     \<Rightarrow> string option \<Rightarrow> sha256 \<Rightarrow> string" where
  "entry_bytes P t n typ i sha a k s prev =
     print_json (float_repr P) (canonical_form (ledger_entry_json t n typ i sha a k s prev))"

lemma json_opt_simps [simp]:
  "normalize_json (json_opt x) = json_opt x" "sort_keys (json_opt x) = json_opt x"
  "finite_json (json_opt x)" "plain (json_opt x)" "json_opt x = json_opt y \<longleftrightarrow> x = y"
  by (auto simp: json_opt_def split: option.splits)

lemma canonical_entry:
  "canonical_form (ledger_entry_json t n typ i sha a k s prev) =
     JObj [(''artifact_id'', JStr (uuid_str i)), (''artifact_type'', JStr typ),
       (''payload_sha256'', JStr sha), (''previous_entry_sha256'', JStr prev), (''sequence'', JInt n),
       (''signature'', json_opt s), (''signature_algorithm'', json_opt a), (''signing_key_id'', json_opt k),
       (''tenant_id'', JStr t)]"
  by (simp add: canonical_form_def ledger_entry_json_def)

lemma ledger_entry_digest_eq:
  "ledger_entry_digest P t n typ i sha a k s prev = Inr (sha256_hex P (entry_bytes P t n typ i sha a k s prev))"
  by (simp add: ledger_entry_digest_def digest_of_def artifact_digest_def canonical_json_bytes_def
      entry_bytes_def canonical_entry Let_def)

lemma entry_bytes_inj:
  assumes "float_repr_ok (float_repr P)"
    and "entry_bytes P t n typ i sha a k s prev = entry_bytes P t' n' typ' i' sha' a' k' s' prev'"
  shows "t = t' \<and> n = n' \<and> typ = typ' \<and> i = i' \<and> sha = sha' \<and> a = a' \<and> k = k' \<and> s = s' \<and> prev = prev'"
  using assms print_json_inj [of "float_repr P"]
  by (simp add: entry_bytes_def canonical_entry del: print_json.simps print_members.simps)

subsection \<open>A concrete instance of the parameters\<close>

text \<open>Text for a rational that has the properties asked of \<open>float.__repr__\<close>.\<close>

definition rat_text :: "rat \<Rightarrow> string" where
  "rat_text r = int_str (fst (quotient_of r)) @ ''.'' @ int_str (snd (quotient_of r))"

lemma int_str_no_dot [simp]: "CHR ''.'' \<notin> set (int_str i)"
  using set_int_str [of "CHR ''.''" i] by (auto simp: is_dec_def)

lemma int_str_dot_inj: "int_str a @ CHR ''.'' # x = int_str b @ CHR ''.'' # y \<longleftrightarrow> a = b \<and> x = y"
  by (simp add: append_separator_inj)

lemma rat_text_ok: "float_repr_ok rat_text"
  unfolding float_repr_ok_def
proof (intro conjI allI)
  show "inj rat_text"
  proof (rule injI)
    fix x y assume "rat_text x = rat_text y"
    then have "quotient_of x = quotient_of y"
      by (simp add: rat_text_def int_str_dot_inj prod_eq_iff)
    then show "x = y" by (metis quotient_of_inject)
  qed
  fix r
  show "rat_text r \<noteq> []" by (simp add: rat_text_def)
  show "is_dec (hd (rat_text r)) \<or> hd (rat_text r) = CHR ''-''"
    using is_dec_hd_int_str int_str_not_Nil by (simp add: rat_text_def)
  show "set (rat_text r) \<inter> {CHR '','', CHR '']'', CHR ''}''} = {}"
    using set_int_str by (fastforce simp: rat_text_def is_dec_def)
  show "\<exists>c \<in> set (rat_text r). \<not> is_dec c \<and> c \<noteq> CHR ''-''"
    by (rule bexI [of _ "CHR ''.''"]) (simp_all add: rat_text_def is_dec_def)
qed

definition toy_primitives :: primitives where
  "toy_primitives = \<lparr>sha256_hex = (\<lambda>x. hex_fixed 64 (length x)), hmac_sha256_hex = (\<lambda>k m. nat_str (length k + length m)),
     ed25519_public = (\<lambda>k. k), ed25519_sign = (\<lambda>k m. k @ m),
     ed25519_verify = (\<lambda>k s m. s = k @ m), float_repr = rat_text\<rparr>"

lemma ascii_nat_str [simp]: "ascii (nat_str n)"
  using is_dec_nat_str [of n] by (fastforce simp: ascii_def is_dec_def list_all_iff)

lemma is_sha256_hex_fixed [simp]: "is_sha256 (hex_fixed 64 n)"
proof -
  have digit: "in_class (hex_digit n) [(CHR ''a'', CHR ''f''), (CHR ''0'', CHR ''9'')]" if "n < 16" for n
    using that by (auto simp: in_class_def hex_digit_def)
  have "list_all (\<lambda>c. in_class c [(CHR ''a'', CHR ''f''), (CHR ''0'', CHR ''9'')]) (hex_fixed w n)" for w
    by (induction w arbitrary: n) (simp_all add: digit)
  then show ?thesis by (simp add: is_sha256_def)
qed

lemma toy_primitives_ok: "primitives_ok toy_primitives"
  by (simp add: primitives_ok_def toy_primitives_def rat_text_ok)

subsection \<open>Claims\<close>

text \<open>C22. The canonical bytes identify a JSON value up to its canonical form (key order and the sign of a
  float zero): two values that can be encoded have the same bytes exactly when their canonical forms
  are equal. So a digest commits to the canonical form up to a collision of SHA-256.\<close>

theorem canonical_bytes_commit:
  assumes "float_repr_ok fr"
    and "canonical_json_bytes fr v = Inr a" and "canonical_json_bytes fr w = Inr b"
  shows "a = b \<longleftrightarrow> canonical_form v = canonical_form w"
  using assms by (rule canonical_json_bytes_eq_iff)

theorem canonical_bytes_commit_witness:
  "canonical_json_bytes rat_text (JObj [(''b'', JFloat NegZero), (''a'', JNull)]) =
     canonical_json_bytes rat_text (JObj [(''a'', JNull), (''b'', JFloat (Fin 0))])
   \<and> canonical_json_bytes rat_text (JInt 0) \<noteq> canonical_json_bytes rat_text (JFloat (Fin 0))"
  using canonical_bytes_commit [OF rat_text_ok, of "JInt 0" _ "JFloat (Fin 0)"]
  by (simp add: canonical_json_bytes_def canonical_form_def)

text \<open>The order in which the members of an object were inserted does not change its bytes.\<close>

theorem canonical_bytes_key_order:
  assumes "distinct (map fst kvs)" and "mset kvs = mset kvs'"
  shows "canonical_json_bytes fr (JObj kvs) = canonical_json_bytes fr (JObj kvs')"
proof -
  let ?f = "\<lambda>(k, v). (k, sort_keys (normalize_json v))"
  have keys: "map fst (map ?f kvs) = map fst kvs" by (simp add: case_prod_unfold comp_def)
  have "distinct (map fst (map ?f kvs))" unfolding keys by (rule assms(1))
  then have "inj_on fst (set (map ?f kvs))" unfolding distinct_map by blast
  then have "sort_key fst (map ?f kvs) = sort_key fst (map ?f kvs')"
    using assms(2) by (intro sort_key_inj_key_eq) simp_all
  then show ?thesis
    by (simp add: canonical_json_bytes_def canonical_form_def comp_def case_prod_unfold)
qed

theorem canonical_bytes_key_order_witness:
  "canonical_json_bytes rat_text (JObj [(''b'', JInt 1), (''a'', JNull)]) =
   canonical_json_bytes rat_text (JObj [(''a'', JNull), (''b'', JInt 1)])"
  by (rule canonical_bytes_key_order) simp_all

text \<open>C21. A keyring that was constructed without error signs so that its own verification accepts: signing
  with a local key always succeeds, a remote signer's answer is checked, and in every case the
  signature verifies under the active algorithm and key id for the artifact it was made for.\<close>

theorem signatures_verify:
  assumes "primitives_ok P"
    and "artifact_keyring P hmac (Some key_id) algorithm private public remote = Inr k"
  shows "case keyring_sign P k typ artifact sha of
      Inl _ \<Rightarrow> remote \<noteq> None
    | Inr s \<Rightarrow> (case active_algorithm k of None \<Rightarrow> False
        | Some a \<Rightarrow> keyring_verify P k a key_id typ artifact sha s = Inr True)"
proof -
  have ok: "keyring_ok P k" "active_key_id k = Some key_id" "kr_remote_signer k = remote"
    using artifact_keyring_ok [OF assms(2)] by auto
  then obtain a where a: "active_algorithm k = Some a"
    by (auto simp: keyring_ok_def check_active_key_def split: if_splits)
  show ?thesis
  proof (cases "keyring_sign P k typ artifact sha")
    case (Inl e)
    then have "kr_remote_signer k \<noteq> None"
      using keyring_sign_local [OF ok(1,2), of "typ" artifact sha] by auto
    then show ?thesis using Inl ok(3) by simp
  next
    case (Inr s)
    then show ?thesis using keyring_sign_verify [OF ok(1) assms(1) ok(2) a Inr] a by simp
  qed
qed

lemma toy_keyring_made:
  "artifact_keyring toy_primitives [] (Some ''k1'') (Some ED25519) [(''k1'', replicate 32 CHR ''x'')] [] None =
     Inr \<lparr>hmac_keys = [], private_keys = [(''k1'', replicate 32 CHR ''x'')],
       public_keys = [(''k1'', replicate 32 CHR ''x'')], active_key_id = Some ''k1'',
       active_algorithm = Some ED25519, kr_remote_signer = None\<rparr>"
proof -
  have "fullmatch KEY_ID_PATTERN ''k1''"
    by (simp add: fullmatch_iff KEY_ID_PATTERN_def Let_def in_lang_up_to_Cls in_class_def)
  then have "guard_result (\<not> fullmatch KEY_ID_PATTERN ''k1'') e = Inr ()" for e by simp
  then show ?thesis
    by (simp add: artifact_keyring_def add_private_key_def check_active_key_def toy_primitives_def
        HMAC_SHA256_def ED25519_def Let_def del: fullmatch.simps)
qed

theorem signatures_verify_witness:
  "\<exists>k s. artifact_keyring toy_primitives [] (Some ''k1'') (Some ED25519) [(''k1'', replicate 32 CHR ''x'')] [] None = Inr k
     \<and> keyring_verify toy_primitives k ED25519 ''k1'' ''run'' 1 ''00'' s = Inr True"
  using signatures_verify [OF toy_primitives_ok toy_keyring_made, of "''run''" 1 "''00''"] toy_keyring_made
  by (auto split: sum.splits)

text \<open>A signature is bound to one artifact: the signed message determines the type, the id and the
  digest, for types without a colon.\<close>

theorem signature_message_binds:
  assumes "signature_message typ i sha = signature_message typ' i' sha'"
    and "CHR '':'' \<notin> set typ" "CHR '':'' \<notin> set typ'"
    and "ascii typ" "ascii typ'" "ascii sha" "ascii sha'"
  shows "typ = typ' \<and> i = i' \<and> sha = sha'"
proof -
  have uuid: "ascii (uuid_str u)" "length (uuid_str u) = 36" for u
  proof -
    have "ascii (hex_fixed w n)" for w n
      by (induction w arbitrary: n) (auto simp: ascii_def hex_digit_def)
    then have "ascii (take m (hex_fixed w n))" "ascii (drop m (hex_fixed w n))" for m w n
      unfolding ascii_def by (simp_all add: list_all_iff) (meson in_set_takeD in_set_dropD)+
    moreover from this have "ascii (take m (drop l (hex_fixed w n)))" for m l w n
      unfolding ascii_def list_all_iff by (meson in_set_takeD)
    ultimately show "ascii (uuid_str u)"
      unfolding uuid_str_def Let_def ascii_append by (simp add: ascii_def)
    show "length (uuid_str u) = 36" by (simp add: uuid_str_def Let_def)
  qed
  have "typ @ CHR '':'' # uuid_str i @ CHR '':'' # sha = typ' @ CHR '':'' # uuid_str i' @ CHR '':'' # sha'"
    using assms(1,4-7) uuid(1) by (simp add: signature_message_def ascii_def)
  then show ?thesis
    using assms(2,3) uuid(2) by (simp add: append_separator_inj append_eq_append_conv)
qed

theorem signature_message_binds_witness:
  "signature_message ''run'' 1 ''ab'' \<noteq> signature_message ''comparison'' 1 ''ab''"
  using signature_message_binds [of "''run''" 1 "''ab''" "''comparison''" 1 "''ab''"]
  by (auto simp: ascii_def)

end
