(* ===== verification/Tenants.thy ===== *)
theory Tenants
  imports Jobs Tenancy Integrity
begin

section \<open>Tenants and their API keys (\<open>tenants.py\<close>, \<open>store.py\<close>)\<close>

text \<open>
  The global tables of tenants and of API keys, which row-level security does not hide, and the
  operations of an operator on them. Creating a tenant also inserts the row of its quota, in the table
  the job queue reads. The clock of an operation is its argument \<open>now\<close>; a \<open>CHECK\<close> of a table fails
  before a unique index does.
\<close>

datatype tenant_status = Active | Suspended

datatype tenant_scope = Read_scope | Write_scope | Admin_scope

definition scope_str :: "tenant_scope \<Rightarrow> string" where
  "scope_str s = (case s of Read_scope \<Rightarrow> ''read'' | Write_scope \<Rightarrow> ''write'' | Admin_scope \<Rightarrow> ''admin'')"

record tenant_record =
  tr_tenant_id :: tenant
  tr_display_name :: string
  tr_status :: tenant_status
  tr_created_at :: instant
  tr_created_by :: string
  tr_updated_at :: instant
  tr_updated_by :: string

record api_key_row =
  ak_tenant_id :: tenant
  ak_key_id :: string
  ak_secret_sha256 :: sha256
  ak_scopes :: "tenant_scope list"
  ak_created_at :: instant
  ak_created_by :: string
  ak_revoked_at :: "instant option"
  ak_revoked_by :: "string option"

text \<open>What a record shows of a key: everything but the digest of its secret.\<close>

record tenant_api_key_record =
  kr_tenant_id :: tenant
  kr_key_id :: string
  kr_scopes :: "tenant_scope list"
  kr_created_at :: instant
  kr_created_by :: string
  kr_revoked_at :: "instant option"
  kr_revoked_by :: "string option"

record resolved_api_key =
  rk_tenant_id :: tenant
  rk_key_id :: string
  rk_scopes :: "tenant_scope list"

definition key_record :: "api_key_row \<Rightarrow> tenant_api_key_record" where
  "key_record k =
     \<lparr>kr_tenant_id = ak_tenant_id k, kr_key_id = ak_key_id k, kr_scopes = ak_scopes k,
      kr_created_at = ak_created_at k, kr_created_by = ak_created_by k,
      kr_revoked_at = ak_revoked_at k, kr_revoked_by = ak_revoked_by k\<rparr>"

record control_db = job_db +
  cp_tenants :: "tenant_record list"
  cp_keys :: "api_key_row list"

text \<open>\<open>^[A-Za-z0-9][A-Za-z0-9._-]{0,63}$\<close>\<close>

definition API_KEY_ID_PATTERN :: regex where
  "API_KEY_ID_PATTERN =
     (let alnum = [(CHR ''A'', CHR ''Z''), (CHR ''a'', CHR ''z''), (CHR ''0'', CHR ''9'')]
      in Seq (Cls alnum)
           (up_to 63 (Cls (alnum @ one_char CHR ''.'' @ one_char CHR ''_'' @ one_char CHR ''-''))))"

subsection \<open>Inserts with their constraints\<close>

definition find_tenant :: "tenant \<Rightarrow> control_db \<Rightarrow> tenant_record option" where
  "find_tenant t db = find (\<lambda>r. tr_tenant_id r = t) (cp_tenants db)"

definition insert_tenant :: "tenant_record \<Rightarrow> control_db \<Rightarrow> control_db result" where
  "insert_tenant r db =
     (if \<not> fullmatch TENANT_ID_PATTERN (tr_tenant_id r)
         \<or> \<not> (1 \<le> length (tr_display_name r) \<and> length (tr_display_name r) \<le> 200)
      then Inl (CheckViolation ''control_plane_tenants'')
      else if tr_tenant_id r \<in> set (map tr_tenant_id (cp_tenants db))
      then Inl (UniqueViolation ''control_plane_tenants_pkey'')
      else Inr (db\<lparr>cp_tenants := cp_tenants db @ [r]\<rparr>))"

definition insert_key :: "api_key_row \<Rightarrow> control_db \<Rightarrow> control_db result" where
  "insert_key k db =
     (if \<not> fullmatch API_KEY_ID_PATTERN (ak_key_id k) \<or> \<not> is_sha256 (ak_secret_sha256 k) \<or> ak_scopes k = []
      then Inl (CheckViolation ''tenant_api_keys'')
      else if (ak_tenant_id k, ak_key_id k) \<in> set (map (\<lambda>x. (ak_tenant_id x, ak_key_id x)) (cp_keys db))
      then Inl (UniqueViolation ''tenant_api_keys_pkey'')
      else if ak_secret_sha256 k \<in> set (map ak_secret_sha256 (cp_keys db))
      then Inl (UniqueViolation ''tenant_api_keys_secret_sha256_key'')
      else if ak_tenant_id k \<notin> set (map tr_tenant_id (cp_tenants db))
      then Inl (ForeignKeyViolation ''tenant_api_keys_tenant_id_fkey'')
      else Inr (db\<lparr>cp_keys := cp_keys db @ [k]\<rparr>))"

definition insert_default_quota :: "instant \<Rightarrow> string \<Rightarrow> tenant \<Rightarrow> control_db \<Rightarrow> control_db result" where
  "insert_default_quota now by_whom t db =
     (if map_of (db_quotas db) t \<noteq> None then Inl (UniqueViolation ''tenant_quotas_pkey'')
      else Inr (db\<lparr>db_quotas := dict_set t
        \<lparr>max_queued_jobs = None, max_jobs_per_hour = None, max_running_jobs = None,
         max_running_cuda_jobs = None, qr_tenant_id = t, qr_updated_at = now, qr_updated_by = by_whom\<rparr>
        (db_quotas db)\<rparr>))"

text \<open>\<open>except UniqueViolation as error: raise TenantConflictError\<close>\<close>

definition unique_conflict :: "'a result \<Rightarrow> 'a result" where
  "unique_conflict m = (case m of Inl (UniqueViolation c) \<Rightarrow> Inl TenantConflictError | _ \<Rightarrow> m)"

definition new_key ::
  "instant \<Rightarrow> tenant \<Rightarrow> string \<Rightarrow> sha256 \<Rightarrow> tenant_scope list \<Rightarrow> string \<Rightarrow> api_key_row" where
  "new_key now t key_id secret_sha256 scopes created_by =
     \<lparr>ak_tenant_id = t, ak_key_id = key_id, ak_secret_sha256 = secret_sha256, ak_scopes = scopes,
      ak_created_at = now, ak_created_by = created_by, ak_revoked_at = None, ak_revoked_by = None\<rparr>"

subsection \<open>Operations\<close>

definition create_tenant ::
  "instant \<Rightarrow> tenant \<Rightarrow> string \<Rightarrow> string \<Rightarrow> sha256 \<Rightarrow> string \<Rightarrow> control_db
     \<Rightarrow> (control_db \<times> tenant_record \<times> tenant_api_key_record) result" where
  "create_tenant now t display_name key_id secret_sha256 created_by db =
     (let r = \<lparr>tr_tenant_id = t, tr_display_name = display_name, tr_status = Active, tr_created_at = now,
               tr_created_by = created_by, tr_updated_at = now, tr_updated_by = created_by\<rparr>;
          k = new_key now t key_id secret_sha256 [Admin_scope] created_by
      in bind_result (unique_conflict
           (bind_result (insert_tenant r db) (\<lambda>db.
            bind_result (insert_key k db)
              (insert_default_quota now created_by t))))
           (\<lambda>db'. Inr (db', r, key_record k)))"

definition list_tenants :: "control_db \<Rightarrow> tenant_record list" where
  "list_tenants db = sort_key tr_tenant_id (cp_tenants db)"

definition get_tenant :: "tenant \<Rightarrow> control_db \<Rightarrow> tenant_record result" where
  "get_tenant t db = (case find_tenant t db of None \<Rightarrow> Inl (KeyError t) | Some r \<Rightarrow> Inr r)"

definition set_tenant_status ::
  "instant \<Rightarrow> tenant \<Rightarrow> tenant_status \<Rightarrow> string \<Rightarrow> control_db \<Rightarrow> (control_db \<times> tenant_record) result" where
  "set_tenant_status now t status updated_by db =
     (let f = (\<lambda>r. r\<lparr>tr_status := status, tr_updated_at := now, tr_updated_by := updated_by\<rparr>)
      in case find_tenant t db of
           None \<Rightarrow> Inl (KeyError t)
         | Some r \<Rightarrow>
             Inr (db\<lparr>cp_tenants := map (\<lambda>r. if tr_tenant_id r = t then f r else r) (cp_tenants db)\<rparr>, f r))"

definition tenant_access_allowed :: "tenant \<Rightarrow> control_db \<Rightarrow> bool" where
  "tenant_access_allowed t db =
     (case find_tenant t db of None \<Rightarrow> True | Some r \<Rightarrow> tr_status r = Active)"

definition resolve_tenant_api_key :: "sha256 \<Rightarrow> control_db \<Rightarrow> resolved_api_key option" where
  "resolve_tenant_api_key secret_sha256 db =
     map_option (\<lambda>k. \<lparr>rk_tenant_id = ak_tenant_id k, rk_key_id = ak_key_id k, rk_scopes = ak_scopes k\<rparr>)
       (find (\<lambda>k. ak_secret_sha256 k = secret_sha256 \<and> ak_revoked_at k = None
          \<and> (case find_tenant (ak_tenant_id k) db of None \<Rightarrow> False | Some r \<Rightarrow> tr_status r = Active))
        (cp_keys db))"

definition issue_tenant_api_key ::
  "instant \<Rightarrow> tenant \<Rightarrow> string \<Rightarrow> sha256 \<Rightarrow> tenant_scope list \<Rightarrow> string \<Rightarrow> control_db
     \<Rightarrow> (control_db \<times> tenant_api_key_record) result" where
  "issue_tenant_api_key now t key_id secret_sha256 scopes created_by db =
     (case find_tenant t db of
        None \<Rightarrow> Inl (KeyError t)
      | Some r \<Rightarrow>
          if tr_status r \<noteq> Active then Inl TenantSuspendedError
          else
            let k = new_key now t key_id secret_sha256 (sort_key scope_str (remdups scopes)) created_by
            in bind_result (unique_conflict (insert_key k db)) (\<lambda>db'. Inr (db', key_record k)))"

definition list_tenant_api_keys :: "tenant \<Rightarrow> control_db \<Rightarrow> tenant_api_key_record list result" where
  "list_tenant_api_keys t db =
     (if find_tenant t db = None then Inl (KeyError t)
      else Inr (map key_record (sort_key (\<lambda>k. (ak_created_at k, ak_key_id k))
             (filter (\<lambda>k. ak_tenant_id k = t) (cp_keys db)))))"

definition active_admin :: "tenant \<Rightarrow> api_key_row \<Rightarrow> bool" where
  "active_admin t k \<longleftrightarrow> ak_tenant_id k = t \<and> ak_revoked_at k = None \<and> Admin_scope \<in> set (ak_scopes k)"

definition revoke_tenant_api_key ::
  "instant \<Rightarrow> tenant \<Rightarrow> string \<Rightarrow> string \<Rightarrow> control_db \<Rightarrow> (control_db \<times> tenant_api_key_record) result" where
  "revoke_tenant_api_key now t key_id revoked_by db =
     (let p = (\<lambda>k. ak_tenant_id k = t \<and> ak_key_id k = key_id);
          f = (\<lambda>k. k\<lparr>ak_revoked_at := Some now, ak_revoked_by := Some revoked_by\<rparr>)
      in if find_tenant t db = None then Inl (KeyError t)
         else
           (case find p (cp_keys db) of
              None \<Rightarrow> Inl (KeyError key_id)
            | Some k \<Rightarrow>
                if ak_revoked_at k \<noteq> None then Inr (db, key_record k)
                else if Admin_scope \<in> set (ak_scopes k) \<and> count_if (active_admin t) (cp_keys db) \<le> 1
                then Inl LastTenantAdminError
                else Inr (db\<lparr>cp_keys := map (\<lambda>x. if p x then f x else x) (cp_keys db)\<rparr>, key_record (f k))))"

end
