(* ===== verification/Tenant_Properties.thy ===== *)
theory Tenant_Properties
  imports Tenants
begin

section \<open>What the tenant registry guarantees\<close>

text \<open>
  Sequences of operator requests on the registry; a request that raises leaves it as it was. The
  invariant says that ids and secrets are unique, that every tenant has a quota row and an
  administrator, and that keys are well formed.
\<close>

datatype control_event =
    Create_tenant instant tenant string string sha256 string
  | Set_status instant tenant tenant_status string
  | Issue_key instant tenant string sha256 "tenant_scope list" string
  | Revoke_key instant tenant string string

fun control_op :: "control_event \<Rightarrow> control_db \<Rightarrow> control_db result" where
  "control_op (Create_tenant now t name key_id secret by_whom) db =
     bind_result (create_tenant now t name key_id secret by_whom db) (\<lambda>r. Inr (fst r))"
| "control_op (Set_status now t status by_whom) db =
     bind_result (set_tenant_status now t status by_whom db) (\<lambda>r. Inr (fst r))"
| "control_op (Issue_key now t key_id secret scopes by_whom) db =
     bind_result (issue_tenant_api_key now t key_id secret scopes by_whom db) (\<lambda>r. Inr (fst r))"
| "control_op (Revoke_key now t key_id by_whom) db =
     bind_result (revoke_tenant_api_key now t key_id by_whom db) (\<lambda>r. Inr (fst r))"

definition control_step :: "control_event \<Rightarrow> control_db \<Rightarrow> control_db" where
  "control_step e db = (case control_op e db of Inl _ \<Rightarrow> db | Inr db' \<Rightarrow> db')"

definition control_db0 :: control_db where
  "control_db0 = \<lparr>db_jobs = [], db_workers = [], db_quotas = [], db_runs = [], cp_tenants = [], cp_keys = []\<rparr>"

definition key_name :: "api_key_row \<Rightarrow> tenant \<times> string" where
  "key_name k = (ak_tenant_id k, ak_key_id k)"

definition key_row_ok :: "control_db \<Rightarrow> api_key_row \<Rightarrow> bool" where
  "key_row_ok db k \<longleftrightarrow> ak_tenant_id k \<in> set (map tr_tenant_id (cp_tenants db)) \<and> is_sha256 (ak_secret_sha256 k)
     \<and> fullmatch API_KEY_ID_PATTERN (ak_key_id k) \<and> ak_scopes k \<noteq> []
     \<and> (ak_revoked_at k = None \<longleftrightarrow> ak_revoked_by k = None)"

definition tenant_ok :: "control_db \<Rightarrow> tenant \<Rightarrow> bool" where
  "tenant_ok db t \<longleftrightarrow> fullmatch TENANT_ID_PATTERN t \<and> map_of (db_quotas db) t \<noteq> None
     \<and> list_ex (active_admin t) (cp_keys db)"

definition registry_ok :: "control_db \<Rightarrow> bool" where
  "registry_ok db \<longleftrightarrow> distinct (map tr_tenant_id (cp_tenants db)) \<and> distinct (map key_name (cp_keys db))
     \<and> distinct (map ak_secret_sha256 (cp_keys db))
     \<and> list_all (key_row_ok db) (cp_keys db) \<and> list_all (tenant_ok db) (map tr_tenant_id (cp_tenants db))"

subsection \<open>Operations keep it\<close>

lemma find_tenant_Some: "find_tenant t db = Some r \<Longrightarrow> r \<in> set (cp_tenants db) \<and> tr_tenant_id r = t"
  by (auto simp: find_tenant_def dest: find_SomeD)

lemma unique_conflict_Inr [simp]: "unique_conflict m = Inr x \<longleftrightarrow> m = Inr x"
  by (auto simp: unique_conflict_def split: sum.splits exn.splits)

lemma insert_key_Inr:
  "insert_key k db = Inr db' \<longleftrightarrow> db' = db\<lparr>cp_keys := cp_keys db @ [k]\<rparr> \<and> fullmatch API_KEY_ID_PATTERN (ak_key_id k)
     \<and> is_sha256 (ak_secret_sha256 k) \<and> ak_scopes k \<noteq> [] \<and> key_name k \<notin> set (map key_name (cp_keys db))
     \<and> ak_secret_sha256 k \<notin> set (map ak_secret_sha256 (cp_keys db))
     \<and> ak_tenant_id k \<in> set (map tr_tenant_id (cp_tenants db))"
  by (auto simp: insert_key_def key_name_def)

lemma new_key_fields [simp]:
  "ak_tenant_id (new_key now t i s sc u) = t" "ak_key_id (new_key now t i s sc u) = i"
  "ak_secret_sha256 (new_key now t i s sc u) = s" "ak_scopes (new_key now t i s sc u) = sc"
  "ak_revoked_at (new_key now t i s sc u) = None" "ak_revoked_by (new_key now t i s sc u) = None"
  by (simp_all add: new_key_def)

lemma create_tenant_ok:
  assumes "create_tenant now t name key_id secret by_whom db = Inr (db', rec)" "registry_ok db"
  shows "registry_ok db'"
  using assms
  by (auto simp: create_tenant_def Let_def insert_tenant_def insert_key_Inr insert_default_quota_def registry_ok_def
      list_all_iff list_ex_iff key_row_ok_def tenant_ok_def active_admin_def simp del: fullmatch.simps
      split: if_splits)

lemma issue_key_ok:
  assumes "issue_tenant_api_key now t key_id secret scopes by_whom db = Inr (db', rec)" "registry_ok db"
  shows "registry_ok db'"
  using assms
  by (auto simp: issue_tenant_api_key_def Let_def insert_key_Inr registry_ok_def
      list_all_iff list_ex_iff key_row_ok_def tenant_ok_def active_admin_def simp del: fullmatch.simps
      split: if_splits option.splits)

lemma set_status_ok:
  assumes "set_tenant_status now t status by_whom db = Inr (db', rec)" "registry_ok db"
  shows "registry_ok db'"
proof -
  let ?f = "\<lambda>r. if tr_tenant_id r = t then r\<lparr>tr_status := status, tr_updated_at := now, tr_updated_by := by_whom\<rparr> else r"
  have db': "db' = db\<lparr>cp_tenants := map ?f (cp_tenants db)\<rparr>"
    using assms(1) by (auto simp: set_tenant_status_def Let_def split: option.splits)
  have "map tr_tenant_id (map ?f rs) = map tr_tenant_id rs" for rs by (induction rs) simp_all
  then have ids: "map tr_tenant_id (cp_tenants db') = map tr_tenant_id (cp_tenants db)"
    and keys: "cp_keys db' = cp_keys db" "db_quotas db' = db_quotas db" by (simp_all add: db')
  have "key_row_ok db' = key_row_ok db" "tenant_ok db' = tenant_ok db"
    unfolding key_row_ok_def tenant_ok_def ids keys by (rule refl)+
  then show ?thesis using assms(2) unfolding registry_ok_def ids keys by simp
qed

lemma another_match:
  assumes "distinct xs" "1 < count_if p xs"
  shows "\<exists>x \<in> set xs. p x \<and> x \<noteq> y"
proof (rule ccontr)
  assume "\<not> ?thesis"
  then have "set (filter p xs) \<subseteq> {y}" by auto
  then have "card (set (filter p xs)) \<le> card {y}" by (rule card_mono [rotated]) simp
  then have "length (filter p xs) \<le> 1" using assms(1) by (simp add: distinct_card [symmetric])
  then show False using assms(2) by (simp add: count_if_def)
qed

lemma revoke_Inr:
  assumes "revoke_tenant_api_key now t key_id by_whom db = Inr (db', rec)"
  shows "db' = db \<or> (\<exists>k. find (\<lambda>k. ak_tenant_id k = t \<and> ak_key_id k = key_id) (cp_keys db) = Some k
    \<and> ak_revoked_at k = None \<and> (Admin_scope \<notin> set (ak_scopes k) \<or> 1 < count_if (active_admin t) (cp_keys db))
    \<and> db' = db\<lparr>cp_keys := map (\<lambda>x. if key_name x = (t, key_id)
        then x\<lparr>ak_revoked_at := Some now, ak_revoked_by := Some by_whom\<rparr> else x) (cp_keys db)\<rparr>)"
  using assms
  by (auto simp: revoke_tenant_api_key_def Let_def key_name_def split: option.splits if_splits)

lemma revoke_ok:
  assumes "revoke_tenant_api_key now t key_id by_whom db = Inr (db', rec)" and ok: "registry_ok db"
  shows "registry_ok db'"
  using revoke_Inr [OF assms(1)]
proof
  assume "\<exists>k. find (\<lambda>k. ak_tenant_id k = t \<and> ak_key_id k = key_id) (cp_keys db) = Some k
    \<and> ak_revoked_at k = None \<and> (Admin_scope \<notin> set (ak_scopes k) \<or> 1 < count_if (active_admin t) (cp_keys db))
    \<and> db' = db\<lparr>cp_keys := map (\<lambda>x. if key_name x = (t, key_id)
        then x\<lparr>ak_revoked_at := Some now, ak_revoked_by := Some by_whom\<rparr> else x) (cp_keys db)\<rparr>"
  then obtain k where k: "k \<in> set (cp_keys db)" "key_name k = (t, key_id)"
    "Admin_scope \<notin> set (ak_scopes k) \<or> 1 < count_if (active_admin t) (cp_keys db)"
    and db': "db' = db\<lparr>cp_keys := map (\<lambda>x. if key_name x = (t, key_id)
        then x\<lparr>ak_revoked_at := Some now, ak_revoked_by := Some by_whom\<rparr> else x) (cp_keys db)\<rparr>"
    by (auto simp: key_name_def dest!: find_SomeD)
  let ?g = "\<lambda>x. if key_name x = (t, key_id) then x\<lparr>ak_revoked_at := Some now, ak_revoked_by := Some by_whom\<rparr> else x"
  have g: "key_name (?g x) = key_name x" "ak_secret_sha256 (?g x) = ak_secret_sha256 x" for x
    by (simp_all add: key_name_def)
  have maps: "map key_name (map ?g ks) = map key_name ks" "map ak_secret_sha256 (map ?g ks) = map ak_secret_sha256 ks"
    for ks by (induction ks) (simp_all add: g)
  have fields: "cp_keys db' = map ?g (cp_keys db)" "cp_tenants db' = cp_tenants db" "db_quotas db' = db_quotas db"
    by (simp_all add: db')
  have row: "key_row_ok db' (?g x)" if "key_row_ok db x" for x
    using that by (simp add: key_row_ok_def fields del: fullmatch.simps)
  have rows: "list_all (key_row_ok db') (cp_keys db')"
    unfolding fields(1) list_all_iff set_map
  proof (intro ballI, elim imageE)
    fix x y
    assume "x = ?g y" "y \<in> set (cp_keys db)"
    then show "key_row_ok db' x" using row [of y] ok by (simp add: registry_ok_def list_all_iff)
  qed
  have other: "\<exists>x \<in> set (cp_keys db). active_admin u x \<and> key_name x \<noteq> (t, key_id)"
    if "list_ex (active_admin u) (cp_keys db)" for u
  proof -
    have unique: "x = k" if "x \<in> set (cp_keys db)" "key_name x = (t, key_id)" for x
      using ok k(1,2) that by (auto simp: registry_ok_def distinct_map inj_on_def)
    show ?thesis
    proof (cases "Admin_scope \<notin> set (ak_scopes k) \<or> u \<noteq> t")
      case True
      then show ?thesis using that unique k(2) by (auto simp: list_ex_iff active_admin_def key_name_def)
    next
      case False
      then have "1 < count_if (active_admin u) (cp_keys db)" using k(3) by simp
      then show ?thesis
        using another_match [of "cp_keys db" "active_admin u" k] unique ok
        by (auto simp: registry_ok_def distinct_map)
    qed
  qed
  have "list_ex (active_admin u) (cp_keys db')" if "list_ex (active_admin u) (cp_keys db)" for u
    using other [OF that] by (auto simp: fields list_ex_iff)
  then have "list_all (tenant_ok db') (map tr_tenant_id (cp_tenants db'))"
    using ok unfolding registry_ok_def tenant_ok_def fields(2,3) list_all_iff by blast
  then show ?thesis
    using ok rows unfolding registry_ok_def fields maps by simp
qed (use ok in simp)

lemma control_step_ok: "registry_ok db \<Longrightarrow> registry_ok (control_step e db)"
  using create_tenant_ok issue_key_ok set_status_ok revoke_ok
  by (cases e) (auto simp: control_step_def split: sum.splits)

lemma control_run_ok: "registry_ok db \<Longrightarrow> registry_ok (fold control_step es db)"
  by (induction es arbitrary: db) (simp_all add: control_step_ok)

lemma control_db0_ok: "registry_ok control_db0"
  by (simp add: registry_ok_def control_db0_def)

subsection \<open>Revoked keys\<close>

lemma revoked_stays:
  assumes "k \<in> set (cp_keys db)" "ak_revoked_at k \<noteq> None" and ok: "registry_ok db"
  shows "k \<in> set (cp_keys (control_step e db))"
proof (cases e)
  case (Revoke_key now t key_id by_whom)
  show ?thesis
  proof (cases "revoke_tenant_api_key now t key_id by_whom db")
    case (Inr r)
    have "x = k" if "x \<in> set (cp_keys db)" "key_name x = key_name k" for x
      using ok assms(1) that by (auto simp: registry_ok_def distinct_map inj_on_def)
    then have "k \<in> set (cp_keys (fst r))"
      using revoke_Inr [of now t key_id by_whom db "fst r" "snd r"] Inr assms(1,2)
      by (auto simp: key_name_def image_iff dest!: find_SomeD)
    then show ?thesis by (simp add: control_step_def Revoke_key Inr)
  qed (simp add: control_step_def Revoke_key assms(1))
next
  case (Create_tenant now t name key_id secret by_whom)
  then show ?thesis
    using assms(1)
    by (auto simp: control_step_def create_tenant_def Let_def insert_tenant_def insert_key_Inr
        insert_default_quota_def simp del: fullmatch.simps split: sum.splits if_splits)
next
  case (Issue_key now t key_id secret scopes by_whom)
  then show ?thesis
    using assms(1)
    by (auto simp: control_step_def issue_tenant_api_key_def Let_def insert_key_Inr simp del: fullmatch.simps
        split: sum.splits if_splits option.splits)
next
  case (Set_status now t status by_whom)
  then show ?thesis
    using assms(1)
    by (auto simp: control_step_def set_tenant_status_def Let_def split: sum.splits option.splits)
qed

lemma revoked_stays_run:
  "k \<in> set (cp_keys db) \<Longrightarrow> ak_revoked_at k \<noteq> None \<Longrightarrow> registry_ok db \<Longrightarrow>
     k \<in> set (cp_keys (fold control_step es db))"
  by (induction es arbitrary: db) (simp_all add: revoked_stays control_step_ok)

lemma resolve_unique:
  assumes "registry_ok db" "k \<in> set (cp_keys db)"
  shows "resolve_tenant_api_key (ak_secret_sha256 k) db =
    (if ak_revoked_at k = None \<and> tenant_access_allowed (ak_tenant_id k) db
     then Some \<lparr>rk_tenant_id = ak_tenant_id k, rk_key_id = ak_key_id k, rk_scopes = ak_scopes k\<rparr> else None)"
proof -
  let ?p = "\<lambda>x. ak_secret_sha256 x = ak_secret_sha256 k \<and> ak_revoked_at x = None
    \<and> (case find_tenant (ak_tenant_id x) db of None \<Rightarrow> False | Some r \<Rightarrow> tr_status r = Active)"
  have "ak_tenant_id k \<in> set (map tr_tenant_id (cp_tenants db))"
    using assms by (auto simp: registry_ok_def list_all_iff key_row_ok_def)
  then have "find_tenant (ak_tenant_id k) db \<noteq> None"
    by (auto simp: find_tenant_def find_None_iff)
  then have p: "?p k \<longleftrightarrow> ak_revoked_at k = None \<and> tenant_access_allowed (ak_tenant_id k) db"
    by (auto simp: tenant_access_allowed_def split: option.splits)
  have secrets: "distinct (map ak_secret_sha256 (cp_keys db))" using assms(1) by (simp add: registry_ok_def)
  have "find ?p (cp_keys db) = (if ?p k then Some k else None)"
  proof (cases "?p k")
    case True
    then show ?thesis using find_unique [OF secrets assms(2), of ?p] by auto
  next
    case False
    have "\<not> ?p x" if "x \<in> set (cp_keys db)" for x
      using that secrets assms(2) False by (auto simp: distinct_map inj_on_def)
    then have "find ?p (cp_keys db) = None" by (simp add: find_None_iff)
    then show ?thesis unfolding if_not_P [OF False] .
  qed
  then show ?thesis unfolding resolve_tenant_api_key_def p by simp
qed

subsection \<open>Claims\<close>

text \<open>After any sequence of operator requests the tenant ids, the names of each tenant's keys and the
  digests of the secrets are unique, every key belongs to a tenant, and every tenant has a quota row
  and at least one administrator key that is not revoked.\<close>

theorem tenant_registry_invariant:
  "let db = fold control_step es control_db0 in
     distinct (map tr_tenant_id (cp_tenants db)) \<and> distinct (map key_name (cp_keys db))
     \<and> distinct (map ak_secret_sha256 (cp_keys db))
     \<and> list_all (\<lambda>k. ak_tenant_id k \<in> set (map tr_tenant_id (cp_tenants db))) (cp_keys db)
     \<and> list_all (\<lambda>t. map_of (db_quotas db) t \<noteq> None \<and> list_ex (active_admin t) (cp_keys db))
         (map tr_tenant_id (cp_tenants db))"
  using control_run_ok [OF control_db0_ok, of es]
  unfolding registry_ok_def tenant_ok_def key_row_ok_def Let_def list_all_iff by blast

text \<open>A key of the registry authenticates exactly while it is not revoked and its tenant is active; and
  once it is revoked its secret never authenticates again, whatever operators do.\<close>

theorem revoked_key_never_resolves:
  assumes "k \<in> set (cp_keys (fold control_step es control_db0))"
  shows "resolve_tenant_api_key (ak_secret_sha256 k) (fold control_step es control_db0) =
      (if ak_revoked_at k = None \<and> tenant_access_allowed (ak_tenant_id k) (fold control_step es control_db0)
       then Some \<lparr>rk_tenant_id = ak_tenant_id k, rk_key_id = ak_key_id k, rk_scopes = ak_scopes k\<rparr> else None)
    \<and> (ak_revoked_at k = None
       \<or> resolve_tenant_api_key (ak_secret_sha256 k) (fold control_step (es @ es') control_db0) = None)"
proof
  let ?db = "fold control_step es control_db0"
  have ok: "registry_ok ?db" using control_run_ok [OF control_db0_ok] .
  show "resolve_tenant_api_key (ak_secret_sha256 k) ?db =
      (if ak_revoked_at k = None \<and> tenant_access_allowed (ak_tenant_id k) ?db
       then Some \<lparr>rk_tenant_id = ak_tenant_id k, rk_key_id = ak_key_id k, rk_scopes = ak_scopes k\<rparr> else None)"
    using resolve_unique [OF ok assms] .
  show "ak_revoked_at k = None \<or> resolve_tenant_api_key (ak_secret_sha256 k) (fold control_step (es @ es') control_db0) = None"
  proof (cases "ak_revoked_at k")
    case (Some r)
    then have "k \<in> set (cp_keys (fold control_step es' ?db))" using revoked_stays_run [OF assms _ ok] by simp
    then show ?thesis using resolve_unique [OF control_run_ok [OF ok]] Some by simp
  qed simp
qed

definition ex_secret :: "nat \<Rightarrow> sha256" where
  "ex_secret n = hex_fixed 64 n"

definition ex_requests :: "control_event list" where
  "ex_requests = [Create_tenant 10 ''acme'' ''Acme'' ''root'' (ex_secret 1) ''op'',
     Issue_key 20 ''acme'' ''ci'' (ex_secret 2) [Write_scope] ''op'', Revoke_key 30 ''acme'' ''ci'' ''op'']"

lemma ex_patterns:
  "fullmatch TENANT_ID_PATTERN ''acme''" "fullmatch API_KEY_ID_PATTERN ''root''" "fullmatch API_KEY_ID_PATTERN ''ci''"
  unfolding fullmatch_tenant_id
  by (simp_all add: tenant_char_def in_class_def fullmatch_iff API_KEY_ID_PATTERN_def Let_def in_lang_up_to_Cls)

lemma ex_secrets: "ex_secret 1 \<noteq> ex_secret 2" "is_sha256 (ex_secret n)"
  using hex_fixed_inj [of 1 64 2] by (auto simp: ex_secret_def)

definition ex_revoked :: api_key_row where
  "ex_revoked = (new_key 20 ''acme'' ''ci'' (ex_secret 2) [Write_scope] ''op'')
     \<lparr>ak_revoked_at := Some 30, ak_revoked_by := Some ''op''\<rparr>"

lemma ex_registry: "ex_revoked \<in> set (cp_keys (fold control_step ex_requests control_db0))"
  using ex_patterns ex_secrets
  by (simp add: ex_requests_def control_step_def create_tenant_def insert_tenant_def insert_key_def
      insert_default_quota_def control_db0_def issue_tenant_api_key_def find_tenant_def revoke_tenant_api_key_def
      ex_revoked_def Let_def unique_conflict_def scope_str_def new_key_def
      del: fullmatch.simps)

theorem revoked_key_never_resolves_witness:
  "resolve_tenant_api_key (ex_secret 2)
     (fold control_step (ex_requests @ [Set_status 40 ''acme'' Active ''op'']) control_db0) = None"
  using revoked_key_never_resolves [OF ex_registry, of "[Set_status 40 ''acme'' Active ''op'']"]
  by (simp add: ex_revoked_def)

end
