(* ===== verification/Url.thy ===== *)
theory Url
  imports Py_Regex
begin

section \<open>URLs (\<open>urllib.parse\<close>)\<close>

text \<open>
  \<open>urlsplit\<close> and \<open>urlparse\<close> on code points below 256, with the attributes the configurations of the
  program read. \<open>ip_ok\<close> says whether the text between brackets is an address literal that
  \<open>urlsplit\<close> accepts there.
\<close>

record url_parts =
  up_scheme :: string
  up_netloc :: string
  up_path :: string
  up_query :: string
  up_fragment :: string

definition is_letter :: "char \<Rightarrow> bool" where
  "is_letter c \<longleftrightarrow> (let n = of_char c :: nat in 65 \<le> n \<and> n \<le> 90 \<or> 97 \<le> n \<and> n \<le> 122)"

definition is_digit :: "char \<Rightarrow> bool" where
  "is_digit c \<longleftrightarrow> (let n = of_char c :: nat in 48 \<le> n \<and> n \<le> 57)"

definition scheme_char :: "char \<Rightarrow> bool" where
  "scheme_char c \<longleftrightarrow> is_letter c \<or> is_digit c \<or> c \<in> {CHR ''+'', CHR ''-'', CHR ''.''}"

text \<open>Leading control characters and spaces go, tabs and line ends go everywhere.\<close>

definition clean_url :: "string \<Rightarrow> string" where
  "clean_url s =
     filter (\<lambda>c. (of_char c :: nat) \<notin> {9, 10, 13}) (dropWhile (\<lambda>c. (of_char c :: nat) \<le> 32) s)"

definition split_scheme :: "string \<Rightarrow> string \<times> string" where
  "split_scheme url =
     (case partition_at CHR '':'' url of (before, found, after) \<Rightarrow>
        if found \<and> before \<noteq> [] \<and> is_letter (hd before) \<and> list_all scheme_char before
        then (lower before, after) else ([], url))"

definition split_netloc :: "string \<Rightarrow> string \<times> string" where
  "split_netloc url =
     (if take 2 url = ''//''
      then (let ends = (\<lambda>c. c \<in> {CHR ''/'', CHR ''?'', CHR ''#''}); rest = drop 2 url
            in (takeWhile (\<lambda>c. \<not> ends c) rest, dropWhile (\<lambda>c. \<not> ends c) rest))
      else ([], url))"

definition netloc_ok :: "(string \<Rightarrow> bool) \<Rightarrow> string \<Rightarrow> bool" where
  "netloc_ok ip_ok netloc \<longleftrightarrow>
     (CHR ''['' \<in> set netloc \<longleftrightarrow> CHR '']'' \<in> set netloc) \<and>
     (CHR ''['' \<in> set netloc \<longrightarrow>
        (case rpartition_at CHR ''@'' netloc of (_, _, hostinfo) \<Rightarrow>
         (case partition_at CHR ''['' hostinfo of (before, opened, bracketed) \<Rightarrow>
            if opened
            then before = [] \<and>
              (case partition_at CHR '']'' bracketed of (host, _, port) \<Rightarrow>
                 (port = [] \<or> hd port = CHR '':'') \<and> ip_ok host)
            else ip_ok (fst (partition_at CHR '':'' hostinfo)))))"

definition urlsplit :: "(string \<Rightarrow> bool) \<Rightarrow> string \<Rightarrow> url_parts result" where
  "urlsplit ip_ok text =
     (case split_scheme (clean_url text) of (scheme, url) \<Rightarrow>
      case split_netloc url of (netloc, url) \<Rightarrow>
        if \<not> netloc_ok ip_ok netloc then Inl (ValueError ''Invalid IPv6 URL'')
        else
          (case partition_at CHR ''#'' url of (url, _, fragment) \<Rightarrow>
           case partition_at CHR ''?'' url of (path, _, query) \<Rightarrow>
             Inr \<lparr>up_scheme = scheme, up_netloc = netloc, up_path = path, up_query = query,
                  up_fragment = fragment\<rparr>))"

text \<open>\<open>urlparse\<close> also cuts the parameters off the last segment of the path, for the schemes that have them.\<close>

definition split_params :: "string \<Rightarrow> string" where
  "split_params path =
     (case rpartition_at CHR ''/'' path of (before, found, segment) \<Rightarrow>
        (if found then before @ ''/'' else []) @ fst (partition_at CHR '';'' segment))"

definition USES_PARAMS :: "string list" where
  "USES_PARAMS = [[], ''ftp'', ''hdl'', ''prospero'', ''http'', ''https'', ''shttp'', ''rtsp'', ''rtsps'',
     ''rtspu'', ''sip'', ''sips'', ''mms'', ''sftp'', ''tel'']"

definition urlparse :: "(string \<Rightarrow> bool) \<Rightarrow> string \<Rightarrow> url_parts result" where
  "urlparse ip_ok text =
     bind_result (urlsplit ip_ok text) (\<lambda>u.
       Inr (if up_scheme u \<in> set USES_PARAMS then u\<lparr>up_path := split_params (up_path u)\<rparr> else u))"

subsection \<open>Attributes\<close>

text \<open>\<open>_hostinfo\<close>: the host and the text of the port.\<close>

definition host_and_port :: "url_parts \<Rightarrow> string \<times> string option" where
  "host_and_port u =
     (case rpartition_at CHR ''@'' (up_netloc u) of (_, _, hostinfo) \<Rightarrow>
      case partition_at CHR ''['' hostinfo of (_, opened, bracketed) \<Rightarrow>
        let (host, port) =
          (if opened then
             (case partition_at CHR '']'' bracketed of (host, _, rest) \<Rightarrow>
                (host, snd (snd (partition_at CHR '':'' rest))))
           else (case partition_at CHR '':'' hostinfo of (host, _, port) \<Rightarrow> (host, port)))
        in (host, if port = [] then None else Some port))"

definition url_hostname :: "url_parts \<Rightarrow> string option" where
  "url_hostname u =
     (let host = fst (host_and_port u) in
      if host = [] then None
      else Some (lower (takeWhile (\<lambda>c. c \<noteq> CHR ''%'') host) @ dropWhile (\<lambda>c. c \<noteq> CHR ''%'') host))"

definition url_port :: "url_parts \<Rightarrow> nat option result" where
  "url_port u =
     (case snd (host_and_port u) of
        None \<Rightarrow> Inr None
      | Some p \<Rightarrow>
          if list_all is_digit p then
            (let n = foldl (\<lambda>v c. v * 10 + (of_char c - 48)) 0 p in
             if n \<le> 65535 then Inr (Some n) else Inl (ValueError ''Port out of range 0-65535''))
          else Inl (ValueError ''Port could not be cast to integer value''))"

text \<open>\<open>_userinfo\<close>: user name and password.\<close>

definition url_userinfo :: "url_parts \<Rightarrow> string option \<times> string option" where
  "url_userinfo u =
     (case rpartition_at CHR ''@'' (up_netloc u) of (userinfo, found, _) \<Rightarrow>
        if found then
          (case partition_at CHR '':'' userinfo of (username, has_password, password) \<Rightarrow>
             (Some username, if has_password then Some password else None))
        else (None, None))"

text \<open>An optional text that is neither missing nor empty.\<close>

definition truthy :: "string option \<Rightarrow> bool" where
  "truthy s \<longleftrightarrow> (case s of None \<Rightarrow> False | Some t \<Rightarrow> t \<noteq> [])"

subsection \<open>Quoting\<close>

text \<open>\<open>quote\<close>, which keeps slashes unless \<open>safe=""\<close>, and \<open>quote_plus\<close>: bytes other than the unreserved ones
  become \<open>%XX\<close>.\<close>

definition percent_byte :: "char \<Rightarrow> string" where
  "percent_byte c = (let n = of_char c :: nat; h = (\<lambda>d. if d < 10 then char_of (48 + d) else char_of (55 + d)) in
     [CHR ''%'', h (n div 16), h (n mod 16)])"

definition unreserved :: "char \<Rightarrow> bool" where
  "unreserved c \<longleftrightarrow> in_class c ([(CHR ''A'', CHR ''Z'')] @ lower_az @ digits09) \<or> c \<in> set ''_.-~''"

definition quote :: "string \<Rightarrow> string" where
  "quote s = concat (map (\<lambda>c. if unreserved c \<or> c = CHR ''/'' then [c] else percent_byte c) (utf8 s))"

definition quote_segment :: "string \<Rightarrow> string" where
  "quote_segment s = concat (map (\<lambda>c. if unreserved c then [c] else percent_byte c) (utf8 s))"

definition quote_plus :: "string \<Rightarrow> string" where
  "quote_plus s = concat (map (\<lambda>c. if unreserved c then [c] else if c = CHR '' '' then ''+'' else percent_byte c) (utf8 s))"

lemma clean_url_plain: "list_all (\<lambda>c. 33 \<le> (of_char c :: nat)) s \<Longrightarrow> clean_url s = s"
proof -
  assume plain: "list_all (\<lambda>c. 33 \<le> (of_char c :: nat)) s"
  then have "dropWhile (\<lambda>c. (of_char c :: nat) \<le> 32) s = s" by (cases s) auto
  moreover have "filter (\<lambda>c. (of_char c :: nat) \<notin> {9, 10, 13}) s = s"
    using plain by (intro filter_True) (auto simp: list_all_iff)
  ultimately show ?thesis by (simp add: clean_url_def)
qed

lemma tl_subset: "set (tl xs) \<subseteq> set xs"
  by (cases xs) auto

lemma partition_at_subset:
  "partition_at c s = (a, b, d) \<Longrightarrow> set a \<subseteq> set s \<and> set d \<subseteq> set s"
proof (intro conjI)
  assume eq: "partition_at c s = (a, b, d)"
  then show "set a \<subseteq> set s" by (auto simp: partition_at_def dest: set_takeWhileD)
  have "set (tl (dropWhile (\<lambda>x. x \<noteq> c) s)) \<subseteq> set (dropWhile (\<lambda>x. x \<noteq> c) s)"
    by (rule tl_subset)
  also have "\<dots> \<subseteq> set s" by (auto dest: set_dropWhileD)
  finally show "set d \<subseteq> set s" using eq by (auto simp: partition_at_def)
qed

lemma urlsplit_no_whitespace:
  assumes "urlsplit ip_ok text = Inr u"
  shows "CHR 0x0A \<notin> set (up_netloc u) \<and> CHR 0x0D \<notin> set (up_netloc u)"
proof -
  have rest: "set (snd (split_scheme s)) \<subseteq> set s" for s
    by (auto simp: split_scheme_def split: prod.splits dest: partition_at_subset)
  have netloc: "set (fst (split_netloc s)) \<subseteq> set s" for s
    by (auto simp: split_netloc_def Let_def dest!: set_takeWhileD in_set_dropD)
  have "up_netloc u = fst (split_netloc (snd (split_scheme (clean_url text))))"
    using assms by (auto simp: urlsplit_def split: prod.splits if_splits)
  then have "set (up_netloc u) \<subseteq> set (clean_url text)"
    using netloc rest by (metis order_trans)
  then show ?thesis by (auto simp: clean_url_def)
qed

end
