(* ===== verification/Federation.thy ===== *)
theory Federation
  imports Url Tenants
begin

section \<open>Identity federation (\<open>federation.py\<close>)\<close>

text \<open>
  The OIDC configuration with its validation, its construction from the environment, and the verifier
  that turns a token into a tenant, a principal and scopes. The JWT library is the record \<open>jwt_library\<close>:
  reading an unverified header, finding the signing key, and decoding with the checks the code asks for;
  its exceptions are \<open>ServiceError\<close> values named after their class. \<open>parse_float\<close> is Python's
  \<open>float\<close>: \<open>None\<close> is a \<open>ValueError\<close>, \<open>Some None\<close> a value that is not finite.
\<close>

definition ALLOWED_ASYMMETRIC_ALGORITHMS :: "string set" where
  "ALLOWED_ASYMMETRIC_ALGORITHMS =
     {''RS256'', ''RS384'', ''RS512'', ''ES256'', ''ES384'', ''ES512'', ''EdDSA''}"

text \<open>\<open>^[A-Za-z_][A-Za-z0-9_.:-]{0,99}$\<close>\<close>

definition CLAIM_NAME_PATTERN :: regex where
  "CLAIM_NAME_PATTERN =
     (let letters = [(CHR ''A'', CHR ''Z''), (CHR ''a'', CHR ''z'')] @ one_char CHR ''_''
      in Seq (Cls letters)
           (up_to 99 (Cls (letters @ digits09 @ one_char CHR ''.'' @ one_char CHR '':'' @ one_char CHR ''-''))))"

text \<open>\<open>^[A-Za-z][A-Za-z0-9_.-]{0,62}[:./]$\<close>\<close>

definition SCOPE_PREFIX_PATTERN :: regex where
  "SCOPE_PREFIX_PATTERN =
     (let letters = [(CHR ''A'', CHR ''Z''), (CHR ''a'', CHR ''z'')]
      in Seq (Cls letters)
          (Seq (up_to 62 (Cls (letters @ digits09 @ one_char CHR ''_'' @ one_char CHR ''.'' @ one_char CHR ''-'')))
            (Cls (one_char CHR '':'' @ one_char CHR ''.'' @ one_char CHR ''/''))))"

record oidc_configuration =
  oc_issuer :: string
  oc_audiences :: "string list"
  oc_jwks_url :: string
  oc_algorithms :: "string list"
  oc_tenant_claim :: string
  oc_scope_claim :: string
  oc_scope_prefix :: string
  oc_jwks_timeout_seconds :: "rat option"
  oc_jwks_cache_seconds :: "rat option"
  oc_clock_skew_seconds :: "rat option"

text \<open>A float field with bounds; \<open>None\<close> is a float that is not finite.\<close>

definition float_between :: "rat \<Rightarrow> rat \<Rightarrow> rat option \<Rightarrow> bool" where
  "float_between lo hi v = (case v of None \<Rightarrow> False | Some r \<Rightarrow> lo \<le> r \<and> r \<le> hi)"

definition text_between :: "nat \<Rightarrow> nat \<Rightarrow> 'a list \<Rightarrow> bool" where
  "text_between lo hi s \<longleftrightarrow> lo \<le> length s \<and> length s \<le> hi"

definition validate_federation_url :: "(string \<Rightarrow> bool) \<Rightarrow> string \<Rightarrow> unit result" where
  "validate_federation_url ip_ok value_text =
     bind_result (urlparse ip_ok value_text) (\<lambda>parsed.
       let loopback = url_hostname parsed \<in> {Some ''localhost'', Some ''127.0.0.1'', Some ''::1''}
       in bind_result (guard_result
            (up_scheme parsed \<notin> (if loopback then {''http'', ''https''} else {''https''})
              \<or> up_netloc parsed = [])
            (ValueError ''OIDC URL must be HTTPS or loopback HTTP'')) (\<lambda>_.
          guard_result
            (truthy (fst (url_userinfo parsed)) \<or> truthy (snd (url_userinfo parsed)) \<or> up_fragment parsed \<noteq> [])
            (ValueError ''OIDC URL must not include credentials or a fragment'')))"

definition configuration_fields_ok :: "oidc_configuration \<Rightarrow> bool" where
  "configuration_fields_ok c \<longleftrightarrow>
     text_between 1 500 (oc_issuer c) \<and> text_between 1 10 (oc_audiences c)
   \<and> text_between 1 1000 (oc_jwks_url c) \<and> text_between 1 10 (oc_algorithms c)
   \<and> fullmatch CLAIM_NAME_PATTERN (oc_tenant_claim c)
   \<and> fullmatch CLAIM_NAME_PATTERN (oc_scope_claim c)
   \<and> fullmatch SCOPE_PREFIX_PATTERN (oc_scope_prefix c)
   \<and> float_between (1 / 10) 10 (oc_jwks_timeout_seconds c)
   \<and> float_between 60 3600 (oc_jwks_cache_seconds c)
   \<and> float_between 0 60 (oc_clock_skew_seconds c)"

definition validate_security_boundaries ::
  "(string \<Rightarrow> bool) \<Rightarrow> oidc_configuration \<Rightarrow> unit result" where
  "validate_security_boundaries ip_ok c =
     bind_result (validate_federation_url ip_ok (oc_issuer c)) (\<lambda>_.
     bind_result (validate_federation_url ip_ok (oc_jwks_url c)) (\<lambda>_.
     bind_result (guard_result
       (oc_algorithms c = [] \<or> (\<exists>a \<in> set (oc_algorithms c). a \<notin> ALLOWED_ASYMMETRIC_ALGORITHMS))
       (ValueError ''OIDC algorithms must use the supported asymmetric allowlist'')) (\<lambda>_.
     bind_result (guard_result (\<not> distinct (oc_algorithms c))
       (ValueError ''OIDC algorithms must be unique'')) (\<lambda>_.
     bind_result (guard_result (oc_tenant_claim c = oc_scope_claim c)
       (ValueError ''OIDC tenant and scope claims must be different'')) (\<lambda>_.
     guard_result
       (\<not> distinct (oc_audiences c) \<or> (\<exists>a \<in> set (oc_audiences c). a = [] \<or> length a > 500))
       (ValueError ''OIDC audiences must be unique non-empty values''))))))"

text \<open>Constructing the model: the fields, then the validator, whose \<open>ValueError\<close> pydantic rewraps.\<close>

definition make_oidc_configuration ::
  "(string \<Rightarrow> bool) \<Rightarrow> oidc_configuration \<Rightarrow> oidc_configuration result" where
  "make_oidc_configuration ip_ok c =
     (if \<not> configuration_fields_ok c then Inl (ValidationError ''OIDCFederationConfiguration'')
      else
        (case validate_security_boundaries ip_ok c of
           Inl e \<Rightarrow> Inl (ValidationError ''OIDCFederationConfiguration'')
         | Inr _ \<Rightarrow> Inr c))"

definition issuer_host :: "(string \<Rightarrow> bool) \<Rightarrow> oidc_configuration \<Rightarrow> string result" where
  "issuer_host ip_ok c =
     bind_result (urlparse ip_ok (oc_issuer c)) (\<lambda>u.
       Inr (case url_hostname u of None \<Rightarrow> ''unknown'' | Some h \<Rightarrow> h))"

subsection \<open>The environment\<close>

definition comma_separated :: "string \<Rightarrow> string list" where
  "comma_separated v = filter (\<lambda>s. s \<noteq> []) (map strip (split_on CHR '','' v))"

text \<open>\<open>os.getenv(name, default)\<close>\<close>

definition getenv :: "(string \<Rightarrow> string option) \<Rightarrow> string \<Rightarrow> string \<Rightarrow> string" where
  "getenv env k v = (case env k of None \<Rightarrow> v | Some s \<Rightarrow> s)"

definition float_text_of :: "(string \<Rightarrow> rat option option) \<Rightarrow> string \<Rightarrow> rat option result" where
  "float_text_of parse_float s =
     (case parse_float s of None \<Rightarrow> Inl (ValueError ''could not convert string to float'') | Some v \<Rightarrow> Inr v)"

definition oidc_configuration_from_environment ::
  "(string \<Rightarrow> bool) \<Rightarrow> (string \<Rightarrow> rat option option) \<Rightarrow> (string \<Rightarrow> string option)
     \<Rightarrow> oidc_configuration option result" where
  "oidc_configuration_from_environment ip_ok parse_float env =
     (let issuer = env ''AECONTROL_OIDC_ISSUER'';
          audience = env ''AECONTROL_OIDC_AUDIENCE'';
          jwks_url = env ''AECONTROL_OIDC_JWKS_URL''
      in if \<not> truthy issuer \<and> \<not> truthy audience \<and> \<not> truthy jwks_url then Inr None
         else if \<not> truthy issuer \<or> \<not> truthy audience \<or> \<not> truthy jwks_url
         then Inl (ValueError ''incomplete OIDC configuration; missing'')
         else
           bind_result (float_text_of parse_float (getenv env ''AECONTROL_OIDC_JWKS_TIMEOUT_SECONDS'' ''2''))
             (\<lambda>timeout.
           bind_result (float_text_of parse_float (getenv env ''AECONTROL_OIDC_JWKS_CACHE_SECONDS'' ''300''))
             (\<lambda>cache.
           bind_result (float_text_of parse_float (getenv env ''AECONTROL_OIDC_CLOCK_SKEW_SECONDS'' ''5''))
             (\<lambda>skew.
           bind_result (make_oidc_configuration ip_ok
             \<lparr>oc_issuer = the issuer, oc_audiences = comma_separated (the audience),
              oc_jwks_url = the jwks_url,
              oc_algorithms = comma_separated (getenv env ''AECONTROL_OIDC_ALGORITHMS'' ''RS256''),
              oc_tenant_claim = getenv env ''AECONTROL_OIDC_TENANT_CLAIM'' ''aecontrol_tenant'',
              oc_scope_claim = getenv env ''AECONTROL_OIDC_SCOPE_CLAIM'' ''scope'',
              oc_scope_prefix = getenv env ''AECONTROL_OIDC_SCOPE_PREFIX'' ''aecontrol:'',
              oc_jwks_timeout_seconds = timeout, oc_jwks_cache_seconds = cache,
              oc_clock_skew_seconds = skew\<rparr>) (\<lambda>c. Inr (Some c))))))"

subsection \<open>Verifying a token\<close>

record federated_identity =
  fi_principal_id :: string
  fi_tenant_id :: tenant
  fi_scopes :: "tenant_scope set"

record 'k jwt_library =
  jwt_unverified_header :: "string \<Rightarrow> (string \<times> json) list result"
  jwt_signing_key :: "string \<Rightarrow> 'k result"
  jwt_decode :: "string \<Rightarrow> 'k \<Rightarrow> oidc_configuration \<Rightarrow> (string \<times> json) list result"

fun scope_of :: "string \<Rightarrow> tenant_scope option" where
  "scope_of s =
     (if s = ''read'' then Some Read_scope else if s = ''write'' then Some Write_scope
      else if s = ''admin'' then Some Admin_scope else None)"

declare scope_of.simps [simp del]

text \<open>One value of the scope claim, added to the scopes found before it.\<close>

definition map_scope :: "string \<Rightarrow> json \<Rightarrow> tenant_scope set \<Rightarrow> tenant_scope set result" where
  "map_scope prefix_text raw mapped =
     (case raw of
        JStr raw_scope \<Rightarrow>
          if length raw_scope > 200 then Inl (FederationError ''federated token scope claim is invalid'')
          else if \<not> starts_with prefix_text raw_scope then Inr mapped
          else
            (let scope = remove_prefix prefix_text raw_scope in
             if scope = ''operator''
             then Inl (FederationError ''federated tokens cannot receive operator scope'')
             else
               (case scope_of scope of None \<Rightarrow> Inr mapped | Some s \<Rightarrow> Inr (insert s mapped)))
      | _ \<Rightarrow> Inl (FederationError ''federated token scope claim is invalid''))"

definition scope_values :: "json option \<Rightarrow> json list result" where
  "scope_values raw_scopes =
     (case raw_scopes of
        Some (JStr s) \<Rightarrow> Inr (map JStr (words s))
      | Some (JList vs) \<Rightarrow> Inr vs
      | _ \<Rightarrow> Inl (FederationError ''federated token scope claim is invalid''))"

definition federated_scopes :: "string \<Rightarrow> json option \<Rightarrow> tenant_scope set result" where
  "federated_scopes prefix_text raw_scopes =
     bind_result (scope_values raw_scopes) (\<lambda>values.
     bind_result (guard_result (length values > 100)
        (FederationError ''federated token scope claim is invalid'')) (\<lambda>_.
     bind_result (fold_result (map_scope prefix_text) values {}) (\<lambda>mapped.
     bind_result (guard_result (mapped = {})
        (FederationError ''federated token has no AgentEval scopes'')) (\<lambda>_. Inr mapped))))"

text \<open>\<open>^oidc:[a-f0-9]{20}$\<close>\<close>

definition principal_id_ok :: "string \<Rightarrow> bool" where
  "principal_id_ok p \<longleftrightarrow> take 5 p = ''oidc:'' \<and> length p = 25
     \<and> list_all (\<lambda>c. in_class c [(CHR ''a'', CHR ''f''), (CHR ''0'', CHR ''9'')]) (drop 5 p)"

definition principal_id_of :: "primitives \<Rightarrow> oidc_configuration \<Rightarrow> string \<Rightarrow> string" where
  "principal_id_of P c subject =
     ''oidc:'' @ take 20 (sha256_hex P (utf8 (oc_issuer c @ CHR 0x00 # subject)))"

definition identity_from_claims ::
  "primitives \<Rightarrow> oidc_configuration \<Rightarrow> (string \<times> json) list \<Rightarrow> federated_identity result" where
  "identity_from_claims P c claims =
     (case map_of claims ''sub'' of
        Some (JStr subject) \<Rightarrow>
          if subject = [] \<or> length subject > 500
          then Inl (FederationError ''federated token subject is invalid'')
          else
            (case map_of claims (oc_tenant_claim c) of
               Some (JStr tenant_text) \<Rightarrow>
                 (case validate_tenant_id tenant_text of
                    Inl _ \<Rightarrow> Inl (FederationError ''federated token tenant claim is invalid'')
                  | Inr tenant_id \<Rightarrow>
                      bind_result (federated_scopes (oc_scope_prefix c) (map_of claims (oc_scope_claim c)))
                        (\<lambda>scopes.
                         let p = principal_id_of P c subject
                         in if principal_id_ok p \<and> fullmatch TENANT_ID_PATTERN tenant_id \<and> scopes \<noteq> {}
                            then Inr \<lparr>fi_principal_id = p, fi_tenant_id = tenant_id, fi_scopes = scopes\<rparr>
                            else Inl (ValidationError ''FederatedIdentity'')))
             | _ \<Rightarrow> Inl (FederationError ''federated token tenant claim is invalid''))
      | _ \<Rightarrow> Inl (FederationError ''federated token subject is invalid''))"

text \<open>
  \<open>except (InvalidTokenError, PyJWKClientError, OverflowError, TypeError, ValueError)\<close>; pydantic's
  \<open>ValidationError\<close> is a \<open>ValueError\<close>.
\<close>

fun token_failure :: "exn \<Rightarrow> bool" where
  "token_failure (ServiceError c _) =
     (c \<in> {''InvalidTokenError'', ''PyJWKClientError'', ''OverflowError''})"
| "token_failure (TypeError _) = True"
| "token_failure (ValueError _) = True"
| "token_failure (ValidationError _) = True"
| "token_failure _ = False"

definition verify_body ::
  "primitives \<Rightarrow> 'k jwt_library \<Rightarrow> oidc_configuration \<Rightarrow> string \<Rightarrow> federated_identity result" where
  "verify_body P J c tok =
     bind_result (jwt_unverified_header J tok) (\<lambda>header.
     bind_result (guard_result
        (\<not> (\<exists>a \<in> set (oc_algorithms c). map_of header ''alg'' = Some (JStr a)))
        (FederationError ''federated token algorithm is not allowed'')) (\<lambda>_.
     bind_result (guard_result
        (case map_of header ''kid'' of Some (JStr k) \<Rightarrow> k = [] | _ \<Rightarrow> True)
        (FederationError ''federated token is missing a key ID'')) (\<lambda>_.
     bind_result (jwt_signing_key J tok) (\<lambda>signing_key.
     bind_result (jwt_decode J tok signing_key c) (identity_from_claims P c)))))"

definition verify_token ::
  "primitives \<Rightarrow> 'k jwt_library \<Rightarrow> oidc_configuration \<Rightarrow> string \<Rightarrow> federated_identity result" where
  "verify_token P J c tok =
     (if length tok > 16384 then Inl (FederationError ''federated token is too large'')
      else
        (case verify_body P J c tok of
           Inl e \<Rightarrow> Inl (if token_failure e then FederationError ''federated token validation failed'' else e)
         | Inr i \<Rightarrow> Inr i))"

subsection \<open>What a verified token establishes\<close>

lemma scope_of_Some: "scope_of t = Some s \<longleftrightarrow> t = scope_str s"
  by (cases s) (auto simp: scope_of.simps scope_str_def)

lemma scope_of_scope_str [simp]: "scope_of (scope_str s) = Some s"
  by (simp add: scope_of_Some)

lemma scope_str_inject [simp]: "scope_str s = scope_str s' \<longleftrightarrow> s = s'"
  by (metis option.inject scope_of_scope_str)

lemma scope_str_not_operator: "scope_str s \<noteq> ''operator''"
  by (cases s) (simp_all add: scope_str_def)

lemma starts_with_iff: "starts_with p s \<longleftrightarrow> (\<exists>r. s = p @ r)"
  by (metis append_take_drop_id starts_with_append starts_with_def)

lemma remove_prefix_append [simp]: "remove_prefix p (p @ s) = s"
  by (simp add: remove_prefix_def)

lemma map_scope_Inr:
  "map_scope p raw m = Inr m' \<Longrightarrow>
     m' = m \<union> {s. raw = JStr (p @ scope_str s)} \<and> raw \<noteq> JStr (p @ ''operator'')"
  by (auto simp: map_scope_def starts_with_iff Let_def scope_of_Some scope_str_not_operator
      split: json.splits if_splits option.splits)

lemma fold_map_scope:
  "fold_result (map_scope p) vs m = Inr m' \<Longrightarrow>
     m' = m \<union> {s. JStr (p @ scope_str s) \<in> set vs} \<and> JStr (p @ ''operator'') \<notin> set vs"
proof (induction vs arbitrary: m)
  case (Cons v vs)
  then obtain n where n: "map_scope p v m = Inr n" "fold_result (map_scope p) vs n = Inr m'"
    by auto
  from map_scope_Inr [OF n(1)] Cons.IH [OF n(2)] show ?case by auto
qed simp

text \<open>The scopes of a claim are exactly those it names under the prefix, and the operator scope is not one.\<close>

lemma federated_scopes_Inr:
  assumes "federated_scopes p raw = Inr scopes"
  obtains vs where "scope_values raw = Inr vs" "length vs \<le> 100"
    "scopes = {s. JStr (p @ scope_str s) \<in> set vs}" "scopes \<noteq> {}" "JStr (p @ ''operator'') \<notin> set vs"
  using assms fold_map_scope [of p _ "{}" scopes] by (auto simp: federated_scopes_def not_less)

lemma identity_from_claims_Inr:
  assumes "identity_from_claims P c claims = Inr i"
  obtains subject where "map_of claims ''sub'' = Some (JStr subject)" "subject \<noteq> []" "length subject \<le> 500"
    "map_of claims (oc_tenant_claim c) = Some (JStr (fi_tenant_id i))"
    "fullmatch TENANT_ID_PATTERN (fi_tenant_id i)"
    "federated_scopes (oc_scope_prefix c) (map_of claims (oc_scope_claim c)) = Inr (fi_scopes i)"
    "fi_principal_id i = principal_id_of P c subject"
  using assms
  by (auto simp: identity_from_claims_def Let_def split: option.splits json.splits if_splits sum.splits
      simp del: fullmatch.simps)

end
