(* ===== verification/Auth.thy ===== *)
theory Auth
  imports Federation
begin

section \<open>Authentication and scopes (\<open>auth.py\<close>)\<close>

text \<open>
  The static key file, the authenticator with its three sources of credentials (static keys, the
  registry of tenant keys, federated tokens), and the dependency that one route's \<open>require(scope)\<close>
  installs. The store's two callbacks and the token verifier are fields of the authenticator, as they
  are in the code; a request is its bearer credential, or none, and the tenant context it runs in.
\<close>

datatype auth_scope = Tenant_scope tenant_scope | Operator_scope

record api_key =
  ky_key_id :: string
  ky_tenant_id :: tenant
  ky_secret_sha256 :: sha256
  ky_scopes :: "auth_scope set"

record principal =
  pr_key_id :: string
  pr_tenant_id :: tenant
  pr_scopes :: "auth_scope set"

definition make_api_key :: "api_key \<Rightarrow> api_key result" where
  "make_api_key k =
     (if \<not> text_between 1 64 (ky_key_id k) \<or> \<not> fullmatch TENANT_ID_PATTERN (ky_tenant_id k)
        \<or> \<not> is_sha256 (ky_secret_sha256 k) \<or> ky_scopes k = {}
      then Inl (ValidationError ''APIKey'')
      else if Operator_scope \<in> ky_scopes k \<and> ky_scopes k \<noteq> {Operator_scope}
      then Inl (ValidationError ''operator API keys cannot include tenant scopes'')
      else Inr k)"

definition hash_api_key :: "primitives \<Rightarrow> string \<Rightarrow> sha256 result" where
  "hash_api_key P secret =
     (if secret = [] then Inl (ValueError ''API key must not be empty'')
      else Inr (sha256_hex P (utf8 secret)))"

text \<open>\<open>read_keys\<close>: the YAML text of the path, as the fields of its keys.\<close>

definition load_auth_config :: "(string \<Rightarrow> api_key list result) \<Rightarrow> string \<Rightarrow> api_key list result" where
  "load_auth_config read_keys path =
     bind_result (read_keys path) (\<lambda>payload.
     bind_result (map_result make_api_key payload) (\<lambda>ks.
     bind_result (guard_result (ks = []) (ValidationError ''AuthConfig'')) (\<lambda>_.
     bind_result (guard_result (\<not> distinct (map ky_key_id ks))
       (ValueError ''authentication key IDs must be unique'')) (\<lambda>_.
     bind_result (guard_result (\<not> distinct (map ky_secret_sha256 ks))
       (ValueError ''authentication key digests must be unique'')) (\<lambda>_. Inr ks)))))"

record authenticator =
  au_config :: "api_key list option"
  au_credential_lookup :: "(sha256 \<Rightarrow> resolved_api_key option) option"
  au_tenant_access_allowed :: "(tenant \<Rightarrow> bool) option"
  au_verifier :: "(string \<Rightarrow> federated_identity result) option"

text \<open>\<open>Authenticator.__init__\<close>; \<open>env_verifier\<close> is \<open>OIDCFederatedTokenVerifier.from_environment()\<close>.\<close>

definition new_authenticator ::
  "(string \<Rightarrow> api_key list result) \<Rightarrow> string option \<Rightarrow> (string \<Rightarrow> federated_identity result) option result
     \<Rightarrow> string option \<Rightarrow> (sha256 \<Rightarrow> resolved_api_key option) option \<Rightarrow> (tenant \<Rightarrow> bool) option
     \<Rightarrow> (string \<Rightarrow> federated_identity result) option \<Rightarrow> authenticator result" where
  "new_authenticator read_keys env_path env_verifier config_path credential_lookup access_allowed verifier =
     (let resolved = (if truthy config_path then config_path else env_path)
      in bind_result
           (if truthy resolved
            then bind_result (load_auth_config read_keys (the resolved)) (\<lambda>ks. Inr (Some ks))
            else Inr None) (\<lambda>config.
         bind_result (case verifier of None \<Rightarrow> env_verifier | Some v \<Rightarrow> Inr (Some v)) (\<lambda>v.
           Inr \<lparr>au_config = config, au_credential_lookup = credential_lookup,
                au_tenant_access_allowed = access_allowed, au_verifier = v\<rparr>)))"

definition auth_enabled :: "authenticator \<Rightarrow> bool" where
  "auth_enabled A \<longleftrightarrow> au_config A \<noteq> None \<or> au_verifier A \<noteq> None"

text \<open>The first configured key whose digest the comparison accepts.\<close>

fun matching_key :: "string \<Rightarrow> api_key list \<Rightarrow> api_key option result" where
  "matching_key candidate [] = Inr None"
| "matching_key candidate (k # ks) =
     bind_result (compare_digest (ky_secret_sha256 k) candidate) (\<lambda>equal_digest.
       if equal_digest then Inr (Some k) else matching_key candidate ks)"

definition access_denied :: "authenticator \<Rightarrow> tenant \<Rightarrow> bool" where
  "access_denied A t =
     (case au_tenant_access_allowed A of None \<Rightarrow> False | Some allowed \<Rightarrow> \<not> allowed t)"

definition credential_invalid :: exn where
  "credential_invalid = HTTPException 401 ''Bearer credential is invalid''"

text \<open>\<open>with suppress(FederationError): verifier.verify(...)\<close> for a text with two dots.\<close>

definition federate :: "authenticator \<Rightarrow> string \<Rightarrow> federated_identity option result" where
  "federate A credential =
     (case au_verifier A of
        None \<Rightarrow> Inr None
      | Some v \<Rightarrow>
          if count_if (\<lambda>c. c = CHR ''.'') credential = 2 then
            (case v credential of
               Inr i \<Rightarrow> Inr (Some i)
             | Inl (FederationError m) \<Rightarrow> Inr None
             | Inl e \<Rightarrow> Inl e)
          else Inr None)"

text \<open>The tenant, key identifier and scopes of the source that was found, or the exception that refuses it.\<close>

definition principal_of ::
  "authenticator \<Rightarrow> api_key option \<Rightarrow> resolved_api_key option \<Rightarrow> federated_identity option
     \<Rightarrow> principal result" where
  "principal_of A key resolved_key federated =
     (case key of
        Some k \<Rightarrow>
          if Operator_scope \<notin> ky_scopes k \<and> access_denied A (ky_tenant_id k) then Inl credential_invalid
          else Inr \<lparr>pr_key_id = ky_key_id k, pr_tenant_id = ky_tenant_id k, pr_scopes = ky_scopes k\<rparr>
      | None \<Rightarrow>
          (case resolved_key of
             Some r \<Rightarrow>
               Inr \<lparr>pr_key_id = rk_key_id r, pr_tenant_id = rk_tenant_id r,
                    pr_scopes = Tenant_scope ` set (rk_scopes r)\<rparr>
           | None \<Rightarrow>
               (case federated of
                  Some i \<Rightarrow>
                    if access_denied A (fi_tenant_id i) then Inl credential_invalid
                    else Inr \<lparr>pr_key_id = fi_principal_id i, pr_tenant_id = fi_tenant_id i,
                              pr_scopes = Tenant_scope ` fi_scopes i\<rparr>
                | None \<Rightarrow> Inl credential_invalid)))"

definition configured_keys :: "authenticator \<Rightarrow> api_key list" where
  "configured_keys A = (case au_config A of None \<Rightarrow> [] | Some ks \<Rightarrow> ks)"

definition registry_key :: "authenticator \<Rightarrow> sha256 \<Rightarrow> resolved_api_key option" where
  "registry_key A candidate =
     (case au_credential_lookup A of None \<Rightarrow> None | Some lookup \<Rightarrow> lookup candidate)"

definition identify :: "primitives \<Rightarrow> authenticator \<Rightarrow> string \<Rightarrow> principal result" where
  "identify P A credential =
     bind_result (hash_api_key P credential) (\<lambda>candidate.
     bind_result (matching_key candidate (configured_keys A)) (\<lambda>key.
     bind_result
       (if key = None \<and> registry_key A candidate = None then federate A credential else Inr None)
       (principal_of A key (registry_key A candidate))))"

definition authorized :: "auth_scope \<Rightarrow> auth_scope set \<Rightarrow> bool" where
  "authorized scope scopes \<longleftrightarrow>
     scope \<in> scopes \<or> scope \<noteq> Operator_scope \<and> Tenant_scope Admin_scope \<in> scopes"

text \<open>\<open>require(scope)\<close>: the principal of the request, and the context bound to its tenant.\<close>

definition authenticate ::
  "primitives \<Rightarrow> string option \<Rightarrow> authenticator \<Rightarrow> auth_scope \<Rightarrow> string option \<Rightarrow> tenant_context
     \<Rightarrow> (principal \<times> tenant_context) result" where
  "authenticate P env_tenant A scope credentials ctx =
     (if \<not> auth_enabled A then
        bind_result (default_tenant_id env_tenant) (\<lambda>t.
        bind_result (bind_tenant t ctx) (\<lambda>(tok, ctx').
          Inr (\<lparr>pr_key_id = ''local-trust'', pr_tenant_id = t, pr_scopes = {Tenant_scope Admin_scope}\<rparr>, ctx')))
      else
        (case credentials of
           None \<Rightarrow> Inl (HTTPException 401 ''Bearer credential is required'')
         | Some credential \<Rightarrow>
             bind_result (identify P A credential) (\<lambda>p.
               if \<not> authorized scope (pr_scopes p)
               then Inl (HTTPException 403 ''Bearer credential requires the scope'')
               else bind_result (bind_tenant (pr_tenant_id p) ctx) (\<lambda>(tok, ctx'). Inr (p, ctx')))))"

end
