(* ===== verification/Auth_Properties.thy ===== *)
theory Auth_Properties
  imports Auth
begin

section \<open>What authentication guarantees\<close>

text \<open>
  The registry of tenant keys as an interface: the two callbacks the authenticator calls, and the law
  that a key resolves only for a tenant whose access is allowed. The lemmas of the authenticator are
  proved against the interface; the interpretation shows that the store's operations provide it.
\<close>

locale credential_registry =
  fixes lookup :: "sha256 \<Rightarrow> resolved_api_key option"
    and allowed :: "tenant \<Rightarrow> bool"
  assumes resolved_allowed: "lookup d = Some r \<Longrightarrow> allowed (rk_tenant_id r)"
begin

lemma identify_allowed:
  assumes "identify P A credential = Inr p" "au_credential_lookup A = Some lookup"
    "au_tenant_access_allowed A = Some allowed" "Operator_scope \<notin> pr_scopes p"
  shows "allowed (pr_tenant_id p)"
  using assms resolved_allowed
  by (auto simp: identify_def principal_of_def registry_key_def access_denied_def split: option.splits if_splits)

end

lemma resolve_allowed:
  "resolve_tenant_api_key d db = Some r \<Longrightarrow> tenant_access_allowed (rk_tenant_id r) db"
  by (auto simp: resolve_tenant_api_key_def tenant_access_allowed_def find_Some_iff split: option.splits)

interpretation registry: credential_registry
  "\<lambda>d. resolve_tenant_api_key d db" "\<lambda>t. tenant_access_allowed t db" for db
  by unfold_locales (rule resolve_allowed)

subsection \<open>Sources of a principal\<close>

definition static_source :: "primitives \<Rightarrow> authenticator \<Rightarrow> string \<Rightarrow> principal \<Rightarrow> bool" where
  "static_source P A credential p \<longleftrightarrow>
     list_ex (\<lambda>k. ky_secret_sha256 k = sha256_hex P (utf8 credential) \<and> pr_key_id p = ky_key_id k
       \<and> pr_tenant_id p = ky_tenant_id k \<and> pr_scopes p = ky_scopes k) (configured_keys A)"

definition registry_source :: "primitives \<Rightarrow> authenticator \<Rightarrow> string \<Rightarrow> principal \<Rightarrow> bool" where
  "registry_source P A credential p \<longleftrightarrow>
     (case registry_key A (sha256_hex P (utf8 credential)) of None \<Rightarrow> False | Some r \<Rightarrow>
        pr_key_id p = rk_key_id r \<and> pr_tenant_id p = rk_tenant_id r
        \<and> pr_scopes p = Tenant_scope ` set (rk_scopes r))"

definition federated_source :: "authenticator \<Rightarrow> string \<Rightarrow> principal \<Rightarrow> bool" where
  "federated_source A credential p \<longleftrightarrow>
     (case au_verifier A of None \<Rightarrow> False | Some v \<Rightarrow>
        (case v credential of Inl _ \<Rightarrow> False | Inr i \<Rightarrow>
           pr_key_id p = fi_principal_id i \<and> pr_tenant_id p = fi_tenant_id i
           \<and> pr_scopes p = Tenant_scope ` fi_scopes i))"

lemma matching_key_Inr:
  "matching_key d ks = Inr (Some k) \<Longrightarrow> k \<in> set ks \<and> ky_secret_sha256 k = d"
  by (induction ks) (auto simp: compare_digest_def split: if_splits)

lemma federate_Inr: "federate A credential = Inr (Some i) \<Longrightarrow> \<exists>v. au_verifier A = Some v \<and> v credential = Inr i"
  by (auto simp: federate_def split: option.splits if_splits sum.splits exn.splits)

lemma identify_source:
  assumes "identify P A credential = Inr p"
  shows "static_source P A credential p \<or> registry_source P A credential p \<or> federated_source A credential p"
proof -
  let ?digest = "sha256_hex P (utf8 credential)"
  from assms obtain key federated where
    key: "matching_key ?digest (configured_keys A) = Inr key" and
    federated: "(if key = None \<and> registry_key A ?digest = None then federate A credential else Inr None)
      = Inr federated" and
    p: "principal_of A key (registry_key A ?digest) federated = Inr p"
    unfolding identify_def hash_api_key_def by (fastforce split: if_splits)
  consider (static) k where "key = Some k" | (registry) r where "key = None" "registry_key A ?digest = Some r"
    | (federated) "key = None" "registry_key A ?digest = None" by (cases key; cases "registry_key A ?digest") auto
  then show ?thesis
  proof cases
    case static
    with key p have "static_source P A credential p"
      by (auto simp: static_source_def principal_of_def list_ex_iff dest!: matching_key_Inr split: if_splits)
    then show ?thesis by simp
  next
    case registry
    with p show ?thesis by (auto simp: registry_source_def principal_of_def)
  next
    case federated
    with p \<open>_ = Inr federated\<close> have "federated_source A credential p"
      by (auto simp: federated_source_def principal_of_def dest!: federate_Inr split: option.splits if_splits)
    then show ?thesis by simp
  qed
qed

lemma authenticate_Inr:
  assumes "authenticate P env A scope credentials ctx = Inr (p, ctx')" "auth_enabled A"
  obtains credential where "credentials = Some credential" "identify P A credential = Inr p"
    "authorized scope (pr_scopes p)" "bound_tenant ctx' = Some (pr_tenant_id p)"
  using assms
  by (auto simp: authenticate_def bind_tenant_def split: option.splits if_splits)

text \<open>C24. A request that passes an enabled authenticator carries a credential that a configured static
  key, a key of the registry or a verified token stands for, its principal has exactly that source's
  tenant and scopes, the scopes authorise the route, and the request runs in that tenant. The operator
  routes open only to a static key that carries the operator scope.\<close>

theorem authenticate_sound:
  assumes "authenticate P env A scope credentials ctx = Inr (p, ctx')" "auth_enabled A"
  shows "(\<exists>credential. credentials = Some credential
      \<and> (static_source P A credential p \<or> registry_source P A credential p \<or> federated_source A credential p)
      \<and> (scope = Operator_scope \<longrightarrow> static_source P A credential p))
    \<and> authorized scope (pr_scopes p) \<and> bound_tenant ctx' = Some (pr_tenant_id p)"
proof -
  from assms obtain credential where
    c: "credentials = Some credential" "identify P A credential = Inr p"
    "authorized scope (pr_scopes p)" "bound_tenant ctx' = Some (pr_tenant_id p)"
    by (rule authenticate_Inr)
  have "static_source P A credential p" if "scope = Operator_scope"
    using identify_source [OF c(2)] c(3) that
    by (auto simp: authorized_def registry_source_def federated_source_def split: option.splits sum.splits)
  with c identify_source [OF c(2)] show ?thesis by blast
qed

text \<open>With the store's registry behind the authenticator, no request of a suspended tenant passes,
  whichever way it authenticates, unless its static key carries the operator scope.\<close>

theorem suspended_tenant_locked_out:
  assumes "authenticate P env A scope credentials ctx = Inr (p, ctx')" "auth_enabled A"
    and "au_credential_lookup A = Some (\<lambda>d. resolve_tenant_api_key d db)"
    and "au_tenant_access_allowed A = Some (\<lambda>t. tenant_access_allowed t db)"
    and "find_tenant (pr_tenant_id p) db = Some r" "tr_status r = Suspended"
  shows "Operator_scope \<in> pr_scopes p"
proof (rule ccontr)
  assume no_operator: "Operator_scope \<notin> pr_scopes p"
  from assms(1,2) obtain credential where "identify P A credential = Inr p" by (rule authenticate_Inr)
  from registry.identify_allowed [OF this assms(3,4) no_operator] assms(5,6) show False
    by (simp add: tenant_access_allowed_def)
qed

text \<open>An operator key of a suspended tenant, on the store's registry.\<close>

definition ex_db :: control_db where
  "ex_db = \<lparr>db_jobs = [], db_workers = [], db_quotas = [], db_runs = [], cp_tenants =
     [\<lparr>tr_tenant_id = ''acme'', tr_display_name = ''Acme'', tr_status = Suspended, tr_created_at = 1,
       tr_created_by = ''op'', tr_updated_at = 2, tr_updated_by = ''op''\<rparr>], cp_keys = []\<rparr>"

definition ex_key :: api_key where
  "ex_key = \<lparr>ky_key_id = ''ops'', ky_tenant_id = ''acme'', ky_secret_sha256 = sha256_hex toy_primitives (utf8 ''secret''),
     ky_scopes = {Operator_scope}\<rparr>"

definition ex_authenticator :: authenticator where
  "ex_authenticator = \<lparr>au_config = Some [ex_key],
     au_credential_lookup = Some (\<lambda>d. resolve_tenant_api_key d ex_db),
     au_tenant_access_allowed = Some (\<lambda>t. tenant_access_allowed t ex_db), au_verifier = None\<rparr>"

definition ex_principal :: principal where
  "ex_principal = \<lparr>pr_key_id = ''ops'', pr_tenant_id = ''acme'', pr_scopes = {Operator_scope}\<rparr>"

lemma ex_authenticated:
  "authenticate toy_primitives None ex_authenticator Operator_scope (Some ''secret'') \<lparr>bound_tenant = None\<rparr>
     = Inr (ex_principal, \<lparr>bound_tenant = Some ''acme''\<rparr>)"
proof -
  have tenant: "validate_tenant_id ''acme'' = Inr ''acme''"
    unfolding validate_tenant_id_Inr fullmatch_tenant_id by (simp add: tenant_char_def in_class_def)
  have "ascii (sha256_hex toy_primitives (utf8 ''secret''))"
    using toy_primitives_ok by (simp add: primitives_ok_def is_sha256_ascii)
  then have "identify toy_primitives ex_authenticator ''secret'' = Inr ex_principal"
    by (simp add: identify_def hash_api_key_def configured_keys_def ex_authenticator_def
        ex_key_def compare_digest_def principal_of_def ex_principal_def)
  then show ?thesis
    by (simp add: authenticate_def auth_enabled_def ex_authenticator_def authorized_def ex_principal_def
        bind_tenant_def tenant)
qed

theorem authenticate_sound_witness:
  "authorized Operator_scope (pr_scopes ex_principal)
   \<and> static_source toy_primitives ex_authenticator ''secret'' ex_principal"
  using authenticate_sound [OF ex_authenticated] by (auto simp: auth_enabled_def ex_authenticator_def)

theorem suspended_tenant_locked_out_witness: "Operator_scope \<in> pr_scopes ex_principal"
  by (rule suspended_tenant_locked_out [OF ex_authenticated, of ex_db "hd (cp_tenants ex_db)"])
    (simp_all add: auth_enabled_def ex_authenticator_def ex_principal_def find_tenant_def ex_db_def)

subsection \<open>Federated tokens\<close>

lemma fold_map_scope_Inl:
  "fold_result (map_scope p) vs m = Inl e \<Longrightarrow> \<exists>m. e = FederationError m"
  by (induction vs arbitrary: m)
    (auto simp: bind_result_Inl map_scope_def Let_def split: json.splits if_splits option.splits)

lemma federated_scopes_Inl: "federated_scopes p raw = Inl e \<Longrightarrow> \<exists>m. e = FederationError m"
  by (auto simp: federated_scopes_def scope_values_def bind_result_Inl dest: fold_map_scope_Inl
      split: option.splits json.splits)

lemma identity_from_claims_Inl:
  "identity_from_claims P c claims = Inl e \<Longrightarrow> token_failure e \<or> (\<exists>m. e = FederationError m)"
  by (auto simp: identity_from_claims_def bind_result_Inl Let_def dest: federated_scopes_Inl
      split: option.splits json.splits sum.splits if_splits simp del: fullmatch.simps)

text \<open>A token that verifies was decoded by the JWT library under the key its header names, with an algorithm
  of the configured list; the identity carries the token's tenant claim, a valid identifier, the principal
  derived from the issuer and the subject, and exactly the read, write and admin scopes that the scope claim
  names under the prefix. Every refusal is a \<open>FederationError\<close> when the library raises only what it documents.\<close>

theorem federated_token_sound:
  "case verify_token P J c tok of
     Inr i \<Rightarrow>
       (\<exists>header signing_key claims subject vs alg.
          jwt_unverified_header J tok = Inr header \<and> map_of header ''alg'' = Some (JStr alg)
        \<and> alg \<in> set (oc_algorithms c) \<and> jwt_signing_key J tok = Inr signing_key
        \<and> jwt_decode J tok signing_key c = Inr claims
        \<and> map_of claims ''sub'' = Some (JStr subject) \<and> fi_principal_id i = principal_id_of P c subject
        \<and> map_of claims (oc_tenant_claim c) = Some (JStr (fi_tenant_id i))
        \<and> fullmatch TENANT_ID_PATTERN (fi_tenant_id i)
        \<and> scope_values (map_of claims (oc_scope_claim c)) = Inr vs
        \<and> JStr (oc_scope_prefix c @ ''operator'') \<notin> set vs
        \<and> fi_scopes i = {s. JStr (oc_scope_prefix c @ scope_str s) \<in> set vs} \<and> fi_scopes i \<noteq> {})
   | Inl e \<Rightarrow>
       (\<exists>m. e = FederationError m)
       \<or> token_failure e = False
          \<and> (jwt_unverified_header J tok = Inl e \<or> jwt_signing_key J tok = Inl e
             \<or> (\<exists>k. jwt_decode J tok k c = Inl e))"
proof (cases "verify_token P J c tok")
  case (Inr i)
  then have "verify_body P J c tok = Inr i"
    by (auto simp: verify_token_def split: if_splits sum.splits)
  then obtain header alg signing_key claims where
    "jwt_unverified_header J tok = Inr header" "alg \<in> set (oc_algorithms c)"
    "map_of header ''alg'' = Some (JStr alg)" "jwt_signing_key J tok = Inr signing_key"
    "jwt_decode J tok signing_key c = Inr claims" and claims: "identity_from_claims P c claims = Inr i"
    by (auto simp: verify_body_def)
  moreover from claims obtain subject where
    "map_of claims ''sub'' = Some (JStr subject)"
    "map_of claims (oc_tenant_claim c) = Some (JStr (fi_tenant_id i))"
    "fullmatch TENANT_ID_PATTERN (fi_tenant_id i)" "fi_principal_id i = principal_id_of P c subject"
    and scopes: "federated_scopes (oc_scope_prefix c) (map_of claims (oc_scope_claim c)) = Inr (fi_scopes i)"
    by (rule identity_from_claims_Inr)
  moreover from scopes obtain vs where
    "scope_values (map_of claims (oc_scope_claim c)) = Inr vs" "fi_scopes i \<noteq> {}"
    "fi_scopes i = {s. JStr (oc_scope_prefix c @ scope_str s) \<in> set vs}"
    "JStr (oc_scope_prefix c @ ''operator'') \<notin> set vs"
    by (rule federated_scopes_Inr)
  ultimately show ?thesis using Inr by (simp del: fullmatch.simps)
next
  case (Inl e)
  then have "(\<exists>m. e = FederationError m) \<or> verify_body P J c tok = Inl e \<and> \<not> token_failure e"
    by (auto simp: verify_token_def split: if_splits sum.splits)
  then show ?thesis
    using Inl identity_from_claims_Inl
    by (simp add: verify_body_def bind_result_Inl) blast
qed

end
