(* ===== verification/Checkpoints.thy ===== *)
theory Checkpoints
  imports Integrity Tenancy
begin

section \<open>Signed ledger checkpoints and their sinks (\<open>checkpoints.py\<close>)\<close>

text \<open>
  The payload and the signed envelope of a checkpoint with their validators, verification, the object
  key, and the three sinks: create-only files, an S3 bucket under Object Lock, and replication over
  several S3 sinks. \<open>isotime\<close> is the JSON text of a timestamp; the S3 client is a record of its four calls
  over a state; a call that raises gives the AWS error code.
\<close>

subsection \<open>Checkpoints\<close>

record checkpoint_payload =
  cp_checkpoint_id :: uuid
  cp_tenant_id :: string
  cp_ledger_sequence :: int
  cp_ledger_entries :: int
  cp_ledger_head_sha256 :: sha256
  cp_created_at :: instant
  cp_retention_until :: instant

definition validate_payload :: "checkpoint_payload \<Rightarrow> checkpoint_payload result" where
  "validate_payload p =
     (if \<not> (fullmatch TENANT_ID_PATTERN (cp_tenant_id p) \<and> 0 \<le> cp_ledger_sequence p \<and>
            0 \<le> cp_ledger_entries p \<and> is_sha256 (cp_ledger_head_sha256 p))
      then Inl (ValidationError ''LedgerCheckpointPayload'')
      else if cp_retention_until p \<le> cp_created_at p
      then Inl (ValidationError ''checkpoint retention must be after creation'')
      else Inr p)"

record signed_checkpoint =
  sc_payload :: checkpoint_payload
  sc_payload_sha256 :: sha256
  sc_signature_algorithm :: string
  sc_signing_key_id :: string
  sc_signature :: string

definition validate_signed :: "signed_checkpoint \<Rightarrow> signed_checkpoint result" where
  "validate_signed c =
     (if is_sha256 (sc_payload_sha256 c) \<and> sc_signature_algorithm c = ED25519 \<and>
         fullmatch KEY_ID_PATTERN (sc_signing_key_id c) \<and> sc_signature c \<noteq> []
      then Inr c else Inl (ValidationError ''SignedLedgerCheckpoint''))"

definition payload_json :: "(instant \<Rightarrow> string) \<Rightarrow> checkpoint_payload \<Rightarrow> json" where
  "payload_json isotime p =
     JObj [(''schema_version'', JStr ''1.0''), (''checkpoint_id'', JStr (uuid_str (cp_checkpoint_id p))),
       (''tenant_id'', JStr (cp_tenant_id p)), (''ledger_sequence'', JInt (cp_ledger_sequence p)),
       (''ledger_entries'', JInt (cp_ledger_entries p)),
       (''ledger_head_sha256'', JStr (cp_ledger_head_sha256 p)),
       (''created_at'', JStr (isotime (cp_created_at p))),
       (''retention_until'', JStr (isotime (cp_retention_until p)))]"

definition checkpoint_payload_digest ::
  "primitives \<Rightarrow> (instant \<Rightarrow> string) \<Rightarrow> checkpoint_payload \<Rightarrow> sha256 result" where
  "checkpoint_payload_digest P isotime p = digest_of P (payload_json isotime p)"

definition signed_json :: "(instant \<Rightarrow> string) \<Rightarrow> signed_checkpoint \<Rightarrow> json" where
  "signed_json isotime c =
     JObj [(''payload'', payload_json isotime (sc_payload c)), (''payload_sha256'', JStr (sc_payload_sha256 c)),
       (''signature_algorithm'', JStr (sc_signature_algorithm c)),
       (''signing_key_id'', JStr (sc_signing_key_id c)), (''signature'', JStr (sc_signature c))]"

definition canonical_bytes :: "primitives \<Rightarrow> (instant \<Rightarrow> string) \<Rightarrow> signed_checkpoint \<Rightarrow> string result" where
  "canonical_bytes P isotime c = canonical_json_bytes (float_repr P) (signed_json isotime c)"

definition verify_checkpoint ::
  "primitives \<Rightarrow> (instant \<Rightarrow> string) \<Rightarrow> signed_checkpoint \<Rightarrow> keyring \<Rightarrow> bool result" where
  "verify_checkpoint P isotime c k =
     bind_result (checkpoint_payload_digest P isotime (sc_payload c)) (\<lambda>digest.
       if digest \<noteq> sc_payload_sha256 c then Inr False
       else (case keyring_verify P k (sc_signature_algorithm c) (sc_signing_key_id c) ''ledger_checkpoint''
                (cp_checkpoint_id (sc_payload c)) digest (sc_signature c) of
               Inl (KeyError _) \<Rightarrow> Inr False
             | Inl (ValueError _) \<Rightarrow> Inr False
             | r \<Rightarrow> r))"

text \<open>\<open>f"{sequence:020d}"\<close>\<close>

definition pad20 :: "int \<Rightarrow> string" where
  "pad20 n = (let s = int_str n in replicate (20 - length s) CHR ''0'' @ s)"

definition checkpoint_object_key :: "signed_checkpoint \<Rightarrow> string" where
  "checkpoint_object_key c = (let p = sc_payload c in
     cp_tenant_id p @ ''/'' @ pad20 (cp_ledger_sequence p) @ ''-'' @ cp_ledger_head_sha256 p @ ''-''
       @ uuid_str (cp_checkpoint_id p) @ ''.json'')"

subsection \<open>Receipts and publications\<close>

record object_receipt =
  or_destination_id :: string
  or_destination :: string
  or_object_key :: string
  or_region :: "string option"
  or_body_sha256 :: sha256
  or_etag :: "string option"
  or_version_id :: "string option"
  or_retention_until :: instant
  or_verified_at :: instant

record publication =
  pb_checkpoint :: signed_checkpoint
  pb_destination :: string
  pb_object_key :: string
  pb_published_at :: instant
  pb_copies :: "object_receipt list"
  pb_required_copies :: int
  pb_failed_destinations :: "string list"

text \<open>\<open>[a-z0-9][a-z0-9-]{0,31}\<close>\<close>

definition DESTINATION_ID_PATTERN :: regex where
  "DESTINATION_ID_PATTERN =
     Seq (Cls (lower_az @ digits09)) (up_to 31 (Cls (lower_az @ digits09 @ one_char CHR ''-'')))"

text \<open>\<open>[a-z0-9-]{1,32}\<close>\<close>

definition REGION_PATTERN :: regex where
  "REGION_PATTERN = (let c = Cls (lower_az @ digits09 @ one_char CHR ''-'') in Seq c (up_to 31 c))"

definition validate_publication :: "publication \<Rightarrow> publication result" where
  "validate_publication p =
     (let copies = int (length (pb_copies p)); names = map or_destination_id (pb_copies p);
          failed = pb_failed_destinations p in
      if \<not> (1 \<le> pb_required_copies p \<and> pb_required_copies p \<le> 5)
      then Inl (ValidationError ''CheckpointPublication'')
      else if copies < pb_required_copies p \<and> (pb_copies p \<noteq> [] \<or> pb_required_copies p > 1)
      then Inl (ValidationError ''checkpoint publication does not meet its durability policy'')
      else if \<not> distinct names then Inl (ValidationError ''checkpoint publication contains duplicate destinations'')
      else if \<not> distinct failed \<or> list_ex (\<lambda>n. \<not> fullmatch DESTINATION_ID_PATTERN n) failed
      then Inl (ValidationError ''checkpoint publication contains invalid failed destinations'')
      else if set names \<inter> set failed \<noteq> {}
      then Inl (ValidationError ''checkpoint destination cannot be both successful and failed'')
      else Inr p)"

subsection \<open>Files\<close>

text \<open>
  \<open>Path.resolve\<close> on a path without symbolic links, as the list of its parts; files are a dictionary from
  resolved paths to their bytes.
\<close>

fun resolve_parts :: "string list \<Rightarrow> string list \<Rightarrow> string list" where
  "resolve_parts acc [] = acc"
| "resolve_parts acc (p # ps) =
     (if p = [] \<or> p = ''.'' then resolve_parts acc ps
      else if p = ''..'' then resolve_parts (butlast acc) ps
      else resolve_parts (acc @ [p]) ps)"

definition relative_to :: "string list \<Rightarrow> string list \<Rightarrow> bool" where
  "relative_to path base \<longleftrightarrow> take (length base) path = base"

type_synonym files = "(string list, string) dict"

definition publish_file ::
  "primitives \<Rightarrow> (instant \<Rightarrow> string) \<Rightarrow> instant \<Rightarrow> string list \<Rightarrow> signed_checkpoint \<Rightarrow> files
     \<Rightarrow> (publication \<times> files) result" where
  "publish_file P isotime now base c fs =
     (let object_key = checkpoint_object_key c;
          destination = resolve_parts base (split_on CHR ''/'' object_key) in
      if \<not> relative_to destination base
      then Inl (CheckpointPublicationError ''checkpoint path escapes the configured root'')
      else bind_result (canonical_bytes P isotime c) (\<lambda>body.
        bind_result
          (case map_of fs destination of
             Some existing \<Rightarrow>
               if existing \<noteq> body
               then Inl (CheckpointPublicationError ''checkpoint destination already contains different bytes'')
               else Inr fs
           | None \<Rightarrow> Inr (dict_set destination body fs))
          (\<lambda>fs'. bind_result
            (validate_publication \<lparr>pb_checkpoint = c, pb_destination = join_with ''/'' ([] # destination),
              pb_object_key = object_key, pb_published_at = now, pb_copies = [], pb_required_copies = 1,
              pb_failed_destinations = []\<rparr>)
            (\<lambda>p. Inr (p, fs')))))"

subsection \<open>S3 with Object Lock\<close>

record put_request =
  pr_bucket :: string
  pr_key :: string
  pr_body :: string
  pr_content_type :: string
  pr_checksum_sha256 :: string
  pr_metadata :: "(string, string) dict"
  pr_lock_mode :: string
  pr_retain_until :: instant
  pr_if_none_match :: string

text \<open>The fields of a response to HEAD; a retention date is given when it is an aware \<open>datetime\<close>.\<close>

record head_response =
  hr_metadata :: "(string, string) dict option"
  hr_lock_mode :: "string option"
  hr_retain_until :: "instant option"
  hr_etag :: "string option"
  hr_version_id :: "string option"

record 's s3_client =
  get_object_lock_configuration :: "string \<Rightarrow> 's \<Rightarrow> string + string option"
  put_object :: "put_request \<Rightarrow> 's \<Rightarrow> string option \<times> 's"
  head_object :: "string \<Rightarrow> string \<Rightarrow> 's \<Rightarrow> string + head_response"
  get_object :: "string \<Rightarrow> string \<Rightarrow> 's \<Rightarrow> string + string option"

record s3_sink =
  sk_bucket :: string
  sk_prefix :: string
  sk_destination_id :: string
  sk_region :: "string option"

text \<open>\<open>PurePosixPath(s)\<close> of a relative path, and its text.\<close>

definition posix_parts :: "string \<Rightarrow> string list" where
  "posix_parts s = filter (\<lambda>p. p \<noteq> [] \<and> p \<noteq> ''.'') (split_on CHR ''/'' s)"

definition posix_str :: "string list \<Rightarrow> string" where
  "posix_str parts = (if parts = [] then ''.'' else join_with ''/'' parts)"

definition s3_sink_of :: "string \<Rightarrow> string \<Rightarrow> string \<Rightarrow> string option \<Rightarrow> s3_sink result" where
  "s3_sink_of bucket prefix destination_id region =
     (let parts = posix_parts (strip_char CHR ''/'' prefix) in
      if bucket = [] \<or> list_ex (\<lambda>p. p \<in> {[], ''.'', ''..''}) parts
      then Inl (ValueError ''S3 checkpoint bucket and prefix must be normalized'')
      else if \<not> fullmatch DESTINATION_ID_PATTERN destination_id
      then Inl (ValueError ''S3 checkpoint destination ID is invalid'')
      else if (case region of None \<Rightarrow> False | Some r \<Rightarrow> \<not> fullmatch REGION_PATTERN r)
      then Inl (ValueError ''S3 checkpoint region is invalid'')
      else Inr \<lparr>sk_bucket = bucket, sk_prefix = posix_str parts, sk_destination_id = destination_id,
                sk_region = region\<rparr>)"

text \<open>\<open>_retention_request_deadline\<close> rounds up to a full second.\<close>

definition retention_request_deadline :: "instant \<Rightarrow> instant" where
  "retention_request_deadline v = (if v mod second = 0 then v else v - v mod second + second)"

definition optional_response_string :: "string option \<Rightarrow> nat \<Rightarrow> string option" where
  "optional_response_string v maximum =
     (case v of None \<Rightarrow> None | Some s \<Rightarrow> if length s \<le> maximum then Some s else None)"

text \<open>What a read of a stream limited to one megabyte and one byte gives.\<close>

definition read_limit :: nat where
  "read_limit = 1024 * 1024 + 1"

definition verify_copy ::
  "'s s3_client \<Rightarrow> s3_sink \<Rightarrow> instant \<Rightarrow> signed_checkpoint \<Rightarrow> string \<Rightarrow> string \<Rightarrow> sha256 \<Rightarrow> 's
     \<Rightarrow> object_receipt result" where
  "verify_copy client sink now c key expected_body body_sha256 st =
     (case head_object client (sk_bucket sink) key st of
        Inl _ \<Rightarrow> Inl (CheckpointPublicationError ''S3 checkpoint read-back verification failed'')
      | Inr head \<Rightarrow>
     (case get_object client (sk_bucket sink) key st of
        Inl _ \<Rightarrow> Inl (CheckpointPublicationError ''S3 checkpoint read-back verification failed'')
      | Inr None \<Rightarrow> Inl (CheckpointPublicationError ''S3 checkpoint body stream is unavailable'')
      | Inr (Some stream) \<Rightarrow>
          if take read_limit stream \<noteq> expected_body
          then Inl (CheckpointPublicationError ''S3 checkpoint read-back bytes do not match'')
          else if (case hr_metadata head of None \<Rightarrow> True
                   | Some m \<Rightarrow> map_of m ''checkpoint-sha256'' \<noteq> Some body_sha256)
          then Inl (CheckpointPublicationError ''S3 checkpoint read-back digest does not match'')
          else if hr_lock_mode head \<noteq> Some ''COMPLIANCE''
          then Inl (CheckpointPublicationError ''S3 checkpoint is not under COMPLIANCE retention'')
          else
            (case hr_retain_until head of
               None \<Rightarrow> Inl (CheckpointPublicationError ''S3 checkpoint retention deadline is insufficient'')
             | Some retained_until \<Rightarrow>
                 if retained_until < cp_retention_until (sc_payload c)
                 then Inl (CheckpointPublicationError ''S3 checkpoint retention deadline is insufficient'')
                 else Inr \<lparr>or_destination_id = sk_destination_id sink,
                   or_destination = ''s3://'' @ sk_bucket sink @ ''/'' @ key, or_object_key = key,
                   or_region = sk_region sink, or_body_sha256 = body_sha256,
                   or_etag = optional_response_string (hr_etag head) 256,
                   or_version_id = optional_response_string (hr_version_id head) 1024,
                   or_retention_until = retained_until, or_verified_at = now\<rparr>)))"

text \<open>The raw digest behind its hexadecimal text.\<close>

fun bytes_of_hex :: "string \<Rightarrow> string" where
  "bytes_of_hex (a # b # s) = char_of (16 * unhex a + unhex b) # bytes_of_hex s"
| "bytes_of_hex _ = []"

definition put_request_of ::
  "primitives \<Rightarrow> s3_sink \<Rightarrow> string \<Rightarrow> string \<Rightarrow> signed_checkpoint \<Rightarrow> put_request" where
  "put_request_of P sink key body c =
     \<lparr>pr_bucket = sk_bucket sink, pr_key = key, pr_body = body, pr_content_type = ''application/json'',
      pr_checksum_sha256 = b64encode (bytes_of_hex (sha256_hex P body)),
      pr_metadata = [(''checkpoint-sha256'', sha256_hex P body)], pr_lock_mode = ''COMPLIANCE'',
      pr_retain_until = retention_request_deadline (cp_retention_until (sc_payload c)),
      pr_if_none_match = ''*''\<rparr>"

text \<open>
  \<open>publish\<close>: a failed precondition means that the object exists, and the copy is then verified. The
  result comes with the state of the store; \<open>now\<close> is the clock.
\<close>

definition publish_s3 ::
  "primitives \<Rightarrow> (instant \<Rightarrow> string) \<Rightarrow> instant \<Rightarrow> 's s3_client \<Rightarrow> s3_sink \<Rightarrow> signed_checkpoint \<Rightarrow> 's
     \<Rightarrow> publication result \<times> 's" where
  "publish_s3 P isotime now client sink c st =
     (if cp_retention_until (sc_payload c) \<le> now
      then (Inl (CheckpointPublicationError ''checkpoint retention must be in the future''), st)
      else
        (case get_object_lock_configuration client (sk_bucket sink) st of
           Inl _ \<Rightarrow> (Inl (CheckpointPublicationError ''could not verify S3 Object Lock configuration''), st)
         | Inr enabled \<Rightarrow>
             if enabled \<noteq> Some ''Enabled''
             then (Inl (CheckpointPublicationError ''S3 bucket does not have Object Lock enabled''), st)
             else
               let key = sk_prefix sink @ ''/'' @ checkpoint_object_key c in
               (case canonical_bytes P isotime c of
                  Inl e \<Rightarrow> (Inl e, st)
                | Inr body \<Rightarrow>
                    (case put_object client (put_request_of P sink key body c) st of
                       (error, st') \<Rightarrow>
                         if (case error of None \<Rightarrow> False | Some code \<Rightarrow> code \<notin> {''PreconditionFailed'', ''412''})
                         then (Inl (CheckpointPublicationError ''S3 checkpoint publication failed''), st')
                         else
                           (bind_result (verify_copy client sink now c key body (sha256_hex P body) st')
                              (\<lambda>receipt. validate_publication
                                 \<lparr>pb_checkpoint = c, pb_destination = or_destination receipt, pb_object_key = key,
                                  pb_published_at = or_verified_at receipt, pb_copies = [receipt],
                                  pb_required_copies = 1, pb_failed_destinations = []\<rparr>), st')))))"

subsection \<open>Replication\<close>

record 'sink replicated_sink =
  rp_sinks :: "'sink list"
  rp_required_copies :: int

definition replicated_sink_of ::
  "('sink \<Rightarrow> string) \<Rightarrow> 'sink list \<Rightarrow> int option \<Rightarrow> 'sink replicated_sink result" where
  "replicated_sink_of name sinks required_copies =
     (let n = length sinks;
          resolved = (case required_copies of None \<Rightarrow> int n | Some r \<Rightarrow> r) in
      if \<not> (2 \<le> n \<and> n \<le> 5) then Inl (ValueError ''checkpoint replication requires two to five destinations'')
      else if \<not> distinct (map name sinks)
      then Inl (ValueError ''checkpoint replication destination IDs must be unique'')
      else if \<not> (1 \<le> resolved \<and> resolved \<le> int n)
      then Inl (ValueError ''required checkpoint copies must fit the destination count'')
      else Inr \<lparr>rp_sinks = sinks, rp_required_copies = resolved\<rparr>)"

text \<open>The loop over the sinks, for the \<open>publish\<close> and the name of a sink: the copies and the failures.\<close>

fun publish_copies ::
  "('sink \<Rightarrow> signed_checkpoint \<Rightarrow> 's \<Rightarrow> publication result \<times> 's) \<Rightarrow> ('sink \<Rightarrow> string) \<Rightarrow> signed_checkpoint
     \<Rightarrow> 'sink list \<Rightarrow> object_receipt list \<Rightarrow> string list \<Rightarrow> 's
     \<Rightarrow> (object_receipt list \<times> string list) result \<times> 's" where
  "publish_copies publish name c [] copies failures st = (Inr (copies, failures), st)"
| "publish_copies publish name c (sink # sinks) copies failures st =
     (case publish sink c st of
        (Inr p, st') \<Rightarrow> publish_copies publish name c sinks (copies @ pb_copies p) failures st'
      | (Inl (CheckpointPublicationError _), st') \<Rightarrow>
          publish_copies publish name c sinks copies (failures @ [name sink]) st'
      | (Inl e, st') \<Rightarrow> (Inl e, st'))"

definition publish_replicated ::
  "('sink \<Rightarrow> signed_checkpoint \<Rightarrow> 's \<Rightarrow> publication result \<times> 's) \<Rightarrow> ('sink \<Rightarrow> string)
     \<Rightarrow> 'sink replicated_sink \<Rightarrow> signed_checkpoint \<Rightarrow> 's \<Rightarrow> publication result \<times> 's" where
  "publish_replicated publish name r c st =
     (case publish_copies publish name c (rp_sinks r) [] [] st of
        (Inl e, st') \<Rightarrow> (Inl e, st')
      | (Inr (copies, failures), st') \<Rightarrow>
          if int (length copies) < rp_required_copies r
          then (Inl (CheckpointPublicationError ''checkpoint replication durability policy was not met''), st')
          else (validate_publication
            \<lparr>pb_checkpoint = c,
             pb_destination = ''replicated://'' @ nat_str (length copies) @ ''-of-'' @ nat_str (length (rp_sinks r)),
             pb_object_key = checkpoint_object_key c,
             pb_published_at = Max (set (map or_verified_at copies)), pb_copies = copies,
             pb_required_copies = rp_required_copies r, pb_failed_destinations = failures\<rparr>, st'))"

text \<open>
  \<open>from_environment\<close>, for the two sinks the environment configures; \<open>parse_int\<close> is \<open>int\<close> on text.
\<close>

datatype environment_sink = No_sink | Single_sink s3_sink | Replicated_sink "s3_sink replicated_sink"

definition environment_integer :: "(string \<Rightarrow> int option) \<Rightarrow> string option \<Rightarrow> int \<Rightarrow> int result" where
  "environment_integer parse_int value default_value =
     (case value of None \<Rightarrow> Inr default_value
      | Some v \<Rightarrow> (case parse_int v of None \<Rightarrow> Inl (ValueError ''must be an integer'') | Some n \<Rightarrow> Inr n))"

definition sink_from_environment ::
  "string option \<Rightarrow> string option \<Rightarrow> string option \<Rightarrow> string \<Rightarrow> s3_sink option result" where
  "sink_from_environment bucket prefix region destination_id =
     (case bucket of
        Some (b # bs) \<Rightarrow>
          bind_result (s3_sink_of (b # bs) (case prefix of None \<Rightarrow> ''aecontrol/checkpoints'' | Some p \<Rightarrow> p)
            destination_id region) (\<lambda>s. Inr (Some s))
      | _ \<Rightarrow> Inr None)"

definition checkpoint_sink_from_environment ::
  "(string \<Rightarrow> int option) \<Rightarrow> s3_sink option \<Rightarrow> s3_sink option \<Rightarrow> string option \<Rightarrow> environment_sink result" where
  "checkpoint_sink_from_environment parse_int primary replica required_env =
     (case (primary, replica) of
        (None, Some _) \<Rightarrow> Inl (ValueError ''primary checkpoint S3 bucket is required with a replica'')
      | (None, None) \<Rightarrow> Inr No_sink
      | (Some p, None) \<Rightarrow> Inr (Single_sink p)
      | (Some p, Some r) \<Rightarrow>
          bind_result (environment_integer parse_int required_env 2) (\<lambda>required.
          bind_result (replicated_sink_of sk_destination_id [p, r] (Some required))
            (\<lambda>s. Inr (Replicated_sink s))))"

end
