(* ===== verification/Ledger.thy ===== *)
theory Ledger
  imports Integrity Tenant_Table
begin

section \<open>Artifacts and their ledger (\<open>store.py\<close>)\<close>

text \<open>
  The tables of evaluation runs, comparisons and guardrail evidence, each row with its payload,
  digest and signature envelope, and the append-only ledger that chains their digests. Saving an
  artifact writes its row and appends to the ledger in one transaction; reading one verifies it;
  \<open>verify_artifacts\<close> and \<open>verify_artifact_ledger\<close> audit the whole tenant.

  \<open>jsonb\<close> is what PostgreSQL gives back for a JSON value stored in a JSONB column.
\<close>

datatype artifact_kind = Run | Comparison | Guardrail_evidence

fun kind_str :: "artifact_kind \<Rightarrow> string" where
  "kind_str Run = ''run''"
| "kind_str Comparison = ''comparison''"
| "kind_str Guardrail_evidence = ''guardrail_evidence''"

type_synonym envelope = "sha256 \<times> string option \<times> string option \<times> string option"

record artifact_row =
  ar_id :: uuid
  ar_payload :: json
  ar_payload_sha256 :: sha256
  ar_signature_algorithm :: "string option"
  ar_signing_key_id :: "string option"
  ar_signature :: "string option"

record ledger_row =
  lr_sequence :: int
  lr_kind :: artifact_kind
  lr_artifact_id :: uuid
  lr_payload_sha256 :: sha256
  lr_signature_algorithm :: "string option"
  lr_signing_key_id :: "string option"
  lr_signature :: "string option"
  lr_previous :: sha256
  lr_entry :: sha256

record artifact_db =
  ad_runs :: "artifact_row table"
  ad_comparisons :: "artifact_row table"
  ad_evidence :: "artifact_row table"
  ad_ledger :: "ledger_row table"

definition artifact_envelope :: "artifact_row \<Rightarrow> envelope" where
  "artifact_envelope r =
     (ar_payload_sha256 r, ar_signature_algorithm r, ar_signing_key_id r, ar_signature r)"

definition ledger_envelope :: "ledger_row \<Rightarrow> envelope" where
  "ledger_envelope r =
     (lr_payload_sha256 r, lr_signature_algorithm r, lr_signing_key_id r, lr_signature r)"

fun source_table :: "artifact_kind \<Rightarrow> 'a artifact_db_scheme \<Rightarrow> artifact_row table" where
  "source_table Run db = ad_runs db"
| "source_table Comparison db = ad_comparisons db"
| "source_table Guardrail_evidence db = ad_evidence db"

subsection \<open>Appending to the ledger\<close>

definition ledger_head :: "ledger_row list \<Rightarrow> ledger_row option" where
  "ledger_head rows = (case sort_key (\<lambda>r. - lr_sequence r) rows of [] \<Rightarrow> None | r # _ \<Rightarrow> Some r)"

definition ledger_entry_row ::
  "primitives \<Rightarrow> tenant \<Rightarrow> artifact_kind \<Rightarrow> uuid \<Rightarrow> envelope \<Rightarrow> ledger_row option \<Rightarrow> ledger_row result" where
  "ledger_entry_row P t kind i = (\<lambda>(sha, algorithm, key_id, signature) latest.
     let sequence = (case latest of None \<Rightarrow> 1 | Some r \<Rightarrow> lr_sequence r + 1);
         previous = (case latest of None \<Rightarrow> LEDGER_GENESIS_SHA256 | Some r \<Rightarrow> lr_entry r) in
     bind_result (ledger_entry_digest P t sequence (kind_str kind) i sha algorithm key_id signature previous)
       (\<lambda>entry.
         if \<not> (1 \<le> sequence \<and> is_sha256 sha \<and> is_sha256 previous \<and> is_sha256 entry)
         then Inl (CheckViolation ''artifact_ledger'')
         else Inr \<lparr>lr_sequence = sequence, lr_kind = kind, lr_artifact_id = i, lr_payload_sha256 = sha,
                   lr_signature_algorithm = algorithm, lr_signing_key_id = key_id,
                   lr_signature = signature, lr_previous = previous, lr_entry = entry\<rparr>))"

definition append_ledger_values ::
  "primitives \<Rightarrow> tenant \<Rightarrow> artifact_kind \<Rightarrow> uuid \<Rightarrow> envelope \<Rightarrow> bool \<Rightarrow> ledger_row table
     \<Rightarrow> ledger_row table result" where
  "append_ledger_values P t kind i envelope require_match ledger =
     (case find (\<lambda>r. lr_kind r = kind \<and> lr_artifact_id r = i) (visible t ledger) of
        Some existing \<Rightarrow>
          if require_match \<and> ledger_envelope existing \<noteq> envelope
          then Inl (RuntimeError ''artifact ledger conflict'')
          else Inr ledger
      | None \<Rightarrow>
          bind_result (ledger_entry_row P t kind i envelope (ledger_head (visible t ledger)))
            (\<lambda>row. Inr (insert_row t row ledger)))"

subsection \<open>Saving\<close>

definition sign_artifact ::
  "primitives \<Rightarrow> keyring option \<Rightarrow> string \<Rightarrow> uuid \<Rightarrow> sha256
     \<Rightarrow> (string option \<times> string option \<times> string option) result" where
  "sign_artifact P kr artifact_type artifact_id payload_sha256 =
     (case kr of None \<Rightarrow> Inr (None, None, None)
      | Some k \<Rightarrow> bind_result (keyring_sign P k artifact_type artifact_id payload_sha256)
          (\<lambda>signature. Inr (active_algorithm k, active_key_id k, Some signature)))"

text \<open>\<open>ON CONFLICT(run_id) DO UPDATE\<close>; the conflicting row of another tenant is not visible.\<close>

definition upsert_run :: "tenant \<Rightarrow> artifact_row \<Rightarrow> artifact_row table \<Rightarrow> artifact_row table result" where
  "upsert_run t row tbl =
     (if ar_id row \<in> set (map ar_id (visible t tbl))
      then Inr (update_where t (\<lambda>r. ar_id r = ar_id row) (\<lambda>_. row) tbl)
      else if ar_id row \<in> set (map (ar_id \<circ> snd) tbl)
      then Inl (InsufficientPrivilege ''evaluation_runs'')
      else Inr (insert_row t row tbl))"

definition insert_artifact :: "tenant \<Rightarrow> artifact_row \<Rightarrow> artifact_row table \<Rightarrow> artifact_row table result" where
  "insert_artifact t row tbl =
     (if ar_id row \<in> set (map (ar_id \<circ> snd) tbl) then Inl (UniqueViolation ''pkey'')
      else Inr (insert_row t row tbl))"

definition artifact_row_of ::
  "primitives \<Rightarrow> keyring option \<Rightarrow> (json \<Rightarrow> json) \<Rightarrow> artifact_kind \<Rightarrow> uuid \<Rightarrow> json \<Rightarrow> artifact_row result" where
  "artifact_row_of P kr jsonb kind i payload =
     bind_result (digest_of P payload) (\<lambda>digest.
     bind_result (sign_artifact P kr (kind_str kind) i digest) (\<lambda>(algorithm, key_id, signature).
       Inr \<lparr>ar_id = i, ar_payload = jsonb payload, ar_payload_sha256 = digest,
            ar_signature_algorithm = algorithm, ar_signing_key_id = key_id, ar_signature = signature\<rparr>))"

definition append_artifact_ledger ::
  "primitives \<Rightarrow> tenant \<Rightarrow> artifact_kind \<Rightarrow> artifact_row \<Rightarrow> artifact_db \<Rightarrow> artifact_db result" where
  "append_artifact_ledger P t kind row db =
     bind_result (append_ledger_values P t kind (ar_id row) (artifact_envelope row) True (ad_ledger db))
       (\<lambda>ledger. Inr (db\<lparr>ad_ledger := ledger\<rparr>))"

definition save_run ::
  "primitives \<Rightarrow> keyring option \<Rightarrow> (json \<Rightarrow> json) \<Rightarrow> tenant \<Rightarrow> uuid \<Rightarrow> json \<Rightarrow> artifact_db \<Rightarrow> artifact_db result" where
  "save_run P kr jsonb t i payload db =
     bind_result (artifact_row_of P kr jsonb Run i payload) (\<lambda>row.
     bind_result (upsert_run t row (ad_runs db)) (\<lambda>runs.
       append_artifact_ledger P t Run row (db\<lparr>ad_runs := runs\<rparr>)))"

text \<open>\<open>i\<close> is the \<open>uuid4()\<close> of the stored comparison; both runs must be runs of the tenant.\<close>

definition save_comparison ::
  "primitives \<Rightarrow> keyring option \<Rightarrow> (json \<Rightarrow> json) \<Rightarrow> tenant \<Rightarrow> uuid \<Rightarrow> uuid \<Rightarrow> uuid \<Rightarrow> json \<Rightarrow> artifact_db
     \<Rightarrow> artifact_db result" where
  "save_comparison P kr jsonb t i baseline_run candidate_run payload db =
     bind_result (artifact_row_of P kr jsonb Comparison i payload) (\<lambda>row.
     bind_result (insert_artifact t row (ad_comparisons db)) (\<lambda>comparisons.
       if \<not> {baseline_run, candidate_run} \<subseteq> set (map ar_id (visible t (ad_runs db)))
       then Inl (ForeignKeyViolation ''comparisons_tenant_run_fkey'')
       else append_artifact_ledger P t Comparison row (db\<lparr>ad_comparisons := comparisons\<rparr>)))"

definition save_guardrail_evidence ::
  "primitives \<Rightarrow> keyring option \<Rightarrow> (json \<Rightarrow> json) \<Rightarrow> tenant \<Rightarrow> uuid \<Rightarrow> json \<Rightarrow> artifact_db \<Rightarrow> artifact_db result" where
  "save_guardrail_evidence P kr jsonb t i payload db =
     bind_result (artifact_row_of P kr jsonb Guardrail_evidence i payload) (\<lambda>row.
     bind_result (insert_artifact t row (ad_evidence db)) (\<lambda>evidence.
       append_artifact_ledger P t Guardrail_evidence row (db\<lparr>ad_evidence := evidence\<rparr>)))"

subsection \<open>Reading\<close>

definition authenticity_error ::
  "string \<Rightarrow> uuid \<Rightarrow> string option \<Rightarrow> string option \<Rightarrow> string \<Rightarrow> exn" where
  "authenticity_error artifact_type artifact_id algorithm key_id reason =
     ArtifactAuthenticityError artifact_type artifact_id key_id reason algorithm"

definition verify_authenticity ::
  "primitives \<Rightarrow> keyring option \<Rightarrow> string \<Rightarrow> uuid \<Rightarrow> sha256 \<Rightarrow> string option \<Rightarrow> string option
     \<Rightarrow> string option \<Rightarrow> unit result" where
  "verify_authenticity P kr artifact_type artifact_id payload_sha256 algorithm key_id signature =
     (let error = authenticity_error artifact_type artifact_id algorithm key_id in
      case (algorithm, key_id, signature) of
        (None, None, None) \<Rightarrow> Inr ()
      | (Some a, Some k, Some s) \<Rightarrow>
          (case kr of None \<Rightarrow> Inl (error ''missing_signing_key'')
           | Some keyring \<Rightarrow>
               (case keyring_verify P keyring a k artifact_type artifact_id payload_sha256 s of
                  Inl (KeyError _) \<Rightarrow> Inl (error ''missing_signing_key'')
                | Inl (ValueError _) \<Rightarrow> Inl (error ''signature'')
                | Inl e \<Rightarrow> Inl e
                | Inr valid \<Rightarrow> if \<not> valid then Inl (error ''signature'') else Inr ()))
      | _ \<Rightarrow> Inl (error ''incomplete_signature''))"

definition verify_artifact ::
  "primitives \<Rightarrow> keyring option \<Rightarrow> artifact_kind \<Rightarrow> artifact_row \<Rightarrow> unit result" where
  "verify_artifact P kr kind r =
     bind_result (digest_of P (ar_payload r)) (\<lambda>actual.
     bind_result (compare_digest actual (ar_payload_sha256 r)) (\<lambda>same.
       if \<not> same then Inl (ArtifactIntegrityError (kind_str kind) (ar_id r) (ar_payload_sha256 r) actual)
       else verify_authenticity P kr (kind_str kind) (ar_id r) (ar_payload_sha256 r)
              (ar_signature_algorithm r) (ar_signing_key_id r) (ar_signature r)))"

text \<open>\<open>get_run\<close>, \<open>get_comparison\<close> and \<open>get_guardrail_evidence\<close>; the payload is then validated by its model.\<close>

definition get_artifact ::
  "primitives \<Rightarrow> keyring option \<Rightarrow> tenant \<Rightarrow> artifact_kind \<Rightarrow> uuid \<Rightarrow> 'a artifact_db_scheme \<Rightarrow> json result" where
  "get_artifact P kr t kind i db =
     (case find (\<lambda>r. ar_id r = i) (visible t (source_table kind db)) of
        None \<Rightarrow> Inl (KeyError (uuid_str i))
      | Some r \<Rightarrow> bind_result (verify_artifact P kr kind r) (\<lambda>_. Inr (ar_payload r)))"

end
