(* ===== verification/Ledger_Audit.thy ===== *)
theory Ledger_Audit
  imports Ledger
begin

section \<open>Auditing a tenant's artifacts (\<open>store.py\<close>)\<close>

text \<open>
  The full audit of the artifacts of a tenant and of its ledger, and the two migrations of a start-up
  that fill in digests, signature envelopes and the ledger for rows of earlier versions.
\<close>

subsection \<open>Artifacts\<close>

datatype failure_kind = Digest | Signature | Missing_signing_key

record integrity_item =
  it_kind :: artifact_kind
  it_artifact_id :: uuid
  it_expected_sha256 :: sha256
  it_actual_sha256 :: sha256
  it_failure_kind :: failure_kind
  it_signature_algorithm :: "string option"
  it_signing_key_id :: "string option"

text \<open>The validation of \<open>ArtifactIntegrityItem\<close> rejects a digest that is not 64 hexadecimal digits.\<close>

definition integrity_item_of ::
  "artifact_kind \<Rightarrow> artifact_row \<Rightarrow> sha256 \<Rightarrow> failure_kind \<Rightarrow> string option \<Rightarrow> string option
     \<Rightarrow> integrity_item result" where
  "integrity_item_of kind r actual failure algorithm key_id =
     (if \<not> (is_sha256 (ar_payload_sha256 r) \<and> is_sha256 actual)
      then Inl (ValidationError ''ArtifactIntegrityItem'')
      else Inr \<lparr>it_kind = kind, it_artifact_id = ar_id r, it_expected_sha256 = ar_payload_sha256 r,
                it_actual_sha256 = actual, it_failure_kind = failure,
                it_signature_algorithm = algorithm, it_signing_key_id = key_id\<rparr>)"

record audit =
  au_checked :: nat
  au_signed :: nat
  au_unsigned :: nat
  au_algorithms :: "(string, nat) dict"
  au_failures :: "integrity_item list"

definition is_signed :: "artifact_row \<Rightarrow> bool" where
  "is_signed r \<longleftrightarrow>
     ar_signature_algorithm r \<noteq> None \<or> ar_signing_key_id r \<noteq> None \<or> ar_signature r \<noteq> None"

definition count_row :: "artifact_row \<Rightarrow> audit \<Rightarrow> audit" where
  "count_row r a =
     a\<lparr>au_checked := au_checked a + 1,
       au_signed := au_signed a + of_bool (is_signed r),
       au_unsigned := au_unsigned a + of_bool (\<not> is_signed r),
       au_algorithms := (case ar_signature_algorithm r of None \<Rightarrow> au_algorithms a
         | Some algorithm \<Rightarrow>
             dict_set algorithm (dict_get (au_algorithms a) algorithm 0 + 1) (au_algorithms a))\<rparr>"

definition add_failure :: "audit \<Rightarrow> integrity_item result \<Rightarrow> audit result" where
  "add_failure a item = bind_result item (\<lambda>i. Inr (a\<lparr>au_failures := au_failures a @ [i]\<rparr>))"

definition audit_row ::
  "primitives \<Rightarrow> keyring option \<Rightarrow> artifact_kind \<Rightarrow> artifact_row \<Rightarrow> audit \<Rightarrow> audit result" where
  "audit_row P kr kind r a =
     bind_result (digest_of P (ar_payload r)) (\<lambda>actual.
     let a' = count_row r a in
     bind_result (compare_digest actual (ar_payload_sha256 r)) (\<lambda>same.
       if \<not> same then add_failure a' (integrity_item_of kind r actual Digest None None)
       else
         (case verify_authenticity P kr (kind_str kind) (ar_id r) (ar_payload_sha256 r)
                 (ar_signature_algorithm r) (ar_signing_key_id r) (ar_signature r) of
            Inr _ \<Rightarrow> Inr a'
          | Inl (ArtifactAuthenticityError _ _ key_id reason algorithm) \<Rightarrow>
              add_failure a' (integrity_item_of kind r actual
                (if reason = ''missing_signing_key'' then Missing_signing_key else Signature)
                algorithm key_id)
          | Inl e \<Rightarrow> Inl e)))"

text \<open>The rows of the three tables, each with its kind, in the order they are checked.\<close>

definition artifact_rows :: "tenant \<Rightarrow> 'a artifact_db_scheme \<Rightarrow> (artifact_kind \<times> artifact_row) list" where
  "artifact_rows t db = concat (map (\<lambda>kind. map (Pair kind) (visible t (source_table kind db)))
     [Run, Comparison, Guardrail_evidence])"

definition audit0 :: audit where
  "audit0 = \<lparr>au_checked = 0, au_signed = 0, au_unsigned = 0, au_algorithms = [], au_failures = []\<rparr>"

definition audit_artifacts ::
  "primitives \<Rightarrow> keyring option \<Rightarrow> tenant \<Rightarrow> 'a artifact_db_scheme \<Rightarrow> audit result" where
  "audit_artifacts P kr t db =
     fold_result (\<lambda>(kind, r). audit_row P kr kind r) (artifact_rows t db) audit0"

subsection \<open>The ledger\<close>

datatype ledger_failure_reason =
  Sequence_gap | Previous_hash | Entry_hash | Missing_artifact | Artifact_mismatch

record ledger_failure =
  lf_sequence :: int
  lf_kind :: artifact_kind
  lf_artifact_id :: uuid
  lf_reason :: ledger_failure_reason

text \<open>The dictionary of source envelopes; the last row of an id wins.\<close>

definition source_envelope ::
  "tenant \<Rightarrow> 'a artifact_db_scheme \<Rightarrow> artifact_kind \<Rightarrow> uuid \<Rightarrow> envelope option" where
  "source_envelope t db kind i =
     map_option artifact_envelope (find (\<lambda>r. ar_id r = i) (rev (visible t (source_table kind db))))"

definition check_ledger_row ::
  "primitives \<Rightarrow> tenant \<Rightarrow> (artifact_kind \<Rightarrow> uuid \<Rightarrow> envelope option) \<Rightarrow> sha256 \<Rightarrow> int \<Rightarrow> ledger_row
     \<Rightarrow> ledger_failure_reason option result" where
  "check_ledger_row P t sources previous expected_sequence r =
     bind_result (ledger_entry_digest P t (lr_sequence r) (kind_str (lr_kind r)) (lr_artifact_id r)
       (lr_payload_sha256 r) (lr_signature_algorithm r) (lr_signing_key_id r) (lr_signature r)
       (lr_previous r)) (\<lambda>expected_entry.
     if lr_sequence r \<noteq> expected_sequence then Inr (Some Sequence_gap)
     else bind_result (compare_digest (lr_previous r) previous) (\<lambda>same_previous.
       if \<not> same_previous then Inr (Some Previous_hash)
       else bind_result (compare_digest (lr_entry r) expected_entry) (\<lambda>same_entry.
         if \<not> same_entry then Inr (Some Entry_hash)
         else (case sources (lr_kind r) (lr_artifact_id r) of
                 None \<Rightarrow> Inr (Some Missing_artifact)
               | Some e \<Rightarrow>
                   if e \<noteq> ledger_envelope r then Inr (Some Artifact_mismatch) else Inr None))))"

fun check_ledger ::
  "primitives \<Rightarrow> tenant \<Rightarrow> (artifact_kind \<Rightarrow> uuid \<Rightarrow> envelope option) \<Rightarrow> sha256 \<Rightarrow> int \<Rightarrow> ledger_row list
     \<Rightarrow> (sha256 \<times> ledger_failure list) result" where
  "check_ledger P t sources previous expected_sequence [] = Inr (previous, [])"
| "check_ledger P t sources previous expected_sequence (r # rows) =
     bind_result (check_ledger_row P t sources previous expected_sequence r) (\<lambda>failure.
     bind_result (check_ledger P t sources (lr_entry r) (lr_sequence r + 1) rows) (\<lambda>(head, failures).
       Inr (head, (case failure of None \<Rightarrow> [] | Some reason \<Rightarrow>
              [\<lparr>lf_sequence = lr_sequence r, lf_kind = lr_kind r, lf_artifact_id = lr_artifact_id r,
                lf_reason = reason\<rparr>]) @ failures)))"

text \<open>\<open>ORDER BY sequence\<close>; the result is (checked, valid, head, failures).\<close>

definition ledger_rows :: "tenant \<Rightarrow> 'a artifact_db_scheme \<Rightarrow> ledger_row list" where
  "ledger_rows t db = sort_key lr_sequence (visible t (ad_ledger db))"

definition verify_artifact_ledger ::
  "primitives \<Rightarrow> tenant \<Rightarrow> 'a artifact_db_scheme \<Rightarrow> (nat \<times> nat \<times> sha256 \<times> ledger_failure list) result" where
  "verify_artifact_ledger P t db =
     bind_result (check_ledger P t (source_envelope t db) LEDGER_GENESIS_SHA256 1 (ledger_rows t db))
       (\<lambda>(head, failures).
         Inr (length (ledger_rows t db), length (ledger_rows t db) - length failures, head, failures))"

subsection \<open>Migrations\<close>

text \<open>
  A stored row of an earlier version may have no digest, and an HMAC signature in its own column.
  The migration runs with row-level security off, over all tenants.
\<close>

record legacy_row =
  lg_id :: uuid
  lg_payload :: json
  lg_payload_sha256 :: "sha256 option"
  lg_signature_hmac_sha256 :: "string option"
  lg_signature_algorithm :: "string option"
  lg_signing_key_id :: "string option"
  lg_signature :: "string option"

definition backfill_digest :: "primitives \<Rightarrow> legacy_row \<Rightarrow> legacy_row result" where
  "backfill_digest P r =
     (case lg_payload_sha256 r of Some _ \<Rightarrow> Inr r
      | None \<Rightarrow> bind_result (digest_of P (lg_payload r)) (\<lambda>d. Inr (r\<lparr>lg_payload_sha256 := Some d\<rparr>)))"

definition migrate_signature_envelope :: "legacy_row \<Rightarrow> legacy_row" where
  "migrate_signature_envelope r =
     (if lg_signature_algorithm r = None \<and> lg_signature r = None \<and> lg_signing_key_id r \<noteq> None \<and>
         lg_signature_hmac_sha256 r \<noteq> None
      then r\<lparr>lg_signature_algorithm := Some HMAC_SHA256, lg_signature := lg_signature_hmac_sha256 r\<rparr>
      else r)"

text \<open>
  \<open>_backfill_artifact_ledger\<close> over the rows of all tables in the order of its query: a row that has a
  ledger entry, whatever its envelope, is left alone.
\<close>

definition backfill_artifact_ledger ::
  "primitives \<Rightarrow> (tenant \<times> artifact_kind \<times> artifact_row) list \<Rightarrow> ledger_row table
     \<Rightarrow> ledger_row table result" where
  "backfill_artifact_ledger P rows =
     fold_result (\<lambda>(t, kind, r). append_ledger_values P t kind (ar_id r) (artifact_envelope r) False) rows"

end
