(* ===== verification/Checkpoint_Store.thy ===== *)
theory Checkpoint_Store
  imports Checkpoints Ledger_Audit
begin

section \<open>Checkpoints of the store (\<open>store.py\<close>)\<close>

text \<open>
  Creating a signed checkpoint of a tenant's ledger head, listing them, and the part of the audit that
  compares every stored checkpoint with its own columns and with the ledger. \<open>parse\<close> decodes the fields
  of a stored payload (\<open>None\<close> when a field does not decode); the validators are the ones of \<open>Checkpoints\<close>.
\<close>

record checkpoint_row =
  ck_checkpoint_id :: uuid
  ck_ledger_sequence :: int
  ck_ledger_entries :: int
  ck_ledger_head_sha256 :: sha256
  ck_created_at :: instant
  ck_retention_until :: instant
  ck_payload :: json
  ck_payload_sha256 :: sha256
  ck_signature_algorithm :: string
  ck_signing_key_id :: string
  ck_signature :: string

record checkpoint_db = artifact_db +
  cd_checkpoints :: "checkpoint_row table"

definition parse_payload ::
  "(json \<Rightarrow> checkpoint_payload option) \<Rightarrow> json \<Rightarrow> checkpoint_payload result" where
  "parse_payload parse v =
     (case parse v of None \<Rightarrow> Inl (ValidationError ''LedgerCheckpointPayload'')
      | Some p \<Rightarrow> validate_payload p)"

definition signed_of_row :: "checkpoint_payload \<Rightarrow> checkpoint_row \<Rightarrow> signed_checkpoint" where
  "signed_of_row p r =
     \<lparr>sc_payload = p, sc_payload_sha256 = ck_payload_sha256 r,
      sc_signature_algorithm = ck_signature_algorithm r, sc_signing_key_id = ck_signing_key_id r,
      sc_signature = ck_signature r\<rparr>"

definition checkpoint_from_row ::
  "primitives \<Rightarrow> keyring option \<Rightarrow> (instant \<Rightarrow> string) \<Rightarrow> (json \<Rightarrow> checkpoint_payload option)
     \<Rightarrow> checkpoint_row \<Rightarrow> signed_checkpoint result" where
  "checkpoint_from_row P kr isotime parse r =
     bind_result (parse_payload parse (ck_payload r)) (\<lambda>p.
     bind_result (validate_signed (signed_of_row p r)) (\<lambda>c.
     bind_result (case kr of None \<Rightarrow> Inr False | Some k \<Rightarrow> verify_checkpoint P isotime c k) (\<lambda>valid.
       if \<not> valid then Inl ArtifactVerificationError else Inr c)))"

definition head_sequence :: "ledger_row option \<Rightarrow> int" where
  "head_sequence h = (case h of None \<Rightarrow> 0 | Some r \<Rightarrow> lr_sequence r)"

definition head_sha256 :: "ledger_row option \<Rightarrow> sha256" where
  "head_sha256 h = (case h of None \<Rightarrow> LEDGER_GENESIS_SHA256 | Some r \<Rightarrow> lr_entry r)"

text \<open>The most recent checkpoint of this head that is not older than five minutes.\<close>

definition recent_checkpoint ::
  "instant \<Rightarrow> int \<Rightarrow> sha256 \<Rightarrow> checkpoint_row list \<Rightarrow> checkpoint_row option" where
  "recent_checkpoint now sequence head rows =
     (case sort_key (\<lambda>r. - ck_created_at r)
             (filter (\<lambda>r. ck_ledger_sequence r = sequence \<and> ck_ledger_head_sha256 r = head \<and>
                ck_created_at r \<ge> now - 5 * minute) rows) of
        [] \<Rightarrow> None | r # _ \<Rightarrow> Some r)"

definition row_of_signed :: "(json \<Rightarrow> json) \<Rightarrow> (instant \<Rightarrow> string) \<Rightarrow> signed_checkpoint \<Rightarrow> checkpoint_row" where
  "row_of_signed jsonb isotime c = (let p = sc_payload c in
     \<lparr>ck_checkpoint_id = cp_checkpoint_id p, ck_ledger_sequence = cp_ledger_sequence p,
      ck_ledger_entries = cp_ledger_entries p, ck_ledger_head_sha256 = cp_ledger_head_sha256 p,
      ck_created_at = cp_created_at p, ck_retention_until = cp_retention_until p,
      ck_payload = jsonb (payload_json isotime p), ck_payload_sha256 = sc_payload_sha256 c,
      ck_signature_algorithm = ED25519, ck_signing_key_id = sc_signing_key_id c,
      ck_signature = sc_signature c\<rparr>)"

text \<open>The new checkpoint; \<open>fresh_id\<close> is \<open>uuid4()\<close>, \<open>created\<close> the clock.\<close>

definition new_checkpoint ::
  "primitives \<Rightarrow> keyring \<Rightarrow> (instant \<Rightarrow> string) \<Rightarrow> tenant \<Rightarrow> string \<Rightarrow> int \<Rightarrow> uuid \<Rightarrow> instant \<Rightarrow> ledger_row list
     \<Rightarrow> signed_checkpoint result" where
  "new_checkpoint P k isotime t key_id retention_days fresh_id created ledger =
     (let head = ledger_head ledger in
      bind_result (validate_payload
        \<lparr>cp_checkpoint_id = fresh_id, cp_tenant_id = t, cp_ledger_sequence = head_sequence head,
         cp_ledger_entries = int (length ledger), cp_ledger_head_sha256 = head_sha256 head,
         cp_created_at = created, cp_retention_until = created + retention_days * day\<rparr>) (\<lambda>payload.
      bind_result (checkpoint_payload_digest P isotime payload) (\<lambda>digest.
      bind_result (keyring_sign P k ''ledger_checkpoint'' fresh_id digest) (\<lambda>signature.
        validate_signed \<lparr>sc_payload = payload, sc_payload_sha256 = digest, sc_signature_algorithm = ED25519,
          sc_signing_key_id = key_id, sc_signature = signature\<rparr>))))"

definition create_ledger_checkpoint ::
  "primitives \<Rightarrow> keyring option \<Rightarrow> (instant \<Rightarrow> string) \<Rightarrow> (json \<Rightarrow> checkpoint_payload option) \<Rightarrow> (json \<Rightarrow> json)
     \<Rightarrow> tenant \<Rightarrow> int \<Rightarrow> uuid \<Rightarrow> instant \<Rightarrow> instant \<Rightarrow> checkpoint_db
     \<Rightarrow> (checkpoint_db \<times> signed_checkpoint) result" where
  "create_ledger_checkpoint P kr isotime parse jsonb t retention_days fresh_id now created db =
     (if \<not> (1 \<le> retention_days \<and> retention_days \<le> 3650)
      then Inl (ValueError ''checkpoint retention must be between 1 and 3650 days'')
      else
        (case kr of
           Some k \<Rightarrow>
             (case active_key_id k of
                Some key_id \<Rightarrow>
                  if active_algorithm k \<noteq> Some ED25519
                  then Inl (ValueError ''ledger checkpoints require an active Ed25519 signing key'')
                  else
                    let ledger = visible t (ad_ledger db); head = ledger_head ledger in
                    (case recent_checkpoint now (head_sequence head) (head_sha256 head)
                            (visible t (cd_checkpoints db)) of
                       Some existing \<Rightarrow>
                         bind_result (checkpoint_from_row P kr isotime parse existing) (\<lambda>c. Inr (db, c))
                     | None \<Rightarrow>
                         bind_result (new_checkpoint P k isotime t key_id retention_days fresh_id created ledger)
                           (\<lambda>c. if fresh_id \<in> set (map ck_checkpoint_id (visible t (cd_checkpoints db)))
                              then Inl (UniqueViolation ''ledger_checkpoints_pkey'')
                              else Inr (db\<lparr>cd_checkpoints :=
                                insert_row t (row_of_signed jsonb isotime c) (cd_checkpoints db)\<rparr>, c)))
              | None \<Rightarrow> Inl (ValueError ''ledger checkpoints require an active Ed25519 signing key''))
         | None \<Rightarrow> Inl (ValueError ''ledger checkpoints require an active Ed25519 signing key'')))"

text \<open>\<open>ORDER BY ledger_sequence DESC, created_at DESC\<close>\<close>

definition list_ledger_checkpoints ::
  "primitives \<Rightarrow> keyring option \<Rightarrow> (instant \<Rightarrow> string) \<Rightarrow> (json \<Rightarrow> checkpoint_payload option)
     \<Rightarrow> tenant \<Rightarrow> checkpoint_db \<Rightarrow> signed_checkpoint list result" where
  "list_ledger_checkpoints P kr isotime parse t db =
     map_result (checkpoint_from_row P kr isotime parse)
       (sort_key (\<lambda>r. (- ck_ledger_sequence r, - ck_created_at r)) (visible t (cd_checkpoints db)))"

subsection \<open>Audit\<close>

datatype checkpoint_failure_reason = Payload_digest | Bad_signature | Envelope | Missing_sequence | Head_mismatch

record checkpoint_failure =
  kf_checkpoint_id :: uuid
  kf_ledger_sequence :: int
  kf_reason :: checkpoint_failure_reason

text \<open>The dictionary of entry hashes by sequence, with the genesis value at 0.\<close>

definition ledger_heads :: "ledger_row list \<Rightarrow> (int, sha256) dict" where
  "ledger_heads rows = dict_set 0 LEDGER_GENESIS_SHA256 (dict_of (map (\<lambda>r. (lr_sequence r, lr_entry r)) rows))"

definition envelope_mismatch :: "tenant \<Rightarrow> checkpoint_payload \<Rightarrow> checkpoint_row \<Rightarrow> bool" where
  "envelope_mismatch t p r \<longleftrightarrow>
     cp_checkpoint_id p \<noteq> ck_checkpoint_id r \<or> cp_tenant_id p \<noteq> t
   \<or> cp_ledger_sequence p \<noteq> ck_ledger_sequence r \<or> cp_ledger_entries p \<noteq> ck_ledger_entries r
   \<or> cp_ledger_entries p \<noteq> ck_ledger_sequence r \<or> cp_ledger_head_sha256 p \<noteq> ck_ledger_head_sha256 r
   \<or> cp_created_at p \<noteq> ck_created_at r \<or> cp_retention_until p \<noteq> ck_retention_until r"

definition check_checkpoint ::
  "primitives \<Rightarrow> keyring option \<Rightarrow> (instant \<Rightarrow> string) \<Rightarrow> (json \<Rightarrow> checkpoint_payload option) \<Rightarrow> tenant
     \<Rightarrow> (int, sha256) dict \<Rightarrow> checkpoint_row \<Rightarrow> checkpoint_failure_reason option result" where
  "check_checkpoint P kr isotime parse t heads r =
     (case parse_payload parse (ck_payload r) of
        Inl _ \<Rightarrow> Inr (Some Envelope)
      | Inr p \<Rightarrow>
          bind_result (checkpoint_payload_digest P isotime p) (\<lambda>digest.
          bind_result (compare_digest digest (ck_payload_sha256 r)) (\<lambda>same.
            if \<not> same then Inr (Some Payload_digest)
            else
              (case validate_signed (signed_of_row p r) of
                 Inl _ \<Rightarrow> Inr (Some Envelope)
               | Inr c \<Rightarrow>
                   bind_result (case kr of None \<Rightarrow> Inr False | Some k \<Rightarrow> verify_checkpoint P isotime c k) (\<lambda>valid.
                     if \<not> valid then Inr (Some Bad_signature)
                     else if envelope_mismatch t p r then Inr (Some Envelope)
                     else
                       (case map_of heads (ck_ledger_sequence r) of
                          None \<Rightarrow> Inr (Some Missing_sequence)
                        | Some head \<Rightarrow>
                            bind_result (compare_digest head (cp_ledger_head_sha256 p)) (\<lambda>same_head.
                              Inr (if \<not> same_head then Some Head_mismatch else None))))))))"

fun check_checkpoints ::
  "primitives \<Rightarrow> keyring option \<Rightarrow> (instant \<Rightarrow> string) \<Rightarrow> (json \<Rightarrow> checkpoint_payload option) \<Rightarrow> tenant
     \<Rightarrow> (int, sha256) dict \<Rightarrow> checkpoint_row list \<Rightarrow> checkpoint_failure list result" where
  "check_checkpoints P kr isotime parse t heads [] = Inr []"
| "check_checkpoints P kr isotime parse t heads (r # rows) =
     bind_result (check_checkpoint P kr isotime parse t heads r) (\<lambda>failure.
     bind_result (check_checkpoints P kr isotime parse t heads rows) (\<lambda>failures.
       Inr ((case failure of None \<Rightarrow> [] | Some reason \<Rightarrow>
         [\<lparr>kf_checkpoint_id = ck_checkpoint_id r, kf_ledger_sequence = ck_ledger_sequence r,
           kf_reason = reason\<rparr>]) @ failures)))"

definition verify_ledger_checkpoints ::
  "primitives \<Rightarrow> keyring option \<Rightarrow> (instant \<Rightarrow> string) \<Rightarrow> (json \<Rightarrow> checkpoint_payload option) \<Rightarrow> tenant
     \<Rightarrow> checkpoint_db \<Rightarrow> (nat \<times> nat \<times> checkpoint_failure list) result" where
  "verify_ledger_checkpoints P kr isotime parse t db =
     (let rows = sort_key (\<lambda>r. (ck_ledger_sequence r, ck_created_at r)) (visible t (cd_checkpoints db)) in
      bind_result (check_checkpoints P kr isotime parse t (ledger_heads (visible t (ad_ledger db))) rows)
        (\<lambda>failures. Inr (length rows, length rows - length failures, failures)))"

subsection \<open>The whole audit\<close>

record integrity_report =
  ir_audit :: audit
  ir_ledger :: "nat \<times> nat \<times> sha256 \<times> ledger_failure list"
  ir_checkpoints :: "nat \<times> nat \<times> checkpoint_failure list"

definition verify_artifacts ::
  "primitives \<Rightarrow> keyring option \<Rightarrow> (instant \<Rightarrow> string) \<Rightarrow> (json \<Rightarrow> checkpoint_payload option) \<Rightarrow> tenant
     \<Rightarrow> checkpoint_db \<Rightarrow> integrity_report result" where
  "verify_artifacts P kr isotime parse t db =
     bind_result (audit_artifacts P kr t db) (\<lambda>a.
     bind_result (verify_artifact_ledger P t db) (\<lambda>l.
     bind_result (verify_ledger_checkpoints P kr isotime parse t db) (\<lambda>c.
       Inr \<lparr>ir_audit = a\<lparr>au_algorithms := sort_key fst (au_algorithms a)\<rparr>, ir_ledger = l, ir_checkpoints = c\<rparr>)))"

end
