(* ===== verification/Recovery.thy ===== *)
theory Recovery
  imports Checkpoint_Store
begin

section \<open>Verification of a restored database (\<open>recovery.py\<close>)\<close>

text \<open>
  The read-only audit of a restored database against retained signed checkpoints: loading the
  checkpoint files, the checks of one checkpoint, the report, and its publication to a bucket under
  Object Lock. What the connection answers is the record \<open>restored\<close>; row-level security holds in the
  restored database, so the queries see the rows of the tenant that \<open>set_config\<close> bound. The file system
  and the JSON decoder are parameters.
\<close>

definition MAX_CHECKPOINT_BYTES :: nat where "MAX_CHECKPOINT_BYTES = 1024 * 1024"
definition MAX_RECOVERY_CHECKPOINTS :: nat where "MAX_RECOVERY_CHECKPOINTS = 16"
definition MAX_REPORTED_FAILURES_PER_CHECKPOINT :: nat where "MAX_REPORTED_FAILURES_PER_CHECKPOINT = 20"
definition SCHEMA_VERSION :: int where "SCHEMA_VERSION = 18"

text \<open>\<open>^[a-z0-9][a-z0-9-]{0,61}[a-z0-9]$|^[a-z0-9]$\<close>\<close>

definition DRILL_ID_PATTERN :: regex where
  "DRILL_ID_PATTERN =
     (let c = lower_az @ digits09 in
      Alt (Seq (Cls c) (Seq (up_to 61 (Cls (c @ one_char CHR ''-''))) (Cls c))) (Cls c))"

datatype recovery_failure_code =
    Schema_metadata | Schema_version | Recovery_in_progress | Checkpoint_future | Checkpoint_stale
  | Checkpoint_signature | Checkpoint_missing | Checkpoint_mismatch | Ledger_limit | Ledger_count
  | Ledger_sequence | Ledger_previous_hash | Ledger_entry_hash | Ledger_head | Artifact_missing
  | Artifact_digest | Artifact_envelope | Artifact_signature | Database_schema

record recovery_failure =
  rf_code :: recovery_failure_code
  rf_tenant_id :: "string option"
  rf_checkpoint_id :: "uuid option"
  rf_ledger_sequence :: "int option"
  rf_artifact_type :: "artifact_kind option"
  rf_artifact_id :: "uuid option"

record recovery_checkpoint_result =
  rc_checkpoint_id :: uuid
  rc_tenant_id :: string
  rc_ledger_sequence :: int
  rc_checkpoint_created_at :: instant
  rc_checkpoint_age_seconds :: rat
  rc_entries_checked :: nat
  rc_signed_artifacts :: nat
  rc_unsigned_artifacts :: nat
  rc_valid :: bool
  rc_failure_count :: nat
  rc_failures_truncated :: bool
  rc_failures :: "recovery_failure list"

record recovery_drill_report =
  rd_drill_id :: string
  rd_started_at :: instant
  rd_completed_at :: instant
  rd_database :: string
  rd_schema_name :: string
  rd_expected_schema_version :: int
  rd_observed_schema_version :: "int option"
  rd_transaction_read_only :: bool
  rd_recovery_in_progress :: bool
  rd_checkpoints_checked :: nat
  rd_checkpoints_valid :: nat
  rd_entries_checked :: nat
  rd_success :: bool
  rd_failure_count :: nat
  rd_failures_truncated :: bool
  rd_checkpoint_results :: "recovery_checkpoint_result list"
  rd_failures :: "recovery_failure list"

subsection \<open>Loading checkpoints\<close>

text \<open>
  What \<open>lstat\<close> says of a path, and what \<open>open\<close> without following links then reads of it. Another process
  may change the file in between, so the two answers are independent.
\<close>

datatype file_type = Regular | Symlink | Directory | Other_type

record file_view =
  fv_lstat :: "(file_type \<times> nat) option"
  fv_content :: "string option"

definition load_recovery_checkpoint ::
  "(string \<Rightarrow> signed_checkpoint option) \<Rightarrow> file_view \<Rightarrow> signed_checkpoint result" where
  "load_recovery_checkpoint parse_signed f =
     (case fv_lstat f of
        None \<Rightarrow> Inl (ValueError ''checkpoint file is unavailable'')
      | Some (file_type, size_bytes) \<Rightarrow>
          if file_type \<noteq> Regular then Inl (ValueError ''checkpoint must be a regular non-symlink file'')
          else if size_bytes > MAX_CHECKPOINT_BYTES then Inl (ValueError ''checkpoint exceeds the size limit'')
          else
            (case fv_content f of
               None \<Rightarrow> Inl (ValueError ''checkpoint file is unavailable'')
             | Some text \<Rightarrow>
                 let content = take (MAX_CHECKPOINT_BYTES + 1) text in
                 if length content > MAX_CHECKPOINT_BYTES
                 then Inl (ValueError ''checkpoint exceeds the size limit'')
                 else
                   (case parse_signed content of
                      None \<Rightarrow> Inl (ValueError ''checkpoint is not a valid signed envelope'')
                    | Some c \<Rightarrow>
                        (case bind_result (validate_payload (sc_payload c)) (\<lambda>_. validate_signed c) of
                           Inl e \<Rightarrow> Inl (ValueError ''checkpoint is not a valid signed envelope'')
                         | Inr c \<Rightarrow> Inr c))))"

text \<open>\<open>json_names\<close> are the names that \<open>glob("*.json")\<close> yields, \<open>files\<close> their views.\<close>

definition load_recovery_checkpoint_directory ::
  "(string \<Rightarrow> signed_checkpoint option) \<Rightarrow> file_type option \<Rightarrow> string list \<Rightarrow> (string \<Rightarrow> file_view)
     \<Rightarrow> signed_checkpoint list result" where
  "load_recovery_checkpoint_directory parse_signed directory json_names files =
     (case directory of
        None \<Rightarrow> Inl (ValueError ''checkpoint directory is unavailable'')
      | Some file_type \<Rightarrow>
          let paths = sort json_names in
          if file_type \<noteq> Directory
          then Inl (ValueError ''checkpoint directory must be a non-symlink directory'')
          else if paths = [] then Inl (ValueError ''checkpoint directory contains no JSON envelopes'')
          else if length paths > MAX_RECOVERY_CHECKPOINTS
          then Inl (ValueError ''checkpoint directory contains too many envelopes'')
          else map_result (\<lambda>p. load_recovery_checkpoint parse_signed (files p)) paths)"

subsection \<open>One checkpoint\<close>

record tally =
  tl_failure_count :: nat
  tl_failures :: "recovery_failure list"
  tl_signed :: nat
  tl_unsigned :: nat

definition tally0 :: tally where
  "tally0 = \<lparr>tl_failure_count = 0, tl_failures = [], tl_signed = 0, tl_unsigned = 0\<rparr>"

text \<open>The closure \<open>fail\<close>; \<open>RecoveryVerificationFailure\<close> rejects a negative sequence.\<close>

definition fail ::
  "checkpoint_payload \<Rightarrow> recovery_failure_code \<Rightarrow> int option \<Rightarrow> artifact_kind option \<Rightarrow> uuid option
     \<Rightarrow> tally \<Rightarrow> tally result" where
  "fail p code sequence artifact_type artifact_id a =
     (if length (tl_failures a) < MAX_REPORTED_FAILURES_PER_CHECKPOINT then
        (if (case sequence of None \<Rightarrow> False | Some n \<Rightarrow> n < 0)
         then Inl (ValidationError ''RecoveryVerificationFailure'')
         else Inr (a\<lparr>tl_failure_count := tl_failure_count a + 1, tl_failures := tl_failures a @
           [\<lparr>rf_code = code, rf_tenant_id = Some (cp_tenant_id p), rf_checkpoint_id = Some (cp_checkpoint_id p),
             rf_ledger_sequence = sequence, rf_artifact_type = artifact_type, rf_artifact_id = artifact_id\<rparr>]\<rparr>))
      else Inr (a\<lparr>tl_failure_count := tl_failure_count a + 1\<rparr>))"

definition fail_if ::
  "bool \<Rightarrow> checkpoint_payload \<Rightarrow> recovery_failure_code \<Rightarrow> tally \<Rightarrow> tally result" where
  "fail_if b p code a = (if b then fail p code None None None a else Inr a)"

definition fail_row ::
  "bool \<Rightarrow> checkpoint_payload \<Rightarrow> recovery_failure_code \<Rightarrow> ledger_row \<Rightarrow> tally \<Rightarrow> tally result" where
  "fail_row b p code r a =
     (if b then fail p code (Some (lr_sequence r)) (Some (lr_kind r)) (Some (lr_artifact_id r)) a else Inr a)"

text \<open>\<open>_source_envelope\<close>: the joined row of the artifact, unless its payload is missing or a JSON null.\<close>

definition source_row :: "tenant \<Rightarrow> 'a artifact_db_scheme \<Rightarrow> ledger_row \<Rightarrow> artifact_row option" where
  "source_row t db r =
     (case find (\<lambda>a. ar_id a = lr_artifact_id r) (visible t (source_table (lr_kind r) db)) of
        None \<Rightarrow> None
      | Some a \<Rightarrow> if ar_payload a = JNull then None else Some a)"

definition check_signature ::
  "primitives \<Rightarrow> keyring option \<Rightarrow> checkpoint_payload \<Rightarrow> ledger_row \<Rightarrow> tally \<Rightarrow> tally result" where
  "check_signature P kr p r a =
     (case (lr_signature_algorithm r, lr_signing_key_id r, lr_signature r) of
        (None, None, None) \<Rightarrow> Inr (a\<lparr>tl_unsigned := tl_unsigned a + 1\<rparr>)
      | (Some algorithm, Some key_id, Some signature) \<Rightarrow>
          bind_result
            (case kr of
               None \<Rightarrow> Inr False
             | Some k \<Rightarrow>
                 (case keyring_verify P k algorithm key_id (kind_str (lr_kind r)) (lr_artifact_id r)
                         (lr_payload_sha256 r) signature of
                    Inl (KeyError _) \<Rightarrow> Inr False
                  | Inl (ValueError _) \<Rightarrow> Inr False
                  | v \<Rightarrow> v))
            (\<lambda>valid. fail_row (\<not> valid) p Artifact_signature r (a\<lparr>tl_signed := tl_signed a + 1\<rparr>))
      | _ \<Rightarrow> fail_row True p Artifact_envelope r a)"

definition check_source ::
  "primitives \<Rightarrow> keyring option \<Rightarrow> checkpoint_payload \<Rightarrow> ledger_row \<Rightarrow> artifact_row \<Rightarrow> tally \<Rightarrow> tally result" where
  "check_source P kr p r s a =
     bind_result (digest_of P (ar_payload s)) (\<lambda>actual.
     bind_result (compare_digest actual (ar_payload_sha256 s)) (\<lambda>same_source.
     bind_result
       (if same_source then compare_digest (ar_payload_sha256 s) (lr_payload_sha256 r) else Inr False)
       (\<lambda>same.
     bind_result (fail_row (\<not> same) p Artifact_digest r a) (\<lambda>a.
     bind_result (fail_row
        ((ar_signature_algorithm s, ar_signing_key_id s, ar_signature s)
           \<noteq> (lr_signature_algorithm r, lr_signing_key_id r, lr_signature r)) p Artifact_envelope r a)
        (check_signature P kr p r)))))"

definition check_row ::
  "primitives \<Rightarrow> keyring option \<Rightarrow> checkpoint_payload \<Rightarrow> 'a artifact_db_scheme \<Rightarrow> int \<Rightarrow> sha256 \<Rightarrow> ledger_row
     \<Rightarrow> tally \<Rightarrow> tally result" where
  "check_row P kr p db expected_sequence previous r a =
     bind_result (fail_row (lr_sequence r \<noteq> expected_sequence) p Ledger_sequence r a) (\<lambda>a.
     bind_result (compare_digest (lr_previous r) previous) (\<lambda>same_previous.
     bind_result (fail_row (\<not> same_previous) p Ledger_previous_hash r a) (\<lambda>a.
     bind_result (ledger_entry_digest P (cp_tenant_id p) (lr_sequence r) (kind_str (lr_kind r))
        (lr_artifact_id r) (lr_payload_sha256 r) (lr_signature_algorithm r) (lr_signing_key_id r)
        (lr_signature r) (lr_previous r)) (\<lambda>expected_entry.
     bind_result (compare_digest (lr_entry r) expected_entry) (\<lambda>same_entry.
     bind_result (fail_row (\<not> same_entry) p Ledger_entry_hash r a) (\<lambda>a.
       case source_row (cp_tenant_id p) db r of
         None \<Rightarrow> fail_row True p Artifact_missing r a
       | Some s \<Rightarrow> check_source P kr p r s a))))))"

fun check_rows ::
  "primitives \<Rightarrow> keyring option \<Rightarrow> checkpoint_payload \<Rightarrow> 'a artifact_db_scheme \<Rightarrow> int \<Rightarrow> sha256
     \<Rightarrow> ledger_row list \<Rightarrow> tally \<Rightarrow> (sha256 \<times> tally) result" where
  "check_rows P kr p db expected_sequence previous [] a = Inr (previous, a)"
| "check_rows P kr p db expected_sequence previous (r # rows) a =
     bind_result (check_row P kr p db expected_sequence previous r a)
       (check_rows P kr p db (expected_sequence + 1) (lr_entry r) rows)"

definition checkpoint_result ::
  "signed_checkpoint \<Rightarrow> rat \<Rightarrow> nat \<Rightarrow> tally \<Rightarrow> recovery_checkpoint_result" where
  "checkpoint_result c age_seconds entries_checked a =
     (let p = sc_payload c in
      \<lparr>rc_checkpoint_id = cp_checkpoint_id p, rc_tenant_id = cp_tenant_id p,
       rc_ledger_sequence = cp_ledger_sequence p, rc_checkpoint_created_at = cp_created_at p,
       rc_checkpoint_age_seconds = age_seconds, rc_entries_checked = entries_checked,
       rc_signed_artifacts = tl_signed a, rc_unsigned_artifacts = tl_unsigned a,
       rc_valid = (tl_failure_count a = 0), rc_failure_count = tl_failure_count a,
       rc_failures_truncated = (tl_failure_count a > length (tl_failures a)), rc_failures = tl_failures a\<rparr>)"

record verifier =
  vf_schema :: string
  vf_keyring :: "keyring option"
  vf_max_checkpoint_age_hours :: int
  vf_max_ledger_entries :: int

text \<open>\<open>[a-zA-Z_][a-zA-Z0-9_]*\<close>\<close>

definition SCHEMA_NAME_PATTERN :: regex where
  "SCHEMA_NAME_PATTERN =
     (let letters = [(CHR ''a'', CHR ''z''), (CHR ''A'', CHR ''Z'')] @ one_char CHR ''_''
      in Seq (Cls letters) (Star (Cls (letters @ digits09))))"

definition make_verifier :: "string \<Rightarrow> keyring option \<Rightarrow> int \<Rightarrow> int \<Rightarrow> verifier result" where
  "make_verifier schema kr max_age_hours max_entries =
     (if \<not> fullmatch SCHEMA_NAME_PATTERN schema then Inl (ValueError ''invalid PostgreSQL schema name'')
      else if \<not> (1 \<le> max_age_hours \<and> max_age_hours \<le> 24 * 30)
      then Inl (ValueError ''maximum checkpoint age must be between 1 and 720 hours'')
      else if \<not> (1 \<le> max_entries \<and> max_entries \<le> 1000000)
      then Inl (ValueError ''maximum ledger entries must be between 1 and 1000000'')
      else Inr \<lparr>vf_schema = schema, vf_keyring = kr, vf_max_checkpoint_age_hours = max_age_hours,
                vf_max_ledger_entries = max_entries\<rparr>)"

text \<open>The checks that need no query.\<close>

definition check_envelope ::
  "primitives \<Rightarrow> (instant \<Rightarrow> string) \<Rightarrow> verifier \<Rightarrow> signed_checkpoint \<Rightarrow> instant \<Rightarrow> tally result" where
  "check_envelope P isotime v c observed_at =
     (let p = sc_payload c; age = observed_at - cp_created_at p in
      bind_result
        (if age < - 5 * minute then fail p Checkpoint_future None None None tally0
         else fail_if (age > vf_max_checkpoint_age_hours v * hour) p Checkpoint_stale tally0) (\<lambda>a.
      bind_result (case vf_keyring v of None \<Rightarrow> Inr False | Some k \<Rightarrow> verify_checkpoint P isotime c k) (\<lambda>valid.
      bind_result (fail_if (\<not> valid) p Checkpoint_signature a)
        (fail_if (cp_ledger_sequence p > vf_max_ledger_entries v) p Ledger_limit))))"

text \<open>The checkpoint stored in the restored database against the retained one.\<close>

definition check_persisted ::
  "(json \<Rightarrow> checkpoint_payload option) \<Rightarrow> signed_checkpoint \<Rightarrow> checkpoint_db \<Rightarrow> tally \<Rightarrow> tally result" where
  "check_persisted parse c db a =
     (let p = sc_payload c in
      case find (\<lambda>r. ck_checkpoint_id r = cp_checkpoint_id p) (visible (cp_tenant_id p) (cd_checkpoints db)) of
        None \<Rightarrow> fail p Checkpoint_missing None None None a
      | Some r \<Rightarrow>
          (case bind_result (parse_payload parse (ck_payload r)) (\<lambda>q. validate_signed (signed_of_row q r)) of
             Inl _ \<Rightarrow> fail p Checkpoint_mismatch None None None a
           | Inr restored_checkpoint \<Rightarrow> fail_if (restored_checkpoint \<noteq> c) p Checkpoint_mismatch a))"

text \<open>\<open>WHERE ledger.sequence <= %s ORDER BY ledger.sequence\<close>\<close>

definition ledger_prefix :: "checkpoint_payload \<Rightarrow> 'a artifact_db_scheme \<Rightarrow> ledger_row list" where
  "ledger_prefix p db =
     filter (\<lambda>r. lr_sequence r \<le> cp_ledger_sequence p) (ledger_rows (cp_tenant_id p) db)"

text \<open>The queries of one checkpoint and what is checked on their rows.\<close>

definition check_tables ::
  "primitives \<Rightarrow> (json \<Rightarrow> checkpoint_payload option) \<Rightarrow> verifier \<Rightarrow> checkpoint_db \<Rightarrow> signed_checkpoint
     \<Rightarrow> tally \<Rightarrow> tally result" where
  "check_tables P parse v db c a =
     (let p = sc_payload c; rows = ledger_prefix p db in
      bind_result (check_persisted parse c db a) (\<lambda>a.
      bind_result (fail_if (int (length rows) \<noteq> cp_ledger_entries p
         \<or> int (length rows) \<noteq> cp_ledger_sequence p) p Ledger_count a) (\<lambda>a.
      bind_result (check_rows P (vf_keyring v) p db 1 LEDGER_GENESIS_SHA256 rows a) (\<lambda>(head, a).
      bind_result (compare_digest head (cp_ledger_head_sha256 p)) (\<lambda>same_head.
        fail_if (\<not> same_head) p Ledger_head a)))))"

text \<open>
  \<open>_verify_checkpoint\<close>; \<open>None\<close> for the tables is a \<open>psycopg.Error\<close> of the queries. That error is caught, but
  it leaves the transaction \<open>aborted\<close>, and then the \<open>set_config\<close> of a later checkpoint raises.
\<close>

definition verify_recovery_checkpoint ::
  "primitives \<Rightarrow> (instant \<Rightarrow> string) \<Rightarrow> (json \<Rightarrow> checkpoint_payload option) \<Rightarrow> verifier \<Rightarrow> checkpoint_db option
     \<Rightarrow> instant \<Rightarrow> bool \<Rightarrow> signed_checkpoint \<Rightarrow> (recovery_checkpoint_result \<times> bool) result" where
  "verify_recovery_checkpoint P isotime parse v tables observed_at aborted c =
     (let p = sc_payload c;
          age_seconds = of_int (max 0 (observed_at - cp_created_at p)) / of_int second in
      bind_result (check_envelope P isotime v c observed_at) (\<lambda>a.
        if tl_failure_count a \<noteq> 0 then Inr (checkpoint_result c age_seconds 0 a, aborted)
        else if aborted
        then Inl (ServiceError ''RecoveryVerificationError'' ''recovery database verification failed'')
        else
          (case tables of
             None \<Rightarrow>
               bind_result (fail p Database_schema None None None a)
                 (\<lambda>a. Inr (checkpoint_result c age_seconds 0 a, True))
           | Some db \<Rightarrow>
               bind_result (check_tables P parse v db c a)
                 (\<lambda>a. Inr (checkpoint_result c age_seconds (length (ledger_prefix p db)) a, aborted)))))"

fun verify_each ::
  "(bool \<Rightarrow> signed_checkpoint \<Rightarrow> (recovery_checkpoint_result \<times> bool) result) \<Rightarrow> bool \<Rightarrow> signed_checkpoint list
     \<Rightarrow> recovery_checkpoint_result list result" where
  "verify_each verify aborted [] = Inr []"
| "verify_each verify aborted (c # cs) =
     bind_result (verify aborted c) (\<lambda>(result, aborted').
     bind_result (verify_each verify aborted' cs) (\<lambda>results. Inr (result # results)))"

subsection \<open>The report\<close>

text \<open>
  The session's answers: \<open>rs_metadata\<close> is \<open>None\<close> without the table, \<open>Some None\<close> when it is empty, and the
  stored version otherwise.
\<close>

record restored =
  rs_database :: string
  rs_read_only :: bool
  rs_in_recovery :: bool
  rs_observed_at :: instant
  rs_metadata :: "int option option"
  rs_tables :: "checkpoint_db option"

definition plain_failure :: "recovery_failure_code \<Rightarrow> recovery_failure" where
  "plain_failure code = \<lparr>rf_code = code, rf_tenant_id = None, rf_checkpoint_id = None,
     rf_ledger_sequence = None, rf_artifact_type = None, rf_artifact_id = None\<rparr>"

definition schema_failures :: "restored \<Rightarrow> recovery_failure list" where
  "schema_failures d =
     (case rs_metadata d of
        None \<Rightarrow> [plain_failure Schema_metadata]
      | Some None \<Rightarrow> [plain_failure Schema_metadata]
      | Some (Some version) \<Rightarrow> if version \<noteq> SCHEMA_VERSION then [plain_failure Schema_version] else [])
     @ (if rs_in_recovery d then [plain_failure Recovery_in_progress] else [])"

definition drill_report ::
  "verifier \<Rightarrow> string \<Rightarrow> instant \<Rightarrow> instant \<Rightarrow> restored \<Rightarrow> signed_checkpoint list \<Rightarrow> recovery_failure list
     \<Rightarrow> recovery_checkpoint_result list \<Rightarrow> recovery_drill_report" where
  "drill_report v drill_id started_at now d checkpoints failures results =
     (let failure_count = length failures + sum_list (map rc_failure_count results) in
      \<lparr>rd_drill_id = drill_id, rd_started_at = started_at, rd_completed_at = max (rs_observed_at d) now,
       rd_database = rs_database d, rd_schema_name = vf_schema v,
       rd_expected_schema_version = SCHEMA_VERSION,
       rd_observed_schema_version = (case rs_metadata d of None \<Rightarrow> None | Some version \<Rightarrow> version),
       rd_transaction_read_only = rs_read_only d, rd_recovery_in_progress = rs_in_recovery d,
       rd_checkpoints_checked = length results, rd_checkpoints_valid = count_if rc_valid results,
       rd_entries_checked = sum_list (map rc_entries_checked results),
       rd_success = (rs_read_only d \<and> failure_count = 0 \<and> length results = length checkpoints),
       rd_failure_count = failure_count, rd_failures_truncated = list_ex rc_failures_truncated results,
       rd_checkpoint_results = results, rd_failures = failures @ concat (map rc_failures results)\<rparr>)"

definition resolved_drill_id :: "uuid \<Rightarrow> string option \<Rightarrow> string" where
  "resolved_drill_id fresh_id drill_id =
     (let generated = ''drill-'' @ hex_fixed 32 (unat fresh_id)
      in case drill_id of None \<Rightarrow> generated | Some s \<Rightarrow> if s = [] then generated else s)"

definition drill_results ::
  "primitives \<Rightarrow> (instant \<Rightarrow> string) \<Rightarrow> (json \<Rightarrow> checkpoint_payload option) \<Rightarrow> verifier \<Rightarrow> restored
     \<Rightarrow> signed_checkpoint list \<Rightarrow> recovery_checkpoint_result list result" where
  "drill_results P isotime parse v d checkpoints =
     (if schema_failures d = []
      then verify_each (verify_recovery_checkpoint P isotime parse v (rs_tables d) (rs_observed_at d)) False checkpoints
      else Inr [])"

text \<open>\<open>verify\<close>; a connection that fails is \<open>None\<close>, \<open>fresh_id\<close> is \<open>uuid4()\<close>.\<close>

definition verify_restored ::
  "primitives \<Rightarrow> (instant \<Rightarrow> string) \<Rightarrow> (json \<Rightarrow> checkpoint_payload option) \<Rightarrow> verifier \<Rightarrow> uuid \<Rightarrow> instant
     \<Rightarrow> instant \<Rightarrow> string option \<Rightarrow> restored option \<Rightarrow> signed_checkpoint list
     \<Rightarrow> recovery_drill_report result" where
  "verify_restored P isotime parse v fresh_id started_at now drill_id connection checkpoints =
     (let resolved = resolved_drill_id fresh_id drill_id in
      if checkpoints = [] then Inl (ValueError ''at least one recovery checkpoint is required'')
      else if length checkpoints > MAX_RECOVERY_CHECKPOINTS
      then Inl (ValueError ''too many recovery checkpoints'')
      else if \<not> fullmatch DRILL_ID_PATTERN resolved
      then Inl (ValueError ''recovery drill ID must be a lowercase Kubernetes DNS label'')
      else
        (case connection of
           None \<Rightarrow> Inl (ServiceError ''RecoveryVerificationError'' ''recovery database verification failed'')
         | Some d \<Rightarrow>
             bind_result (drill_results P isotime parse v d checkpoints) (\<lambda>results.
               Inr (drill_report v resolved started_at now d checkpoints (schema_failures d) results))))"

subsection \<open>Publication of a report\<close>

text \<open>\<open>model_dump(mode="json")\<close>\<close>

fun failure_code_str :: "recovery_failure_code \<Rightarrow> string" where
  "failure_code_str Schema_metadata = ''schema_metadata''"
| "failure_code_str Schema_version = ''schema_version''"
| "failure_code_str Recovery_in_progress = ''recovery_in_progress''"
| "failure_code_str Checkpoint_future = ''checkpoint_future''"
| "failure_code_str Checkpoint_stale = ''checkpoint_stale''"
| "failure_code_str Checkpoint_signature = ''checkpoint_signature''"
| "failure_code_str Checkpoint_missing = ''checkpoint_missing''"
| "failure_code_str Checkpoint_mismatch = ''checkpoint_mismatch''"
| "failure_code_str Ledger_limit = ''ledger_limit''"
| "failure_code_str Ledger_count = ''ledger_count''"
| "failure_code_str Ledger_sequence = ''ledger_sequence''"
| "failure_code_str Ledger_previous_hash = ''ledger_previous_hash''"
| "failure_code_str Ledger_entry_hash = ''ledger_entry_hash''"
| "failure_code_str Ledger_head = ''ledger_head''"
| "failure_code_str Artifact_missing = ''artifact_missing''"
| "failure_code_str Artifact_digest = ''artifact_digest''"
| "failure_code_str Artifact_envelope = ''artifact_envelope''"
| "failure_code_str Artifact_signature = ''artifact_signature''"
| "failure_code_str Database_schema = ''database_schema''"

definition json_nat :: "nat \<Rightarrow> json" where "json_nat n = JInt (int n)"

definition json_int_opt :: "int option \<Rightarrow> json" where
  "json_int_opt x = (case x of None \<Rightarrow> JNull | Some n \<Rightarrow> JInt n)"

definition recovery_failure_json :: "recovery_failure \<Rightarrow> json" where
  "recovery_failure_json f =
     JObj [(''code'', JStr (failure_code_str (rf_code f))), (''tenant_id'', json_opt (rf_tenant_id f)),
       (''checkpoint_id'', json_opt (map_option uuid_str (rf_checkpoint_id f))),
       (''ledger_sequence'', json_int_opt (rf_ledger_sequence f)),
       (''artifact_type'', json_opt (map_option kind_str (rf_artifact_type f))),
       (''artifact_id'', json_opt (map_option uuid_str (rf_artifact_id f)))]"

definition recovery_result_json :: "(instant \<Rightarrow> string) \<Rightarrow> recovery_checkpoint_result \<Rightarrow> json" where
  "recovery_result_json isotime r =
     JObj [(''checkpoint_id'', JStr (uuid_str (rc_checkpoint_id r))), (''tenant_id'', JStr (rc_tenant_id r)),
       (''ledger_sequence'', JInt (rc_ledger_sequence r)),
       (''checkpoint_created_at'', JStr (isotime (rc_checkpoint_created_at r))),
       (''checkpoint_age_seconds'', JFloat (Fin (rc_checkpoint_age_seconds r))),
       (''entries_checked'', json_nat (rc_entries_checked r)),
       (''signed_artifacts'', json_nat (rc_signed_artifacts r)),
       (''unsigned_artifacts'', json_nat (rc_unsigned_artifacts r)), (''valid'', JBool (rc_valid r)),
       (''failure_count'', json_nat (rc_failure_count r)),
       (''failures_truncated'', JBool (rc_failures_truncated r)),
       (''failures'', JList (map recovery_failure_json (rc_failures r)))]"

definition recovery_report_json :: "(instant \<Rightarrow> string) \<Rightarrow> recovery_drill_report \<Rightarrow> json" where
  "recovery_report_json isotime r =
     JObj [(''drill_id'', JStr (rd_drill_id r)), (''started_at'', JStr (isotime (rd_started_at r))),
       (''completed_at'', JStr (isotime (rd_completed_at r))), (''database'', JStr (rd_database r)),
       (''schema_name'', JStr (rd_schema_name r)),
       (''expected_schema_version'', JInt (rd_expected_schema_version r)),
       (''observed_schema_version'', json_int_opt (rd_observed_schema_version r)),
       (''transaction_read_only'', JBool (rd_transaction_read_only r)),
       (''recovery_in_progress'', JBool (rd_recovery_in_progress r)),
       (''checkpoints_checked'', json_nat (rd_checkpoints_checked r)),
       (''checkpoints_valid'', json_nat (rd_checkpoints_valid r)),
       (''entries_checked'', json_nat (rd_entries_checked r)), (''success'', JBool (rd_success r)),
       (''failure_count'', json_nat (rd_failure_count r)),
       (''failures_truncated'', JBool (rd_failures_truncated r)),
       (''checkpoint_results'', JList (map (recovery_result_json isotime) (rd_checkpoint_results r))),
       (''failures'', JList (map recovery_failure_json (rd_failures r)))]"

definition report_bytes :: "primitives \<Rightarrow> (instant \<Rightarrow> string) \<Rightarrow> recovery_drill_report \<Rightarrow> string result" where
  "report_bytes P isotime r = canonical_json_bytes (float_repr P) (recovery_report_json isotime r)"

text \<open>\<open>^[A-Za-z0-9][A-Za-z0-9._-]{1,254}$\<close> and \<open>^[A-Za-z0-9._-]{1,128}$\<close>\<close>

definition object_chars :: "(char \<times> char) list" where
  "object_chars = upper_az @ lower_az @ digits09 @ one_char CHR ''.'' @ one_char CHR ''_'' @ one_char CHR ''-''"

definition S3_BUCKET_PATTERN :: regex where
  "S3_BUCKET_PATTERN =
     Seq (Cls (upper_az @ lower_az @ digits09)) (Seq (Cls object_chars) (up_to 253 (Cls object_chars)))"

definition S3_PREFIX_PART_PATTERN :: regex where
  "S3_PREFIX_PART_PATTERN = Seq (Cls object_chars) (up_to 127 (Cls object_chars))"

record report_sink =
  rp_bucket :: string
  rp_prefix :: string

definition make_report_sink :: "string \<Rightarrow> string \<Rightarrow> report_sink result" where
  "make_report_sink bucket prefix_text =
     (let stripped = strip_char CHR ''/'' prefix_text; parts = posix_parts stripped in
      if \<not> fullmatch S3_BUCKET_PATTERN bucket \<or> stripped = []
        \<or> list_ex (\<lambda>p. p \<in> {[], ''.'', ''..''} \<or> \<not> fullmatch S3_PREFIX_PART_PATTERN p) parts
      then Inl (ValueError ''S3 recovery report bucket and prefix must be normalized'')
      else Inr \<lparr>rp_bucket = bucket, rp_prefix = posix_str parts\<rparr>)"

record report_publication =
  rb_drill_id :: string
  rb_destination :: string
  rb_object_key :: string
  rb_report_sha256 :: sha256
  rb_published_at :: instant
  rb_retention_until :: instant

definition publication_error :: "string \<Rightarrow> exn" where
  "publication_error m = ServiceError ''RecoveryReportPublicationError'' m"

text \<open>\<open>ymd\<close> is \<open>strftime("%Y/%m/%d")\<close> in UTC; the two readings of the clock are \<open>now\<close> and \<open>later\<close>.\<close>

definition report_put_request ::
  "primitives \<Rightarrow> report_sink \<Rightarrow> string \<Rightarrow> string \<Rightarrow> string \<Rightarrow> instant \<Rightarrow> put_request" where
  "report_put_request P sink key body drill_id retention_until =
     \<lparr>pr_bucket = rp_bucket sink, pr_key = key, pr_body = body, pr_content_type = ''application/json'',
      pr_checksum_sha256 = b64encode (bytes_of_hex (sha256_hex P body)),
      pr_metadata = [(''recovery-report-sha256'', sha256_hex P body), (''drill-id'', drill_id)],
      pr_lock_mode = ''COMPLIANCE'', pr_retain_until = retention_until, pr_if_none_match = ''*''\<rparr>"

definition check_existing_report ::
  "'s s3_client \<Rightarrow> report_sink \<Rightarrow> string \<Rightarrow> sha256 \<Rightarrow> 's \<Rightarrow> unit result" where
  "check_existing_report client sink key digest st =
     (case head_object client (rp_bucket sink) key st of
        Inl _ \<Rightarrow> Inl (publication_error ''could not verify existing S3 recovery report'')
      | Inr existing \<Rightarrow>
          guard_result (case hr_metadata existing of None \<Rightarrow> True
              | Some m \<Rightarrow> map_of m ''recovery-report-sha256'' \<noteq> Some digest)
            (publication_error ''S3 recovery report key already contains different bytes''))"

definition publish_report ::
  "primitives \<Rightarrow> (instant \<Rightarrow> string) \<Rightarrow> (instant \<Rightarrow> string) \<Rightarrow> instant \<Rightarrow> instant \<Rightarrow> 's s3_client \<Rightarrow> report_sink
     \<Rightarrow> recovery_drill_report \<Rightarrow> int \<Rightarrow> 's \<Rightarrow> report_publication result \<times> 's" where
  "publish_report P isotime ymd now later client sink r retention_days st =
     (if \<not> (1 \<le> retention_days \<and> retention_days \<le> 3650)
      then (Inl (ValueError ''recovery report retention must be between 1 and 3650 days''), st)
      else
        (case get_object_lock_configuration client (rp_bucket sink) st of
           Inl _ \<Rightarrow> (Inl (publication_error ''could not verify S3 Object Lock configuration''), st)
         | Inr enabled \<Rightarrow>
             if enabled \<noteq> Some ''Enabled''
             then (Inl (publication_error ''S3 bucket does not have Object Lock enabled''), st)
             else
               (case report_bytes P isotime r of
                  Inl e \<Rightarrow> (Inl e, st)
                | Inr body \<Rightarrow>
                    let key = rp_prefix sink @ ''/'' @ ymd (rd_completed_at r) @ ''/'' @ rd_drill_id r @ ''.json'';
                        digest = sha256_hex P body;
                        retention_until = now + retention_days * day;
                        published = \<lparr>rb_drill_id = rd_drill_id r,
                          rb_destination = ''s3://'' @ rp_bucket sink @ ''/'' @ key, rb_object_key = key,
                          rb_report_sha256 = digest, rb_published_at = later,
                          rb_retention_until = retention_until\<rparr>
                    in case put_object client (report_put_request P sink key body (rd_drill_id r) retention_until) st of
                         (None, st') \<Rightarrow> (Inr published, st')
                       | (Some code, st') \<Rightarrow>
                           if code \<notin> {''PreconditionFailed'', ''412''}
                           then (Inl (publication_error ''S3 recovery report publication failed''), st')
                           else (bind_result (check_existing_report client sink key digest st') (\<lambda>_. Inr published), st'))))"

end
