(* ===== verification/Ledger_Properties.thy ===== *)
theory Ledger_Properties
  imports Ledger_Audit
begin

section \<open>Properties of artifacts and their ledger\<close>

text \<open>
  The chain of a ledger as a predicate, the invariant that saving keeps, and the claims: saved
  artifacts read back and audit clean, the ledger only grows and fixes what it recorded, and its head
  commits to every entry and every payload unless SHA-256 has a collision among them.
\<close>

subsection \<open>Chains\<close>

definition row_bytes :: "primitives \<Rightarrow> tenant \<Rightarrow> ledger_row \<Rightarrow> string" where
  "row_bytes P t r = entry_bytes P t (lr_sequence r) (kind_str (lr_kind r)) (lr_artifact_id r)
     (lr_payload_sha256 r) (lr_signature_algorithm r) (lr_signing_key_id r) (lr_signature r) (lr_previous r)"

fun chained :: "primitives \<Rightarrow> tenant \<Rightarrow> sha256 \<Rightarrow> int \<Rightarrow> ledger_row list \<Rightarrow> bool" where
  "chained P t previous n [] = True"
| "chained P t previous n (r # rows) \<longleftrightarrow>
     lr_sequence r = n \<and> lr_previous r = previous \<and> lr_entry r = sha256_hex P (row_bytes P t r)
     \<and> chained P t (lr_entry r) (n + 1) rows"

definition chain_head :: "sha256 \<Rightarrow> ledger_row list \<Rightarrow> sha256" where
  "chain_head previous rows = (if rows = [] then previous else lr_entry (last rows))"

lemma chain_head_simps [simp]:
  "chain_head p [] = p" "chain_head p (rows @ [r]) = lr_entry r"
  "chain_head p (r # rows) = chain_head (lr_entry r) rows"
  by (simp_all add: chain_head_def)

lemma chained_append [simp]:
  "chained P t p n (xs @ ys) \<longleftrightarrow> chained P t p n xs \<and> chained P t (chain_head p xs) (n + int (length xs)) ys"
  by (induction xs arbitrary: p n) (auto simp: algebra_simps)

lemma kind_str_inj [simp]: "kind_str a = kind_str b \<longleftrightarrow> a = b"
  by (cases a; cases b) simp_all

lemma row_bytes_inj:
  assumes "float_repr_ok (float_repr P)" "row_bytes P t r = row_bytes P t r'" "lr_entry r = lr_entry r'"
  shows "r = r'"
  using entry_bytes_inj [OF assms(1) assms(2) [unfolded row_bytes_def]] assms(3) by simp

text \<open>What a forger would have to exhibit: two of the entries, or an entry and the genesis value, with one hash.\<close>

definition hash_collision :: "primitives \<Rightarrow> tenant \<Rightarrow> ledger_row list \<Rightarrow> ledger_row list \<Rightarrow> bool" where
  "hash_collision P t rows rows' \<longleftrightarrow>
     (\<exists>r \<in> set rows. \<exists>r' \<in> set rows'. row_bytes P t r \<noteq> row_bytes P t r' \<and>
        sha256_hex P (row_bytes P t r) = sha256_hex P (row_bytes P t r'))
   \<or> (\<exists>r \<in> set rows \<union> set rows'. sha256_hex P (row_bytes P t r) = LEDGER_GENESIS_SHA256)"

lemma hash_collision_mono:
  "hash_collision P t xs ys \<Longrightarrow> set xs \<subseteq> set xs' \<Longrightarrow> set ys \<subseteq> set ys' \<Longrightarrow> hash_collision P t xs' ys'"
  unfolding hash_collision_def by blast

lemma chain_head_binds:
  assumes "float_repr_ok (float_repr P)"
    and "chained P t LEDGER_GENESIS_SHA256 1 xs" "chained P t LEDGER_GENESIS_SHA256 1 ys"
    and "chain_head LEDGER_GENESIS_SHA256 xs = chain_head LEDGER_GENESIS_SHA256 ys"
  shows "xs = ys \<or> hash_collision P t xs ys"
  using assms(2-4)
proof (induction xs arbitrary: ys rule: rev_induct)
  case Nil
  then show ?case
    by (cases ys rule: rev_cases) (auto simp: hash_collision_def)
next
  case (snoc r xs)
  show ?case
  proof (cases ys rule: rev_cases)
    case Nil
    then show ?thesis using snoc.prems by (auto simp: hash_collision_def)
  next
    case (snoc ys' r')
    note prems = snoc.prems [unfolded snoc]
    show ?thesis
    proof (cases "row_bytes P t r = row_bytes P t r'")
      case True
      then have same: "r = r'" using row_bytes_inj [OF assms(1)] prems by simp
      then have "xs = ys' \<or> hash_collision P t xs ys'" using prems by (intro snoc.IH) auto
      then show ?thesis
        using same snoc hash_collision_mono [of P t xs ys' "xs @ [r]" ys] by auto
    next
      case False
      then show ?thesis using prems snoc by (auto simp: hash_collision_def)
    qed
  qed
qed

subsection \<open>What a clean audit says\<close>

lemma compare_digest_True [simp]: "compare_digest a b = Inr True \<longleftrightarrow> ascii a \<and> ascii b \<and> a = b"
  by (auto simp: compare_digest_def)

lemma check_ledger_row_None:
  "check_ledger_row P t sources previous n r = Inr None \<longleftrightarrow>
     lr_sequence r = n \<and> lr_previous r = previous \<and> lr_entry r = sha256_hex P (row_bytes P t r)
     \<and> ascii previous \<and> ascii (lr_entry r)
     \<and> sources (lr_kind r) (lr_artifact_id r) = Some (ledger_envelope r)"
  by (auto simp: check_ledger_row_def ledger_entry_digest_eq row_bytes_def compare_digest_def
      split: option.splits)

lemma check_ledger_clean:
  "check_ledger P t sources previous n rows = Inr (head, []) \<longleftrightarrow>
     chained P t previous n rows \<and> head = chain_head previous rows
     \<and> (\<forall>r \<in> set rows. sources (lr_kind r) (lr_artifact_id r) = Some (ledger_envelope r))
     \<and> list_all (\<lambda>r. ascii (lr_previous r) \<and> ascii (lr_entry r)) rows"
proof (induction rows arbitrary: previous n)
  case (Cons r rows)
  have "check_ledger P t sources previous n (r # rows) = Inr (head, []) \<longleftrightarrow>
      check_ledger_row P t sources previous n r = Inr None \<and>
      check_ledger P t sources (lr_entry r) (lr_sequence r + 1) rows = Inr (head, [])"
    by (auto simp: bind_result_def split: sum.splits option.splits prod.splits)
  then show ?case unfolding Cons.IH check_ledger_row_None by auto
qed auto

lemma source_envelope_Some:
  "source_envelope t db kind i = Some e \<Longrightarrow>
     \<exists>r. (t, r) \<in> set (source_table kind db) \<and> ar_id r = i \<and> artifact_envelope r = e"
  unfolding source_envelope_def using find_SomeD by (fastforce simp: set_visible)

lemma verify_ledger_clean:
  assumes "verify_artifact_ledger P t db = Inr (n, valid, head, [])"
  shows "chained P t LEDGER_GENESIS_SHA256 1 (ledger_rows t db)"
    and "head = chain_head LEDGER_GENESIS_SHA256 (ledger_rows t db)"
    and "r \<in> set (ledger_rows t db) \<Longrightarrow>
      source_envelope t db (lr_kind r) (lr_artifact_id r) = Some (ledger_envelope r)"
  using assms by (auto simp: verify_artifact_ledger_def check_ledger_clean)

text \<open>C6. The head of a ledger commits to the whole ledger: two states whose ledgers of a tenant both
  audit clean with the same head have the same ledger entries, in the same order, and for each of
  them artifacts with the same digest and signature; otherwise the two ledgers contain two entries
  with the same SHA-256 value, or one whose hash is the genesis value.\<close>

theorem ledger_head_commits:
  assumes "float_repr_ok (float_repr P)"
    and "verify_artifact_ledger P t db = Inr (n, valid, head, [])"
    and "verify_artifact_ledger P t db' = Inr (n', valid', head, [])"
  shows "ledger_rows t db = ledger_rows t db' \<and> n = n'
      \<and> list_all (\<lambda>r. source_envelope t db (lr_kind r) (lr_artifact_id r)
          = source_envelope t db' (lr_kind r) (lr_artifact_id r)) (ledger_rows t db)
    \<or> hash_collision P t (ledger_rows t db) (ledger_rows t db')"
proof -
  have "ledger_rows t db = ledger_rows t db' \<or> hash_collision P t (ledger_rows t db) (ledger_rows t db')"
    using verify_ledger_clean [OF assms(2)] verify_ledger_clean [OF assms(3)]
    by (intro chain_head_binds [OF assms(1)]) auto
  moreover have "n = length (ledger_rows t db)" "n' = length (ledger_rows t db')"
    using assms(2,3) by (auto simp: verify_artifact_ledger_def)
  ultimately show ?thesis
    using verify_ledger_clean(3) [OF assms(2)] verify_ledger_clean(3) [OF assms(3)]
    by (auto simp: list_all_iff)
qed

subsection \<open>The invariant of saving\<close>

text \<open>
  For every tenant: the ledger is a chain, in table order; each of its entries is the envelope of an
  artifact and each artifact has an entry; artifact ids are unique in their table; and each row
  verifies.
\<close>

definition sources_match :: "tenant \<Rightarrow> 'a artifact_db_scheme \<Rightarrow> bool" where
  "sources_match t db \<longleftrightarrow>
     (\<forall>r \<in> set (visible t (ad_ledger db)). \<exists>a. (t, a) \<in> set (source_table (lr_kind r) db) \<and>
        ar_id a = lr_artifact_id r \<and> artifact_envelope a = ledger_envelope r)
   \<and> (\<forall>kind a. (t, a) \<in> set (source_table kind db) \<longrightarrow>
        (\<exists>r \<in> set (visible t (ad_ledger db)). lr_kind r = kind \<and> lr_artifact_id r = ar_id a))"

definition artifact_db_ok :: "primitives \<Rightarrow> keyring option \<Rightarrow> 'a artifact_db_scheme \<Rightarrow> bool" where
  "artifact_db_ok P kr db \<longleftrightarrow>
     (\<forall>t. chained P t LEDGER_GENESIS_SHA256 1 (visible t (ad_ledger db)) \<and> sources_match t db)
   \<and> (\<forall>kind. unique_key ar_id (source_table kind db))
   \<and> (\<forall>kind. all_rows (\<lambda>r. verify_artifact P kr kind r = Inr ()) (source_table kind db))"

text \<open>What storage must do for JSON values: keep their canonical form.\<close>

definition jsonb_ok :: "(json \<Rightarrow> json) \<Rightarrow> bool" where
  "jsonb_ok jsonb \<longleftrightarrow> (\<forall>v. canonical_form (jsonb v) = canonical_form v)"

definition signing_ok :: "primitives \<Rightarrow> keyring option \<Rightarrow> bool" where
  "signing_ok P kr \<longleftrightarrow> primitives_ok P \<and> (case kr of None \<Rightarrow> True | Some k \<Rightarrow> keyring_ok P k)"

lemma digest_jsonb: "jsonb_ok jsonb \<Longrightarrow> digest_of P (jsonb v) = digest_of P v"
  by (simp add: jsonb_ok_def digest_of_def artifact_digest_def canonical_json_bytes_def)

lemma digest_is_sha256: "primitives_ok P \<Longrightarrow> digest_of P v = Inr d \<Longrightarrow> is_sha256 d"
  by (auto simp: primitives_ok_def digest_of_def artifact_digest_def)

lemma signed_active:
  "keyring_sign P k typ i d = Inr s \<Longrightarrow> \<exists>id a. active_key_id k = Some id \<and> active_algorithm k = Some a"
  by (auto simp: keyring_sign_def split: option.splits)

lemma new_row_verifies:
  assumes "artifact_row_of P kr jsonb kind i payload = Inr row" "signing_ok P kr" "jsonb_ok jsonb"
  shows "verify_artifact P kr kind row = Inr () \<and> ar_id row = i \<and> ar_payload row = jsonb payload
    \<and> is_sha256 (ar_payload_sha256 row) \<and> digest_of P payload = Inr (ar_payload_sha256 row)"
proof -
  obtain d a k s where d: "digest_of P payload = Inr d" "sign_artifact P kr (kind_str kind) i d = Inr (a, k, s)"
    "row = \<lparr>ar_id = i, ar_payload = jsonb payload, ar_payload_sha256 = d, ar_signature_algorithm = a,
            ar_signing_key_id = k, ar_signature = s\<rparr>"
    using assms(1) by (auto simp: artifact_row_of_def)
  have sha: "is_sha256 d" using d(1) assms(2) digest_is_sha256 by (auto simp: signing_ok_def)
  have "verify_authenticity P kr (kind_str kind) i d a k s = Inr ()"
  proof (cases kr)
    case None
    then show ?thesis using d(2) by (simp add: sign_artifact_def verify_authenticity_def)
  next
    case (Some K)
    then obtain s' where s: "keyring_sign P K (kind_str kind) i d = Inr s'" "s = Some s'"
      "a = active_algorithm K" "k = active_key_id K"
      using d(2) by (auto simp: sign_artifact_def)
    obtain id al where active: "active_key_id K = Some id" "active_algorithm K = Some al"
      using signed_active [OF s(1)] by blast
    have "keyring_verify P K al id (kind_str kind) i d s' = Inr True"
      using assms(2) Some active s(1) by (intro keyring_sign_verify) (simp_all add: signing_ok_def)
    then show ?thesis using Some s active by (simp add: verify_authenticity_def)
  qed
  then show ?thesis
    using d sha is_sha256_ascii [OF sha] by (auto simp: verify_artifact_def digest_jsonb [OF assms(3)])
qed

subsection \<open>Saving keeps the invariant\<close>

lemma chained_sequences: "chained P t p n rows \<Longrightarrow> map lr_sequence rows = map (\<lambda>i. n + int i) [0..<length rows]"
proof (induction rows arbitrary: p n)
  case (Cons r rows)
  have "map lr_sequence rows = map (\<lambda>i. n + int (Suc i)) [0..<length rows]"
    using Cons by (auto simp: algebra_simps)
  then show ?case using Cons.prems by (simp add: upt_conv_Cons map_Suc_upt [symmetric] comp_def del: upt_Suc)
qed simp

lemma chained_sorted: "chained P t p n rows \<Longrightarrow> sorted (map lr_sequence rows) \<and> distinct (map lr_sequence rows)"
  by (simp add: chained_sequences sorted_iff_nth_mono distinct_map inj_on_def)

lemma ledger_rows_visible:
  "chained P t p n (visible t (ad_ledger db)) \<Longrightarrow> ledger_rows t db = visible t (ad_ledger db)"
  unfolding ledger_rows_def using chained_sorted by (intro sort_key_id_if_sorted) blast

lemma ledger_head_last:
  assumes "chained P t p n rows"
  shows "ledger_head rows = (if rows = [] then None else Some (last rows))"
proof (cases rows rule: rev_cases)
  case (snoc xs r)
  let ?xs = "sort_key (\<lambda>r. - lr_sequence r) rows"
  have distinct: "distinct (map lr_sequence rows)" using chained_sorted [OF assms] by simp
  have max: "lr_sequence x \<le> lr_sequence r" if "x \<in> set rows" for x
    using that chained_sorted [OF assms] snoc by (auto simp: sorted_append)
  obtain x ys where x: "?xs = x # ys" using snoc by (cases ?xs) (auto simp flip: length_0_conv)
  have set: "set (x # ys) = set rows" by (simp flip: x)
  then have mem: "x \<in> set rows" "r \<in> set (x # ys)" by (auto simp: snoc)
  have "sorted (map (\<lambda>r. - lr_sequence r) (x # ys))" using sorted_sort_key x by metis
  then have "lr_sequence r \<le> lr_sequence x" using mem(2) by auto
  then have "lr_sequence x = lr_sequence r" using max [OF mem(1)] by simp
  then have "x = r" using distinct mem(1) snoc by (metis distinct_map inj_onD in_set_conv_decomp)
  then show ?thesis using x snoc by (simp add: ledger_head_def)
qed (simp add: ledger_head_def)

lemma append_ledger_extends:
  assumes "append_ledger_values P t kind i env m ledger = Inr ledger'"
    and chain: "chained P t LEDGER_GENESIS_SHA256 1 (visible t ledger)"
  shows "(\<exists>r \<in> set (visible t ledger). lr_kind r = kind \<and> lr_artifact_id r = i \<and>
        (m \<longrightarrow> ledger_envelope r = env) \<and> ledger' = ledger)
    \<or> (\<exists>r. ledger' = insert_row t r ledger \<and> lr_kind r = kind \<and> lr_artifact_id r = i
        \<and> ledger_envelope r = env \<and> chained P t LEDGER_GENESIS_SHA256 1 (visible t ledger @ [r])
        \<and> (\<forall>r' \<in> set (visible t ledger). \<not> (lr_kind r' = kind \<and> lr_artifact_id r' = i)))"
proof (cases "find (\<lambda>r. lr_kind r = kind \<and> lr_artifact_id r = i) (visible t ledger)")
  case None
  obtain sha a k s where env: "env = (sha, a, k, s)" by (cases env)
  have seq: "ledger_head (visible t ledger) = Some r \<Longrightarrow> lr_sequence r = int (length (visible t ledger))" for r
    using chained_sequences [OF chain] unfolding ledger_head_last [OF chain]
    by (cases "visible t ledger" rule: rev_cases) auto
  obtain r where r: "ledger' = insert_row t r ledger"
    "ledger_entry_row P t kind i env (ledger_head (visible t ledger)) = Inr r"
    using assms(1) None by (auto simp: append_ledger_values_def)
  have "chained P t (chain_head LEDGER_GENESIS_SHA256 (visible t ledger)) (1 + int (length (visible t ledger))) [r]
      \<and> lr_kind r = kind \<and> lr_artifact_id r = i \<and> ledger_envelope r = env"
    using r(2) seq
    by (auto simp: ledger_entry_row_def env Let_def ledger_entry_digest_eq row_bytes_def ledger_envelope_def
        chain_head_def ledger_head_last [OF chain] split: if_splits)
  then show ?thesis using r(1) chain None by (auto simp: find_None_iff)
next
  case (Some r)
  then show ?thesis
    using assms(1) find_SomeD [OF Some] by (auto simp: append_ledger_values_def split: if_splits)
qed

definition stored ::
  "tenant \<Rightarrow> artifact_row \<Rightarrow> artifact_row table \<Rightarrow> artifact_row table \<Rightarrow> bool" where
  "stored t row tbl tbl' \<longleftrightarrow>
     (\<forall>u a. (u, a) \<in> set tbl' \<longleftrightarrow>
        (u, a) = (t, row) \<or> (u, a) \<in> set tbl \<and> \<not> (u = t \<and> ar_id a = ar_id row))
   \<and> (unique_key ar_id tbl \<longrightarrow> unique_key ar_id tbl')"

lemma upsert_stored: "upsert_run t row tbl = Inr tbl' \<Longrightarrow> stored t row tbl tbl'"
proof (cases "ar_id row \<in> set (map ar_id (visible t tbl))")
  case True
  assume "upsert_run t row tbl = Inr tbl'"
  then have tbl': "tbl' = update_where t (\<lambda>r. ar_id r = ar_id row) (\<lambda>_. row) tbl"
    using True by (simp add: upsert_run_def)
  obtain a where a: "(t, a) \<in> set tbl" "ar_id a = ar_id row"
    using True by (auto simp: set_visible)
  have "map (ar_id \<circ> snd) tbl' = map (ar_id \<circ> snd) tbl"
    unfolding tbl' update_where_def by (induction tbl) auto
  then have "unique_key ar_id tbl' = unique_key ar_id tbl" by (simp add: unique_key_def)
  moreover have "(u, x) \<in> set tbl' \<longleftrightarrow>
      (u, x) = (t, row) \<or> (u, x) \<in> set tbl \<and> \<not> (u = t \<and> ar_id x = ar_id row)" for u x
    unfolding tbl' set_update_where using a by (force split: if_splits)
  ultimately show ?thesis by (simp add: stored_def)
next
  case False
  assume "upsert_run t row tbl = Inr tbl'"
  then show ?thesis using False
    by (auto simp: upsert_run_def stored_def insert_row_def unique_key_def set_visible rev_image_eqI
        split: if_splits)
qed

lemma insert_stored: "insert_artifact t row tbl = Inr tbl' \<Longrightarrow> stored t row tbl tbl'"
  by (auto simp: insert_artifact_def stored_def insert_row_def unique_key_def rev_image_eqI split: if_splits)

lemma sources_match_save:
  assumes match: "sources_match t db" and unique: "unique_key ar_id (source_table kind db)"
    and chain: "chained P t LEDGER_GENESIS_SHA256 1 (visible t (ad_ledger db))"
    and tables: "\<And>k. source_table k db' = (if k = kind then tbl' else source_table k db)"
    and stored: "stored t row (source_table kind db) tbl'"
    and app: "append_ledger_values P t kind (ar_id row) (artifact_envelope row) True (ad_ledger db)
      = Inr (ad_ledger db')"
  shows "sources_match t db'"
proof -
  let ?L = "visible t (ad_ledger db)" and ?L' = "visible t (ad_ledger db')"
  have src: "\<exists>a. (t, a) \<in> set (source_table (lr_kind r) db) \<and> ar_id a = lr_artifact_id r
      \<and> artifact_envelope a = ledger_envelope r" if "r \<in> set ?L" for r
    using match that by (auto simp: sources_match_def)
  have led: "\<exists>r \<in> set ?L. lr_kind r = k \<and> lr_artifact_id r = ar_id a" if "(t, a) \<in> set (source_table k db)" for k a
    using match that by (auto simp: sources_match_def)
  have mem: "(t, a) \<in> set (source_table k db') \<longleftrightarrow>
      k = kind \<and> a = row \<or> (t, a) \<in> set (source_table k db) \<and> \<not> (k = kind \<and> ar_id a = ar_id row)" for k a
    using stored by (auto simp: stored_def tables)
  consider (old) r0 where "r0 \<in> set ?L" "lr_kind r0 = kind" "lr_artifact_id r0 = ar_id row"
      "ledger_envelope r0 = artifact_envelope row" "?L' = ?L"
    | (new) r where "?L' = ?L @ [r]" "lr_kind r = kind" "lr_artifact_id r = ar_id row"
      "ledger_envelope r = artifact_envelope row"
      "\<forall>r' \<in> set ?L. \<not> (lr_kind r' = kind \<and> lr_artifact_id r' = ar_id row)"
    using append_ledger_extends [OF app chain] by fastforce
  then show ?thesis
  proof cases
    case old
    have same: "ledger_envelope r = artifact_envelope row"
      if "r \<in> set ?L" "lr_kind r = kind" "lr_artifact_id r = ar_id row" for r
      using src [OF that(1)] src [OF old(1)] that(2,3) old(2-4) unique_keyD [OF unique]
      by (metis prod.inject)
    have "\<exists>a. (t, a) \<in> set (source_table (lr_kind r) db') \<and> ar_id a = lr_artifact_id r
        \<and> artifact_envelope a = ledger_envelope r" if "r \<in> set ?L" for r
      using src [OF that] same [OF that] unfolding mem by (cases "lr_kind r = kind") metis+
    moreover have "\<exists>r \<in> set ?L. lr_kind r = k \<and> lr_artifact_id r = ar_id a"
      if "(t, a) \<in> set (source_table k db')" for k a
      using that led old(1-3) unfolding mem by metis
    ultimately show ?thesis by (simp add: sources_match_def old(5))
  next
    case new
    have "\<exists>a. (t, a) \<in> set (source_table (lr_kind r') db') \<and> ar_id a = lr_artifact_id r'
        \<and> artifact_envelope a = ledger_envelope r'" if "r' \<in> set ?L" for r'
      using src [OF that] new(5) that unfolding mem by metis
    moreover have "\<exists>r' \<in> set (?L @ [r]). lr_kind r' = k \<and> lr_artifact_id r' = ar_id a"
      if "(t, a) \<in> set (source_table k db')" for k a
      using that led new(2,3) unfolding mem set_append by auto
    ultimately show ?thesis
      unfolding sources_match_def new(1) by (auto simp: new(2-4) mem)
  qed
qed

lemma append_other_tenant:
  "append_ledger_values P t kind i env m ledger = Inr ledger' \<Longrightarrow> u \<noteq> t \<Longrightarrow> visible u ledger' = visible u ledger"
  by (auto simp: append_ledger_values_def split: option.splits if_splits)

lemma save_keeps_ok:
  assumes ok: "artifact_db_ok P kr db"
    and tables: "\<And>k. source_table k db' = (if k = kind then tbl' else source_table k db)"
    and stored: "stored t row (source_table kind db) tbl'"
    and app: "append_ledger_values P t kind (ar_id row) (artifact_envelope row) True (ad_ledger db)
      = Inr (ad_ledger db')"
    and row: "verify_artifact P kr kind row = Inr ()"
  shows "artifact_db_ok P kr db'"
  unfolding artifact_db_ok_def
proof (intro conjI allI)
  have chain: "chained P u LEDGER_GENESIS_SHA256 1 (visible u (ad_ledger db))" "sources_match u db" for u
    using ok by (auto simp: artifact_db_ok_def)
  have unique: "unique_key ar_id (source_table k db)" for k using ok by (auto simp: artifact_db_ok_def)
  show "chained P u LEDGER_GENESIS_SHA256 1 (visible u (ad_ledger db'))" for u
    using append_ledger_extends [OF app chain(1)] append_other_tenant [OF app, of u] chain(1)
    by (cases "u = t") auto
  show "sources_match u db'" for u
  proof (cases "u = t")
    case True
    then show ?thesis using sources_match_save [OF chain(2) unique chain(1) tables stored app] by simp
  next
    case False
    have "(u, a) \<in> set (source_table k db') \<longleftrightarrow> (u, a) \<in> set (source_table k db)" for k a
      using stored False by (auto simp: stored_def tables)
    then show ?thesis
      using chain(2) [of u] append_other_tenant [OF app False] by (simp add: sources_match_def)
  qed
  show "unique_key ar_id (source_table k db')" for k
    using unique [of k] stored by (auto simp: tables stored_def)
  show "all_rows (\<lambda>r. verify_artifact P kr k r = Inr ()) (source_table k db')" for k
    using ok stored row by (fastforce simp: all_rows_def tables stored_def artifact_db_ok_def)
qed

subsection \<open>Sequences of saves\<close>

datatype artifact_event =
    Save_run tenant uuid json
  | Save_comparison tenant uuid uuid uuid json
  | Save_evidence tenant uuid json

fun artifact_op ::
  "primitives \<Rightarrow> keyring option \<Rightarrow> (json \<Rightarrow> json) \<Rightarrow> artifact_event \<Rightarrow> artifact_db \<Rightarrow> artifact_db result" where
  "artifact_op P kr jsonb (Save_run t i payload) db = save_run P kr jsonb t i payload db"
| "artifact_op P kr jsonb (Save_comparison t i b c payload) db = save_comparison P kr jsonb t i b c payload db"
| "artifact_op P kr jsonb (Save_evidence t i payload) db = save_guardrail_evidence P kr jsonb t i payload db"

definition artifact_db0 :: artifact_db where
  "artifact_db0 = \<lparr>ad_runs = [], ad_comparisons = [], ad_evidence = [], ad_ledger = []\<rparr>"

lemma artifact_db0_ok: "artifact_db_ok P kr artifact_db0"
proof -
  have "source_table k artifact_db0 = []" for k by (cases k) (simp_all add: artifact_db0_def)
  then show ?thesis
    by (simp add: artifact_db_ok_def sources_match_def unique_key_def all_rows_def)
      (simp add: artifact_db0_def)
qed

lemma saved_row:
  assumes "artifact_op P kr jsonb e db = Inr db'"
  shows "\<exists>kind t i payload row tbl'. artifact_row_of P kr jsonb kind i payload = Inr row
    \<and> stored t row (source_table kind db) tbl'
    \<and> (\<forall>k. source_table k db' = (if k = kind then tbl' else source_table k db))
    \<and> append_ledger_values P t kind (ar_id row) (artifact_envelope row) True (ad_ledger db) = Inr (ad_ledger db')
    \<and> (\<forall>u j p. e = Save_run u j p \<longrightarrow> kind = Run \<and> t = u \<and> i = j \<and> payload = p)"
proof (cases e)
  case (Save_run t i payload)
  then obtain row runs ledger where row: "artifact_row_of P kr jsonb Run i payload = Inr row"
    "upsert_run t row (ad_runs db) = Inr runs"
    "append_ledger_values P t Run (ar_id row) (artifact_envelope row) True (ad_ledger db) = Inr ledger"
    "db' = db\<lparr>ad_runs := runs, ad_ledger := ledger\<rparr>"
    using assms by (auto simp: save_run_def append_artifact_ledger_def)
  have "source_table k db' = (if k = Run then runs else source_table k db)" for k
    by (cases k) (simp_all add: row(4))
  then show ?thesis using Save_run row upsert_stored [OF row(2)]
    by (intro exI [of _ Run] exI [of _ t] exI [of _ i] exI [of _ payload] exI [of _ row] exI [of _ runs]) auto
next
  case (Save_comparison t i b c payload)
  then obtain row tbl ledger where row: "artifact_row_of P kr jsonb Comparison i payload = Inr row"
    "insert_artifact t row (ad_comparisons db) = Inr tbl"
    "append_ledger_values P t Comparison (ar_id row) (artifact_envelope row) True (ad_ledger db) = Inr ledger"
    "db' = db\<lparr>ad_comparisons := tbl, ad_ledger := ledger\<rparr>"
    using assms by (auto simp: save_comparison_def append_artifact_ledger_def split: if_splits)
  have "source_table k db' = (if k = Comparison then tbl else source_table k db)" for k
    by (cases k) (simp_all add: row(4))
  then show ?thesis using Save_comparison row insert_stored [OF row(2)]
    by (intro exI [of _ Comparison] exI [of _ t] exI [of _ i] exI [of _ payload] exI [of _ row] exI [of _ tbl]) auto
next
  case (Save_evidence t i payload)
  then obtain row tbl ledger where row: "artifact_row_of P kr jsonb Guardrail_evidence i payload = Inr row"
    "insert_artifact t row (ad_evidence db) = Inr tbl"
    "append_ledger_values P t Guardrail_evidence (ar_id row) (artifact_envelope row) True (ad_ledger db) = Inr ledger"
    "db' = db\<lparr>ad_evidence := tbl, ad_ledger := ledger\<rparr>"
    using assms by (auto simp: save_guardrail_evidence_def append_artifact_ledger_def)
  have "source_table k db' = (if k = Guardrail_evidence then tbl else source_table k db)" for k
    by (cases k) (simp_all add: row(4))
  then show ?thesis using Save_evidence row insert_stored [OF row(2)]
    by (intro exI [of _ Guardrail_evidence] exI [of _ t] exI [of _ i] exI [of _ payload] exI [of _ row]
        exI [of _ tbl]) auto
qed

lemma artifact_op_ok:
  assumes "artifact_op P kr jsonb e db = Inr db'" "artifact_db_ok P kr db" "signing_ok P kr" "jsonb_ok jsonb"
  shows "artifact_db_ok P kr db'"
proof -
  obtain kind t i payload row tbl' where saved: "artifact_row_of P kr jsonb kind i payload = Inr row"
    "stored t row (source_table kind db) tbl'"
    "\<And>k. source_table k db' = (if k = kind then tbl' else source_table k db)"
    "append_ledger_values P t kind (ar_id row) (artifact_envelope row) True (ad_ledger db) = Inr (ad_ledger db')"
    using saved_row [OF assms(1)] by metis
  then show ?thesis
    using save_keeps_ok [OF assms(2) saved(3,2,4)] new_row_verifies [OF saved(1) assms(3,4)] by blast
qed

lemma artifact_ops_ok:
  "fold_result (artifact_op P kr jsonb) es db = Inr db' \<Longrightarrow> artifact_db_ok P kr db \<Longrightarrow> signing_ok P kr \<Longrightarrow>
     jsonb_ok jsonb \<Longrightarrow> artifact_db_ok P kr db'"
  by (rule fold_result_invariant) (auto intro: artifact_op_ok)

lemma append_ledger_grows:
  "append_ledger_values P t kind i env m ledger = Inr ledger' \<Longrightarrow> \<exists>new. ledger' = ledger @ new"
  by (auto simp: append_ledger_values_def insert_row_def split: option.splits if_splits)

lemma artifact_op_grows:
  "artifact_op P kr jsonb e db = Inr db' \<Longrightarrow> \<exists>new. ad_ledger db' = ad_ledger db @ new"
  using saved_row append_ledger_grows by metis

lemma artifact_ops_grow:
  "fold_result (artifact_op P kr jsonb) es db = Inr db' \<Longrightarrow> \<exists>new. ad_ledger db' = ad_ledger db @ new"
proof (induction es arbitrary: db)
  case (Cons e es)
  then obtain db1 where step: "artifact_op P kr jsonb e db = Inr db1"
    "fold_result (artifact_op P kr jsonb) es db1 = Inr db'" by auto
  show ?case using artifact_op_grows [OF step(1)] Cons.IH [OF step(2)] by auto
qed simp

lemma source_envelope_unique:
  assumes "unique_key ar_id (source_table kind db)" "(t, a) \<in> set (source_table kind db)"
  shows "source_envelope t db kind (ar_id a) = Some (artifact_envelope a)"
proof -
  have "distinct (map ar_id (rev (visible t (source_table kind db))))"
    using unique_visible [OF assms(1)] by (simp add: rev_map [symmetric])
  then have "find (\<lambda>r. ar_id r = ar_id a) (rev (visible t (source_table kind db))) = Some a"
    using assms(2) by (intro find_unique_key) (simp_all add: set_visible)
  then show ?thesis by (simp add: source_envelope_def)
qed

lemma audit_row_verified:
  assumes "verify_artifact P kr kind r = Inr ()"
  shows "audit_row P kr kind r a = Inr (count_row r a)"
  using assms by (auto simp: verify_artifact_def audit_row_def Let_def split: if_splits)

lemma audit_verified:
  "(\<And>kind r. (kind, r) \<in> set rows \<Longrightarrow> verify_artifact P kr kind r = Inr ()) \<Longrightarrow>
     \<exists>a'. fold_result (\<lambda>(kind, r). audit_row P kr kind r) rows a = Inr a' \<and> au_failures a' = au_failures a
       \<and> au_checked a' = au_checked a + length rows
       \<and> au_signed a' + au_unsigned a' = au_signed a + au_unsigned a + length rows"
proof (induction rows arbitrary: a)
  case (Cons x rows)
  obtain kind r where x: "x = (kind, r)" by (cases x)
  have "verify_artifact P kr kind r = Inr ()" using Cons.prems by (simp add: x)
  moreover have "au_failures (count_row r a) = au_failures a" "au_checked (count_row r a) = au_checked a + 1"
    "au_signed (count_row r a) + au_unsigned (count_row r a) = au_signed a + au_unsigned a + 1"
    by (simp_all add: count_row_def)
  ultimately show ?case using Cons.IH [of "count_row r a"] Cons.prems by (fastforce simp: x audit_row_verified)
qed simp


lemma get_artifact_stored:
  assumes ok: "artifact_db_ok P kr db" and a: "(t, a) \<in> set (source_table kind db)"
  shows "get_artifact P kr t kind (ar_id a) db = Inr (ar_payload a)
    \<and> digest_of P (ar_payload a) = Inr (ar_payload_sha256 a)"
proof -
  have unique: "unique_key ar_id (source_table kind db)" and verified: "verify_artifact P kr kind a = Inr ()"
    using ok a all_rowsD by (fastforce simp: artifact_db_ok_def)+
  have "find (\<lambda>r. ar_id r = ar_id a) (visible t (source_table kind db)) = Some a"
    using a unique_visible [OF unique] by (intro find_unique_key) (simp_all add: set_visible)
  moreover have "digest_of P (ar_payload a) = Inr (ar_payload_sha256 a)"
    using verified by (auto simp: verify_artifact_def compare_digest_def split: if_splits)
  ultimately show ?thesis using verified by (simp add: get_artifact_def)
qed

text \<open>A saved run cannot be changed: after any further saves that succeed, reading it gives a payload
  with the digest of the one that was saved, and the ledger of its tenant still starts with the
  entries it had.\<close>

theorem saved_run_immutable:
  assumes "signing_ok P kr" and "jsonb_ok jsonb"
    and "fold_result (artifact_op P kr jsonb) (es @ [Save_run t i payload]) artifact_db0 = Inr db"
    and "fold_result (artifact_op P kr jsonb) es' db = Inr db'"
  shows "(\<exists>p. get_artifact P kr t Run i db' = Inr p \<and> digest_of P p = digest_of P payload)
    \<and> (\<exists>new. visible t (ad_ledger db') = visible t (ad_ledger db) @ new)"
proof -
  obtain db0 where db0: "fold_result (artifact_op P kr jsonb) es artifact_db0 = Inr db0"
    "artifact_op P kr jsonb (Save_run t i payload) db0 = Inr db"
    using assms(3) by auto
  have ok: "artifact_db_ok P kr db0" using artifact_ops_ok [OF db0(1) artifact_db0_ok assms(1,2)] .
  have ok1: "artifact_db_ok P kr db" using artifact_op_ok [OF db0(2) ok assms(1,2)] .
  have ok': "artifact_db_ok P kr db'" using artifact_ops_ok [OF assms(4) ok1 assms(1,2)] .
  obtain row tbl' where row: "artifact_row_of P kr jsonb Run i payload = Inr row"
    "stored t row (source_table Run db0) tbl'" "\<And>k. source_table k db = (if k = Run then tbl' else source_table k db0)"
    using saved_row [OF db0(2)] by metis
  have id: "ar_id row = i" and digest: "digest_of P payload = Inr (ar_payload_sha256 row)"
    using new_row_verifies [OF row(1) assms(1,2)] by blast+
  have mem: "(t, row) \<in> set (source_table Run db)" using row(2) by (simp add: row(3) stored_def del: source_table.simps)
  have "sources_match t db" using ok1 by (simp add: artifact_db_ok_def)
  then obtain r where r: "r \<in> set (visible t (ad_ledger db))" "lr_kind r = Run" "lr_artifact_id r = ar_id row"
    using mem unfolding sources_match_def by blast
  then have "source_envelope t db Run (ar_id row) = Some (ledger_envelope r)"
    using \<open>sources_match t db\<close> source_envelope_unique [of Run db t] ok1
    unfolding sources_match_def artifact_db_ok_def by metis
  then have env: "ledger_envelope r = artifact_envelope row"
    using source_envelope_unique [of Run db t row] mem ok1 by (simp add: artifact_db_ok_def del: source_table.simps)
  obtain new where grow: "ad_ledger db' = ad_ledger db @ new" using artifact_ops_grow [OF assms(4)] by blast
  then have "r \<in> set (visible t (ad_ledger db'))" using r(1) by simp
  then obtain a where a: "(t, a) \<in> set (source_table Run db')" "ar_id a = ar_id row"
    "artifact_envelope a = artifact_envelope row"
    using ok' env r(2,3) unfolding artifact_db_ok_def sources_match_def by metis
  then have "ar_payload_sha256 a = ar_payload_sha256 row" by (simp add: artifact_envelope_def)
  then show ?thesis
    using get_artifact_stored [OF ok' a(1)] a(2) id digest grow by simp
qed

subsection \<open>A concrete history\<close>

definition toy_keyring :: keyring where
  "toy_keyring = \<lparr>hmac_keys = [(''k1'', replicate 32 CHR ''x'')], private_keys = [], public_keys = [],
     active_key_id = Some ''k1'', active_algorithm = Some HMAC_SHA256, kr_remote_signer = None\<rparr>"

lemma toy_signing_ok: "signing_ok toy_primitives (Some toy_keyring)"
proof -
  have "fullmatch KEY_ID_PATTERN ''k1''"
    by (simp add: fullmatch_iff KEY_ID_PATTERN_def Let_def in_lang_up_to_Cls in_class_def)
  then show ?thesis
    by (simp add: signing_ok_def toy_primitives_ok keyring_ok_def toy_keyring_def check_active_key_def
        HMAC_SHA256_def ED25519_def del: fullmatch.simps)
qed

lemma genesis_is_sha256 [simp]: "is_sha256 LEDGER_GENESIS_SHA256"
  by (simp add: is_sha256_def LEDGER_GENESIS_SHA256_def in_class_def list_all_iff)

lemma toy_saves:
  "\<exists>db. fold_result (artifact_op toy_primitives (Some toy_keyring) (\<lambda>v. v)) [Save_run ''acme'' 1 (JInt 5)] artifact_db0 = Inr db"
  by (simp add: save_run_def artifact_row_of_def digest_of_def artifact_digest_def canonical_json_bytes_def
      canonical_form_def sign_artifact_def keyring_sign_def toy_keyring_def Let_def subscript_def upsert_run_def
      artifact_db0_def append_artifact_ledger_def append_ledger_values_def ledger_head_def ledger_entry_row_def
      artifact_envelope_def ledger_entry_digest_eq toy_primitives_def)


theorem saved_run_immutable_witness:
  "\<exists>db p. fold_result (artifact_op toy_primitives (Some toy_keyring) (\<lambda>v. v)) [Save_run ''acme'' 1 (JInt 5)] artifact_db0 = Inr db
     \<and> get_artifact toy_primitives (Some toy_keyring) ''acme'' Run 1 db = Inr p"
proof -
  obtain db where db: "fold_result (artifact_op toy_primitives (Some toy_keyring) (\<lambda>v. v))
      ([] @ [Save_run ''acme'' 1 (JInt 5)]) artifact_db0 = Inr db"
    using toy_saves unfolding append_Nil by blast
  show ?thesis
    using saved_run_immutable [OF toy_signing_ok _ db, of "[]" db] db by (auto simp: jsonb_ok_def simp del: fold_result.simps(2))
qed

theorem ledger_head_commits_witness:
  "\<exists>(db :: artifact_db) n h. verify_artifact_ledger toy_primitives ''acme'' db = Inr (n, n, h, []) \<and>
     (ledger_rows ''acme'' db = ledger_rows ''acme'' db
       \<or> hash_collision toy_primitives ''acme'' (ledger_rows ''acme'' db) (ledger_rows ''acme'' db))"
proof -
  have clean: "verify_artifact_ledger toy_primitives ''acme'' artifact_db0 = Inr (0, 0, LEDGER_GENESIS_SHA256, [])"
    by (simp add: verify_artifact_ledger_def ledger_rows_def artifact_db0_def)
  have "float_repr_ok (float_repr toy_primitives)" using toy_primitives_ok by (simp add: primitives_ok_def)
  then show ?thesis using ledger_head_commits [OF _ clean clean] clean by blast
qed

end
