(* ===== verification/Checkpoint_Properties.thy ===== *)
theory Checkpoint_Properties
  imports Checkpoint_Store Ledger_Properties
begin

section \<open>Properties of checkpoints\<close>

text \<open>
  The contract of a sink as a locale, with the durability of replication proved inside it and the S3
  sink as its instance; what a receipt guarantees; and rollback detection.
\<close>

subsection \<open>The contract of a sink\<close>

text \<open>A publication that a sink reports has one copy, under the name of the sink and fit for a predicate.\<close>

locale checkpoint_sink =
  fixes publish :: "'sink \<Rightarrow> signed_checkpoint \<Rightarrow> 's \<Rightarrow> publication result \<times> 's"
    and name :: "'sink \<Rightarrow> string" and good :: "signed_checkpoint \<Rightarrow> object_receipt \<Rightarrow> bool"
  assumes one_copy: "publish sink c st = (Inr p, st') \<Longrightarrow>
      \<exists>r. pb_copies p = [r] \<and> or_destination_id r = name sink \<and> good c r"
    and only_publication_errors: "publish sink c st = (Inl e, st') \<Longrightarrow> \<exists>m. e = CheckpointPublicationError m"
begin

lemma copies_and_failures:
  "\<exists>cs fs st'. publish_copies publish name c sinks copies failures st = (Inr (copies @ cs, failures @ fs), st')
    \<and> list_all (good c) cs \<and> mset (map or_destination_id cs) + mset fs = mset (map name sinks)"
proof (induction sinks arbitrary: copies failures st)
  case (Cons sink sinks)
  obtain res st1 where pub: "publish sink c st = (res, st1)" by (cases "publish sink c st")
  show ?case
  proof (cases res)
    case (Inl e)
    then obtain m where e: "e = CheckpointPublicationError m" using only_publication_errors pub by blast
    obtain cs fs st' where IH: "publish_copies publish name c sinks copies (failures @ [name sink]) st1
        = (Inr (copies @ cs, (failures @ [name sink]) @ fs), st')" "list_all (good c) cs"
      "mset (map or_destination_id cs) + mset fs = mset (map name sinks)"
      using Cons.IH by blast
    then show ?thesis
      using pub Inl e by (intro exI [of _ cs] exI [of _ "name sink # fs"] exI [of _ st']) auto
  next
    case (Inr p)
    then obtain r where r: "pb_copies p = [r]" "or_destination_id r = name sink" "good c r"
      using one_copy pub by blast
    obtain cs fs st' where IH: "publish_copies publish name c sinks (copies @ [r]) failures st1
        = (Inr ((copies @ [r]) @ cs, failures @ fs), st')" "list_all (good c) cs"
      "mset (map or_destination_id cs) + mset fs = mset (map name sinks)"
      using Cons.IH by blast
    then show ?thesis
      using pub Inr r by (intro exI [of _ "r # cs"] exI [of _ fs] exI [of _ st']) auto
  qed
qed auto

lemma replication_durable:
  assumes "replicated_sink_of name sinks required = Inr r"
    and names: "list_all (fullmatch DESTINATION_ID_PATTERN) (map name sinks)"
  shows "case publish_replicated publish name r c st of
      (Inl e, _) \<Rightarrow> \<exists>m. e = CheckpointPublicationError m
    | (Inr p, _) \<Rightarrow> rp_required_copies r \<le> int (length (pb_copies p)) \<and> list_all (good c) (pb_copies p)
        \<and> mset (map or_destination_id (pb_copies p)) + mset (pb_failed_destinations p) = mset (map name sinks)"
proof -
  have r: "rp_sinks r = sinks" "distinct (map name sinks)" "1 \<le> rp_required_copies r"
    "rp_required_copies r \<le> int (length sinks)" "length sinks \<le> 5"
    using assms(1) by (auto simp: replicated_sink_of_def Let_def split: if_splits)
  obtain cs fs st' where pub: "publish_copies publish name c sinks [] [] st = (Inr (cs, fs), st')"
    "list_all (good c) cs" and parts: "mset (map or_destination_id cs) + mset fs = mset (map name sinks)"
    using copies_and_failures [of c sinks "[]" "[]" st] by auto
  have all: "mset (map or_destination_id cs @ fs) = mset (map name sinks)" using parts by simp
  then have "distinct (map or_destination_id cs @ fs)" using r(2) mset_eq_imp_distinct_iff by blast
  moreover have "set fs \<subseteq> set (map name sinks)" using mset_eq_setD [OF all] by auto
  ultimately have valid: "validate_publication p = Inr p"
    if "pb_copies p = cs" "pb_failed_destinations p = fs" "pb_required_copies p = rp_required_copies r"
      "rp_required_copies r \<le> int (length cs)" for p :: publication
    using that r names by (auto simp: validate_publication_def Let_def list_ex_iff list_all_iff)
  show ?thesis
    using pub parts valid by (simp add: publish_replicated_def r(1))
qed

end

subsection \<open>The S3 sink\<close>

text \<open>Encoding a checkpoint never fails: it contains no float.\<close>

lemma canonical_bytes_Inr: "\<exists>b. canonical_bytes P isotime c = Inr b"
  by (simp add: canonical_bytes_def canonical_json_bytes_def canonical_form_def signed_json_def payload_json_def
      Let_def)

definition s3_copy_verified ::
  "primitives \<Rightarrow> (instant \<Rightarrow> string) \<Rightarrow> 's s3_client \<Rightarrow> s3_sink \<Rightarrow> signed_checkpoint \<Rightarrow> 's \<Rightarrow> object_receipt \<Rightarrow> bool" where
  "s3_copy_verified P isotime client sink c st r \<longleftrightarrow>
     (\<exists>head stream body. head_object client (sk_bucket sink) (or_object_key r) st = Inr head
       \<and> get_object client (sk_bucket sink) (or_object_key r) st = Inr (Some stream)
       \<and> canonical_bytes P isotime c = Inr body \<and> take read_limit stream = body
       \<and> hr_lock_mode head = Some ''COMPLIANCE'' \<and> hr_retain_until head = Some (or_retention_until r)
       \<and> or_body_sha256 r = sha256_hex P body
       \<and> (case hr_metadata head of None \<Rightarrow> False
          | Some m \<Rightarrow> map_of m ''checkpoint-sha256'' = Some (sha256_hex P body)))"

lemma verify_copy_Inr:
  assumes "verify_copy client sink now c key body sha st = Inr r"
  shows "\<exists>head stream. head_object client (sk_bucket sink) key st = Inr head
      \<and> get_object client (sk_bucket sink) key st = Inr (Some stream) \<and> take read_limit stream = body
      \<and> hr_lock_mode head = Some ''COMPLIANCE'' \<and> hr_retain_until head = Some (or_retention_until r)
      \<and> (case hr_metadata head of None \<Rightarrow> False | Some m \<Rightarrow> map_of m ''checkpoint-sha256'' = Some sha)
      \<and> or_body_sha256 r = sha \<and> or_object_key r = key \<and> or_destination_id r = sk_destination_id sink
      \<and> cp_retention_until (sc_payload c) \<le> or_retention_until r \<and> or_verified_at r = now"
  using assms by (auto simp: verify_copy_def split: sum.splits option.splits if_splits)

lemma verify_copy_Inl:
  "verify_copy client sink now c key body sha st = Inl e \<Longrightarrow> \<exists>m. e = CheckpointPublicationError m"
  by (auto simp: verify_copy_def split: sum.splits option.splits if_splits)

lemma publish_s3_Inr:
  assumes "publish_s3 P isotime now client sink c st = (Inr p, st')"
  shows "\<exists>r. pb_copies p = [r] \<and> or_destination_id r = sk_destination_id sink \<and> pb_required_copies p = 1
    \<and> cp_retention_until (sc_payload c) \<le> or_retention_until r \<and> now < cp_retention_until (sc_payload c)
    \<and> or_object_key r = sk_prefix sink @ ''/'' @ checkpoint_object_key c
    \<and> s3_copy_verified P isotime client sink c st' r"
proof -
  obtain body where body: "canonical_bytes P isotime c = Inr body" using canonical_bytes_Inr by blast
  let ?key = "sk_prefix sink @ ''/'' @ checkpoint_object_key c"
  have "now < cp_retention_until (sc_payload c) \<and>
    (\<exists>r. verify_copy client sink now c ?key body (sha256_hex P body) st' = Inr r \<and> pb_copies p = [r]
      \<and> pb_required_copies p = 1)"
    using assms body
    by (auto simp: publish_s3_def Let_def validate_publication_def split: if_splits sum.splits prod.splits)
  then show ?thesis
    using verify_copy_Inr body unfolding s3_copy_verified_def by metis
qed

lemma publish_s3_Inl:
  assumes "publish_s3 P isotime now client sink c st = (Inl e, st')"
  shows "\<exists>m. e = CheckpointPublicationError m"
proof -
  obtain body where body: "canonical_bytes P isotime c = Inr body" using canonical_bytes_Inr by blast
  have single: "validate_publication p = Inr p" if "pb_copies p = [r]" "pb_required_copies p = 1"
    "pb_failed_destinations p = []" for p :: publication and r
    using that by (simp add: validate_publication_def)
  show ?thesis
    using assms body verify_copy_Inl
    by (auto simp: publish_s3_def Let_def single bind_result_def split: if_splits sum.splits prod.splits)
qed

interpretation s3: checkpoint_sink "publish_s3 P isotime now client" sk_destination_id
    "\<lambda>c r. cp_retention_until (sc_payload c) \<le> or_retention_until r"
  for P :: primitives and isotime :: "instant \<Rightarrow> string" and now :: instant and client :: "'s s3_client"
proof unfold_locales
  fix sink c st p st'
  assume "publish_s3 P isotime now client sink c st = (Inr p, st')"
  from publish_s3_Inr [OF this] show "\<exists>r. pb_copies p = [r] \<and> or_destination_id r = sk_destination_id sink
      \<and> cp_retention_until (sc_payload c) \<le> or_retention_until r" by blast
qed (rule publish_s3_Inl)

text \<open>C8. A publication to S3 is reported only after the copy has been read back: the object under the
  checkpoint's key has exactly the canonical bytes, its metadata their digest, it is under COMPLIANCE
  retention, and retained at least as long as the checkpoint asks, which is still in the future.\<close>

theorem s3_publication_verified:
  "case publish_s3 P isotime now client sink c st of
     (Inl e, _) \<Rightarrow> (\<exists>m. e = CheckpointPublicationError m)
   | (Inr p, st') \<Rightarrow> (\<exists>r. pb_copies p = [r] \<and> or_destination_id r = sk_destination_id sink
       \<and> or_object_key r = sk_prefix sink @ ''/'' @ checkpoint_object_key c
       \<and> now < cp_retention_until (sc_payload c) \<and> cp_retention_until (sc_payload c) \<le> or_retention_until r
       \<and> s3_copy_verified P isotime client sink c st' r)"
  using publish_s3_Inr publish_s3_Inl by (fastforce split: sum.splits prod.splits)


definition toy_sink :: "string \<Rightarrow> s3_sink" where
  "toy_sink name = \<lparr>sk_bucket = ''b'', sk_prefix = ''p'', sk_destination_id = name, sk_region = None\<rparr>"

definition down_client :: "unit s3_client" where
  "down_client = \<lparr>get_object_lock_configuration = (\<lambda>_ _. Inl ''503''), put_object = (\<lambda>_ st. (Some ''503'', st)),
     head_object = (\<lambda>_ _ _. Inl ''503''), get_object = (\<lambda>_ _ _. Inl ''503'')\<rparr>"

definition toy_checkpoint :: signed_checkpoint where
  "toy_checkpoint = \<lparr>sc_payload = \<lparr>cp_checkpoint_id = 3, cp_tenant_id = ''acme'', cp_ledger_sequence = 0,
       cp_ledger_entries = 0, cp_ledger_head_sha256 = LEDGER_GENESIS_SHA256, cp_created_at = 0,
       cp_retention_until = 30 * day\<rparr>,
     sc_payload_sha256 = LEDGER_GENESIS_SHA256, sc_signature_algorithm = ED25519, sc_signing_key_id = ''k1'',
     sc_signature = ''s''\<rparr>"

lemma destination_names:
  "fullmatch DESTINATION_ID_PATTERN ''primary''" "fullmatch DESTINATION_ID_PATTERN ''replica''"
  by (simp_all add: fullmatch_iff DESTINATION_ID_PATTERN_def in_lang_up_to_Cls in_class_def)


text \<open>The retention asked of S3 is the checkpoint's, rounded up to a full second: never earlier, and
  less than a second later.\<close>

theorem retention_deadline_bounds:
  "v \<le> retention_request_deadline v \<and> retention_request_deadline v < v + second
    \<and> second dvd retention_request_deadline v"
proof -
  have "0 \<le> v mod second" "v mod second < second" by simp_all
  moreover have "second dvd v - v mod second" by (simp add: minus_mod_eq_mult_div)
  ultimately show ?thesis by (auto simp: retention_request_deadline_def mod_0_imp_dvd)
qed

subsection \<open>Object keys\<close>

definition payload_ok :: "checkpoint_payload \<Rightarrow> bool" where
  "payload_ok p \<longleftrightarrow> validate_payload p = Inr p"

lemma payload_okD:
  assumes "payload_ok p"
  shows "fullmatch TENANT_ID_PATTERN (cp_tenant_id p)" "0 \<le> cp_ledger_sequence p"
    and "is_sha256 (cp_ledger_head_sha256 p)"
  using assms by (auto simp: payload_ok_def validate_payload_def split: if_splits)

lemma tenant_id_chars:
  assumes "fullmatch TENANT_ID_PATTERN t"
  shows "CHR ''/'' \<notin> set t" "t \<notin> {[], ''.'', ''..''}"
proof -
  have chars: "t \<noteq> []" "in_class (hd t) (lower_az @ digits09)" "list_all tenant_char t"
    using assms by (auto simp: fullmatch_tenant_id)
  have "\<not> tenant_char CHR ''/''" by (simp add: tenant_char_def in_class_def)
  then show "CHR ''/'' \<notin> set t" using chars(3) by (auto simp: list_all_iff)
  have "\<not> in_class CHR ''.'' (lower_az @ digits09)" by (simp add: in_class_def)
  then show "t \<notin> {[], ''.'', ''..''}" using chars(1,2) by auto
qed

lemma pad20_chars: "0 \<le> n \<Longrightarrow> c \<in> set (pad20 n) \<Longrightarrow> is_dec c"
  by (auto simp: pad20_def Let_def int_str_def is_dec_def dest: is_dec_nat_str [THEN bspec])

lemma dec_val_zeros: "dec_val (replicate k CHR ''0'' @ s) = dec_val s"
  by (induction k) (simp_all add: dec_val_def)

lemma dec_val_pad20: "0 \<le> n \<Longrightarrow> dec_val (pad20 n) = nat n"
  by (simp add: pad20_def Let_def dec_val_zeros int_str_def)

lemma pad20_inj: "0 \<le> m \<Longrightarrow> 0 \<le> n \<Longrightarrow> pad20 m = pad20 n \<Longrightarrow> m = n"
  by (metis dec_val_pad20 eq_nat_nat_iff)

lemma hex_fixed_chars: "c \<in> set (hex_fixed w n) \<Longrightarrow> c \<noteq> CHR ''/''"
proof (induction w arbitrary: n)
  case (Suc w)
  have "hex_digit (n mod 16) \<noteq> CHR ''/''"
  proof
    assume "hex_digit (n mod 16) = CHR ''/''"
    then have "(of_char (hex_digit (n mod 16)) :: nat) = 47" by simp
    then show False by (auto simp: hex_digit_def split: if_splits)
  qed
  then show ?case using Suc by auto
qed simp

lemma uuid_str_chars: "CHR ''/'' \<notin> set (uuid_str u)" "length (uuid_str u) = 36"
  by (auto simp: uuid_str_def Let_def dest!: in_set_takeD in_set_dropD hex_fixed_chars)

lemma sha256_chars: "is_sha256 s \<Longrightarrow> CHR ''/'' \<notin> set s"
  by (auto simp: is_sha256_def list_all_iff in_class_def)

text \<open>The file part of an object key.\<close>

definition key_file :: "checkpoint_payload \<Rightarrow> string" where
  "key_file p = pad20 (cp_ledger_sequence p) @ ''-'' @ cp_ledger_head_sha256 p @ ''-''
     @ uuid_str (cp_checkpoint_id p) @ ''.json''"

lemma object_key_parts: "checkpoint_object_key c = cp_tenant_id (sc_payload c) @ CHR ''/'' # key_file (sc_payload c)"
  by (simp add: checkpoint_object_key_def key_file_def Let_def)

lemma key_file_no_slash: "payload_ok p \<Longrightarrow> CHR ''/'' \<notin> set (key_file p)"
  using pad20_chars [of "cp_ledger_sequence p" "CHR ''/''"] payload_okD [of p] sha256_chars uuid_str_chars
  by (auto simp: key_file_def is_dec_def)

text \<open>Two checkpoints share an object key only when they have the same tenant, ledger sequence, head
  and checkpoint id: a bucket keeps them apart.\<close>

theorem object_keys_distinct:
  assumes "payload_ok (sc_payload c)" and "payload_ok (sc_payload d)"
    and "checkpoint_object_key c = checkpoint_object_key d"
  shows "cp_tenant_id (sc_payload c) = cp_tenant_id (sc_payload d)
    \<and> cp_ledger_sequence (sc_payload c) = cp_ledger_sequence (sc_payload d)
    \<and> cp_ledger_head_sha256 (sc_payload c) = cp_ledger_head_sha256 (sc_payload d)
    \<and> cp_checkpoint_id (sc_payload c) = cp_checkpoint_id (sc_payload d)"
proof -
  let ?p = "sc_payload c" and ?q = "sc_payload d"
  note P = payload_okD [OF assms(1)] and Q = payload_okD [OF assms(2)]
  have key: "cp_tenant_id ?p = cp_tenant_id ?q" "key_file ?p = key_file ?q"
    using assms(3) tenant_id_chars(1) [OF P(1)] tenant_id_chars(1) [OF Q(1)]
    by (simp_all add: object_key_parts append_separator_inj)
  have dash: "CHR ''-'' \<notin> set (pad20 (cp_ledger_sequence ?p))" "CHR ''-'' \<notin> set (pad20 (cp_ledger_sequence ?q))"
    using pad20_chars P(2) Q(2) not_is_dec_minus by blast+
  have rest: "pad20 (cp_ledger_sequence ?p) = pad20 (cp_ledger_sequence ?q)"
    "cp_ledger_head_sha256 ?p @ CHR ''-'' # uuid_str (cp_checkpoint_id ?p) @ ''.json''
       = cp_ledger_head_sha256 ?q @ CHR ''-'' # uuid_str (cp_checkpoint_id ?q) @ ''.json''"
    using key(2) dash by (simp_all add: key_file_def append_separator_inj)
  have "length (cp_ledger_head_sha256 ?p) = length (cp_ledger_head_sha256 ?q)"
    using P(3) Q(3) by (simp add: is_sha256_def)
  then have "cp_ledger_head_sha256 ?p = cp_ledger_head_sha256 ?q" "uuid_str (cp_checkpoint_id ?p) = uuid_str (cp_checkpoint_id ?q)"
    using rest(2) by (simp_all add: append_eq_append_conv)
  then show ?thesis using key(1) pad20_inj [OF P(2) Q(2) rest(1)] by simp
qed

lemma toy_payload_ok: "payload_ok (sc_payload toy_checkpoint)"
proof -
  have "fullmatch TENANT_ID_PATTERN ''acme''"
    unfolding fullmatch_tenant_id by (simp add: tenant_char_def in_class_def)
  then show ?thesis
    by (simp add: payload_ok_def validate_payload_def toy_checkpoint_def del: fullmatch.simps)
qed

theorem object_keys_distinct_witness:
  "checkpoint_object_key toy_checkpoint \<noteq>
     checkpoint_object_key (toy_checkpoint\<lparr>sc_payload := (sc_payload toy_checkpoint)\<lparr>cp_checkpoint_id := 4\<rparr>\<rparr>)"
proof -
  have "payload_ok ((sc_payload toy_checkpoint)\<lparr>cp_checkpoint_id := 4\<rparr>)"
    using toy_payload_ok by (auto simp: payload_ok_def validate_payload_def split: if_splits)
  then show ?thesis
    using object_keys_distinct [OF toy_payload_ok, of "toy_checkpoint\<lparr>sc_payload := (sc_payload toy_checkpoint)\<lparr>cp_checkpoint_id := 4\<rparr>\<rparr>"]
    by (auto simp: toy_checkpoint_def)
qed

subsection \<open>The file sink\<close>

definition checkpoint_path :: "string list \<Rightarrow> signed_checkpoint \<Rightarrow> string list" where
  "checkpoint_path base c = base @ [cp_tenant_id (sc_payload c), key_file (sc_payload c)]"

lemma file_destination:
  assumes "payload_ok (sc_payload c)"
  shows "resolve_parts base (split_on CHR ''/'' (checkpoint_object_key c))
    = checkpoint_path base c"
proof -
  have "length (key_file (sc_payload c)) > 5" by (simp add: key_file_def uuid_str_chars)
  then have "key_file (sc_payload c) \<notin> {[], ''.'', ''..''}" by auto
  then show ?thesis
    using tenant_id_chars [OF payload_okD(1) [OF assms]] key_file_no_slash [OF assms]
    by (auto simp: object_key_parts split_on_append split_on_no_sep checkpoint_path_def)
qed

text \<open>The file sink is create-only: a checkpoint is written inside the root under its own key and read
  back there with its canonical bytes, no existing file ever changes, publishing the same checkpoint
  again changes nothing, and the only failure is a file with other bytes under that key.\<close>

theorem file_sink_create_only:
  assumes "payload_ok (sc_payload c)" and "canonical_bytes P isotime c = Inr body"
  shows "case publish_file P isotime now base c fs of
      Inl e \<Rightarrow> map_of fs (checkpoint_path base c) \<notin> {None, Some body}
        \<and> e = CheckpointPublicationError ''checkpoint destination already contains different bytes''
    | Inr (p, fs') \<Rightarrow> map_of fs' (checkpoint_path base c) = Some body
        \<and> map_of fs \<subseteq>\<^sub>m map_of fs' \<and> dom (map_of fs') = insert (checkpoint_path base c) (dom (map_of fs))
        \<and> publish_file P isotime now base c fs' = Inr (p, fs')"
proof -
  have "relative_to (checkpoint_path base c) base" by (simp add: relative_to_def checkpoint_path_def)
  then show ?thesis
    by (auto simp: publish_file_def Let_def file_destination [OF assms(1)] assms(2) validate_publication_def
        map_le_def split: option.splits)
qed

theorem file_sink_create_only_witness:
  "\<exists>p fs body. publish_file toy_primitives int_str 0 [''var''] toy_checkpoint [] = Inr (p, fs)
     \<and> map_of fs [''var'', ''acme'', key_file (sc_payload toy_checkpoint)] = Some body"
proof -
  obtain body where body: "canonical_bytes toy_primitives int_str toy_checkpoint = Inr body"
    using canonical_bytes_Inr by blast
  show ?thesis
    using file_sink_create_only [OF toy_payload_ok body, where now = 0 and base = "[''var'']" and fs = "[]"]
    by (auto simp: toy_checkpoint_def checkpoint_path_def split: sum.splits)
qed

subsection \<open>Rollback\<close>

lemma check_checkpoints_clean:
  "check_checkpoints P kr isotime parse t heads rows = Inr [] \<longleftrightarrow>
     list_all (\<lambda>r. check_checkpoint P kr isotime parse t heads r = Inr None) rows"
  by (induction rows) (auto simp: bind_result_def split: sum.splits option.splits)

lemma check_checkpoint_None:
  "check_checkpoint P kr isotime parse t heads r = Inr None \<Longrightarrow>
     map_of heads (ck_ledger_sequence r) = Some (ck_ledger_head_sha256 r)"
  by (auto simp: check_checkpoint_def compare_digest_def envelope_mismatch_def
      split: sum.splits option.splits if_splits)

lemma ledger_heads_entry:
  "map_of (ledger_heads rows) n = Some h \<Longrightarrow> n \<noteq> 0 \<Longrightarrow> \<exists>r \<in> set rows. lr_sequence r = n \<and> lr_entry r = h"
  by (auto simp: ledger_heads_def map_of_dict_of rev_map dest!: map_of_SomeD)

text \<open>C7. Rollback and rewriting are detected: take any state whose ledger audits clean with \<open>n\<close> entries and
  head \<open>h\<close>, and any later state that still has a checkpoint with that sequence and head and whose own
  audit of ledger and checkpoints is clean. Then the first \<open>n\<close> entries of the later ledger are the
  entries of the earlier one, or the two ledgers exhibit a collision of SHA-256.\<close>

theorem checkpoint_detects_rollback:
  assumes "float_repr_ok (float_repr P)"
    and "verify_artifact_ledger P t earlier = Inr (n, valid, h, [])"
    and "verify_artifact_ledger P t later = Inr (n', valid', h', [])"
    and "verify_ledger_checkpoints P kr isotime parse t later = Inr (k, k', [])"
    and "r \<in> set (visible t (cd_checkpoints later))" "ck_ledger_sequence r = int n" "ck_ledger_head_sha256 r = h"
  shows "n \<le> n' \<and> take n (ledger_rows t later) = ledger_rows t earlier
    \<or> hash_collision P t (take n (ledger_rows t later)) (ledger_rows t earlier)"
proof -
  let ?old = "ledger_rows t earlier" and ?new = "ledger_rows t later" and ?g = LEDGER_GENESIS_SHA256
  have old: "chained P t ?g 1 ?old" "h = chain_head ?g ?old" "n = length ?old"
    using verify_ledger_clean [OF assms(2)] assms(2) by (auto simp: verify_artifact_ledger_def)
  have new: "chained P t ?g 1 ?new" "n' = length ?new"
    using verify_ledger_clean [OF assms(3)] assms(3) by (auto simp: verify_artifact_ledger_def)
  have "check_checkpoint P kr isotime parse t (ledger_heads (visible t (ad_ledger later))) r = Inr None"
    using assms(4,5) by (auto simp: verify_ledger_checkpoints_def Let_def check_checkpoints_clean list_all_iff)
  then have head: "map_of (ledger_heads (visible t (ad_ledger later))) (int n) = Some h"
    using check_checkpoint_None assms(6,7) by metis
  show ?thesis
  proof (cases "n = 0")
    case True
    then show ?thesis using old(3) by simp
  next
    case False
    then obtain e where "e \<in> set (visible t (ad_ledger later))" "lr_sequence e = int n" "lr_entry e = h"
      using ledger_heads_entry [OF head] by auto
    then have e: "e \<in> set ?new" "lr_sequence e = int n" "lr_entry e = h" by (simp_all add: ledger_rows_def)
    then obtain i where i: "i < length ?new" "?new ! i = e" by (auto simp: in_set_conv_nth)
    then have "lr_sequence e = 1 + int i"
      using chained_sequences [OF new(1)] by (metis (no_types, lifting) add_0 length_map nth_map nth_upt length_upt diff_zero)
    then have "n = Suc i" using e(2) by simp
    then have take: "take n ?new = take i ?new @ [e]" "n \<le> n'"
      using i new(2) by (simp_all add: take_Suc_conv_app_nth)
    have "?new = take n ?new @ drop n ?new" by simp
    then have "chained P t ?g 1 (take n ?new)" using new(1) chained_append by metis
    moreover have "chain_head ?g (take n ?new) = h" using take(1) e(3) by simp
    ultimately have "take n ?new = ?old \<or> hash_collision P t (take n ?new) ?old"
      using old by (intro chain_head_binds [OF assms(1)]) auto
    then show ?thesis using take(2) by blast
  qed
qed

subsection \<open>Creating checkpoints\<close>

lemma checkpoints_clean_iff:
  "(\<exists>k k'. verify_ledger_checkpoints P kr isotime parse t db = Inr (k, k', [])) \<longleftrightarrow>
     list_all (\<lambda>r. check_checkpoint P kr isotime parse t (ledger_heads (visible t (ad_ledger db))) r = Inr None)
       (visible t (cd_checkpoints db))"
  by (auto simp: verify_ledger_checkpoints_def Let_def check_checkpoints_clean list_all_iff)

lemma chained_heads:
  assumes "chained P t LEDGER_GENESIS_SHA256 1 rows"
  shows "head_sequence (ledger_head rows) = int (length rows)"
    and "head_sha256 (ledger_head rows) = chain_head LEDGER_GENESIS_SHA256 rows"
    and "map_of (ledger_heads rows) (int (length rows)) = Some (chain_head LEDGER_GENESIS_SHA256 rows)"
proof -
  have seqs: "map lr_sequence rows = map (\<lambda>i. 1 + int i) [0..<length rows]" using chained_sequences [OF assms] .
  have last: "rows \<noteq> [] \<Longrightarrow> lr_sequence (last rows) = int (length rows)"
    using arg_cong [OF seqs, of last] by (cases rows rule: rev_cases) (simp_all add: last_map)
  show "head_sequence (ledger_head rows) = int (length rows)"
    using last by (simp add: ledger_head_last [OF assms] head_sequence_def)
  show "head_sha256 (ledger_head rows) = chain_head LEDGER_GENESIS_SHA256 rows"
    by (simp add: ledger_head_last [OF assms] head_sha256_def chain_head_def)
  have "distinct (map fst (rev (map (\<lambda>r. (lr_sequence r, lr_entry r)) rows)))"
    using chained_sorted [OF assms] by (simp add: rev_map [symmetric] comp_def)
  then have "map_of (dict_of (map (\<lambda>r. (lr_sequence r, lr_entry r)) rows)) (lr_sequence r) = Some (lr_entry r)"
    if "r \<in> set rows" for r
    unfolding map_of_dict_of using that by (intro map_of_is_SomeI) auto
  then show "map_of (ledger_heads rows) (int (length rows)) = Some (chain_head LEDGER_GENESIS_SHA256 rows)"
    using last by (auto simp: ledger_heads_def chain_head_def) (metis last_in_set)
qed

lemma new_checkpoint_clean:
  assumes new: "new_checkpoint P k isotime t key_id days i created rows = Inr c"
    and ok: "primitives_ok P" "keyring_ok P k" "active_key_id k = Some key_id" "active_algorithm k = Some ED25519"
    and parse: "parse (jsonb (payload_json isotime (sc_payload c))) = Some (sc_payload c)"
    and chain: "chained P t LEDGER_GENESIS_SHA256 1 rows"
  shows "check_checkpoint P (Some k) isotime parse t (ledger_heads rows) (row_of_signed jsonb isotime c) = Inr None
    \<and> verify_checkpoint P isotime c k = Inr True \<and> cp_ledger_sequence (sc_payload c) = int (length rows)
    \<and> cp_ledger_head_sha256 (sc_payload c) = chain_head LEDGER_GENESIS_SHA256 rows"
proof -
  let ?p = "sc_payload c"
  obtain d s where c: "validate_payload ?p = Inr ?p" "checkpoint_payload_digest P isotime ?p = Inr d"
    "keyring_sign P k ''ledger_checkpoint'' (cp_checkpoint_id ?p) d = Inr s" "validate_signed c = Inr c"
    "sc_payload_sha256 c = d" "sc_signature_algorithm c = ED25519" "sc_signing_key_id c = key_id" "sc_signature c = s"
    "cp_ledger_sequence ?p = head_sequence (ledger_head rows)" "cp_ledger_entries ?p = int (length rows)"
    "cp_ledger_head_sha256 ?p = head_sha256 (ledger_head rows)" "cp_tenant_id ?p = t"
    using new by (auto simp: new_checkpoint_def Let_def validate_payload_def validate_signed_def split: if_splits)
  note heads = chained_heads [OF chain]
  have "keyring_verify P k ED25519 key_id ''ledger_checkpoint'' (cp_checkpoint_id ?p) d s = Inr True"
    using keyring_sign_verify [OF ok(2,1,3,4) c(3)] .
  then have verified: "verify_checkpoint P isotime c k = Inr True"
    using c by (simp add: verify_checkpoint_def)
  have parsed: "parse_payload parse (ck_payload (row_of_signed jsonb isotime c)) = Inr ?p"
    using parse c(1) by (simp add: parse_payload_def payload_ok_def row_of_signed_def Let_def)
  have signed: "signed_of_row ?p (row_of_signed jsonb isotime c) = c"
    using c(6) by (simp add: signed_of_row_def row_of_signed_def Let_def)
  have sha: "is_sha256 d" "is_sha256 (cp_ledger_head_sha256 ?p)"
    using c(1,2) digest_is_sha256 [OF ok(1)] payload_okD(3) [of ?p]
    by (auto simp: checkpoint_payload_digest_def payload_ok_def)
  have fields: "ck_payload_sha256 (row_of_signed jsonb isotime c) = d"
    "ck_ledger_sequence (row_of_signed jsonb isotime c) = int (length rows)"
    "\<not> envelope_mismatch t ?p (row_of_signed jsonb isotime c)"
    using c heads by (simp_all add: row_of_signed_def Let_def envelope_mismatch_def)
  have "cp_ledger_head_sha256 ?p = chain_head LEDGER_GENESIS_SHA256 rows" using c heads by simp
  then have "check_checkpoint P (Some k) isotime parse t (ledger_heads rows) (row_of_signed jsonb isotime c) = Inr None"
    using sha [THEN is_sha256_ascii] heads(3)
    by (simp add: check_checkpoint_def parsed c(2) fields signed c(4) verified compare_digest_def)
  then show ?thesis using verified c heads by simp
qed

lemma recent_checkpoint_Some:
  assumes "recent_checkpoint now n h rows = Some r"
  shows "r \<in> set rows \<and> ck_ledger_sequence r = n \<and> ck_ledger_head_sha256 r = h"
proof -
  let ?rows = "filter (\<lambda>r. ck_ledger_sequence r = n \<and> ck_ledger_head_sha256 r = h
    \<and> ck_created_at r \<ge> now - 5 * minute) rows"
  obtain rs where rs: "sort_key (\<lambda>r. - ck_created_at r) ?rows = r # rs"
    using assms unfolding recent_checkpoint_def
    by (cases "sort_key (\<lambda>r. - ck_created_at r) ?rows") simp_all
  have "r \<in> set (sort_key (\<lambda>r. - ck_created_at r) ?rows)" unfolding rs by simp
  then show ?thesis by simp
qed

lemma checkpoint_from_row_Inr:
  "checkpoint_from_row P (Some k) isotime parse r = Inr c \<Longrightarrow>
     parse_payload parse (ck_payload r) = Inr (sc_payload c) \<and> signed_of_row (sc_payload c) r = c
     \<and> verify_checkpoint P isotime c k = Inr True"
  by (auto simp: checkpoint_from_row_def signed_of_row_def validate_signed_def split: if_splits)

lemma check_checkpoint_payload:
  "check_checkpoint P kr isotime parse t heads r = Inr None \<Longrightarrow> parse_payload parse (ck_payload r) = Inr p \<Longrightarrow>
     \<not> envelope_mismatch t p r"
  by (auto simp: check_checkpoint_def split: sum.splits option.splits if_splits)

text \<open>Creating a checkpoint, new or recent, of a ledger that is a chain gives one that verifies, names
  the number of entries and the head of that ledger, and is stored with these in its columns; and the
  audit of all the tenant's checkpoints, clean before, is clean afterwards.\<close>

theorem created_checkpoint_audits_clean:
  assumes "primitives_ok P" and "keyring_ok P k"
    and "parse (jsonb (payload_json isotime (sc_payload c))) = Some (sc_payload c)"
    and chain: "chained P t LEDGER_GENESIS_SHA256 1 (visible t (ad_ledger db))"
    and clean: "verify_ledger_checkpoints P (Some k) isotime parse t db = Inr (n, n', [])"
    and create: "create_ledger_checkpoint P (Some k) isotime parse jsonb t days i now created db = Inr (db', c)"
  shows "verify_checkpoint P isotime c k = Inr True
    \<and> cp_ledger_sequence (sc_payload c) = int (length (visible t (ad_ledger db)))
    \<and> cp_ledger_head_sha256 (sc_payload c) = chain_head LEDGER_GENESIS_SHA256 (visible t (ad_ledger db))
    \<and> list_ex (\<lambda>r. signed_of_row (sc_payload c) r = c
        \<and> ck_ledger_sequence r = cp_ledger_sequence (sc_payload c)
        \<and> ck_ledger_head_sha256 r = cp_ledger_head_sha256 (sc_payload c)) (visible t (cd_checkpoints db'))
    \<and> (\<exists>m m'. verify_ledger_checkpoints P (Some k) isotime parse t db' = Inr (m, m', []))"
proof -
  let ?rows = "visible t (ad_ledger db)"
  note heads = chained_heads [OF chain]
  have all: "list_all (\<lambda>r. check_checkpoint P (Some k) isotime parse t (ledger_heads ?rows) r = Inr None)
      (visible t (cd_checkpoints db))"
    using clean checkpoints_clean_iff [of P "Some k" isotime parse t db] by blast
  obtain key_id where key: "active_key_id k = Some key_id" "active_algorithm k = Some ED25519"
    using create by (auto simp: create_ledger_checkpoint_def split: if_splits option.splits)
  show ?thesis
  proof (cases "recent_checkpoint now (head_sequence (ledger_head ?rows)) (head_sha256 (ledger_head ?rows))
      (visible t (cd_checkpoints db))")
    case (Some r)
    then have res: "db' = db" "checkpoint_from_row P (Some k) isotime parse r = Inr c"
      using create key by (auto simp: create_ledger_checkpoint_def Let_def split: if_splits)
    have r: "r \<in> set (visible t (cd_checkpoints db))" "ck_ledger_sequence r = int (length ?rows)"
      "ck_ledger_head_sha256 r = chain_head LEDGER_GENESIS_SHA256 ?rows"
      using recent_checkpoint_Some [OF Some] heads by auto
    have "\<not> envelope_mismatch t (sc_payload c) r"
      using check_checkpoint_payload checkpoint_from_row_Inr [OF res(2)] all r(1) by (auto simp: list_all_iff)
    then show ?thesis
      using checkpoint_from_row_Inr [OF res(2)] r res(1) clean
      by (auto simp: envelope_mismatch_def list_ex_iff)
  next
    case None
    then have new: "new_checkpoint P k isotime t key_id days i created ?rows = Inr c"
      "db' = db\<lparr>cd_checkpoints := insert_row t (row_of_signed jsonb isotime c) (cd_checkpoints db)\<rparr>"
      using create key by (auto simp: create_ledger_checkpoint_def Let_def split: if_splits)
    note made = new_checkpoint_clean [where jsonb = jsonb and parse = parse, OF new(1) assms(1,2) key assms(3) chain]
    have "sc_signature_algorithm c = ED25519"
      using new(1) by (auto simp: new_checkpoint_def Let_def validate_signed_def split: if_splits)
    then have columns: "signed_of_row (sc_payload c) (row_of_signed jsonb isotime c) = c"
      "ck_ledger_sequence (row_of_signed jsonb isotime c) = cp_ledger_sequence (sc_payload c)"
      "ck_ledger_head_sha256 (row_of_signed jsonb isotime c) = cp_ledger_head_sha256 (sc_payload c)"
      by (simp_all add: signed_of_row_def row_of_signed_def Let_def)
    have "\<exists>m m'. verify_ledger_checkpoints P (Some k) isotime parse t db' = Inr (m, m', [])"
      using made all by (intro checkpoints_clean_iff [THEN iffD2]) (simp add: new(2))
    then show ?thesis
      using made columns by (simp add: new(2))
  qed
qed

subsection \<open>A concrete checkpoint\<close>

definition checkpoint_db0 :: checkpoint_db where
  "checkpoint_db0 = \<lparr>ad_runs = [], ad_comparisons = [], ad_evidence = [], ad_ledger = [], cd_checkpoints = []\<rparr>"

definition toy_signer :: keyring where
  "toy_signer = \<lparr>hmac_keys = [], private_keys = [(''k1'', replicate 32 CHR ''x'')],
     public_keys = [(''k1'', replicate 32 CHR ''x'')], active_key_id = Some ''k1'',
     active_algorithm = Some ED25519, kr_remote_signer = None\<rparr>"

definition signed_toy :: "sha256 \<Rightarrow> string \<Rightarrow> signed_checkpoint" where
  "signed_toy d s = toy_checkpoint\<lparr>sc_payload_sha256 := d, sc_signature := s\<rparr>"

abbreviation toy_parse :: "json \<Rightarrow> checkpoint_payload option" where
  "toy_parse v \<equiv> Some (sc_payload toy_checkpoint)"

lemma toy_signer_ok: "keyring_ok toy_primitives toy_signer"
  using artifact_keyring_ok [OF toy_keyring_made] by (simp add: toy_signer_def)

lemma k1_key_id: "fullmatch KEY_ID_PATTERN ''k1''"
  by (simp add: fullmatch_iff KEY_ID_PATTERN_def Let_def in_lang_up_to_Cls in_class_def)

lemma toy_new_checkpoint:
  "\<exists>d s. new_checkpoint toy_primitives toy_signer int_str ''acme'' ''k1'' 30 3 0 [] = Inr (signed_toy d s)"
proof -
  obtain d where d: "checkpoint_payload_digest toy_primitives int_str (sc_payload toy_checkpoint) = Inr d"
    by (simp add: checkpoint_payload_digest_def digest_of_def canonical_json_bytes_def canonical_form_def
        artifact_digest_def payload_json_def Let_def)
  have "is_sha256 d" using d digest_is_sha256 [OF toy_primitives_ok] by (simp add: checkpoint_payload_digest_def)
  moreover have "validate_payload (sc_payload toy_checkpoint) = Inr (sc_payload toy_checkpoint)"
    using toy_payload_ok by (simp add: payload_ok_def)
  moreover have "sc_payload toy_checkpoint = \<lparr>cp_checkpoint_id = 3, cp_tenant_id = ''acme'',
      cp_ledger_sequence = 0, cp_ledger_entries = 0, cp_ledger_head_sha256 = LEDGER_GENESIS_SHA256,
      cp_created_at = 0, cp_retention_until = 30 * day\<rparr>" by (simp add: toy_checkpoint_def)
  moreover obtain s where "keyring_sign toy_primitives toy_signer ''ledger_checkpoint'' 3 d = Inr s" "s \<noteq> []"
    by (simp add: keyring_sign_def toy_signer_def Let_def subscript_def HMAC_SHA256_def ED25519_def
        toy_primitives_def)
  ultimately show ?thesis
    using d k1_key_id
    by (auto simp: new_checkpoint_def head_sequence_def head_sha256_def ledger_head_def validate_signed_def
        signed_toy_def toy_checkpoint_def simp del: fullmatch.simps)
qed

lemma toy_created:
  "\<exists>d s. create_ledger_checkpoint toy_primitives (Some toy_signer) int_str toy_parse (\<lambda>v. v) ''acme'' 30 3 0 0
      checkpoint_db0 = Inr (checkpoint_db0\<lparr>cd_checkpoints :=
        insert_row ''acme'' (row_of_signed (\<lambda>v. v) int_str (signed_toy d s)) []\<rparr>, signed_toy d s)
    \<and> new_checkpoint toy_primitives toy_signer int_str ''acme'' ''k1'' 30 3 0 [] = Inr (signed_toy d s)"
proof -
  obtain d s where "new_checkpoint toy_primitives toy_signer int_str ''acme'' ''k1'' 30 3 0 [] = Inr (signed_toy d s)"
    using toy_new_checkpoint by blast
  moreover have "active_key_id toy_signer = Some ''k1''" "active_algorithm toy_signer = Some ED25519"
    by (simp_all add: toy_signer_def)
  ultimately show ?thesis
    by (intro exI [of _ d] exI [of _ s])
      (simp add: create_ledger_checkpoint_def checkpoint_db0_def Let_def recent_checkpoint_def)
qed

theorem created_checkpoint_audits_clean_witness:
  "\<exists>db' c. create_ledger_checkpoint toy_primitives (Some toy_signer) int_str toy_parse (\<lambda>v. v) ''acme'' 30 3 0 0
      checkpoint_db0 = Inr (db', c) \<and> verify_checkpoint toy_primitives int_str c toy_signer = Inr True"
proof -
  obtain db' c where made: "create_ledger_checkpoint toy_primitives (Some toy_signer) int_str toy_parse (\<lambda>v. v)
      ''acme'' 30 3 0 0 checkpoint_db0 = Inr (db', c)" "sc_payload c = sc_payload toy_checkpoint"
    using toy_created by (auto simp: signed_toy_def)
  have "verify_ledger_checkpoints toy_primitives (Some toy_signer) int_str toy_parse ''acme'' checkpoint_db0 =
      Inr (0, 0, [])" by (simp add: verify_ledger_checkpoints_def checkpoint_db0_def)
  then show ?thesis
    using created_checkpoint_audits_clean [OF toy_primitives_ok toy_signer_ok _ _ _ made(1)] made
    by (simp add: checkpoint_db0_def)
qed

theorem checkpoint_detects_rollback_witness:
  "\<exists>(db :: checkpoint_db) r k k'. r \<in> set (visible ''acme'' (cd_checkpoints db))
     \<and> verify_ledger_checkpoints toy_primitives (Some toy_signer) int_str toy_parse ''acme'' db = Inr (k, k', [])
     \<and> (take 0 (ledger_rows ''acme'' db) = ledger_rows ''acme'' checkpoint_db0
        \<or> hash_collision toy_primitives ''acme'' (take 0 (ledger_rows ''acme'' db)) (ledger_rows ''acme'' checkpoint_db0))"
proof -
  obtain d s where new: "new_checkpoint toy_primitives toy_signer int_str ''acme'' ''k1'' 30 3 0 [] = Inr (signed_toy d s)"
    using toy_new_checkpoint by blast
  let ?r = "row_of_signed (\<lambda>v. v) int_str (signed_toy d s)"
  let ?db = "checkpoint_db0\<lparr>cd_checkpoints := insert_row ''acme'' ?r []\<rparr>"
  have "active_key_id toy_signer = Some ''k1''" "active_algorithm toy_signer = Some ED25519"
    by (simp_all add: toy_signer_def)
  then have "check_checkpoint toy_primitives (Some toy_signer) int_str toy_parse ''acme'' (ledger_heads []) ?r = Inr None"
    using new_checkpoint_clean [OF new toy_primitives_ok toy_signer_ok, of toy_parse "\<lambda>v. v"]
    by (simp add: signed_toy_def)
  then obtain k k' where audit: "verify_ledger_checkpoints toy_primitives (Some toy_signer) int_str toy_parse ''acme'' ?db =
      Inr (k, k', [])"
    using checkpoints_clean_iff [of toy_primitives "Some toy_signer" int_str toy_parse "''acme''" ?db]
    by (auto simp: checkpoint_db0_def)
  have ledger: "verify_artifact_ledger toy_primitives ''acme'' db = Inr (0, 0, LEDGER_GENESIS_SHA256, [])"
    if "ad_ledger db = []" for db :: checkpoint_db
    using that by (simp add: verify_artifact_ledger_def ledger_rows_def)
  have row: "?r \<in> set (visible ''acme'' (cd_checkpoints ?db))" "ck_ledger_sequence ?r = int 0"
    "ck_ledger_head_sha256 ?r = LEDGER_GENESIS_SHA256"
    by (simp_all add: row_of_signed_def Let_def signed_toy_def toy_checkpoint_def)
  have "float_repr_ok (float_repr toy_primitives)" using toy_primitives_ok by (simp add: primitives_ok_def)
  then show ?thesis
    using checkpoint_detects_rollback [OF _ ledger ledger audit row, of checkpoint_db0] audit row(1)
    by (intro exI [of _ ?db] exI [of _ ?r] exI [of _ k] exI [of _ k'] conjI) (simp_all add: checkpoint_db0_def)
qed

end
