(* ===== verification/Recovery_Properties.thy ===== *)
theory Recovery_Properties
  imports Recovery Checkpoint_Properties
begin

section \<open>What a successful recovery drill establishes\<close>

text \<open>
  The tally of a checkpoint's audit only grows; when it has not grown, every check passed. So a
  successful report means that the restored ledger is the one the retained checkpoint signed, up to a
  collision, with every artifact present and unchanged; and a faithful restore is accepted.
\<close>

subsection \<open>The tally\<close>

lemma fail_count: "fail p code s k i a = Inr a' \<Longrightarrow> tl_failure_count a' = Suc (tl_failure_count a)"
  by (auto simp: fail_def split: if_splits)

lemma fail_if_Inr:
  "fail_if b p code a = Inr a' \<Longrightarrow> tl_failure_count a' = tl_failure_count a + of_bool b \<and> (\<not> b \<longrightarrow> a' = a)"
  by (auto simp: fail_if_def dest: fail_count split: if_splits)

lemma fail_row_Inr:
  "fail_row b p code r a = Inr a' \<Longrightarrow> tl_failure_count a' = tl_failure_count a + of_bool b \<and> (\<not> b \<longrightarrow> a' = a)"
  by (auto simp: fail_row_def dest: fail_count split: if_splits)

lemma no_fail [simp]: "fail_if False p code a = Inr a" "fail_row False p code r a = Inr a"
  by (simp_all add: fail_if_def fail_row_def)

lemma fail_bound: "fail p code s k i a = Inr a' \<Longrightarrow> length (tl_failures a) \<le> 20 \<Longrightarrow> length (tl_failures a') \<le> 20"
  by (auto simp: fail_def MAX_REPORTED_FAILURES_PER_CHECKPOINT_def split: if_splits)

subsection \<open>The artifact behind an entry\<close>

definition signature_holds :: "primitives \<Rightarrow> keyring option \<Rightarrow> ledger_row \<Rightarrow> bool" where
  "signature_holds P kr r \<longleftrightarrow>
     (case (lr_signature_algorithm r, lr_signing_key_id r, lr_signature r) of
        (None, None, None) \<Rightarrow> True
      | (Some algorithm, Some key_id, Some signature) \<Rightarrow>
          (case kr of None \<Rightarrow> False
           | Some k \<Rightarrow> keyring_verify P k algorithm key_id (kind_str (lr_kind r)) (lr_artifact_id r)
               (lr_payload_sha256 r) signature = Inr True)
      | _ \<Rightarrow> False)"

definition artifact_intact ::
  "primitives \<Rightarrow> keyring option \<Rightarrow> tenant \<Rightarrow> 'a artifact_db_scheme \<Rightarrow> ledger_row \<Rightarrow> bool" where
  "artifact_intact P kr t db r \<longleftrightarrow>
     (case source_row t db r of None \<Rightarrow> False
      | Some s \<Rightarrow> digest_of P (ar_payload s) = Inr (lr_payload_sha256 r) \<and> artifact_envelope s = ledger_envelope r
          \<and> signature_holds P kr r)"

lemma check_signature_Inr:
  assumes "check_signature P kr p r a = Inr a'"
  shows "tl_failure_count a \<le> tl_failure_count a'
    \<and> (tl_failure_count a' = tl_failure_count a \<longrightarrow> signature_holds P kr r)"
  using assms
  by (auto simp: check_signature_def signature_holds_def dest!: fail_row_Inr
      split: option.splits sum.splits exn.splits)

lemma check_source_Inr:
  assumes "check_source P kr p r s a = Inr a'"
  shows "tl_failure_count a \<le> tl_failure_count a'
    \<and> (tl_failure_count a' = tl_failure_count a \<longrightarrow>
         digest_of P (ar_payload s) = Inr (lr_payload_sha256 r) \<and> artifact_envelope s = ledger_envelope r
         \<and> signature_holds P kr r)"
proof -
  from assms obtain actual same_source same a1 a2 where
    d: "digest_of P (ar_payload s) = Inr actual" "compare_digest actual (ar_payload_sha256 s) = Inr same_source"
    "(if same_source then compare_digest (ar_payload_sha256 s) (lr_payload_sha256 r) else Inr False) = Inr same" and
    f: "fail_row (\<not> same) p Artifact_digest r a = Inr a1"
    "fail_row ((ar_signature_algorithm s, ar_signing_key_id s, ar_signature s)
       \<noteq> (lr_signature_algorithm r, lr_signing_key_id r, lr_signature r)) p Artifact_envelope r a1 = Inr a2"
    and sig: "check_signature P kr p r a2 = Inr a'"
    unfolding check_source_def by auto
  have "same \<Longrightarrow> actual = ar_payload_sha256 s \<and> ar_payload_sha256 s = lr_payload_sha256 r"
    using d(2,3) by (auto simp: compare_digest_def split: if_splits)
  then show ?thesis
    using fail_row_Inr [OF f(1)] fail_row_Inr [OF f(2)] check_signature_Inr [OF sig] d(1)
    by (auto simp: artifact_envelope_def ledger_envelope_def of_bool_def split: if_splits)
qed

subsection \<open>The ledger\<close>

lemma check_row_Inr:
  assumes "check_row P kr p db n previous r a = Inr a'"
  shows "tl_failure_count a \<le> tl_failure_count a'
    \<and> (tl_failure_count a' = tl_failure_count a \<longrightarrow>
         lr_sequence r = n \<and> lr_previous r = previous
         \<and> lr_entry r = sha256_hex P (row_bytes P (cp_tenant_id p) r)
         \<and> artifact_intact P kr (cp_tenant_id p) db r)"
proof -
  let ?src = "source_row (cp_tenant_id p) db r"
  from assms obtain a1 a2 a3 same_previous same_entry where
    f: "fail_row (lr_sequence r \<noteq> n) p Ledger_sequence r a = Inr a1"
    "compare_digest (lr_previous r) previous = Inr same_previous"
    "fail_row (\<not> same_previous) p Ledger_previous_hash r a1 = Inr a2"
    "compare_digest (lr_entry r) (sha256_hex P (row_bytes P (cp_tenant_id p) r)) = Inr same_entry"
    "fail_row (\<not> same_entry) p Ledger_entry_hash r a2 = Inr a3"
    and src: "(case ?src of None \<Rightarrow> fail_row True p Artifact_missing r a3 | Some s \<Rightarrow> check_source P kr p r s a3) = Inr a'"
    unfolding check_row_def ledger_entry_digest_eq row_bytes_def by auto
  have "tl_failure_count a3 \<le> tl_failure_count a' \<and>
    (tl_failure_count a' = tl_failure_count a3 \<longrightarrow> artifact_intact P kr (cp_tenant_id p) db r)"
    using src check_source_Inr by (cases ?src) (fastforce simp: artifact_intact_def dest: fail_row_Inr)+
  then show ?thesis
    using f(2,4) fail_row_Inr [OF f(1)] fail_row_Inr [OF f(3)] fail_row_Inr [OF f(5)]
    by (auto simp: compare_digest_def of_bool_def split: if_splits)
qed

lemma check_rows_Inr:
  assumes "check_rows P kr p db n previous rows a = Inr (head, a')"
  shows "tl_failure_count a \<le> tl_failure_count a' \<and> head = chain_head previous rows
    \<and> (tl_failure_count a' = tl_failure_count a \<longrightarrow>
         chained P (cp_tenant_id p) previous n rows
         \<and> list_all (artifact_intact P kr (cp_tenant_id p) db) rows)"
  using assms
proof (induction rows arbitrary: n previous a)
  case (Cons r rows)
  then obtain a1 where a1: "check_row P kr p db n previous r a = Inr a1"
    "check_rows P kr p db (n + 1) (lr_entry r) rows a1 = Inr (head, a')" by auto
  from check_row_Inr [OF a1(1)] Cons.IH [OF a1(2)] show ?case by auto
qed simp

subsection \<open>One checkpoint\<close>

lemma check_envelope_Inr:
  assumes "check_envelope P isotime v c observed_at = Inr a" "tl_failure_count a = 0"
  obtains k where "vf_keyring v = Some k" "verify_checkpoint P isotime c k = Inr True"
    "cp_ledger_sequence (sc_payload c) \<le> vf_max_ledger_entries v"
    "observed_at - cp_created_at (sc_payload c) \<le> vf_max_checkpoint_age_hours v * hour"
    "- 5 * minute \<le> observed_at - cp_created_at (sc_payload c)" "a = tally0"
proof -
  let ?p = "sc_payload c" and ?age = "observed_at - cp_created_at (sc_payload c)"
  from assms(1) obtain a1 a2 valid where
    f: "(if ?age < - 5 * minute then fail ?p Checkpoint_future None None None tally0
       else fail_if (?age > vf_max_checkpoint_age_hours v * hour) ?p Checkpoint_stale tally0) = Inr a1"
    "(case vf_keyring v of None \<Rightarrow> Inr False | Some k \<Rightarrow> verify_checkpoint P isotime c k) = Inr valid"
    "fail_if (\<not> valid) ?p Checkpoint_signature a1 = Inr a2"
    "fail_if (cp_ledger_sequence ?p > vf_max_ledger_entries v) ?p Ledger_limit a2 = Inr a"
    unfolding check_envelope_def Let_def by auto
  have "valid \<and> cp_ledger_sequence ?p \<le> vf_max_ledger_entries v \<and> tl_failure_count a1 = 0 \<and> a = a1"
    using fail_if_Inr [OF f(3)] fail_if_Inr [OF f(4)] assms(2) by (auto simp: of_bool_def split: if_splits)
  moreover from this f(1) have "- 5 * minute \<le> ?age" "?age \<le> vf_max_checkpoint_age_hours v * hour" "a1 = tally0"
    by (auto dest: fail_count dest!: fail_if_Inr simp: of_bool_def split: if_splits)
  ultimately show ?thesis using f(2) that by (auto split: option.splits)
qed

text \<open>What a valid result says of the restored tables.\<close>

definition checkpoint_restored ::
  "primitives \<Rightarrow> (instant \<Rightarrow> string) \<Rightarrow> (json \<Rightarrow> checkpoint_payload option) \<Rightarrow> keyring \<Rightarrow> checkpoint_db
     \<Rightarrow> signed_checkpoint \<Rightarrow> bool" where
  "checkpoint_restored P isotime parse k db c \<longleftrightarrow> (let p = sc_payload c; t = cp_tenant_id p; rows = ledger_prefix p db in
     verify_checkpoint P isotime c k = Inr True
     \<and> chained P t LEDGER_GENESIS_SHA256 1 rows \<and> chain_head LEDGER_GENESIS_SHA256 rows = cp_ledger_head_sha256 p
     \<and> int (length rows) = cp_ledger_sequence p \<and> cp_ledger_entries p = cp_ledger_sequence p
     \<and> list_all (artifact_intact P (Some k) t db) rows
     \<and> list_ex (\<lambda>r. parse_payload parse (ck_payload r) = Inr p \<and> signed_of_row p r = c) (visible t (cd_checkpoints db)))"

lemma check_persisted_Inr:
  assumes "check_persisted parse c db a = Inr a'"
  shows "tl_failure_count a \<le> tl_failure_count a'
    \<and> (tl_failure_count a' = tl_failure_count a \<longrightarrow> a' = a \<and>
         list_ex (\<lambda>r. parse_payload parse (ck_payload r) = Inr (sc_payload c) \<and> signed_of_row (sc_payload c) r = c)
           (visible (cp_tenant_id (sc_payload c)) (cd_checkpoints db)))"
proof -
  let ?t = "cp_tenant_id (sc_payload c)"
  let ?find = "find (\<lambda>r. ck_checkpoint_id r = cp_checkpoint_id (sc_payload c)) (visible ?t (cd_checkpoints db))"
  show ?thesis
  proof (cases ?find)
    case None
    then show ?thesis using assms by (auto simp: check_persisted_def Let_def dest: fail_count)
  next
    case (Some r)
    let ?stored = "bind_result (parse_payload parse (ck_payload r)) (\<lambda>q. validate_signed (signed_of_row q r))"
    show ?thesis
    proof (cases ?stored)
      case (Inl e)
      then show ?thesis using assms Some by (auto simp: check_persisted_def Let_def dest: fail_count)
    next
      case (Inr stored)
      then obtain q where q: "parse_payload parse (ck_payload r) = Inr q" "stored = signed_of_row q r"
        by (auto simp: validate_signed_def split: if_splits)
      have fail: "fail_if (stored \<noteq> c) (sc_payload c) Checkpoint_mismatch a = Inr a'"
        using assms Some Inr by (simp add: check_persisted_def Let_def)
      have r: "r \<in> set (visible ?t (cd_checkpoints db))" using find_SomeD [OF Some] by simp
      have "tl_failure_count a' = tl_failure_count a \<Longrightarrow> stored = c \<and> a' = a"
        using fail_if_Inr [OF fail] by (cases "stored = c") simp_all
      moreover have "stored = c \<Longrightarrow> q = sc_payload c" using q(2) by (auto simp: signed_of_row_def)
      ultimately have "tl_failure_count a' = tl_failure_count a \<Longrightarrow> a' = a \<and>
          parse_payload parse (ck_payload r) = Inr (sc_payload c) \<and> signed_of_row (sc_payload c) r = c"
        using q by metis
      then show ?thesis using fail_if_Inr [OF fail] r by (auto simp: list_ex_iff)
    qed
  qed
qed

lemma check_tables_Inr:
  assumes "check_tables P parse v db c a = Inr a'" "tl_failure_count a' = 0" "vf_keyring v = Some k"
    "verify_checkpoint P isotime c k = Inr True"
  shows "checkpoint_restored P isotime parse k db c"
proof -
  let ?p = "sc_payload c"
  let ?rows = "ledger_prefix ?p db"
  from assms(1) [unfolded check_tables_def Let_def split_beta bind_result_Inr] obtain a1 a2 out same_head where
    f: "check_persisted parse c db a = Inr a1"
    "fail_if (int (length ?rows) \<noteq> cp_ledger_entries ?p \<or> int (length ?rows) \<noteq> cp_ledger_sequence ?p) ?p
       Ledger_count a1 = Inr a2"
    "check_rows P (vf_keyring v) ?p db 1 LEDGER_GENESIS_SHA256 ?rows a2 = Inr out"
    "compare_digest (fst out) (cp_ledger_head_sha256 ?p) = Inr same_head"
    "fail_if (\<not> same_head) ?p Ledger_head (snd out) = Inr a'"
    by (elim exE conjE) (rule that)
  have rows: "check_rows P (vf_keyring v) ?p db 1 LEDGER_GENESIS_SHA256 ?rows a2 = Inr (fst out, snd out)"
    using f(3) by simp
  note counts = check_persisted_Inr [OF f(1)] fail_if_Inr [OF f(2)] check_rows_Inr [OF rows] fail_if_Inr [OF f(5)]
  have head: "tl_failure_count (snd out) = 0" "same_head"
    using counts(4) assms(2) by (auto simp: of_bool_def split: if_splits)
  then have a2: "tl_failure_count a2 = 0" using counts(3) by simp
  then have a1: "tl_failure_count a1 = 0" "int (length ?rows) = cp_ledger_entries ?p"
    "int (length ?rows) = cp_ledger_sequence ?p"
    using counts(2) by (auto simp: of_bool_def split: if_splits)
  then have "tl_failure_count a = 0" using counts(1) by simp
  with counts a1 a2 head assms(3,4) f(4) show ?thesis
    by (simp add: checkpoint_restored_def Let_def compare_digest_def split: if_splits)
qed

lemma verify_checkpoint_valid:
  assumes "verify_recovery_checkpoint P isotime parse v tables observed_at aborted c = Inr (res, aborted')"
    and "rc_failure_count res = 0"
  obtains db k where "tables = Some db" "vf_keyring v = Some k" "checkpoint_restored P isotime parse k db c"
proof -
  from assms(1) obtain a where a: "check_envelope P isotime v c observed_at = Inr a"
    unfolding verify_recovery_checkpoint_def Let_def by auto
  have ok: "tl_failure_count a = 0"
    using assms a by (auto simp: verify_recovery_checkpoint_def checkpoint_result_def Let_def split: if_splits)
  from check_envelope_Inr [OF a ok] obtain k where k: "vf_keyring v = Some k"
    "verify_checkpoint P isotime c k = Inr True" by blast
  from assms a ok obtain db a' where db: "tables = Some db" "check_tables P parse v db c a = Inr a'"
    "tl_failure_count a' = 0"
    by (auto simp: verify_recovery_checkpoint_def checkpoint_result_def Let_def dest: fail_count
        split: if_splits option.splits)
  from check_tables_Inr [OF db(2,3) k] db(1) k(1) show ?thesis using that by blast
qed

subsection \<open>The whole drill\<close>

lemma verify_each_Inr:
  assumes "verify_each verify aborted cs = Inr results" "c \<in> set cs"
  shows "\<exists>aborted aborted' res. verify aborted c = Inr (res, aborted') \<and> res \<in> set results"
  using assms by (induction cs arbitrary: aborted results) (auto, blast+)

lemma verify_restored_success:
  assumes "verify_restored P isotime parse v i started now drill_id connection cs = Inr report"
    "rd_success report" "c \<in> set cs"
  obtains d db k where "connection = Some d" "rs_read_only d" "\<not> rs_in_recovery d" "rs_tables d = Some db"
    "vf_keyring v = Some k" "checkpoint_restored P isotime parse k db c"
proof -
  from assms(1) obtain d results where d: "connection = Some d"
    "drill_results P isotime parse v d cs = Inr results"
    "report = drill_report v (resolved_drill_id i drill_id) started now d cs (schema_failures d) results"
    by (auto simp: verify_restored_def Let_def simp del: fullmatch.simps split: if_splits option.splits)
  from d(3) assms(2) have ok: "schema_failures d = []" "rs_read_only d"
    "sum_list (map rc_failure_count results) = 0"
    by (auto simp: drill_report_def Let_def)
  from d(2) ok(1) have "verify_each (verify_recovery_checkpoint P isotime parse v (rs_tables d) (rs_observed_at d))
      False cs = Inr results" by (simp add: drill_results_def)
  from verify_each_Inr [OF this assms(3)] obtain a a' res where res:
    "verify_recovery_checkpoint P isotime parse v (rs_tables d) (rs_observed_at d) a c = Inr (res, a')"
    "res \<in> set results"
    by blast
  from res(2) ok(3) have "rc_failure_count res = 0" by (simp add: sum_list_eq_0_iff)
  with res(1) obtain db k where "rs_tables d = Some db" "vf_keyring v = Some k"
    "checkpoint_restored P isotime parse k db c"
    by (rule verify_checkpoint_valid)
  moreover have "\<not> rs_in_recovery d" using ok(1) by (auto simp: schema_failures_def split: if_splits)
  ultimately show ?thesis using that d(1) ok(2) by blast
qed

text \<open>C25. A successful drill proves the restore: for every retained checkpoint it was given, the checkpoint is
  signed under the keyring, and if a state of the store audited clean with the sequence and head that
  the checkpoint names, then the restored ledger up to that sequence is the ledger of that state (or the two
  exhibit a collision), and each of its artifacts is there with the recorded digest and signature.\<close>

theorem recovery_success_restores_ledger:
  assumes "float_repr_ok (float_repr P)"
    and "verify_restored P isotime parse v i started now drill_id connection cs = Inr report"
    and "rd_success report" and "c \<in> set cs"
    and "verify_artifact_ledger P (cp_tenant_id (sc_payload c)) original = Inr (n, valid, h, [])"
    and "cp_ledger_sequence (sc_payload c) = int n" and "cp_ledger_head_sha256 (sc_payload c) = h"
  shows "\<exists>d db k. connection = Some d \<and> rs_tables d = Some db \<and> vf_keyring v = Some k
    \<and> verify_checkpoint P isotime c k = Inr True
    \<and> list_all (artifact_intact P (Some k) (cp_tenant_id (sc_payload c)) db) (ledger_prefix (sc_payload c) db)
    \<and> (ledger_prefix (sc_payload c) db = ledger_rows (cp_tenant_id (sc_payload c)) original
       \<or> hash_collision P (cp_tenant_id (sc_payload c)) (ledger_prefix (sc_payload c) db)
           (ledger_rows (cp_tenant_id (sc_payload c)) original))"
proof -
  let ?t = "cp_tenant_id (sc_payload c)"
  from assms(2-4) obtain d db k where d: "connection = Some d" "rs_tables d = Some db" "vf_keyring v = Some k"
    "checkpoint_restored P isotime parse k db c" by (rule verify_restored_success)
  note old = verify_ledger_clean [OF assms(5)]
  have "ledger_prefix (sc_payload c) db = ledger_rows ?t original
      \<or> hash_collision P ?t (ledger_prefix (sc_payload c) db) (ledger_rows ?t original)"
    using d(4) old(1,2) assms(7) by (intro chain_head_binds [OF assms(1)]) (simp_all add: checkpoint_restored_def Let_def)
  with d show ?thesis by (auto simp: checkpoint_restored_def Let_def)
qed

subsection \<open>A faithful restore is accepted\<close>

lemma check_signature_holds:
  "signature_holds P kr r \<Longrightarrow> \<exists>a'. check_signature P kr p r a = Inr a' \<and> tl_failure_count a' = tl_failure_count a"
  by (cases "lr_signature_algorithm r"; cases "lr_signing_key_id r"; cases "lr_signature r"; cases kr)
    (simp_all add: signature_holds_def check_signature_def)

lemma verify_authenticity_holds:
  "verify_authenticity P kr (kind_str (lr_kind r)) (lr_artifact_id r) (lr_payload_sha256 r)
     (lr_signature_algorithm r) (lr_signing_key_id r) (lr_signature r) = Inr () \<Longrightarrow> signature_holds P kr r"
  by (auto simp: signature_holds_def verify_authenticity_def Let_def split: option.splits sum.splits exn.splits if_splits)

lemma check_source_clean:
  assumes "verify_artifact P kr (lr_kind r) s = Inr ()" "ar_id s = lr_artifact_id r"
    "artifact_envelope s = ledger_envelope r" "is_sha256 (lr_payload_sha256 r)"
  shows "\<exists>a'. check_source P kr p r s a = Inr a' \<and> tl_failure_count a' = tl_failure_count a"
proof -
  have env: "ar_payload_sha256 s = lr_payload_sha256 r" "ar_signature_algorithm s = lr_signature_algorithm r"
    "ar_signing_key_id s = lr_signing_key_id r" "ar_signature s = lr_signature r"
    using assms(3) by (simp_all add: artifact_envelope_def ledger_envelope_def)
  have "digest_of P (ar_payload s) = Inr (lr_payload_sha256 r)" "signature_holds P kr r"
    using assms(1,2) env
    by (auto simp: verify_artifact_def compare_digest_def intro: verify_authenticity_holds split: if_splits)
  then show ?thesis
    using env check_signature_holds is_sha256_ascii [OF assms(4)]
    by (auto simp: check_source_def compare_digest_def)
qed

text \<open>What the audit needs of an entry beyond the chain.\<close>

definition entry_sound :: "primitives \<Rightarrow> keyring option \<Rightarrow> tenant \<Rightarrow> 'a artifact_db_scheme \<Rightarrow> ledger_row \<Rightarrow> bool" where
  "entry_sound P kr t db r \<longleftrightarrow>
     (case source_row t db r of None \<Rightarrow> False
      | Some s \<Rightarrow> verify_artifact P kr (lr_kind r) s = Inr () \<and> ar_id s = lr_artifact_id r
          \<and> artifact_envelope s = ledger_envelope r)
   \<and> is_sha256 (lr_payload_sha256 r)"

lemma check_rows_clean:
  assumes "primitives_ok P" "chained P (cp_tenant_id p) previous n rows" "ascii previous"
    "list_all (entry_sound P kr (cp_tenant_id p) db) rows"
  shows "\<exists>a'. check_rows P kr p db n previous rows a = Inr (chain_head previous rows, a')
    \<and> tl_failure_count a' = tl_failure_count a"
  using assms(2-4)
proof (induction rows arbitrary: previous n a)
  case (Cons r rows)
  let ?t = "cp_tenant_id p"
  have r: "lr_sequence r = n" "lr_previous r = previous" "lr_entry r = sha256_hex P (row_bytes P ?t r)"
    "entry_sound P kr ?t db r" using Cons.prems by simp_all
  have ascii: "ascii (lr_entry r)" using r(3) assms(1) by (simp add: primitives_ok_def is_sha256_ascii)
  from r(4) obtain s where "source_row ?t db r = Some s" "verify_artifact P kr (lr_kind r) s = Inr ()"
    "ar_id s = lr_artifact_id r" "artifact_envelope s = ledger_envelope r" "is_sha256 (lr_payload_sha256 r)"
    by (auto simp: entry_sound_def split: option.splits)
  then obtain a1 where a1: "source_row ?t db r = Some s" "check_source P kr p r s a = Inr a1"
    "tl_failure_count a1 = tl_failure_count a" using check_source_clean by blast
  have "ledger_entry_digest P ?t (lr_sequence r) (kind_str (lr_kind r)) (lr_artifact_id r) (lr_payload_sha256 r)
      (lr_signature_algorithm r) (lr_signing_key_id r) (lr_signature r) (lr_previous r) = Inr (lr_entry r)"
    unfolding r(3) row_bytes_def by (rule ledger_entry_digest_eq)
  then have "check_row P kr p db n previous r a = Inr a1"
    using r(1,2) a1 ascii Cons.prems(2) by (simp add: check_row_def compare_digest_def)
  moreover obtain a2 where "check_rows P kr p db (n + 1) (lr_entry r) rows a1 = Inr (chain_head (lr_entry r) rows, a2)"
    "tl_failure_count a2 = tl_failure_count a1"
    using Cons.IH [of "lr_entry r" "n + 1" a1] Cons.prems r(3) ascii by auto
  ultimately show ?case using a1(3) by auto
qed simp

lemma entry_sound_stored:
  assumes ok: "artifact_db_ok P kr db" and r: "r \<in> set (visible t (ad_ledger db))"
    and payloads: "\<And>kind a. (t, a) \<in> set (source_table kind db) \<Longrightarrow> ar_payload a \<noteq> JNull"
    and prims: "primitives_ok P"
  shows "entry_sound P kr t db r"
proof -
  from ok r obtain s where s: "(t, s) \<in> set (source_table (lr_kind r) db)" "ar_id s = lr_artifact_id r"
    "artifact_envelope s = ledger_envelope r"
    unfolding artifact_db_ok_def sources_match_def by blast
  have unique: "unique_key ar_id (source_table (lr_kind r) db)"
    and verified: "verify_artifact P kr (lr_kind r) s = Inr ()"
    using ok s(1) all_rowsD by (fastforce simp: artifact_db_ok_def)+
  have "find (\<lambda>x. ar_id x = ar_id s) (visible t (source_table (lr_kind r) db)) = Some s"
    using s(1) unique_visible [OF unique] by (intro find_unique_key) (simp_all add: set_visible)
  then have "source_row t db r = Some s" using payloads [OF s(1)] s(2) by (simp add: source_row_def)
  moreover have "ar_payload_sha256 s = lr_payload_sha256 r"
    using s(3) by (simp add: artifact_envelope_def ledger_envelope_def)
  moreover from verified have "\<exists>v. digest_of P v = Inr (ar_payload_sha256 s)"
    by (auto simp: verify_artifact_def compare_digest_def split: if_splits)
  ultimately show ?thesis using verified s digest_is_sha256 [OF prims] by (auto simp: entry_sound_def)
qed

lemma ledger_prefix_take:
  assumes "chained P t previous 1 (visible t (ad_ledger db))" "cp_tenant_id p = t" "cp_ledger_sequence p = int n"
  shows "ledger_prefix p db = take n (visible t (ad_ledger db))"
proof -
  have "filter (\<lambda>r. lr_sequence r \<le> m + int n - 1) rows = take n rows" if "chained P t q m rows" for q m n rows
    using that
  proof (induction rows arbitrary: q m n)
    case (Cons r rows)
    show ?case
    proof (cases n)
      case 0
      have "m < lr_sequence x" if "x \<in> set rows" for x
      proof -
        from Cons.prems have "chained P t (lr_entry r) (m + 1) rows" unfolding chained.simps by blast
        from chained_sequences [OF this] that have "lr_sequence x \<in> (\<lambda>i. m + 1 + int i) ` {0..<length rows}"
          by (metis (no_types, lifting) image_eqI image_set set_upt)
        then show ?thesis by auto
      qed
      then have "\<forall>x \<in> set (r # rows). \<not> lr_sequence x \<le> m - 1" using Cons.prems by fastforce
      then show ?thesis using 0 by (simp add: filter_empty_conv)
    next
      case (Suc n')
      from Cons.prems have "chained P t (lr_entry r) (m + 1) rows" unfolding chained.simps by blast
      from Cons.IH [OF this, of n'] show ?thesis using Suc Cons.prems by (simp add: algebra_simps)
    qed
  qed simp
  from this [OF assms(1), of n] show ?thesis
    using assms by (simp add: ledger_prefix_def ledger_rows_visible)
qed

lemma chained_heads_ascii:
  assumes "primitives_ok P" "chained P t LEDGER_GENESIS_SHA256 n rows"
  shows "ascii (chain_head LEDGER_GENESIS_SHA256 rows)"
proof (cases rows rule: rev_cases)
  case (snoc rows' r)
  then have "lr_entry r = sha256_hex P (row_bytes P t r)" using assms(2) by simp
  then show ?thesis using assms(1) snoc by (simp add: primitives_ok_def is_sha256_ascii)
qed (simp add: is_sha256_ascii)

lemma ledger_prefix_take':
  assumes "artifact_db_ok P kr db" "cp_ledger_sequence p = int n"
  shows "ledger_prefix p db = take n (visible (cp_tenant_id p) (ad_ledger db))"
  using assms ledger_prefix_take [of P "cp_tenant_id p" LEDGER_GENESIS_SHA256 db p n]
  by (simp add: artifact_db_ok_def)

text \<open>A faithful restore is accepted: when the restored tables are a state that the store's operations
  keep sound, the session is a read-only one on a promoted server at the expected schema version, and
  the retained checkpoint is verified, current, stored and names a prefix of the ledger, the drill succeeds
  and has checked every entry of that prefix.\<close>

theorem faithful_restore_accepted:
  assumes "primitives_ok P" and db: "artifact_db_ok P (Some k) db"
    and payloads: "\<And>kind a. (cp_tenant_id (sc_payload c), a) \<in> set (source_table kind db) \<Longrightarrow> ar_payload a \<noteq> JNull"
    and v: "vf_keyring v = Some k" and signed: "verify_checkpoint P isotime c k = Inr True"
      "validate_signed c = Inr c"
    and current: "cp_created_at (sc_payload c) \<le> observed" "observed - cp_created_at (sc_payload c) \<le> vf_max_checkpoint_age_hours v * hour"
    and "find (\<lambda>r. ck_checkpoint_id r = cp_checkpoint_id (sc_payload c))
        (visible (cp_tenant_id (sc_payload c)) (cd_checkpoints db)) = Some r"
      "parse_payload parse (ck_payload r) = Inr (sc_payload c)" "signed_of_row (sc_payload c) r = c"
    and size_ok: "n \<le> length (visible (cp_tenant_id (sc_payload c)) (ad_ledger db))" "int n \<le> vf_max_ledger_entries v"
    and names: "cp_ledger_sequence (sc_payload c) = int n" "cp_ledger_entries (sc_payload c) = int n"
      "cp_ledger_head_sha256 (sc_payload c)
        = chain_head LEDGER_GENESIS_SHA256 (take n (visible (cp_tenant_id (sc_payload c)) (ad_ledger db)))"
    and d: "rs_read_only d" "\<not> rs_in_recovery d" "rs_metadata d = Some (Some SCHEMA_VERSION)"
      "rs_observed_at d = observed" "rs_tables d = Some db"
    and id: "fullmatch DRILL_ID_PATTERN (resolved_drill_id i drill_id)"
  shows "\<exists>report. verify_restored P isotime parse v i started now drill_id (Some d) [c] = Inr report
    \<and> rd_success report \<and> rd_entries_checked report = n"
proof -
  let ?p = "sc_payload c" and ?t = "cp_tenant_id (sc_payload c)"
  let ?rows = "take n (visible ?t (ad_ledger db))" and ?age = "of_int (max 0 (observed - cp_created_at ?p)) / of_int second"
  have prefix_rows: "ledger_prefix ?p db = ?rows" by (rule ledger_prefix_take' [OF db names(1)])
  have len: "length ?rows = n" using size_ok(1) by simp
  have "chained P ?t LEDGER_GENESIS_SHA256 1 (visible ?t (ad_ledger db))" using db by (simp add: artifact_db_ok_def)
  then have chain: "chained P ?t LEDGER_GENESIS_SHA256 1 ?rows" by (metis append_take_drop_id chained_append)
  have sound: "list_all (entry_sound P (Some k) ?t db) ?rows"
    using entry_sound_stored [OF db _ payloads assms(1)] by (auto simp: list_all_iff dest: in_set_takeD)
  obtain a where rows: "check_rows P (Some k) ?p db 1 LEDGER_GENESIS_SHA256 ?rows tally0 =
      Inr (chain_head LEDGER_GENESIS_SHA256 ?rows, a)" "tl_failure_count a = 0"
    using check_rows_clean [OF assms(1) chain _ sound, of tally0]
    by (auto simp: tally0_def is_sha256_ascii)
  have ascii_head: "ascii (chain_head LEDGER_GENESIS_SHA256 ?rows)"
    using chain chained_heads_ascii [OF assms(1)] by blast
  have envelope: "check_envelope P isotime v c observed = Inr tally0"
    using v signed current size_ok names by (simp add: check_envelope_def Let_def)
  have "check_persisted parse c db tally0 = Inr tally0"
    using assms(9-11) signed(2) by (simp add: check_persisted_def Let_def)
  then have tables: "check_tables P parse v db c tally0 = Inr a"
    using rows(1) len names ascii_head by (simp add: check_tables_def Let_def prefix_rows v compare_digest_def)
  have one: "verify_recovery_checkpoint P isotime parse v (Some db) observed False c =
      Inr (checkpoint_result c ?age n a, False)"
    using envelope tables len prefix_rows by (simp add: verify_recovery_checkpoint_def Let_def tally0_def)
  have "drill_results P isotime parse v d [c] = Inr [checkpoint_result c ?age n a]" "schema_failures d = []"
    using one d by (simp_all add: drill_results_def schema_failures_def)
  then show ?thesis
    using id d rows(2)
    by (simp add: verify_restored_def Let_def drill_report_def checkpoint_result_def MAX_RECOVERY_CHECKPOINTS_def
        del: fullmatch.simps)
qed

subsection \<open>A concrete drill\<close>

definition toy_db :: "sha256 \<Rightarrow> string \<Rightarrow> checkpoint_db" where
  "toy_db d s = checkpoint_db0\<lparr>cd_checkpoints :=
     insert_row ''acme'' (row_of_signed (\<lambda>v. v) int_str (signed_toy d s)) []\<rparr>"

definition toy_restored :: "sha256 \<Rightarrow> string \<Rightarrow> restored" where
  "toy_restored d s = \<lparr>rs_database = ''copy'', rs_read_only = True, rs_in_recovery = False, rs_observed_at = 60,
     rs_metadata = Some (Some SCHEMA_VERSION), rs_tables = Some (toy_db d s)\<rparr>"

definition toy_verifier :: verifier where
  "toy_verifier = \<lparr>vf_schema = ''public'', vf_keyring = Some toy_signer, vf_max_checkpoint_age_hours = 48,
     vf_max_ledger_entries = 100\<rparr>"

lemma toy_signed:
  obtains d s where "verify_checkpoint toy_primitives int_str (signed_toy d s) toy_signer = Inr True"
    "validate_signed (signed_toy d s) = Inr (signed_toy d s)"
proof -
  obtain d s where new: "new_checkpoint toy_primitives toy_signer int_str ''acme'' ''k1'' 30 3 0 [] = Inr (signed_toy d s)"
    using toy_new_checkpoint by blast
  have "active_key_id toy_signer = Some ''k1''" "active_algorithm toy_signer = Some ED25519"
    by (simp_all add: toy_signer_def)
  then have "verify_checkpoint toy_primitives int_str (signed_toy d s) toy_signer = Inr True"
    using new_checkpoint_clean [OF new toy_primitives_ok toy_signer_ok, of toy_parse "\<lambda>v. v"]
    by (simp add: signed_toy_def)
  moreover have "\<exists>c. validate_signed c = Inr (signed_toy d s)"
    using new by (auto simp: new_checkpoint_def Let_def)
  then have "validate_signed (signed_toy d s) = Inr (signed_toy d s)"
    by (auto simp: validate_signed_def split: if_splits)
  ultimately show ?thesis using that by blast
qed

lemma toy_checkpoint_fields:
  "sc_payload (signed_toy d s) = sc_payload toy_checkpoint" "cp_tenant_id (sc_payload toy_checkpoint) = ''acme''"
  "cp_created_at (sc_payload toy_checkpoint) = 0" "cp_ledger_sequence (sc_payload toy_checkpoint) = 0"
  "cp_ledger_entries (sc_payload toy_checkpoint) = 0"
  "cp_ledger_head_sha256 (sc_payload toy_checkpoint) = LEDGER_GENESIS_SHA256"
  by (simp_all add: signed_toy_def toy_checkpoint_def)

lemma toy_row:
  "parse_payload toy_parse (ck_payload r) = Inr (sc_payload toy_checkpoint)"
  "ck_checkpoint_id (row_of_signed (\<lambda>v. v) int_str (signed_toy d s)) = cp_checkpoint_id (sc_payload toy_checkpoint)"
  "signed_of_row (sc_payload toy_checkpoint) (row_of_signed (\<lambda>v. v) int_str (signed_toy d s)) = signed_toy d s"
  using toy_payload_ok
  by (simp_all add: parse_payload_def payload_ok_def row_of_signed_def Let_def toy_checkpoint_fields signed_of_row_def)
    (simp add: signed_toy_def toy_checkpoint_def)

lemma toy_drill_id: "fullmatch DRILL_ID_PATTERN (resolved_drill_id 0 (Some ''d''))"
  by (simp add: fullmatch_iff DRILL_ID_PATTERN_def Let_def resolved_drill_id_def in_class_def)

lemma toy_drill:
  assumes "verify_checkpoint toy_primitives int_str (signed_toy d s) toy_signer = Inr True"
    "validate_signed (signed_toy d s) = Inr (signed_toy d s)"
  obtains report where "verify_restored toy_primitives int_str toy_parse toy_verifier 0 1 2 (Some ''d'')
      (Some (toy_restored d s)) [signed_toy d s] = Inr report" "rd_success report"
proof -
  have "check_envelope toy_primitives int_str toy_verifier (signed_toy d s) 60 = Inr tally0"
    using assms(1) by (simp add: check_envelope_def toy_verifier_def toy_checkpoint_fields)
  moreover have "check_persisted toy_parse (signed_toy d s) (toy_db d s) tally0 = Inr tally0"
    using assms(2) by (simp add: check_persisted_def toy_db_def toy_checkpoint_fields toy_row)
  moreover have "ledger_prefix (sc_payload toy_checkpoint) (toy_db d s) = []"
    by (simp add: ledger_prefix_def ledger_rows_def toy_db_def checkpoint_db0_def)
  ultimately have "drill_results toy_primitives int_str toy_parse toy_verifier (toy_restored d s) [signed_toy d s] =
      Inr [checkpoint_result (signed_toy d s) (60 / 1000000) 0 tally0]" "schema_failures (toy_restored d s) = []"
    by (simp_all add: drill_results_def schema_failures_def toy_restored_def verify_recovery_checkpoint_def
        check_tables_def toy_checkpoint_fields tally0_def compare_digest_def is_sha256_ascii)
  then show ?thesis
    using that toy_drill_id
    by (simp add: verify_restored_def Let_def drill_report_def checkpoint_result_def MAX_RECOVERY_CHECKPOINTS_def
        tally0_def toy_restored_def del: fullmatch.simps)
qed

theorem recovery_success_restores_ledger_witness:
  "\<exists>d s. ledger_prefix (sc_payload (signed_toy d s)) (toy_db d s) = ledger_rows ''acme'' checkpoint_db0
     \<or> hash_collision toy_primitives ''acme'' (ledger_prefix (sc_payload (signed_toy d s)) (toy_db d s))
         (ledger_rows ''acme'' checkpoint_db0)"
proof -
  obtain d s where signed: "verify_checkpoint toy_primitives int_str (signed_toy d s) toy_signer = Inr True"
    "validate_signed (signed_toy d s) = Inr (signed_toy d s)" by (rule toy_signed)
  obtain report where drill: "verify_restored toy_primitives int_str toy_parse toy_verifier 0 1 2 (Some ''d'')
      (Some (toy_restored d s)) [signed_toy d s] = Inr report" "rd_success report" using toy_drill [OF signed] .
  have "verify_artifact_ledger toy_primitives ''acme'' checkpoint_db0 = Inr (0, 0, LEDGER_GENESIS_SHA256, [])"
    by (simp add: verify_artifact_ledger_def ledger_rows_def checkpoint_db0_def)
  moreover have "float_repr_ok (float_repr toy_primitives)" using toy_primitives_ok by (simp add: primitives_ok_def)
  ultimately show ?thesis
    using recovery_success_restores_ledger [OF _ drill, of "signed_toy d s" checkpoint_db0 0 0 LEDGER_GENESIS_SHA256]
    by (auto simp: toy_checkpoint_fields toy_restored_def)
qed

theorem faithful_restore_accepted_witness:
  "\<exists>d s report. verify_restored toy_primitives int_str toy_parse toy_verifier 0 1 2 (Some ''d'')
     (Some (toy_restored d s)) [signed_toy d s] = Inr report \<and> rd_success report"
proof -
  obtain d s where signed: "verify_checkpoint toy_primitives int_str (signed_toy d s) toy_signer = Inr True"
    "validate_signed (signed_toy d s) = Inr (signed_toy d s)" by (rule toy_signed)
  have tables: "source_table kind (toy_db d s) = []" for kind
    by (cases kind) (simp_all add: toy_db_def checkpoint_db0_def)
  have "artifact_db_ok toy_primitives (Some toy_signer) (toy_db d s)"
    by (simp add: artifact_db_ok_def tables sources_match_def unique_key_def all_rows_def)
      (simp add: toy_db_def checkpoint_db0_def)
  then have "\<exists>report. verify_restored toy_primitives int_str toy_parse toy_verifier 0 1 2 (Some ''d'')
      (Some (toy_restored d s)) [signed_toy d s] = Inr report \<and> rd_success report \<and> rd_entries_checked report = 0"
    by (rule faithful_restore_accepted [OF toy_primitives_ok _ _ _ signed, where observed = 60
          and r = "row_of_signed (\<lambda>v. v) int_str (signed_toy d s)"])
      (simp_all add: tables toy_checkpoint_fields toy_row toy_verifier_def toy_restored_def toy_drill_id
        del: fullmatch.simps source_table.simps, simp_all add: toy_db_def toy_row)
  then show ?thesis by blast
qed

end
