(* ===== verification/Promotion.thy ===== *)
theory Promotion
  imports Federation Base64
begin

section \<open>Controlled promotion of a replica cluster (\<open>promotion.py\<close>)\<close>

text \<open>
  The promotion token, the configuration, and the orchestrator. Everything outside the process (the
  Kubernetes client, the clocks, sleeping) acts on a state of the world and is a field of the record
  \<open>world\<close>. \<open>loads\<close> is \<open>json.loads\<close> keeping repeated members, \<open>parse_int\<close> is \<open>int\<close>; \<open>None\<close> is the
  exception of each. The loop that waits for the promotion may not end, so it is a partial function.
\<close>

text \<open>\<open>^[a-z0-9](?:[a-z0-9-]{0,61}[a-z0-9])?$\<close>, \<open>^[0-9A-F]{24}$\<close> and \<open>^[0-9A-F]+/[0-9A-F]+$\<close>\<close>

definition KUBERNETES_DNS_LABEL :: regex where
  "KUBERNETES_DNS_LABEL =
     (let c = lower_az @ digits09 in
      Seq (Cls c) (opt (Seq (up_to 61 (Cls (c @ one_char CHR ''-''))) (Cls c))))"

definition hex_upper :: "(char \<times> char) list" where
  "hex_upper = digits09 @ [(CHR ''A'', CHR ''F'')]"

definition WAL_FILE :: regex where "WAL_FILE = exactly 24 (Cls hex_upper)"

definition LSN :: regex where
  "LSN = Seq (plus1 (Cls hex_upper)) (Seq (Cls (one_char CHR ''/'')) (plus1 (Cls hex_upper)))"

definition MAX_PROMOTION_TOKEN_BYTES :: nat where "MAX_PROMOTION_TOKEN_BYTES = 16 * 1024"
definition MAX_DECODED_TOKEN_BYTES :: nat where "MAX_DECODED_TOKEN_BYTES = 8 * 1024"

definition TOKEN_FIELDS :: "string list" where
  "TOKEN_FIELDS = [''latestCheckpointTimelineID'', ''redoWalFile'', ''databaseSystemIdentifier'',
     ''latestCheckpointREDOLocation'', ''timeOfLatestCheckpoint'', ''operatorVersion'']"

subsection \<open>The token\<close>

record promotion_token =
  pt_latest_checkpoint_timeline_id :: string
  pt_redo_wal_file :: string
  pt_database_system_identifier :: string
  pt_latest_checkpoint_redo_location :: string
  pt_time_of_latest_checkpoint :: string
  pt_operator_version :: string

text \<open>\<open>str.isdigit\<close> also accepts the superscripts 1, 2 and 3; \<open>str.isprintable\<close> rejects controls and separators.\<close>

definition isdigit :: "string \<Rightarrow> bool" where
  "isdigit s \<longleftrightarrow> s \<noteq> [] \<and>
     list_all (\<lambda>c. let n = of_char c :: nat in 48 \<le> n \<and> n \<le> 57 \<or> n \<in> {178, 179, 185}) s"

definition isprintable :: "string \<Rightarrow> bool" where
  "isprintable s \<longleftrightarrow>
     list_all (\<lambda>c. let n = of_char c :: nat in 32 \<le> n \<and> n \<le> 126 \<or> 161 \<le> n \<and> n \<noteq> 173) s"

definition short_printable :: "string \<Rightarrow> bool" where
  "short_printable s \<longleftrightarrow> s \<noteq> [] \<and> length s \<le> 128 \<and> isprintable s"

definition token_ok :: "promotion_token \<Rightarrow> bool" where
  "token_ok p \<longleftrightarrow>
     isdigit (pt_latest_checkpoint_timeline_id p) \<and> fullmatch WAL_FILE (pt_redo_wal_file p)
   \<and> isdigit (pt_database_system_identifier p) \<and> fullmatch LSN (pt_latest_checkpoint_redo_location p)
   \<and> short_printable (pt_time_of_latest_checkpoint p) \<and> short_printable (pt_operator_version p)"

text \<open>Validation of the payload: every field a string, then \<open>model_post_init\<close>.\<close>

definition string_field :: "(string \<times> json) list \<Rightarrow> string \<Rightarrow> string option" where
  "string_field kvs k = (case map_of kvs k of Some (JStr s) \<Rightarrow> Some s | _ \<Rightarrow> None)"

definition token_of_payload :: "(string \<times> json) list \<Rightarrow> promotion_token result" where
  "token_of_payload kvs =
     (case map (string_field kvs) TOKEN_FIELDS of
        [Some timeline, Some wal, Some system, Some redo, Some time, Some version] \<Rightarrow>
          let p = \<lparr>pt_latest_checkpoint_timeline_id = timeline, pt_redo_wal_file = wal,
                   pt_database_system_identifier = system, pt_latest_checkpoint_redo_location = redo,
                   pt_time_of_latest_checkpoint = time, pt_operator_version = version\<rparr>
          in if token_ok p then Inr p else Inl (ValidationError ''PromotionToken'')
      | _ \<Rightarrow> Inl (ValidationError ''PromotionToken''))"

text \<open>\<open>reject_duplicate_keys\<close> runs on every object of the text.\<close>

fun repeats_a_key :: "json \<Rightarrow> bool" where
  "repeats_a_key (JObj kvs) \<longleftrightarrow> \<not> distinct (map fst kvs) \<or> list_ex (\<lambda>(k, v). repeats_a_key v) kvs"
| "repeats_a_key (JList vs) \<longleftrightarrow> list_ex repeats_a_key vs"
| "repeats_a_key v \<longleftrightarrow> False"

definition parse_promotion_token :: "(string \<Rightarrow> json option) \<Rightarrow> string \<Rightarrow> promotion_token result" where
  "parse_promotion_token loads raw =
     (if \<not> ascii raw then Inl (PromotionError ''promotion token is not ASCII'')
      else if raw = [] \<or> length raw > MAX_PROMOTION_TOKEN_BYTES \<or> strip raw \<noteq> raw
      then Inl (PromotionError ''promotion token is empty, padded with whitespace, or oversized'')
      else
        (case b64decode raw of
           None \<Rightarrow> Inl (PromotionError ''promotion token is not valid base64'')
         | Some decoded \<Rightarrow>
             if length decoded > MAX_DECODED_TOKEN_BYTES
             then Inl (PromotionError ''decoded promotion token is oversized'')
             else
               (case loads decoded of
                  None \<Rightarrow> Inl (PromotionError ''promotion token is not valid UTF-8 JSON'')
                | Some payload \<Rightarrow>
                    if repeats_a_key payload
                    then Inl (PromotionError ''promotion token contains duplicate JSON fields'')
                    else
                      (case payload of
                         JObj kvs \<Rightarrow>
                           if set (map fst kvs) \<noteq> set TOKEN_FIELDS
                           then Inl (PromotionError ''promotion token fields do not match the CloudNativePG contract'')
                           else
                             (case token_of_payload kvs of
                                Inl _ \<Rightarrow> Inl (PromotionError ''promotion token content is invalid'')
                              | Inr p \<Rightarrow> Inr p)
                       | _ \<Rightarrow> Inl (PromotionError
                           ''promotion token fields do not match the CloudNativePG contract'')))))"

text \<open>\<open>file\<close>: the bytes of the token file, or \<open>None\<close> for an \<open>OSError\<close>.\<close>

definition load_promotion_token ::
  "(string \<Rightarrow> json option) \<Rightarrow> string option \<Rightarrow> (string \<times> promotion_token) result" where
  "load_promotion_token loads file =
     (case file of
        None \<Rightarrow> Inl (PromotionError ''promotion token file is unavailable'')
      | Some bytes \<Rightarrow>
          let raw = take (MAX_PROMOTION_TOKEN_BYTES + 1) bytes in
          if length raw > MAX_PROMOTION_TOKEN_BYTES
          then Inl (PromotionError ''promotion token file is oversized'')
          else if \<not> ascii raw then Inl (PromotionError ''promotion token file is not ASCII'')
          else
            let text = strip raw in
            bind_result (parse_promotion_token loads text) (\<lambda>p. Inr (text, p)))"

subsection \<open>Configuration\<close>

record promotion_configuration =
  pc_namespace :: string
  pc_target_cluster :: string
  pc_source_cluster :: string
  pc_token_file :: string
  pc_timeout_seconds :: int
  pc_poll_seconds :: int
  pc_expected_operator_version :: "string option"

definition make_promotion_configuration :: "promotion_configuration \<Rightarrow> promotion_configuration result" where
  "make_promotion_configuration c =
     (if \<not> (60 \<le> pc_timeout_seconds c \<and> pc_timeout_seconds c \<le> 7200)
        \<or> \<not> (2 \<le> pc_poll_seconds c \<and> pc_poll_seconds c \<le> 60)
        \<or> (case pc_expected_operator_version c of None \<Rightarrow> False | Some v \<Rightarrow> length v > 128)
      then Inl (ValidationError ''PromotionConfiguration'')
      else if list_ex (\<lambda>s. \<not> fullmatch KUBERNETES_DNS_LABEL s)
                [pc_namespace c, pc_target_cluster c, pc_source_cluster c]
      then Inl (ValidationError ''must be a Kubernetes DNS label'')
      else if pc_target_cluster c = pc_source_cluster c
      then Inl (ValidationError ''target cluster and source cluster must differ'')
      else Inr c)"

definition environment_int ::
  "(string \<Rightarrow> int option) \<Rightarrow> (string \<Rightarrow> string option) \<Rightarrow> string \<Rightarrow> int \<Rightarrow> int result" where
  "environment_int parse_int env name default_value =
     (case env name of None \<Rightarrow> Inr default_value
      | Some v \<Rightarrow> (case parse_int v of None \<Rightarrow> Inl (ValueError ''must be an integer'') | Some n \<Rightarrow> Inr n))"

definition promotion_from_environment ::
  "(string \<Rightarrow> int option) \<Rightarrow> (string \<Rightarrow> string option) \<Rightarrow> promotion_configuration result" where
  "promotion_from_environment parse_int env =
     (let namespace = env ''AECONTROL_PROMOTION_NAMESPACE'';
          target = env ''AECONTROL_PROMOTION_TARGET_CLUSTER'';
          source = env ''AECONTROL_PROMOTION_SOURCE_CLUSTER'';
          token_file = env ''AECONTROL_PROMOTION_TOKEN_FILE''
      in if list_ex (\<lambda>v. \<not> truthy v) [namespace, target, source, token_file]
         then Inl (ValueError ''is required'')
         else
           bind_result (environment_int parse_int env ''AECONTROL_PROMOTION_TIMEOUT_SECONDS'' 1800) (\<lambda>timeout.
           bind_result (environment_int parse_int env ''AECONTROL_PROMOTION_POLL_SECONDS'' 10) (\<lambda>poll.
             make_promotion_configuration
               \<lparr>pc_namespace = the namespace, pc_target_cluster = the target, pc_source_cluster = the source,
                pc_token_file = the token_file, pc_timeout_seconds = timeout, pc_poll_seconds = poll,
                pc_expected_operator_version = env ''AECONTROL_PROMOTION_EXPECTED_OPERATOR_VERSION''\<rparr>)))"

subsection \<open>Reading a cluster object\<close>

type_synonym json_object = "(string \<times> json) list"

definition as_mapping :: "json option \<Rightarrow> json_object result" where
  "as_mapping v = (case v of Some (JObj kvs) \<Rightarrow> Inr kvs | _ \<Rightarrow> Inl (PromotionError ''is unavailable''))"

text \<open>Python's truth value of a JSON value; a missing one is \<open>None\<close>.\<close>

fun json_true :: "json option \<Rightarrow> bool" where
  "json_true None = False"
| "json_true (Some JNull) = False"
| "json_true (Some (JBool b)) = b"
| "json_true (Some (JInt i)) = (i \<noteq> 0)"
| "json_true (Some (JFloat f)) = (f \<noteq> NegZero \<and> f \<noteq> Fin 0)"
| "json_true (Some (JStr s)) = (s \<noteq> [])"
| "json_true (Some (JList vs)) = (vs \<noteq> [])"
| "json_true (Some (JObj kvs)) = (kvs \<noteq> [])"

text \<open>
  \<open>str(value) == text\<close> for a text of digits or of letters other than \<open>True\<close>, \<open>False\<close> and \<open>None\<close>: the text of a
  float, a list or an object has other characters.
\<close>

fun str_equals :: "json option \<Rightarrow> string \<Rightarrow> bool" where
  "str_equals (Some (JStr s)) text = (s = text)"
| "str_equals (Some (JInt i)) text = (int_str i = text)"
| "str_equals _ text = False"

definition condition_true :: "json option \<Rightarrow> string \<Rightarrow> bool" where
  "condition_true v condition_type =
     (case v of
        Some (JList items) \<Rightarrow>
          list_ex (\<lambda>item. case item of
              JObj kvs \<Rightarrow> map_of kvs ''type'' = Some (JStr condition_type) \<and> map_of kvs ''status'' = Some (JStr ''True'')
            | _ \<Rightarrow> False) items
      | _ \<Rightarrow> False)"

definition validate_operator_version :: "promotion_configuration \<Rightarrow> promotion_token \<Rightarrow> unit result" where
  "validate_operator_version c p =
     guard_result (case pc_expected_operator_version c of None \<Rightarrow> False | Some v \<Rightarrow> pt_operator_version p \<noteq> v)
       (PromotionError ''promotion token operator version does not match policy'')"

definition preflight :: "promotion_configuration \<Rightarrow> json_object \<Rightarrow> promotion_token \<Rightarrow> string result" where
  "preflight c cluster p =
     bind_result (as_mapping (map_of cluster ''metadata'')) (\<lambda>metadata.
     bind_result (as_mapping (map_of cluster ''spec'')) (\<lambda>spec.
     bind_result (as_mapping (map_of spec ''replica'')) (\<lambda>replica.
     bind_result (as_mapping (map_of cluster ''status'')) (\<lambda>status.
       case map_of metadata ''resourceVersion'' of
         Some (JStr resource_version) \<Rightarrow>
           if resource_version = [] then Inl (PromotionError ''target cluster resourceVersion is unavailable'')
           else if map_of replica ''primary'' \<noteq> Some (JStr (pc_source_cluster c))
             \<or> map_of replica ''source'' \<noteq> Some (JStr (pc_source_cluster c))
           then Inl (PromotionError ''target cluster is not following the expected source'')
           else if json_true (map_of replica ''promotionToken'')
           then Inl (PromotionError ''target cluster already has a promotion token'')
           else if json_true (map_of replica ''minApplyDelay'')
           then Inl (PromotionError ''delayed replicas cannot use controlled promotion'')
           else if \<not> str_equals (map_of status ''systemID'') (pt_database_system_identifier p)
           then Inl (PromotionError ''promotion token system identifier does not match the target'')
           else if (case map_of status ''switchReplicaClusterStatus'' of
                      Some (JObj switch) \<Rightarrow> map_of switch ''inProgress'' = Some (JBool True) | _ \<Rightarrow> False)
           then Inl (PromotionError ''target cluster is already changing replica state'')
           else if \<not> condition_true (map_of status ''conditions'') ''Ready''
           then Inl (PromotionError ''target cluster is not Ready'')
           else Inr resource_version
       | _ \<Rightarrow> Inl (PromotionError ''target cluster resourceVersion is unavailable'')))))"

text \<open>The condition that ends the wait, and the phases that cannot lead to it.\<close>

definition promoted :: "promotion_configuration \<Rightarrow> string \<Rightarrow> json_object \<Rightarrow> bool" where
  "promoted c raw cluster =
     (case (map_of cluster ''spec'', map_of cluster ''status'') of
        (Some (JObj spec), Some (JObj status)) \<Rightarrow>
          (case map_of spec ''replica'' of
             Some (JObj replica) \<Rightarrow>
               map_of replica ''primary'' = Some (JStr (pc_target_cluster c))
               \<and> map_of status ''lastPromotionToken'' = Some (JStr raw)
               \<and> condition_true (map_of status ''conditions'') ''Ready''
           | _ \<Rightarrow> False)
      | _ \<Rightarrow> False)"

definition terminal_phase :: "json_object \<Rightarrow> bool" where
  "terminal_phase cluster =
     (case map_of cluster ''status'' of
        Some (JObj status) \<Rightarrow>
          (case map_of status ''phase'' of Some (JStr phase) \<Rightarrow> lower phase \<in> {''error'', ''unrecoverable''} | _ \<Rightarrow> False)
      | _ \<Rightarrow> False)"

subsection \<open>The orchestrator\<close>

record 's world =
  wd_get_cluster :: "string \<Rightarrow> string \<Rightarrow> 's \<Rightarrow> json_object result \<times> 's"
  wd_patch_cluster :: "string \<Rightarrow> string \<Rightarrow> json \<Rightarrow> 's \<Rightarrow> unit result \<times> 's"
  wd_now :: "'s \<Rightarrow> instant \<times> 's"
  wd_monotonic :: "'s \<Rightarrow> rat \<times> 's"
  wd_sleep :: "int \<Rightarrow> 's \<Rightarrow> 's"

definition promotion_patch :: "promotion_configuration \<Rightarrow> string \<Rightarrow> string \<Rightarrow> json" where
  "promotion_patch c resource_version raw =
     JObj [(''apiVersion'', JStr ''postgresql.cnpg.io/v1''), (''kind'', JStr ''Cluster''),
       (''metadata'', JObj [(''resourceVersion'', JStr resource_version)]),
       (''spec'', JObj [(''replica'', JObj [(''primary'', JStr (pc_target_cluster c)),
          (''source'', JStr (pc_source_cluster c)), (''promotionToken'', JStr raw)])])]"

partial_function (option) wait_for_promotion ::
  "'s world \<Rightarrow> promotion_configuration \<Rightarrow> string \<Rightarrow> rat \<Rightarrow> 's \<Rightarrow> (unit result \<times> 's) option" where
  "wait_for_promotion W c raw deadline st =
     (case wd_monotonic W st of (t, st1) \<Rightarrow>
        if t < deadline then
          (case wd_get_cluster W (pc_namespace c) (pc_target_cluster c) st1 of
             (Inl e, st2) \<Rightarrow> Some (Inl e, st2)
           | (Inr cluster, st2) \<Rightarrow>
               if promoted c raw cluster then Some (Inr (), st2)
               else if terminal_phase cluster
               then Some (Inl (PromotionError ''target cluster entered a terminal failure phase''), st2)
               else wait_for_promotion W c raw deadline (wd_sleep W (pc_poll_seconds c) st2))
        else Some (Inl (PromotionError ''target cluster promotion timed out''), st1))"

record promotion_outcome =
  po_target_cluster :: string
  po_source_cluster :: string
  po_database_system_identifier :: string
  po_latest_checkpoint_timeline_id :: string
  po_latest_checkpoint_redo_location :: string
  po_time_of_latest_checkpoint :: string
  po_operator_version :: string
  po_token_sha256 :: sha256
  po_promoted_at :: instant
  po_duration_seconds :: rat
  po_success :: bool

definition promotion_outcome_of ::
  "primitives \<Rightarrow> promotion_configuration \<Rightarrow> string \<Rightarrow> promotion_token \<Rightarrow> instant \<Rightarrow> instant \<Rightarrow> promotion_outcome" where
  "promotion_outcome_of P c raw p started_at promoted_at =
     \<lparr>po_target_cluster = pc_target_cluster c, po_source_cluster = pc_source_cluster c,
      po_database_system_identifier = pt_database_system_identifier p,
      po_latest_checkpoint_timeline_id = pt_latest_checkpoint_timeline_id p,
      po_latest_checkpoint_redo_location = pt_latest_checkpoint_redo_location p,
      po_time_of_latest_checkpoint = pt_time_of_latest_checkpoint p,
      po_operator_version = pt_operator_version p,
      po_token_sha256 = sha256_hex P raw, po_promoted_at = promoted_at,
      po_duration_seconds = max 0 (of_int (promoted_at - started_at) / of_int second), po_success = True\<rparr>"

text \<open>What \<open>run\<close> does after its checks: patch, wait, and report.\<close>

definition patch_and_wait ::
  "primitives \<Rightarrow> 's world \<Rightarrow> promotion_configuration \<Rightarrow> string \<Rightarrow> promotion_token \<Rightarrow> string \<Rightarrow> instant \<Rightarrow> 's
     \<Rightarrow> (promotion_outcome result \<times> 's) option" where
  "patch_and_wait P W c raw p resource_version started_at st =
     (case wd_patch_cluster W (pc_namespace c) (pc_target_cluster c) (promotion_patch c resource_version raw) st of
        (Inl e, st1) \<Rightarrow> Some (Inl e, st1)
      | (Inr _, st1) \<Rightarrow>
          (case wd_monotonic W st1 of (t, st2) \<Rightarrow>
             (case wait_for_promotion W c raw (t + of_int (pc_timeout_seconds c)) st2 of
                None \<Rightarrow> None
              | Some (Inl e, st3) \<Rightarrow> Some (Inl e, st3)
              | Some (Inr _, st3) \<Rightarrow>
                  (case wd_now W st3 of (promoted_at, st4) \<Rightarrow>
                     Some (Inr (promotion_outcome_of P c raw p started_at promoted_at), st4)))))"

definition run_promotion ::
  "primitives \<Rightarrow> (string \<Rightarrow> json option) \<Rightarrow> 's world \<Rightarrow> promotion_configuration \<Rightarrow> string option \<Rightarrow> 's
     \<Rightarrow> (promotion_outcome result \<times> 's) option" where
  "run_promotion P loads W c file st =
     (case wd_now W st of (started_at, st1) \<Rightarrow>
        (case bind_result (load_promotion_token loads file) (\<lambda>(raw, p).
                bind_result (validate_operator_version c p) (\<lambda>_. Inr (raw, p))) of
           Inl e \<Rightarrow> Some (Inl e, st1)
         | Inr (raw, p) \<Rightarrow>
             (case wd_get_cluster W (pc_namespace c) (pc_target_cluster c) st1 of
                (Inl e, st2) \<Rightarrow> Some (Inl e, st2)
              | (Inr cluster, st2) \<Rightarrow>
                  (case preflight c cluster p of
                     Inl e \<Rightarrow> Some (Inl e, st2)
                   | Inr resource_version \<Rightarrow> patch_and_wait P W c raw p resource_version started_at st2))))"

end
