(* ===== verification/Promotion_Properties.thy ===== *)
theory Promotion_Properties
  imports Promotion
begin

section \<open>What a controlled promotion guarantees\<close>

text \<open>
  The world is arbitrary: the Kubernetes API, the clocks and other clients may do anything that the
  hypotheses allow. At most one patch is sent, only after every check has passed, and success is only
  reported after a cluster was read that has taken the promotion. The wait ends when sleeping takes time.
\<close>

subsection \<open>The wait\<close>

text \<open>Steps of the world that leave a measure of it alone.\<close>

definition reads_keep :: "('s \<Rightarrow> nat) \<Rightarrow> 's world \<Rightarrow> bool" where
  "reads_keep m W \<longleftrightarrow>
     (\<forall>ns name st. m (snd (wd_get_cluster W ns name st)) = m st) \<and> (\<forall>st. m (snd (wd_now W st)) = m st)
   \<and> (\<forall>st. m (snd (wd_monotonic W st)) = m st) \<and> (\<forall>n st. m (wd_sleep W n st) = m st)"

lemma reads_keepD:
  assumes "reads_keep m W"
  shows "wd_get_cluster W ns name st = (r, st') \<Longrightarrow> m st' = m st" "wd_now W st = (i, st') \<Longrightarrow> m st' = m st"
    "wd_monotonic W st = (q, st') \<Longrightarrow> m st' = m st" "m (wd_sleep W n st) = m st"
  using assms unfolding reads_keep_def by (metis snd_conv)+

lemma wait_observes:
  assumes "wait_for_promotion W c raw deadline st = Some out" "reads_keep m W"
  shows "m (snd out) = m st \<and>
    (fst out = Inr () \<longrightarrow> (\<exists>st0 cluster.
       wd_get_cluster W (pc_namespace c) (pc_target_cluster c) st0 = (Inr cluster, snd out) \<and> promoted c raw cluster))"
  using assms
proof (induction rule: wait_for_promotion.raw_induct [rotated, consumes 1, case_names step])
  case (step wait W c raw deadline st out)
  obtain t st1 where t: "wd_monotonic W st = (t, st1)" by fastforce
  obtain res st2 where res: "wd_get_cluster W (pc_namespace c) (pc_target_cluster c) st1 = (res, st2)" by fastforce
  have m: "m st1 = m st" "m st2 = m st1" "\<And>n. m (wd_sleep W n st2) = m st2"
    using reads_keepD [OF step.prems] t res by auto
  note IH = step.IH [of W c raw deadline "wd_sleep W (pc_poll_seconds c) st2", OF _ step.prems]
  show ?case
  proof (cases "t < deadline")
    case False
    then show ?thesis using step.hyps t m by auto
  next
    case True
    show ?thesis
    proof (cases res)
      case (Inl e)
      then show ?thesis using True step.hyps t res m by auto
    next
      case (Inr cluster)
      then have out: "(if promoted c raw cluster then Some (Inr (), st2)
          else if terminal_phase cluster
          then Some (Inl (PromotionError ''target cluster entered a terminal failure phase''), st2)
          else wait W c raw deadline (wd_sleep W (pc_poll_seconds c) st2)) = Some out"
        using True step.hyps t res by simp
      show ?thesis
      proof (cases "promoted c raw cluster \<or> terminal_phase cluster")
        case True
        then show ?thesis using out res Inr m by (auto split: if_splits) blast
      next
        case False
        then show ?thesis using out IH m by simp
      qed
    qed
  qed
qed

lemma wait_ends:
  assumes mono: "\<And>st. wd_monotonic W st = (time st, st)"
    and get: "\<And>ns name st r st'. wd_get_cluster W ns name st = (r, st') \<Longrightarrow> time st \<le> time st'"
    and sleep: "\<And>st. time st + of_int (pc_poll_seconds c) \<le> time (wd_sleep W (pc_poll_seconds c) st)"
    and poll: "0 < pc_poll_seconds c"
  shows "\<exists>out. wait_for_promotion W c raw deadline st = Some out"
proof (induction "nat \<lceil>(deadline - time st) / of_int (pc_poll_seconds c)\<rceil>" arbitrary: st rule: less_induct)
  case less
  show ?case
  proof (cases "time st < deadline")
    case False
    then show ?thesis by (subst wait_for_promotion.simps) (simp add: mono)
  next
    case True
    obtain res st2 where res: "wd_get_cluster W (pc_namespace c) (pc_target_cluster c) st = (res, st2)" by fastforce
    let ?st = "wd_sleep W (pc_poll_seconds c) st2" and ?p = "of_int (pc_poll_seconds c) :: rat"
    have later: "time st + ?p \<le> time ?st" using get [OF res] sleep [of st2] by simp
    have p: "0 < ?p" using poll by simp
    have "\<exists>out. wait_for_promotion W c raw deadline ?st = Some out"
      by (rule less) (rule deadline_rounds_less [OF p True later])
    then show ?thesis using True res by (subst wait_for_promotion.simps) (auto simp: mono split: sum.splits)
  qed
qed

subsection \<open>The orchestrator\<close>

definition patch_justified ::
  "(string \<Rightarrow> json option) \<Rightarrow> 's world \<Rightarrow> promotion_configuration \<Rightarrow> string option \<Rightarrow> bool" where
  "patch_justified loads W c file \<longleftrightarrow>
     (\<exists>raw p st cluster st1 resource_version.
        load_promotion_token loads file = Inr (raw, p) \<and> validate_operator_version c p = Inr ()
      \<and> wd_get_cluster W (pc_namespace c) (pc_target_cluster c) st = (Inr cluster, st1)
      \<and> preflight c cluster p = Inr resource_version)"

definition promotion_observed ::
  "primitives \<Rightarrow> (string \<Rightarrow> json option) \<Rightarrow> 's world \<Rightarrow> promotion_configuration \<Rightarrow> string option
     \<Rightarrow> promotion_outcome \<Rightarrow> bool" where
  "promotion_observed P loads W c file outcome \<longleftrightarrow>
     (\<exists>raw p st cluster st1. load_promotion_token loads file = Inr (raw, p)
      \<and> po_token_sha256 outcome = sha256_hex P raw
      \<and> po_database_system_identifier outcome = pt_database_system_identifier p
      \<and> wd_get_cluster W (pc_namespace c) (pc_target_cluster c) st = (Inr cluster, st1) \<and> promoted c raw cluster)"

lemma patch_and_wait_Some:
  assumes "patch_and_wait P W c raw p rv i st = Some (res, st')" "reads_keep patches W"
    and "\<And>ns name body st. patches (snd (wd_patch_cluster W ns name body st)) = Suc (patches st)"
  shows "patches st' = Suc (patches st) \<and>
    (case res of Inl _ \<Rightarrow> True | Inr outcome \<Rightarrow> po_token_sha256 outcome = sha256_hex P raw
      \<and> po_database_system_identifier outcome = pt_database_system_identifier p
      \<and> (\<exists>st cluster st1. wd_get_cluster W (pc_namespace c) (pc_target_cluster c) st = (Inr cluster, st1)
           \<and> promoted c raw cluster))"
proof -
  obtain patched st1 where patch:
    "wd_patch_cluster W (pc_namespace c) (pc_target_cluster c) (promotion_patch c rv raw) st = (patched, st1)"
    by fastforce
  then have one: "patches st1 = Suc (patches st)" using assms(3) by (metis snd_conv)
  obtain t st2 where t: "wd_monotonic W st1 = (t, st2)" by fastforce
  let ?wait = "wait_for_promotion W c raw (t + of_int (pc_timeout_seconds c)) st2"
  have keep: "patches st2 = patches st1" using reads_keepD(3) [OF assms(2)] t by blast
  show ?thesis
  proof (cases patched)
    case (Inl e)
    then show ?thesis using assms(1) patch one by (auto simp: patch_and_wait_def)
  next
    case (Inr u)
    then obtain w st3 where w: "?wait = Some (w, st3)"
      using assms(1) patch t by (cases ?wait) (auto simp: patch_and_wait_def)
    note observed = wait_observes [OF w assms(2)]
    show ?thesis
    proof (cases w)
      case (Inl e)
      then show ?thesis using assms(1) patch t w Inr one keep observed by (auto simp: patch_and_wait_def)
    next
      case (Inr u')
      obtain now st4 where now: "wd_now W st3 = (now, st4)" by fastforce
      then have "patches st4 = patches st3" using reads_keepD(2) [OF assms(2)] by blast
      then show ?thesis
        using assms(1) patch t w Inr \<open>patched = Inr u\<close> one keep observed now
        by (auto simp: patch_and_wait_def promotion_outcome_of_def) blast
    qed
  qed
qed

text \<open>C26. Whatever the world does, a run sends at most one patch, and it sends it only when the token file held a
  valid token of the expected operator version and a cluster it read passed every check. A run that
  reports success sent the patch and then read a cluster that has the target as its primary, took
  this token and is ready.\<close>

theorem promotion_patches_once:
  assumes "reads_keep patches W"
    and "\<And>ns name body st. patches (snd (wd_patch_cluster W ns name body st)) = Suc (patches st)"
    and "run_promotion P loads W c file st = Some (res, st')"
  shows "patches st' = patches st \<and> (\<exists>e. res = Inl e)
    \<or> patches st' = Suc (patches st) \<and> patch_justified loads W c file
      \<and> (case res of Inl _ \<Rightarrow> True | Inr outcome \<Rightarrow> promotion_observed P loads W c file outcome)"
proof -
  obtain started st1 where now: "wd_now W st = (started, st1)" by fastforce
  have keep: "patches st1 = patches st" using reads_keepD(2) [OF assms(1)] now by blast
  let ?checked = "bind_result (load_promotion_token loads file) (\<lambda>(raw, p).
     bind_result (validate_operator_version c p) (\<lambda>_. Inr (raw, p)))"
  show ?thesis
  proof (cases ?checked)
    case (Inl e)
    then show ?thesis using assms(3) now keep by (auto simp: run_promotion_def)
  next
    case (Inr checked)
    obtain raw p where rp: "checked = (raw, p)" by fastforce
    have load: "load_promotion_token loads file = Inr (raw, p)" "validate_operator_version c p = Inr ()"
      using Inr rp by auto
    obtain got st2 where got: "wd_get_cluster W (pc_namespace c) (pc_target_cluster c) st1 = (got, st2)" by fastforce
    then have keep2: "patches st2 = patches st1" using reads_keepD(1) [OF assms(1)] by blast
    consider (refused) e where "res = Inl e" "st' = st2"
      | (patched) cluster rv where "got = Inr cluster" "preflight c cluster p = Inr rv"
        "patch_and_wait P W c raw p rv started st2 = Some (res, st')"
      using assms(3) now Inr rp got by (auto simp: run_promotion_def split: sum.splits)
    then show ?thesis
    proof cases
      case refused
      then show ?thesis using keep keep2 by simp
    next
      case patched
      have "patch_justified loads W c file"
        using load got patched(1,2) unfolding patch_justified_def by blast
      then show ?thesis
        using patch_and_wait_Some [OF patched(3) assms(1,2)] load(1) keep keep2
        by (auto simp: promotion_observed_def split: sum.splits)
    qed
  qed
qed

text \<open>A run ends, with an outcome or an error, when the clock does not run backwards and each sleep of the
  polling interval lasts at least that long.\<close>

theorem promotion_terminates:
  assumes "\<And>st. wd_monotonic W st = (time st, st)"
    and "\<And>ns name st r st'. wd_get_cluster W ns name st = (r, st') \<Longrightarrow> time st \<le> time st'"
    and "\<And>st. time st + of_int (pc_poll_seconds c) \<le> time (wd_sleep W (pc_poll_seconds c) st)"
    and "make_promotion_configuration c = Inr c"
  shows "\<exists>out. run_promotion P loads W c file st = Some out"
proof -
  have "0 < pc_poll_seconds c" using assms(4) by (auto simp: make_promotion_configuration_def split: if_splits)
  from wait_ends [OF assms(1,2,3) this]
  have ends: "\<exists>out. wait_for_promotion W c raw deadline st = Some out" for raw deadline st .
  have "\<exists>out. patch_and_wait P W c raw p rv i st = Some out" for raw p rv i st
  proof -
    obtain patched st1 where patch:
      "wd_patch_cluster W (pc_namespace c) (pc_target_cluster c) (promotion_patch c rv raw) st = (patched, st1)"
      by fastforce
    obtain r st2 where "wait_for_promotion W c raw (time st1 + of_int (pc_timeout_seconds c)) st1 = Some (r, st2)"
      using ends by (metis surj_pair)
    with patch show ?thesis
      by (cases patched; cases r) (simp_all add: patch_and_wait_def assms(1) split: prod.splits)
  qed
  then show ?thesis
    by (auto simp: run_promotion_def split: prod.splits sum.splits)
qed

subsection \<open>A concrete promotion\<close>

definition ex_token :: promotion_token where
  "ex_token = \<lparr>pt_latest_checkpoint_timeline_id = ''3'', pt_redo_wal_file = replicate 24 CHR ''0'',
     pt_database_system_identifier = ''77'', pt_latest_checkpoint_redo_location = ''0/1A'',
     pt_time_of_latest_checkpoint = ''now'', pt_operator_version = ''1.2''\<rparr>"

definition ex_payload :: json where
  "ex_payload = JObj [(''latestCheckpointTimelineID'', JStr ''3''), (''redoWalFile'', JStr (replicate 24 CHR ''0'')),
     (''databaseSystemIdentifier'', JStr ''77''), (''latestCheckpointREDOLocation'', JStr ''0/1A''),
     (''timeOfLatestCheckpoint'', JStr ''now''), (''operatorVersion'', JStr ''1.2'')]"

definition ex_configuration :: promotion_configuration where
  "ex_configuration = \<lparr>pc_namespace = ''db'', pc_target_cluster = ''west'', pc_source_cluster = ''east'',
     pc_token_file = ''token'', pc_timeout_seconds = 60, pc_poll_seconds = 2,
     pc_expected_operator_version = Some ''1.2''\<rparr>"

definition ex_cluster :: "bool \<Rightarrow> json_object" where
  "ex_cluster done_promoting =
     [(''metadata'', JObj [(''resourceVersion'', JStr ''9'')]),
      (''spec'', JObj [(''replica'', JObj [(''primary'', JStr (if done_promoting then ''west'' else ''east'')),
         (''source'', JStr ''east'')])]),
      (''status'', JObj [(''systemID'', JStr ''77''), (''lastPromotionToken'', JStr ''e30=''),
         (''conditions'', JList [JObj [(''type'', JStr ''Ready''), (''status'', JStr ''True'')]])])]"

text \<open>A world whose state is a clock in seconds and the number of patches.\<close>

definition ex_world :: "(rat \<times> nat) world" where
  "ex_world = \<lparr>wd_get_cluster = (\<lambda>ns name st. (Inr (ex_cluster (0 < snd st)), st)),
     wd_patch_cluster = (\<lambda>ns name body (t, n). (Inr (), (t, Suc n))), wd_now = (\<lambda>st. (0, st)),
     wd_monotonic = (\<lambda>st. (fst st, st)), wd_sleep = (\<lambda>n (t, k). (t + of_int n, k))\<rparr>"

lemma ex_world_keeps: "reads_keep snd ex_world"
  by (auto simp: reads_keep_def ex_world_def split: prod.splits)

lemma ex_token_ok: "token_ok ex_token"
  by code_simp

lemma ex_loaded: "load_promotion_token (\<lambda>_. Some ex_payload) (Some ''e30='') = Inr (''e30='', ex_token)"
proof -
  have decoded: "b64decode ''e30='' = Some ''{}''" by code_simp
  have fields: "token_of_payload (case ex_payload of JObj kvs \<Rightarrow> kvs | _ \<Rightarrow> []) = Inr ex_token"
    using ex_token_ok by (simp add: token_of_payload_def ex_payload_def TOKEN_FIELDS_def string_field_def ex_token_def)
  have plain: "ascii ''e30=''" "strip ''e30='' = ''e30=''" by code_simp+
  then show ?thesis
    using decoded fields plain
    by (simp add: load_promotion_token_def MAX_PROMOTION_TOKEN_BYTES_def parse_promotion_token_def
        MAX_DECODED_TOKEN_BYTES_def ex_payload_def TOKEN_FIELDS_def)
qed

lemma ex_run:
  "run_promotion toy_primitives (\<lambda>_. Some ex_payload) ex_world ex_configuration (Some ''e30='') (0, 0)
     = Some (Inr (promotion_outcome_of toy_primitives ex_configuration ''e30='' ex_token 0 0), (0, 1))"
proof -
  have preflight: "preflight ex_configuration (ex_cluster False) ex_token = Inr ''9''" by code_simp
  have promoted: "promoted ex_configuration ''e30='' (ex_cluster True)" by code_simp
  have "wait_for_promotion ex_world ex_configuration ''e30='' 60 (0, 1) = Some (Inr (), (0, 1))"
    using promoted by (subst wait_for_promotion.simps) (simp add: ex_world_def)
  then show ?thesis
    using preflight ex_loaded
    by (simp add: run_promotion_def patch_and_wait_def ex_world_def validate_operator_version_def guard_result_def
        ex_configuration_def ex_token_def)
qed

theorem promotion_patches_once_witness:
  "\<exists>outcome. run_promotion toy_primitives (\<lambda>_. Some ex_payload) ex_world ex_configuration (Some ''e30='') (0, 0)
      = Some (Inr outcome, (0, 1))
    \<and> patch_justified (\<lambda>_. Some ex_payload) ex_world ex_configuration (Some ''e30='')"
proof -
  have "snd (snd (wd_patch_cluster ex_world ns name body st)) = Suc (snd st)" for ns name body and st :: "rat \<times> nat"
    by (simp add: ex_world_def split: prod.splits)
  from promotion_patches_once [OF ex_world_keeps this ex_run] ex_run show ?thesis by simp
qed

theorem promotion_terminates_witness:
  "\<exists>out. run_promotion toy_primitives (\<lambda>_. Some ex_payload) ex_world ex_configuration (Some ''e30='') (0, 0)
      = Some out"
proof (rule promotion_terminates [where time = fst])
  show "make_promotion_configuration ex_configuration = Inr ex_configuration" by code_simp
qed (auto simp: ex_world_def ex_configuration_def split: prod.splits)

end
