(* ===== verification/Guardrails.thy ===== *)
theory Guardrails
  imports Job_Models Integrity
begin

section \<open>Guardrails (\<open>guardrails.py\<close>)\<close>

text \<open>
  The digest of a guardrail configuration directory, the records of configuration versions,
  activations and evidence with their validators, the efficacy report over a list of evidence, and the
  client of the NeMo Guardrails service. What \<open>rglob\<close> finds below a directory is the argument of the
  digest; the HTTP transport, \<open>json.loads\<close> and the \<open>str()\<close> of a JSON value that is not a string are
  parameters.
\<close>

subsection \<open>The bundle digest\<close>

datatype bundle_entry = Bundle_file string | Bundle_directory | Bundle_link bool | Bundle_special

text \<open>
  Relative POSIX paths with what is there. \<open>Bundle_link b\<close> is a symbolic link, to a regular file when \<open>b\<close>;
  \<open>None\<close> is a path that is not a directory.
\<close>

type_synonym bundle_tree = "(string \<times> bundle_entry) list"

definition entry_is_file :: "bundle_entry option \<Rightarrow> bool" where
  "entry_is_file e = (case e of Some (Bundle_file _) \<Rightarrow> True | Some (Bundle_link b) \<Rightarrow> b | _ \<Rightarrow> False)"

definition entry_is_symlink :: "bundle_entry \<Rightarrow> bool" where
  "entry_is_symlink e = (case e of Bundle_link _ \<Rightarrow> True | _ \<Rightarrow> False)"

definition bundle_candidates :: "bundle_tree \<Rightarrow> bundle_tree" where
  "bundle_candidates items = sort_key fst items"

definition bundle_files :: "bundle_tree \<Rightarrow> (string \<times> string) list" where
  "bundle_files items =
     concat (map (\<lambda>(path, e). case e of Bundle_file content \<Rightarrow> [(path, content)] | _ \<Rightarrow> []) items)"

text \<open>\<open>n.to_bytes(w, "big")\<close>\<close>

fun be_bytes :: "nat \<Rightarrow> nat \<Rightarrow> string" where
  "be_bytes 0 n = []"
| "be_bytes (Suc w) n = be_bytes w (n div 256) @ [char_of (n mod 256)]"

definition to_bytes8 :: "nat \<Rightarrow> string result" where
  "to_bytes8 n = (if n < 256 ^ 8 then Inr (be_bytes 8 n) else Inl (OverflowError ''int too big to convert''))"

definition bundle_frame :: "string \<times> string \<Rightarrow> string result" where
  "bundle_frame = (\<lambda>(path, content).
     let relative = utf8 path in
     bind_result (to_bytes8 (length relative)) (\<lambda>n.
     bind_result (to_bytes8 (length content)) (\<lambda>m. Inr (n @ relative @ m @ content))))"

definition bundle_bytes :: "bundle_tree \<Rightarrow> string result" where
  "bundle_bytes items = bind_result (map_result bundle_frame (bundle_files (bundle_candidates items)))
     (\<lambda>frames. Inr (concat frames))"

definition guardrail_bundle_digest :: "primitives \<Rightarrow> bundle_tree option \<Rightarrow> sha256 result" where
  "guardrail_bundle_digest P directory =
     (case directory of
        None \<Rightarrow> Inl (ValueError ''guardrail configuration directory does not exist'')
      | Some items \<Rightarrow>
          if \<not> list_ex (\<lambda>name. entry_is_file (map_of items name)) [''config.yml'', ''config.yaml'']
          then Inl (ValueError ''guardrail configuration requires config.yml or config.yaml'')
          else if list_ex (\<lambda>item. entry_is_symlink (snd item)) (bundle_candidates items)
          then Inl (ValueError ''guardrail configuration bundles cannot contain symbolic links'')
          else bind_result (bundle_bytes items) (\<lambda>data. Inr (sha256_hex P data)))"

subsection \<open>Records and their validators\<close>

datatype expected_guardrail_action = Pass_through | Intervention

definition action_str :: "expected_guardrail_action \<Rightarrow> string" where
  "action_str a = (case a of Pass_through \<Rightarrow> ''pass_through'' | Intervention \<Rightarrow> ''intervention'')"

text \<open>\<open>^[A-Za-z0-9][A-Za-z0-9._-]{0,63}$\<close>\<close>

definition GUARDRAIL_VERSION_PATTERN :: regex where
  "GUARDRAIL_VERSION_PATTERN =
     (let alnum = [(CHR ''A'', CHR ''Z''), (CHR ''a'', CHR ''z''), (CHR ''0'', CHR ''9'')]
      in Seq (Cls alnum)
           (up_to 63 (Cls (alnum @ one_char CHR ''.'' @ one_char CHR ''_'' @ one_char CHR ''-''))))"

record guardrail_config_version =
  gv_config_id :: string
  gv_version :: string
  gv_bundle_sha256 :: sha256
  gv_description :: string
  gv_created_at :: instant
  gv_created_by :: string
  gv_active :: bool

definition validate_config_version :: "guardrail_config_version \<Rightarrow> guardrail_config_version result" where
  "validate_config_version v =
     (if (1 \<le> length (gv_config_id v) \<and> length (gv_config_id v) \<le> 500)
         \<and> fullmatch GUARDRAIL_VERSION_PATTERN (gv_version v) \<and> is_sha256 (gv_bundle_sha256 v)
         \<and> length (gv_description v) \<le> 1000
         \<and> (1 \<le> length (gv_created_by v) \<and> length (gv_created_by v) \<le> 64)
      then Inr v else Inl (ValidationError ''GuardrailConfigVersion''))"

record guardrail_config_activation =
  ga_activation_id :: uuid
  ga_config_id :: string
  ga_version :: string
  ga_bundle_sha256 :: sha256
  ga_activated_at :: instant
  ga_activated_by :: string

definition validate_config_activation ::
  "guardrail_config_activation \<Rightarrow> guardrail_config_activation result" where
  "validate_config_activation a =
     (if (1 \<le> length (ga_config_id a) \<and> length (ga_config_id a) \<le> 500)
         \<and> fullmatch GUARDRAIL_VERSION_PATTERN (ga_version a) \<and> is_sha256 (ga_bundle_sha256 a)
         \<and> (1 \<le> length (ga_activated_by a) \<and> length (ga_activated_by a) \<le> 64)
      then Inr a else Inl (ValidationError ''GuardrailConfigActivation''))"

record guardrail_evidence =
  ge_config_id :: string
  ge_model :: string
  ge_submitted_text :: string
  ge_response_text :: string
  ge_passed_through :: bool
  ge_expected_action :: "expected_guardrail_action option"
  ge_config_version :: "string option"
  ge_config_bundle_sha256 :: "sha256 option"
  ge_config_activation_id :: "uuid option"
  ge_activated_rails :: json
  ge_stats :: "(string \<times> json) list"

text \<open>The patterns of the optional fields, then \<open>managed_provenance_is_complete\<close>.\<close>

definition validate_guardrail_evidence :: "guardrail_evidence \<Rightarrow> guardrail_evidence result" where
  "validate_guardrail_evidence e =
     (if \<not> (opt_all (fullmatch GUARDRAIL_VERSION_PATTERN) (ge_config_version e)
            \<and> opt_all is_sha256 (ge_config_bundle_sha256 e))
      then Inl (ValidationError ''GuardrailEvidence'')
      else if (ge_config_version e \<noteq> None \<or> ge_config_bundle_sha256 e \<noteq> None \<or> ge_config_activation_id e \<noteq> None)
         \<and> \<not> (ge_config_version e \<noteq> None \<and> ge_config_bundle_sha256 e \<noteq> None \<and> ge_config_activation_id e \<noteq> None)
      then Inl (ValueError ''managed guardrail provenance must include version, digest, and activation'')
      else Inr e)"

record stored_guardrail_evidence =
  sg_evidence_id :: uuid
  sg_created_at :: instant
  sg_evidence :: guardrail_evidence

record guardrail_evidence_summary =
  gs_evidence_id :: uuid
  gs_created_at :: instant
  gs_config_id :: string
  gs_model :: string
  gs_passed_through :: bool
  gs_config_version :: "string option"
  gs_expected_action :: "expected_guardrail_action option"

subsection \<open>The efficacy report\<close>

record efficacy_metrics =
  em_config_id :: string
  em_config_version :: "string option"
  em_sample_count :: nat
  em_labeled_count :: nat
  em_pass_through_count :: int
  em_intervention_count :: nat
  em_true_positives :: nat
  em_false_positives :: nat
  em_true_negatives :: nat
  em_false_negatives :: nat
  em_label_coverage :: rat
  em_intervention_rate :: rat
  em_accuracy :: "rat option"
  em_precision :: "rat option"
  em_recall :: "rat option"
  em_false_positive_rate :: "rat option"

record efficacy_report =
  rp_generated_at :: instant
  rp_window_start :: instant
  rp_window_end :: instant
  rp_config_id :: "string option"
  rp_total_checks :: nat
  rp_labeled_checks :: nat
  rp_versions :: "efficacy_metrics list"

definition ratio :: "nat \<Rightarrow> nat \<Rightarrow> rat" where
  "ratio numerator denominator =
     (if denominator \<noteq> 0 then of_nat numerator / of_nat denominator else 0)"

definition optional_ratio :: "nat \<Rightarrow> nat \<Rightarrow> rat option" where
  "optional_ratio numerator denominator =
     (if denominator \<noteq> 0 then Some (of_nat numerator / of_nat denominator) else None)"

text \<open>\<open>defaultdict(list)\<close> filled in the order of the artifacts.\<close>

type_synonym group_key = "string \<times> string option"

definition group_key_of :: "guardrail_evidence \<Rightarrow> group_key" where
  "group_key_of e = (ge_config_id e, ge_config_version e)"

definition group_evidence :: "stored_guardrail_evidence list \<Rightarrow> (group_key, guardrail_evidence list) dict" where
  "group_evidence artifacts = fold (\<lambda>artifact grouped.
     let e = sg_evidence artifact; k = group_key_of e
     in dict_set k (dict_get grouped k [] @ [e]) grouped) artifacts []"

definition group_order :: "group_key \<times> guardrail_evidence list \<Rightarrow> string \<times> string" where
  "group_order = (\<lambda>((config_id, version), _). (config_id, case version of None \<Rightarrow> [] | Some v \<Rightarrow> v))"

definition efficacy_metrics_of :: "group_key \<times> guardrail_evidence list \<Rightarrow> efficacy_metrics" where
  "efficacy_metrics_of = (\<lambda>((config_id, config_version), items).
     let labeled = filter (\<lambda>e. ge_expected_action e \<noteq> None) items;
         interventions = count_if (\<lambda>e. \<not> ge_passed_through e) items;
         tp = count_if (\<lambda>e. \<not> ge_passed_through e \<and> ge_expected_action e = Some Intervention) labeled;
         fp = count_if (\<lambda>e. \<not> ge_passed_through e \<and> ge_expected_action e = Some Pass_through) labeled;
         tn = count_if (\<lambda>e. ge_passed_through e \<and> ge_expected_action e = Some Pass_through) labeled;
         fn = count_if (\<lambda>e. ge_passed_through e \<and> ge_expected_action e = Some Intervention) labeled;
         sample_count = length items; labeled_count = length labeled in
     \<lparr>em_config_id = config_id, em_config_version = config_version, em_sample_count = sample_count,
      em_labeled_count = labeled_count, em_pass_through_count = int sample_count - int interventions,
      em_intervention_count = interventions, em_true_positives = tp, em_false_positives = fp,
      em_true_negatives = tn, em_false_negatives = fn,
      em_label_coverage = ratio labeled_count sample_count,
      em_intervention_rate = ratio interventions sample_count,
      em_accuracy = optional_ratio (tp + tn) labeled_count, em_precision = optional_ratio tp (tp + fp),
      em_recall = optional_ratio tp (tp + fn),
      em_false_positive_rate = optional_ratio fp (fp + tn)\<rparr>)"

text \<open>The \<open>Field\<close> bounds of \<open>GuardrailEfficacyMetrics\<close>.\<close>

definition unit_interval :: "rat \<Rightarrow> bool" where
  "unit_interval x \<longleftrightarrow> 0 \<le> x \<and> x \<le> 1"

definition valid_metrics :: "efficacy_metrics \<Rightarrow> bool" where
  "valid_metrics m \<longleftrightarrow> 0 \<le> em_pass_through_count m
     \<and> unit_interval (em_label_coverage m) \<and> unit_interval (em_intervention_rate m)
     \<and> opt_all unit_interval (em_accuracy m) \<and> opt_all unit_interval (em_precision m)
     \<and> opt_all unit_interval (em_recall m) \<and> opt_all unit_interval (em_false_positive_rate m)"

definition make_metrics :: "efficacy_metrics \<Rightarrow> efficacy_metrics result" where
  "make_metrics m = (if valid_metrics m then Inr m else Inl (ValidationError ''GuardrailEfficacyMetrics''))"

definition build_guardrail_efficacy_report ::
  "instant \<Rightarrow> stored_guardrail_evidence list \<Rightarrow> instant \<Rightarrow> instant \<Rightarrow> string option \<Rightarrow> efficacy_report result" where
  "build_guardrail_efficacy_report now artifacts window_start window_end config_id =
     bind_result
       (map_result (\<lambda>g. make_metrics (efficacy_metrics_of g)) (sort_key group_order (group_evidence artifacts)))
       (\<lambda>versions. Inr \<lparr>rp_generated_at = now, rp_window_start = window_start, rp_window_end = window_end,
          rp_config_id = config_id, rp_total_checks = length artifacts,
          rp_labeled_checks = sum_list (map em_labeled_count versions), rp_versions = versions\<rparr>)"

subsection \<open>The client\<close>

definition DEFAULT_GUARDRAILS_BASE_URL :: string where
  "DEFAULT_GUARDRAILS_BASE_URL = ''http://127.0.0.1:8000/v1''"

record guardrails_client =
  gc_base_url :: string
  gc_api_key :: "string option"

text \<open>\<open>a or b\<close> on optional strings, where the empty string is false.\<close>

definition or_else :: "string option \<Rightarrow> string option \<Rightarrow> string option" where
  "or_else a b = (if a = None \<or> a = Some [] then b else a)"

definition guardrails_client_of ::
  "string option \<Rightarrow> string option \<Rightarrow> string option \<Rightarrow> string option \<Rightarrow> guardrails_client" where
  "guardrails_client_of env_url env_key base_url api_key =
     \<lparr>gc_base_url = rstrip_char CHR ''/''
        (the (or_else (or_else base_url env_url) (Some DEFAULT_GUARDRAILS_BASE_URL))),
      gc_api_key = or_else api_key env_key\<rparr>"

record http_request =
  hq_url :: string
  hq_body :: "json option"
  hq_method :: string
  hq_headers :: "(string, string) dict"

type_synonym transport = "http_request \<Rightarrow> string result"

text \<open>The exceptions that \<open>_request\<close> turns into its own.\<close>

definition request_failure :: "exn \<Rightarrow> bool" where
  "request_failure e = (case e of
     ServiceError c _ \<Rightarrow> c \<in> {''HTTPError'', ''URLError'', ''TimeoutError'', ''JSONDecodeError''} | _ \<Rightarrow> False)"

definition guardrails_error :: "string \<Rightarrow> exn" where
  "guardrails_error m = ServiceError ''GuardrailsError'' m"

definition guardrails_http_request :: "guardrails_client \<Rightarrow> string \<Rightarrow> string \<Rightarrow> json option \<Rightarrow> http_request" where
  "guardrails_http_request client method path body =
     \<lparr>hq_url = gc_base_url client @ path, hq_body = body, hq_method = method,
      hq_headers = [(''Accept'', ''application/json''), (''Content-Type'', ''application/json'')]
        @ (case or_else (gc_api_key client) None of None \<Rightarrow> [] | Some k \<Rightarrow> [(''Authorization'', ''Bearer '' @ k)])\<rparr>"

definition guardrails_request ::
  "transport \<Rightarrow> (string \<Rightarrow> json result) \<Rightarrow> guardrails_client \<Rightarrow> string \<Rightarrow> string \<Rightarrow> json option \<Rightarrow> json result" where
  "guardrails_request urlopen loads client method path body =
     (case bind_result (urlopen (guardrails_http_request client method path body)) loads of
        Inl e \<Rightarrow> Inl (if request_failure e then guardrails_error ''NeMo Guardrails request failed'' else e)
      | Inr payload \<Rightarrow>
          (case payload of JObj _ \<Rightarrow> Inr payload | JList _ \<Rightarrow> Inr payload
           | _ \<Rightarrow> Inl (guardrails_error ''NeMo Guardrails returned an invalid JSON response'')))"

text \<open>\<open>GuardrailsConfig.model_validate(item)\<close> yields the identifier.\<close>

definition validate_guardrails_config :: "json \<Rightarrow> string result" where
  "validate_guardrails_config item = (case item of
     JObj kvs \<Rightarrow> (case map_of kvs ''id'' of Some (JStr s) \<Rightarrow> Inr s | _ \<Rightarrow> Inl (ValidationError ''GuardrailsConfig''))
   | _ \<Rightarrow> Inl (ValidationError ''GuardrailsConfig''))"

definition guardrails_configs ::
  "transport \<Rightarrow> (string \<Rightarrow> json result) \<Rightarrow> guardrails_client \<Rightarrow> string list result" where
  "guardrails_configs urlopen loads client =
     bind_result (guardrails_request urlopen loads client ''GET'' ''/rails/configs'' None) (\<lambda>payload.
       case payload of JList items \<Rightarrow> map_result validate_guardrails_config items
       | _ \<Rightarrow> Inl (guardrails_error ''NeMo Guardrails returned an invalid configuration list''))"

text \<open>\<open>x[key]\<close> and \<open>x[0]\<close> on a decoded JSON value; a string can be indexed too.\<close>

definition json_item :: "json \<Rightarrow> string \<Rightarrow> json result" where
  "json_item v k = (case v of
     JObj kvs \<Rightarrow> (case map_of kvs k of None \<Rightarrow> Inl (KeyError k) | Some x \<Rightarrow> Inr x)
   | _ \<Rightarrow> Inl (TypeError ''indices must be integers''))"

definition json_first :: "json \<Rightarrow> json result" where
  "json_first v = (case v of
     JList (x # _) \<Rightarrow> Inr x
   | JList [] \<Rightarrow> Inl (ServiceError ''IndexError'' ''list index out of range'')
   | JStr (c # _) \<Rightarrow> Inr (JStr [c])
   | JStr [] \<Rightarrow> Inl (ServiceError ''IndexError'' ''string index out of range'')
   | JObj _ \<Rightarrow> Inl (KeyError ''0'')
   | _ \<Rightarrow> Inl (TypeError ''object is not subscriptable''))"

definition completion_content :: "json \<Rightarrow> json result" where
  "completion_content payload =
     (case bind_result (json_item payload ''choices'') (\<lambda>choices.
           bind_result (json_first choices) (\<lambda>choice.
           bind_result (json_item choice ''message'') (\<lambda>message. json_item message ''content''))) of
        Inl _ \<Rightarrow> Inl (guardrails_error ''NeMo Guardrails returned an invalid chat completion'')
      | Inr v \<Rightarrow> Inr v)"

text \<open>
  \<open>payload.get("guardrails", {}).get("log", payload.get("log", {}))\<close>, an empty object when that is
  not one.
\<close>

definition diagnostics_of :: "(string \<times> json) list \<Rightarrow> (string \<times> json) list result" where
  "diagnostics_of kvs = (case dict_get kvs ''guardrails'' (JObj []) of
     JObj g \<Rightarrow> (case dict_get g ''log'' (dict_get kvs ''log'' (JObj [])) of JObj d \<Rightarrow> Inr d | _ \<Rightarrow> Inr [])
   | _ \<Rightarrow> Inl (AttributeError ''object has no attribute get''))"

definition chat_body :: "string \<Rightarrow> string \<Rightarrow> string \<Rightarrow> string option \<Rightarrow> json" where
  "chat_body model config_id input_text output_text =
     (let message = (\<lambda>role content. JObj [(''role'', JStr role), (''content'', JStr content)]) in
      JObj [(''model'', JStr model),
        (''messages'', JList (message ''user'' input_text #
           (case output_text of None \<Rightarrow> [] | Some t \<Rightarrow> [message ''assistant'' t]))),
        (''stream'', JBool False), (''temperature'', JInt 0),
        (''guardrails'', JObj [(''config_id'', JStr config_id),
          (''options'', JObj [
            (''rails'', JObj [(''input'', JBool True), (''output'', JBool True),
               (''dialog'', JBool False), (''retrieval'', JBool False)]),
            (''log'', JObj [(''activated_rails'', JBool True), (''stats'', JBool True)])])])])"

definition evidence_of_completion ::
  "(json \<Rightarrow> string) \<Rightarrow> string \<Rightarrow> string \<Rightarrow> string \<Rightarrow> (string \<times> json) list \<Rightarrow> string \<Rightarrow> (string \<times> json) list
     \<Rightarrow> guardrail_evidence" where
  "evidence_of_completion py_str model config_id submitted kvs response_text diagnostics =
     \<lparr>ge_config_id = config_id,
      ge_model = (case dict_get kvs ''model'' (JStr model) of JStr s \<Rightarrow> s | v \<Rightarrow> py_str v),
      ge_submitted_text = submitted, ge_response_text = response_text,
      ge_passed_through = (response_text = submitted), ge_expected_action = None,
      ge_config_version = None, ge_config_bundle_sha256 = None, ge_config_activation_id = None,
      ge_activated_rails = dict_get diagnostics ''activated_rails'' (JList []),
      ge_stats = (case dict_get diagnostics ''stats'' (JObj []) of JObj d \<Rightarrow> d | _ \<Rightarrow> [])\<rparr>"

definition evidence_of_payload ::
  "(json \<Rightarrow> string) \<Rightarrow> string \<Rightarrow> string \<Rightarrow> string \<Rightarrow> json \<Rightarrow> guardrail_evidence result" where
  "evidence_of_payload py_str model config_id submitted raw_payload =
     (case raw_payload of
        JObj kvs \<Rightarrow>
          bind_result (completion_content raw_payload) (\<lambda>content.
            case content of
              JStr response_text \<Rightarrow>
                bind_result (diagnostics_of kvs) (\<lambda>diagnostics.
                  validate_guardrail_evidence
                    (evidence_of_completion py_str model config_id submitted kvs response_text diagnostics))
            | _ \<Rightarrow> Inl (guardrails_error ''NeMo Guardrails returned non-text content''))
      | _ \<Rightarrow> Inl (guardrails_error ''NeMo Guardrails returned a non-object chat completion''))"

definition guardrails_check ::
  "transport \<Rightarrow> (string \<Rightarrow> json result) \<Rightarrow> (json \<Rightarrow> string) \<Rightarrow> guardrails_client \<Rightarrow> string \<Rightarrow> string \<Rightarrow> string
     \<Rightarrow> string option \<Rightarrow> guardrail_evidence result" where
  "guardrails_check urlopen loads py_str client model config_id input_text output_text =
     bind_result
       (guardrails_request urlopen loads client ''POST'' ''/chat/completions''
          (Some (chat_body model config_id input_text output_text)))
       (evidence_of_payload py_str model config_id
          (case output_text of None \<Rightarrow> input_text | Some t \<Rightarrow> t))"

end
