(* ===== verification/Guardrail_Store.thy ===== *)
theory Guardrail_Store
  imports Guardrails Ledger
begin

section \<open>Guardrail configurations and evidence (\<open>store.py\<close>)\<close>

text \<open>
  The tables of configuration versions and of their activations, and the operations of the store on
  them; saving evidence, its summaries and the efficacy report over verified evidence. The columns that
  index a row of \<open>guardrail_evidence\<close> are kept beside its envelope, which the ledger's theory has, and
  joined with it on \<open>evidence_id\<close>. Only the order of the values of \<open>activation_sequence\<close> is observable, so
  the gaps that a failed insert leaves in the sequence are not modelled. \<open>isotime\<close> is pydantic's text of
  a timestamp; \<open>parse\<close> is \<open>StoredGuardrailEvidence.model_validate\<close>.
\<close>

record config_version_row =
  cv_config_id :: string
  cv_version :: string
  cv_bundle_sha256 :: sha256
  cv_description :: string
  cv_created_at :: instant
  cv_created_by :: string

record activation_row =
  av_sequence :: int
  av_activation_id :: uuid
  av_config_id :: string
  av_version :: string
  av_activated_at :: instant
  av_activated_by :: string

record evidence_columns =
  ec_evidence_id :: uuid
  ec_created_at :: instant
  ec_config_id :: string
  ec_config_version :: "string option"
  ec_model :: string
  ec_passed_through :: bool
  ec_expected_action :: "expected_guardrail_action option"

record guardrail_db = artifact_db +
  gd_versions :: "config_version_row table"
  gd_activations :: "activation_row table"
  gd_next_sequence :: int
  gd_evidence :: "evidence_columns table"

subsection \<open>Versions\<close>

definition version_key :: "config_version_row \<Rightarrow> string \<times> string" where
  "version_key r = (cv_config_id r, cv_version r)"

definition activation_key :: "activation_row \<Rightarrow> string \<times> string" where
  "activation_key a = (av_config_id a, av_version a)"

definition insert_version ::
  "tenant \<Rightarrow> config_version_row \<Rightarrow> config_version_row table \<Rightarrow> config_version_row table result" where
  "insert_version t row tbl =
     (if version_key row \<in> set (map version_key (visible t tbl))
      then Inl (UniqueViolation ''guardrail_config_versions_tenant_pkey'')
      else Inr (insert_row t row tbl))"

definition config_row_of :: "guardrail_config_version \<Rightarrow> config_version_row" where
  "config_row_of v =
     \<lparr>cv_config_id = gv_config_id v, cv_version = gv_version v, cv_bundle_sha256 = gv_bundle_sha256 v,
      cv_description = gv_description v, cv_created_at = gv_created_at v, cv_created_by = gv_created_by v\<rparr>"

definition register_guardrail_config_version ::
  "instant \<Rightarrow> tenant \<Rightarrow> string \<Rightarrow> string \<Rightarrow> sha256 \<Rightarrow> string \<Rightarrow> string \<Rightarrow> guardrail_db
     \<Rightarrow> (guardrail_db \<times> guardrail_config_version) result" where
  "register_guardrail_config_version now t config_id version bundle_sha256 description created_by db =
     bind_result (validate_config_version
         \<lparr>gv_config_id = config_id, gv_version = version, gv_bundle_sha256 = bundle_sha256,
          gv_description = description, gv_created_at = now, gv_created_by = created_by, gv_active = False\<rparr>)
       (\<lambda>config.
         case insert_version t (config_row_of config) (gd_versions db) of
           Inl (UniqueViolation _) \<Rightarrow> Inl (ValueError ''guardrail configuration is already registered'')
         | Inl e \<Rightarrow> Inl e
         | Inr versions \<Rightarrow> Inr (db\<lparr>gd_versions := versions\<rparr>, config))"

text \<open>The activation with the greatest sequence number of one configuration.\<close>

definition latest_activation :: "tenant \<Rightarrow> string \<Rightarrow> guardrail_db \<Rightarrow> activation_row option" where
  "latest_activation t config_id db =
     (case sort_key (\<lambda>a. - av_sequence a)
             (filter (\<lambda>a. av_config_id a = config_id) (visible t (gd_activations db))) of
        [] \<Rightarrow> None | a # _ \<Rightarrow> Some a)"

text \<open>\<open>coalesce(latest.version = versions.version, false)\<close>\<close>

definition config_version_of :: "tenant \<Rightarrow> guardrail_db \<Rightarrow> config_version_row \<Rightarrow> guardrail_config_version" where
  "config_version_of t db r =
     \<lparr>gv_config_id = cv_config_id r, gv_version = cv_version r, gv_bundle_sha256 = cv_bundle_sha256 r,
      gv_description = cv_description r, gv_created_at = cv_created_at r, gv_created_by = cv_created_by r,
      gv_active = (case latest_activation t (cv_config_id r) db of
        None \<Rightarrow> False | Some a \<Rightarrow> av_version a = cv_version r)\<rparr>"

definition list_guardrail_config_versions ::
  "tenant \<Rightarrow> guardrail_db \<Rightarrow> guardrail_config_version list result" where
  "list_guardrail_config_versions t db =
     map_result (\<lambda>r. validate_config_version (config_version_of t db r))
       (sort_key (\<lambda>r. (cv_config_id r, - cv_created_at r, cv_version r)) (visible t (gd_versions db)))"

definition get_guardrail_config_version ::
  "tenant \<Rightarrow> string \<Rightarrow> string \<Rightarrow> guardrail_db \<Rightarrow> guardrail_config_version result" where
  "get_guardrail_config_version t config_id version db =
     (case find (\<lambda>r. version_key r = (config_id, version)) (visible t (gd_versions db)) of
        None \<Rightarrow> Inl (KeyError ''config_id@version'')
      | Some r \<Rightarrow> validate_config_version (config_version_of t db r))"

subsection \<open>Activations\<close>

definition activation_of :: "activation_row \<Rightarrow> config_version_row \<Rightarrow> guardrail_config_activation" where
  "activation_of a v =
     \<lparr>ga_activation_id = av_activation_id a, ga_config_id = av_config_id a, ga_version = av_version a,
      ga_bundle_sha256 = cv_bundle_sha256 v, ga_activated_at = av_activated_at a,
      ga_activated_by = av_activated_by a\<rparr>"

text \<open>Activations joined with their versions, latest first.\<close>

definition joined_activations ::
  "tenant \<Rightarrow> (string \<Rightarrow> bool) \<Rightarrow> guardrail_db \<Rightarrow> guardrail_config_activation list" where
  "joined_activations t wanted db =
     map (\<lambda>(a, v). activation_of a v)
       (sort_key (\<lambda>(a, v). - av_sequence a)
         (concat (map (\<lambda>a. map (Pair a) (filter (\<lambda>v. version_key v = activation_key a)
             (visible t (gd_versions db))))
           (filter (\<lambda>a. wanted (av_config_id a)) (visible t (gd_activations db))))))"

definition get_active_guardrail_config ::
  "tenant \<Rightarrow> string \<Rightarrow> guardrail_db \<Rightarrow> guardrail_config_activation option result" where
  "get_active_guardrail_config t config_id db =
     (case joined_activations t ((=) config_id) db of
        [] \<Rightarrow> Inr None
      | a # _ \<Rightarrow> bind_result (validate_config_activation a) (\<lambda>x. Inr (Some x)))"

definition list_guardrail_config_activations ::
  "tenant \<Rightarrow> string option \<Rightarrow> nat \<Rightarrow> guardrail_db \<Rightarrow> guardrail_config_activation list result" where
  "list_guardrail_config_activations t config_id limit db =
     map_result validate_config_activation
       (take limit (joined_activations t (\<lambda>c. config_id = None \<or> config_id = Some c) db))"

text \<open>\<open>fresh_id\<close> is the \<open>uuid4()\<close> of the activation.\<close>

definition insert_activation ::
  "tenant \<Rightarrow> guardrail_config_activation \<Rightarrow> guardrail_db \<Rightarrow> guardrail_db result" where
  "insert_activation t x db =
     (let row = \<lparr>av_sequence = gd_next_sequence db, av_activation_id = ga_activation_id x,
            av_config_id = ga_config_id x, av_version = ga_version x,
            av_activated_at = ga_activated_at x, av_activated_by = ga_activated_by x\<rparr> in
      if ga_activation_id x \<in> set (map (av_activation_id \<circ> snd) (gd_activations db))
      then Inl (UniqueViolation ''guardrail_config_activations_activation_id_key'')
      else if activation_key row \<notin> set (map version_key (visible t (gd_versions db)))
      then Inl (ForeignKeyViolation ''guardrail_config_activations_tenant_version_fkey'')
      else Inr (db\<lparr>gd_activations := insert_row t row (gd_activations db),
                   gd_next_sequence := gd_next_sequence db + 1\<rparr>))"

definition activate_guardrail_config ::
  "uuid \<Rightarrow> instant \<Rightarrow> tenant \<Rightarrow> string \<Rightarrow> string \<Rightarrow> string \<Rightarrow> guardrail_db
     \<Rightarrow> (guardrail_db \<times> guardrail_config_activation) result" where
  "activate_guardrail_config fresh_id now t config_id version activated_by db =
     (case find (\<lambda>r. version_key r = (config_id, version)) (visible t (gd_versions db)) of
        None \<Rightarrow> Inl (KeyError ''config_id@version'')
      | Some registered \<Rightarrow>
          bind_result (validate_config_activation
             \<lparr>ga_activation_id = fresh_id, ga_config_id = config_id, ga_version = version,
              ga_bundle_sha256 = cv_bundle_sha256 registered, ga_activated_at = now,
              ga_activated_by = activated_by\<rparr>) (\<lambda>activation.
          bind_result (insert_activation t activation db) (\<lambda>db'. Inr (db', activation))))"

subsection \<open>Evidence\<close>

definition option_json :: "('a \<Rightarrow> string) \<Rightarrow> 'a option \<Rightarrow> json" where
  "option_json f x = (case x of None \<Rightarrow> JNull | Some v \<Rightarrow> JStr (f v))"

text \<open>\<open>artifact.model_dump(mode="json")\<close>\<close>

definition evidence_json :: "(instant \<Rightarrow> string) \<Rightarrow> stored_guardrail_evidence \<Rightarrow> json" where
  "evidence_json isotime a =
     (let e = sg_evidence a in
      JObj [(''evidence_id'', JStr (uuid_str (sg_evidence_id a))),
        (''created_at'', JStr (isotime (sg_created_at a))),
        (''evidence'', JObj [
          (''config_id'', JStr (ge_config_id e)), (''model'', JStr (ge_model e)),
          (''submitted_text'', JStr (ge_submitted_text e)), (''response_text'', JStr (ge_response_text e)),
          (''passed_through'', JBool (ge_passed_through e)),
          (''expected_action'', option_json action_str (ge_expected_action e)),
          (''config_version'', option_json id (ge_config_version e)),
          (''config_bundle_sha256'', option_json id (ge_config_bundle_sha256 e)),
          (''config_activation_id'', option_json uuid_str (ge_config_activation_id e)),
          (''activated_rails'', ge_activated_rails e), (''stats'', JObj (ge_stats e))])])"

definition evidence_columns_of :: "stored_guardrail_evidence \<Rightarrow> evidence_columns" where
  "evidence_columns_of a = (let e = sg_evidence a in
     \<lparr>ec_evidence_id = sg_evidence_id a, ec_created_at = sg_created_at a, ec_config_id = ge_config_id e,
      ec_config_version = ge_config_version e, ec_model = ge_model e,
      ec_passed_through = ge_passed_through e, ec_expected_action = ge_expected_action e\<rparr>)"

definition store_guardrail_evidence ::
  "primitives \<Rightarrow> keyring option \<Rightarrow> (json \<Rightarrow> json) \<Rightarrow> (instant \<Rightarrow> string) \<Rightarrow> uuid \<Rightarrow> instant \<Rightarrow> tenant
     \<Rightarrow> guardrail_evidence \<Rightarrow> guardrail_db \<Rightarrow> (guardrail_db \<times> stored_guardrail_evidence) result" where
  "store_guardrail_evidence P kr jsonb isotime fresh_id now t evidence db =
     (let artifact = \<lparr>sg_evidence_id = fresh_id, sg_created_at = now, sg_evidence = evidence\<rparr> in
      bind_result
        (save_guardrail_evidence P kr jsonb t fresh_id (evidence_json isotime artifact) (artifact_db.truncate db))
        (\<lambda>saved. Inr (db\<lparr>ad_evidence := ad_evidence saved, ad_ledger := ad_ledger saved,
            gd_evidence := insert_row t (evidence_columns_of artifact) (gd_evidence db)\<rparr>, artifact)))"

definition evidence_summary :: "evidence_columns \<Rightarrow> guardrail_evidence_summary" where
  "evidence_summary c =
     \<lparr>gs_evidence_id = ec_evidence_id c, gs_created_at = ec_created_at c, gs_config_id = ec_config_id c,
      gs_model = ec_model c, gs_passed_through = ec_passed_through c,
      gs_config_version = ec_config_version c, gs_expected_action = ec_expected_action c\<rparr>"

definition list_guardrail_evidence :: "tenant \<Rightarrow> nat \<Rightarrow> guardrail_db \<Rightarrow> guardrail_evidence_summary list" where
  "list_guardrail_evidence t limit db =
     map evidence_summary (take limit (sort_key (\<lambda>c. - ec_created_at c) (visible t (gd_evidence db))))"

subsection \<open>The efficacy report\<close>

datatype timestamp = Aware instant | Naive instant

fun instant_of :: "timestamp \<Rightarrow> instant" where
  "instant_of (Aware i) = i"
| "instant_of (Naive i) = i"

fun minus_days :: "int \<Rightarrow> timestamp \<Rightarrow> timestamp" where
  "minus_days n (Aware i) = Aware (i - n * day)"
| "minus_days n (Naive i) = Naive (i - n * day)"

fun is_naive :: "timestamp \<Rightarrow> bool" where
  "is_naive (Aware i) = False"
| "is_naive (Naive i) = True"

definition efficacy_window ::
  "instant \<Rightarrow> timestamp option \<Rightarrow> timestamp option \<Rightarrow> (instant \<times> instant) result" where
  "efficacy_window now window_start window_end =
     (let resolved_end = (case window_end of None \<Rightarrow> Aware now | Some e \<Rightarrow> e);
          resolved_start = (case window_start of None \<Rightarrow> minus_days 30 resolved_end | Some s \<Rightarrow> s) in
      if is_naive resolved_start \<or> is_naive resolved_end
      then Inl (ValueError ''efficacy timestamps must include a timezone'')
      else if instant_of resolved_start \<ge> instant_of resolved_end
      then Inl (ValueError ''efficacy window start must be before window end'')
      else if instant_of resolved_end - instant_of resolved_start > 366 * day
      then Inl (ValueError ''efficacy windows cannot exceed 366 days'')
      else Inr (instant_of resolved_start, instant_of resolved_end))"

definition evidence_rows ::
  "tenant \<Rightarrow> string option \<Rightarrow> instant \<Rightarrow> instant \<Rightarrow> guardrail_db \<Rightarrow> artifact_row list" where
  "evidence_rows t config_id window_start window_end db =
     map snd (sort_key (\<lambda>(c, r). ec_created_at c)
       (concat (map (\<lambda>c. map (Pair c) (filter (\<lambda>r. ar_id r = ec_evidence_id c) (visible t (ad_evidence db))))
         (filter (\<lambda>c. window_start \<le> ec_created_at c \<and> ec_created_at c < window_end
              \<and> (case config_id of None \<Rightarrow> True | Some i \<Rightarrow> ec_config_id c = i))
           (visible t (gd_evidence db))))))"

definition read_evidence ::
  "primitives \<Rightarrow> keyring option \<Rightarrow> (json \<Rightarrow> stored_guardrail_evidence result) \<Rightarrow> artifact_row
     \<Rightarrow> stored_guardrail_evidence result" where
  "read_evidence P kr parse r =
     bind_result (verify_artifact P kr Guardrail_evidence r) (\<lambda>_. parse (ar_payload r))"

definition guardrail_efficacy_report ::
  "primitives \<Rightarrow> keyring option \<Rightarrow> (json \<Rightarrow> stored_guardrail_evidence result) \<Rightarrow> instant \<Rightarrow> tenant
     \<Rightarrow> string option \<Rightarrow> timestamp option \<Rightarrow> timestamp option \<Rightarrow> guardrail_db \<Rightarrow> efficacy_report result" where
  "guardrail_efficacy_report P kr parse now t config_id window_start window_end db =
     bind_result (efficacy_window now window_start window_end) (\<lambda>(first_instant, end_instant).
     bind_result (map_result (read_evidence P kr parse)
         (evidence_rows t config_id first_instant end_instant db)) (\<lambda>artifacts.
       build_guardrail_efficacy_report now artifacts first_instant end_instant config_id))"

end
