(* ===== verification/Guardrail_Properties.thy ===== *)
theory Guardrail_Properties
  imports Guardrail_Store Ledger_Properties
begin

section \<open>Properties of guardrails\<close>

text \<open>
  The digest of a configuration directory commits to its files; the efficacy report is an exact account
  of the evidence; the client's evidence is faithful to the response; the store's active version of a
  configuration refines a map that an activation overwrites; and the report of the store is the report
  of the evidence that was saved.
\<close>

subsection \<open>The framing of a bundle is injective\<close>

lemma length_be_bytes [simp]: "length (be_bytes w n) = w"
  by (induction w arbitrary: n) auto

lemma be_bytes_inj: "be_bytes w n = be_bytes w m \<Longrightarrow> n mod 256 ^ w = m mod 256 ^ w"
proof (induction w arbitrary: n m)
  case (Suc w)
  then have "be_bytes w (n div 256) = be_bytes w (m div 256)" by simp
  then have high: "n div 256 mod 256 ^ w = m div 256 mod 256 ^ w" by (rule Suc.IH)
  moreover have "n mod 256 = m mod 256"
  proof -
    have "(of_char (char_of (n mod 256)) :: nat) = of_char (char_of (m mod 256))" using Suc.prems by simp
    then show ?thesis by simp
  qed
  ultimately show ?case
    by (simp only: power_Suc mod_mult2_eq high)
qed simp

lemma to_bytes8_inj: "to_bytes8 n = Inr a \<Longrightarrow> to_bytes8 m = Inr a \<Longrightarrow> n = m"
  using be_bytes_inj [of 8 n m] by (auto simp: to_bytes8_def split: if_splits)

lemma to_bytes8_length: "to_bytes8 n = Inr a \<Longrightarrow> length a = 8"
  by (auto simp: to_bytes8_def split: if_splits)

lemma utf8_Cons: "utf8 (c # s) = utf8 [c] @ utf8 s"
  by (simp add: utf8_def)

lemma utf8_char_prefix: "utf8 [c] @ x = utf8 [d] @ y \<Longrightarrow> c = d \<and> x = y"
proof -
  assume eq: "utf8 [c] @ x = utf8 [d] @ y"
  have bound: "(of_char e :: nat) < 256" for e :: char by simp
  have lead: "e < 256 \<Longrightarrow> (of_char (char_of (192 + e div 64) :: char) :: nat) = 192 + e div 64" for e :: nat
    by simp
  have trail: "(of_char (char_of (128 + e mod 64) :: char) :: nat) = 128 + e mod 64" for e :: nat
    by simp
  let ?n = "of_char c :: nat" and ?m = "of_char d :: nat"
  show ?thesis
  proof (cases "?n < 128"; cases "?m < 128")
    assume "?n < 128" "?m < 128"
    then show ?thesis using eq by (simp add: utf8_def)
  next
    assume n: "?n < 128" and m: "\<not> ?m < 128"
    then have "c = char_of (192 + ?m div 64)" using eq by (simp add: utf8_def Let_def)
    then have "?n = 192 + ?m div 64" using lead [OF bound] by simp
    then show ?thesis using n by simp
  next
    assume n: "\<not> ?n < 128" and m: "?m < 128"
    then have "d = char_of (192 + ?n div 64)" using eq by (simp add: utf8_def Let_def)
    then have "?m = 192 + ?n div 64" using lead [OF bound] by simp
    then show ?thesis using m by simp
  next
    assume n: "\<not> ?n < 128" and m: "\<not> ?m < 128"
    then have "char_of (192 + ?n div 64) = (char_of (192 + ?m div 64) :: char)"
      "char_of (128 + ?n mod 64) = (char_of (128 + ?m mod 64) :: char)" "x = y"
      using eq by (simp_all add: utf8_def Let_def)
    then have "192 + ?n div 64 = 192 + ?m div 64" "128 + ?n mod 64 = 128 + ?m mod 64" and y: "x = y"
      using lead [OF bound] trail by metis+
    then have "?n = ?m" by (metis add_left_cancel div_mult_mod_eq)
    then show ?thesis using y by simp
  qed
qed

lemma utf8_single_not_Nil [simp]: "utf8 [c] \<noteq> []"
  by (simp add: utf8_def Let_def)

lemma utf8_inj: "utf8 s = utf8 t \<Longrightarrow> s = t"
proof (induction s arbitrary: t)
  case Nil
  then show ?case by (cases t) (simp_all add: utf8_Cons [of _ "_ # _"] utf8_def Let_def split: if_splits)
next
  case (Cons c s)
  show ?case
  proof (cases t)
    case Nil
    then show ?thesis using Cons.prems utf8_Cons [of c s] utf8_single_not_Nil [of c] by (simp add: utf8_def [of "[]"])
  next
    case (Cons d u)
    then have "utf8 [c] @ utf8 s = utf8 [d] @ utf8 u" using Cons.prems utf8_Cons by metis
    then show ?thesis using utf8_char_prefix Cons.IH \<open>t = d # u\<close> by blast
  qed
qed

lemma bundle_frame_prefix:
  assumes "bundle_frame x = Inr a" "bundle_frame y = Inr b" "a @ r = b @ s"
  shows "x = y \<and> r = s"
proof -
  obtain n m where x: "to_bytes8 (length (utf8 (fst x))) = Inr n" "to_bytes8 (length (snd x)) = Inr m"
    "a = n @ utf8 (fst x) @ m @ snd x"
    using assms(1) by (auto simp: bundle_frame_def Let_def split_beta)
  obtain n' m' where y: "to_bytes8 (length (utf8 (fst y))) = Inr n'" "to_bytes8 (length (snd y)) = Inr m'"
    "b = n' @ utf8 (fst y) @ m' @ snd y"
    using assms(2) by (auto simp: bundle_frame_def Let_def split_beta)
  have "n = n'" and rest: "utf8 (fst x) @ m @ snd x @ r = utf8 (fst y) @ m' @ snd y @ s"
    using assms(3) x y to_bytes8_length by auto
  then have "length (utf8 (fst x)) = length (utf8 (fst y))" using to_bytes8_inj x(1) y(1) by metis
  then have path: "utf8 (fst x) = utf8 (fst y)" and rest': "m @ snd x @ r = m' @ snd y @ s" using rest by auto
  then have "m = m'" and rest'': "snd x @ r = snd y @ s" using to_bytes8_length x(2) y(2) by auto
  then have "length (snd x) = length (snd y)" using to_bytes8_inj x(2) y(2) by metis
  then show ?thesis using rest'' utf8_inj [OF path] by (auto simp: prod_eq_iff)
qed

lemma bundle_frame_not_Nil: "bundle_frame x \<noteq> Inr []"
  using to_bytes8_length by (fastforce simp: bundle_frame_def Let_def split_beta)

lemma bundle_frames_inj:
  "map_result bundle_frame xs = Inr as \<Longrightarrow> map_result bundle_frame ys = Inr bs \<Longrightarrow> concat as = concat bs \<Longrightarrow> xs = ys"
proof (induction xs arbitrary: ys as bs)
  case Nil
  then show ?case using bundle_frame_not_Nil by (cases ys) auto
next
  case (Cons x xs)
  then obtain a as' where a: "bundle_frame x = Inr a" "map_result bundle_frame xs = Inr as'" "as = a # as'" by auto
  show ?case
  proof (cases ys)
    case Nil
    then show ?thesis using Cons.prems a bundle_frame_not_Nil [of x] by auto
  next
    case (Cons y ys')
    then obtain b bs' where b: "bundle_frame y = Inr b" "map_result bundle_frame ys' = Inr bs'" "bs = b # bs'"
      using Cons.prems(2) by auto
    have "x = y \<and> concat as' = concat bs'"
      using bundle_frame_prefix [OF a(1) b(1), of "concat as'" "concat bs'"] Cons.prems(3) a(3) b(3) by simp
    then show ?thesis using Cons.IH [OF a(2) b(2)] \<open>ys = y # ys'\<close> by simp
  qed
qed

text \<open>A collision: two different byte strings, those of the bundles, with one digest.\<close>

definition bundle_collision :: "primitives \<Rightarrow> bundle_tree \<Rightarrow> bundle_tree \<Rightarrow> bool" where
  "bundle_collision P a b \<longleftrightarrow>
     (\<exists>x y. bundle_bytes a = Inr x \<and> bundle_bytes b = Inr y \<and> x \<noteq> y \<and> sha256_hex P x = sha256_hex P y)"

text \<open>The digest of a configuration directory commits to its files: two directories have the same
  digest exactly when their files have the same paths and contents, unless the bytes hashed for them are a
  SHA-256 collision. Neither directory entries nor the order of the listing matter.\<close>

theorem bundle_digest_commits:
  assumes "guardrail_bundle_digest P (Some a) = Inr da" "guardrail_bundle_digest P (Some b) = Inr db"
  shows "da = db \<longleftrightarrow>
    bundle_files (bundle_candidates a) = bundle_files (bundle_candidates b) \<or> bundle_collision P a b"
proof -
  obtain fa where fa: "map_result bundle_frame (bundle_files (bundle_candidates a)) = Inr fa"
    "da = sha256_hex P (concat fa)"
    using assms(1) by (auto simp: guardrail_bundle_digest_def bundle_bytes_def split: if_splits)
  obtain fb where fb: "map_result bundle_frame (bundle_files (bundle_candidates b)) = Inr fb"
    "db = sha256_hex P (concat fb)"
    using assms(2) by (auto simp: guardrail_bundle_digest_def bundle_bytes_def split: if_splits)
  have "concat fa = concat fb \<longleftrightarrow> bundle_files (bundle_candidates a) = bundle_files (bundle_candidates b)"
    using bundle_frames_inj [OF fa(1) fb(1)] fa(1) fb(1) by auto
  moreover have "bundle_collision P a b \<longleftrightarrow> concat fa \<noteq> concat fb \<and> da = db"
    using fa fb by (auto simp: bundle_collision_def bundle_bytes_def)
  ultimately show ?thesis using fa(2) fb(2) by auto
qed

theorem bundle_digest_commits_witness:
  "guardrail_bundle_digest toy_primitives (Some [(''config.yml'', Bundle_file ''a''), (''rails'', Bundle_directory)])
     = guardrail_bundle_digest toy_primitives (Some [(''rails'', Bundle_directory), (''config.yml'', Bundle_file ''a'')])"
proof -
  let ?a = "[(''config.yml'', Bundle_file ''a''), (''rails'', Bundle_directory)]"
  let ?b = "[(''rails'', Bundle_directory), (''config.yml'', Bundle_file ''a'')]"
  have "\<not> isl (guardrail_bundle_digest toy_primitives (Some ?a))"
    "\<not> isl (guardrail_bundle_digest toy_primitives (Some ?b))"
    by (simp_all add: guardrail_bundle_digest_def entry_is_file_def entry_is_symlink_def bundle_bytes_def
        bundle_candidates_def bundle_files_def bundle_frame_def to_bytes8_def Let_def utf8_def less_list_code)
  then obtain da db where "guardrail_bundle_digest toy_primitives (Some ?a) = Inr da"
    "guardrail_bundle_digest toy_primitives (Some ?b) = Inr db" by (metis isl_def sum.exhaust)
  moreover have "bundle_files (bundle_candidates ?a) = bundle_files (bundle_candidates ?b)" by code_simp
  ultimately show ?thesis using bundle_digest_commits by metis
qed

subsection \<open>The efficacy report\<close>

lemma group_evidence_snoc:
  "group_evidence (xs @ [x]) = (let grouped = group_evidence xs; e = sg_evidence x; k = group_key_of e
     in dict_set k (dict_get grouped k [] @ [e]) grouped)"
  by (simp add: group_evidence_def Let_def)

abbreviation group_members :: "stored_guardrail_evidence list \<Rightarrow> group_key \<Rightarrow> guardrail_evidence list" where
  "group_members artifacts k \<equiv> filter (\<lambda>e. group_key_of e = k) (map sg_evidence artifacts)"

lemma map_of_group_evidence:
  "map_of (group_evidence artifacts) k =
     (if group_members artifacts k = [] then None else Some (group_members artifacts k))"
proof (induction artifacts rule: rev_induct)
  case Nil
  then show ?case by (simp add: group_evidence_def)
next
  case (snoc x xs)
  then show ?case
    by (cases "group_key_of (sg_evidence x) = k") (auto simp: group_evidence_snoc Let_def)
qed

lemma distinct_group_evidence: "distinct (map fst (group_evidence artifacts))"
  by (induction artifacts rule: rev_induct) (simp_all add: group_evidence_def Let_def)

lemma group_evidence_members:
  "(k, es) \<in> set (group_evidence artifacts) \<Longrightarrow> es = group_members artifacts k \<and> es \<noteq> []"
  using map_of_group_evidence [of artifacts k] distinct_group_evidence [of artifacts]
  by (auto dest!: map_of_is_SomeI split: if_splits)

lemma keys_group_evidence:
  "fst ` set (group_evidence artifacts) = group_key_of ` sg_evidence ` set artifacts"
proof -
  have "k \<in> fst ` set (group_evidence artifacts) \<longleftrightarrow> map_of (group_evidence artifacts) k \<noteq> None" for k
    by (metis domIff dom_map_of_conv_image_fst)
  moreover have "map_of (group_evidence artifacts) k \<noteq> None \<longleftrightarrow> k \<in> group_key_of ` sg_evidence ` set artifacts" for k
    unfolding map_of_group_evidence by (auto simp: filter_empty_conv)
  ultimately show ?thesis by blast
qed

text \<open>A labelled check is a true or false positive or negative; a check is passed or intervened on.\<close>

lemma confusion_counts:
  "count_if (\<lambda>e. \<not> ge_passed_through e \<and> ge_expected_action e = Some Intervention) es
   + count_if (\<lambda>e. \<not> ge_passed_through e \<and> ge_expected_action e = Some Pass_through) es
   + count_if (\<lambda>e. ge_passed_through e \<and> ge_expected_action e = Some Pass_through) es
   + count_if (\<lambda>e. ge_passed_through e \<and> ge_expected_action e = Some Intervention) es
   = length (filter (\<lambda>e. ge_expected_action e \<noteq> None) es)"
proof (induction es)
  case (Cons e es)
  then show ?case
    by (cases "ge_expected_action e"; cases "the (ge_expected_action e)") auto
qed simp

lemma count_if_labeled [simp]:
  "count_if (\<lambda>e. p e \<and> ge_expected_action e = Some a) (filter (\<lambda>e. \<exists>y. ge_expected_action e = Some y) es)
     = count_if (\<lambda>e. p e \<and> ge_expected_action e = Some a) es"
  by (induction es) auto

lemma unit_interval_ratio: "n \<le> d \<Longrightarrow> unit_interval (ratio n d)"
  by (auto simp: unit_interval_def ratio_def divide_le_eq)

lemma unit_interval_optional_ratio: "n \<le> d \<Longrightarrow> opt_all unit_interval (optional_ratio n d)"
  by (auto simp: unit_interval_def optional_ratio_def divide_le_eq)

text \<open>What a row of the report says about its group.\<close>

definition metrics_exact :: "guardrail_evidence list \<Rightarrow> efficacy_metrics \<Rightarrow> bool" where
  "metrics_exact es m \<longleftrightarrow>
     em_sample_count m = length es \<and> 0 < em_sample_count m
   \<and> em_labeled_count m = length (filter (\<lambda>e. ge_expected_action e \<noteq> None) es)
   \<and> em_intervention_count m = count_if (\<lambda>e. \<not> ge_passed_through e) es
   \<and> em_pass_through_count m = int (count_if ge_passed_through es)
   \<and> em_true_positives m + em_false_positives m + em_true_negatives m + em_false_negatives m = em_labeled_count m
   \<and> em_true_positives m + em_false_positives m \<le> em_intervention_count m
   \<and> em_accuracy m = optional_ratio (em_true_positives m + em_true_negatives m) (em_labeled_count m)
   \<and> em_precision m = optional_ratio (em_true_positives m) (em_true_positives m + em_false_positives m)
   \<and> em_recall m = optional_ratio (em_true_positives m) (em_true_positives m + em_false_negatives m)
   \<and> valid_metrics m"

definition metrics_key :: "efficacy_metrics \<Rightarrow> group_key" where
  "metrics_key m = (em_config_id m, em_config_version m)"

lemma positives_are_interventions:
  "count_if (\<lambda>e. \<not> ge_passed_through e \<and> ge_expected_action e = Some Intervention) es
   + count_if (\<lambda>e. \<not> ge_passed_through e \<and> ge_expected_action e = Some Pass_through) es
     \<le> count_if (\<lambda>e. \<not> ge_passed_through e) es"
  by (induction es) auto

lemma efficacy_metrics_exact:
  assumes "es \<noteq> []"
  shows "metrics_exact es (efficacy_metrics_of (k, es)) \<and> metrics_key (efficacy_metrics_of (k, es)) = k"
proof -
  let ?m = "efficacy_metrics_of (k, es)"
  have pass: "int (length es) - int (count_if (\<lambda>e. \<not> ge_passed_through e) es) = int (count_if ge_passed_through es)"
    using count_if_split [of ge_passed_through es] by linarith
  have counts: "em_sample_count ?m = length es" "em_labeled_count ?m = length (filter (\<lambda>e. ge_expected_action e \<noteq> None) es)"
    "em_intervention_count ?m = count_if (\<lambda>e. \<not> ge_passed_through e) es"
    "em_pass_through_count ?m = int (count_if ge_passed_through es)"
    "em_true_positives ?m + em_false_positives ?m + em_true_negatives ?m + em_false_negatives ?m = em_labeled_count ?m"
    "em_true_positives ?m + em_false_positives ?m \<le> em_intervention_count ?m"
    using confusion_counts [of es] positives_are_interventions [of es]
    by (simp_all add: efficacy_metrics_of_def Let_def split_beta pass)
  have ratios: "em_accuracy ?m = optional_ratio (em_true_positives ?m + em_true_negatives ?m) (em_labeled_count ?m)"
    "em_precision ?m = optional_ratio (em_true_positives ?m) (em_true_positives ?m + em_false_positives ?m)"
    "em_recall ?m = optional_ratio (em_true_positives ?m) (em_true_positives ?m + em_false_negatives ?m)"
    "em_false_positive_rate ?m = optional_ratio (em_false_positives ?m) (em_false_positives ?m + em_true_negatives ?m)"
    "em_label_coverage ?m = ratio (em_labeled_count ?m) (em_sample_count ?m)"
    "em_intervention_rate ?m = ratio (em_intervention_count ?m) (em_sample_count ?m)"
    by (simp_all add: efficacy_metrics_of_def Let_def split_beta)
  have "valid_metrics ?m"
    unfolding valid_metrics_def ratios using counts(5)
    by (intro conjI unit_interval_ratio unit_interval_optional_ratio)
      (simp_all add: counts(1,2,3,4) count_if_le_length)
  moreover have "metrics_key ?m = k"
    by (simp add: efficacy_metrics_of_def metrics_key_def Let_def split_beta)
  ultimately show ?thesis
    using counts ratios(1,2,3) assms by (simp add: metrics_exact_def)
qed

lemma group_row_exact:
  assumes "g \<in> set (group_evidence artifacts)"
  shows "metrics_exact (group_members artifacts (fst g)) (efficacy_metrics_of g) \<and> metrics_key (efficacy_metrics_of g) = fst g"
proof -
  have g: "(fst g, snd g) \<in> set (group_evidence artifacts)" using assms by simp
  note group_evidence_members [OF g]
  then show ?thesis using efficacy_metrics_exact [of "snd g" "fst g"] unfolding prod.collapse by metis
qed

lemma map_result_make_metrics:
  "(\<And>g. g \<in> set gs \<Longrightarrow> valid_metrics (efficacy_metrics_of g)) \<Longrightarrow>
     map_result (\<lambda>g. make_metrics (efficacy_metrics_of g)) gs = Inr (map efficacy_metrics_of gs)"
  by (rule map_result_all_Inr) (simp add: make_metrics_def)

lemma sum_list_sort_key: "sum_list (map f (sort_key k xs)) = (sum_list (map f xs) :: nat)"
  by (metis mset_map mset_sort sum_mset_sum_list)

lemma efficacy_report_shape:
  "build_guardrail_efficacy_report now artifacts a b c = Inr
     \<lparr>rp_generated_at = now, rp_window_start = a, rp_window_end = b, rp_config_id = c,
      rp_total_checks = length artifacts,
      rp_labeled_checks = sum_list (map em_labeled_count
        (map efficacy_metrics_of (sort_key group_order (group_evidence artifacts)))),
      rp_versions = map efficacy_metrics_of (sort_key group_order (group_evidence artifacts))\<rparr>"
proof -
  have "map_result (\<lambda>g. make_metrics (efficacy_metrics_of g)) (sort_key group_order (group_evidence artifacts))
      = Inr (map efficacy_metrics_of (sort_key group_order (group_evidence artifacts)))"
    using group_row_exact [of _ artifacts]
    by (intro map_result_make_metrics) (simp only: metrics_exact_def set_sort)
  then show ?thesis by (simp add: build_guardrail_efficacy_report_def)
qed

lemma sum_over_groups:
  fixes h :: "guardrail_evidence list \<Rightarrow> nat"
  assumes "\<And>g. g \<in> set (group_evidence artifacts) \<Longrightarrow> f g = sum_list (map w (group_members artifacts (fst g)))"
  shows "sum_list (map f (group_evidence artifacts)) = (\<Sum>e\<leftarrow>map sg_evidence artifacts. w e :: nat)"
proof -
  have "sum_list (map f (group_evidence artifacts))
      = (\<Sum>k\<leftarrow>map fst (group_evidence artifacts). \<Sum>e\<leftarrow>group_members artifacts k. w e)"
    using assms by (simp add: comp_def cong: map_cong)
  also have "\<dots> = (\<Sum>e\<leftarrow>map sg_evidence artifacts. w e)"
    using keys_group_evidence [of artifacts]
    by (intro sum_list_groups distinct_group_evidence) (auto simp: image_iff)
  finally show ?thesis .
qed

text \<open>The efficacy report is an exact account. It is always built (no ratio leaves the unit interval);
  it has one row for each configuration and version that occurs, whose counts are those of its group, whose
  true and false positives and negatives add up to its labelled checks; and the rows add up to the whole.\<close>

theorem efficacy_report_correct:
  "\<exists>report. build_guardrail_efficacy_report now artifacts a b c = Inr report
     \<and> distinct (map metrics_key (rp_versions report))
     \<and> metrics_key ` set (rp_versions report) = group_key_of ` sg_evidence ` set artifacts
     \<and> list_all (\<lambda>m. metrics_exact (filter (\<lambda>e. group_key_of e = metrics_key m) (map sg_evidence artifacts)) m)
          (rp_versions report)
     \<and> rp_total_checks report = sum_list (map em_sample_count (rp_versions report))
     \<and> rp_labeled_checks report = count_if (\<lambda>x. ge_expected_action (sg_evidence x) \<noteq> None) artifacts"
proof -
  let ?groups = "sort_key group_order (group_evidence artifacts)"
  have exact: "metrics_exact (group_members artifacts (fst g)) (efficacy_metrics_of g)
      \<and> metrics_key (efficacy_metrics_of g) = fst g" if "g \<in> set (group_evidence artifacts)" for g
    by (rule group_row_exact [OF that])
  have keys: "map metrics_key (map efficacy_metrics_of ?groups) = map fst ?groups"
    using exact by (simp add: comp_def)
  have distinct: "distinct (map fst ?groups)"
    using distinct_group_evidence [of artifacts] by (metis distinct_map distinct_sort set_sort)
  have "list_all (\<lambda>m. metrics_exact (group_members artifacts (metrics_key m)) m) (map efficacy_metrics_of ?groups)"
    using exact by (auto simp: list_all_iff)
  moreover have "sum_list (map (em_sample_count \<circ> efficacy_metrics_of) (group_evidence artifacts))
      = (\<Sum>e\<leftarrow>map sg_evidence artifacts. 1)"
  proof (rule sum_over_groups)
    fix g assume "g \<in> set (group_evidence artifacts)"
    from exact [OF this] have "em_sample_count (efficacy_metrics_of g) = length (group_members artifacts (fst g))"
      unfolding metrics_exact_def by blast
    then show "(em_sample_count \<circ> efficacy_metrics_of) g = (\<Sum>e\<leftarrow>group_members artifacts (fst g). 1)"
      by (simp add: sum_list_triv)
  qed
  moreover have "sum_list (map (em_labeled_count \<circ> efficacy_metrics_of) (group_evidence artifacts))
      = (\<Sum>e\<leftarrow>map sg_evidence artifacts. of_bool (ge_expected_action e \<noteq> None))"
  proof (rule sum_over_groups)
    fix g assume "g \<in> set (group_evidence artifacts)"
    from exact [OF this] have "em_labeled_count (efficacy_metrics_of g)
        = length (filter (\<lambda>e. ge_expected_action e \<noteq> None) (group_members artifacts (fst g)))"
      unfolding metrics_exact_def by blast
    then show "(em_labeled_count \<circ> efficacy_metrics_of) g
        = (\<Sum>e\<leftarrow>group_members artifacts (fst g). of_bool (ge_expected_action e \<noteq> None))"
      by (simp add: sum_list_of_bool count_if_def)
  qed
  moreover have "distinct (map metrics_key (map efficacy_metrics_of ?groups))" unfolding keys by (rule distinct)
  moreover have "metrics_key ` set (map efficacy_metrics_of ?groups) = group_key_of ` sg_evidence ` set artifacts"
    using arg_cong [OF keys, of set] keys_group_evidence [of artifacts] unfolding set_map set_sort by metis
  moreover have "(\<Sum>e\<leftarrow>map sg_evidence artifacts. of_bool (ge_expected_action e \<noteq> None))
      = count_if (\<lambda>x. ge_expected_action (sg_evidence x) \<noteq> None) artifacts"
    by (simp add: comp_def flip: sum_list_of_bool [where 'a = nat, simplified])
  moreover have "(\<Sum>e\<leftarrow>map sg_evidence artifacts. 1 :: nat) = length artifacts" by (simp add: comp_def sum_list_triv)
  ultimately show ?thesis
    unfolding efficacy_report_shape sum.inject
    by (simp only: simp_thms efficacy_report.select_convs map_map sum_list_sort_key)
qed

subsection \<open>The client\<close>

lemma completion_content_Inl:
  "completion_content v = Inl e \<Longrightarrow> e = guardrails_error ''NeMo Guardrails returned an invalid chat completion''"
  by (auto simp: completion_content_def split: sum.splits)

definition guardrails_object :: "json \<Rightarrow> bool" where
  "guardrails_object payload = (case payload of
     JObj kvs \<Rightarrow> (case map_of kvs ''guardrails'' of None \<Rightarrow> True | Some (JObj _) \<Rightarrow> True | _ \<Rightarrow> False)
   | _ \<Rightarrow> True)"

lemma diagnostics_of_Inl:
  "diagnostics_of kvs = Inl e \<Longrightarrow> \<not> guardrails_object (JObj kvs) \<and> (\<exists>m. e = AttributeError m)"
  by (auto simp: diagnostics_of_def guardrails_object_def split: json.splits option.splits)

lemma evidence_of_completion_valid:
  "validate_guardrail_evidence (evidence_of_completion py_str model config_id s kvs r d)
     = Inr (evidence_of_completion py_str model config_id s kvs r d)"
  by (simp add: validate_guardrail_evidence_def evidence_of_completion_def)

lemma evidence_of_payload_Inl:
  assumes "evidence_of_payload py_str model config_id s payload = Inl e"
  shows "(\<exists>m. e = guardrails_error m) \<or> \<not> guardrails_object payload \<and> (\<exists>m. e = AttributeError m)"
proof (cases payload)
  case (JObj kvs)
  show ?thesis
  proof (cases "completion_content payload")
    case (Inl x)
    then show ?thesis using assms JObj completion_content_Inl [OF Inl] by (auto simp: evidence_of_payload_def)
  next
    case (Inr content)
    then show ?thesis
      using assms JObj diagnostics_of_Inl [of kvs]
      by (cases content; cases "diagnostics_of kvs")
        (auto simp: evidence_of_payload_def evidence_of_completion_valid)
  qed
qed (use assms in \<open>auto simp: evidence_of_payload_def\<close>)

lemma guardrails_request_Inl:
  assumes "guardrails_request urlopen loads client method path body = Inl e"
  shows "(\<exists>m. e = guardrails_error m) \<or>
    (\<exists>q. \<not> request_failure e \<and> bind_result (urlopen q) loads = Inl e)"
  using assms by (fastforce simp: guardrails_request_def split: sum.splits if_splits json.splits)

lemma guardrails_request_Inr:
  assumes "guardrails_request urlopen loads client method path body = Inr payload"
  shows "\<exists>q data. hq_body q = body \<and> hq_method q = method \<and> hq_url q = gc_base_url client @ path
    \<and> urlopen q = Inr data \<and> loads data = Inr payload"
proof -
  let ?q = "guardrails_http_request client method path body"
  obtain data where "urlopen ?q = Inr data" "loads data = Inr payload"
    using assms by (cases "bind_result (urlopen ?q) loads")
      (auto simp: guardrails_request_def split: json.splits)
  then show ?thesis by (intro exI [of _ ?q]) (simp add: guardrails_http_request_def)
qed

text \<open>A check of the client either yields evidence that is valid and faithful to one response of the
  service: the text submitted for checking is the output when there is one and the input otherwise, the
  response is the content of the first choice, and it passed through exactly when both are equal; or it
  raises a \<open>GuardrailsError\<close>, or an \<open>AttributeError\<close> when the response's \<open>guardrails\<close> is not an object, or
  an exception of the transport or the decoder that \<open>_request\<close> does not name.\<close>

theorem guardrails_check_sound:
  "case guardrails_check urlopen loads py_str client model config_id input_text output_text of
     Inr e \<Rightarrow>
       (\<exists>q data payload. hq_body q = Some (chat_body model config_id input_text output_text)
          \<and> urlopen q = Inr data \<and> loads data = Inr payload
          \<and> completion_content payload = Inr (JStr (ge_response_text e)))
       \<and> ge_config_id e = config_id \<and> ge_submitted_text e = (case output_text of None \<Rightarrow> input_text | Some t \<Rightarrow> t)
       \<and> ge_passed_through e = (ge_response_text e = ge_submitted_text e)
       \<and> validate_guardrail_evidence e = Inr e
   | Inl x \<Rightarrow>
       (\<exists>m. x = guardrails_error m)
       \<or> (\<exists>m q data payload. x = AttributeError m \<and> urlopen q = Inr data \<and> loads data = Inr payload
             \<and> guardrails_object payload = False)
       \<or> (\<exists>q. request_failure x = False \<and> bind_result (urlopen q) loads = Inl x)"
proof -
  let ?submitted = "case output_text of None \<Rightarrow> input_text | Some t \<Rightarrow> t"
  let ?request = "guardrails_request urlopen loads client ''POST'' ''/chat/completions''
     (Some (chat_body model config_id input_text output_text))"
  show ?thesis
  proof (cases ?request)
    case (Inl x)
    then show ?thesis using guardrails_request_Inl [OF Inl] by (simp add: guardrails_check_def) blast
  next
    case (Inr payload)
    then obtain q data where q: "hq_body q = Some (chat_body model config_id input_text output_text)"
      "urlopen q = Inr data" "loads data = Inr payload" using guardrails_request_Inr by blast
    show ?thesis
    proof (cases "evidence_of_payload py_str model config_id ?submitted payload")
      case (Inl x)
      have "(\<exists>m. x = guardrails_error m) \<or> (\<exists>m. x = AttributeError m \<and> guardrails_object payload = False)"
        using evidence_of_payload_Inl [OF Inl] by blast
      then show ?thesis using Inl q(2,3) by (simp add: guardrails_check_def \<open>?request = Inr payload\<close>) blast
    next
      case (Inr e)
      then obtain kvs where kvs: "payload = JObj kvs" by (cases payload) (simp_all add: evidence_of_payload_def)
      then obtain content where content: "completion_content payload = Inr content"
        using Inr by (cases "completion_content payload") (simp_all add: evidence_of_payload_def)
      with kvs obtain text' d where e: "payload = JObj kvs" "completion_content payload = Inr (JStr text')"
        "e = evidence_of_completion py_str model config_id ?submitted kvs text' d"
        using Inr by (cases content) (auto simp: evidence_of_payload_def evidence_of_completion_valid)
      then show ?thesis
        using Inr q evidence_of_completion_valid [of py_str model config_id ?submitted kvs text' d]
        by (auto simp: guardrails_check_def \<open>?request = Inr payload\<close> evidence_of_completion_def)
    qed
  qed
qed

end
