(* ===== verification/Guardrail_Store_Properties.thy ===== *)
theory Guardrail_Store_Properties
  imports Guardrail_Properties
begin

section \<open>Properties of the guardrail tables\<close>

text \<open>
  The tables of versions and activations refine two maps: what is registered under a name and version,
  and which version is active. The efficacy report of the store is the report of the evidence saved.
\<close>

subsection \<open>The latest of an increasing list\<close>

lemma insort_key_max: "(\<And>y. y \<in> set ys \<Longrightarrow> f y < f x) \<Longrightarrow> insort_key f x ys = ys @ [x]"
  by (induction ys) (auto simp: not_le [symmetric])

lemma sort_key_increasing:
  fixes k :: "'a \<Rightarrow> int"
  shows "sorted_wrt (<) (map k xs) \<Longrightarrow> sort_key (\<lambda>x. - k x) xs = rev xs"
  by (induction xs) (auto intro: insort_key_max)

lemma sorted_wrt_map_filter: "sorted_wrt (<) (map k xs) \<Longrightarrow> sorted_wrt (<) (map k (filter p xs))"
  by (induction xs) auto

definition last_opt :: "'a list \<Rightarrow> 'a option" where
  "last_opt xs = (case rev xs of [] \<Rightarrow> None | x # _ \<Rightarrow> Some x)"

lemma last_opt_snoc [simp]: "last_opt [] = None" "last_opt (xs @ [x]) = Some x"
  by (simp_all add: last_opt_def)

lemma last_opt_map: "last_opt (map f xs) = map_option f (last_opt xs)"
  by (cases xs rule: rev_cases) simp_all

subsection \<open>Operations and the abstract registry\<close>

datatype config_event =
    Register instant tenant string string sha256 string string
  | Activate uuid instant tenant string string string

fun config_step :: "config_event \<Rightarrow> guardrail_db \<Rightarrow> guardrail_db result" where
  "config_step (Register now t c v sha description created_by) db =
     bind_result (register_guardrail_config_version now t c v sha description created_by db) (\<lambda>(db', _). Inr db')"
| "config_step (Activate i now t c v activated_by) db =
     bind_result (activate_guardrail_config i now t c v activated_by db) (\<lambda>(db', _). Inr db')"

definition guardrail_db0 :: guardrail_db where
  "guardrail_db0 = \<lparr>ad_runs = [], ad_comparisons = [], ad_evidence = [], ad_ledger = [],
     gd_versions = [], gd_activations = [], gd_next_sequence = 1, gd_evidence = []\<rparr>"

record config_registry =
  registered_digest :: "tenant \<times> string \<times> string \<Rightarrow> sha256 option"
  active_version :: "tenant \<times> string \<Rightarrow> string option"

definition empty_registry :: config_registry where
  "empty_registry = \<lparr>registered_digest = (\<lambda>_. None), active_version = (\<lambda>_. None)\<rparr>"

fun registry_step :: "config_event \<Rightarrow> config_registry \<Rightarrow> config_registry" where
  "registry_step (Register now t c v sha description created_by) s =
     s\<lparr>registered_digest := (registered_digest s)((t, c, v) \<mapsto> sha)\<rparr>"
| "registry_step (Activate i now t c v activated_by) s =
     s\<lparr>active_version := (active_version s)((t, c) \<mapsto> v)\<rparr>"

subsection \<open>The invariant and the abstraction\<close>

definition version_of_row :: "config_version_row \<Rightarrow> bool \<Rightarrow> guardrail_config_version" where
  "version_of_row r active =
     \<lparr>gv_config_id = cv_config_id r, gv_version = cv_version r, gv_bundle_sha256 = cv_bundle_sha256 r,
      gv_description = cv_description r, gv_created_at = cv_created_at r, gv_created_by = cv_created_by r,
      gv_active = active\<rparr>"

lemma version_of_row_valid:
  "validate_config_version (version_of_row r b) = Inr x \<Longrightarrow>
     validate_config_version (version_of_row r b') = Inr (version_of_row r b')"
  by (auto simp: validate_config_version_def version_of_row_def split: if_splits)

definition row_valid :: "config_version_row \<Rightarrow> bool" where
  "row_valid r \<longleftrightarrow> validate_config_version (version_of_row r False) = Inr (version_of_row r False)"

definition activation_fields_valid :: "activation_row \<Rightarrow> bool" where
  "activation_fields_valid a \<longleftrightarrow>
     1 \<le> length (av_config_id a) \<and> length (av_config_id a) \<le> 500
   \<and> fullmatch GUARDRAIL_VERSION_PATTERN (av_version a)
   \<and> 1 \<le> length (av_activated_by a) \<and> length (av_activated_by a) \<le> 64"

definition configs_ok :: "guardrail_db \<Rightarrow> bool" where
  "configs_ok db \<longleftrightarrow>
     sorted_wrt (<) (map (\<lambda>x. av_sequence (snd x)) (gd_activations db))
   \<and> (\<forall>x \<in> set (gd_activations db). av_sequence (snd x) < gd_next_sequence db)
   \<and> (\<forall>t. distinct (map version_key (visible t (gd_versions db))))
   \<and> (\<forall>t. \<forall>r \<in> set (visible t (gd_versions db)). row_valid r)
   \<and> (\<forall>t. \<forall>a \<in> set (visible t (gd_activations db)). activation_fields_valid a
        \<and> activation_key a \<in> version_key ` set (visible t (gd_versions db)))"

definition find_version :: "tenant \<Rightarrow> guardrail_db \<Rightarrow> string \<times> string \<Rightarrow> config_version_row option" where
  "find_version t db k = find (\<lambda>r. version_key r = k) (visible t (gd_versions db))"

definition config_activations :: "tenant \<Rightarrow> string \<Rightarrow> guardrail_db \<Rightarrow> activation_row list" where
  "config_activations t c db = filter (\<lambda>a. av_config_id a = c) (visible t (gd_activations db))"

definition refines_registry :: "guardrail_db \<Rightarrow> config_registry \<Rightarrow> bool" where
  "refines_registry db s \<longleftrightarrow>
     (\<forall>t c v. registered_digest s (t, c, v) = map_option cv_bundle_sha256 (find_version t db (c, v)))
   \<and> (\<forall>t c. active_version s (t, c) = map_option av_version (last_opt (config_activations t c db)))"

lemma visible_sequences:
  assumes "configs_ok db"
  shows "sorted_wrt (<) (map av_sequence (visible t (gd_activations db)))"
  using assms sorted_wrt_map_filter [of "\<lambda>x. av_sequence (snd x)" "gd_activations db" "\<lambda>x. fst x = t"]
  by (simp add: configs_ok_def visible_def comp_def)

lemma latest_activation_last:
  assumes "configs_ok db"
  shows "latest_activation t c db = last_opt (config_activations t c db)"
  using sort_key_increasing [OF sorted_wrt_map_filter [OF visible_sequences [OF assms]]]
  by (simp add: latest_activation_def config_activations_def last_opt_def)

lemma find_distinct_key:
  "distinct (map k xs) \<Longrightarrow> x \<in> set xs \<Longrightarrow> filter (\<lambda>y. k y = k x) xs = [x]"
proof (induction xs)
  case (Cons y ys)
  show ?case
  proof (cases "x = y")
    case True
    then have "k z \<noteq> k x" if "z \<in> set ys" for z using Cons.prems(1) that by (auto simp: image_iff)
    then show ?thesis using True by (simp add: filter_empty_conv)
  next
    case False
    then have "k y \<noteq> k x" using Cons.prems by force
    then show ?thesis using Cons False by simp
  qed
qed simp

lemma find_filter: "find p xs = (case filter p xs of [] \<Rightarrow> None | x # _ \<Rightarrow> Some x)"
  by (induction xs) simp_all

lemma find_key_iff:
  assumes "distinct (map k xs)"
  shows "find (\<lambda>y. k y = K) xs = Some x \<longleftrightarrow> x \<in> set xs \<and> k x = K"
  using find_distinct_key [OF assms, of x] find_SomeD [of "\<lambda>y. k y = K" xs x] by (auto simp: find_filter)

lemma filter_version:
  assumes "configs_ok db" "a \<in> set (visible t (gd_activations db))"
  shows "\<exists>v. filter (\<lambda>r. version_key r = activation_key a) (visible t (gd_versions db)) = [v]
    \<and> find_version t db (activation_key a) = Some v \<and> row_valid v \<and> activation_fields_valid a"
proof -
  obtain v where v: "v \<in> set (visible t (gd_versions db))" "version_key v = activation_key a"
    using assms by (force simp: configs_ok_def)
  then have "filter (\<lambda>r. version_key r = activation_key a) (visible t (gd_versions db)) = [v]"
    using assms(1) find_distinct_key [of version_key "visible t (gd_versions db)" v] by (simp add: configs_ok_def)
  moreover have "row_valid v" "activation_fields_valid a" using assms v(1) by (simp_all add: configs_ok_def)
  ultimately show ?thesis by (simp add: find_version_def find_filter)
qed

text \<open>The join pairs every activation with the one version it names, latest first.\<close>

definition joined_row :: "tenant \<Rightarrow> guardrail_db \<Rightarrow> activation_row \<Rightarrow> guardrail_config_activation" where
  "joined_row t db a = activation_of a (the (find_version t db (activation_key a)))"

lemma joined_activations_rev:
  assumes "configs_ok db"
  shows "joined_activations t p db =
    rev (map (joined_row t db) (filter (\<lambda>a. p (av_config_id a)) (visible t (gd_activations db))))"
proof -
  let ?as = "filter (\<lambda>a. p (av_config_id a)) (visible t (gd_activations db))"
  let ?pair = "\<lambda>a. (a, the (find_version t db (activation_key a)))"
  have "concat (map (\<lambda>a. map (Pair a) (filter (\<lambda>v. version_key v = activation_key a) (visible t (gd_versions db)))) as)
      = map ?pair as" if "set as \<subseteq> set (visible t (gd_activations db))" for "as"
    using that
  proof (induction "as")
    case (Cons a "as")
    then show ?case using filter_version [OF assms, of a t] by auto
  qed simp
  from this [of ?as] have pairs: "concat (map (\<lambda>a. map (Pair a) (filter (\<lambda>v. version_key v = activation_key a)
      (visible t (gd_versions db)))) ?as) = map ?pair ?as" by auto
  have order: "(\<lambda>(a :: activation_row, v :: config_version_row). - av_sequence a) = (\<lambda>x. - av_sequence (fst x))"
    by (simp add: fun_eq_iff)
  have "sorted_wrt (<) (map (\<lambda>x. av_sequence (fst x)) (map ?pair ?as))"
    using sorted_wrt_map_filter [OF visible_sequences [OF assms]] by (simp add: comp_def)
  from sort_key_increasing [OF this] show ?thesis
    unfolding joined_activations_def pairs order by (simp add: joined_row_def rev_map comp_def split_beta)
qed

lemma joined_row_valid:
  assumes "configs_ok db" "a \<in> set (visible t (gd_activations db))"
  shows "validate_config_activation (joined_row t db a) = Inr (joined_row t db a)"
proof -
  obtain v where "find_version t db (activation_key a) = Some v" "row_valid v" "activation_fields_valid a"
    using filter_version [OF assms] by blast
  then show ?thesis
    by (auto simp: joined_row_def activation_of_def row_valid_def validate_config_version_def version_of_row_def
        activation_fields_valid_def validate_config_activation_def split: if_splits)
qed

lemma get_active_last:
  assumes "configs_ok db"
  shows "get_active_guardrail_config t c db = Inr (map_option (joined_row t db) (last_opt (config_activations t c db)))"
proof -
  have eq: "(\<lambda>a. c = av_config_id a) = (\<lambda>a. av_config_id a = c)" by auto
  have "joined_activations t ((=) c) db = rev (map (joined_row t db) (config_activations t c db))"
    using joined_activations_rev [OF assms, of t "(=) c"] by (simp add: config_activations_def eq)
  moreover have "validate_config_activation (joined_row t db a) = Inr (joined_row t db a)"
    if "a \<in> set (config_activations t c db)" for a
    using joined_row_valid [OF assms] that by (simp add: config_activations_def)
  ultimately show ?thesis
    by (cases "config_activations t c db" rule: rev_cases)
      (simp_all add: get_active_guardrail_config_def bind_result_def)
qed

lemma config_version_of_row:
  "config_version_of t db r = version_of_row r
     (case latest_activation t (cv_config_id r) db of None \<Rightarrow> False | Some a \<Rightarrow> av_version a = cv_version r)"
  by (simp add: config_version_of_def version_of_row_def)

lemma list_versions_total:
  assumes "configs_ok db"
  shows "list_guardrail_config_versions t db = Inr (map (config_version_of t db)
    (sort_key (\<lambda>r. (cv_config_id r, - cv_created_at r, cv_version r)) (visible t (gd_versions db))))"
  unfolding list_guardrail_config_versions_def
proof (rule map_result_all_Inr)
  fix r assume "r \<in> set (sort_key (\<lambda>r. (cv_config_id r, - cv_created_at r, cv_version r)) (visible t (gd_versions db)))"
  then have "row_valid r" using assms by (simp add: configs_ok_def)
  then show "validate_config_version (config_version_of t db r) = Inr (config_version_of t db r)"
    unfolding row_valid_def config_version_of_row by (rule version_of_row_valid)
qed

subsection \<open>The operations keep the invariant and refine the registry\<close>

lemma register_cases:
  assumes "register_guardrail_config_version now t c v sha description created_by db = Inr (db', x)"
  obtains row where "db' = db\<lparr>gd_versions := insert_row t row (gd_versions db)\<rparr>" "version_key row = (c, v)"
    "cv_bundle_sha256 row = sha" "row_valid row" "(c, v) \<notin> version_key ` set (visible t (gd_versions db))"
    "x = version_of_row row False"
proof -
  let ?x = "\<lparr>gv_config_id = c, gv_version = v, gv_bundle_sha256 = sha, gv_description = description,
    gv_created_at = now, gv_created_by = created_by, gv_active = False\<rparr>"
  have valid: "validate_config_version ?x = Inr ?x"
    using assms by (auto simp: register_guardrail_config_version_def validate_config_version_def split: if_splits)
  then obtain versions where "insert_version t (config_row_of ?x) (gd_versions db) = Inr versions"
    "db' = db\<lparr>gd_versions := versions\<rparr>" "x = ?x"
    using assms by (auto simp: register_guardrail_config_version_def split: sum.splits exn.splits)
  then show thesis
    using valid by (intro that [of "config_row_of ?x"])
      (auto simp: insert_version_def config_row_of_def version_key_def row_valid_def version_of_row_def split: if_splits)
qed

lemma activate_cases:
  assumes "activate_guardrail_config i now t c v activated_by db = Inr (db', x)"
  obtains row where "db' = db\<lparr>gd_activations := insert_row t row (gd_activations db), gd_next_sequence := gd_next_sequence db + 1\<rparr>"
    "av_sequence row = gd_next_sequence db" "activation_key row = (c, v)" "activation_fields_valid row"
    "(c, v) \<in> version_key ` set (visible t (gd_versions db))" "x = joined_row t db row"
proof -
  obtain r where r: "find_version t db (c, v) = Some r"
    using assms by (auto simp: activate_guardrail_config_def find_version_def split: option.splits)
  let ?x = "\<lparr>ga_activation_id = i, ga_config_id = c, ga_version = v, ga_bundle_sha256 = cv_bundle_sha256 r,
    ga_activated_at = now, ga_activated_by = activated_by\<rparr>"
  let ?row = "\<lparr>av_sequence = gd_next_sequence db, av_activation_id = i, av_config_id = c, av_version = v,
    av_activated_at = now, av_activated_by = activated_by\<rparr>"
  have valid: "validate_config_activation ?x = Inr ?x"
    using assms r by (auto simp: activate_guardrail_config_def find_version_def validate_config_activation_def split: if_splits)
  then have "insert_activation t ?x db = Inr db'" "x = ?x"
    using assms r by (auto simp: activate_guardrail_config_def find_version_def)
  then show thesis
    using valid r by (intro that [of ?row])
      (auto simp: insert_activation_def activation_fields_valid_def validate_config_activation_def activation_key_def
         joined_row_def activation_of_def Let_def split: if_splits)
qed

lemma find_version_insert:
  "find_version t' (db\<lparr>gd_versions := insert_row t row (gd_versions db)\<rparr>) k =
     (case find_version t' db k of Some r \<Rightarrow> Some r
      | None \<Rightarrow> if t' = t \<and> version_key row = k then Some row else None)"
proof -
  have append: "find p (xs @ ys) = (case find p xs of None \<Rightarrow> find p ys | Some x \<Rightarrow> Some x)" for p and xs ys :: "'z list"
    by (induction xs) simp_all
  show ?thesis by (cases "t' = t") (auto simp: find_version_def append split: option.splits)
qed

lemma register_ok:
  assumes "configs_ok db" "refines_registry db s"
    and "config_step (Register now t c v sha description created_by) db = Inr db'"
  shows "configs_ok db' \<and> refines_registry db' (registry_step (Register now t c v sha description created_by) s)"
proof -
  obtain x where "register_guardrail_config_version now t c v sha description created_by db = Inr (db', x)"
    using assms(3) by auto
  then obtain row where row: "db' = db\<lparr>gd_versions := insert_row t row (gd_versions db)\<rparr>" "version_key row = (c, v)"
    "cv_bundle_sha256 row = sha" "row_valid row" "(c, v) \<notin> version_key ` set (visible t (gd_versions db))"
    by (rule register_cases)
  have visible: "visible t' (gd_versions db') = visible t' (gd_versions db) @ (if t' = t then [row] else [])" for t'
    by (simp add: row(1))
  have same: "gd_activations db' = gd_activations db" "gd_next_sequence db' = gd_next_sequence db"
    by (simp_all add: row(1))
  have keys: "version_key ` set (visible t' (gd_versions db)) \<subseteq> version_key ` set (visible t' (gd_versions db'))" for t'
    by (auto simp: visible)
  have "configs_ok db'"
    unfolding configs_ok_def
  proof (intro conjI allI ballI)
    fix t' a assume "a \<in> set (visible t' (gd_activations db'))"
    then have "activation_key a \<in> version_key ` set (visible t' (gd_versions db))" "activation_fields_valid a"
      using assms(1) by (simp_all add: configs_ok_def row(1))
    then show "activation_key a \<in> version_key ` set (visible t' (gd_versions db'))" "activation_fields_valid a"
      using keys by blast+
  qed (use assms(1) row(2,4,5) in \<open>auto simp: configs_ok_def visible same split: if_splits\<close>)
  moreover have "find_version t db (c, v) = None"
    using row(5) by (force simp: find_version_def find_None_iff)
  then have "refines_registry db' (registry_step (Register now t c v sha description created_by) s)"
    using assms(2) row(2,3)
    by (auto simp: refines_registry_def row(1) find_version_insert config_activations_def split: option.splits)
  ultimately show ?thesis ..
qed

lemma activate_ok:
  assumes "configs_ok db" "refines_registry db s"
    and "config_step (Activate i now t c v activated_by) db = Inr db'"
  shows "configs_ok db' \<and> refines_registry db' (registry_step (Activate i now t c v activated_by) s)"
proof -
  obtain x where "activate_guardrail_config i now t c v activated_by db = Inr (db', x)"
    using assms(3) by auto
  then obtain row where row: "db' = db\<lparr>gd_activations := insert_row t row (gd_activations db), gd_next_sequence := gd_next_sequence db + 1\<rparr>"
    "av_sequence row = gd_next_sequence db" "activation_key row = (c, v)" "activation_fields_valid row"
    "(c, v) \<in> version_key ` set (visible t (gd_versions db))"
    by (rule activate_cases)
  have visible: "visible t' (gd_activations db') = visible t' (gd_activations db) @ (if t' = t then [row] else [])" for t'
    by (simp add: row(1))
  have "configs_ok db'"
    unfolding configs_ok_def visible using assms(1) row(2,3,4,5)
    by (auto simp: configs_ok_def row(1) insert_row_def sorted_wrt_append less_Suc_eq)
  moreover have "av_config_id row = c" "av_version row = v" using row(3) by (simp_all add: activation_key_def)
  then have "config_activations t' c' db' = config_activations t' c' db @ (if t' = t \<and> c' = c then [row] else [])" for t' c'
    by (simp add: config_activations_def visible)
  then have "refines_registry db' (registry_step (Activate i now t c v activated_by) s)"
    using assms(2) \<open>av_version row = v\<close>
    by (simp add: refines_registry_def find_version_def row(1))
  ultimately show ?thesis ..
qed

lemma config_steps_ok:
  "fold_result config_step evs db = Inr db' \<Longrightarrow> configs_ok db \<Longrightarrow> refines_registry db s \<Longrightarrow>
     configs_ok db' \<and> refines_registry db' (fold registry_step evs s)"
proof (induction evs arbitrary: db s)
  case (Cons e evs)
  then obtain db1 where db1: "config_step e db = Inr db1" "fold_result config_step evs db1 = Inr db'" by auto
  have "configs_ok db1 \<and> refines_registry db1 (registry_step e s)"
    using db1(1) Cons.prems(2,3) register_ok activate_ok by (cases e) blast+
  then show ?case using Cons.IH [OF db1(2)] by auto
qed simp

lemma guardrail_db0_ok: "configs_ok guardrail_db0" "refines_registry guardrail_db0 empty_registry"
  by (simp_all add: configs_ok_def guardrail_db0_def refines_registry_def empty_registry_def find_version_def
      config_activations_def)

text \<open>C27. Configurations refine an abstract registry. After any history of registrations and activations by any
  tenants, the active configuration of a tenant is the version it activated last, with the digest it was
  registered with, and none before the first activation; the list of versions is what the tenant registered,
  with exactly the active one marked; and neither read ever fails.\<close>

theorem active_config_refines:
  assumes "fold_result config_step evs guardrail_db0 = Inr db"
    and "s = fold registry_step evs empty_registry"
  shows "\<exists>active versions.
      get_active_guardrail_config t c db = Inr active
    \<and> map_option (\<lambda>a. (ga_config_id a, ga_version a, Some (ga_bundle_sha256 a))) active
        = map_option (\<lambda>v. (c, v, registered_digest s (t, c, v))) (active_version s (t, c))
    \<and> list_guardrail_config_versions t db = Inr versions
    \<and> (\<lambda>x. (gv_config_id x, gv_version x, gv_bundle_sha256 x, gv_active x)) ` set versions
        = {(c, v, d, active_version s (t, c) = Some v) |c v d. registered_digest s (t, c, v) = Some d}"
proof -
  have ok: "configs_ok db" and ref: "refines_registry db s"
    using config_steps_ok [OF assms(1) guardrail_db0_ok] assms(2) by simp_all
  let ?active = "map_option (joined_row t db) (last_opt (config_activations t c db))"
  have "map_option (\<lambda>a. (ga_config_id a, ga_version a, Some (ga_bundle_sha256 a))) ?active
      = map_option (\<lambda>v. (c, v, registered_digest s (t, c, v))) (active_version s (t, c))"
  proof (cases "config_activations t c db" rule: rev_cases)
    case (snoc "as" a)
    then have "a \<in> set (config_activations t c db)" by simp
    then have a: "a \<in> set (visible t (gd_activations db))" "av_config_id a = c"
      by (simp_all add: config_activations_def)
    obtain v where "find_version t db (activation_key a) = Some v" using filter_version [OF ok a(1)] by blast
    then show ?thesis
      using ref a(2) snoc by (simp add: refines_registry_def joined_row_def activation_of_def activation_key_def)
  qed (use ref in \<open>simp add: refines_registry_def\<close>)
  moreover have "(\<lambda>x. (gv_config_id x, gv_version x, gv_bundle_sha256 x, gv_active x)) ` config_version_of t db ` set (visible t (gd_versions db))
      = {(c, v, d, active_version s (t, c) = Some v) |c v d. registered_digest s (t, c, v) = Some d}" (is "?l = ?r")
  proof -
    have member: "registered_digest s (t, c, v) = Some d \<longleftrightarrow>
        (\<exists>r \<in> set (visible t (gd_versions db)). version_key r = (c, v) \<and> cv_bundle_sha256 r = d)" for c v d
      using ref ok find_key_iff [of version_key "visible t (gd_versions db)" "(c, v)"]
      by (fastforce simp: refines_registry_def find_version_def configs_ok_def)
    have active: "(case latest_activation t c db of None \<Rightarrow> False | Some a \<Rightarrow> av_version a = v)
        = (active_version s (t, c) = Some v)" for c v
      using ref unfolding latest_activation_last [OF ok] by (auto simp: refines_registry_def split: option.splits)
    have row: "(\<lambda>x. (gv_config_id x, gv_version x, gv_bundle_sha256 x, gv_active x)) (config_version_of t db r)
        = (cv_config_id r, cv_version r, cv_bundle_sha256 r, active_version s (t, cv_config_id r) = Some (cv_version r))" for r
      unfolding config_version_of_row active version_of_row_def by simp
    show ?thesis
      unfolding image_image row
    proof (intro equalityI subsetI)
      fix x assume "x \<in> (\<lambda>r. (cv_config_id r, cv_version r, cv_bundle_sha256 r,
        active_version s (t, cv_config_id r) = Some (cv_version r))) ` set (visible t (gd_versions db))"
      then obtain r where r: "r \<in> set (visible t (gd_versions db))" "x = (cv_config_id r, cv_version r,
        cv_bundle_sha256 r, active_version s (t, cv_config_id r) = Some (cv_version r))" by blast
      then have "registered_digest s (t, cv_config_id r, cv_version r) = Some (cv_bundle_sha256 r)"
        unfolding member version_key_def by blast
      then show "x \<in> ?r" using r(2) by blast
    next
      fix x assume "x \<in> ?r"
      then obtain c v d where x: "x = (c, v, d, active_version s (t, c) = Some v)" "registered_digest s (t, c, v) = Some d"
        by blast
      then obtain r where "r \<in> set (visible t (gd_versions db))" "cv_config_id r = c" "cv_version r = v" "cv_bundle_sha256 r = d"
        unfolding member version_key_def by blast
      then show "x \<in> (\<lambda>r. (cv_config_id r, cv_version r, cv_bundle_sha256 r,
        active_version s (t, cv_config_id r) = Some (cv_version r))) ` set (visible t (gd_versions db))"
        using x(1) by (intro image_eqI [of _ _ r]) simp_all
    qed
  qed
  ultimately show ?thesis
    unfolding get_active_last [OF ok] list_versions_total [OF ok] sum.inject
    by - (rule exI [of _ ?active], rule exI [of _ "map (config_version_of t db)
        (sort_key (\<lambda>r. (cv_config_id r, - cv_created_at r, cv_version r)) (visible t (gd_versions db)))"],
      simp only: simp_thms set_map set_sort)
qed

theorem active_config_refines_witness:
  "\<exists>db active. fold_result config_step
       [Register 0 ''acme'' ''rails'' ''v1'' (replicate 64 CHR ''a'') ''first'' ''ops'',
        Register 1 ''acme'' ''rails'' ''v2'' (replicate 64 CHR ''b'') ''second'' ''ops'',
        Activate 7 2 ''acme'' ''rails'' ''v2'' ''ops'', Activate 8 3 ''acme'' ''rails'' ''v1'' ''ops'']
       guardrail_db0 = Inr db
     \<and> get_active_guardrail_config ''acme'' ''rails'' db = Inr (Some active)
     \<and> ga_version active = ''v1'' \<and> ga_bundle_sha256 active = replicate 64 CHR ''a''"
proof -
  let ?evs = "[Register 0 ''acme'' ''rails'' ''v1'' (replicate 64 CHR ''a'') ''first'' ''ops'',
    Register 1 ''acme'' ''rails'' ''v2'' (replicate 64 CHR ''b'') ''second'' ''ops'',
    Activate 7 2 ''acme'' ''rails'' ''v2'' ''ops'', Activate 8 3 ''acme'' ''rails'' ''v1'' ''ops'']"
  let ?s = "fold registry_step ?evs empty_registry"
  have "\<not> isl (fold_result config_step ?evs guardrail_db0)" by code_simp
  then obtain db where db: "fold_result config_step ?evs guardrail_db0 = Inr db" by (metis isl_def sum.exhaust)
  obtain active where active: "get_active_guardrail_config ''acme'' ''rails'' db = Inr active"
    "map_option (\<lambda>a. (ga_config_id a, ga_version a, Some (ga_bundle_sha256 a))) active
        = map_option (\<lambda>v. (''rails'', v, registered_digest ?s (''acme'', ''rails'', v))) (active_version ?s (''acme'', ''rails''))"
    using active_config_refines [OF db refl, of "''acme''" "''rails''"] by blast
  have "active_version ?s (''acme'', ''rails'') = Some ''v1''"
    "registered_digest ?s (''acme'', ''rails'', ''v1'') = Some (replicate 64 CHR ''a'')" by simp_all
  then show ?thesis using db active by auto
qed

subsection \<open>The efficacy report of the store\<close>

datatype guardrail_event = Configure config_event | Save_checked uuid instant tenant guardrail_evidence

fun guardrail_step ::
  "primitives \<Rightarrow> keyring option \<Rightarrow> (json \<Rightarrow> json) \<Rightarrow> (instant \<Rightarrow> string) \<Rightarrow> guardrail_event \<Rightarrow> guardrail_db
     \<Rightarrow> guardrail_db result" where
  "guardrail_step P kr jsonb isotime (Configure e) db = config_step e db"
| "guardrail_step P kr jsonb isotime (Save_checked i now t e) db =
     bind_result (store_guardrail_evidence P kr jsonb isotime i now t e db) (\<lambda>(db', _). Inr db')"

text \<open>The evidence of one tenant in a history, in the order it was saved.\<close>

fun saved_by :: "tenant \<Rightarrow> guardrail_event \<Rightarrow> stored_guardrail_evidence list" where
  "saved_by t (Configure e) = []"
| "saved_by t (Save_checked i now t' e) =
     (if t' = t then [\<lparr>sg_evidence_id = i, sg_created_at = now, sg_evidence = e\<rparr>] else [])"

definition saved_evidence :: "tenant \<Rightarrow> guardrail_event list \<Rightarrow> stored_guardrail_evidence list" where
  "saved_evidence t evs = concat (map (saved_by t) evs)"

definition evidence_row ::
  "primitives \<Rightarrow> keyring option \<Rightarrow> (json \<Rightarrow> json) \<Rightarrow> (instant \<Rightarrow> string) \<Rightarrow> stored_guardrail_evidence
     \<Rightarrow> artifact_row result" where
  "evidence_row P kr jsonb isotime a =
     artifact_row_of P kr jsonb Guardrail_evidence (sg_evidence_id a) (evidence_json isotime a)"

definition holds_evidence ::
  "primitives \<Rightarrow> keyring option \<Rightarrow> (json \<Rightarrow> json) \<Rightarrow> (instant \<Rightarrow> string) \<Rightarrow> tenant
     \<Rightarrow> stored_guardrail_evidence list \<Rightarrow> guardrail_db \<Rightarrow> bool" where
  "holds_evidence P kr jsonb isotime t artifacts db \<longleftrightarrow>
     visible t (gd_evidence db) = map evidence_columns_of artifacts
   \<and> map (evidence_row P kr jsonb isotime) artifacts = map Inr (visible t (ad_evidence db))
   \<and> distinct (map ar_id (visible t (ad_evidence db)))"

lemma artifact_row_of_id: "artifact_row_of P kr jsonb kind i payload = Inr row \<Longrightarrow> ar_id row = i"
  by (auto simp: artifact_row_of_def)

lemma config_step_evidence:
  "config_step e db = Inr db' \<Longrightarrow> gd_evidence db' = gd_evidence db \<and> ad_evidence db' = ad_evidence db"
  by (cases e) (auto elim!: register_cases activate_cases)

lemma save_checked_rows:
  assumes "guardrail_step P kr jsonb isotime (Save_checked i now t e) db = Inr db'"
  defines "a \<equiv> \<lparr>sg_evidence_id = i, sg_created_at = now, sg_evidence = e\<rparr>"
  obtains row where "evidence_row P kr jsonb isotime a = Inr row" "ad_evidence db' = insert_row t row (ad_evidence db)"
    "gd_evidence db' = insert_row t (evidence_columns_of a) (gd_evidence db)"
    "ar_id row \<notin> set (map (ar_id \<circ> snd) (ad_evidence db))"
proof -
  obtain saved where saved: "save_guardrail_evidence P kr jsonb t i (evidence_json isotime a) (artifact_db.truncate db) = Inr saved"
    "db' = db\<lparr>ad_evidence := ad_evidence saved, ad_ledger := ad_ledger saved,
       gd_evidence := insert_row t (evidence_columns_of a) (gd_evidence db)\<rparr>"
    using assms(1) by (auto simp: store_guardrail_evidence_def a_def Let_def)
  then obtain row where row: "artifact_row_of P kr jsonb Guardrail_evidence i (evidence_json isotime a) = Inr row"
    "ar_id row \<notin> set (map (ar_id \<circ> snd) (ad_evidence db))"
    "ad_evidence saved = insert_row t row (ad_evidence db)"
    by (auto simp: save_guardrail_evidence_def insert_artifact_def append_artifact_ledger_def
         artifact_db.defs split: if_splits)
  show thesis
    using row saved(2) by (intro that [of row]) (simp_all add: evidence_row_def a_def)
qed

lemma holds_evidence_step:
  assumes "guardrail_step P kr jsonb isotime ev db = Inr db'" "holds_evidence P kr jsonb isotime t artifacts db"
  shows "holds_evidence P kr jsonb isotime t (artifacts @ saved_by t ev) db'"
proof (cases ev)
  case (Configure e)
  then show ?thesis using assms config_step_evidence [of e db db'] by (simp add: holds_evidence_def)
next
  case (Save_checked i now t' e)
  let ?a = "\<lparr>sg_evidence_id = i, sg_created_at = now, sg_evidence = e\<rparr>"
  obtain row where row: "evidence_row P kr jsonb isotime ?a = Inr row" "ad_evidence db' = insert_row t' row (ad_evidence db)"
    "gd_evidence db' = insert_row t' (evidence_columns_of ?a) (gd_evidence db)"
    "ar_id row \<notin> set (map (ar_id \<circ> snd) (ad_evidence db))"
    using assms(1) unfolding Save_checked by (rule save_checked_rows)
  have "ar_id row \<notin> ar_id ` set (visible t (ad_evidence db))"
    using row(4) by (force simp: set_visible)
  then show ?thesis
    using assms(2) row(1,2,3) by (cases "t' = t") (auto simp: Save_checked holds_evidence_def)
qed

lemma holds_evidence_steps:
  "fold_result (guardrail_step P kr jsonb isotime) evs db = Inr db' \<Longrightarrow> holds_evidence P kr jsonb isotime t artifacts db \<Longrightarrow>
     holds_evidence P kr jsonb isotime t (artifacts @ saved_evidence t evs) db'"
proof (induction evs arbitrary: db artifacts)
  case (Cons e evs)
  then obtain db1 where db1: "guardrail_step P kr jsonb isotime e db = Inr db1"
    "fold_result (guardrail_step P kr jsonb isotime) evs db1 = Inr db'" by auto
  show ?case
    using Cons.IH [OF db1(2) holds_evidence_step [OF db1(1) Cons.prems(2)]] by (simp add: saved_evidence_def)
qed (simp add: saved_evidence_def)

lemma insort_key_map: "insort_key k (f x) (map f xs) = map f (insort_key (\<lambda>x. k (f x)) x xs)"
  by (induction xs) simp_all

lemma sort_key_map: "sort_key k (map f xs) = map f (sort_key (\<lambda>x. k (f x)) xs)"
  by (induction xs) (simp_all add: insort_key_map)

definition in_window :: "instant \<Rightarrow> instant \<Rightarrow> string option \<Rightarrow> stored_guardrail_evidence \<Rightarrow> bool" where
  "in_window first_instant end_instant config_id a \<longleftrightarrow>
     first_instant \<le> sg_created_at a \<and> sg_created_at a < end_instant
   \<and> (case config_id of None \<Rightarrow> True | Some i \<Rightarrow> ge_config_id (sg_evidence a) = i)"

lemma evidence_rows_held:
  assumes "holds_evidence P kr jsonb isotime t artifacts db"
  shows "map Inr (evidence_rows t config_id x y db) =
    map (evidence_row P kr jsonb isotime) (sort_key sg_created_at (filter (in_window x y config_id) artifacts))"
proof -
  let ?row = "\<lambda>a. projr (evidence_row P kr jsonb isotime a)"
  have rows: "visible t (ad_evidence db) = map ?row artifacts"
    using arg_cong [OF conjunct1 [OF conjunct2 [OF assms [unfolded holds_evidence_def]]], of "map projr"]
    by (simp add: comp_def)
  have row: "evidence_row P kr jsonb isotime a = Inr (?row a)" if "a \<in> set artifacts" for a
  proof -
    have "evidence_row P kr jsonb isotime a \<in> set (map Inr (visible t (ad_evidence db)))"
      using assms that by (metis holds_evidence_def image_eqI list.set_map)
    then show ?thesis by auto
  qed
  then have ids: "ar_id (?row a) = sg_evidence_id a" if "a \<in> set artifacts" for a
    using artifact_row_of_id that unfolding evidence_row_def by metis
  have unique: "filter (\<lambda>r. ar_id r = sg_evidence_id a) (visible t (ad_evidence db)) = [?row a]" if "a \<in> set artifacts" for a
  proof -
    have "distinct (map ar_id (visible t (ad_evidence db)))" using assms by (simp add: holds_evidence_def)
    from find_distinct_key [OF this, of "?row a"] show ?thesis using that ids [OF that] by (simp add: rows)
  qed
  have wanted: "filter (\<lambda>c. x \<le> ec_created_at c \<and> ec_created_at c < y
        \<and> (case config_id of None \<Rightarrow> True | Some i \<Rightarrow> ec_config_id c = i)) (visible t (gd_evidence db))
      = map evidence_columns_of (filter (in_window x y config_id) artifacts)"
    using assms
    by (simp add: holds_evidence_def filter_map comp_def in_window_def [abs_def] evidence_columns_of_def Let_def cong: option.case_cong)
  have "concat (map (\<lambda>c. map (Pair c) (filter (\<lambda>r. ar_id r = ec_evidence_id c) (visible t (ad_evidence db))))
      (map evidence_columns_of as)) = map (\<lambda>a. (evidence_columns_of a, ?row a)) as" if "set as \<subseteq> set artifacts" for as
    using that unique by (induction as) (auto simp: evidence_columns_of_def Let_def)
  note this [of "filter (in_window x y config_id) artifacts"]
  then have "evidence_rows t config_id x y db = map ?row (sort_key sg_created_at (filter (in_window x y config_id) artifacts))"
    unfolding evidence_rows_def wanted
    by (simp add: sort_key_map comp_def evidence_columns_of_def Let_def subset_iff)
  then show ?thesis using row by simp
qed

text \<open>The efficacy report of the store accounts for exactly what was saved. After any history of saved
  evidence and configuration changes by any tenants, every row that a report reads verifies, and the report
  is the one of the tenant's evidence in the window, restricted to the configuration asked for, in the order
  of creation.\<close>

theorem stored_efficacy_report:
  assumes "signing_ok P kr" and "jsonb_ok jsonb"
    and "fold_result (guardrail_step P kr jsonb isotime) evs guardrail_db0 = Inr db"
    and "\<And>a. a \<in> set (saved_evidence t evs) \<Longrightarrow> parse (jsonb (evidence_json isotime a)) = Inr a"
    and "efficacy_window now window_start window_end = Inr (x, y)"
  shows "guardrail_efficacy_report P kr parse now t config_id window_start window_end db
    = build_guardrail_efficacy_report now
        (sort_key sg_created_at (filter (in_window x y config_id) (saved_evidence t evs))) x y config_id"
proof -
  have "holds_evidence P kr jsonb isotime t [] guardrail_db0"
    by (simp add: holds_evidence_def guardrail_db0_def)
  from holds_evidence_steps [OF assms(3) this]
  have held: "holds_evidence P kr jsonb isotime t (saved_evidence t evs) db" by simp
  have read: "read_evidence P kr parse r = Inr a"
    if "a \<in> set (saved_evidence t evs)" "evidence_row P kr jsonb isotime a = Inr r" for a r
    using new_row_verifies [OF that(2) [unfolded evidence_row_def] assms(1,2)] assms(4) [OF that(1)]
    by (simp add: read_evidence_def)
  have "map_result (read_evidence P kr parse) rs = Inr as"
    if "map Inr rs = map (evidence_row P kr jsonb isotime) as" "set as \<subseteq> set (saved_evidence t evs)" for rs as
    using that
  proof (induction "as" arbitrary: rs)
    case (Cons a "as")
    then obtain r rs' where "rs = r # rs'" by (cases rs) auto
    then show ?case using Cons read [of a r] by auto
  qed simp
  from this [OF evidence_rows_held [OF held]]
  show ?thesis using assms(5) by (simp add: guardrail_efficacy_report_def subset_iff)
qed

definition ex_checked :: guardrail_evidence where
  "ex_checked = \<lparr>ge_config_id = ''rails'', ge_model = ''m'', ge_submitted_text = ''hi'', ge_response_text = ''no'',
     ge_passed_through = False, ge_expected_action = Some Intervention, ge_config_version = None,
     ge_config_bundle_sha256 = None, ge_config_activation_id = None, ge_activated_rails = JList [], ge_stats = []\<rparr>"

theorem stored_efficacy_report_witness:
  "\<exists>db report. fold_result (guardrail_step toy_primitives (Some toy_keyring) (\<lambda>v. v) int_str)
       [Save_checked 5 1000 ''acme'' ex_checked] guardrail_db0 = Inr db
     \<and> guardrail_efficacy_report toy_primitives (Some toy_keyring)
         (\<lambda>_. Inr \<lparr>sg_evidence_id = 5, sg_created_at = 1000, sg_evidence = ex_checked\<rparr>) 2000 ''acme'' None
         (Some (Aware 0)) None db = Inr report
     \<and> rp_total_checks report = 1"
proof -
  let ?a = "\<lparr>sg_evidence_id = 5, sg_created_at = 1000, sg_evidence = ex_checked\<rparr>"
  let ?parse = "\<lambda>_ :: json. Inr ?a :: stored_guardrail_evidence result"
  let ?step = "guardrail_step toy_primitives (Some toy_keyring) (\<lambda>v. v) int_str"
  have "finite_json (canonical_form (evidence_json int_str ?a))" by code_simp
  then obtain db where db: "fold_result ?step [Save_checked 5 1000 ''acme'' ex_checked] guardrail_db0 = Inr db"
    by (simp add: store_guardrail_evidence_def save_guardrail_evidence_def artifact_row_of_def digest_of_def
        artifact_digest_def canonical_json_bytes_def sign_artifact_def keyring_sign_def toy_keyring_def Let_def
        subscript_def insert_artifact_def guardrail_db0_def append_artifact_ledger_def append_ledger_values_def
        ledger_head_def ledger_entry_row_def artifact_envelope_def ledger_entry_digest_eq toy_primitives_def
        artifact_db.defs)
  have jsonb: "jsonb_ok (\<lambda>v. v)" by (simp add: jsonb_ok_def)
  have window: "efficacy_window 2000 (Some (Aware 0)) None = Inr (0, 2000)" by (simp add: efficacy_window_def)
  have saved: "saved_evidence ''acme'' [Save_checked 5 1000 ''acme'' ex_checked] = [?a]" by (simp add: saved_evidence_def)
  then have parse: "?parse j = Inr a" if "a \<in> set (saved_evidence ''acme'' [Save_checked 5 1000 ''acme'' ex_checked])" for j a
    using that by simp
  have "guardrail_efficacy_report toy_primitives (Some toy_keyring) ?parse 2000 ''acme'' None (Some (Aware 0)) None db
      = build_guardrail_efficacy_report 2000 (sort_key sg_created_at (filter (in_window 0 2000 None)
          (saved_evidence ''acme'' [Save_checked 5 1000 ''acme'' ex_checked]))) 0 2000 None"
    by (rule stored_efficacy_report [OF toy_signing_ok jsonb db parse window])
  then have "guardrail_efficacy_report toy_primitives (Some toy_keyring) ?parse 2000 ''acme'' None (Some (Aware 0)) None db
      = build_guardrail_efficacy_report 2000 [?a] 0 2000 None"
    unfolding saved by (simp add: in_window_def)
  then show ?thesis using db by (auto simp: efficacy_report_shape)
qed

end
