(* ===== verification/Fleet.thy ===== *)
theory Fleet
  imports Tenants Guardrail_Store
begin

section \<open>Fleet analytics and the operational snapshot (\<open>fleet.py\<close>, \<open>store.py\<close>)\<close>

text \<open>
  The rollup tables that row triggers keep beside the tables of jobs and workers, which row-level
  security does not hide from the platform operator; the report computed from them; and the snapshot of one
  tenant's metrics. A statement on a table is the sequence of its row changes, each of which must keep the
  primary key unique; an \<open>AFTER ... FOR EACH ROW\<close> trigger runs once for each of them, in their order. Every
  registered worker has capabilities, so the defaults for a missing column are not needed.
\<close>

subsection \<open>Row changes\<close>

datatype 'row row_change =
    Inserted tenant 'row
  | Updated tenant 'row tenant 'row
  | Deleted tenant 'row

definition row_at :: "('row \<Rightarrow> 'k) \<Rightarrow> tenant \<Rightarrow> 'k \<Rightarrow> tenant \<times> 'row \<Rightarrow> bool" where
  "row_at key t k r \<longleftrightarrow> fst r = t \<and> key (snd r) = k"

definition has_key :: "('row \<Rightarrow> 'k) \<Rightarrow> tenant \<Rightarrow> 'k \<Rightarrow> 'row table \<Rightarrow> bool" where
  "has_key key t k tbl \<longleftrightarrow> list_ex (row_at key t k) tbl"

text \<open>The table after a change; \<open>None\<close> when the row is absent or the new key is taken.\<close>

fun apply_change :: "('row \<Rightarrow> 'k) \<Rightarrow> 'row row_change \<Rightarrow> 'row table \<Rightarrow> 'row table option" where
  "apply_change key (Inserted t x) tbl =
     (if has_key key t (key x) tbl then None else Some (insert_row t x tbl))"
| "apply_change key (Updated t x t' x') tbl =
     (if (t, x) \<notin> set tbl \<or> (t', key x') \<noteq> (t, key x) \<and> has_key key t' (key x') tbl then None
      else Some (map (\<lambda>r. if row_at key t (key x) r then (t', x') else r) tbl))"
| "apply_change key (Deleted t x) tbl =
     (if (t, x) \<notin> set tbl then None else Some (filter (\<lambda>r. \<not> row_at key t (key x) r) tbl))"

fun apply_changes :: "('row \<Rightarrow> 'k) \<Rightarrow> 'row row_change list \<Rightarrow> 'row table \<Rightarrow> 'row table option" where
  "apply_changes key [] tbl = Some tbl"
| "apply_changes key (c # cs) tbl =
     (case apply_change key c tbl of None \<Rightarrow> None | Some tbl' \<Rightarrow> apply_changes key cs tbl')"

text \<open>The row changes of \<open>UPDATE ... WHERE\<close>.\<close>

definition update_changes :: "tenant \<Rightarrow> ('row \<Rightarrow> bool) \<Rightarrow> ('row \<Rightarrow> 'row) \<Rightarrow> 'row table \<Rightarrow> 'row row_change list" where
  "update_changes t p f tbl = map (\<lambda>x. Updated t x t (f x)) (filter p (visible t tbl))"

subsection \<open>Triggers\<close>

text \<open>\<open>INSERT ... ON CONFLICT (tenant_id, id) DO UPDATE\<close>\<close>

definition upsert_rollup :: "('s \<Rightarrow> 'k) \<Rightarrow> tenant \<Rightarrow> 's \<Rightarrow> 's table \<Rightarrow> 's table" where
  "upsert_rollup key t s tbl =
     (if has_key key t (key s) tbl then map (\<lambda>r. if row_at key t (key s) r then (t, s) else r) tbl
      else insert_row t s tbl)"

definition delete_rollup :: "('s \<Rightarrow> 'k) \<Rightarrow> tenant \<Rightarrow> 'k \<Rightarrow> 's table \<Rightarrow> 's table" where
  "delete_rollup key t k tbl = filter (\<lambda>r. \<not> row_at key t k r) tbl"

fun sync_rollup :: "('row \<Rightarrow> 's) \<Rightarrow> ('s \<Rightarrow> 'k) \<Rightarrow> 'row row_change \<Rightarrow> 's table \<Rightarrow> 's table" where
  "sync_rollup proj key (Inserted t x) roll = upsert_rollup key t (proj x) roll"
| "sync_rollup proj key (Updated t x t' x') roll =
     (let roll' = upsert_rollup key t' (proj x') roll in
      if (t, key (proj x)) \<noteq> (t', key (proj x')) then delete_rollup key t (key (proj x)) roll' else roll')"
| "sync_rollup proj key (Deleted t x) roll = delete_rollup key t (key (proj x)) roll"

record fleet_job_rollup =
  fj_job_id :: uuid
  fj_status :: job_status
  fj_required_accelerator :: accelerator
  fj_created_at :: instant
  fj_lease_expires_at :: "instant option"
  fj_updated_at :: instant

record fleet_worker_rollup =
  fw_worker_id :: string
  fw_supports_cpu :: bool
  fw_supports_cuda :: bool
  fw_gpu_devices :: nat
  fw_last_seen_at :: instant

definition job_rollup :: "evaluation_job \<Rightarrow> fleet_job_rollup" where
  "job_rollup j =
     \<lparr>fj_job_id = ej_job_id j, fj_status = ej_status j, fj_required_accelerator = ej_required_accelerator j,
      fj_created_at = ej_created_at j, fj_lease_expires_at = ej_lease_expires_at j,
      fj_updated_at = ej_updated_at j\<rparr>"

definition worker_rollup :: "worker_record \<Rightarrow> fleet_worker_rollup" where
  "worker_rollup w =
     \<lparr>fw_worker_id = wr_worker_id w, fw_supports_cpu = (CPU \<in> set (wc_accelerators (wr_capabilities w))),
      fw_supports_cuda = (CUDA \<in> set (wc_accelerators (wr_capabilities w))),
      fw_gpu_devices = length (wc_gpus (wr_capabilities w)), fw_last_seen_at = wr_last_seen_at w\<rparr>"

definition sync_fleet_job_rollup ::
  "evaluation_job row_change \<Rightarrow> fleet_job_rollup table \<Rightarrow> fleet_job_rollup table" where
  "sync_fleet_job_rollup = sync_rollup job_rollup fj_job_id"

definition sync_fleet_worker_rollup ::
  "worker_record row_change \<Rightarrow> fleet_worker_rollup table \<Rightarrow> fleet_worker_rollup table" where
  "sync_fleet_worker_rollup = sync_rollup worker_rollup fw_worker_id"

text \<open>\<open>_backfill_fleet_rollups\<close>: \<open>TRUNCATE\<close>, then \<open>INSERT ... SELECT\<close>.\<close>

definition backfill_rollup :: "('row \<Rightarrow> 's) \<Rightarrow> 'row table \<Rightarrow> 's table" where
  "backfill_rollup proj tbl = map (\<lambda>(t, x). (t, proj x)) tbl"

record fleet_rollups =
  fr_jobs :: "fleet_job_rollup table"
  fr_workers :: "fleet_worker_rollup table"

definition backfill_fleet_rollups :: "'a job_db_scheme \<Rightarrow> fleet_rollups" where
  "backfill_fleet_rollups db =
     \<lparr>fr_jobs = backfill_rollup job_rollup (db_jobs db),
      fr_workers = backfill_rollup worker_rollup (db_workers db)\<rparr>"

subsection \<open>The platform report\<close>

datatype fleet_tenant_status = Registered_status tenant_status | Unregistered

record fleet_resources =
  fs_queued_cpu_jobs :: nat
  fs_queued_cuda_jobs :: nat
  fs_active_running_cpu_jobs :: nat
  fs_active_running_cuda_jobs :: nat
  fs_jobs_submitted_last_hour :: nat
  fs_workers_observed :: nat
  fs_active_cpu_workers :: nat
  fs_active_cuda_workers :: nat
  fs_active_gpu_devices :: nat
  fs_oldest_queued_seconds :: rat

record quota_saturation =
  qs_queued_jobs :: bool
  qs_jobs_per_hour :: bool
  qs_running_jobs :: bool
  qs_running_cuda_jobs :: bool

record tenant_fleet_summary =
  ts_tenant_id :: tenant
  ts_display_name :: "string option"
  ts_status :: fleet_tenant_status
  ts_quota :: tenant_quota_limits
  ts_saturation :: quota_saturation
  ts_resources :: fleet_resources

record platform_report =
  pf_observed_at :: instant
  pf_active_worker_window_seconds :: int
  pf_totals :: fleet_resources
  pf_tenants :: "tenant_fleet_summary list"

definition rollup_active :: "instant \<Rightarrow> fleet_job_rollup \<Rightarrow> bool" where
  "rollup_active now j \<longleftrightarrow> fj_status j = RUNNING \<and>
     (case fj_lease_expires_at j of None \<Rightarrow> False | Some e \<Rightarrow> now \<le> e)"

text \<open>Seconds as a rational; \<open>greatest(coalesce(max(...), 0), 0)\<close>.\<close>

definition seconds :: "int \<Rightarrow> rat" where
  "seconds n = of_int n / 1000000"

definition oldest_queued :: "instant \<Rightarrow> fleet_job_rollup list \<Rightarrow> rat" where
  "oldest_queued now jobs =
     Max (set (0 # map (\<lambda>j. seconds (now - fj_created_at j)) (filter (\<lambda>j. fj_status j = QUEUED) jobs)))"

definition tenant_resources ::
  "instant \<Rightarrow> int \<Rightarrow> fleet_job_rollup list \<Rightarrow> fleet_worker_rollup list \<Rightarrow> fleet_resources" where
  "tenant_resources now window_seconds jobs workers =
     (let on = (\<lambda>a j. fj_required_accelerator j = a);
          live = (\<lambda>w. now - window_seconds * second \<le> fw_last_seen_at w) in
      \<lparr>fs_queued_cpu_jobs = count_if (\<lambda>j. fj_status j = QUEUED \<and> on CPU j) jobs,
       fs_queued_cuda_jobs = count_if (\<lambda>j. fj_status j = QUEUED \<and> on CUDA j) jobs,
       fs_active_running_cpu_jobs = count_if (\<lambda>j. rollup_active now j \<and> on CPU j) jobs,
       fs_active_running_cuda_jobs = count_if (\<lambda>j. rollup_active now j \<and> on CUDA j) jobs,
       fs_jobs_submitted_last_hour = count_if (\<lambda>j. now - hour \<le> fj_created_at j) jobs,
       fs_workers_observed = count_if (\<lambda>w. now - day \<le> fw_last_seen_at w) workers,
       fs_active_cpu_workers = count_if (\<lambda>w. fw_supports_cpu w \<and> live w) workers,
       fs_active_cuda_workers = count_if (\<lambda>w. fw_supports_cuda w \<and> live w) workers,
       fs_active_gpu_devices =
         sum_list (map fw_gpu_devices (filter (\<lambda>w. fw_supports_cuda w \<and> live w) workers)),
       fs_oldest_queued_seconds = oldest_queued now jobs\<rparr>)"

text \<open>\<open>LEFT JOIN tenant_quotas\<close>: without a row every limit is NULL.\<close>

definition joined_limits :: "quota_table \<Rightarrow> tenant \<Rightarrow> tenant_quota_limits" where
  "joined_limits quotas t =
     (case map_of quotas t of
        None \<Rightarrow> \<lparr>max_queued_jobs = None, max_jobs_per_hour = None, max_running_jobs = None,
                 max_running_cuda_jobs = None\<rparr>
      | Some q \<Rightarrow> tenant_quota_limits.truncate q)"

definition saturation_of :: "tenant_quota_limits \<Rightarrow> fleet_resources \<Rightarrow> quota_saturation" where
  "saturation_of q r =
     \<lparr>qs_queued_jobs = limit_reached (max_queued_jobs q) (fs_queued_cpu_jobs r + fs_queued_cuda_jobs r),
      qs_jobs_per_hour = limit_reached (max_jobs_per_hour q) (fs_jobs_submitted_last_hour r),
      qs_running_jobs =
        limit_reached (max_running_jobs q) (fs_active_running_cpu_jobs r + fs_active_running_cuda_jobs r),
      qs_running_cuda_jobs = limit_reached (max_running_cuda_jobs q) (fs_active_running_cuda_jobs r)\<rparr>"

definition tenant_fleet_summary_of ::
  "instant \<Rightarrow> int \<Rightarrow> control_db \<Rightarrow> fleet_rollups \<Rightarrow> tenant \<Rightarrow> tenant_fleet_summary result" where
  "tenant_fleet_summary_of now window_seconds db rolls t =
     (let resources = tenant_resources now window_seconds (visible t (fr_jobs rolls)) (visible t (fr_workers rolls));
          registered = find_tenant t db in
      bind_result (validate_quota_limits (joined_limits (db_quotas db) t)) (\<lambda>quota.
        if \<not> fullmatch TENANT_ID_PATTERN t then Inl (ValidationError ''TenantFleetSummary'')
        else Inr \<lparr>ts_tenant_id = t, ts_display_name = map_option tr_display_name registered,
               ts_status = (case registered of None \<Rightarrow> Unregistered | Some r \<Rightarrow> Registered_status (tr_status r)),
               ts_quota = quota, ts_saturation = saturation_of quota resources, ts_resources = resources\<rparr>))"

definition fleet_tenant_ids :: "control_db \<Rightarrow> fleet_rollups \<Rightarrow> tenant list" where
  "fleet_tenant_ids db rolls =
     sorted_set (map tr_tenant_id (cp_tenants db) @ map fst (fr_jobs rolls) @ map fst (fr_workers rolls))"

definition total_resources :: "tenant_fleet_summary list \<Rightarrow> fleet_resources" where
  "total_resources tenants =
     (let sum_of = (\<lambda>f. sum_list (map (\<lambda>s. f (ts_resources s)) tenants)) in
      \<lparr>fs_queued_cpu_jobs = sum_of fs_queued_cpu_jobs, fs_queued_cuda_jobs = sum_of fs_queued_cuda_jobs,
       fs_active_running_cpu_jobs = sum_of fs_active_running_cpu_jobs,
       fs_active_running_cuda_jobs = sum_of fs_active_running_cuda_jobs,
       fs_jobs_submitted_last_hour = sum_of fs_jobs_submitted_last_hour,
       fs_workers_observed = sum_of fs_workers_observed,
       fs_active_cpu_workers = sum_of fs_active_cpu_workers,
       fs_active_cuda_workers = sum_of fs_active_cuda_workers,
       fs_active_gpu_devices = sum_of fs_active_gpu_devices,
       fs_oldest_queued_seconds =
         (if tenants = [] then 0 else Max (set (map (\<lambda>s. fs_oldest_queued_seconds (ts_resources s)) tenants)))\<rparr>)"

text \<open>\<open>clock\<close> is the process's time, used when no tenant is known.\<close>

definition platform_fleet_report ::
  "instant \<Rightarrow> instant \<Rightarrow> int \<Rightarrow> control_db \<Rightarrow> fleet_rollups \<Rightarrow> platform_report result" where
  "platform_fleet_report clock now window_seconds db rolls =
     (if \<not> (30 \<le> window_seconds \<and> window_seconds \<le> 3600)
      then Inl (ValueError ''active worker window must be between 30 and 3600 seconds'')
      else bind_result
        (map_result (tenant_fleet_summary_of now window_seconds db rolls) (fleet_tenant_ids db rolls))
        (\<lambda>tenants. Inr \<lparr>pf_observed_at = (if tenants = [] then clock else now),
           pf_active_worker_window_seconds = window_seconds, pf_totals = total_resources tenants,
           pf_tenants = tenants\<rparr>))"

subsection \<open>The operational snapshot\<close>

record operational_snapshot =
  os_runs_total :: nat
  os_comparisons_total :: nat
  os_guardrail_evidence_total :: nat
  os_guardrail_interventions_total :: nat
  os_job_counts :: "(job_status, nat) dict"
  os_gate_counts :: "(gate_outcome, nat) dict"
  os_workers_registered :: nat
  os_workers_active :: nat
  os_expired_leases :: nat
  os_oldest_queued_seconds :: rat
  os_average_completed_job_seconds :: rat

text \<open>\<open>SELECT x, count(*) ... GROUP BY x\<close>\<close>

definition count_groups :: "'a list \<Rightarrow> ('a, nat) dict" where
  "count_groups xs = map (\<lambda>x. (x, count_list xs x)) (remdups xs)"

definition oldest_queued_seconds :: "instant \<Rightarrow> evaluation_job list \<Rightarrow> rat" where
  "oldest_queued_seconds now jobs =
     (let queued = map ej_created_at (filter (\<lambda>j. ej_status j = QUEUED) jobs) in
      if queued = [] then 0 else seconds (now - Min (set queued)))"

definition average_completed_seconds :: "evaluation_job list \<Rightarrow> rat" where
  "average_completed_seconds jobs =
     (let durations = map (\<lambda>j. seconds (ej_updated_at j - ej_created_at j)) (filter (\<lambda>j. ej_status j = COMPLETED) jobs) in
      if durations = [] then 0 else sum_list durations / of_nat (length durations))"

definition validate_snapshot :: "operational_snapshot \<Rightarrow> operational_snapshot result" where
  "validate_snapshot s =
     (if 0 \<le> os_oldest_queued_seconds s \<and> 0 \<le> os_average_completed_job_seconds s then Inr s
      else Inl (ValidationError ''OperationalSnapshot''))"

text \<open>\<open>outcomes\<close> is the column \<open>outcome\<close> of the comparisons.\<close>

definition operational_snapshot_of ::
  "instant \<Rightarrow> tenant \<Rightarrow> guardrail_db \<Rightarrow> gate_outcome table \<Rightarrow> 'a job_db_scheme \<Rightarrow> operational_snapshot result" where
  "operational_snapshot_of now t store outcomes db =
     (let jobs = visible t (db_jobs db); workers = visible t (db_workers db) in
      validate_snapshot
        \<lparr>os_runs_total = length (visible t (ad_runs store)),
         os_comparisons_total = length (visible t (ad_comparisons store)),
         os_guardrail_evidence_total = length (visible t (gd_evidence store)),
         os_guardrail_interventions_total = count_if (\<lambda>c. \<not> ec_passed_through c) (visible t (gd_evidence store)),
         os_job_counts = count_groups (map ej_status jobs),
         os_gate_counts = count_groups (visible t outcomes),
         os_workers_registered = length workers,
         os_workers_active = count_if (\<lambda>w. now - 2 * minute \<le> wr_last_seen_at w) workers,
         os_expired_leases = count_if (\<lambda>j. ej_status j = RUNNING \<and> lease_expired now j) jobs,
         os_oldest_queued_seconds = oldest_queued_seconds now jobs,
         os_average_completed_job_seconds = average_completed_seconds jobs\<rparr>)"

end
