(* ===== verification/Fleet_Properties.thy ===== *)
theory Fleet_Properties
  imports Fleet Job_Properties
begin

section \<open>Properties of fleet analytics\<close>

text \<open>
  The rollups that the triggers maintain are, after any history of the job queue, the projection that a
  backfill would compute; so the platform's report counts what the queue's own quota checks count. The
  argument about a table and its rollup is made once, in a locale, and used for jobs and for workers.
\<close>

subsection \<open>Keyed tables\<close>

definition keyed :: "('row \<Rightarrow> 'k) \<Rightarrow> 'row table \<Rightarrow> bool" where
  "keyed key tbl \<longleftrightarrow> distinct (map (\<lambda>r. (fst r, key (snd r))) tbl)"

lemma has_key_iff: "has_key key t k tbl \<longleftrightarrow> (t, k) \<in> (\<lambda>r. (fst r, key (snd r))) ` set tbl"
  by (force simp: has_key_def row_at_def list_ex_iff image_iff)

lemma keyed_Nil [simp]: "keyed key []"
  by (simp add: keyed_def)

lemma keyed_insert: "keyed key (insert_row t x tbl) \<longleftrightarrow> keyed key tbl \<and> \<not> has_key key t (key x) tbl"
  by (auto simp: keyed_def insert_row_def has_key_iff)

lemma keyed_filter: "keyed key tbl \<Longrightarrow> keyed key (filter p tbl)"
  by (simp add: keyed_def distinct_map_filter)

lemma keyed_unique:
  "keyed key tbl \<Longrightarrow> r \<in> set tbl \<Longrightarrow> r' \<in> set tbl \<Longrightarrow> fst r = fst r' \<Longrightarrow> key (snd r) = key (snd r') \<Longrightarrow> r = r'"
  unfolding keyed_def distinct_map by (auto dest: inj_onD)

lemma keyed_distinct: "keyed key tbl \<Longrightarrow> distinct tbl"
  by (simp add: keyed_def distinct_map)

text \<open>Replacing the row at a key, by a row at the same or at a free key.\<close>

definition replace_row :: "('row \<Rightarrow> 'k) \<Rightarrow> tenant \<Rightarrow> 'k \<Rightarrow> tenant \<times> 'row \<Rightarrow> 'row table \<Rightarrow> 'row table" where
  "replace_row key t k new tbl = map (\<lambda>r. if row_at key t k r then new else r) tbl"

lemma set_replace_row:
  "has_key key t k tbl \<Longrightarrow> set (replace_row key t k new tbl) = insert new {r \<in> set tbl. \<not> row_at key t k r}"
  by (auto simp: replace_row_def has_key_def list_ex_iff)

lemma inj_on_replace: "y = a \<or> y \<notin> S \<Longrightarrow> inj_on (\<lambda>x. if x = a then y else x) S"
  by (auto simp: inj_on_def)

lemma keyed_replace_row:
  assumes "keyed key tbl" and "(fst new, key (snd new)) = (t, k) \<or> \<not> has_key key (fst new) (key (snd new)) tbl"
  shows "keyed key (replace_row key t k new tbl)"
proof -
  let ?k = "\<lambda>r. (fst r, key (snd r))"
  let ?f = "\<lambda>x. if x = (t, k) then ?k new else x"
  have eq: "map ?k (replace_row key t k new tbl) = map ?f (map ?k tbl)"
    by (auto simp: replace_row_def row_at_def)
  have "?k new = (t, k) \<or> ?k new \<notin> set (map ?k tbl)" using assms(2) by (simp add: has_key_iff)
  then have "inj_on ?f (set (map ?k tbl))" by (rule inj_on_replace)
  then show ?thesis using assms(1) unfolding keyed_def eq distinct_map [of ?f] by blast
qed

subsection \<open>A table and its rollup\<close>

locale rollup =
  fixes key :: "'row \<Rightarrow> 'k" and rollup_key :: "'s \<Rightarrow> 'k" and proj :: "'row \<Rightarrow> 's"
  assumes key_proj: "rollup_key (proj x) = key x"
begin

lemma backfill_row_at: "row_at rollup_key t k (fst r, proj (snd r)) = row_at key t k r"
  by (simp add: row_at_def key_proj)

lemma set_backfill: "set (backfill_rollup proj tbl) = (\<lambda>r. (fst r, proj (snd r))) ` set tbl"
  by (simp add: backfill_rollup_def split_beta)

lemma has_key_tracked:
  "set roll = set (backfill_rollup proj tbl) \<Longrightarrow> has_key rollup_key t k roll = has_key key t k tbl"
  by (simp add: has_key_iff set_backfill image_image key_proj)

lemma keyed_backfill: "keyed rollup_key (backfill_rollup proj tbl) = keyed key tbl"
  by (simp add: keyed_def backfill_rollup_def comp_def split_beta key_proj)

lemma set_upsert:
  "set (upsert_rollup rollup_key t s roll) = insert (t, s) {r \<in> set roll. \<not> row_at rollup_key t (rollup_key s) r}"
  by (auto simp: upsert_rollup_def has_key_def list_ex_iff insert_row_def)

lemma keyed_upsert:
  assumes "keyed rollup_key roll" shows "keyed rollup_key (upsert_rollup rollup_key t s roll)"
  using keyed_replace_row [OF assms, of "(t, s)" t "rollup_key s"] assms
  by (simp add: upsert_rollup_def keyed_insert replace_row_def)

lemma keyed_sync: "keyed rollup_key roll \<Longrightarrow> keyed rollup_key (sync_rollup proj rollup_key c roll)"
  by (cases c) (auto simp: Let_def delete_rollup_def intro: keyed_upsert keyed_filter)

text \<open>One change and its trigger.\<close>

lemma sync_tracks:
  assumes "apply_change key c tbl = Some tbl'" "keyed key tbl" "set roll = set (backfill_rollup proj tbl)"
  shows "set (sync_rollup proj rollup_key c roll) = set (backfill_rollup proj tbl') \<and> keyed key tbl'"
proof (cases c)
  case (Inserted t x)
  then have free: "\<not> has_key key t (key x) tbl" and tbl': "tbl' = insert_row t x tbl"
    using assms(1) by (auto split: if_splits)
  then have "{r \<in> set roll. \<not> row_at rollup_key t (rollup_key (proj x)) r} = set roll"
    using has_key_tracked [OF assms(3), of t "key x"] by (auto simp: has_key_def list_ex_iff key_proj)
  then show ?thesis
    using free assms(2,3) keyed_insert [of key t x tbl]
    by (simp add: Inserted set_upsert tbl') (simp add: set_backfill insert_row_def)
next
  case (Updated t x t' x')
  then have mem: "(t, x) \<in> set tbl" and free: "(t', key x') = (t, key x) \<or> \<not> has_key key t' (key x') tbl"
    and tbl': "tbl' = replace_row key t (key x) (t', x') tbl"
    using assms(1) by (auto simp: replace_row_def split: if_splits)
  have "has_key key t (key x) tbl" using mem by (force simp: has_key_iff)
  from set_replace_row [OF this]
  have set': "set tbl' = insert (t', x') {r \<in> set tbl. \<not> row_at key t (key x) r}" by (simp add: tbl')
  have image: "set (backfill_rollup proj tbl')
      = insert (t', proj x') {r \<in> set roll. \<not> row_at rollup_key t (key x) r}"
    unfolding set_backfill set' assms(3) by (auto simp: row_at_def key_proj)
  have "set (sync_rollup proj rollup_key c roll) = insert (t', proj x') {r \<in> set roll. \<not> row_at rollup_key t (key x) r}"
  proof (cases "(t', key x') = (t, key x)")
    case True
    then show ?thesis by (simp add: Updated set_upsert key_proj Let_def)
  next
    case False
    then have "\<not> has_key rollup_key t' (key x') roll" using free has_key_tracked [OF assms(3)] by auto
    then have "{r \<in> set roll. \<not> row_at rollup_key t' (key x') r} = set roll" by (auto simp: has_key_def list_ex_iff)
    then show ?thesis
      using False by (auto simp: Updated set_upsert key_proj Let_def delete_rollup_def row_at_def)
  qed
  then show ?thesis using image keyed_replace_row [OF assms(2), of "(t', x')" t "key x"] free by (simp add: tbl')
next
  case (Deleted t x)
  then have "tbl' = filter (\<lambda>r. \<not> row_at key t (key x) r) tbl" using assms(1) by (auto split: if_splits)
  then show ?thesis
    using assms(2,3) by (auto simp: Deleted delete_rollup_def set_backfill row_at_def key_proj keyed_filter)
qed

lemma syncs_track:
  "apply_changes key cs tbl = Some tbl' \<Longrightarrow> keyed key tbl \<Longrightarrow> set roll = set (backfill_rollup proj tbl) \<Longrightarrow>
     keyed rollup_key roll \<Longrightarrow>
     set (fold (sync_rollup proj rollup_key) cs roll) = set (backfill_rollup proj tbl') \<and> keyed key tbl'
     \<and> keyed rollup_key (fold (sync_rollup proj rollup_key) cs roll)"
proof (induction cs arbitrary: tbl roll)
  case (Cons c cs)
  then obtain tbl1 where "apply_change key c tbl = Some tbl1" "apply_changes key cs tbl1 = Some tbl'"
    by (auto split: option.splits)
  note step = sync_tracks [OF this(1) Cons.prems(2,3)]
  show ?case
    using Cons.IH [OF \<open>apply_changes key cs tbl1 = Some tbl'\<close> conjunct2 [OF step] conjunct1 [OF step]
        keyed_sync [OF Cons.prems(4)]] by simp
qed simp

text \<open>What a tenant sees of a tracked rollup is a permutation of what it would see of the backfill.\<close>

lemma tracked_visible:
  assumes "set roll = set (backfill_rollup proj tbl)" "keyed rollup_key roll" "keyed key tbl"
  shows "mset (visible t roll) = mset (map proj (visible t tbl))"
proof -
  have "mset roll = mset (backfill_rollup proj tbl)"
    using assms(1) keyed_distinct [OF assms(2)] keyed_distinct [of rollup_key "backfill_rollup proj tbl"]
      keyed_backfill [of tbl] assms(3) by (simp add: set_eq_iff_mset_eq_distinct [symmetric])
  then have "mset (visible t roll) = mset (visible t (backfill_rollup proj tbl))"
    by (simp add: visible_def)
  moreover have "visible t (backfill_rollup proj tbl) = map proj (visible t tbl)"
    by (induction tbl) (auto simp: backfill_rollup_def)
  ultimately show ?thesis by simp
qed

end

interpretation job_rollups: rollup ej_job_id fj_job_id job_rollup
  by unfold_locales (simp add: job_rollup_def)

interpretation worker_rollups: rollup wr_worker_id fw_worker_id worker_rollup
  by unfold_locales (simp add: worker_rollup_def)

subsection \<open>The statements of the queue as row changes\<close>

lemma replace_row_other: "(\<And>r. r \<in> set tbl \<Longrightarrow> \<not> row_at key t k r) \<Longrightarrow> replace_row key t k new tbl = tbl"
  unfolding replace_row_def by (rule map_idI) auto

lemma update_changes_from:
  assumes "keyed key (pre @ suf)" and same: "\<And>x. key (f x) = key x"
  shows "apply_changes key (update_changes t p f suf) (pre @ suf) = Some (pre @ update_where t p f suf)"
  using assms(1)
proof (induction suf arbitrary: pre)
  case Nil
  then show ?case by (simp add: update_changes_def update_where_def)
next
  case (Cons r suf)
  obtain t' x where r: "r = (t', x)" by fastforce
  show ?case
  proof (cases "t' = t \<and> p x")
    case True
    have others: "\<not> row_at key t (key x) r'" if "r' \<in> set pre \<union> set suf" for r'
      using Cons.prems that True by (auto simp: keyed_def r row_at_def image_iff)
    have "replace_row key t (key x) (t, f x) (pre @ (t, x) # suf) = pre @ (t, f x) # suf"
      using others replace_row_other [of pre key t "key x"] replace_row_other [of suf key t "key x"]
      by (simp add: replace_row_def row_at_def)
    moreover have "keyed key ((pre @ [(t, f x)]) @ suf)" using Cons.prems True by (simp add: keyed_def same r)
    ultimately show ?thesis
      using Cons.IH [of "pre @ [(t, f x)]"] True
      by (simp add: r update_changes_def update_where_def same replace_row_def)
  next
    case False
    have "keyed key ((pre @ [r]) @ suf)" using Cons.prems by simp
    from Cons.IH [OF this] show ?thesis
      using False by (auto simp: r update_changes_def update_where_def)
  qed
qed

lemma update_changes_apply:
  "keyed key tbl \<Longrightarrow> (\<And>x. key (f x) = key x) \<Longrightarrow>
     apply_changes key (update_changes t p f tbl) tbl = Some (update_where t p f tbl)"
  using update_changes_from [of key "[]" tbl f t p] by simp

definition changes :: "('row \<Rightarrow> 'k) \<Rightarrow> 'row table \<Rightarrow> 'row table \<Rightarrow> bool" where
  "changes key tbl tbl' \<longleftrightarrow> (\<exists>cs. apply_changes key cs tbl = Some tbl')"

lemma changes_refl [simp]: "changes key tbl tbl"
  unfolding changes_def by (intro exI [of _ "[]"]) simp

lemma changes_insert: "\<not> has_key key t (key x) tbl \<Longrightarrow> changes key tbl (insert_row t x tbl)"
  unfolding changes_def by (intro exI [of _ "[Inserted t x]"]) simp

lemma changes_update: "keyed key tbl \<Longrightarrow> (\<And>x. key (f x) = key x) \<Longrightarrow> changes key tbl (update_where t p f tbl)"
  unfolding changes_def using update_changes_apply by blast

text \<open>Every operation of the queue is a sequence of row changes of both tables.\<close>

lemma job_step_changes:
  assumes "job_step fl (now, db) e (now', db')" "keyed ej_job_id (db_jobs db)" "keyed wr_worker_id (db_workers db)"
  shows "changes ej_job_id (db_jobs db) (db_jobs db') \<and> changes wr_worker_id (db_workers db) (db_workers db')"
  using assms(1)
proof (cases rule: job_step.cases)
  case (enqueue i c t r j)
  then have "\<not> job_id_taken i db" "db' = db\<lparr>db_jobs := insert_row t j (db_jobs db)\<rparr>" "ej_job_id j = i"
    using job_ok_new by (fastforce simp: enqueue_job_def split: if_splits)+
  moreover have "\<not> has_key ej_job_id t i (db_jobs db)" if "\<not> job_id_taken i db"
    using that by (force simp: job_id_taken_def has_key_iff)
  ultimately show ?thesis using changes_insert [of ej_job_id t j] by simp
next
  case (lease t w s caps row)
  then have "db' = db \<or> (\<exists>i. db' = db\<lparr>db_jobs := update_where t (\<lambda>x. ej_job_id x = i) (leased now' w s) (db_jobs db)\<rparr>)"
    by (auto simp: lease_job_def split: option.splits)
  then show ?thesis using changes_update [OF assms(2)] by auto
next
  case (renew t i w s j)
  then have "db' = db\<lparr>db_jobs := update_where t (holds_lease i w) (renewed now' s) (db_jobs db)\<rparr>"
    by (auto simp: renew_job_lease_def update_job_def leased_job_or_error_def split: option.splits)
  then show ?thesis using changes_update [OF assms(2)] by simp
next
  case (complete t i w r j)
  then have "db' = db\<lparr>db_jobs := update_where t (holds_lease i w) (completed now' r) (db_jobs db)\<rparr>"
    by (auto simp: complete_job_def update_job_def leased_job_or_error_def split: option.splits if_splits)
  then show ?thesis using changes_update [OF assms(2)] by simp
next
  case (fail t i w e j)
  then have "db' = db\<lparr>db_jobs := update_where t (holds_lease i w) (failed now' e) (db_jobs db)\<rparr>"
    by (auto simp: fail_job_def update_job_def leased_job_or_error_def split: option.splits)
  then show ?thesis using changes_update [OF assms(2)] by simp
next
  case (cancel t i j)
  then have "db' = db\<lparr>db_jobs := update_where t (\<lambda>j. ej_job_id j = i \<and> (ej_status j = QUEUED \<or> ej_status j = RUNNING))
      (cancelled now') (db_jobs db)\<rparr>"
    by (auto simp: cancel_job_def update_job_def split: option.splits)
  then show ?thesis using changes_update [OF assms(2)] by simp
next
  case (register t w c rec)
  show ?thesis
  proof (cases "returning t (\<lambda>x. wr_worker_id x = w) (\<lambda>x. x\<lparr>wr_capabilities := c, wr_last_seen_at := now'\<rparr>) (db_workers db)")
    case None
    then have "\<not> has_key wr_worker_id t w (db_workers db)"
      unfolding returning_None by (auto simp: has_key_def list_ex_iff row_at_def set_visible)
    then show ?thesis
      using register None changes_insert [of wr_worker_id t _ "db_workers db"]
      by (auto simp: register_worker_def Let_def)
  next
    case (Some x)
    then show ?thesis
      using register changes_update [OF assms(3)] by (auto simp: register_worker_def Let_def)
  qed
qed auto

subsection \<open>The queue with its triggers\<close>

text \<open>
  The queue, its rollups and the triggers between them. Setting up the schema, at any time, truncates and
  backfills the rollups; a step of the queue runs the triggers of its row changes.
\<close>

definition track_changes ::
  "evaluation_job row_change list \<Rightarrow> worker_record row_change list \<Rightarrow> fleet_rollups \<Rightarrow> fleet_rollups" where
  "track_changes jcs wcs rolls =
     \<lparr>fr_jobs = fold sync_fleet_job_rollup jcs (fr_jobs rolls),
      fr_workers = fold sync_fleet_worker_rollup wcs (fr_workers rolls)\<rparr>"

inductive fleet_run ::
  "(string \<Rightarrow> rat option) \<Rightarrow> quota_table \<Rightarrow> instant \<Rightarrow> job_db \<Rightarrow> fleet_rollups \<Rightarrow> bool" for fl quotas where
  start: "fleet_run fl quotas now (job_db0 quotas) (backfill_fleet_rollups (job_db0 quotas))"
| migrate: "fleet_run fl quotas now db rolls \<Longrightarrow> fleet_run fl quotas now db (backfill_fleet_rollups db)"
| step: "fleet_run fl quotas now db rolls \<Longrightarrow> job_step fl (now, db) e (now', db') \<Longrightarrow>
     apply_changes ej_job_id jcs (db_jobs db) = Some (db_jobs db') \<Longrightarrow>
     apply_changes wr_worker_id wcs (db_workers db) = Some (db_workers db') \<Longrightarrow>
     fleet_run fl quotas now' db' (track_changes jcs wcs rolls)"

definition rollups_faithful :: "job_db \<Rightarrow> fleet_rollups \<Rightarrow> bool" where
  "rollups_faithful db rolls \<longleftrightarrow>
     set (fr_jobs rolls) = set (fr_jobs (backfill_fleet_rollups db)) \<and> keyed fj_job_id (fr_jobs rolls)
   \<and> set (fr_workers rolls) = set (fr_workers (backfill_fleet_rollups db)) \<and> keyed fw_worker_id (fr_workers rolls)"

definition tables_keyed :: "job_db \<Rightarrow> bool" where
  "tables_keyed db \<longleftrightarrow> keyed ej_job_id (db_jobs db) \<and> keyed wr_worker_id (db_workers db)"

lemma backfill_faithful: "tables_keyed db \<Longrightarrow> rollups_faithful db (backfill_fleet_rollups db)"
  by (simp add: rollups_faithful_def tables_keyed_def backfill_fleet_rollups_def job_rollups.keyed_backfill
      worker_rollups.keyed_backfill)

lemma fleet_run_faithful: "fleet_run fl quotas now db rolls \<Longrightarrow> tables_keyed db \<and> rollups_faithful db rolls"
proof (induction rule: fleet_run.induct)
  case (start now)
  have "tables_keyed (job_db0 quotas)" by (simp add: tables_keyed_def job_db0_def)
  then show ?case using backfill_faithful by blast
next
  case (migrate now db rolls)
  then show ?case using backfill_faithful by blast
next
  case (step now db rolls e now' db' jcs wcs)
  have "set (fold sync_fleet_job_rollup jcs (fr_jobs rolls)) = set (backfill_rollup job_rollup (db_jobs db'))
      \<and> keyed ej_job_id (db_jobs db') \<and> keyed fj_job_id (fold sync_fleet_job_rollup jcs (fr_jobs rolls))"
    unfolding sync_fleet_job_rollup_def using step.IH
    by (intro job_rollups.syncs_track [OF step.hyps(3)])
      (simp_all add: tables_keyed_def rollups_faithful_def backfill_fleet_rollups_def)
  moreover have "set (fold sync_fleet_worker_rollup wcs (fr_workers rolls)) = set (backfill_rollup worker_rollup (db_workers db'))
      \<and> keyed wr_worker_id (db_workers db') \<and> keyed fw_worker_id (fold sync_fleet_worker_rollup wcs (fr_workers rolls))"
    unfolding sync_fleet_worker_rollup_def using step.IH
    by (intro worker_rollups.syncs_track [OF step.hyps(4)])
      (simp_all add: tables_keyed_def rollups_faithful_def backfill_fleet_rollups_def)
  ultimately show ?case
    by (simp add: tables_keyed_def rollups_faithful_def backfill_fleet_rollups_def track_changes_def)
qed

text \<open>C28. The rollups refine the tables. After any history of the queue and any number of restarts, the
  rollup tables hold exactly the projection of the jobs and workers that a backfill would write, with one
  row for each; and every further step of the queue is a sequence of row changes whose triggers can run.\<close>

theorem fleet_rollups_refine:
  assumes "fleet_run fl quotas now db rolls"
  shows "rollups_faithful db rolls
    \<and> (\<forall>e now' db'. job_step fl (now, db) e (now', db') \<longrightarrow>
        (\<exists>jcs wcs. fleet_run fl quotas now' db' (track_changes jcs wcs rolls)))"
proof (intro conjI allI impI)
  show "rollups_faithful db rolls" using fleet_run_faithful [OF assms] ..
  fix e now' db' assume step: "job_step fl (now, db) e (now', db')"
  have "tables_keyed db" using fleet_run_faithful [OF assms] ..
  then obtain jcs wcs where "apply_changes ej_job_id jcs (db_jobs db) = Some (db_jobs db')"
    "apply_changes wr_worker_id wcs (db_workers db) = Some (db_workers db')"
    using job_step_changes [OF step] unfolding tables_keyed_def changes_def by blast
  then show "\<exists>jcs wcs. fleet_run fl quotas now' db' (track_changes jcs wcs rolls)"
    using fleet_run.step [OF assms step] by blast
qed

theorem fleet_rollups_refine_witness:
  "\<exists>rolls. fleet_run no_float ex_quotas 150 ex_db1 rolls \<and> rollups_faithful ex_db1 rolls"
proof -
  have start: "fleet_run no_float ex_quotas 0 (job_db0 ex_quotas) (backfill_fleet_rollups (job_db0 ex_quotas))"
    by (rule fleet_run.start)
  obtain j where "job_step no_float (0, job_db0 ex_quotas) (Enqueue ''acme'' ex_request 7 100) (150, ex_db1)"
    using job_step.enqueue [OF _ ex_enqueue, of 0] by auto
  then obtain rolls where "fleet_run no_float ex_quotas 150 ex_db1 rolls"
    using fleet_rollups_refine [OF start] by blast
  then show ?thesis using fleet_rollups_refine by blast
qed

subsection \<open>The report counts the tables\<close>

lemma count_if_mset: "mset xs = mset ys \<Longrightarrow> count_if p xs = count_if p ys"
  unfolding count_if_def by (metis mset_filter size_mset)

lemma count_if_map: "count_if p (map f xs) = count_if (\<lambda>x. p (f x)) xs"
  by (induction xs) auto

lemma count_if_accelerators:
  "count_if (\<lambda>j. p j \<and> f j = CPU) xs + count_if (\<lambda>j. p j \<and> f j = CUDA) xs = count_if p xs"
  by (induction xs) (auto, metis accelerator.exhaust)

lemma faithful_jobs:
  assumes "rollups_faithful db rolls" "tables_keyed db"
  shows "mset (visible t (fr_jobs rolls)) = mset (map job_rollup (visible t (db_jobs db)))"
  using assms by (intro job_rollups.tracked_visible)
    (simp_all add: rollups_faithful_def tables_keyed_def backfill_fleet_rollups_def)

text \<open>The resources of a tenant are what its quota check measures.\<close>

definition resources_measure :: "tenant_quota_usage \<Rightarrow> fleet_resources \<Rightarrow> bool" where
  "resources_measure usage r \<longleftrightarrow>
     fs_queued_cpu_jobs r + fs_queued_cuda_jobs r = qu_queued_jobs usage
   \<and> fs_active_running_cpu_jobs r + fs_active_running_cuda_jobs r = qu_active_running_jobs usage
   \<and> fs_active_running_cuda_jobs r = qu_active_running_cuda_jobs usage
   \<and> fs_jobs_submitted_last_hour r = qu_jobs_submitted_last_hour usage"

lemma rollup_active_job: "rollup_active now (job_rollup j) = active_lease now j"
  by (simp add: rollup_active_def active_lease_def job_rollup_def)

lemma tenant_resources_measure:
  assumes "mset jobs = mset (map job_rollup js)"
  shows "resources_measure (tenant_quota_usage now js) (tenant_resources now w jobs workers)"
  unfolding resources_measure_def tenant_resources_def tenant_quota_usage_def Let_def
  by (simp add: count_if_mset [OF assms] count_if_map rollup_active_job count_if_accelerators)
    (simp add: job_rollup_def count_if_accelerators)

definition control_of :: "job_db \<Rightarrow> tenant_record list \<Rightarrow> api_key_row list \<Rightarrow> control_db" where
  "control_of db tenants keys = job_db.extend db (control_db.fields tenants keys)"

text \<open>What a report says of a tenant agrees with the queue's own gates.\<close>

definition summary_agrees :: "instant \<Rightarrow> job_db \<Rightarrow> tenant_fleet_summary \<Rightarrow> bool" where
  "summary_agrees now db s \<longleftrightarrow>
     (let t = ts_tenant_id s; sat = ts_saturation s in
      resources_measure (tenant_quota_usage now (visible t (db_jobs db))) (ts_resources s)
    \<and> isl (enqueue_quota_check now t db) = (qs_queued_jobs sat \<or> qs_jobs_per_hour sat)
    \<and> lease_quota now t db = (if qs_running_jobs sat then None else Some (\<not> qs_running_cuda_jobs sat)))"

lemma summary_agreement:
  assumes "rollups_faithful db rolls" "tables_keyed db"
    and "tenant_fleet_summary_of now w (control_of db tenants keys) rolls t = Inr s"
  shows "summary_agrees now db s \<and> ts_tenant_id s = t"
proof -
  let ?r = "tenant_resources now w (visible t (fr_jobs rolls)) (visible t (fr_workers rolls))"
  have measure: "resources_measure (tenant_quota_usage now (visible t (db_jobs db))) ?r"
    using faithful_jobs [OF assms(1,2)] by (rule tenant_resources_measure)
  have quotas: "db_quotas (control_of db tenants keys) = db_quotas db"
    by (simp add: control_of_def job_db.defs)
  have s: "ts_tenant_id s = t" "ts_resources s = ?r" "ts_saturation s = saturation_of (joined_limits (db_quotas db) t) ?r"
    using assms(3) by (auto simp: tenant_fleet_summary_of_def Let_def quotas validate_quota_limits_def split: if_splits)
  have "isl (enqueue_quota_check now t db) = (qs_queued_jobs (ts_saturation s) \<or> qs_jobs_per_hour (ts_saturation s))"
    using measure
    by (auto simp: s saturation_of_def joined_limits_def enqueue_quota_check_def tenant_quota_def resources_measure_def
        Let_def limit_reached_def tenant_quota_limits.defs split: option.splits)
  moreover have "lease_quota now t db = (if qs_running_jobs (ts_saturation s) then None
      else Some (\<not> qs_running_cuda_jobs (ts_saturation s)))"
    using measure
    by (auto simp: s saturation_of_def joined_limits_def lease_quota_def tenant_quota_def resources_measure_def
        Let_def limit_reached_def tenant_quota_limits.defs split: option.splits)
  ultimately show ?thesis using measure s by (simp add: summary_agrees_def Let_def)
qed

text \<open>The platform's report agrees with the queue. After any history of the queue, a report taken at
  the database's time lists every tenant that is registered or has jobs or workers once, in order; for each,
  the queued, running and submitted jobs are those that the tenant's quota check counts; a saturated
  submission limit is exactly when the next submission is refused, a saturated running limit exactly when no
  lease is granted, and a saturated CUDA limit when only CPU jobs are; and the totals add the rows up.\<close>

theorem fleet_report_agrees_with_quotas:
  assumes "fleet_run fl quotas now db rolls"
    and "platform_fleet_report clock time w (control_of db tenants keys) rolls = Inr report"
  shows "list_all (summary_agrees time db) (pf_tenants report)
    \<and> sorted_wrt (<) (map ts_tenant_id (pf_tenants report))
    \<and> set (map ts_tenant_id (pf_tenants report))
        = tr_tenant_id ` set tenants \<union> fst ` set (db_jobs db) \<union> fst ` set (db_workers db)
    \<and> fs_queued_cpu_jobs (pf_totals report) + fs_queued_cuda_jobs (pf_totals report)
        = count_if (\<lambda>r. ej_status (snd r) = QUEUED) (db_jobs db)"
proof -
  have ok: "tables_keyed db" "rollups_faithful db rolls" using fleet_run_faithful [OF assms(1)] by auto
  let ?ids = "fleet_tenant_ids (control_of db tenants keys) rolls"
  have "map_result (tenant_fleet_summary_of time w (control_of db tenants keys) rolls) ?ids = Inr (pf_tenants report)"
    and totals: "pf_totals report = total_resources (pf_tenants report)"
    using assms(2) by (auto simp: platform_fleet_report_def split: if_splits)
  moreover have "map ts_tenant_id ss = is \<and> list_all (summary_agrees time db) ss"
    if "map_result (tenant_fleet_summary_of time w (control_of db tenants keys) rolls) is = Inr ss" for "is" ss
    using that
  proof (induction "is" arbitrary: ss)
    case (Cons i "is")
    then obtain s ss' where "tenant_fleet_summary_of time w (control_of db tenants keys) rolls i = Inr s" "ss = s # ss'"
      "map_result (tenant_fleet_summary_of time w (control_of db tenants keys) rolls) is = Inr ss'" by auto
    then show ?case using Cons.IH summary_agreement [OF ok(2,1)] by simp
  qed simp
  ultimately have ids: "map ts_tenant_id (pf_tenants report) = ?ids"
    and agree: "list_all (summary_agrees time db) (pf_tenants report)" by blast+
  have tenants: "set ?ids = tr_tenant_id ` set tenants \<union> fst ` set (db_jobs db) \<union> fst ` set (db_workers db)"
  proof -
    have "fst ` set (fr_jobs rolls) = fst ` set (db_jobs db)" "fst ` set (fr_workers rolls) = fst ` set (db_workers db)"
      using ok(2) by (force simp: rollups_faithful_def backfill_fleet_rollups_def backfill_rollup_def image_iff)+
    then show ?thesis by (simp add: fleet_tenant_ids_def control_of_def job_db.defs control_db.defs Un_assoc)
  qed
  have "(\<Sum>s\<leftarrow>pf_tenants report. fs_queued_cpu_jobs (ts_resources s) + fs_queued_cuda_jobs (ts_resources s))
      = (\<Sum>s\<leftarrow>pf_tenants report. count_if (\<lambda>j. ej_status j = QUEUED) (visible (ts_tenant_id s) (db_jobs db)))"
    using agree by (intro arg_cong [where f = sum_list] map_cong)
      (auto simp: list_all_iff summary_agrees_def resources_measure_def tenant_quota_usage_def Let_def)
  also have "\<dots> = (\<Sum>i\<leftarrow>?ids. \<Sum>x\<leftarrow>filter (\<lambda>x. fst x = i) (db_jobs db). of_bool (ej_status (snd x) = QUEUED))"
    by (simp add: ids [symmetric] comp_def visible_def sum_list_of_bool count_if_map)
  also have "\<dots> = (\<Sum>x\<leftarrow>db_jobs db. of_bool (ej_status (snd x) = QUEUED))"
    by (rule sum_list_groups) (use tenants in \<open>auto simp: fleet_tenant_ids_def\<close>)
  finally have "fs_queued_cpu_jobs (pf_totals report) + fs_queued_cuda_jobs (pf_totals report)
      = count_if (\<lambda>r. ej_status (snd r) = QUEUED) (db_jobs db)"
    by (simp add: totals total_resources_def Let_def sum_list_addf sum_list_of_bool split_beta)
  moreover have "sorted_wrt (<) ?ids"
    unfolding fleet_tenant_ids_def by (simp add: strict_sorted_iff)
  ultimately show ?thesis using agree ids tenants by simp
qed

theorem fleet_report_agrees_with_quotas_witness:
  "\<exists>rolls report. platform_fleet_report 0 200 60 (control_of ex_db1 [] []) rolls = Inr report
    \<and> set (map ts_tenant_id (pf_tenants report)) = {''acme''}
    \<and> fs_queued_cpu_jobs (pf_totals report) + fs_queued_cuda_jobs (pf_totals report) = 1"
proof -
  have start: "fleet_run no_float ex_quotas 0 (job_db0 ex_quotas) (backfill_fleet_rollups (job_db0 ex_quotas))"
    by (rule fleet_run.start)
  have "job_step no_float (0, job_db0 ex_quotas) (Enqueue ''acme'' ex_request 7 100) (150, ex_db1)"
    using job_step.enqueue [OF _ ex_enqueue, of 0] by simp
  from fleet_run.step [OF start this, of "[Inserted ''acme'' (snd (hd (db_jobs ex_db1)))]" "[]"]
  have "\<exists>rolls. fleet_run no_float ex_quotas 150 ex_db1 rolls"
    by (auto simp: job_db0_def ex_db1_def has_key_def insert_row_def)
  then have run: "fleet_run no_float ex_quotas 150 ex_db1 (backfill_fleet_rollups ex_db1)"
    by (blast intro: fleet_run.migrate)
  have "\<not> isl (platform_fleet_report 0 200 60 (control_of ex_db1 [] []) (backfill_fleet_rollups ex_db1))"
  proof -
    have tenant: "fullmatch TENANT_ID_PATTERN ''acme''"
      unfolding fullmatch_tenant_id by (simp add: tenant_char_def in_class_def)
    have "fleet_tenant_ids (control_of ex_db1 [] []) (backfill_fleet_rollups ex_db1) = [''acme'']"
      by (simp add: fleet_tenant_ids_def control_of_def job_db.defs control_db.defs backfill_fleet_rollups_def
          backfill_rollup_def ex_db1_def sorted_set_def)
    then show ?thesis
      using tenant
      by (simp add: platform_fleet_report_def tenant_fleet_summary_of_def Let_def validate_quota_limits_def
          joined_limits_def control_of_def job_db.defs ex_db1_def ex_quotas_def tenant_quota_limits.defs in_range_def
          del: fullmatch.simps)
  qed
  then obtain report where report:
    "platform_fleet_report 0 200 60 (control_of ex_db1 [] []) (backfill_fleet_rollups ex_db1) = Inr report"
    by (metis isl_def sum.exhaust)
  then show ?thesis
    using fleet_report_agrees_with_quotas [OF run report] by (auto simp: ex_db1_def ex_job_def new_job_def)
qed

subsection \<open>The operational snapshot\<close>

lemma count_if_conj_split:
  "count_if p xs = count_if (\<lambda>x. p x \<and> q x) xs + count_if (\<lambda>x. p x \<and> q x = False) xs"
  by (induction xs) auto

lemma seconds_negative: "seconds n < 0 \<longleftrightarrow> n < 0"
  by (simp add: seconds_def divide_less_0_iff)

lemma oldest_queued_seconds_negative:
  "oldest_queued_seconds now jobs < 0 \<longleftrightarrow>
     (\<exists>j \<in> set jobs. ej_status j = QUEUED) \<and> (\<forall>j \<in> set jobs. ej_status j = QUEUED \<longrightarrow> now < ej_created_at j)"
proof -
  let ?queued = "filter (\<lambda>j. ej_status j = QUEUED) jobs"
  show ?thesis
  proof (cases "?queued = []")
    case False
    then have "oldest_queued_seconds now jobs < 0 \<longleftrightarrow> now < Min (ej_created_at ` set ?queued)"
      by (simp add: oldest_queued_seconds_def Let_def seconds_negative)
    also have "\<dots> \<longleftrightarrow> (\<forall>j \<in> set ?queued. now < ej_created_at j)" using False by (subst Min_gr_iff) (simp_all only: finite_imageI finite_set image_is_empty set_empty ball_simps simp_thms)
    finally have "oldest_queued_seconds now jobs < 0 \<longleftrightarrow> (\<forall>j \<in> set ?queued. now < ej_created_at j)" .
    moreover have "hd ?queued \<in> set ?queued" using False by (rule hd_in_set)
    ultimately show ?thesis by auto
  qed (auto simp: oldest_queued_seconds_def filter_empty_conv)
qed

lemma count_groups_total: "sum_list (map snd (count_groups xs)) = length xs"
proof -
  have "sum_list (map snd (count_groups xs)) = (\<Sum>x\<leftarrow>remdups xs. count_list xs x)"
    by (simp add: count_groups_def comp_def)
  also have "\<dots> = (\<Sum>x\<in>set xs. count_list xs x)" by (simp add: sum_list_distinct_conv_sum_set)
  finally show ?thesis by (simp add: sum_count_set)
qed

text \<open>The snapshot of a tenant's metrics counts every job under its status and every comparison under its
  outcome. It fails, with a validation error, exactly when the clock that stamps new jobs runs ahead of the
  database: when there are queued jobs and all of them seem to be created in the future, or completed jobs
  seem to have ended before they were created on average.\<close>

theorem operational_snapshot_account:
  "case operational_snapshot_of now t store outcomes db of
     Inr s \<Rightarrow> sum_list (map snd (os_job_counts s)) = length (visible t (db_jobs db))
       \<and> sum_list (map snd (os_gate_counts s)) = length (visible t outcomes)
       \<and> os_workers_active s \<le> os_workers_registered s
       \<and> os_guardrail_interventions_total s \<le> os_guardrail_evidence_total s
       \<and> os_expired_leases s = count_if (\<lambda>j. ej_status j = RUNNING) (visible t (db_jobs db))
           - count_if (\<lambda>j. ej_status j = RUNNING \<and> lease_expired now j = False) (visible t (db_jobs db))
   | Inl e \<Rightarrow> e = ValidationError ''OperationalSnapshot''
       \<and> (average_completed_seconds (visible t (db_jobs db)) < 0
          \<or> (filter (\<lambda>j. ej_status j = QUEUED) (visible t (db_jobs db)) \<noteq> []
             \<and> list_all (\<lambda>j. now < ej_created_at j) (filter (\<lambda>j. ej_status j = QUEUED) (visible t (db_jobs db)))))"
proof -
  let ?jobs = "visible t (db_jobs db)"
  have "count_if (\<lambda>j. ej_status j = RUNNING) ?jobs
      = count_if (\<lambda>j. ej_status j = RUNNING \<and> lease_expired now j) ?jobs
        + count_if (\<lambda>j. ej_status j = RUNNING \<and> lease_expired now j = False) ?jobs"
    by (rule count_if_conj_split)
  moreover have "average_completed_seconds ?jobs < 0 \<or> oldest_queued_seconds now ?jobs < 0 \<longleftrightarrow>
     isl (operational_snapshot_of now t store outcomes db)"
    by (auto simp: operational_snapshot_of_def validate_snapshot_def Let_def not_le)
  ultimately show ?thesis
    using oldest_queued_seconds_negative [of now ?jobs]
    by (auto simp: operational_snapshot_of_def validate_snapshot_def Let_def count_groups_total count_if_le_length
        list_all_iff filter_empty_conv not_le)
qed

end
