(* ===== verification/Drill.thy ===== *)
theory Drill
  imports Promotion
begin

section \<open>Scheduled recovery drills (\<open>recovery_drill.py\<close>)\<close>

text \<open>
  The configuration of a drill, the Kubernetes client that speaks to the API server, and the orchestrator:
  prune old failed drills, restore a cluster, run the verification job in it, and delete both. The HTTP
  transport, the files and the clocks act on a state of the world. \<open>loads\<close> is \<open>json.loads\<close> on the bytes of a
  response, \<open>parse_int\<close> is \<open>int\<close>, \<open>py_str\<close> the \<open>str()\<close> of a JSON value that is not a string and \<open>stamp\<close> is
  \<open>strftime('%Y%m%d%H%M%S')\<close>.
\<close>

definition MAX_KUBERNETES_RESPONSE_BYTES :: nat where "MAX_KUBERNETES_RESPONSE_BYTES = 2 * 1024 * 1024"
definition MAX_SERVICE_ACCOUNT_TOKEN_BYTES :: nat where "MAX_SERVICE_ACCOUNT_TOKEN_BYTES = 32 * 1024"

definition DRILL_LABEL_SELECTOR :: string where
  "DRILL_LABEL_SELECTOR = ''aecontrol.io/recovery-drill=true''"

subsection \<open>Configuration\<close>

record drill_configuration =
  dc_namespace :: string
  dc_source_cluster :: string
  dc_object_store :: string
  dc_checkpoint_secret :: string
  dc_verifier_secret :: string
  dc_report_secret :: string
  dc_verifier_image :: string
  dc_postgres_image :: string
  dc_storage_size :: string
  dc_wal_storage_size :: string
  dc_cluster_timeout_seconds :: int
  dc_verification_timeout_seconds :: int
  dc_poll_seconds :: int
  dc_max_failed_drills :: int
  dc_checkpoint_max_age_hours :: int
  dc_report_retention_days :: int

text \<open>\<open>^[1-9][0-9]*(?:Gi|Ti)$\<close>\<close>

definition STORAGE_SIZE_PATTERN :: regex where
  "STORAGE_SIZE_PATTERN =
     Seq (Cls [(CHR ''1'', CHR ''9'')]) (Seq (Star (Cls digits09)) (Alt (lit ''Gi'') (lit ''Ti'')))"

definition drill_fields_ok :: "drill_configuration \<Rightarrow> bool" where
  "drill_fields_ok c \<longleftrightarrow>
     fullmatch STORAGE_SIZE_PATTERN (dc_storage_size c) \<and> fullmatch STORAGE_SIZE_PATTERN (dc_wal_storage_size c)
   \<and> 300 \<le> dc_cluster_timeout_seconds c \<and> dc_cluster_timeout_seconds c \<le> 14400
   \<and> 60 \<le> dc_verification_timeout_seconds c \<and> dc_verification_timeout_seconds c \<le> 3600
   \<and> 2 \<le> dc_poll_seconds c \<and> dc_poll_seconds c \<le> 60
   \<and> 1 \<le> dc_max_failed_drills c \<and> dc_max_failed_drills c \<le> 10
   \<and> 1 \<le> dc_checkpoint_max_age_hours c \<and> dc_checkpoint_max_age_hours c \<le> 720
   \<and> 1 \<le> dc_report_retention_days c \<and> dc_report_retention_days c \<le> 3650"

text \<open>The \<open>Field\<close> constraints, then \<open>model_post_init\<close>.\<close>

definition make_drill_configuration :: "drill_configuration \<Rightarrow> drill_configuration result" where
  "make_drill_configuration c =
     (if \<not> drill_fields_ok c then Inl (ValidationError ''RecoveryDrillConfiguration'')
      else if list_ex (\<lambda>s. \<not> fullmatch KUBERNETES_DNS_LABEL s)
                [dc_namespace c, dc_source_cluster c, dc_object_store c, dc_checkpoint_secret c,
                 dc_verifier_secret c, dc_report_secret c]
      then Inl (ValidationError ''must be a Kubernetes DNS label'')
      else if list_ex (\<lambda>s. s = [] \<or> list_ex is_space s) [dc_verifier_image c, dc_postgres_image c]
      then Inl (ValidationError ''must be a non-empty image reference'')
      else Inr c)"

text \<open>\<open>file\<close>: the bytes of a file, or \<open>None\<close> for an \<open>OSError\<close>. \<open>decode\<close> is \<open>bytes.decode("utf-8")\<close>.\<close>

definition read_namespace :: "(string \<Rightarrow> string option) \<Rightarrow> string option \<Rightarrow> string result" where
  "read_namespace decode file =
     (case file of None \<Rightarrow> Inl (ValueError ''Kubernetes namespace is unavailable'')
      | Some bytes \<Rightarrow>
          let raw = take 65 bytes in
          if length raw > 64 then Inl (ValueError ''Kubernetes namespace is oversized'')
          else
            (case decode raw of
               None \<Rightarrow> Inl (ValueError ''Kubernetes namespace is not UTF-8'')
             | Some s \<Rightarrow>
                 if length (strip s) > 63 then Inl (ValueError ''Kubernetes namespace is oversized'')
                 else Inr (strip s)))"

abbreviation env_default :: "(string \<Rightarrow> string option) \<Rightarrow> string \<Rightarrow> string \<Rightarrow> string" where
  "env_default env name default_value \<equiv> (case env name of None \<Rightarrow> default_value | Some v \<Rightarrow> v)"

definition drill_from_environment ::
  "(string \<Rightarrow> int option) \<Rightarrow> (string \<Rightarrow> string option) \<Rightarrow> (string \<Rightarrow> string option) \<Rightarrow> string option
     \<Rightarrow> drill_configuration result" where
  "drill_from_environment parse_int decode env namespace_file =
     bind_result (if truthy (env ''AECONTROL_RECOVERY_DRILL_NAMESPACE'')
        then Inr (the (env ''AECONTROL_RECOVERY_DRILL_NAMESPACE'')) else read_namespace decode namespace_file) (\<lambda>namespace.
     if \<not> truthy (env ''AECONTROL_RECOVERY_DRILL_VERIFIER_IMAGE'')
     then Inl (ValueError ''AECONTROL_RECOVERY_DRILL_VERIFIER_IMAGE is required'')
     else
       bind_result (environment_int parse_int env ''AECONTROL_RECOVERY_DRILL_CLUSTER_TIMEOUT_SECONDS'' 3600) (\<lambda>cluster_timeout.
       bind_result (environment_int parse_int env ''AECONTROL_RECOVERY_DRILL_VERIFICATION_TIMEOUT_SECONDS'' 1800) (\<lambda>job_timeout.
       bind_result (environment_int parse_int env ''AECONTROL_RECOVERY_DRILL_POLL_SECONDS'' 10) (\<lambda>poll.
       bind_result (environment_int parse_int env ''AECONTROL_RECOVERY_DRILL_MAX_FAILED'' 2) (\<lambda>max_failed.
       bind_result (environment_int parse_int env ''AECONTROL_RECOVERY_DRILL_CHECKPOINT_MAX_AGE_HOURS'' 168) (\<lambda>max_age.
       bind_result (environment_int parse_int env ''AECONTROL_RECOVERY_REPORT_RETENTION_DAYS'' 90) (\<lambda>retention.
         make_drill_configuration
           \<lparr>dc_namespace = namespace,
            dc_source_cluster = env_default env ''AECONTROL_RECOVERY_DRILL_SOURCE_CLUSTER'' ''aecontrol-postgres'',
            dc_object_store = env_default env ''AECONTROL_RECOVERY_DRILL_OBJECT_STORE'' ''aecontrol-postgres-backup'',
            dc_checkpoint_secret = env_default env ''AECONTROL_RECOVERY_DRILL_CHECKPOINT_SECRET''
              ''aecontrol-recovery-checkpoints'',
            dc_verifier_secret = env_default env ''AECONTROL_RECOVERY_DRILL_VERIFIER_SECRET'' ''aecontrol-recovery-verifier'',
            dc_report_secret = env_default env ''AECONTROL_RECOVERY_DRILL_REPORT_SECRET'' ''aecontrol-recovery-report-s3'',
            dc_verifier_image = the (env ''AECONTROL_RECOVERY_DRILL_VERIFIER_IMAGE''),
            dc_postgres_image = env_default env ''AECONTROL_RECOVERY_DRILL_POSTGRES_IMAGE''
              ''ghcr.io/cloudnative-pg/postgresql:17-standard-trixie'',
            dc_storage_size = env_default env ''AECONTROL_RECOVERY_DRILL_STORAGE_SIZE'' ''20Gi'',
            dc_wal_storage_size = env_default env ''AECONTROL_RECOVERY_DRILL_WAL_STORAGE_SIZE'' ''5Gi'',
            dc_cluster_timeout_seconds = cluster_timeout, dc_verification_timeout_seconds = job_timeout,
            dc_poll_seconds = poll, dc_max_failed_drills = max_failed,
            dc_checkpoint_max_age_hours = max_age, dc_report_retention_days = retention\<rparr>)))))))"

subsection \<open>The API client\<close>

record kubernetes_client =
  kc_api_url :: string
  kc_token :: string

definition make_kubernetes_client :: "string \<Rightarrow> string \<Rightarrow> kubernetes_client result" where
  "make_kubernetes_client api_url token' =
     (if \<not> starts_with ''https://'' api_url then Inl (ValueError ''Kubernetes API URL must use HTTPS'')
      else if token' = [] \<or> length (utf8 token') > MAX_SERVICE_ACCOUNT_TOKEN_BYTES
      then Inl (ValueError ''Kubernetes service-account token is empty or oversized'')
      else Inr \<lparr>kc_api_url = rstrip_char CHR ''/'' api_url, kc_token = token'\<rparr>)"

text \<open>\<open>ca_ok\<close> says whether the certificate file can be loaded.\<close>

definition client_from_environment ::
  "(string \<Rightarrow> string option) \<Rightarrow> (string \<Rightarrow> string option) \<Rightarrow> string option \<Rightarrow> bool \<Rightarrow> kubernetes_client result" where
  "client_from_environment decode env token_file ca_ok =
     (let host = env ''KUBERNETES_SERVICE_HOST''; port = env_default env ''KUBERNETES_SERVICE_PORT_HTTPS'' ''443'' in
      if \<not> truthy host then Inl (ValueError ''KUBERNETES_SERVICE_HOST is required'')
      else
        (case token_file of
           None \<Rightarrow> Inl (ValueError ''Kubernetes service-account token is unavailable'')
         | Some bytes \<Rightarrow>
             let raw = take (MAX_SERVICE_ACCOUNT_TOKEN_BYTES + 1) bytes in
             if length raw > MAX_SERVICE_ACCOUNT_TOKEN_BYTES
             then Inl (ValueError ''Kubernetes service-account token is oversized'')
             else
               (case decode raw of
                  None \<Rightarrow> Inl (ValueError ''Kubernetes service-account token is not UTF-8'')
                | Some s \<Rightarrow>
                    bind_result (make_kubernetes_client (''https://'' @ the host @ '':'' @ port) (strip s)) (\<lambda>client.
                      if \<not> ca_ok then Inl (ValueError ''Kubernetes service-account CA is unavailable'') else Inr client))))"

record api_request =
  aq_method :: string
  aq_url :: string
  aq_body :: "json option"
  aq_content_type :: string
  aq_authorization :: string

datatype api_response = Api_body string | Api_http_error nat | Api_unreachable | Api_raises exn

type_synonym 's api_transport = "api_request \<Rightarrow> 's \<Rightarrow> api_response \<times> 's"

definition decode_api_body :: "(string \<Rightarrow> json option) \<Rightarrow> string \<Rightarrow> json_object result" where
  "decode_api_body loads body =
     (let raw = take (MAX_KUBERNETES_RESPONSE_BYTES + 1) body in
      if length raw > MAX_KUBERNETES_RESPONSE_BYTES
      then Inl (RecoveryDrillError ''Kubernetes API response exceeded the size limit'')
      else
        (case loads raw of
           None \<Rightarrow> Inl (RecoveryDrillError ''Kubernetes API returned invalid JSON'')
         | Some (JObj kvs) \<Rightarrow> Inr kvs
         | Some _ \<Rightarrow> Inl (RecoveryDrillError ''Kubernetes API returned an invalid object'')))"

definition api_call ::
  "'s api_transport \<Rightarrow> (string \<Rightarrow> json option) \<Rightarrow> kubernetes_client \<Rightarrow> string \<Rightarrow> string \<Rightarrow> json option \<Rightarrow> bool \<Rightarrow> string
     \<Rightarrow> 's \<Rightarrow> json_object result \<times> 's" where
  "api_call transport loads client method path body allow_not_found content_type st =
     (case transport \<lparr>aq_method = method, aq_url = kc_api_url client @ path, aq_body = body,
              aq_content_type = content_type, aq_authorization = ''Bearer '' @ kc_token client\<rparr> st of
        (response, st') \<Rightarrow>
          ((case response of
              Api_http_error code \<Rightarrow>
                if allow_not_found \<and> code = 404 then Inr []
                else Inl (RecoveryDrillError ''Kubernetes API request failed with HTTP status'')
            | Api_unreachable \<Rightarrow> Inl (RecoveryDrillError ''Kubernetes API request failed'')
            | Api_raises e \<Rightarrow> Inl e
            | Api_body body' \<Rightarrow> decode_api_body loads body'), st'))"

definition clusters_path :: "string \<Rightarrow> string" where
  "clusters_path namespace = ''/apis/postgresql.cnpg.io/v1/namespaces/'' @ quote namespace @ ''/clusters''"

definition jobs_path :: "string \<Rightarrow> string" where
  "jobs_path namespace = ''/apis/batch/v1/namespaces/'' @ quote namespace @ ''/jobs''"

definition delete_options :: json where
  "delete_options = JObj [(''apiVersion'', JStr ''v1''), (''kind'', JStr ''DeleteOptions''),
     (''propagationPolicy'', JStr ''Foreground'')]"

definition cluster_items :: "json_object \<Rightarrow> json_object list result" where
  "cluster_items response =
     (case dict_get response ''items'' (JList []) of
        JList items \<Rightarrow>
          map_result (\<lambda>item. case item of JObj kvs \<Rightarrow> Inr kvs
            | _ \<Rightarrow> Inl (RecoveryDrillError ''Kubernetes Cluster list response is invalid'')) items
      | _ \<Rightarrow> Inl (RecoveryDrillError ''Kubernetes Cluster list response is invalid''))"

subsection \<open>The orchestrator's world\<close>

record 's drill_world =
  dw_create_cluster :: "string \<Rightarrow> json \<Rightarrow> 's \<Rightarrow> json_object result \<times> 's"
  dw_get_cluster :: "string \<Rightarrow> string \<Rightarrow> 's \<Rightarrow> json_object result \<times> 's"
  dw_list_clusters :: "string \<Rightarrow> string \<Rightarrow> 's \<Rightarrow> json_object list result \<times> 's"
  dw_delete_cluster :: "string \<Rightarrow> string \<Rightarrow> 's \<Rightarrow> unit result \<times> 's"
  dw_create_job :: "string \<Rightarrow> json \<Rightarrow> 's \<Rightarrow> json_object result \<times> 's"
  dw_get_job :: "string \<Rightarrow> string \<Rightarrow> 's \<Rightarrow> json_object result \<times> 's"
  dw_delete_job :: "string \<Rightarrow> string \<Rightarrow> 's \<Rightarrow> unit result \<times> 's"
  dw_now :: "'s \<Rightarrow> instant \<times> 's"
  dw_monotonic :: "'s \<Rightarrow> rat \<times> 's"
  dw_sleep :: "int \<Rightarrow> 's \<Rightarrow> 's"
  dw_nonce :: "'s \<Rightarrow> string \<times> 's"

definition ignore_value :: "'a result \<times> 's \<Rightarrow> unit result \<times> 's" where
  "ignore_value = (\<lambda>(r, st). (bind_result r (\<lambda>_. Inr ()), st))"

text \<open>The client's operations over the transport; clocks, sleeping and the nonce are the machine's.\<close>

definition in_cluster_world ::
  "'s api_transport \<Rightarrow> (string \<Rightarrow> json option) \<Rightarrow> kubernetes_client \<Rightarrow> ('s \<Rightarrow> instant \<times> 's) \<Rightarrow> ('s \<Rightarrow> rat \<times> 's)
     \<Rightarrow> (int \<Rightarrow> 's \<Rightarrow> 's) \<Rightarrow> ('s \<Rightarrow> string \<times> 's) \<Rightarrow> 's drill_world" where
  "in_cluster_world transport loads client now monotonic sleep nonce =
     (let call = (\<lambda>method path body. api_call transport loads client method path body False ''application/json'');
          delete = (\<lambda>path st. ignore_value
            (api_call transport loads client ''DELETE'' path (Some delete_options) True ''application/json'' st)) in
      \<lparr>dw_create_cluster = (\<lambda>ns body. call ''POST'' (clusters_path ns) (Some body)),
       dw_get_cluster = (\<lambda>ns name. call ''GET'' (clusters_path ns @ ''/'' @ quote name) None),
       dw_list_clusters = (\<lambda>ns selector st.
         case call ''GET'' (clusters_path ns @ ''?labelSelector='' @ quote_plus selector) None st of
           (r, st') \<Rightarrow> (bind_result r cluster_items, st')),
       dw_delete_cluster = (\<lambda>ns name. delete (clusters_path ns @ ''/'' @ quote name)),
       dw_create_job = (\<lambda>ns body. call ''POST'' (jobs_path ns) (Some body)),
       dw_get_job = (\<lambda>ns name. call ''GET'' (jobs_path ns @ ''/'' @ quote name) None),
       dw_delete_job = (\<lambda>ns name. delete (jobs_path ns @ ''/'' @ quote name)),
       dw_now = now, dw_monotonic = monotonic, dw_sleep = sleep, dw_nonce = nonce\<rparr>)"

text \<open>\<open>patch_cluster\<close> is the one operation only the promotion uses.\<close>

definition patch_cluster ::
  "'s api_transport \<Rightarrow> (string \<Rightarrow> json option) \<Rightarrow> kubernetes_client \<Rightarrow> string \<Rightarrow> string \<Rightarrow> json
     \<Rightarrow> 's \<Rightarrow> json_object result \<times> 's" where
  "patch_cluster transport loads client namespace name body =
     api_call transport loads client ''PATCH'' (clusters_path namespace @ ''/'' @ quote name) (Some body) False
       ''application/merge-patch+json''"

subsection \<open>Manifests\<close>

definition drill_labels :: "string \<Rightarrow> json" where
  "drill_labels drill_id =
     JObj [(''aecontrol.io/recovery-drill'', JStr ''true''), (''aecontrol.io/drill-id'', JStr drill_id)]"

definition resources_json :: "string \<Rightarrow> string \<Rightarrow> string \<Rightarrow> string \<Rightarrow> json" where
  "resources_json request_cpu request_memory limit_cpu limit_memory =
     JObj [(''requests'', JObj [(''cpu'', JStr request_cpu), (''memory'', JStr request_memory)]),
       (''limits'', JObj [(''cpu'', JStr limit_cpu), (''memory'', JStr limit_memory)])]"

definition cluster_manifest :: "drill_configuration \<Rightarrow> string \<Rightarrow> string \<Rightarrow> json" where
  "cluster_manifest c name drill_id =
     JObj [(''apiVersion'', JStr ''postgresql.cnpg.io/v1''), (''kind'', JStr ''Cluster''),
       (''metadata'', JObj [(''name'', JStr name), (''namespace'', JStr (dc_namespace c)),
          (''labels'', drill_labels drill_id)]),
       (''spec'', JObj [
          (''description'', JStr ''Ephemeral AgentEval scheduled recovery drill''),
          (''instances'', JInt 1), (''imageName'', JStr (dc_postgres_image c)),
          (''enableSuperuserAccess'', JBool False),
          (''bootstrap'', JObj [(''recovery'', JObj [(''source'', JStr ''aecontrol-drill-source'')])]),
          (''externalClusters'', JList [JObj [(''name'', JStr ''aecontrol-drill-source''),
             (''plugin'', JObj [(''name'', JStr ''barman-cloud.cloudnative-pg.io''),
                (''parameters'', JObj [(''barmanObjectName'', JStr (dc_object_store c)),
                   (''serverName'', JStr (dc_source_cluster c))])])]]),
          (''resources'', resources_json ''500m'' ''1Gi'' ''2'' ''4Gi''),
          (''storage'', JObj [(''size'', JStr (dc_storage_size c))]),
          (''walStorage'', JObj [(''size'', JStr (dc_wal_storage_size c))])])]"

definition secret_environment :: "string \<Rightarrow> string \<Rightarrow> string \<Rightarrow> bool \<Rightarrow> json" where
  "secret_environment name secret_name key is_optional =
     JObj [(''name'', JStr name),
       (''valueFrom'', JObj [(''secretKeyRef'', JObj ([(''name'', JStr secret_name), (''key'', JStr key)]
          @ (if is_optional then [(''optional'', JBool True)] else [])))])]"

definition drill_environment :: "drill_configuration \<Rightarrow> string \<Rightarrow> json list" where
  "drill_environment c cluster_name =
     [secret_environment ''DATABASE_URL'' (cluster_name @ ''-app'') ''uri'' False,
      secret_environment ''AECONTROL_ARTIFACT_ED25519_PUBLIC_KEYS'' (dc_verifier_secret c) ''ed25519-public-keys'' False,
      secret_environment ''AECONTROL_RECOVERY_REPORT_S3_BUCKET'' (dc_report_secret c) ''bucket'' False,
      secret_environment ''AECONTROL_RECOVERY_REPORT_S3_REGION'' (dc_report_secret c) ''region'' True,
      secret_environment ''AECONTROL_RECOVERY_REPORT_S3_ENDPOINT'' (dc_report_secret c) ''endpoint'' True,
      secret_environment ''AWS_ACCESS_KEY_ID'' (dc_report_secret c) ''aws-access-key-id'' True,
      secret_environment ''AWS_SECRET_ACCESS_KEY'' (dc_report_secret c) ''aws-secret-access-key'' True,
      secret_environment ''AWS_SESSION_TOKEN'' (dc_report_secret c) ''aws-session-token'' True]"

definition drill_arguments :: "drill_configuration \<Rightarrow> string \<Rightarrow> string list" where
  "drill_arguments c drill_id =
     [''store'', ''verify-recovery'', ''--checkpoint-directory'', ''/var/run/aecontrol-recovery'',
      ''--drill-id'', drill_id, ''--max-checkpoint-age-hours'', int_str (dc_checkpoint_max_age_hours c),
      ''--report-s3'', ''--report-retention-days'', int_str (dc_report_retention_days c), ''--json'']"

definition verifier_container :: "drill_configuration \<Rightarrow> string \<Rightarrow> string \<Rightarrow> json" where
  "verifier_container c cluster_name drill_id =
     JObj [(''name'', JStr ''verifier''), (''image'', JStr (dc_verifier_image c)),
       (''imagePullPolicy'', JStr ''IfNotPresent''),
       (''command'', JList [JStr ''/app/.venv/bin/aecontrol'']),
       (''args'', JList (map JStr (drill_arguments c drill_id))),
       (''env'', JList (drill_environment c cluster_name)),
       (''resources'', resources_json ''100m'' ''128Mi'' ''500m'' ''512Mi''),
       (''securityContext'', JObj [(''allowPrivilegeEscalation'', JBool False),
          (''capabilities'', JObj [(''drop'', JList [JStr ''ALL''])]),
          (''readOnlyRootFilesystem'', JBool True)]),
       (''volumeMounts'', JList [JObj [(''name'', JStr ''checkpoints''),
          (''mountPath'', JStr ''/var/run/aecontrol-recovery''), (''readOnly'', JBool True)]])]"

definition verification_job_manifest :: "drill_configuration \<Rightarrow> string \<Rightarrow> string \<Rightarrow> string \<Rightarrow> json" where
  "verification_job_manifest c cluster_name job_name drill_id =
     JObj [(''apiVersion'', JStr ''batch/v1''), (''kind'', JStr ''Job''),
       (''metadata'', JObj [(''name'', JStr job_name), (''namespace'', JStr (dc_namespace c)),
          (''labels'', drill_labels drill_id)]),
       (''spec'', JObj [(''backoffLimit'', JInt 0),
          (''activeDeadlineSeconds'', JInt (dc_verification_timeout_seconds c)),
          (''ttlSecondsAfterFinished'', JInt 1209600),
          (''template'', JObj [
             (''metadata'', JObj [(''labels'', drill_labels drill_id)]),
             (''spec'', JObj [(''automountServiceAccountToken'', JBool False), (''restartPolicy'', JStr ''Never''),
                (''securityContext'', JObj [(''runAsNonRoot'', JBool True),
                   (''seccompProfile'', JObj [(''type'', JStr ''RuntimeDefault'')])]),
                (''containers'', JList [verifier_container c cluster_name drill_id]),
                (''volumes'', JList [JObj [(''name'', JStr ''checkpoints''),
                   (''secret'', JObj [(''secretName'', JStr (dc_checkpoint_secret c)), (''defaultMode'', JInt 288)])]])])])])]"

subsection \<open>Pruning\<close>

definition json_text :: "(json \<Rightarrow> string) \<Rightarrow> json \<Rightarrow> string" where
  "json_text py_str v = (case v of JStr s \<Rightarrow> s | _ \<Rightarrow> py_str v)"

definition metadata_of :: "json_object \<Rightarrow> json_object option" where
  "metadata_of item = (case dict_get item ''metadata'' (JObj []) of JObj kvs \<Rightarrow> Some kvs | _ \<Rightarrow> None)"

definition creation_timestamp :: "(json \<Rightarrow> string) \<Rightarrow> json_object \<Rightarrow> string" where
  "creation_timestamp py_str item = (case metadata_of item of None \<Rightarrow> []
     | Some m \<Rightarrow> json_text py_str (dict_get m ''creationTimestamp'' (JStr [])))"

text \<open>The name of a cluster that pruning may delete.\<close>

definition prunable_name :: "(json \<Rightarrow> string) \<Rightarrow> json_object \<Rightarrow> string option" where
  "prunable_name py_str item = (case metadata_of item of None \<Rightarrow> None
     | Some m \<Rightarrow> (let name = json_text py_str (dict_get m ''name'' (JStr [])) in
         if fullmatch KUBERNETES_DNS_LABEL name then Some name else None))"

text \<open>\<open>ordered[:prune_count]\<close>\<close>

definition prune_candidates :: "(json \<Rightarrow> string) \<Rightarrow> drill_configuration \<Rightarrow> json_object list \<Rightarrow> json_object list" where
  "prune_candidates py_str c clusters =
     (let ordered = sort_key (creation_timestamp py_str) clusters in
      take (nat (max 0 (int (length ordered) - dc_max_failed_drills c + 1))) ordered)"

fun prune_each ::
  "'s drill_world \<Rightarrow> (json \<Rightarrow> string) \<Rightarrow> drill_configuration \<Rightarrow> json_object list \<Rightarrow> 's \<Rightarrow> unit result \<times> 's" where
  "prune_each W py_str c [] st = (Inr (), st)"
| "prune_each W py_str c (item # items) st =
     (case prunable_name py_str item of
        None \<Rightarrow> prune_each W py_str c items st
      | Some name \<Rightarrow>
          (case dw_delete_job W (dc_namespace c) (name @ ''-verify'') st of
             (Inl e, st1) \<Rightarrow> (Inl e, st1)
           | (Inr _, st1) \<Rightarrow>
               (case dw_delete_cluster W (dc_namespace c) name st1 of
                  (Inl e, st2) \<Rightarrow> (Inl e, st2)
                | (Inr _, st2) \<Rightarrow> prune_each W py_str c items st2)))"

definition prune_failed_drills ::
  "'s drill_world \<Rightarrow> (json \<Rightarrow> string) \<Rightarrow> drill_configuration \<Rightarrow> 's \<Rightarrow> unit result \<times> 's" where
  "prune_failed_drills W py_str c st =
     (case dw_list_clusters W (dc_namespace c) DRILL_LABEL_SELECTOR st of
        (Inl e, st1) \<Rightarrow> (Inl e, st1)
      | (Inr clusters, st1) \<Rightarrow> prune_each W py_str c (prune_candidates py_str c clusters) st1)"

subsection \<open>Waiting\<close>

text \<open>
  Both waits poll an object until it decides, the deadline passes, or reading it fails: \<open>decide\<close> is
  \<open>None\<close> while the loop goes on.
\<close>

partial_function (option) poll_until ::
  "('s \<Rightarrow> rat \<times> 's) \<Rightarrow> ('s \<Rightarrow> json_object result \<times> 's) \<Rightarrow> ('s \<Rightarrow> 's) \<Rightarrow> (json_object \<Rightarrow> unit result option)
     \<Rightarrow> string \<Rightarrow> rat \<Rightarrow> 's \<Rightarrow> (unit result \<times> 's) option" where
  "poll_until monotonic read pause decide timed_out deadline st =
     (case monotonic st of (t, st1) \<Rightarrow>
        if t < deadline then
          (case read st1 of
             (Inl e, st2) \<Rightarrow> Some (Inl e, st2)
           | (Inr observed, st2) \<Rightarrow>
               (case decide observed of
                  Some verdict \<Rightarrow> Some (verdict, st2)
                | None \<Rightarrow> poll_until monotonic read pause decide timed_out deadline (pause st2)))
        else Some (Inl (RecoveryDrillError timed_out), st1))"

definition status_of :: "json_object \<Rightarrow> json_object option" where
  "status_of item = (case dict_get item ''status'' (JObj []) of JObj kvs \<Rightarrow> Some kvs | _ \<Rightarrow> None)"

definition status_condition :: "json_object \<Rightarrow> string \<Rightarrow> bool" where
  "status_condition item condition_type = (case status_of item of None \<Rightarrow> False
     | Some s \<Rightarrow> condition_true (map_of s ''conditions'') condition_type)"

definition cluster_verdict :: "(json \<Rightarrow> string) \<Rightarrow> json_object \<Rightarrow> unit result option" where
  "cluster_verdict py_str cluster =
     (if status_condition cluster ''Ready'' then Some (Inr ())
      else let phase = (case status_of cluster of None \<Rightarrow> []
             | Some s \<Rightarrow> json_text py_str (dict_get s ''phase'' (JStr [])))
        in if lower phase \<in> {''error'', ''unrecoverable''}
           then Some (Inl (RecoveryDrillError ''recovery cluster entered a terminal failure phase'')) else None)"

text \<open>\<open>int(value)\<close> of a JSON value that is true; a float is truncated.\<close>

definition truncate_rat :: "rat \<Rightarrow> int" where
  "truncate_rat q = (if q \<ge> 0 then \<lfloor>q\<rfloor> else \<lceil>q\<rceil>)"

definition int_of_json :: "(string \<Rightarrow> int option) \<Rightarrow> json \<Rightarrow> int result" where
  "int_of_json parse_int v = (case v of
     JInt i \<Rightarrow> Inr i
   | JBool b \<Rightarrow> Inr (of_bool b)
   | JFloat (Fin q) \<Rightarrow> Inr (truncate_rat q)
   | JFloat NegZero \<Rightarrow> Inr 0
   | JFloat NonFinite \<Rightarrow> Inl (OverflowError ''cannot convert float infinity to integer'')
   | JStr s \<Rightarrow> (case parse_int s of None \<Rightarrow> Inl (ValueError ''invalid literal for int()'') | Some i \<Rightarrow> Inr i)
   | _ \<Rightarrow> Inl (TypeError ''int() argument must be a string or a number''))"

text \<open>\<open>int(status.get("succeeded", 0) or 0)\<close>\<close>

definition succeeded_count :: "(string \<Rightarrow> int option) \<Rightarrow> json_object \<Rightarrow> int result" where
  "succeeded_count parse_int s = (case map_of s ''succeeded'' of None \<Rightarrow> Inr 0
     | Some v \<Rightarrow> if json_true (Some v) then int_of_json parse_int v else Inr 0)"

definition job_verdict :: "(string \<Rightarrow> int option) \<Rightarrow> json_object \<Rightarrow> unit result option" where
  "job_verdict parse_int job =
     (case (case status_of job of None \<Rightarrow> Inr 0 | Some s \<Rightarrow> succeeded_count parse_int s) of
        Inl e \<Rightarrow> Some (Inl e)
      | Inr n \<Rightarrow>
          if n \<ge> 1 then Some (Inr ())
          else if status_condition job ''Failed''
          then Some (Inl (RecoveryDrillError ''recovery verification job failed''))
          else None)"

definition wait_for_cluster ::
  "'s drill_world \<Rightarrow> (json \<Rightarrow> string) \<Rightarrow> drill_configuration \<Rightarrow> string \<Rightarrow> 's \<Rightarrow> (unit result \<times> 's) option" where
  "wait_for_cluster W py_str c name st =
     (case dw_monotonic W st of (t, st1) \<Rightarrow>
        poll_until (dw_monotonic W) (dw_get_cluster W (dc_namespace c) name) (dw_sleep W (dc_poll_seconds c))
          (cluster_verdict py_str) ''recovery cluster readiness timed out''
          (t + of_int (dc_cluster_timeout_seconds c)) st1)"

definition wait_for_job ::
  "'s drill_world \<Rightarrow> (string \<Rightarrow> int option) \<Rightarrow> drill_configuration \<Rightarrow> string \<Rightarrow> 's \<Rightarrow> (unit result \<times> 's) option" where
  "wait_for_job W parse_int c name st =
     (case dw_monotonic W st of (t, st1) \<Rightarrow>
        poll_until (dw_monotonic W) (dw_get_job W (dc_namespace c) name) (dw_sleep W (dc_poll_seconds c))
          (job_verdict parse_int) ''recovery verification job timed out''
          (t + of_int (dc_verification_timeout_seconds c)) st1)"

subsection \<open>A run\<close>

record drill_outcome =
  do_drill_id :: string
  do_cluster_name :: string
  do_verification_job :: string
  do_started_at :: instant
  do_completed_at :: instant
  do_duration_seconds :: rat
  do_success :: bool
  do_restored_cluster_deleted :: bool
  do_report_archived :: bool

text \<open>An exception inside the \<open>try\<close> that is not a \<open>RecoveryDrillError\<close> becomes one.\<close>

definition drill_error :: "exn \<Rightarrow> exn" where
  "drill_error e = (case e of RecoveryDrillError m \<Rightarrow> e | _ \<Rightarrow> RecoveryDrillError ''recovery drill orchestration failed'')"

definition verify_in_cluster ::
  "'s drill_world \<Rightarrow> (json \<Rightarrow> string) \<Rightarrow> (string \<Rightarrow> int option) \<Rightarrow> drill_configuration \<Rightarrow> string \<Rightarrow> string \<Rightarrow> 's
     \<Rightarrow> (unit result \<times> 's) option" where
  "verify_in_cluster W py_str parse_int c drill_id job_name st =
     (case wait_for_cluster W py_str c drill_id st of
        None \<Rightarrow> None
      | Some (Inl e, st1) \<Rightarrow> Some (Inl (drill_error e), st1)
      | Some (Inr _, st1) \<Rightarrow>
          (case dw_create_job W (dc_namespace c) (verification_job_manifest c drill_id job_name drill_id) st1 of
             (Inl e, st2) \<Rightarrow> Some (Inl (drill_error e), st2)
           | (Inr _, st2) \<Rightarrow>
               (case wait_for_job W parse_int c job_name st2 of
                  None \<Rightarrow> None
                | Some (Inl e, st3) \<Rightarrow> Some (Inl (drill_error e), st3)
                | Some (Inr _, st3) \<Rightarrow> Some (Inr (), st3))))"

definition finish_drill ::
  "'s drill_world \<Rightarrow> drill_configuration \<Rightarrow> string \<Rightarrow> string \<Rightarrow> instant \<Rightarrow> 's \<Rightarrow> drill_outcome result \<times> 's" where
  "finish_drill W c drill_id job_name started_at st =
     (case dw_delete_job W (dc_namespace c) job_name st of
        (Inl e, st1) \<Rightarrow> (Inl e, st1)
      | (Inr _, st1) \<Rightarrow>
          (case dw_delete_cluster W (dc_namespace c) drill_id st1 of
             (Inl e, st2) \<Rightarrow> (Inl e, st2)
           | (Inr _, st2) \<Rightarrow>
               (case dw_now W st2 of (completed_at, st3) \<Rightarrow>
                  (Inr \<lparr>do_drill_id = drill_id, do_cluster_name = drill_id, do_verification_job = job_name,
                     do_started_at = started_at, do_completed_at = completed_at,
                     do_duration_seconds = max 0 (of_int (completed_at - started_at) / of_int second),
                     do_success = True, do_restored_cluster_deleted = True, do_report_archived = True\<rparr>, st3))))"

definition NONCE_PATTERN :: regex where
  "NONCE_PATTERN = exactly 6 (Cls (lower_az @ digits09))"

definition drill_id_of :: "(instant \<Rightarrow> string) \<Rightarrow> instant \<Rightarrow> string \<Rightarrow> string" where
  "drill_id_of stamp started_at suffix = ''aecontrol-drill-'' @ lower (stamp started_at) @ ''-'' @ suffix"

definition run_drill ::
  "'s drill_world \<Rightarrow> (json \<Rightarrow> string) \<Rightarrow> (string \<Rightarrow> int option) \<Rightarrow> (instant \<Rightarrow> string) \<Rightarrow> drill_configuration \<Rightarrow> 's
     \<Rightarrow> (drill_outcome result \<times> 's) option" where
  "run_drill W py_str parse_int stamp c st =
     (case dw_now W st of (started_at, st1) \<Rightarrow>
      case dw_nonce W st1 of (suffix, st2) \<Rightarrow>
        if \<not> fullmatch NONCE_PATTERN suffix
        then Some (Inl (RecoveryDrillError ''recovery drill nonce is invalid''), st2)
        else
          let drill_id = drill_id_of stamp started_at suffix; job_name = drill_id @ ''-verify'' in
          (case prune_failed_drills W py_str c st2 of
             (Inl e, st3) \<Rightarrow> Some (Inl e, st3)
           | (Inr _, st3) \<Rightarrow>
               (case dw_create_cluster W (dc_namespace c) (cluster_manifest c drill_id drill_id) st3 of
                  (Inl e, st4) \<Rightarrow> Some (Inl e, st4)
                | (Inr _, st4) \<Rightarrow>
                    (case verify_in_cluster W py_str parse_int c drill_id job_name st4 of
                       None \<Rightarrow> None
                     | Some (Inl e, st5) \<Rightarrow> Some (Inl e, st5)
                     | Some (Inr _, st5) \<Rightarrow> Some (finish_drill W c drill_id job_name started_at st5)))))"

end
