(* ===== verification/Drill_Properties.thy ===== *)
theory Drill_Properties
  imports Drill
begin

section \<open>What a recovery drill guarantees\<close>

text \<open>
  The world is arbitrary but for what the hypotheses say. A drill that reports success has observed the
  restored cluster ready and its verification job succeeded, in that order, and has deleted both; drill
  clusters do not pile up beyond the configured number; and a run ends when sleeping takes time.
\<close>

subsection \<open>Polling\<close>

lemma poll_observes:
  assumes "poll_until monotonic read pause decide timed_out deadline st = Some (Inr (), st')"
  shows "\<exists>st0 observed. read st0 = (Inr observed, st') \<and> decide observed = Some (Inr ())"
proof -
  have "fst out = Inr () \<longrightarrow> (\<exists>st0 observed. read st0 = (Inr observed, snd out) \<and> decide observed = Some (Inr ()))"
    if "poll_until monotonic read pause decide timed_out deadline st = Some out" for out st
    using that
  proof (induction rule: poll_until.raw_induct [rotated, consumes 1, case_names step])
    case (step poll monotonic read pause decide timed_out deadline st out)
    obtain t st1 where t: "monotonic st = (t, st1)" by fastforce
    obtain res st2 where res: "read st1 = (res, st2)" by fastforce
    note IH = step.IH [of monotonic read pause decide timed_out deadline "pause st2" out]
    show ?case
    proof (cases "t < deadline")
      case True
      show ?thesis
      proof (cases res)
        case (Inr observed)
        show ?thesis
        proof (cases "decide observed")
          case None
          then show ?thesis using step.hyps t res True IH Inr by simp
        next
          case (Some verdict)
          then have "out = (verdict, st2)" using step.hyps t res True Inr by simp
          then show ?thesis using Some res Inr by auto
        qed
      qed (use step.hyps t res True in auto)
    qed (use step.hyps t in auto)
  qed
  from this [OF assms] show ?thesis by simp
qed

text \<open>What the steps of a wait keep, the wait keeps.\<close>

lemma poll_keeps:
  assumes "poll_until monotonic read pause decide timed_out deadline st = Some out"
    and "\<And>st. m (snd (monotonic st)) = m st" "\<And>st. m (snd (read st)) = m st" "\<And>st. m (pause st) = m st"
  shows "m (snd out) = m st"
  using assms
proof (induction rule: poll_until.raw_induct [rotated, consumes 1, case_names step])
  case (step poll monotonic read pause decide timed_out deadline st out)
  obtain t st1 where t: "monotonic st = (t, st1)" by fastforce
  obtain res st2 where res: "read st1 = (res, st2)" by fastforce
  have m: "m st1 = m st" "m st2 = m st" "m (pause st2) = m st"
    using step.prems(1) [of st] step.prems(2) [of st1] step.prems(3) [of st2] t res by simp_all
  note IH = step.IH [of monotonic read pause decide timed_out deadline "pause st2" out, OF _ step.prems]
  show ?case
  proof (cases "t < deadline")
    case True
    show ?thesis
    proof (cases res)
      case (Inr observed)
      then show ?thesis using step.hyps t res True IH m by (cases "decide observed") auto
    qed (use step.hyps t res True m in auto)
  qed (use step.hyps t m in auto)
qed

lemma poll_ends:
  assumes "\<And>st. monotonic st = (time st, st)" and "\<And>st r st'. read st = (r, st') \<Longrightarrow> time st \<le> time st'"
    and "\<And>st. time st + of_int pause_length \<le> time (pause st)" and "0 < pause_length"
  shows "\<exists>out. poll_until monotonic read pause decide timed_out deadline st = Some (out :: unit result \<times> 's)"
proof (induction "nat \<lceil>(deadline - time st) / of_int pause_length\<rceil>" arbitrary: st rule: less_induct)
  case less
  obtain r st2 where r: "read st = (r, st2)" by fastforce
  show ?case
  proof (cases "time st < deadline \<and> (\<exists>observed. r = Inr observed \<and> decide observed = None)")
    case False
    then show ?thesis
      using assms(1) [of st] r by (subst poll_until.simps) (cases r; auto split: option.splits)
  next
    case True
    have "time st + of_int pause_length \<le> time (pause st2)"
      using assms(2) [OF r] assms(3) [of st2] by linarith
    then have "nat \<lceil>(deadline - time (pause st2)) / of_int pause_length\<rceil> < nat \<lceil>(deadline - time st) / of_int pause_length\<rceil>"
      using True assms(4) by (intro deadline_rounds_less) simp_all
    from less [OF this] show ?thesis
      using True assms(1) [of st] r by (subst poll_until.simps) auto
  qed
qed

subsection \<open>Success\<close>

text \<open>The calls whose results a successful drill has seen, each from the state the one before left.\<close>

definition drill_performed ::
  "'s drill_world \<Rightarrow> (json \<Rightarrow> string) \<Rightarrow> (string \<Rightarrow> int option) \<Rightarrow> drill_configuration \<Rightarrow> string \<Rightarrow> 's \<Rightarrow> bool" where
  "drill_performed W py_str parse_int c drill_id st' \<longleftrightarrow>
     (\<exists>s0 s1 s2 s3 s4 s5 s6 cluster job created completed_at.
        dw_get_cluster W (dc_namespace c) drill_id s0 = (Inr cluster, s1)
      \<and> status_condition cluster ''Ready''
      \<and> dw_create_job W (dc_namespace c) (verification_job_manifest c drill_id (drill_id @ ''-verify'') drill_id) s1
          = (Inr created, s2)
      \<and> dw_get_job W (dc_namespace c) (drill_id @ ''-verify'') s3 = (Inr job, s4)
      \<and> job_verdict parse_int job = Some (Inr ())
      \<and> dw_delete_job W (dc_namespace c) (drill_id @ ''-verify'') s4 = (Inr (), s5)
      \<and> dw_delete_cluster W (dc_namespace c) drill_id s5 = (Inr (), s6)
      \<and> dw_now W s6 = (completed_at, st'))"

lemma cluster_verdict_ready: "cluster_verdict py_str cluster = Some (Inr ()) \<Longrightarrow> status_condition cluster ''Ready''"
  by (auto simp: cluster_verdict_def Let_def split: if_splits)

text \<open>A recovery drill reports success only after it read the restored cluster as Ready, created the
  verification job in that state, read that job as succeeded, and then deleted the job and the cluster, each
  call having succeeded.\<close>

theorem drill_success_performed:
  assumes "run_drill W py_str parse_int stamp c st = Some (Inr r, st')"
  shows "drill_performed W py_str parse_int c (do_drill_id r) st'
    \<and> do_cluster_name r = do_drill_id r \<and> do_verification_job r = do_drill_id r @ ''-verify''
    \<and> do_success r \<and> 0 \<le> do_duration_seconds r"
proof -
  obtain started_at st1 suffix st2 where nonce: "dw_now W st = (started_at, st1)" "dw_nonce W st1 = (suffix, st2)" by fastforce
  let ?id = "drill_id_of stamp started_at suffix"
  obtain st4 st5 where verified: "verify_in_cluster W py_str parse_int c ?id (?id @ ''-verify'') st4 = Some (Inr (), st5)"
    and finished: "finish_drill W c ?id (?id @ ''-verify'') started_at st5 = (Inr r, st')"
    using assms nonce by (auto simp: run_drill_def Let_def split: if_splits prod.splits sum.splits option.splits)
  obtain s1 s2 created where ready: "wait_for_cluster W py_str c ?id st4 = Some (Inr (), s1)"
    and job: "dw_create_job W (dc_namespace c) (verification_job_manifest c ?id (?id @ ''-verify'') ?id) s1 = (Inr created, s2)"
    and succeeded: "wait_for_job W parse_int c (?id @ ''-verify'') s2 = Some (Inr (), st5)"
    using verified by (auto simp: verify_in_cluster_def split: prod.splits sum.splits option.splits)
  obtain s0 cluster where cluster: "dw_get_cluster W (dc_namespace c) ?id s0 = (Inr cluster, s1)" "status_condition cluster ''Ready''"
    using ready poll_observes cluster_verdict_ready unfolding wait_for_cluster_def by (fastforce split: prod.splits)
  obtain s3 j where j: "dw_get_job W (dc_namespace c) (?id @ ''-verify'') s3 = (Inr j, st5)" "job_verdict parse_int j = Some (Inr ())"
    using succeeded poll_observes unfolding wait_for_job_def by (fastforce split: prod.splits)
  obtain s5 s6 completed_at where
    "dw_delete_job W (dc_namespace c) (?id @ ''-verify'') st5 = (Inr (), s5)"
    "dw_delete_cluster W (dc_namespace c) ?id s5 = (Inr (), s6)" "dw_now W s6 = (completed_at, st')"
    and r: "do_drill_id r = ?id" "do_cluster_name r = ?id" "do_verification_job r = ?id @ ''-verify''" "do_success r"
      "0 \<le> do_duration_seconds r"
    using finished by (auto simp: finish_drill_def split: prod.splits sum.splits)
  then have "drill_performed W py_str parse_int c ?id st'"
    using cluster job j unfolding drill_performed_def by blast
  then show ?thesis using r by simp
qed

subsection \<open>Drill clusters do not pile up\<close>

text \<open>
  A world whose drill clusters have the names \<open>names st\<close>, all of them DNS labels: a listing shows them,
  creating a drill's cluster adds one, a successful deletion removes one, and nothing else changes them.
\<close>

definition keeps_names :: "('s \<Rightarrow> string list) \<Rightarrow> ('s \<Rightarrow> 'r \<times> 's) \<Rightarrow> bool" where
  "keeps_names names f \<longleftrightarrow> (\<forall>st. names (snd (f st)) = names st)"

definition drill_store ::
  "(json \<Rightarrow> string) \<Rightarrow> drill_configuration \<Rightarrow> ('s \<Rightarrow> string list) \<Rightarrow> 's drill_world \<Rightarrow> bool" where
  "drill_store py_str c names W \<longleftrightarrow>
     (\<forall>st. distinct (names st))
   \<and> keeps_names names (dw_list_clusters W (dc_namespace c) DRILL_LABEL_SELECTOR)
   \<and> (\<forall>st items st'. dw_list_clusters W (dc_namespace c) DRILL_LABEL_SELECTOR st = (Inr items, st') \<longrightarrow>
        map (prunable_name py_str) items = map Some (names st))
   \<and> (\<forall>name st e st'. dw_delete_cluster W (dc_namespace c) name st = (Inl e, st') \<longrightarrow> set (names st') \<subseteq> set (names st))
   \<and> (\<forall>name st st'. dw_delete_cluster W (dc_namespace c) name st = (Inr (), st') \<longrightarrow> names st' = removeAll name (names st))
   \<and> (\<forall>name st r st'. dw_create_cluster W (dc_namespace c) (cluster_manifest c name name) st = (r, st') \<longrightarrow>
        names st' = names st \<or> names st' = names st @ [name])
   \<and> (\<forall>name. keeps_names names (dw_get_cluster W (dc_namespace c) name))
   \<and> (\<forall>body. keeps_names names (dw_create_job W (dc_namespace c) body))
   \<and> (\<forall>name. keeps_names names (dw_get_job W (dc_namespace c) name))
   \<and> (\<forall>name. keeps_names names (dw_delete_job W (dc_namespace c) name))
   \<and> keeps_names names (dw_now W) \<and> keeps_names names (dw_monotonic W) \<and> keeps_names names (dw_nonce W)
   \<and> (\<forall>n st. names (dw_sleep W n st) = names st)"

lemma keeps_namesD: "keeps_names names f \<Longrightarrow> f st = (r, st') \<Longrightarrow> names st' = names st"
  unfolding keeps_names_def by (metis snd_conv)

lemma drill_storeD:
  assumes "drill_store py_str c names W"
  shows "distinct (names st)"
    and "dw_list_clusters W (dc_namespace c) DRILL_LABEL_SELECTOR st = (lr, st') \<Longrightarrow> names st' = names st"
    and "dw_list_clusters W (dc_namespace c) DRILL_LABEL_SELECTOR st = (Inr items, st') \<Longrightarrow>
      map (prunable_name py_str) items = map Some (names st)"
    and "dw_delete_cluster W (dc_namespace c) name st = (Inl e, st') \<Longrightarrow> set (names st') \<subseteq> set (names st)"
    and "dw_delete_cluster W (dc_namespace c) name st = (Inr (), st') \<Longrightarrow> names st' = removeAll name (names st)"
    and "dw_create_cluster W (dc_namespace c) (cluster_manifest c name name) st = (cr, st') \<Longrightarrow>
      names st' = names st \<or> names st' = names st @ [name]"
    and "dw_get_cluster W (dc_namespace c) name st = (gr, st') \<Longrightarrow> names st' = names st"
    and "dw_create_job W (dc_namespace c) body st = (gr, st') \<Longrightarrow> names st' = names st"
    and "dw_get_job W (dc_namespace c) name st = (gr, st') \<Longrightarrow> names st' = names st"
    and "dw_delete_job W (dc_namespace c) name st = (dr, st') \<Longrightarrow> names st' = names st"
    and "dw_now W st = (ir, st') \<Longrightarrow> names st' = names st"
    and "dw_monotonic W st = (qr, st') \<Longrightarrow> names st' = names st"
    and "dw_nonce W st = (sr, st') \<Longrightarrow> names st' = names st"
    and "names (dw_sleep W n st) = names st"
  using assms unfolding drill_store_def keeps_names_def by (metis snd_conv)+

lemma names_fewer:
  assumes "drill_store py_str c names W" "set (names st') \<subseteq> set (names st)"
  shows "length (names st') \<le> length (names st)"
  using card_mono [OF _ assms(2)] drill_storeD(1) [OF assms(1)] by (simp add: distinct_card)

lemma waits_keep_names:
  assumes "drill_store py_str c names W"
  shows "wait_for_cluster W py_str c name st = Some out \<Longrightarrow> names (snd out) = names st"
    and "wait_for_job W parse_int c name st = Some out \<Longrightarrow> names (snd out) = names st"
proof -
  note D = drill_storeD [OF assms]
  have m: "names (snd (dw_monotonic W st)) = names st" "names (snd (dw_get_cluster W (dc_namespace c) name st)) = names st"
    "names (snd (dw_get_job W (dc_namespace c) name st)) = names st" for name st
    using D(12) [OF prod.collapse [symmetric]] D(7) [OF prod.collapse [symmetric]] D(9) [OF prod.collapse [symmetric]] by blast+
  have mono: "dw_monotonic W st = (t, st1) \<Longrightarrow> names st1 = names st" for t st1 by (rule D(12))
  show "wait_for_cluster W py_str c name st = Some out \<Longrightarrow> names (snd out) = names st"
    unfolding wait_for_cluster_def using mono
    by (auto dest!: poll_keeps [where m = names] simp: m D(14) split: prod.splits)
  show "wait_for_job W parse_int c name st = Some out \<Longrightarrow> names (snd out) = names st"
    unfolding wait_for_job_def using mono
    by (auto dest!: poll_keeps [where m = names] simp: m D(14) split: prod.splits)
qed

lemma prune_each_names:
  assumes "drill_store py_str c names W"
  shows "prune_each W py_str c items st = (r, st') \<Longrightarrow>
    set (names st') \<subseteq> set (names st) \<and>
    (r = Inr () \<longrightarrow> set (names st') \<subseteq> set (names st) - {name. Some name \<in> prunable_name py_str ` set items})"
proof (induction items arbitrary: st)
  case (Cons item items)
  note D = drill_storeD [OF assms]
  show ?case
  proof (cases "prunable_name py_str item")
    case None
    then show ?thesis using Cons by auto
  next
    case (Some name)
    obtain r1 st1 where job: "dw_delete_job W (dc_namespace c) (name @ ''-verify'') st = (r1, st1)" by fastforce
    obtain r2 st2 where cluster: "dw_delete_cluster W (dc_namespace c) name st1 = (r2, st2)" by fastforce
    have same: "names st1 = names st" using D(10) [OF job] .
    consider (job_failed) e where "r1 = Inl e" | (cluster_failed) e where "r1 = Inr ()" "r2 = Inl e" | (deleted) "r1 = Inr ()" "r2 = Inr ()"
      by (cases r1; cases r2) auto
    then show ?thesis
    proof cases
      case job_failed
      then show ?thesis using Cons.prems Some job same by auto
    next
      case cluster_failed
      then show ?thesis using Cons.prems Some job cluster same D(4) [of name st1 _ st2] by auto
    next
      case deleted
      then have "names st2 = removeAll name (names st)" using D(5) [of name st1 st2] cluster same by simp
      moreover have "prune_each W py_str c items st2 = (r, st')" using Cons.prems Some job cluster deleted by simp
      from Cons.IH [OF this] have "set (names st') \<subseteq> set (names st2)"
        "r = Inr () \<longrightarrow> set (names st') \<subseteq> set (names st2) - {name. Some name \<in> prunable_name py_str ` set items}" by auto
      ultimately show ?thesis using Some by auto
    qed
  qed
qed simp

text \<open>After pruning, fewer drill clusters remain than may fail.\<close>

lemma prune_leaves:
  assumes store: "drill_store py_str c names W" and "1 \<le> dc_max_failed_drills c"
    and prune: "prune_failed_drills W py_str c st = (r, st')"
  shows "length (names st') \<le> length (names st) \<and> (r = Inr () \<longrightarrow> int (length (names st')) < dc_max_failed_drills c)"
proof -
  note D = drill_storeD [OF store]
  obtain lr st1 where list: "dw_list_clusters W (dc_namespace c) DRILL_LABEL_SELECTOR st = (lr, st1)" by fastforce
  have same: "names st1 = names st" using D(2) [OF list] .
  show ?thesis
  proof (cases lr)
    case (Inl e)
    then show ?thesis using prune list same by (auto simp: prune_failed_drills_def)
  next
    case (Inr items)
    let ?sorted = "sort_key (creation_timestamp py_str) items"
    let ?k = "nat (max 0 (int (length items) - dc_max_failed_drills c + 1))"
    have map: "map (prunable_name py_str) items = map Some (names st)" using D(3) [of st items st1] list Inr by simp
    have len: "length items = length (names st)" using arg_cong [OF map, of length] by simp
    have "mset (map (prunable_name py_str) ?sorted) = mset (map Some (names st))" using map by (metis mset_map mset_sort)
    then have distinct: "distinct (map (prunable_name py_str) ?sorted)" and members: "set (map (prunable_name py_str) ?sorted) = Some ` set (names st)"
      using D(1) [of st] by (metis distinct_map inj_Some inj_on_subset mset_eq_imp_distinct_iff subset_UNIV)
        (metis \<open>mset _ = _\<close> list.set_map mset_eq_setD)
    let ?pruned = "{name. Some name \<in> prunable_name py_str ` set (prune_candidates py_str c items)}"
    have image: "Some ` ?pruned = set (take ?k (map (prunable_name py_str) ?sorted))"
    proof -
      have "set (take ?k (map (prunable_name py_str) ?sorted)) \<subseteq> range Some"
        using members set_take_subset [of ?k "map (prunable_name py_str) ?sorted"] by auto
      moreover have "set (take ?k (map (prunable_name py_str) ?sorted)) = prunable_name py_str ` set (prune_candidates py_str c items)"
        by (simp add: prune_candidates_def Let_def take_map)
      moreover have "Some ` {name. Some name \<in> T} = T" if "T \<subseteq> range Some" for T :: "string option set"
        using that by auto
      ultimately show ?thesis by metis
    qed
    have "card ?pruned = card (Some ` ?pruned)" by (simp add: card_image)
    also have "\<dots> = min (length items) ?k" using distinct by (simp only: image distinct_card [OF distinct_take]) simp
    finally have card: "card ?pruned = min (length items) ?k" .
    have "Some ` ?pruned \<subseteq> Some ` set (names st)"
      using members set_take_subset [of ?k "map (prunable_name py_str) ?sorted"] image by simp
    then have subset: "?pruned \<subseteq> set (names st)" by (simp only: inj_image_subset_iff [OF inj_Some])
    have run: "prune_each W py_str c (prune_candidates py_str c items) st1 = (r, st')"
      using prune list Inr by (simp add: prune_failed_drills_def)
    from prune_each_names [OF store run] have le: "set (names st') \<subseteq> set (names st)"
      and ok: "r = Inr () \<longrightarrow> set (names st') \<subseteq> set (names st) - ?pruned" using same by auto
    have "int (length (names st')) < dc_max_failed_drills c" if "r = Inr ()"
    proof -
      have "length (names st') = card (set (names st'))" using D(1) [of st'] by (simp add: distinct_card)
      also have "\<dots> \<le> card (set (names st) - ?pruned)" using ok that by (intro card_mono) auto
      also have "\<dots> = length (names st) - min (length items) ?k"
        using card card_Diff_subset [OF finite_subset [OF subset] subset] D(1) [of st] by (simp add: distinct_card)
      finally show ?thesis using len assms(2) by linarith
    qed
    then show ?thesis using names_fewer [OF store le] by blast
  qed
qed


subsection \<open>Termination\<close>

text \<open>A drill ends, with an outcome or an error, when the clock does not run backwards and each sleep of
  the polling interval lasts at least that long, whatever the Kubernetes API answers.\<close>

theorem drill_terminates:
  assumes "\<And>st. dw_monotonic W st = (time st, st)"
    and "\<And>ns name st r st'. dw_get_cluster W ns name st = (r, st') \<Longrightarrow> time st \<le> time st'"
    and "\<And>ns name st r st'. dw_get_job W ns name st = (r, st') \<Longrightarrow> time st \<le> time st'"
    and "\<And>st. time st + of_int (dc_poll_seconds c) \<le> time (dw_sleep W (dc_poll_seconds c) st)"
    and "make_drill_configuration c = Inr c"
  shows "\<exists>out. run_drill W py_str parse_int stamp c st = Some out"
proof -
  have pos: "0 < dc_poll_seconds c"
    using assms(5) by (auto simp: make_drill_configuration_def drill_fields_ok_def split: if_splits)
  have cluster: "\<exists>out. wait_for_cluster W py_str c name st = Some out" for name st
    using poll_ends [where monotonic = "dw_monotonic W" and time = time and read = "dw_get_cluster W (dc_namespace c) name"
        and pause = "dw_sleep W (dc_poll_seconds c)" and pause_length = "dc_poll_seconds c", OF assms(1) assms(2) assms(4) pos]
    by (simp add: wait_for_cluster_def assms(1))
  have job: "\<exists>out. wait_for_job W parse_int c name st = Some out" for name st
    using poll_ends [where monotonic = "dw_monotonic W" and time = time and read = "dw_get_job W (dc_namespace c) name"
        and pause = "dw_sleep W (dc_poll_seconds c)" and pause_length = "dc_poll_seconds c", OF assms(1) assms(3) assms(4) pos]
    by (simp add: wait_for_job_def assms(1))
  have "\<exists>out. verify_in_cluster W py_str parse_int c i j st = Some out" for i j st
  proof -
    obtain r1 st1 where r1: "wait_for_cluster W py_str c i st = Some (r1, st1)" using cluster by (metis surj_pair)
    obtain r2 st2 where r2: "dw_create_job W (dc_namespace c) (verification_job_manifest c i j i) st1 = (r2, st2)" by fastforce
    obtain r3 st3 where r3: "wait_for_job W parse_int c j st2 = Some (r3, st3)" using job by (metis surj_pair)
    show ?thesis using r1 r2 r3 by (cases r1; cases r2; cases r3) (simp_all add: verify_in_cluster_def)
  qed
  note verify = this
  obtain started_at st1 suffix st2 where nonce: "dw_now W st = (started_at, st1)" "dw_nonce W st1 = (suffix, st2)" by fastforce
  let ?id = "drill_id_of stamp started_at suffix"
  obtain pr st3 where prune: "prune_failed_drills W py_str c st2 = (pr, st3)" by fastforce
  obtain cr st4 where create: "dw_create_cluster W (dc_namespace c) (cluster_manifest c ?id ?id) st3 = (cr, st4)" by fastforce
  obtain vr st5 where "verify_in_cluster W py_str parse_int c ?id (?id @ ''-verify'') st4 = Some (vr, st5)"
    using verify by (metis surj_pair)
  then show ?thesis
    using nonce prune create by (cases pr; cases cr; cases vr) (simp_all add: run_drill_def Let_def)
qed

subsection \<open>A concrete drill\<close>

definition ex_drill :: drill_configuration where
  "ex_drill = \<lparr>dc_namespace = ''db'', dc_source_cluster = ''main'', dc_object_store = ''backup'',
     dc_checkpoint_secret = ''cp'', dc_verifier_secret = ''vs'', dc_report_secret = ''rs'',
     dc_verifier_image = ''img:1'', dc_postgres_image = ''pg:17'', dc_storage_size = ''20Gi'',
     dc_wal_storage_size = ''5Gi'', dc_cluster_timeout_seconds = 3600, dc_verification_timeout_seconds = 1800,
     dc_poll_seconds = 10, dc_max_failed_drills = 1, dc_checkpoint_max_age_hours = 168,
     dc_report_retention_days = 90\<rparr>"

text \<open>A world with a clock in seconds and the names of its drill clusters, where everything succeeds.\<close>

definition manifest_name :: "json \<Rightarrow> string" where
  "manifest_name body = (case body of
     JObj [_, _, (_, JObj ((_, JStr name) # _)), _] \<Rightarrow> name | _ \<Rightarrow> [])"

definition ex_item :: "string \<Rightarrow> json_object" where
  "ex_item name = [(''metadata'', JObj [(''name'', JStr name)])]"

definition label_names :: "string list \<Rightarrow> string list" where
  "label_names names = filter (fullmatch KUBERNETES_DNS_LABEL) (remdups names)"

definition ex_drill_world :: "(rat \<times> string list) drill_world" where
  "ex_drill_world =
     \<lparr>dw_create_cluster = (\<lambda>ns body (t, names).
        if manifest_name body \<in> set names \<or> \<not> fullmatch KUBERNETES_DNS_LABEL (manifest_name body)
        then (Inl (RecoveryDrillError ''409''), (t, names)) else (Inr [], (t, names @ [manifest_name body]))),
      dw_get_cluster = (\<lambda>ns name st. (Inr [(''status'', JObj [(''conditions'',
        JList [JObj [(''type'', JStr ''Ready''), (''status'', JStr ''True'')]])])], st)),
      dw_list_clusters = (\<lambda>ns selector st. (Inr (map ex_item (label_names (snd st))), st)),
      dw_delete_cluster = (\<lambda>ns name (t, names). (Inr (), (t, removeAll name names))),
      dw_create_job = (\<lambda>ns body st. (Inr [], st)),
      dw_get_job = (\<lambda>ns name st. (Inr [(''status'', JObj [(''succeeded'', JInt 1)])], st)),
      dw_delete_job = (\<lambda>ns name st. (Inr (), st)),
      dw_now = (\<lambda>st. (0, st)), dw_monotonic = (\<lambda>st. (fst st, st)),
      dw_sleep = (\<lambda>n (t, names). (t + of_int n, names)), dw_nonce = (\<lambda>st. (''abc123'', st))\<rparr>"

abbreviation ex_run_drill :: "rat \<times> string list \<Rightarrow> (drill_outcome result \<times> rat \<times> string list) option" where
  "ex_run_drill \<equiv> run_drill ex_drill_world (\<lambda>_. []) (\<lambda>_. None) (\<lambda>_. ''20260101000000'') ex_drill"

lemma ex_drill_ok: "make_drill_configuration ex_drill = Inr ex_drill"
  by code_simp

lemma ex_drill_run: "\<exists>r. ex_run_drill (0, []) = Some (Inr r, (0, [])) \<and> do_drill_id r = ''aecontrol-drill-20260101000000-abc123''"
proof -
  let ?id = "''aecontrol-drill-20260101000000-abc123''"
  have nonce: "fullmatch NONCE_PATTERN ''abc123''" by code_simp
  have label: "fullmatch KUBERNETES_DNS_LABEL ?id" by code_simp
  have id: "drill_id_of (\<lambda>_. ''20260101000000'') 0 ''abc123'' = ?id" by code_simp
  have cluster: "wait_for_cluster ex_drill_world (\<lambda>_. []) ex_drill ?id st = Some (Inr (), st)" for st
    by (simp add: wait_for_cluster_def ex_drill_world_def poll_until.simps ex_drill_def cluster_verdict_def
        status_condition_def status_of_def condition_true_def split: prod.splits)
  have job: "wait_for_job ex_drill_world (\<lambda>_. None) ex_drill (?id @ ''-verify'') st = Some (Inr (), st)" for st
    by (simp add: wait_for_job_def ex_drill_world_def poll_until.simps ex_drill_def job_verdict_def
        status_of_def succeeded_count_def int_of_json_def split: prod.splits)
  have verify: "verify_in_cluster ex_drill_world (\<lambda>_. []) (\<lambda>_. None) ex_drill ?id (?id @ ''-verify'') st = Some (Inr (), st)" for st
    using cluster job by (simp add: verify_in_cluster_def) (simp add: ex_drill_world_def)
  have prune: "prune_failed_drills ex_drill_world (\<lambda>_. []) ex_drill (0, []) = (Inr (), (0, []))"
    by (simp add: prune_failed_drills_def ex_drill_world_def prune_candidates_def label_names_def)
  have create: "dw_create_cluster ex_drill_world (dc_namespace ex_drill) (cluster_manifest ex_drill ?id ?id) (0, []) = (Inr [], (0, [?id]))"
    using label by (simp add: ex_drill_world_def manifest_name_def cluster_manifest_def del: fullmatch.simps)
  have now: "dw_now ex_drill_world st = (0, st)" "dw_nonce ex_drill_world st = (''abc123'', st)" for st
    by (simp_all add: ex_drill_world_def)
  have "\<exists>r. finish_drill ex_drill_world ex_drill ?id (?id @ ''-verify'') 0 (0, [?id]) = (Inr r, (0, [])) \<and> do_drill_id r = ?id"
    by (simp add: finish_drill_def ex_drill_world_def)
  then show ?thesis
    unfolding run_drill_def now prod.case id Let_def prune create verify using nonce by (auto simp del: fullmatch.simps)
qed

lemma label_names_simps:
  "label_names (removeAll n names) = removeAll n (label_names names)"
  "n \<notin> set names \<Longrightarrow> fullmatch KUBERNETES_DNS_LABEL n \<Longrightarrow> label_names (names @ [n]) = label_names names @ [n]"
proof -
  show "label_names (removeAll n names) = removeAll n (label_names names)"
    by (simp add: label_names_def removeAll_filter_not_eq remdups_filter conj_commute del: fullmatch.simps)
  have "n \<notin> set names \<Longrightarrow> remdups (names @ [n]) = remdups names @ [n]" by (induction names) auto
  then show "n \<notin> set names \<Longrightarrow> fullmatch KUBERNETES_DNS_LABEL n \<Longrightarrow> label_names (names @ [n]) = label_names names @ [n]"
    by (simp add: label_names_def del: fullmatch.simps)
qed

lemma ex_drill_store: "drill_store (\<lambda>_. []) ex_drill (\<lambda>st. label_names (snd st)) ex_drill_world"
proof -
  have item: "prunable_name (\<lambda>_. []) (ex_item n) = (if fullmatch KUBERNETES_DNS_LABEL n then Some n else None)" for n
    by (simp add: prunable_name_def metadata_of_def ex_item_def json_text_def del: fullmatch.simps)
  have items: "map (prunable_name (\<lambda>_. [])) (map ex_item (label_names names)) = map Some (label_names names)" for names
    by (simp add: item label_names_def del: fullmatch.simps)
  have name: "manifest_name (cluster_manifest ex_drill n n) = n" for n
    by (simp add: manifest_name_def cluster_manifest_def)
  show ?thesis
    unfolding drill_store_def keeps_names_def
    by (auto simp: ex_drill_world_def items [unfolded map_map comp_def] name label_names_simps comp_def
        simp del: fullmatch.simps split: if_splits) (simp add: label_names_def)
qed


theorem drill_success_performed_witness:
  "\<exists>r st'. ex_run_drill (0, []) = Some (Inr r, st')
     \<and> drill_performed ex_drill_world (\<lambda>_. []) (\<lambda>_. None) ex_drill ''aecontrol-drill-20260101000000-abc123'' st'"
  using ex_drill_run drill_success_performed [of ex_drill_world "\<lambda>_. []" "\<lambda>_. None" "\<lambda>_. ''20260101000000''" ex_drill "(0, [])"]
  by metis

theorem drill_terminates_witness: "\<exists>out. ex_run_drill (5, [''old'']) = Some out"
  by (rule drill_terminates [where time = fst]) (auto simp: ex_drill_world_def ex_drill_ok)

end
