(* ===== verification/Dcgm.thy ===== *)
theory Dcgm
  imports Job_Models Url Base64 Canonical_Json
begin

section \<open>GPU telemetry from the DCGM exporter (\<open>dcgm.py\<close>)\<close>

text \<open>
  The configuration, the scrape, the samples it yields and how they replace the live values of a GPU.
  The HTTP transport, UTF-8 decoding, \<open>float\<close> of a text and the Prometheus text parser (a package) are
  parameters. The parser is a generator: it yields metrics and may then raise, so its result is the list it
  yielded with the exception that ended it, if any.
\<close>

definition MAX_RESPONSE_BYTES :: nat where "MAX_RESPONSE_BYTES = 2 * 1024 * 1024"

definition DCGM_METRICS :: "string list" where
  "DCGM_METRICS = [''DCGM_FI_DEV_FB_USED'', ''DCGM_FI_DEV_FB_FREE'', ''DCGM_FI_DEV_GPU_UTIL'',
     ''DCGM_FI_PROF_GR_ENGINE_ACTIVE'', ''DCGM_FI_DEV_GPU_TEMP'', ''DCGM_FI_DEV_POWER_USAGE'']"

abbreviation DcgmExporterError :: "string \<Rightarrow> exn" where
  "DcgmExporterError \<equiv> ServiceError ''DcgmExporterError''"

record dcgm_configuration =
  xc_enabled :: bool
  xc_endpoint :: "string option"
  xc_endpoint_host :: "string option"
  xc_timeout_seconds :: rat
  xc_pod_name :: "string option"

record dcgm_sample =
  ds_uuid :: string
  ds_mig_profile :: "string option"
  ds_gpu_instance_id :: "string option"
  ds_pod_name :: "string option"
  ds_values :: "(string, rat) dict"

subsection \<open>Configuration\<close>

definition dcgm_timeout :: "(string \<Rightarrow> py_float option) \<Rightarrow> string \<Rightarrow> rat result" where
  "dcgm_timeout parse_float value =
     (case parse_float value of
        None \<Rightarrow> Inl (ValueError ''AECONTROL_DCGM_TIMEOUT_SECONDS must be a number'')
      | Some (PyFinite t) \<Rightarrow>
          if 1 / 10 \<le> t \<and> t \<le> 10 then Inr t
          else Inl (ValueError ''AECONTROL_DCGM_TIMEOUT_SECONDS must be between 0.1 and 10 seconds'')
      | Some _ \<Rightarrow> Inl (ValueError ''AECONTROL_DCGM_TIMEOUT_SECONDS must be between 0.1 and 10 seconds''))"

definition dcgm_configuration_from_environment ::
  "(string \<Rightarrow> bool) \<Rightarrow> (string \<Rightarrow> py_float option) \<Rightarrow> string \<Rightarrow> (string \<Rightarrow> string option)
     \<Rightarrow> dcgm_configuration result" where
  "dcgm_configuration_from_environment ip_ok parse_float hostname env =
     (let get = (\<lambda>name default. case env name of None \<Rightarrow> default | Some v \<Rightarrow> v);
          endpoint = strip (get ''AECONTROL_DCGM_EXPORTER_URL'' []) in
      if endpoint = []
      then Inr \<lparr>xc_enabled = False, xc_endpoint = None, xc_endpoint_host = None, xc_timeout_seconds = 1,
             xc_pod_name = None\<rparr>
      else
        bind_result (urlsplit ip_ok endpoint) (\<lambda>parsed.
        if up_scheme parsed \<notin> {''http'', ''https''} \<or> \<not> truthy (url_hostname parsed)
        then Inl (ValueError ''AECONTROL_DCGM_EXPORTER_URL must be an absolute HTTP(S) URL'')
        else if up_fragment parsed \<noteq> []
        then Inl (ValueError ''AECONTROL_DCGM_EXPORTER_URL must not contain a fragment'')
        else
          bind_result (dcgm_timeout parse_float (get ''AECONTROL_DCGM_TIMEOUT_SECONDS'' ''1'')) (\<lambda>timeout.
          let pod_name = strip (get ''AECONTROL_DCGM_POD_NAME'' hostname) in
          Inr \<lparr>xc_enabled = True, xc_endpoint = Some endpoint, xc_endpoint_host = url_hostname parsed,
             xc_timeout_seconds = timeout, xc_pod_name = (if pod_name = [] then None else Some pod_name)\<rparr>)))"

subsection \<open>Scraping\<close>

record dcgm_request =
  dr_url :: string
  dr_headers :: "(string, string) dict"
  dr_timeout_seconds :: rat

text \<open>\<open>Scrape_failed\<close> stands for the four named classes, \<open>Scrape_raises\<close> for any other exception.\<close>

datatype dcgm_response = Scrape_body string | Scrape_failed | Scrape_raises exn

definition USES_NETLOC :: "string list" where
  "USES_NETLOC = [[], ''ftp'', ''http'', ''gopher'', ''nntp'', ''telnet'', ''imap'', ''wais'', ''file'', ''mms'',
     ''https'', ''shttp'', ''snews'', ''prospero'', ''rtsp'', ''rtsps'', ''rtspu'', ''rsync'', ''svn'', ''svn+ssh'',
     ''sftp'', ''nfs'', ''git'', ''git+ssh'', ''ws'', ''wss'', ''itms-services'']"

definition urlunsplit :: "string \<Rightarrow> string \<Rightarrow> string \<Rightarrow> string \<Rightarrow> string" where
  "urlunsplit scheme netloc path query =
     (let rooted = (if path \<noteq> [] \<and> take 1 path \<noteq> ''/'' then ''/'' @ path else path);
          url = (if netloc \<noteq> [] then ''//'' @ netloc @ rooted
                 else if take 2 path = ''//'' then ''//'' @ path
                 else if scheme \<noteq> [] \<and> scheme \<in> set USES_NETLOC \<and> (path = [] \<or> take 1 path = ''/'')
                 then ''//'' @ path else path) in
      (if scheme \<noteq> [] then scheme @ '':'' @ url else url) @ (if query \<noteq> [] then ''?'' @ query else []))"

definition scrape_netloc :: "url_parts \<Rightarrow> string result" where
  "scrape_netloc parsed =
     (let host = (case url_hostname parsed of None \<Rightarrow> [] | Some h \<Rightarrow> h);
          netloc = (if CHR '':'' \<in> set host then ''['' @ host @ '']'' else host) in
      bind_result (url_port parsed) (\<lambda>port.
      Inr (case port of None \<Rightarrow> netloc | Some p \<Rightarrow> netloc @ '':'' @ nat_str p)))"

definition scrape_headers :: "url_parts \<Rightarrow> (string, string) dict" where
  "scrape_headers parsed =
     [(''Accept'', ''text/plain''), (''User-Agent'', ''aecontrol-dcgm/1'')] @
     (case url_userinfo parsed of
        (None, _) \<Rightarrow> []
      | (Some username, password) \<Rightarrow>
          [(''Authorization'', ''Basic '' @
              b64encode (utf8 (username @ '':'' @ (case password of None \<Rightarrow> [] | Some p \<Rightarrow> p))))])"

definition scrape_request :: "(string \<Rightarrow> bool) \<Rightarrow> dcgm_configuration \<Rightarrow> dcgm_request result" where
  "scrape_request ip_ok c =
     (case xc_endpoint c of
        None \<Rightarrow> Inl (DcgmExporterError ''DCGM Exporter endpoint is not configured'')
      | Some endpoint \<Rightarrow>
          bind_result (urlsplit ip_ok endpoint) (\<lambda>parsed.
          bind_result (scrape_netloc parsed) (\<lambda>netloc.
          Inr \<lparr>dr_url = urlunsplit (up_scheme parsed) netloc (up_path parsed) (up_query parsed),
             dr_headers = scrape_headers parsed, dr_timeout_seconds = xc_timeout_seconds c\<rparr>)))"

definition scrape_payload :: "(string \<Rightarrow> string option) \<Rightarrow> dcgm_response \<Rightarrow> string result" where
  "scrape_payload decode response =
     (case response of
        Scrape_failed \<Rightarrow> Inl (DcgmExporterError ''DCGM Exporter scrape failed'')
      | Scrape_raises e \<Rightarrow> Inl e
      | Scrape_body body \<Rightarrow>
          let payload = take (MAX_RESPONSE_BYTES + 1) body in
          if length payload > MAX_RESPONSE_BYTES
          then Inl (DcgmExporterError ''DCGM Exporter response exceeds 2 MiB'')
          else (case decode payload of
              None \<Rightarrow> Inl (DcgmExporterError ''DCGM Exporter response is not UTF-8'')
            | Some text \<Rightarrow> Inr text))"

definition fetch_metrics ::
  "(string \<Rightarrow> bool) \<Rightarrow> (string \<Rightarrow> string option) \<Rightarrow> (dcgm_request \<Rightarrow> dcgm_response) \<Rightarrow> dcgm_configuration
     \<Rightarrow> string result" where
  "fetch_metrics ip_ok decode urlopen c =
     bind_result (scrape_request ip_ok c) (\<lambda>request. scrape_payload decode (urlopen request))"

subsection \<open>Samples\<close>

record dcgm_metric =
  dm_name :: string
  dm_labels :: "(string, string) dict"
  dm_value :: py_float

type_synonym dcgm_key = "string \<times> string option \<times> string option \<times> string option"
type_synonym dcgm_samples = "(dcgm_key, dcgm_sample) dict"

definition dcgm_labels :: "dcgm_metric \<Rightarrow> (string, string) dict" where
  "dcgm_labels m = dict_of (map (\<lambda>(k, v). (lower k, v)) (dm_labels m))"

definition dcgm_uuid :: "dcgm_metric \<Rightarrow> string" where
  "dcgm_uuid m = strip (dict_get (dcgm_labels m) ''uuid'' [])"

definition dcgm_pod :: "dcgm_metric \<Rightarrow> string option" where
  "dcgm_pod m =
     (let labels = map_of (dcgm_labels m) in
      if truthy (labels ''pod'') then labels ''pod'' else labels ''pod_name'')"

definition dcgm_key_of :: "dcgm_metric \<Rightarrow> dcgm_key result" where
  "dcgm_key_of m =
     (let labels = map_of (dcgm_labels m) in
      bind_result
        (if truthy (labels ''gpu_i_profile'') then normalize_optional_mig (labels ''gpu_i_profile'') else Inr None)
        (\<lambda>profile. Inr (dcgm_uuid m, profile, labels ''gpu_i_id'', dcgm_pod m)))"

definition empty_sample :: "dcgm_key \<Rightarrow> dcgm_sample" where
  "empty_sample = (\<lambda>(uuid, profile, instance_id, pod_name).
     \<lparr>ds_uuid = uuid, ds_mig_profile = profile, ds_gpu_instance_id = instance_id, ds_pod_name = pod_name,
      ds_values = []\<rparr>)"

definition record_value :: "string \<Rightarrow> py_float \<Rightarrow> dcgm_sample \<Rightarrow> dcgm_sample result" where
  "record_value name value sample =
     (case value of
        PyFinite v \<Rightarrow>
          if map_of (ds_values sample) name \<notin> {None, Some v}
          then Inl (DcgmExporterError ''conflicting values for one DCGM entity'')
          else Inr (sample\<lparr>ds_values := dict_set name v (ds_values sample)\<rparr>)
      | _ \<Rightarrow> Inr sample)"

definition dcgm_step :: "dcgm_metric \<Rightarrow> dcgm_samples \<times> nat \<Rightarrow> (dcgm_samples \<times> nat) result" where
  "dcgm_step m = (\<lambda>(samples, recognized).
     if dm_name m \<notin> set DCGM_METRICS then Inr (samples, recognized)
     else if dcgm_uuid m = [] then Inr (samples, recognized + 1)
     else
       bind_result (dcgm_key_of m) (\<lambda>key.
       bind_result (record_value (dm_name m) (dm_value m) (dict_get samples key (empty_sample key))) (\<lambda>sample.
       Inr (dict_set key sample samples, recognized + 1))))"

text \<open>\<open>except DcgmExporterError: raise\<close>, then \<open>except (TypeError, ValueError)\<close>.\<close>

definition dcgm_parse_error :: "exn \<Rightarrow> exn" where
  "dcgm_parse_error e =
     (case e of
        TypeError _ \<Rightarrow> DcgmExporterError ''invalid Prometheus exposition from DCGM Exporter''
      | ValueError _ \<Rightarrow> DcgmExporterError ''invalid Prometheus exposition from DCGM Exporter''
      | ValidationError _ \<Rightarrow> DcgmExporterError ''invalid Prometheus exposition from DCGM Exporter''
      | _ \<Rightarrow> e)"

definition parse_dcgm_metrics ::
  "(string \<Rightarrow> dcgm_metric list \<times> exn option) \<Rightarrow> string \<Rightarrow> dcgm_sample list result" where
  "parse_dcgm_metrics parse exposition =
     (case parse exposition of (metrics, ended) \<Rightarrow>
        (case fold_result dcgm_step metrics ([], 0) of
           Inl e \<Rightarrow> Inl (dcgm_parse_error e)
         | Inr (samples, recognized) \<Rightarrow>
             (case ended of
                Some e \<Rightarrow> Inl (dcgm_parse_error e)
              | None \<Rightarrow>
                  if recognized = 0
                  then Inl (DcgmExporterError ''DCGM Exporter response contains no supported metrics'')
                  else Inr (map snd samples))))"

subsection \<open>Matching and enrichment\<close>

text \<open>\<open>str.casefold\<close> on code points below 256: only the sharp s differs from \<open>lower\<close> there, and the micro
  sign, which goes to a letter above 255 that nothing else reaches.\<close>

definition casefold :: "string \<Rightarrow> string" where
  "casefold s = concat (map (\<lambda>c. if of_char c = (223::nat) then ''ss'' else [lower_char c]) s)"

definition profile_matches :: "gpu_device \<Rightarrow> dcgm_sample \<Rightarrow> bool" where
  "profile_matches gpu sample \<longleftrightarrow>
     ds_mig_profile sample = gpu_mig_profile gpu \<and> casefold (ds_uuid sample) = casefold (gpu_uuid gpu)"

definition pod_matches :: "gpu_device \<Rightarrow> string \<Rightarrow> dcgm_sample \<Rightarrow> bool" where
  "pod_matches gpu pod_name sample \<longleftrightarrow>
     ds_mig_profile sample = gpu_mig_profile gpu \<and> ds_pod_name sample = Some pod_name"

definition the_only :: "'a list \<Rightarrow> 'a option" where
  "the_only xs = (case xs of [x] \<Rightarrow> Some x | _ \<Rightarrow> None)"

definition match_sample :: "gpu_device \<Rightarrow> dcgm_sample list \<Rightarrow> string option \<Rightarrow> dcgm_sample option" where
  "match_sample gpu samples pod_name =
     (case the_only (filter (profile_matches gpu) samples) of
        Some sample \<Rightarrow> Some sample
      | None \<Rightarrow>
          (case (gpu_mig_profile gpu, pod_name) of
             (Some _, Some pod) \<Rightarrow> the_only (filter (pod_matches gpu pod) samples)
           | _ \<Rightarrow> None))"

definition valid_range :: "rat option \<Rightarrow> rat \<Rightarrow> rat \<Rightarrow> rat option" where
  "valid_range value minimum maximum =
     (case value of None \<Rightarrow> None | Some v \<Rightarrow> if minimum \<le> v \<and> v \<le> maximum then Some v else None)"

definition valid_memory :: "rat option \<Rightarrow> rat option" where
  "valid_memory value = valid_range value 0 (2 ^ 53)"

text \<open>\<open>round\<close> on a float: to the nearest integer, ties to even.\<close>

definition py_round :: "rat \<Rightarrow> int" where
  "py_round x =
     (let n = \<lfloor>x\<rfloor>; r = x - of_int n in
      if r < 1 / 2 then n else if r > 1 / 2 then n + 1 else if even n then n else n + 1)"

definition sample_memory_used :: "gpu_device \<Rightarrow> (string, rat) dict \<Rightarrow> int option" where
  "sample_memory_used gpu values =
     (case valid_memory (map_of values ''DCGM_FI_DEV_FB_USED'') of
        Some used \<Rightarrow> Some (py_round used)
      | None \<Rightarrow> map_option (\<lambda>free. max 0 (gpu_memory_total_mb gpu - py_round free))
                  (valid_memory (map_of values ''DCGM_FI_DEV_FB_FREE'')))"

definition sample_utilization :: "(string, rat) dict \<Rightarrow> rat option" where
  "sample_utilization values =
     (case valid_range (map_of values ''DCGM_FI_DEV_GPU_UTIL'') 0 100 of
        Some u \<Rightarrow> Some u
      | None \<Rightarrow> map_option (\<lambda>active. active * 100)
                  (valid_range (map_of values ''DCGM_FI_PROF_GR_ENGINE_ACTIVE'') 0 1))"

definition without_live_telemetry :: "gpu_device \<Rightarrow> gpu_device result" where
  "without_live_telemetry gpu =
     validate_gpu_device
       (gpu\<lparr>gpu_memory_used_mb := None, gpu_utilization_percent := None, gpu_temperature_celsius := None,
          gpu_power_draw_watts := None, gpu_telemetry_source := Unavailable\<rparr>)"

definition with_sample :: "gpu_device \<Rightarrow> dcgm_sample \<Rightarrow> gpu_device result" where
  "with_sample gpu sample =
     (let values = ds_values sample in
      validate_gpu_device
        (gpu\<lparr>gpu_memory_used_mb := sample_memory_used gpu values,
           gpu_utilization_percent := sample_utilization values,
           gpu_temperature_celsius :=
             map_option PyFinite (valid_range (map_of values ''DCGM_FI_DEV_GPU_TEMP'') (- 100) 300),
           gpu_power_draw_watts :=
             map_option PyFinite (valid_range (map_of values ''DCGM_FI_DEV_POWER_USAGE'') 0 100000),
           gpu_telemetry_source := Dcgm_exporter\<rparr>))"

definition enrich_gpu :: "dcgm_sample list \<Rightarrow> string option \<Rightarrow> gpu_device \<Rightarrow> gpu_device result" where
  "enrich_gpu samples pod_name gpu =
     (case match_sample gpu samples pod_name of
        None \<Rightarrow> without_live_telemetry gpu
      | Some sample \<Rightarrow> with_sample gpu sample)"

definition enrich_gpus_from_dcgm ::
  "(string \<Rightarrow> bool) \<Rightarrow> (string \<Rightarrow> string option) \<Rightarrow> (dcgm_request \<Rightarrow> dcgm_response)
     \<Rightarrow> (string \<Rightarrow> dcgm_metric list \<times> exn option) \<Rightarrow> gpu_device list \<Rightarrow> dcgm_configuration
     \<Rightarrow> gpu_device list result" where
  "enrich_gpus_from_dcgm ip_ok decode urlopen parse gpus c =
     (if \<not> xc_enabled c then Inr gpus
      else
        (case bind_result (fetch_metrics ip_ok decode urlopen c) (parse_dcgm_metrics parse) of
           Inl (ServiceError cls m) \<Rightarrow>
             if cls = ''DcgmExporterError'' then map_result without_live_telemetry gpus
             else Inl (ServiceError cls m)
         | Inl e \<Rightarrow> Inl e
         | Inr samples \<Rightarrow> map_result (enrich_gpu samples (xc_pod_name c)) gpus))"

end
