(* ===== verification/Hardware.thy ===== *)
theory Hardware
  imports Dcgm
begin

section \<open>What a worker finds on its host (\<open>hardware.py\<close>)\<close>

text \<open>
  Parsing the table of \<open>nvidia-smi\<close> and assembling the capabilities a worker registers. What the host
  answers (the programme found on the path, its output, host name, number of processors, environment) and
  Python's number parsers are a record.
\<close>

text \<open>How the subprocess ended; \<open>Smi_unusable\<close> stands for \<open>FileNotFoundError\<close> and \<open>TimeoutExpired\<close>.\<close>

datatype smi_run = Smi_unusable | Smi_finished int string | Smi_raises exn

record host =
  h_environment :: "string \<Rightarrow> string option"
  h_hostname :: string
  h_system :: string
  h_machine :: string
  h_cpu_count :: "int option"
  h_nvidia_smi :: "smi_run option"
  h_parse_int :: "string \<Rightarrow> int option"
  h_parse_float :: "string \<Rightarrow> py_float option"
  h_ip_ok :: "string \<Rightarrow> bool"
  h_decode :: "string \<Rightarrow> string option"
  h_urlopen :: "dcgm_request \<Rightarrow> dcgm_response"
  h_parse_exposition :: "string \<Rightarrow> dcgm_metric list \<times> exn option"

subsection \<open>The table of \<open>nvidia-smi\<close>\<close>

text \<open>\<open>str.splitlines()\<close> on code points below 256.\<close>

fun join_crlf :: "string \<Rightarrow> string" where
  "join_crlf [] = []"
| "join_crlf [c] = [c]"
| "join_crlf (c # d # s) =
     (if c = CHR 0x0D \<and> d = CHR 0x0A then d # join_crlf s else c # join_crlf (d # s))"

definition line_break :: "char \<Rightarrow> bool" where
  "line_break c \<longleftrightarrow> of_char c \<in> {10::nat, 11, 12, 13, 28, 29, 30, 133}"

fun break_lines :: "string \<Rightarrow> string list" where
  "break_lines [] = [[]]"
| "break_lines (c # s) =
     (if line_break c then [] # break_lines s
      else (case break_lines s of [] \<Rightarrow> [[c]] | p # ps \<Rightarrow> (c # p) # ps))"

definition splitlines :: "string \<Rightarrow> string list" where
  "splitlines s =
     (let parts = break_lines (join_crlf s) in if parts \<noteq> [] \<and> last parts = [] then butlast parts else parts)"

definition finite_float :: "py_float \<Rightarrow> rat option" where
  "finite_float x = (case x of PyFinite v \<Rightarrow> Some v | _ \<Rightarrow> None)"

text \<open>The body of the \<open>try\<close>: a \<open>ValueError\<close> (of \<open>int\<close>, \<open>float\<close> or the validation) skips the line. A
  utilisation that is not finite is outside its range.\<close>

definition smi_device :: "(string \<Rightarrow> int option) \<Rightarrow> (string \<Rightarrow> py_float option) \<Rightarrow> string list \<Rightarrow> gpu_device option" where
  "smi_device parse_int parse_float columns =
     (case (parse_int (columns ! 0), parse_int (columns ! 3), parse_int (columns ! 4), parse_float (columns ! 5),
            parse_float (columns ! 6)) of
        (Some index, Some total_mb, Some used_mb, Some utilization, Some temperature) \<Rightarrow>
          (case finite_float utilization of
             None \<Rightarrow> None
           | Some percent \<Rightarrow>
               (case validate_gpu_device
                   \<lparr>gpu_index = index, gpu_uuid = columns ! 1, gpu_name = columns ! 2, gpu_memory_total_mb = total_mb,
                    gpu_compute_capability = columns ! 8, gpu_memory_used_mb = Some used_mb,
                    gpu_utilization_percent = Some percent, gpu_temperature_celsius = Some temperature,
                    gpu_power_draw_watts = parse_float (columns ! 7), gpu_mig_profile = None,
                    gpu_telemetry_source = Nvidia_smi\<rparr> of
                  Inl _ \<Rightarrow> None
                | Inr gpu \<Rightarrow> Some gpu))
      | _ \<Rightarrow> None)"

definition smi_line :: "(string \<Rightarrow> int option) \<Rightarrow> (string \<Rightarrow> py_float option) \<Rightarrow> string \<Rightarrow> gpu_device option" where
  "smi_line parse_int parse_float line =
     (let columns = map strip (split_on CHR '','' line) in
      if length columns \<noteq> 9 then None else smi_device parse_int parse_float columns)"

definition detect_nvidia_gpus :: "host \<Rightarrow> gpu_device list result" where
  "detect_nvidia_gpus h =
     (case h_nvidia_smi h of
        None \<Rightarrow> Inr []
      | Some Smi_unusable \<Rightarrow> Inr []
      | Some (Smi_raises e) \<Rightarrow> Inl e
      | Some (Smi_finished code stdout) \<Rightarrow>
          if code \<noteq> 0 then Inr []
          else Inr (List.map_filter (smi_line (h_parse_int h) (h_parse_float h)) (splitlines stdout)))"

subsection \<open>Capabilities\<close>

definition with_mig_profile :: "string option \<Rightarrow> gpu_device list \<Rightarrow> gpu_device list result" where
  "with_mig_profile value gpus =
     (case value of
        None \<Rightarrow> Inr gpus
      | Some v \<Rightarrow>
          bind_result (normalize_mig_profile v) (\<lambda>profile.
          map_result (\<lambda>gpu. validate_gpu_device (gpu\<lparr>gpu_mig_profile := Some profile\<rparr>)) gpus))"

definition cpu_count_or_one :: "int option \<Rightarrow> int" where
  "cpu_count_or_one count = (case count of None \<Rightarrow> 1 | Some n \<Rightarrow> if n = 0 then 1 else n)"

definition detect_worker_capabilities ::
  "host \<Rightarrow> (string, string) dict option \<Rightarrow> worker_capabilities result" where
  "detect_worker_capabilities h labels =
     bind_result (detect_nvidia_gpus h) (\<lambda>gpus.
     bind_result (with_mig_profile (h_environment h ''AECONTROL_MIG_PROFILE'') gpus) (\<lambda>gpus.
     bind_result (dcgm_configuration_from_environment (h_ip_ok h) (h_parse_float h) (h_hostname h) (h_environment h))
       (\<lambda>configuration.
     bind_result (enrich_gpus_from_dcgm (h_ip_ok h) (h_decode h) (h_urlopen h) (h_parse_exposition h) gpus configuration)
       (\<lambda>gpus.
     validate_worker_capabilities
       \<lparr>wc_hostname = h_hostname h, wc_operating_system = lower (h_system h), wc_architecture = h_machine h,
        wc_cpu_count = cpu_count_or_one (h_cpu_count h),
        wc_accelerators = CPU # (if gpus \<noteq> [] then [CUDA] else []), wc_gpus = gpus,
        wc_labels = (case labels of None \<Rightarrow> [] | Some l \<Rightarrow> l)\<rparr>))))"

end
