(* ===== verification/Dcgm_Properties.thy ===== *)
theory Dcgm_Properties
  imports Hardware Jobs
begin

section \<open>Properties of the GPU telemetry\<close>

text \<open>
  The samples are exactly the finite values of the exposition, grouped by entity; a device carries live
  values only from a sample that is its only match, and otherwise none, which the scheduler takes as not
  fitting; what a worker registers is well formed.
\<close>

subsection \<open>The samples of an exposition\<close>

definition sample_key :: "dcgm_sample \<Rightarrow> dcgm_key" where
  "sample_key s = (ds_uuid s, ds_mig_profile s, ds_gpu_instance_id s, ds_pod_name s)"

definition usable :: "dcgm_metric \<Rightarrow> bool" where
  "usable m \<longleftrightarrow> dm_name m \<in> set DCGM_METRICS \<and> dcgm_uuid m \<noteq> []"

definition gives :: "dcgm_key \<Rightarrow> string \<Rightarrow> rat \<Rightarrow> dcgm_metric \<Rightarrow> bool" where
  "gives k name v m \<longleftrightarrow> usable m \<and> dcgm_key_of m = Inr k \<and> dm_name m = name \<and> dm_value m = PyFinite v"

text \<open>What the loop has established after the metrics \<open>ms\<close>.\<close>

definition scanned :: "dcgm_metric list \<Rightarrow> dcgm_samples \<times> nat \<Rightarrow> bool" where
  "scanned ms = (\<lambda>(samples, n).
     distinct (map fst samples) \<and> list_all (\<lambda>(k, s). sample_key s = k) samples
   \<and> (\<forall>m \<in> set ms. usable m \<longrightarrow> (\<exists>k. dcgm_key_of m = Inr k \<and> k \<in> fst ` set samples))
   \<and> (\<forall>k name v. (\<exists>m \<in> set ms. gives k name v m) \<longleftrightarrow>
        (\<exists>s. map_of samples k = Some s \<and> map_of (ds_values s) name = Some v)))"

lemma record_valueD:
  assumes "record_value name value sample = Inr s'"
  shows "sample_key s' = sample_key sample"
    and "map_of (ds_values s') n = Some w \<longleftrightarrow> map_of (ds_values sample) n = Some w \<or> n = name \<and> value = PyFinite w"
  using assms by (auto simp: record_value_def sample_key_def split: py_float.splits if_splits)

lemma sample_key_empty [simp]: "sample_key (empty_sample k) = k" "ds_values (empty_sample k) = []"
  by (cases k; simp add: empty_sample_def sample_key_def)+

lemma list_all_dict_set: "list_all (\<lambda>(k, s). P k s) d \<Longrightarrow> P k s \<Longrightarrow> list_all (\<lambda>(k, s). P k s) (dict_set k s d)"
  by (induction d) auto

lemma scanned_skip:
  assumes "scanned ms (samples, n)" "\<not> usable m"
  shows "scanned (ms @ [m]) (samples, n')"
  using assms by (auto simp: scanned_def gives_def)

lemma scanned_step:
  assumes "scanned ms st" "dcgm_step m st = Inr st'"
  shows "scanned (ms @ [m]) st'"
proof -
  obtain samples n where st: "st = (samples, n)" by fastforce
  show ?thesis
  proof (cases "usable m")
    case False
    then show ?thesis
      using assms unfolding st by (auto simp: dcgm_step_def usable_def split: if_splits intro!: scanned_skip)
  next
    case True
    let ?old = "\<lambda>k. dict_get samples k (empty_sample k)"
    from True assms(2) obtain k s where k: "dcgm_key_of m = Inr k"
      and s: "record_value (dm_name m) (dm_value m) (?old k) = Inr s" and st': "st' = (dict_set k s samples, n + 1)"
      unfolding st by (auto simp: dcgm_step_def usable_def)
    have inv: "distinct (map fst samples)" "list_all (\<lambda>(k, s). sample_key s = k) samples"
      "\<forall>m \<in> set ms. usable m \<longrightarrow> (\<exists>k. dcgm_key_of m = Inr k \<and> k \<in> fst ` set samples)"
      "\<And>k name v. (\<exists>m \<in> set ms. gives k name v m) \<longleftrightarrow>
        (\<exists>s. map_of samples k = Some s \<and> map_of (ds_values s) name = Some v)"
      using assms(1) unfolding st scanned_def prod.case by blast+
    have key: "sample_key s = k"
      using record_valueD(1) [OF s] inv(2) by (auto simp: list_all_iff split: option.splits dest: map_of_SomeD)
    have entries: "map_of (ds_values s) name = Some v \<longleftrightarrow> (\<exists>m' \<in> set (ms @ [m]). gives k name v m')" for name v
      using record_valueD(2) [OF s, of name v] inv(4) [of k name v] True k
      by (auto simp: gives_def split: option.splits)
    have other: "gives k' name v m \<Longrightarrow> k' = k" for k' name v
      using k by (simp add: gives_def)
    show ?thesis
      unfolding st' scanned_def prod.case
    proof (intro conjI allI)
      show "distinct (map fst (dict_set k s samples))" using inv(1) by simp
      show "list_all (\<lambda>(k, s). sample_key s = k) (dict_set k s samples)"
        using inv(2) key by (rule list_all_dict_set)
      show "\<forall>m' \<in> set (ms @ [m]). usable m' \<longrightarrow>
          (\<exists>k'. dcgm_key_of m' = Inr k' \<and> k' \<in> fst ` set (dict_set k s samples))"
      proof (intro ballI impI)
        fix m' assume "m' \<in> set (ms @ [m])" "usable m'"
        then consider "m' \<in> set ms" | "m' = m" by force
        then show "\<exists>k'. dcgm_key_of m' = Inr k' \<and> k' \<in> fst ` set (dict_set k s samples)"
          unfolding keys_dict_set using inv(3) k \<open>usable m'\<close> by cases blast+
      qed
      show "(\<exists>m' \<in> set (ms @ [m]). gives k' name v m') \<longleftrightarrow>
          (\<exists>s'. map_of (dict_set k s samples) k' = Some s' \<and> map_of (ds_values s') name = Some v)" for k' name v
      proof (cases "k' = k")
        case True
        then show ?thesis using entries by simp
      next
        case False
        then show ?thesis using inv(4) [of k' name v] other [of k' name v] by auto
      qed
    qed
  qed
qed

lemma map_of_distinct_values:
  "distinct (map fst d) \<Longrightarrow> list_all (\<lambda>(k, s). f s = k) d \<Longrightarrow>
     map_of d k = Some s \<longleftrightarrow> s \<in> set (map snd d) \<and> f s = k"
  by (force simp: list_all_iff image_iff)

text \<open>The samples parsed from an exposition are exactly its finite values: one sample per entity, a value in
  it when and only when some usable metric of that entity states it (two that disagree are refused), and every
  usable metric has its entity's sample.\<close>

theorem parse_dcgm_metrics_exact:
  assumes "parse_dcgm_metrics parse exposition = Inr samples"
  shows "distinct (map sample_key samples) \<and> snd (parse exposition) = None
    \<and> (\<forall>m \<in> set (fst (parse exposition)). usable m \<longrightarrow> (\<exists>s \<in> set samples. dcgm_key_of m = Inr (sample_key s)))
    \<and> (\<forall>s \<in> set samples. \<forall>name v. map_of (ds_values s) name = Some v \<longleftrightarrow>
          (\<exists>m \<in> set (fst (parse exposition)). gives (sample_key s) name v m))"
proof -
  obtain ms where ms: "parse exposition = (ms, None)" and "\<exists>d n. fold_result dcgm_step ms ([], 0) = Inr (d, n) \<and> samples = map snd d"
    using assms by (auto simp: parse_dcgm_metrics_def split: prod.splits sum.splits option.splits if_splits)
  then obtain d n where d: "fold_result dcgm_step ms ([], 0) = Inr (d, n)" and samples: "samples = map snd d" by blast
  have "scanned [] ([], 0)" by (simp add: scanned_def)
  from fold_result_prefix [where P = scanned, OF d this scanned_step] have "scanned ms (d, n)" by simp
  then have inv: "distinct (map fst d)" "list_all (\<lambda>(k, s). sample_key s = k) d"
      "\<forall>m \<in> set ms. usable m \<longrightarrow> (\<exists>k. dcgm_key_of m = Inr k \<and> k \<in> fst ` set d)"
      "\<And>k name v. (\<exists>m \<in> set ms. gives k name v m) \<longleftrightarrow>
        (\<exists>s. map_of d k = Some s \<and> map_of (ds_values s) name = Some v)"
    unfolding scanned_def prod.case by blast+
  note at_key = map_of_distinct_values [OF inv(1,2)]
  have "map sample_key samples = map fst d"
    using inv(2) by (auto simp: samples list_all_iff)
  then have "distinct (map sample_key samples)" using inv(1) by simp
  moreover have "\<exists>s \<in> set samples. dcgm_key_of m = Inr (sample_key s)" if m: "m \<in> set ms" "usable m" for m
  proof -
    obtain k where "dcgm_key_of m = Inr k" "k \<in> fst ` set d" using inv(3) m by blast
    then show ?thesis using inv(2) unfolding samples by (force simp: list_all_iff)
  qed
  moreover have "map_of (ds_values s) name = Some v \<longleftrightarrow> (\<exists>m \<in> set ms. gives (sample_key s) name v m)"
    if "s \<in> set samples" for s name v
    using inv(4) [of "sample_key s" name v] at_key [of "sample_key s" s] that unfolding samples by auto
  ultimately show ?thesis unfolding ms by simp
qed

subsection \<open>Enrichment\<close>

definition gpu_identity :: "gpu_device \<Rightarrow> int \<times> string \<times> string \<times> int \<times> string \<times> string option" where
  "gpu_identity g = (gpu_index g, gpu_uuid g, gpu_name g, gpu_memory_total_mb g, gpu_compute_capability g, gpu_mig_profile g)"

definition blank_gpu :: "gpu_device \<Rightarrow> gpu_device" where
  "blank_gpu gpu =
     gpu\<lparr>gpu_memory_used_mb := None, gpu_utilization_percent := None, gpu_temperature_celsius := None,
       gpu_power_draw_watts := None, gpu_telemetry_source := Unavailable\<rparr>"

lemma without_live_telemetry_ok [simp]:
  "gpu_fields_ok gpu \<Longrightarrow> without_live_telemetry gpu = Inr (blank_gpu gpu)"
  unfolding without_live_telemetry_def blank_gpu_def
  by (rule validate_gpu_device_idem) (simp add: gpu_fields_ok_def)

lemma py_round_non_negative: "0 \<le> x \<Longrightarrow> 0 \<le> py_round x"
  by (auto simp: py_round_def Let_def)

lemma valid_rangeD: "valid_range v lo hi = Some x \<Longrightarrow> lo \<le> x \<and> x \<le> hi"
  by (auto simp: valid_range_def split: option.splits if_splits)

lemma sample_memory_used_non_negative: "opt_all (\<lambda>x. 0 \<le> x) (sample_memory_used gpu entries)"
  by (auto simp: sample_memory_used_def opt_all_def valid_memory_def
      dest!: valid_rangeD intro: py_round_non_negative split: option.splits)

lemma sample_utilization_bounds: "opt_all (in_range 0 100) (sample_utilization entries)"
  by (auto simp: sample_utilization_def opt_all_def in_range_def dest!: valid_rangeD split: option.splits)

definition live_gpu :: "gpu_device \<Rightarrow> dcgm_sample \<Rightarrow> gpu_device" where
  "live_gpu gpu sample =
     (let entries = ds_values sample in
      gpu\<lparr>gpu_memory_used_mb := sample_memory_used gpu entries,
        gpu_utilization_percent := sample_utilization entries,
        gpu_temperature_celsius :=
          map_option PyFinite (valid_range (map_of entries ''DCGM_FI_DEV_GPU_TEMP'') (- 100) 300),
        gpu_power_draw_watts :=
          map_option PyFinite (valid_range (map_of entries ''DCGM_FI_DEV_POWER_USAGE'') 0 100000),
        gpu_telemetry_source := Dcgm_exporter\<rparr>)"

lemma with_sample_ok [simp]:
  assumes "gpu_fields_ok gpu"
  shows "with_sample gpu sample = Inr (live_gpu gpu sample)"
proof -
  have "opt_all non_negative_float
      (map_option PyFinite (valid_range (map_of (ds_values sample) ''DCGM_FI_DEV_POWER_USAGE'') 0 100000))"
    by (auto simp: opt_all_def non_negative_float_def dest!: valid_rangeD split: option.splits)
  then have "gpu_fields_ok (live_gpu gpu sample)"
    using assms by (simp add: gpu_fields_ok_def live_gpu_def Let_def sample_memory_used_non_negative sample_utilization_bounds)
  then show ?thesis by (simp add: with_sample_def live_gpu_def Let_def validate_gpu_device_idem)
qed

lemma identity_simps [simp]:
  "gpu_identity (blank_gpu gpu) = gpu_identity gpu" "gpu_identity (live_gpu gpu sample) = gpu_identity gpu"
  by (simp_all add: gpu_identity_def blank_gpu_def live_gpu_def Let_def)

lemma the_only_iff: "the_only xs = Some x \<longleftrightarrow> xs = [x]"
  by (auto simp: the_only_def split: list.splits)

text \<open>The one sample that speaks for a device.\<close>

definition speaks_for :: "dcgm_sample list \<Rightarrow> string option \<Rightarrow> gpu_device \<Rightarrow> dcgm_sample \<Rightarrow> bool" where
  "speaks_for samples pod_name gpu s \<longleftrightarrow>
     filter (profile_matches gpu) samples = [s]
     \<or> length (filter (profile_matches gpu) samples) \<noteq> 1 \<and> gpu_mig_profile gpu \<noteq> None
        \<and> (\<exists>pod. pod_name = Some pod \<and> filter (pod_matches gpu pod) samples = [s])"

lemma match_sample_iff: "match_sample gpu samples pod_name = Some s \<longleftrightarrow> speaks_for samples pod_name gpu s"
proof (cases "the_only (filter (profile_matches gpu) samples)")
  case None
  then have "length (filter (profile_matches gpu) samples) \<noteq> 1"
    by (auto simp: the_only_def length_Suc_conv split: list.splits)
  moreover from this have "filter (profile_matches gpu) samples \<noteq> [s]" by auto
  ultimately show ?thesis
    using None by (auto simp: match_sample_def speaks_for_def the_only_iff split: option.splits)
next
  case (Some x)
  then have "filter (profile_matches gpu) samples = [x]" by (simp add: the_only_iff)
  then show ?thesis using Some by (auto simp: match_sample_def speaks_for_def)
qed

lemma map_result_list_all2:
  "map_result f xs = Inr ys \<longleftrightarrow> list_all2 (\<lambda>x y. f x = Inr y) xs ys"
  by (induction xs arbitrary: ys) (auto simp: list_all2_Cons1)

lemma enrich_cases:
  assumes "enrich_gpus_from_dcgm ip_ok decode urlopen parse gpus c = Inr out" "xc_enabled c" "list_all gpu_fields_ok gpus"
  shows "(\<exists>m. bind_result (fetch_metrics ip_ok decode urlopen c) (parse_dcgm_metrics parse) = Inl (DcgmExporterError m)
            \<and> out = map blank_gpu gpus)
    \<or> (\<exists>samples. bind_result (fetch_metrics ip_ok decode urlopen c) (parse_dcgm_metrics parse) = Inr samples
            \<and> list_all2 (\<lambda>gpu g. if match_sample gpu samples (xc_pod_name c) = None then g = blank_gpu gpu
                 else \<exists>s. speaks_for samples (xc_pod_name c) gpu s \<and> g = live_gpu gpu s) gpus out)"
proof (cases "bind_result (fetch_metrics ip_ok decode urlopen c) (parse_dcgm_metrics parse)")
  case (Inl e)
  then obtain m where m: "e = DcgmExporterError m"
    using assms(1,2) by (cases e) (auto simp: enrich_gpus_from_dcgm_def split: if_splits)
  have "map_result without_live_telemetry gpus = Inr (map blank_gpu gpus)"
    using assms(3) by (intro map_result_all_Inr) (simp add: list_all_iff)
  then show ?thesis using assms(1,2) Inl m by (simp add: enrich_gpus_from_dcgm_def)
next
  case (Inr samples)
  then have "list_all2 (\<lambda>gpu g. enrich_gpu samples (xc_pod_name c) gpu = Inr g) gpus out"
    using assms(1,2) unfolding enrich_gpus_from_dcgm_def Inr by (simp add: map_result_list_all2)
  moreover have "if match_sample gpu samples (xc_pod_name c) = None then g = blank_gpu gpu
      else \<exists>s. speaks_for samples (xc_pod_name c) gpu s \<and> g = live_gpu gpu s"
    if "gpu \<in> set gpus" "enrich_gpu samples (xc_pod_name c) gpu = Inr g" for gpu g
    using that assms(3) match_sample_iff [of gpu samples "xc_pod_name c"]
    by (cases "match_sample gpu samples (xc_pod_name c)") (auto simp: enrich_gpu_def list_all_iff)
  ultimately have "list_all2 (\<lambda>gpu g. if match_sample gpu samples (xc_pod_name c) = None then g = blank_gpu gpu
                 else \<exists>s. speaks_for samples (xc_pod_name c) gpu s \<and> g = live_gpu gpu s) gpus out"
    by (rule list.rel_mono_strong)
  then show ?thesis using Inr by blast
qed

definition requires_live_telemetry :: "evaluation_job \<Rightarrow> bool" where
  "requires_live_telemetry job \<longleftrightarrow>
     ej_minimum_gpu_memory_available_mb job \<noteq> 0 \<or> ej_maximum_gpu_utilization_percent job \<noteq> None"

lemma blank_gpu_never_fits: "requires_live_telemetry job \<Longrightarrow> \<not> profile_fits job (gpu_profile_of fl (blank_gpu gpu))"
  by (auto simp: requires_live_telemetry_def profile_fits_def gpu_profile_of_def blank_gpu_def)

lemma live_gpu_simps [simp]:
  "gpu_telemetry_source (live_gpu gpu s) = Dcgm_exporter" "gpu_telemetry_source (blank_gpu gpu) = Unavailable"
  "gpu_memory_used_mb (live_gpu gpu s) = sample_memory_used gpu (ds_values s)"
  "gpu_utilization_percent (live_gpu gpu s) = sample_utilization (ds_values s)"
  "sample_memory_used (live_gpu gpu s) = sample_memory_used gpu"
  "speaks_for samples pod_name (live_gpu gpu s) = speaks_for samples pod_name gpu"
  by (auto simp: live_gpu_def blank_gpu_def Let_def sample_memory_used_def speaks_for_def profile_matches_def [abs_def]
      pod_matches_def [abs_def] fun_eq_iff cong: option.case_cong)

lemma fields_ok_simps [simp]:
  "gpu_fields_ok gpu \<Longrightarrow> gpu_fields_ok (blank_gpu gpu)" "gpu_fields_ok gpu \<Longrightarrow> gpu_fields_ok (live_gpu gpu s)"
  using validate_gpu_device_ok without_live_telemetry_ok with_sample_ok
  unfolding without_live_telemetry_def with_sample_def Let_def by blast+


subsection \<open>What a worker registers\<close>

lemma map_result_fields_ok:
  "map_result (\<lambda>gpu. validate_gpu_device (f gpu)) gpus = Inr out \<Longrightarrow> list_all gpu_fields_ok out"
  by (induction gpus arbitrary: out) (auto dest: validate_gpu_device_ok)

lemma smi_line_ok: "smi_line parse_int parse_float line = Some g \<Longrightarrow> gpu_fields_ok g"
  by (auto simp: smi_line_def smi_device_def Let_def dest: validate_gpu_device_ok
      split: if_splits option.splits sum.splits)

lemma map_filter_smi_ok: "list_all gpu_fields_ok (List.map_filter (smi_line parse_int parse_float) ls)"
  by (induction ls) (auto simp: smi_line_ok split: option.splits)

lemma detect_nvidia_gpus_ok: "detect_nvidia_gpus h = Inr gpus \<Longrightarrow> list_all gpu_fields_ok gpus"
  by (auto simp: detect_nvidia_gpus_def map_filter_smi_ok split: option.splits smi_run.splits if_splits)

lemma with_mig_profile_ok:
  "with_mig_profile value gpus = Inr out \<Longrightarrow> list_all gpu_fields_ok gpus \<Longrightarrow> list_all gpu_fields_ok out"
  by (auto simp: with_mig_profile_def split: option.splits dest: map_result_fields_ok)

lemma enrich_fields_ok:
  assumes "enrich_gpus_from_dcgm ip_ok decode urlopen parse gpus c = Inr out" "list_all gpu_fields_ok gpus"
  shows "list_all gpu_fields_ok out"
proof (cases "xc_enabled c")
  case True
  show ?thesis
    using enrich_cases [OF assms(1) True assms(2)] assms(2)
    by (auto simp: list_all_length list_all2_conv_all_nth) (metis fields_ok_simps)
next
  case False
  then show ?thesis using assms by (simp add: enrich_gpus_from_dcgm_def)
qed

text \<open>Which exceptions reach the caller.\<close>

definition telemetry_exception :: "host \<Rightarrow> exn \<Rightarrow> bool" where
  "telemetry_exception h e \<longleftrightarrow>
     (\<exists>m. e = ValueError m) \<or> h_nvidia_smi h = Some (Smi_raises e)
     \<or> (\<exists>request. h_urlopen h request = Scrape_raises e)
     \<or> (\<exists>exposition. snd (h_parse_exposition h exposition) = Some e)"

lemma url_port_error: "url_port u = Inl e \<Longrightarrow> \<exists>m. e = ValueError m"
  by (auto simp: url_port_def Let_def split: option.splits if_splits)

lemma urlsplit_error: "urlsplit ip_ok t = Inl e \<Longrightarrow> \<exists>m. e = ValueError m"
  by (auto simp: urlsplit_def split: prod.splits if_splits)

lemma normalize_mig_error: "normalize_mig_profile v = Inl e \<Longrightarrow> \<exists>m. e = ValueError m"
  by (auto simp: normalize_mig_profile_def Let_def split: if_splits)

lemma configuration_error:
  "dcgm_configuration_from_environment ip_ok parse_float hostname env = Inl e \<Longrightarrow> \<exists>m. e = ValueError m"
  by (auto simp: dcgm_configuration_from_environment_def dcgm_timeout_def Let_def bind_result_Inl
      split: if_splits option.splits py_float.splits dest: urlsplit_error)

lemma scrape_request_error:
  "scrape_request ip_ok c = Inl e \<Longrightarrow> (\<exists>m. e = ValueError m) \<or> (\<exists>m. e = DcgmExporterError m)"
  by (auto simp: scrape_request_def scrape_netloc_def Let_def bind_result_Inl split: option.splits
      dest: urlsplit_error url_port_error)

lemma scrape_payload_error:
  "scrape_payload decode response = Inl e \<Longrightarrow> (\<exists>m. e = DcgmExporterError m) \<or> response = Scrape_raises e"
  by (cases response) (auto simp: scrape_payload_def Let_def split: if_splits option.splits)

lemma fetch_error:
  "fetch_metrics ip_ok decode urlopen c = Inl e \<Longrightarrow>
     (\<exists>m. e = ValueError m) \<or> (\<exists>m. e = DcgmExporterError m) \<or> (\<exists>request. urlopen request = Scrape_raises e)"
  unfolding fetch_metrics_def bind_result_Inl using scrape_request_error scrape_payload_error by metis

lemma dcgm_step_error:
  "dcgm_step m st = Inl e \<Longrightarrow> (\<exists>m. e = ValueError m) \<or> (\<exists>m. e = DcgmExporterError m)"
  by (auto simp: dcgm_step_def bind_result_Inl record_value_def dcgm_key_of_def normalize_optional_mig_def Let_def
      split: prod.splits if_splits option.splits py_float.splits dest: normalize_mig_error)

lemma parse_error:
  assumes "parse_dcgm_metrics parse exposition = Inl e"
  shows "(\<exists>m. e = DcgmExporterError m) \<or> snd (parse exposition) = Some e"
proof -
  have converted: "(\<exists>m. dcgm_parse_error e' = DcgmExporterError m) \<or> dcgm_parse_error e' = e'" for e'
    by (cases e') (simp_all add: dcgm_parse_error_def)
  obtain ms ended where ms: "parse exposition = (ms, ended)" by fastforce
  show ?thesis
  proof (cases "fold_result dcgm_step ms ([], 0)")
    case (Inl e')
    then have "\<exists>m. dcgm_parse_error e' = DcgmExporterError m"
      using fold_result_error [OF Inl] dcgm_step_error by (fastforce simp: dcgm_parse_error_def)
    then show ?thesis using assms ms Inl by (simp add: parse_dcgm_metrics_def)
  next
    case (Inr st)
    obtain d n where "st = (d, n)" by fastforce
    then show ?thesis
      using assms ms Inr converted [of "the ended"] by (auto simp: parse_dcgm_metrics_def split: option.splits if_splits)
  qed
qed

lemma enrich_error:
  assumes "enrich_gpus_from_dcgm ip_ok decode urlopen parse gpus c = Inl e" "list_all gpu_fields_ok gpus"
  shows "(\<exists>m. e = ValueError m) \<or> (\<exists>request. urlopen request = Scrape_raises e)
    \<or> (\<exists>exposition. snd (parse exposition) = Some e)"
proof -
  have blank: "map_result without_live_telemetry gpus = Inr (map blank_gpu gpus)"
    using assms(2) by (intro map_result_all_Inr) (simp add: list_all_iff)
  have ok: "\<exists>out. map_result (enrich_gpu samples pod) gpus = Inr out" for samples pod
    using assms(2) by (induction gpus) (auto simp: enrich_gpu_def split: option.splits)
  let ?r = "bind_result (fetch_metrics ip_ok decode urlopen c) (parse_dcgm_metrics parse)"
  have "xc_enabled c"
    by (rule ccontr) (use assms(1) in \<open>simp add: enrich_gpus_from_dcgm_def\<close>)
  note run = assms(1) [unfolded enrich_gpus_from_dcgm_def, simplified this not_True_eq_False if_False]
  have r: "?r = Inl e \<and> (\<forall>m. e \<noteq> DcgmExporterError m)"
  proof (cases ?r)
    case (Inl e')
    then show ?thesis using run blank by (cases e') (auto split: if_splits)
  next
    case (Inr samples)
    then show ?thesis using run ok [of samples "xc_pod_name c"] unfolding Inr by auto
  qed
  then show ?thesis
    using fetch_error [of ip_ok decode urlopen c e] parse_error [of parse _ e] unfolding bind_result_Inl by blast
qed

lemma with_mig_error:
  assumes "with_mig_profile value gpus = Inl e" "list_all gpu_fields_ok gpus"
  shows "\<exists>m. e = ValueError m"
proof -
  obtain v where v: "value = Some v" using assms(1) by (auto simp: with_mig_profile_def split: option.splits)
  show ?thesis
  proof (cases "normalize_mig_profile v")
    case (Inl e')
    then show ?thesis using assms(1) v normalize_mig_error by (auto simp: with_mig_profile_def)
  next
    case (Inr p)
    then have "fullmatch MIG_PROFILE_PATTERN p"
      by (auto simp: normalize_mig_profile_def Let_def simp del: fullmatch.simps split: if_splits)
    then have "gpu_fields_ok (gpu\<lparr>gpu_mig_profile := Some p\<rparr>)" if "gpu \<in> set gpus" for gpu
      using assms(2) that by (auto simp: list_all_iff gpu_fields_ok_def simp del: fullmatch.simps)
    then have "map_result (\<lambda>gpu. validate_gpu_device (gpu\<lparr>gpu_mig_profile := Some p\<rparr>)) gpus
        = Inr (map (\<lambda>gpu. gpu\<lparr>gpu_mig_profile := Some p\<rparr>) gpus)"
      by (intro map_result_all_Inr validate_gpu_device_idem)
    then show ?thesis using assms(1) v Inr by (simp add: with_mig_profile_def)
  qed
qed

text \<open>C34. Whatever the host, the exporter and \<open>nvidia-smi\<close> answer, detection ends with well-formed capabilities
  (every device a valid \<open>GpuDevice\<close>, CUDA offered exactly with devices, a positive number of processors) or
  with a \<open>ValueError\<close> about the configuration or an exception that a named outside call raised; an exporter's
  failure never escapes as \<open>DcgmExporterError\<close>.\<close>

theorem detected_capabilities_valid:
  assumes "opt_all (\<lambda>n. 0 \<le> n) (h_cpu_count h)"
  shows "case detect_worker_capabilities h labels of
      Inl e \<Rightarrow> telemetry_exception h e
    | Inr caps \<Rightarrow> list_all gpu_fields_ok (wc_gpus caps) \<and> 1 \<le> wc_cpu_count caps
        \<and> CPU \<in> set (wc_accelerators caps) \<and> (CUDA \<in> set (wc_accelerators caps) \<longleftrightarrow> wc_gpus caps \<noteq> [])"
proof (cases "detect_worker_capabilities h labels")
  case (Inr caps)
  have "list_all gpu_fields_ok (wc_gpus caps)"
    using Inr by (auto simp: detect_worker_capabilities_def validate_worker_capabilities_def split: if_splits
        dest!: detect_nvidia_gpus_ok intro: enrich_fields_ok with_mig_profile_ok)
  moreover have "1 \<le> wc_cpu_count caps \<and> CPU \<in> set (wc_accelerators caps)
      \<and> (CUDA \<in> set (wc_accelerators caps) \<longleftrightarrow> wc_gpus caps \<noteq> [])"
    using Inr by (auto simp: detect_worker_capabilities_def validate_worker_capabilities_def split: if_splits)
  ultimately show ?thesis using Inr by simp
next
  case (Inl e)
  have cpus: "1 \<le> cpu_count_or_one (h_cpu_count h)"
    using assms by (auto simp: cpu_count_or_one_def split: option.splits)
  from Inl consider "detect_nvidia_gpus h = Inl e"
    | gpus where "detect_nvidia_gpus h = Inr gpus" "with_mig_profile (h_environment h ''AECONTROL_MIG_PROFILE'') gpus = Inl e"
    | "dcgm_configuration_from_environment (h_ip_ok h) (h_parse_float h) (h_hostname h) (h_environment h) = Inl e"
    | gpus0 gpus c where "detect_nvidia_gpus h = Inr gpus0"
        "with_mig_profile (h_environment h ''AECONTROL_MIG_PROFILE'') gpus0 = Inr gpus"
        "enrich_gpus_from_dcgm (h_ip_ok h) (h_decode h) (h_urlopen h) (h_parse_exposition h) gpus c = Inl e"
    using cpus by (auto simp: detect_worker_capabilities_def bind_result_Inl validate_worker_capabilities_def)
  then have "telemetry_exception h e"
  proof cases
    case 1
    then show ?thesis by (auto simp: detect_nvidia_gpus_def telemetry_exception_def split: option.splits smi_run.splits if_splits)
  next
    case 2
    then show ?thesis using with_mig_error detect_nvidia_gpus_ok by (auto simp: telemetry_exception_def)
  next
    case 3
    then show ?thesis using configuration_error by (auto simp: telemetry_exception_def)
  next
    case 4
    then show ?thesis
      using enrich_error [OF 4(3) with_mig_profile_ok [OF 4(2) detect_nvidia_gpus_ok [OF 4(1)]]]
      by (auto simp: telemetry_exception_def)
  qed
  then show ?thesis using Inl by simp
qed

subsection \<open>Concrete runs\<close>

definition ex_metric :: dcgm_metric where
  "ex_metric = \<lparr>dm_name = ''DCGM_FI_DEV_FB_USED'', dm_labels = [(''UUID'', ''GPU-1'')], dm_value = PyFinite 4096\<rparr>"

definition ex_exposition :: "string \<Rightarrow> dcgm_metric list \<times> exn option" where
  "ex_exposition text = ([ex_metric, ex_metric], None)"

definition ex_sample :: dcgm_sample where
  "ex_sample = \<lparr>ds_uuid = ''GPU-1'', ds_mig_profile = None, ds_gpu_instance_id = None, ds_pod_name = None,
     ds_values = [(''DCGM_FI_DEV_FB_USED'', 4096)]\<rparr>"

definition ex_gpu :: "string \<Rightarrow> gpu_device" where
  "ex_gpu identifier = \<lparr>gpu_index = 0, gpu_uuid = identifier, gpu_name = ''H100'', gpu_memory_total_mb = 81920,
     gpu_compute_capability = ''9.0'', gpu_memory_used_mb = Some 12, gpu_utilization_percent = Some 1,
     gpu_temperature_celsius = None, gpu_power_draw_watts = None, gpu_mig_profile = None,
     gpu_telemetry_source = Nvidia_smi\<rparr>"

definition ex_dcgm :: "string \<Rightarrow> dcgm_configuration" where
  "ex_dcgm endpoint = \<lparr>xc_enabled = True, xc_endpoint = Some endpoint, xc_endpoint_host = Some ''d'',
     xc_timeout_seconds = 1, xc_pod_name = None\<rparr>"

lemma ex_parse: "parse_dcgm_metrics ex_exposition t = Inr [ex_sample]"
proof -
  let ?k = "(''GPU-1'', None, None, None)"
  have m: "dcgm_key_of ex_metric = Inr ?k" "dcgm_uuid ex_metric \<noteq> []" "dm_name ex_metric \<in> set DCGM_METRICS"
    "dm_name ex_metric = ''DCGM_FI_DEV_FB_USED''" "dm_value ex_metric = PyFinite 4096"
    by code_simp+
  have "record_value ''DCGM_FI_DEV_FB_USED'' (PyFinite 4096) (empty_sample ?k) = Inr ex_sample"
    "record_value ''DCGM_FI_DEV_FB_USED'' (PyFinite 4096) ex_sample = Inr ex_sample"
    by (simp_all add: record_value_def empty_sample_def ex_sample_def)
  then have "fold_result dcgm_step [ex_metric, ex_metric] ([], 0) = Inr ([(?k, ex_sample)], 2)"
    using m by (simp add: dcgm_step_def)
  then show ?thesis unfolding parse_dcgm_metrics_def ex_exposition_def prod.case by (simp only: sum.case prod.case) simp
qed

theorem parse_dcgm_metrics_exact_witness:
  "parse_dcgm_metrics ex_exposition [] = Inr [ex_sample] \<and> distinct (map sample_key [ex_sample])
     \<and> gives (sample_key ex_sample) ''DCGM_FI_DEV_FB_USED'' 4096 ex_metric"
proof -
  have "map_of (ds_values ex_sample) ''DCGM_FI_DEV_FB_USED'' = Some 4096" by (simp add: ex_sample_def)
  then show ?thesis
    using parse_dcgm_metrics_exact [OF ex_parse [of "[]"]] ex_parse [of "[]"] by (simp add: ex_exposition_def)
qed

lemma ex_fetch: "fetch_metrics (\<lambda>_. True) Some (\<lambda>_. Scrape_body ''m'') (ex_dcgm ''http://d/m'') = Inr ''m''"
proof -
  have "\<exists>r. scrape_request (\<lambda>_. True) (ex_dcgm ''http://d/m'') = Inr r"
  proof -
    have "\<not> isl (scrape_request (\<lambda>_. True) (ex_dcgm ''http://d/m''))" by code_simp
    then show ?thesis by (metis isl_def sum.exhaust)
  qed
  then show ?thesis by (auto simp: fetch_metrics_def scrape_payload_def Let_def MAX_RESPONSE_BYTES_def)
qed

abbreviation ex_enrich :: "gpu_device list \<Rightarrow> gpu_device list result" where
  "ex_enrich gpus \<equiv> enrich_gpus_from_dcgm (\<lambda>_. True) Some (\<lambda>_. Scrape_body ''m'') ex_exposition gpus (ex_dcgm ''http://d/m'')"

lemma ex_enriched:
  "ex_enrich [ex_gpu ''GPU-1'', ex_gpu ''GPU-2''] = Inr [live_gpu (ex_gpu ''GPU-1'') ex_sample, blank_gpu (ex_gpu ''GPU-2'')]"
proof -
  have ok: "gpu_fields_ok (ex_gpu i)" for i by (simp add: gpu_fields_ok_def ex_gpu_def in_range_def)
  have match_it: "match_sample (ex_gpu ''GPU-1'') [ex_sample] None = Some ex_sample"
    "match_sample (ex_gpu ''GPU-2'') [ex_sample] None = None"
    by code_simp+
  show ?thesis
    using ok match_it by (simp add: enrich_gpus_from_dcgm_def ex_fetch ex_parse enrich_gpu_def) (simp add: ex_dcgm_def)
qed


definition ex_host :: host where
  "ex_host = \<lparr>h_environment = (\<lambda>_. None), h_hostname = ''w'', h_system = ''Linux'', h_machine = ''x86_64'',
     h_cpu_count = None,
     h_nvidia_smi = Some (Smi_finished 0 ''0, GPU-1, H100, 81920, 12, 1, 30, n/a, 9.0''),
     h_parse_int = map_of [(''0'', 0), (''81920'', 81920), (''12'', 12)],
     h_parse_float = map_of [(''1'', PyFinite 1), (''30'', PyFinite 30)],
     h_ip_ok = (\<lambda>_. True), h_decode = Some, h_urlopen = (\<lambda>_. Scrape_failed), h_parse_exposition = ex_exposition\<rparr>"

theorem detected_capabilities_valid_witness:
  "case detect_worker_capabilities ex_host None of
     Inl _ \<Rightarrow> False | Inr caps \<Rightarrow> list_all gpu_fields_ok (wc_gpus caps) \<and> CUDA \<in> set (wc_accelerators caps)"
proof -
  have cpus: "opt_all (\<lambda>n. 0 \<le> n) (h_cpu_count ex_host)" by (simp add: ex_host_def)
  have "case detect_worker_capabilities ex_host None of Inl _ \<Rightarrow> False | Inr caps \<Rightarrow> wc_gpus caps \<noteq> []" by code_simp
  then show ?thesis using detected_capabilities_valid [OF cpus, of None] by (auto split: sum.splits)
qed

text \<open>The configuration accepts a port that the scrape then refuses with an exception nothing catches.\<close>

lemma dcgm_bad_port_escapes:
  "dcgm_configuration_from_environment (\<lambda>_. True) (map_of [(''1'', PyFinite 1)]) ''w''
     (map_of [(''AECONTROL_DCGM_EXPORTER_URL'', ''http://d:x/m'')])
   = Inr ((ex_dcgm ''http://d:x/m'')\<lparr>xc_pod_name := Some ''w''\<rparr>)
   \<and> enrich_gpus_from_dcgm (\<lambda>_. True) Some (\<lambda>_. Scrape_failed) ex_exposition [ex_gpu ''GPU-1'']
       ((ex_dcgm ''http://d:x/m'')\<lparr>xc_pod_name := Some ''w''\<rparr>) = Inl (ValueError ''Port could not be cast to integer value'')"
proof
  let ?c = "(ex_dcgm ''http://d:x/m'')\<lparr>xc_pod_name := Some ''w''\<rparr>"
  show "dcgm_configuration_from_environment (\<lambda>_. True) (map_of [(''1'', PyFinite 1)]) ''w''
     (map_of [(''AECONTROL_DCGM_EXPORTER_URL'', ''http://d:x/m'')]) = Inr ?c"
    by code_simp
  have "scrape_request (\<lambda>_. True) ?c = Inl (ValueError ''Port could not be cast to integer value'')" by code_simp
  then show "enrich_gpus_from_dcgm (\<lambda>_. True) Some (\<lambda>_. Scrape_failed) ex_exposition [ex_gpu ''GPU-1''] ?c
      = Inl (ValueError ''Port could not be cast to integer value'')"
    by (simp add: enrich_gpus_from_dcgm_def fetch_metrics_def) (simp add: ex_dcgm_def)
qed

end
