(* ===== verification/Key_Services.thy ===== *)
theory Key_Services
  imports Integrity Job_Models Url
begin

section \<open>Remote signers (\<open>vault.py\<close>, \<open>aws_kms.py\<close>, \<open>gcp_kms.py\<close>)\<close>

text \<open>
  The three services that can hold the private key of the active signing key: their configurations, from the
  environment, and the checks each signer makes on the answer of its service. The HTTP transport, \<open>json.loads\<close>,
  Python's number parsers, the AWS and Google clients and CRC32C are parameters. Messages and signatures are
  byte strings.
\<close>

subsection \<open>Vault Transit\<close>

abbreviation VaultTransitError :: "string \<Rightarrow> exn" where
  "VaultTransitError \<equiv> ServiceError ''VaultTransitError''"

definition MAX_TOKEN_BYTES :: nat where "MAX_TOKEN_BYTES = 16 * 1024"
definition MAX_SIGNING_RESPONSE_BYTES :: nat where "MAX_SIGNING_RESPONSE_BYTES = 1024 * 1024"

text \<open>\<open>^[A-Za-z0-9][A-Za-z0-9._/-]{0,254}$\<close> and \<open>^[A-Za-z0-9][A-Za-z0-9._-]{0,127}$\<close>\<close>

abbreviation alnum :: "(char \<times> char) list" where "alnum \<equiv> upper_az @ lower_az @ digits09"

definition VAULT_PATH_PATTERN :: regex where
  "VAULT_PATH_PATTERN =
     Seq (Cls alnum) (up_to 254 (Cls (alnum @ one_char CHR ''.'' @ one_char CHR ''_'' @ one_char CHR ''/'' @ one_char CHR ''-'')))"

definition VAULT_KEY_PATTERN :: regex where
  "VAULT_KEY_PATTERN =
     Seq (Cls alnum) (up_to 127 (Cls (alnum @ one_char CHR ''.'' @ one_char CHR ''_'' @ one_char CHR ''-'')))"

record vault_configuration =
  vc_address :: string
  vc_token :: string
  vc_mount :: string
  vc_key_name :: string
  vc_key_version :: int
  vc_namespace :: "string option"
  vc_timeout_seconds :: py_float

definition float_between :: "rat \<Rightarrow> rat \<Rightarrow> py_float \<Rightarrow> bool" where
  "float_between lo hi x = (case x of PyFinite v \<Rightarrow> lo \<le> v \<and> v \<le> hi | _ \<Rightarrow> False)"

definition vault_address_ok :: "url_parts \<Rightarrow> bool" where
  "vault_address_ok u \<longleftrightarrow>
     up_scheme u \<in> {''http'', ''https''} \<and> truthy (url_hostname u) \<and> url_userinfo u = (None, None)
   \<and> up_query u = [] \<and> up_fragment u = [] \<and> up_path u \<in> {[], ''/''}"

definition loopback_host :: "url_parts \<Rightarrow> bool" where
  "loopback_host u \<longleftrightarrow> url_hostname u \<in> {Some ''127.0.0.1'', Some ''::1'', Some ''localhost''}"

definition vault_token_ok :: "string \<Rightarrow> bool" where
  "vault_token_ok tok \<longleftrightarrow> tok \<noteq> [] \<and> length (utf8 tok) \<le> MAX_TOKEN_BYTES
     \<and> list_all (\<lambda>c. 33 \<le> (of_char c :: nat) \<and> (of_char c :: nat) \<le> 126) tok"

definition vault_mount_ok :: "string \<Rightarrow> bool" where
  "vault_mount_ok mount \<longleftrightarrow> fullmatch VAULT_PATH_PATTERN mount
     \<and> list_all (\<lambda>segment. segment \<notin> {[], ''.'', ''..''}) (split_on CHR ''/'' mount)"

definition vault_namespace_ok :: "string option \<Rightarrow> bool" where
  "vault_namespace_ok namespace =
     opt_all (\<lambda>n. n \<noteq> [] \<and> length n \<le> 256 \<and> list_all (\<lambda>c. 32 \<le> (of_char c :: nat) \<and> of_char c \<noteq> (127 :: nat)) n) namespace"

definition make_vault_configuration :: "(string \<Rightarrow> bool) \<Rightarrow> vault_configuration \<Rightarrow> vault_configuration result" where
  "make_vault_configuration ip_ok c =
     bind_result (urlparse ip_ok (vc_address c)) (\<lambda>parsed.
     if isl (url_port parsed) \<or> \<not> vault_address_ok parsed
     then Inl (ValueError ''AECONTROL_ARTIFACT_VAULT_ADDR must be an origin-only HTTP(S) URL'')
     else if up_scheme parsed \<noteq> ''https'' \<and> \<not> loopback_host parsed
     then Inl (ValueError ''AECONTROL_ARTIFACT_VAULT_ADDR must use HTTPS except for loopback development'')
     else if \<not> vault_token_ok (vc_token c)
     then Inl (ValueError ''Vault token must contain 1-16384 printable ASCII characters'')
     else if \<not> vault_mount_ok (vc_mount c)
     then Inl (ValueError ''AECONTROL_ARTIFACT_VAULT_MOUNT must be a normalized Vault path'')
     else if \<not> fullmatch VAULT_KEY_PATTERN (vc_key_name c)
     then Inl (ValueError ''AECONTROL_ARTIFACT_VAULT_KEY must be a normalized Vault key name'')
     else if vc_key_version c < 1
     then Inl (ValueError ''AECONTROL_ARTIFACT_VAULT_KEY_VERSION must be a positive integer'')
     else if \<not> vault_namespace_ok (vc_namespace c)
     then Inl (ValueError ''AECONTROL_ARTIFACT_VAULT_NAMESPACE must be a non-empty bounded value'')
     else if \<not> float_between (1 / 10) 30 (vc_timeout_seconds c)
     then Inl (ValueError ''AECONTROL_ARTIFACT_VAULT_TIMEOUT_SECONDS must be between 0.1 and 30 seconds'')
     else Inr c)"

definition vault_sign_url :: "vault_configuration \<Rightarrow> string" where
  "vault_sign_url c =
     rstrip_char CHR ''/'' (vc_address c) @ ''/v1/''
     @ join_with ''/'' (map quote_segment (split_on CHR ''/'' (vc_mount c)))
     @ ''/sign/'' @ quote_segment (vc_key_name c)"

record vault_request =
  vq_url :: string
  vq_body :: json
  vq_headers :: "(string, string) dict"
  vq_timeout_seconds :: py_float

datatype vault_response = Vault_body string | Vault_http_error nat | Vault_unreachable | Vault_raises exn

definition vault_request_of :: "vault_configuration \<Rightarrow> string \<Rightarrow> vault_request" where
  "vault_request_of c message =
     \<lparr>vq_url = vault_sign_url c,
      vq_body = JObj [(''input'', JStr (b64encode message)), (''key_version'', JInt (vc_key_version c))],
      vq_headers = [(''Accept'', ''application/json''), (''Content-Type'', ''application/json''),
          (''X-Vault-Token'', vc_token c)] @
        (case vc_namespace c of None \<Rightarrow> [] | Some n \<Rightarrow> [(''X-Vault-Namespace'', n)]),
      vq_timeout_seconds = vc_timeout_seconds c\<rparr>"

text \<open>\<open>payload[key]\<close>: \<open>None\<close> is a \<open>KeyError\<close> or a \<open>TypeError\<close>.\<close>

definition item_of :: "json \<Rightarrow> string \<Rightarrow> json option" where
  "item_of payload key = (case payload of JObj kvs \<Rightarrow> map_of kvs key | _ \<Rightarrow> None)"

definition vault_signature_text :: "(string \<Rightarrow> json option) \<Rightarrow> vault_response \<Rightarrow> string result" where
  "vault_signature_text loads response =
     (case response of
        Vault_http_error _ \<Rightarrow> Inl (VaultTransitError ''Vault Transit signing failed with HTTP status'')
      | Vault_unreachable \<Rightarrow> Inl (VaultTransitError ''Vault Transit signing request failed'')
      | Vault_raises e \<Rightarrow> Inl e
      | Vault_body body \<Rightarrow>
          let raw = take (MAX_SIGNING_RESPONSE_BYTES + 1) body in
          if length raw > MAX_SIGNING_RESPONSE_BYTES
          then Inl (VaultTransitError ''Vault Transit signing response exceeded 1 MiB'')
          else
            (case Option.bind (loads raw) (\<lambda>payload. Option.bind (item_of payload ''data'') (\<lambda>d. item_of d ''signature'')) of
               Some (JStr signature) \<Rightarrow> Inr signature
             | _ \<Rightarrow> Inl (VaultTransitError ''Vault Transit returned an invalid signing response'')))"

definition vault_decode_signature :: "int \<Rightarrow> string \<Rightarrow> string result" where
  "vault_decode_signature key_version signature =
     (case rpartition_at CHR '':'' signature of (prefix, found, encoded) \<Rightarrow>
        if \<not> found \<or> prefix \<noteq> ''vault:v'' @ int_str key_version
        then Inl (VaultTransitError ''Vault Transit returned an unexpected key version'')
        else
          (case b64decode encoded of
             None \<Rightarrow> Inl (VaultTransitError ''Vault Transit returned an invalid Ed25519 signature'')
           | Some decoded \<Rightarrow>
               if length decoded \<noteq> 64
               then Inl (VaultTransitError ''Vault Transit returned an invalid Ed25519 signature'')
               else Inr (b64encode decoded)))"

definition vault_sign ::
  "(string \<Rightarrow> json option) \<Rightarrow> (vault_request \<Rightarrow> vault_response) \<Rightarrow> vault_configuration \<Rightarrow> string \<Rightarrow> string result" where
  "vault_sign loads urlopen c message =
     bind_result (vault_signature_text loads (urlopen (vault_request_of c message)))
       (vault_decode_signature (vc_key_version c))"

definition vault_signer ::
  "(string \<Rightarrow> json option) \<Rightarrow> (vault_request \<Rightarrow> vault_response) \<Rightarrow> vault_configuration \<Rightarrow> string \<Rightarrow> remote_signer" where
  "vault_signer loads urlopen c key_id =
     \<lparr>rs_algorithm = ED25519, rs_key_id = key_id, rs_sign = vault_sign loads urlopen c\<rparr>"

text \<open>The token file: not a regular file, an \<open>OSError\<close>, or its bytes.\<close>

datatype token_file = Token_file_irregular | Token_file_error | Token_file string

definition vault_token :: "string option \<Rightarrow> string option \<Rightarrow> (string \<Rightarrow> token_file) \<Rightarrow> string result" where
  "vault_token tok file read_file =
     (if (tok = None) = (file = None)
      then Inl (ValueError ''exactly one of AECONTROL_ARTIFACT_VAULT_TOKEN or AECONTROL_ARTIFACT_VAULT_TOKEN_FILE must be set'')
      else
        (case tok of
           Some t \<Rightarrow> Inr t
         | None \<Rightarrow>
             (case read_file (the file) of
                Token_file_irregular \<Rightarrow> Inl (ValueError ''Vault token file must be a regular file no larger than 16 KiB'')
              | Token_file_error \<Rightarrow> Inl (ValueError ''Vault token file could not be read'')
              | Token_file content \<Rightarrow>
                  let raw = take (MAX_TOKEN_BYTES + 1) content in
                  if length raw > MAX_TOKEN_BYTES
                  then Inl (ValueError ''Vault token file must be a regular file no larger than 16 KiB'')
                  else if \<not> ascii raw then Inl (ValueError ''Vault token file must contain a printable ASCII token'')
                  else Inr (strip raw))))"

definition VAULT_ENVIRONMENT :: "string list" where
  "VAULT_ENVIRONMENT =
     [''AECONTROL_ARTIFACT_VAULT_ADDR'', ''AECONTROL_ARTIFACT_VAULT_TOKEN'', ''AECONTROL_ARTIFACT_VAULT_TOKEN_FILE'',
      ''AECONTROL_ARTIFACT_VAULT_NAMESPACE'', ''AECONTROL_ARTIFACT_VAULT_MOUNT'', ''AECONTROL_ARTIFACT_VAULT_KEY'',
      ''AECONTROL_ARTIFACT_VAULT_KEY_VERSION'', ''AECONTROL_ARTIFACT_VAULT_TIMEOUT_SECONDS'']"

text \<open>\<open>value or default\<close>, and the parsers that turn their \<open>ValueError\<close> into one that names the variable.\<close>

definition or_default :: "string option \<Rightarrow> string \<Rightarrow> string" where
  "or_default v fallback = (if truthy v then the v else fallback)"

definition parsed :: "(string \<Rightarrow> 'a option) \<Rightarrow> string \<Rightarrow> string \<Rightarrow> 'a result" where
  "parsed parse text message = (case parse text of None \<Rightarrow> Inl (ValueError message) | Some v \<Rightarrow> Inr v)"

definition vault_configuration_from_environment ::
  "(string \<Rightarrow> bool) \<Rightarrow> (string \<Rightarrow> int option) \<Rightarrow> (string \<Rightarrow> py_float option) \<Rightarrow> (string \<Rightarrow> token_file)
     \<Rightarrow> (string \<Rightarrow> string option) \<Rightarrow> vault_configuration option result" where
  "vault_configuration_from_environment ip_ok parse_int parse_float read_file env =
     (if list_all (\<lambda>name. env name = None) VAULT_ENVIRONMENT then Inr None
      else
        let address = env ''AECONTROL_ARTIFACT_VAULT_ADDR''; key_name = env ''AECONTROL_ARTIFACT_VAULT_KEY'';
            key_version = env ''AECONTROL_ARTIFACT_VAULT_KEY_VERSION'' in
        if \<not> truthy address \<or> \<not> truthy key_name \<or> \<not> truthy key_version
        then Inl (ValueError ''Vault address, key, and key version must be set together'')
        else
          bind_result (vault_token (env ''AECONTROL_ARTIFACT_VAULT_TOKEN'') (env ''AECONTROL_ARTIFACT_VAULT_TOKEN_FILE'')
              read_file) (\<lambda>tok.
          bind_result (parsed parse_int (the key_version)
              ''AECONTROL_ARTIFACT_VAULT_KEY_VERSION must be a positive integer'') (\<lambda>version.
          bind_result (parsed parse_float (or_default (env ''AECONTROL_ARTIFACT_VAULT_TIMEOUT_SECONDS'') ''5'')
              ''AECONTROL_ARTIFACT_VAULT_TIMEOUT_SECONDS must be a number'') (\<lambda>timeout.
          bind_result (make_vault_configuration ip_ok
              \<lparr>vc_address = the address, vc_token = tok,
               vc_mount = or_default (env ''AECONTROL_ARTIFACT_VAULT_MOUNT'') ''transit'',
               vc_key_name = the key_name, vc_key_version = version,
               vc_namespace = env ''AECONTROL_ARTIFACT_VAULT_NAMESPACE'', vc_timeout_seconds = timeout\<rparr>) (\<lambda>c.
          Inr (Some c))))))"

subsection \<open>AWS KMS\<close>

abbreviation AWSKMSSigningError :: "string \<Rightarrow> exn" where
  "AWSKMSSigningError \<equiv> ServiceError ''AWSKMSSigningError''"

definition AWS_KMS_SIGNING_ALGORITHM :: string where
  "AWS_KMS_SIGNING_ALGORITHM = ''ED25519_SHA_512''"

abbreviation alternatives :: "string list \<Rightarrow> regex" where
  "alternatives texts \<equiv> foldr (\<lambda>t r. Alt (lit t) r) texts Never"

definition AWS_KEY_ARN_PATTERN :: regex where
  "AWS_KEY_ARN_PATTERN =
     (let hex = Cls (digits09 @ [(CHR ''a'', CHR ''f''), (CHR ''A'', CHR ''F'')]); dash = lit ''-'';
          region_char = Cls (lower_az @ digits09 @ one_char CHR ''-'') in
      Seq (lit ''arn:'') (Seq (alternatives [''aws'', ''aws-us-gov'', ''aws-cn''])
      (Seq (lit '':kms:'') (Seq (exactly 3 region_char) (Seq (up_to 29 region_char) (Seq (lit '':'')
      (Seq (exactly 12 (Cls digits09)) (Seq (lit '':key/'')
      (Seq (exactly 8 hex) (Seq (exactly 3 (Seq dash (exactly 4 hex))) (Seq dash (exactly 12 hex))))))))))))"

record aws_kms_configuration =
  ac_key_arn :: string
  ac_timeout_seconds :: py_float

definition make_aws_kms_configuration :: "aws_kms_configuration \<Rightarrow> aws_kms_configuration result" where
  "make_aws_kms_configuration c =
     (if \<not> fullmatch AWS_KEY_ARN_PATTERN (ac_key_arn c)
      then Inl (ValueError ''AECONTROL_ARTIFACT_AWS_KMS_KEY_ARN must be a full asymmetric KMS key ARN, not an alias'')
      else if \<not> float_between (1 / 10) 30 (ac_timeout_seconds c)
      then Inl (ValueError ''AECONTROL_ARTIFACT_AWS_KMS_TIMEOUT_SECONDS must be between 0.1 and 30 seconds'')
      else Inr c)"

text \<open>The second group of the pattern: no group of it contains a colon.\<close>

definition aws_kms_region :: "aws_kms_configuration \<Rightarrow> string" where
  "aws_kms_region c = split_on CHR '':'' (ac_key_arn c) ! 3"

definition aws_key_arn_sha256 :: "primitives \<Rightarrow> aws_kms_configuration \<Rightarrow> sha256" where
  "aws_key_arn_sha256 P c = sha256_hex P (utf8 (ac_key_arn c))"

text \<open>A field of the response is \<open>None\<close> when it is absent or not of the type the code compares it with.\<close>

record aws_sign_response =
  ar_key_id :: "string option"
  ar_signing_algorithm :: "string option"
  ar_signature :: "string option"

datatype aws_answer = Aws_response aws_sign_response | Aws_not_a_dict | Aws_client_error | Aws_raises exn

record aws_sign_request =
  aw_key_id :: string
  aw_message :: string
  aw_message_type :: string
  aw_signing_algorithm :: string

definition aws_kms_sign ::
  "(aws_sign_request \<Rightarrow> aws_answer) \<Rightarrow> aws_kms_configuration \<Rightarrow> string \<Rightarrow> string result" where
  "aws_kms_sign client c message =
     (if \<not> (1 \<le> length message \<and> length message \<le> 4096)
      then Inl (AWSKMSSigningError ''AWS KMS signing message must contain 1-4096 bytes'')
      else
        (case client \<lparr>aw_key_id = ac_key_arn c, aw_message = message, aw_message_type = ''RAW'',
             aw_signing_algorithm = AWS_KMS_SIGNING_ALGORITHM\<rparr> of
           Aws_client_error \<Rightarrow> Inl (AWSKMSSigningError ''AWS KMS signing request failed'')
         | Aws_raises e \<Rightarrow> Inl e
         | Aws_not_a_dict \<Rightarrow> Inl (AWSKMSSigningError ''AWS KMS returned an invalid signing response'')
         | Aws_response r \<Rightarrow>
             if ar_key_id r \<noteq> Some (ac_key_arn c)
             then Inl (AWSKMSSigningError ''AWS KMS returned an unexpected signing key'')
             else if ar_signing_algorithm r \<noteq> Some AWS_KMS_SIGNING_ALGORITHM
             then Inl (AWSKMSSigningError ''AWS KMS returned an unexpected signing algorithm'')
             else
               (case ar_signature r of
                  Some signature \<Rightarrow>
                    if length signature \<noteq> 64
                    then Inl (AWSKMSSigningError ''AWS KMS returned an invalid Ed25519 signature'')
                    else Inr (b64encode signature)
                | None \<Rightarrow> Inl (AWSKMSSigningError ''AWS KMS returned an invalid Ed25519 signature''))))"

text \<open>\<open>from_configuration\<close>: building the client may raise.\<close>

definition aws_kms_signer ::
  "(aws_kms_configuration \<Rightarrow> (aws_sign_request \<Rightarrow> aws_answer) result) \<Rightarrow> aws_kms_configuration \<Rightarrow> string
     \<Rightarrow> remote_signer result" where
  "aws_kms_signer make_client c key_id =
     bind_result (make_client c) (\<lambda>client.
     Inr \<lparr>rs_algorithm = ED25519, rs_key_id = key_id, rs_sign = aws_kms_sign client c\<rparr>)"

definition aws_kms_configuration_from_environment ::
  "(string \<Rightarrow> py_float option) \<Rightarrow> (string \<Rightarrow> string option) \<Rightarrow> aws_kms_configuration option result" where
  "aws_kms_configuration_from_environment parse_float env =
     (let key_arn = env ''AECONTROL_ARTIFACT_AWS_KMS_KEY_ARN'';
          timeout = env ''AECONTROL_ARTIFACT_AWS_KMS_TIMEOUT_SECONDS'' in
      if key_arn = None \<and> timeout = None then Inr None
      else if \<not> truthy key_arn
      then Inl (ValueError ''AECONTROL_ARTIFACT_AWS_KMS_KEY_ARN is required when AWS KMS signing is configured'')
      else
        bind_result (parsed parse_float (or_default timeout ''5'')
            ''AECONTROL_ARTIFACT_AWS_KMS_TIMEOUT_SECONDS must be a number'') (\<lambda>t.
        bind_result (make_aws_kms_configuration \<lparr>ac_key_arn = the key_arn, ac_timeout_seconds = t\<rparr>) (\<lambda>c.
        Inr (Some c))))"

subsection \<open>Google Cloud KMS\<close>

abbreviation GCPKMSSigningError :: "string \<Rightarrow> exn" where
  "GCPKMSSigningError \<equiv> ServiceError ''GCPKMSSigningError''"

definition RESOURCE_SEGMENT :: regex where
  "RESOURCE_SEGMENT = Seq (Cls alnum) (up_to 127 (Cls (alnum @ one_char CHR ''.'' @ one_char CHR ''_''
     @ one_char CHR '':'' @ one_char CHR ''-'')))"

definition GCP_KEY_VERSION_PATTERN :: regex where
  "GCP_KEY_VERSION_PATTERN =
     Seq (lit ''projects/'') (Seq RESOURCE_SEGMENT (Seq (lit ''/locations/'') (Seq RESOURCE_SEGMENT
     (Seq (lit ''/keyRings/'') (Seq RESOURCE_SEGMENT (Seq (lit ''/cryptoKeys/'') (Seq RESOURCE_SEGMENT
     (Seq (lit ''/cryptoKeyVersions/'') (Seq (Cls [(CHR ''1'', CHR ''9'')]) (Star (Cls digits09)))))))))))"

definition PROTECTION_LEVELS :: "string list" where
  "PROTECTION_LEVELS = [''SOFTWARE'', ''HSM'', ''HSM_SINGLE_TENANT'', ''EXTERNAL'', ''EXTERNAL_VPC'']"

record gcp_kms_configuration =
  pc_key_version :: string
  pc_protection_level :: string
  pc_timeout_seconds :: py_float
  pc_integrity_attempts :: int

definition make_gcp_kms_configuration :: "gcp_kms_configuration \<Rightarrow> gcp_kms_configuration result" where
  "make_gcp_kms_configuration c =
     (if \<not> fullmatch GCP_KEY_VERSION_PATTERN (pc_key_version c)
      then Inl (ValueError ''AECONTROL_ARTIFACT_GCP_KMS_KEY_VERSION must be a full immutable CryptoKeyVersion resource name'')
      else if pc_protection_level c \<notin> set PROTECTION_LEVELS
      then Inl (ValueError ''AECONTROL_ARTIFACT_GCP_KMS_PROTECTION_LEVEL must be one of the protection levels'')
      else if \<not> float_between (1 / 10) 30 (pc_timeout_seconds c)
      then Inl (ValueError ''AECONTROL_ARTIFACT_GCP_KMS_TIMEOUT_SECONDS must be between 0.1 and 30 seconds'')
      else if \<not> (1 \<le> pc_integrity_attempts c \<and> pc_integrity_attempts c \<le> 5)
      then Inl (ValueError ''AECONTROL_ARTIFACT_GCP_KMS_INTEGRITY_ATTEMPTS must be between 1 and 5'')
      else Inr c)"

text \<open>The \<open>location\<close> group of the pattern: no group of it contains a slash.\<close>

definition gcp_kms_location :: "gcp_kms_configuration \<Rightarrow> string" where
  "gcp_kms_location c = split_on CHR ''/'' (pc_key_version c) ! 3"

definition gcp_key_version_sha256 :: "primitives \<Rightarrow> gcp_kms_configuration \<Rightarrow> sha256" where
  "gcp_key_version_sha256 P c = sha256_hex P (utf8 (pc_key_version c))"

text \<open>
  A field is \<open>None\<close> when it is absent or of another type; \<open>gr_protection_level\<close> is the name that
  \<open>kms_v1.ProtectionLevel\<close> gives the observed value, \<open>None\<close> when it gives none.
\<close>

record gcp_sign_response =
  gr_name :: "string option"
  gr_protection_level :: "string option"
  gr_signature :: "string option"
  gr_signature_crc32c :: "int option"
  gr_verified_data_crc32c :: bool

datatype gcp_answer = Gcp_response gcp_sign_response | Gcp_api_error | Gcp_raises exn

record gcp_sign_request =
  gq_name :: string
  gq_data :: string
  gq_data_crc32c :: int
  gq_timeout_seconds :: py_float

text \<open>The checks on one answer: an exception, a signature, or nothing, when the integrity check failed.\<close>

definition gcp_check_response ::
  "(string \<Rightarrow> int) \<Rightarrow> gcp_kms_configuration \<Rightarrow> gcp_sign_response \<Rightarrow> string option result" where
  "gcp_check_response crc32c c r =
     (if gr_name r \<noteq> Some (pc_key_version c)
      then Inl (GCPKMSSigningError ''Google Cloud KMS returned an unexpected key version'')
      else if gr_protection_level r \<noteq> Some (pc_protection_level c)
      then Inl (GCPKMSSigningError ''Google Cloud KMS returned an unexpected protection level'')
      else
        (case gr_signature r of
           None \<Rightarrow> Inr None
         | Some signature \<Rightarrow>
             if gr_verified_data_crc32c r \<and> gr_signature_crc32c r = Some (crc32c signature)
             then
               (if length signature \<noteq> 64
                then Inl (GCPKMSSigningError ''Google Cloud KMS returned an invalid Ed25519 signature'')
                else Inr (Some (b64encode signature)))
             else Inr None))"

text \<open>\<open>client attempt\<close> is the answer to the given attempt of this call.\<close>

fun gcp_attempts ::
  "(string \<Rightarrow> int) \<Rightarrow> (nat \<Rightarrow> gcp_sign_request \<Rightarrow> gcp_answer) \<Rightarrow> gcp_kms_configuration \<Rightarrow> gcp_sign_request
     \<Rightarrow> nat \<Rightarrow> nat \<Rightarrow> string result" where
  "gcp_attempts crc32c client c request attempt 0 =
     Inl (GCPKMSSigningError ''Google Cloud KMS signing response failed CRC32C integrity verification'')"
| "gcp_attempts crc32c client c request attempt (Suc remaining) =
     (case client attempt request of
        Gcp_api_error \<Rightarrow> Inl (GCPKMSSigningError ''Google Cloud KMS signing request failed'')
      | Gcp_raises e \<Rightarrow> Inl e
      | Gcp_response r \<Rightarrow>
          bind_result (gcp_check_response crc32c c r) (\<lambda>checked.
          case checked of
            Some signature \<Rightarrow> Inr signature
          | None \<Rightarrow> gcp_attempts crc32c client c request (attempt + 1) remaining))"

definition gcp_kms_sign ::
  "(string \<Rightarrow> int) \<Rightarrow> (nat \<Rightarrow> gcp_sign_request \<Rightarrow> gcp_answer) \<Rightarrow> gcp_kms_configuration \<Rightarrow> string \<Rightarrow> string result" where
  "gcp_kms_sign crc32c client c message =
     (if \<not> (1 \<le> length message \<and> length message \<le> 4096)
      then Inl (GCPKMSSigningError ''Google Cloud KMS signing message must contain 1-4096 bytes'')
      else gcp_attempts crc32c client c
        \<lparr>gq_name = pc_key_version c, gq_data = message, gq_data_crc32c = crc32c message,
         gq_timeout_seconds = pc_timeout_seconds c\<rparr> 0 (nat (pc_integrity_attempts c)))"

text \<open>Building the client: refused with one of the named classes, or another exception.\<close>

datatype 'c client_construction = Client_ready 'c | Client_refused | Client_raises exn

definition gcp_kms_signer ::
  "(string \<Rightarrow> int) \<Rightarrow> (nat \<Rightarrow> gcp_sign_request \<Rightarrow> gcp_answer) client_construction \<Rightarrow> gcp_kms_configuration \<Rightarrow> string
     \<Rightarrow> remote_signer result" where
  "gcp_kms_signer crc32c construction c key_id =
     (case construction of
        Client_refused \<Rightarrow> Inl (GCPKMSSigningError ''Google Cloud KMS client configuration failed'')
      | Client_raises e \<Rightarrow> Inl e
      | Client_ready client \<Rightarrow>
          Inr \<lparr>rs_algorithm = ED25519, rs_key_id = key_id, rs_sign = gcp_kms_sign crc32c client c\<rparr>)"

definition GCP_KMS_ENVIRONMENT :: "string list" where
  "GCP_KMS_ENVIRONMENT =
     [''AECONTROL_ARTIFACT_GCP_KMS_KEY_VERSION'', ''AECONTROL_ARTIFACT_GCP_KMS_PROTECTION_LEVEL'',
      ''AECONTROL_ARTIFACT_GCP_KMS_TIMEOUT_SECONDS'', ''AECONTROL_ARTIFACT_GCP_KMS_INTEGRITY_ATTEMPTS'']"

definition gcp_kms_configuration_from_environment ::
  "(string \<Rightarrow> int option) \<Rightarrow> (string \<Rightarrow> py_float option) \<Rightarrow> (string \<Rightarrow> string option)
     \<Rightarrow> gcp_kms_configuration option result" where
  "gcp_kms_configuration_from_environment parse_int parse_float env =
     (if list_all (\<lambda>name. env name = None) GCP_KMS_ENVIRONMENT then Inr None
      else
        let key_version = env ''AECONTROL_ARTIFACT_GCP_KMS_KEY_VERSION'' in
        if \<not> truthy key_version
        then Inl (ValueError ''AECONTROL_ARTIFACT_GCP_KMS_KEY_VERSION is required when Google Cloud KMS signing is configured'')
        else
          bind_result (parsed parse_float (or_default (env ''AECONTROL_ARTIFACT_GCP_KMS_TIMEOUT_SECONDS'') ''5'')
              ''AECONTROL_ARTIFACT_GCP_KMS_TIMEOUT_SECONDS must be a number'') (\<lambda>timeout.
          bind_result (parsed parse_int (or_default (env ''AECONTROL_ARTIFACT_GCP_KMS_INTEGRITY_ATTEMPTS'') ''3'')
              ''AECONTROL_ARTIFACT_GCP_KMS_INTEGRITY_ATTEMPTS must be an integer'') (\<lambda>attempts.
          bind_result (make_gcp_kms_configuration
              \<lparr>pc_key_version = the key_version,
               pc_protection_level = or_default (env ''AECONTROL_ARTIFACT_GCP_KMS_PROTECTION_LEVEL'') ''HSM'',
               pc_timeout_seconds = timeout, pc_integrity_attempts = attempts\<rparr>) (\<lambda>c.
          Inr (Some c)))))"

subsection \<open>The keyring of a process\<close>

text \<open>What the three services and the interpreter give a process.\<close>

record key_services =
  ks_ip_ok :: "string \<Rightarrow> bool"
  ks_parse_int :: "string \<Rightarrow> int option"
  ks_parse_float :: "string \<Rightarrow> py_float option"
  ks_loads :: "string \<Rightarrow> json option"
  ks_read_file :: "string \<Rightarrow> token_file"
  ks_vault :: "vault_request \<Rightarrow> vault_response"
  ks_aws :: "aws_kms_configuration \<Rightarrow> (aws_sign_request \<Rightarrow> aws_answer) result"
  ks_crc32c :: "string \<Rightarrow> int"
  ks_gcp :: "(nat \<Rightarrow> gcp_sign_request \<Rightarrow> gcp_answer) client_construction"

text \<open>\<open>ArtifactKeyring.from_environment\<close>: the three configurations are read first, then the keyring is built.\<close>

definition service_keyring ::
  "primitives \<Rightarrow> key_services \<Rightarrow> (string \<Rightarrow> string option) \<Rightarrow> keyring option result" where
  "service_keyring P K env =
     bind_result (vault_configuration_from_environment (ks_ip_ok K) (ks_parse_int K) (ks_parse_float K)
         (ks_read_file K) env) (\<lambda>vault.
     bind_result (aws_kms_configuration_from_environment (ks_parse_float K) env) (\<lambda>aws_kms.
     bind_result (gcp_kms_configuration_from_environment (ks_parse_int K) (ks_parse_float K) env) (\<lambda>gcp_kms.
     keyring_from_environment P (ks_loads K)
       \<lparr>env_signing_keys = env ''AECONTROL_ARTIFACT_SIGNING_KEYS'',
        env_signing_key_id = env ''AECONTROL_ARTIFACT_SIGNING_KEY_ID'',
        env_signing_algorithm = env ''AECONTROL_ARTIFACT_SIGNING_ALGORITHM'',
        env_private_keys = env ''AECONTROL_ARTIFACT_ED25519_PRIVATE_KEYS'',
        env_public_keys = env ''AECONTROL_ARTIFACT_ED25519_PUBLIC_KEYS'',
        env_vault = map_option (\<lambda>c key_id. Inr (vault_signer (ks_loads K) (ks_vault K) c key_id)) vault,
        env_aws_kms = map_option (\<lambda>c. aws_kms_signer (ks_aws K) c) aws_kms,
        env_gcp_kms = map_option (\<lambda>c. gcp_kms_signer (ks_crc32c K) (ks_gcp K) c) gcp_kms\<rparr>)))"

end
