(* ===== verification/Key_Service_Properties.thy ===== *)
theory Key_Service_Properties
  imports Key_Services
begin

section \<open>Properties of the remote signers\<close>

text \<open>
  Which answers of a service become a signature, which exceptions a signer raises, and that a keyring built
  from the environment returns a remote signature only when it verifies under the configured public key.
\<close>

subsection \<open>Vault\<close>

lemma while_until:
  assumes "c \<notin> set b"
  shows "takeWhile (\<lambda>x. x \<noteq> c) (b @ c # a) = b" "dropWhile (\<lambda>x. x \<noteq> c) (b @ c # a) = c # a"
  using assms by (induction b) auto

lemma rpartition_at_append: "c \<notin> set b \<Longrightarrow> rpartition_at c (a @ c # b) = (a, True, b)"
  using while_until [of c "rev b" "rev a"] by (simp add: rpartition_at_def)

lemma rpartition_at_iff:
  "rpartition_at c s = (a, True, b) \<longleftrightarrow> s = a @ c # b \<and> c \<notin> set b"
proof
  assume r: "rpartition_at c s = (a, True, b)"
  then have "c \<in> set s" by (auto simp: rpartition_at_def split: if_splits)
  then obtain a' b' where "s = a' @ c # b'" "c \<notin> set b'" using split_list_last by metis
  then show "s = a @ c # b \<and> c \<notin> set b" using r rpartition_at_append by auto
qed (simp add: rpartition_at_append)

lemma vault_decode_iff:
  "vault_decode_signature v signature = Inr s \<longleftrightarrow>
     (\<exists>encoded raw. signature = ''vault:v'' @ int_str v @ CHR '':'' # encoded \<and> CHR '':'' \<notin> set encoded
        \<and> b64decode encoded = Some raw \<and> length raw = 64 \<and> s = b64encode raw)"
proof
  assume accepted: "vault_decode_signature v signature = Inr s"
  obtain a found b where r: "rpartition_at CHR '':'' signature = (a, found, b)" by (metis prod_cases3)
  with accepted have a: "found" "a = ''vault:v'' @ int_str v"
    and "\<exists>raw. b64decode b = Some raw \<and> length raw = 64 \<and> s = b64encode raw"
    by (auto simp: vault_decode_signature_def split: if_splits option.splits)
  moreover have "signature = a @ CHR '':'' # b \<and> CHR '':'' \<notin> set b"
    using r a(1) rpartition_at_iff [of "CHR '':''" signature a b] by simp
  ultimately show "\<exists>encoded raw. signature = ''vault:v'' @ int_str v @ CHR '':'' # encoded \<and> CHR '':'' \<notin> set encoded
        \<and> b64decode encoded = Some raw \<and> length raw = 64 \<and> s = b64encode raw"
    by auto
next
  assume "\<exists>encoded raw. signature = ''vault:v'' @ int_str v @ CHR '':'' # encoded \<and> CHR '':'' \<notin> set encoded
        \<and> b64decode encoded = Some raw \<and> length raw = 64 \<and> s = b64encode raw"
  then obtain encoded raw where e: "signature = (''vault:v'' @ int_str v) @ CHR '':'' # encoded" "CHR '':'' \<notin> set encoded"
    "b64decode encoded = Some raw" "length raw = 64" "s = b64encode raw" by auto
  show "vault_decode_signature v signature = Inr s"
    unfolding vault_decode_signature_def e(1) rpartition_at_append [OF e(2)] using e(3-5) by simp
qed

lemma vault_text_iff:
  "vault_signature_text loads response = Inr t \<longleftrightarrow>
     (\<exists>body payload d. response = Vault_body body \<and> length body \<le> MAX_SIGNING_RESPONSE_BYTES
        \<and> loads body = Some payload \<and> item_of payload ''data'' = Some d \<and> item_of d ''signature'' = Some (JStr t))"
  by (cases response) (auto simp: vault_signature_text_def Let_def min_def bind_eq_Some_conv
      split: option.splits json.splits if_splits)

text \<open>A Vault signature is accepted exactly when the service answered within the size limit with a signature
  text that names the pinned key version and decodes, strictly, to 64 bytes; what is returned is the canonical
  base64 of those bytes.\<close>

theorem vault_sign_exact:
  "vault_sign loads urlopen c message = Inr s \<longleftrightarrow>
     (\<exists>body payload d encoded raw. urlopen (vault_request_of c message) = Vault_body body
        \<and> length body \<le> MAX_SIGNING_RESPONSE_BYTES \<and> loads body = Some payload
        \<and> item_of payload ''data'' = Some d
        \<and> item_of d ''signature'' = Some (JStr (''vault:v'' @ int_str (vc_key_version c) @ CHR '':'' # encoded))
        \<and> CHR '':'' \<notin> set encoded \<and> b64decode encoded = Some raw \<and> length raw = 64 \<and> s = b64encode raw)"
  unfolding vault_sign_def bind_result_Inr vault_text_iff vault_decode_iff by blast

subsection \<open>Google Cloud\<close>

definition names_pinned_key :: "gcp_kms_configuration \<Rightarrow> gcp_sign_response \<Rightarrow> bool" where
  "names_pinned_key c r \<longleftrightarrow>
     gr_name r = Some (pc_key_version c) \<and> gr_protection_level r = Some (pc_protection_level c)"

definition intact :: "(string \<Rightarrow> int) \<Rightarrow> gcp_sign_response \<Rightarrow> bool" where
  "intact crc32c r \<longleftrightarrow> gr_verified_data_crc32c r
     \<and> (\<exists>raw. gr_signature r = Some raw \<and> gr_signature_crc32c r = Some (crc32c raw))"

lemma gcp_check_iff:
  "gcp_check_response crc32c c r = Inr (Some s) \<longleftrightarrow>
     names_pinned_key c r \<and> intact crc32c r \<and> (\<exists>raw. gr_signature r = Some raw \<and> length raw = 64 \<and> s = b64encode raw)"
  "gcp_check_response crc32c c r = Inr None \<longleftrightarrow> names_pinned_key c r \<and> \<not> intact crc32c r"
  by (auto simp: gcp_check_response_def names_pinned_key_def intact_def split: option.splits)

definition corrupted :: "(string \<Rightarrow> int) \<Rightarrow> gcp_kms_configuration \<Rightarrow> gcp_answer \<Rightarrow> bool" where
  "corrupted crc32c c answer \<longleftrightarrow> (\<exists>r. answer = Gcp_response r \<and> names_pinned_key c r \<and> \<not> intact crc32c r)"

definition accepted :: "(string \<Rightarrow> int) \<Rightarrow> gcp_kms_configuration \<Rightarrow> gcp_answer \<Rightarrow> string \<Rightarrow> bool" where
  "accepted crc32c c answer s \<longleftrightarrow>
     (\<exists>r raw. answer = Gcp_response r \<and> names_pinned_key c r \<and> intact crc32c r
        \<and> gr_signature r = Some raw \<and> length raw = 64 \<and> s = b64encode raw)"

lemma gcp_attempts_iff:
  "gcp_attempts crc32c client c request i n = Inr s \<longleftrightarrow>
     (\<exists>k < n. (\<forall>j < k. corrupted crc32c c (client (i + j) request)) \<and> accepted crc32c c (client (i + k) request) s)"
proof (induction n arbitrary: i)
  case (Suc n)
  have split: "(\<exists>k < Suc n. (\<forall>j < k. P j) \<and> Q k) \<longleftrightarrow> Q 0 \<or> P 0 \<and> (\<exists>k < n. (\<forall>j < k. P (Suc j)) \<and> Q (Suc k))"
    for P Q :: "nat \<Rightarrow> bool"
  proof (intro iffI; (elim exE conjE disjE)?)
    fix k assume k: "k < Suc n" "\<forall>j < k. P j" "Q k"
    then show "Q 0 \<or> P 0 \<and> (\<exists>k < n. (\<forall>j < k. P (Suc j)) \<and> Q (Suc k))" by (cases k) auto
  next
    fix k assume "P 0" "k < n" "\<forall>j < k. P (Suc j)" "Q (Suc k)"
    then show "\<exists>k < Suc n. (\<forall>j < k. P j) \<and> Q k"
      by (intro exI [of _ "Suc k"]) (auto simp: less_Suc_eq_0_disj)
  qed auto
  have step: "gcp_attempts crc32c client c request i (Suc n) = Inr s \<longleftrightarrow>
      accepted crc32c c (client i request) s
      \<or> corrupted crc32c c (client i request) \<and> gcp_attempts crc32c client c request (i + 1) n = Inr s"
  proof (cases "client i request")
    case (Gcp_response r)
    consider e where "gcp_check_response crc32c c r = Inl e" | "gcp_check_response crc32c c r = Inr None"
      | t where "gcp_check_response crc32c c r = Inr (Some t)"
      by (metis option.exhaust sum.exhaust)
    then show ?thesis
      using Gcp_response gcp_check_iff [of crc32c c r] by cases (auto simp: accepted_def corrupted_def)
  qed (auto simp: accepted_def corrupted_def)
  show ?case
    unfolding step Suc.IH split [of "\<lambda>j. corrupted crc32c c (client (i + j) request)"
        "\<lambda>k. accepted crc32c c (client (i + k) request) s"] by simp
qed simp

text \<open>Google Cloud signs exactly when some attempt within the configured number answers under the pinned key
  version and protection level with an intact 64-byte signature, every attempt before it having answered under
  the same key but failed the integrity check: only corruption is retried.\<close>

theorem gcp_sign_exact:
  "gcp_kms_sign crc32c client c message = Inr s \<longleftrightarrow>
     1 \<le> length message \<and> length message \<le> 4096
     \<and> (\<exists>k < nat (pc_integrity_attempts c).
          (\<forall>j < k. corrupted crc32c c (client j \<lparr>gq_name = pc_key_version c, gq_data = message,
              gq_data_crc32c = crc32c message, gq_timeout_seconds = pc_timeout_seconds c\<rparr>))
          \<and> accepted crc32c c (client k \<lparr>gq_name = pc_key_version c, gq_data = message,
              gq_data_crc32c = crc32c message, gq_timeout_seconds = pc_timeout_seconds c\<rparr>) s)"
  by (cases "1 \<le> length message \<and> length message \<le> 4096") (auto simp: gcp_kms_sign_def gcp_attempts_iff)

subsection \<open>Every signer\<close>

text \<open>What comes out of a signer that keeps its promise: canonical base64 of 64 bytes.\<close>

definition signs_64 :: "remote_signer \<Rightarrow> bool" where
  "signs_64 r \<longleftrightarrow> rs_algorithm r = ED25519
     \<and> (\<forall>message s. rs_sign r message = Inr s \<longrightarrow> (\<exists>raw. length raw = 64 \<and> s = b64encode raw))"

lemma vault_signer_64: "signs_64 (vault_signer loads urlopen c key_id)"
  by (auto simp: signs_64_def vault_signer_def vault_sign_def vault_decode_iff)

lemma aws_sign_64: "aws_kms_sign client c message = Inr s \<Longrightarrow> \<exists>raw. length raw = 64 \<and> s = b64encode raw"
  by (auto simp: aws_kms_sign_def split: if_splits aws_answer.splits option.splits)

lemma aws_signer_64: "aws_kms_signer make_client c key_id = Inr r \<Longrightarrow> signs_64 r"
  by (auto simp: signs_64_def aws_kms_signer_def dest: aws_sign_64)

lemma gcp_sign_64: "gcp_kms_sign crc32c client c message = Inr s \<Longrightarrow> \<exists>raw. length raw = 64 \<and> s = b64encode raw"
  by (auto simp: gcp_kms_sign_def gcp_attempts_iff accepted_def split: if_splits)

lemma gcp_signer_64: "gcp_kms_signer crc32c construction c key_id = Inr r \<Longrightarrow> signs_64 r"
  by (auto simp: signs_64_def gcp_kms_signer_def dest: gcp_sign_64 split: client_construction.splits)

lemma gcp_attempts_error:
  "gcp_attempts crc32c client c request i n = Inl e \<Longrightarrow>
     (\<exists>x. e = GCPKMSSigningError x) \<or> (\<exists>j. client j request = Gcp_raises e)"
  by (induction n arbitrary: i)
    (auto simp: gcp_check_response_def split: gcp_answer.splits option.splits if_splits)

text \<open>A remote signer never hands on anything but the canonical base64 of exactly 64 bytes: otherwise it
  raises its own signing error, or the exception that its client raised outside the classes it names.\<close>

theorem remote_signers_fail_closed:
  "(case vault_sign loads urlopen vault message of
      Inl e \<Rightarrow> (\<exists>x. e = VaultTransitError x) \<or> urlopen (vault_request_of vault message) = Vault_raises e
    | Inr s \<Rightarrow> (\<exists>raw. length raw = 64 \<and> s = b64encode raw))
   \<and> (case aws_kms_sign aws_client aws message of
      Inl e \<Rightarrow> (\<exists>x. e = AWSKMSSigningError x) \<or> (\<exists>request. aws_client request = Aws_raises e)
    | Inr s \<Rightarrow> (\<exists>raw. length raw = 64 \<and> s = b64encode raw))
   \<and> (case gcp_kms_sign crc32c gcp_client gcp message of
      Inl e \<Rightarrow> (\<exists>x. e = GCPKMSSigningError x) \<or> (\<exists>attempt request. gcp_client attempt request = Gcp_raises e)
    | Inr s \<Rightarrow> (\<exists>raw. length raw = 64 \<and> s = b64encode raw))"
proof (intro conjI)
  have "vault_sign loads urlopen vault message = Inl e \<Longrightarrow>
      (\<exists>x. e = VaultTransitError x) \<or> urlopen (vault_request_of vault message) = Vault_raises e" for e
    by (auto simp: vault_sign_def bind_result_Inl vault_signature_text_def vault_decode_signature_def Let_def
        split: vault_response.splits if_splits option.splits json.splits prod.splits)
  then show "case vault_sign loads urlopen vault message of
      Inl e \<Rightarrow> (\<exists>x. e = VaultTransitError x) \<or> urlopen (vault_request_of vault message) = Vault_raises e
    | Inr s \<Rightarrow> (\<exists>raw. length raw = 64 \<and> s = b64encode raw)"
    using vault_decode_iff by (auto simp: vault_sign_def split: sum.splits)
  have "aws_kms_sign aws_client aws message = Inl e \<Longrightarrow>
      (\<exists>x. e = AWSKMSSigningError x) \<or> (\<exists>request. aws_client request = Aws_raises e)" for e
    by (auto simp: aws_kms_sign_def split: if_splits aws_answer.splits option.splits)
  then show "case aws_kms_sign aws_client aws message of
      Inl e \<Rightarrow> (\<exists>x. e = AWSKMSSigningError x) \<or> (\<exists>request. aws_client request = Aws_raises e)
    | Inr s \<Rightarrow> (\<exists>raw. length raw = 64 \<and> s = b64encode raw)"
    using aws_sign_64 by (auto split: sum.splits)
  have "gcp_kms_sign crc32c gcp_client gcp message = Inl e \<Longrightarrow>
      (\<exists>x. e = GCPKMSSigningError x) \<or> (\<exists>attempt request. gcp_client attempt request = Gcp_raises e)" for e
    by (auto simp: gcp_kms_sign_def split: if_splits dest: gcp_attempts_error)
  then show "case gcp_kms_sign crc32c gcp_client gcp message of
      Inl e \<Rightarrow> (\<exists>x. e = GCPKMSSigningError x) \<or> (\<exists>attempt request. gcp_client attempt request = Gcp_raises e)
    | Inr s \<Rightarrow> (\<exists>raw. length raw = 64 \<and> s = b64encode raw)"
    using gcp_sign_64 by (auto split: sum.splits)
qed

subsection \<open>The keyring of a process\<close>

lemma environment_signer_64:
  assumes "environment_remote_signer e = Inr (Some r)"
    and "\<And>f i r. env_vault e = Some f \<Longrightarrow> f i = Inr r \<Longrightarrow> signs_64 r"
    and "\<And>f i r. env_aws_kms e = Some f \<Longrightarrow> f i = Inr r \<Longrightarrow> signs_64 r"
    and "\<And>f i r. env_gcp_kms e = Some f \<Longrightarrow> f i = Inr r \<Longrightarrow> signs_64 r"
  shows "signs_64 r"
  using assms by (auto simp: environment_remote_signer_def split: option.splits)

lemma keyring_from_environment_cases:
  assumes "keyring_from_environment P loads e = Inr (Some k)"
  shows "keyring_ok P k \<and> (kr_remote_signer k = None \<or> environment_remote_signer e = Inr (kr_remote_signer k))"
  using assms unfolding keyring_from_environment_def Let_def
  by (auto split: if_splits dest!: artifact_keyring_ok)

text \<open>C31. When a process signs through a service, the signature it stores is the canonical base64 of 64 bytes that
  verify, under the public key configured for the active key, for this artifact; there is no private key of that
  name in the process.\<close>

theorem service_signatures_trusted:
  assumes "service_keyring P K env = Inr (Some k)" "kr_remote_signer k = Some r"
    and "keyring_sign P k artifact_type artifact_id payload_sha256 = Inr s"
  shows "\<exists>key_id public_key raw. active_key_id k = Some key_id \<and> active_algorithm k = Some ED25519
      \<and> map_of (public_keys k) key_id = Some public_key \<and> map_of (private_keys k) key_id = None
      \<and> length raw = 64 \<and> s = b64encode raw
      \<and> ed25519_verify P public_key raw (signature_message artifact_type artifact_id payload_sha256)"
proof -
  obtain e where e: "keyring_from_environment P (ks_loads K) e = Inr (Some k)"
    and services: "\<And>f i r. env_vault e = Some f \<Longrightarrow> f i = Inr r \<Longrightarrow> signs_64 r"
      "\<And>f i r. env_aws_kms e = Some f \<Longrightarrow> f i = Inr r \<Longrightarrow> signs_64 r"
      "\<And>f i r. env_gcp_kms e = Some f \<Longrightarrow> f i = Inr r \<Longrightarrow> signs_64 r"
    using assms(1) by (force simp: service_keyring_def vault_signer_64 intro: aws_signer_64 gcp_signer_64)
  from keyring_from_environment_cases [OF e] have ok: "keyring_ok P k" and "environment_remote_signer e = Inr (Some r)"
    using assms(2) by auto
  then have r: "signs_64 r" using environment_signer_64 services by blast
  from ok assms(2) have active: "active_key_id k = Some (rs_key_id r)" "active_algorithm k = Some ED25519"
    "map_of (private_keys k) (rs_key_id r) = None" and "map_of (public_keys k) (rs_key_id r) \<noteq> None"
    by (auto simp: keyring_ok_def check_active_key_def split: if_splits option.splits)
  then obtain public_key where key: "map_of (public_keys k) (rs_key_id r) = Some public_key" by blast
  have differ: "ED25519 \<noteq> HMAC_SHA256" by (simp add: HMAC_SHA256_def ED25519_def)
  let ?m = "signature_message artifact_type artifact_id payload_sha256"
  have signed: "rs_sign r ?m = Inr s"
    and verified: "keyring_verify P k ED25519 (rs_key_id r) artifact_type artifact_id payload_sha256 s = Inr True"
    using assms(2,3) active differ by (auto simp: keyring_sign_def Let_def split: if_splits)
  from signed r obtain raw where raw: "length raw = 64" "s = b64encode raw" by (auto simp: signs_64_def)
  then have "ed25519_verify P public_key raw ?m"
    using verified key differ by (simp add: keyring_verify_def Let_def)
  then show ?thesis using active key raw by blast
qed

subsection \<open>A concrete process\<close>

definition ex_service_primitives :: primitives where
  "ex_service_primitives = \<lparr>sha256_hex = (\<lambda>_. []), hmac_sha256_hex = (\<lambda>_ _. []), ed25519_public = (\<lambda>k. k),
     ed25519_sign = (\<lambda>_ m. m), ed25519_verify = (\<lambda>_ _ _. True), float_repr = (\<lambda>_. [])\<rparr>"

definition ex_raw :: string where "ex_raw = replicate 64 CHR ''s''"
definition ex_public :: string where "ex_public = replicate 32 CHR ''x''"

definition ex_loads :: "string \<Rightarrow> json option" where
  "ex_loads = map_of [(''p'', JObj [(''a'', JStr (b64encode ex_public))]),
     (''r'', JObj [(''data'', JObj [(''signature'', JStr (''vault:v'' @ int_str 1 @ CHR '':'' # b64encode ex_raw))])])]"

definition ex_services :: key_services where
  "ex_services = \<lparr>ks_ip_ok = (\<lambda>_. True), ks_parse_int = map_of [(''1'', 1)], ks_parse_float = map_of [(''5'', PyFinite 5)],
     ks_loads = ex_loads, ks_read_file = (\<lambda>_. Token_file_error), ks_vault = (\<lambda>_. Vault_body ''r''),
     ks_aws = (\<lambda>_. Inl (RuntimeError [])), ks_crc32c = (\<lambda>_. 0), ks_gcp = Client_refused\<rparr>"

definition ex_service_env :: "string \<Rightarrow> string option" where
  "ex_service_env = map_of
     [(''AECONTROL_ARTIFACT_VAULT_ADDR'', ''https://v''), (''AECONTROL_ARTIFACT_VAULT_TOKEN'', ''t''),
      (''AECONTROL_ARTIFACT_VAULT_KEY'', ''k''), (''AECONTROL_ARTIFACT_VAULT_KEY_VERSION'', ''1''),
      (''AECONTROL_ARTIFACT_SIGNING_KEY_ID'', ''a''), (''AECONTROL_ARTIFACT_SIGNING_ALGORITHM'', ''ed25519''),
      (''AECONTROL_ARTIFACT_ED25519_PUBLIC_KEYS'', ''p'')]"

definition ex_vault :: vault_configuration where
  "ex_vault = \<lparr>vc_address = ''https://v'', vc_token = ''t'', vc_mount = ''transit'', vc_key_name = ''k'',
     vc_key_version = 1, vc_namespace = None, vc_timeout_seconds = PyFinite 5\<rparr>"

definition ex_service_keyring :: keyring where
  "ex_service_keyring = \<lparr>hmac_keys = [], private_keys = [], public_keys = [(''a'', ex_public)],
     active_key_id = Some ''a'', active_algorithm = Some ED25519,
     kr_remote_signer = Some (vault_signer ex_loads (\<lambda>_. Vault_body ''r'') ex_vault ''a'')\<rparr>"

lemma ex_vault_ok: "make_vault_configuration (\<lambda>_. True) ex_vault = Inr ex_vault"
proof -
  let ?u = "\<lparr>up_scheme = ''https'', up_netloc = ''v'', up_path = [], up_query = [], up_fragment = []\<rparr>"
  have u: "urlparse (\<lambda>_. True) ''https://v'' = Inr ?u" by code_simp
  have parts: "\<not> isl (url_port ?u)" "vault_address_ok ?u" by code_simp+
  have mount: "vault_mount_ok ''transit''" by code_simp
  have key: "fullmatch VAULT_KEY_PATTERN ''k''" by code_simp
  have tok: "vault_token_ok ''t''" by (simp add: vault_token_ok_def MAX_TOKEN_BYTES_def utf8_def)
  show ?thesis
    using u parts mount key tok
    by (simp add: make_vault_configuration_def ex_vault_def vault_namespace_ok_def float_between_def del: fullmatch.simps)
qed

lemma ex_vault_environment:
  "vault_configuration_from_environment (ks_ip_ok ex_services) (ks_parse_int ex_services) (ks_parse_float ex_services)
     (ks_read_file ex_services) ex_service_env = Inr (Some ex_vault)"
  using ex_vault_ok
  by (simp add: vault_configuration_from_environment_def VAULT_ENVIRONMENT_def ex_service_env_def ex_services_def
      truthy_def vault_token_def parsed_def or_default_def ex_vault_def)

lemma ex_keyring: "service_keyring ex_service_primitives ex_services ex_service_env = Inr (Some ex_service_keyring)"
proof -
  have aws: "aws_kms_configuration_from_environment pf ex_service_env = Inr None" for pf
    by (simp add: aws_kms_configuration_from_environment_def ex_service_env_def)
  have gcp: "gcp_kms_configuration_from_environment pi pf ex_service_env = Inr None" for pi pf
    by (simp add: gcp_kms_configuration_from_environment_def ex_service_env_def GCP_KMS_ENVIRONMENT_def)
  have key_id: "fullmatch KEY_ID_PATTERN ''a''" by code_simp
  have keys: "decode_key_map ex_loads ''p'' = Inr [(''a'', ex_public)]"
    by (simp add: decode_key_map_def ex_loads_def)
  let ?signer = "vault_signer ex_loads (\<lambda>_. Vault_body ''r'') ex_vault ''a''"
  have ring: "artifact_keyring ex_service_primitives [] (Some ''a'') (Some ED25519) [] [(''a'', ex_public)] (Some ?signer)
      = Inr ex_service_keyring"
    using key_id
    by (simp add: artifact_keyring_def guard_result_def add_public_key_def ex_public_def check_active_key_def
        ex_service_keyring_def vault_signer_def ED25519_def HMAC_SHA256_def del: fullmatch.simps)
  show ?thesis
    unfolding service_keyring_def ex_vault_environment aws gcp bind_result_simps keyring_from_environment_def
    using keys ring
    by (simp add: ex_service_env_def ex_services_def remote_requires_ed25519_def guard_result_def
        decode_optional_key_map_def environment_remote_signer_def ED25519_def count_if_def)
qed

theorem service_signatures_trusted_witness:
  "service_keyring ex_service_primitives ex_services ex_service_env = Inr (Some ex_service_keyring)
   \<and> keyring_sign ex_service_primitives ex_service_keyring ''run'' 7 [] = Inr (b64encode ex_raw)
   \<and> (\<exists>raw. length raw = 64 \<and> b64encode ex_raw = b64encode raw \<and> map_of (private_keys ex_service_keyring) ''a'' = None)"
proof -
  have "vault_signature_text ex_loads (Vault_body ''r'') = Inr (''vault:v'' @ int_str 1 @ CHR '':'' # b64encode ex_raw)"
    unfolding vault_text_iff by (simp add: ex_loads_def item_of_def MAX_SIGNING_RESPONSE_BYTES_def)
  moreover have "CHR '':'' \<notin> set (b64encode ex_raw)" by code_simp
  moreover have "length ex_raw = 64" by (simp add: ex_raw_def)
  ultimately have sign: "vault_sign ex_loads (\<lambda>_. Vault_body ''r'') ex_vault m = Inr (b64encode ex_raw)" for m
    unfolding vault_sign_def by (auto simp: vault_decode_iff ex_vault_def)
  then have s: "keyring_sign ex_service_primitives ex_service_keyring ''run'' 7 [] = Inr (b64encode ex_raw)"
    by (simp add: keyring_sign_def ex_service_keyring_def vault_signer_def ED25519_def HMAC_SHA256_def Let_def
        keyring_verify_def ex_service_primitives_def)
  have "kr_remote_signer ex_service_keyring = Some (vault_signer ex_loads (\<lambda>_. Vault_body ''r'') ex_vault ''a'')"
    "active_key_id ex_service_keyring = Some ''a''"
    by (simp_all add: ex_service_keyring_def)
  with service_signatures_trusted [OF ex_keyring this(1) s] s ex_keyring show ?thesis by auto
qed

end
