(* ===== verification/Model_Clients.thy ===== *)
theory Model_Clients
  imports Sandbox Guardrails Url
begin

section \<open>Clients of model services (\<open>ollama.py\<close>, \<open>openai_compatible.py\<close>, \<open>nim.py\<close>, \<open>bedrock.py\<close>)\<close>

text \<open>
  The prompt, the requests, and the checks each client makes on the answer before it hands out a source. The HTTP
  transport, \<open>json.loads\<close>, the Bedrock clients and the parts of pydantic that read a \<open>RepairPayload\<close> from JSON text
  and print its schema are parameters; SHA-256 is \<open>sha256_hex\<close>.
\<close>

abbreviation OllamaError :: "string \<Rightarrow> exn" where "OllamaError \<equiv> ServiceError ''OllamaError''"
abbreviation OpenAICompatibleError :: "string \<Rightarrow> exn" where "OpenAICompatibleError \<equiv> ServiceError ''OpenAICompatibleError''"
abbreviation BedrockError :: "string \<Rightarrow> exn" where "BedrockError \<equiv> ServiceError ''BedrockError''"

subsection \<open>Names of agent versions\<close>

definition parse_prefixed_version :: "string \<Rightarrow> string \<Rightarrow> string \<Rightarrow> string option result" where
  "parse_prefixed_version prefix message agent_version =
     (if \<not> starts_with prefix agent_version then Inr None
      else (let model = strip (List.drop (length prefix) agent_version) in
        if model = [] then Inl (ValueError message) else Inr (Some model)))"

definition parse_ollama_agent_version :: "string \<Rightarrow> string option result" where
  "parse_ollama_agent_version = parse_prefixed_version ''ollama/'' ''Ollama agent version must include a model name''"

definition parse_openai_agent_version :: "string \<Rightarrow> string option result" where
  "parse_openai_agent_version =
     parse_prefixed_version ''openai/'' ''OpenAI-compatible agent version must include a model name''"

definition parse_nim_agent_version :: "string \<Rightarrow> string option result" where
  "parse_nim_agent_version = parse_prefixed_version ''nim/'' ''NVIDIA NIM agent version must include a model name''"

definition parse_bedrock_agent_version :: "string \<Rightarrow> string option result" where
  "parse_bedrock_agent_version =
     parse_prefixed_version ''bedrock/'' ''Amazon Bedrock agent version must include a model ID''"

subsection \<open>Prompts and repairs\<close>

definition repair_prompt :: "dataset_case \<Rightarrow> string result" where
  "repair_prompt c =
     bind_result (vulnerable_source c) (\<lambda>source.
       Inr (''You are repairing one small Python file. Return JSON matching the supplied schema with ''
         @ ''the complete replacement app.py source in the source field. Do not use markdown. ''
         @ ''Make the smallest robust correction that passes the visible test.'' @ [newline, newline]
         @ ''Case: '' @ dc_title c @ [newline] @ ''Bug kind: '' @ dc_bug_kind c @ [newline, newline]
         @ ''app.py:'' @ [newline] @ source @ [newline]
         @ ''Visible test:'' @ [newline] @ public_test_source c))"

record model_repair =
  mr_source :: string
  mr_metadata :: "(string, json) dict"

text \<open>\<open>RepairPayload\<close>: validation of a decoded value, and of JSON text (\<open>None\<close> for text that is not such a payload).\<close>

definition validate_repair :: "json \<Rightarrow> string result" where
  "validate_repair v = (case v of
     JObj kvs \<Rightarrow> (case map_of kvs ''source'' of Some (JStr s) \<Rightarrow> Inr s | _ \<Rightarrow> Inl (ValidationError ''RepairPayload''))
   | _ \<Rightarrow> Inl (ValidationError ''RepairPayload''))"

record repair_schema =
  rs_json_schema :: json
  rs_parse_json :: "string \<Rightarrow> string option"

definition validate_repair_json :: "repair_schema \<Rightarrow> json \<Rightarrow> string result" where
  "validate_repair_json S v = (case v of
     JStr text \<Rightarrow> (case rs_parse_json S text of None \<Rightarrow> Inl (ValidationError ''RepairPayload'') | Some s \<Rightarrow> Inr s)
   | _ \<Rightarrow> Inl (ValidationError ''RepairPayload''))"

text \<open>\<open>json.loads\<close> of the answer of an HTTP request, where the client accepts only an object.\<close>

definition object_request ::
  "transport \<Rightarrow> (string \<Rightarrow> json result) \<Rightarrow> (string \<Rightarrow> exn) \<Rightarrow> string \<Rightarrow> string \<Rightarrow> http_request
     \<Rightarrow> (string \<times> json) list result" where
  "object_request urlopen loads client_error failed not_object request =
     (case bind_result (urlopen request) loads of
        Inl e \<Rightarrow> Inl (if request_failure e then client_error failed else e)
      | Inr (JObj kvs) \<Rightarrow> Inr kvs
      | Inr _ \<Rightarrow> Inl (client_error not_object))"

text \<open>The items a comprehension over a decoded value sees: a dictionary gives its keys, a text its characters.\<close>

definition json_items :: "json \<Rightarrow> json list result" where
  "json_items v = (case v of
     JList items \<Rightarrow> Inr items
   | JObj kvs \<Rightarrow> Inr (map (\<lambda>(k, _). JStr k) kvs)
   | JStr s \<Rightarrow> Inr (map (\<lambda>c. JStr [c]) s)
   | _ \<Rightarrow> Inl (TypeError ''object is not iterable''))"

subsection \<open>Ollama\<close>

definition DEFAULT_OLLAMA_URL :: string where "DEFAULT_OLLAMA_URL = ''http://127.0.0.1:11434''"

definition ollama_base_url :: "string option \<Rightarrow> string option \<Rightarrow> string" where
  "ollama_base_url env_url base_url =
     rstrip_char CHR ''/'' (the (or_else (or_else base_url env_url) (Some DEFAULT_OLLAMA_URL)))"

definition ollama_request ::
  "transport \<Rightarrow> (string \<Rightarrow> json result) \<Rightarrow> string \<Rightarrow> string \<Rightarrow> string \<Rightarrow> json option \<Rightarrow> (string \<times> json) list result" where
  "ollama_request urlopen loads base_url method path body =
     object_request urlopen loads OllamaError ''Ollama request failed'' ''Ollama returned a non-object response''
       \<lparr>hq_url = base_url @ path, hq_body = body, hq_method = method,
        hq_headers = [(''Content-Type'', ''application/json'')]\<rparr>"

definition ollama_version ::
  "transport \<Rightarrow> (string \<Rightarrow> json result) \<Rightarrow> (json \<Rightarrow> string) \<Rightarrow> string \<Rightarrow> string result" where
  "ollama_version urlopen loads py_str base_url =
     bind_result (ollama_request urlopen loads base_url ''GET'' ''/api/version'' None) (\<lambda>payload.
     case map_of payload ''version'' of
       None \<Rightarrow> Inl (KeyError ''version'') | Some (JStr s) \<Rightarrow> Inr s | Some v \<Rightarrow> Inr (py_str v))"

text \<open>\<open>validate\<close> is the \<open>model_validate\<close> of \<open>OllamaModel\<close> or \<open>CompatibleModel\<close>.\<close>

definition ollama_models ::
  "transport \<Rightarrow> (string \<Rightarrow> json result) \<Rightarrow> (json \<Rightarrow> 'm result) \<Rightarrow> string \<Rightarrow> 'm list result" where
  "ollama_models urlopen loads validate base_url =
     bind_result (ollama_request urlopen loads base_url ''GET'' ''/api/tags'' None) (\<lambda>payload.
     bind_result (json_items (dict_get payload ''models'' (JList []))) (map_result validate))"

definition ollama_body :: "repair_schema \<Rightarrow> string \<Rightarrow> string \<Rightarrow> json" where
  "ollama_body S model prompt =
     JObj [(''model'', JStr model), (''prompt'', JStr prompt), (''stream'', JBool False),
       (''format'', rs_json_schema S),
       (''options'', JObj [(''temperature'', JInt 0), (''seed'', JInt 42), (''num_predict'', JInt 512)])]"

definition ollama_repair ::
  "primitives \<Rightarrow> repair_schema \<Rightarrow> transport \<Rightarrow> (string \<Rightarrow> json result) \<Rightarrow> string \<Rightarrow> string \<Rightarrow> dataset_case
     \<Rightarrow> model_repair result" where
  "ollama_repair P S urlopen loads base_url model c =
     bind_result (repair_prompt c) (\<lambda>prompt.
     bind_result (ollama_request urlopen loads base_url ''POST'' ''/api/generate'' (Some (ollama_body S model prompt)))
       (\<lambda>response.
     case bind_result (json_item (JObj response) ''response'') (validate_repair_json S) of
       Inl _ \<Rightarrow> Inl (OllamaError ''Ollama returned an invalid structured repair'')
     | Inr source \<Rightarrow>
         if strip source = [] then Inl (OllamaError ''Ollama returned an empty source file'')
         else Inr \<lparr>mr_source = source,
           mr_metadata = [(''provider'', JStr ''ollama''), (''model'', dict_get response ''model'' (JStr model)),
             (''prompt_sha256'', JStr (sha256_hex P (utf8 prompt))),
             (''total_duration_ns'', dict_get response ''total_duration'' JNull),
             (''load_duration_ns'', dict_get response ''load_duration'' JNull),
             (''prompt_eval_count'', dict_get response ''prompt_eval_count'' JNull),
             (''eval_count'', dict_get response ''eval_count'' JNull),
             (''done_reason'', dict_get response ''done_reason'' JNull),
             (''temperature'', JInt 0), (''seed'', JInt 42)]\<rparr>))"

subsection \<open>OpenAI-compatible endpoints\<close>

definition DEFAULT_BASE_URL :: string where "DEFAULT_BASE_URL = ''http://127.0.0.1:11434/v1''"

record compatible_client =
  cl_base_url :: string
  cl_api_key :: string
  cl_provider :: string

definition compatible_client_of ::
  "string option \<Rightarrow> string option \<Rightarrow> string option \<Rightarrow> string option \<Rightarrow> string \<Rightarrow> compatible_client" where
  "compatible_client_of env_url env_key base_url api_key provider =
     \<lparr>cl_base_url = rstrip_char CHR ''/'' (the (or_else (or_else base_url env_url) (Some DEFAULT_BASE_URL))),
      cl_api_key = the (or_else (or_else api_key env_key) (Some ''ollama'')), cl_provider = provider\<rparr>"

definition compatible_request ::
  "transport \<Rightarrow> (string \<Rightarrow> json result) \<Rightarrow> compatible_client \<Rightarrow> string \<Rightarrow> string \<Rightarrow> json option
     \<Rightarrow> (string \<times> json) list result" where
  "compatible_request urlopen loads client method path body =
     object_request urlopen loads OpenAICompatibleError ''OpenAI-compatible request failed''
       ''OpenAI-compatible endpoint returned a non-object response''
       \<lparr>hq_url = cl_base_url client @ path, hq_body = body, hq_method = method,
        hq_headers = [(''Accept'', ''application/json''), (''Content-Type'', ''application/json''),
          (''Authorization'', ''Bearer '' @ cl_api_key client)]\<rparr>"

definition compatible_models ::
  "transport \<Rightarrow> (string \<Rightarrow> json result) \<Rightarrow> (json \<Rightarrow> 'm result) \<Rightarrow> compatible_client \<Rightarrow> 'm list result" where
  "compatible_models urlopen loads validate client =
     bind_result (compatible_request urlopen loads client ''GET'' ''/models'' None) (\<lambda>payload.
     bind_result (json_items (dict_get payload ''data'' (JList []))) (map_result validate))"

definition compatible_body :: "repair_schema \<Rightarrow> string \<Rightarrow> string \<Rightarrow> json" where
  "compatible_body S model prompt =
     JObj [(''model'', JStr model),
       (''messages'', JList [JObj [(''role'', JStr ''user''), (''content'', JStr prompt)]]),
       (''stream'', JBool False), (''temperature'', JInt 0), (''seed'', JInt 42),
       (''response_format'', JObj [(''type'', JStr ''json_schema''),
          (''json_schema'', JObj [(''name'', JStr ''coding_repair''), (''strict'', JBool True),
             (''schema'', rs_json_schema S)])])]"

text \<open>\<open>.get(key)\<close> of a decoded value, \<open>None\<close> when absent; only a dictionary has the method.\<close>

definition json_get :: "json \<Rightarrow> string \<Rightarrow> json result" where
  "json_get v k = (case v of
     JObj kvs \<Rightarrow> Inr (dict_get kvs k JNull) | _ \<Rightarrow> Inl (AttributeError ''object has no attribute get''))"

definition compatible_metadata ::
  "primitives \<Rightarrow> compatible_client \<Rightarrow> string \<Rightarrow> string \<Rightarrow> (string \<times> json) list \<Rightarrow> json
     \<Rightarrow> (string, json) dict result" where
  "compatible_metadata P client model prompt response choice =
     (let usage = dict_get response ''usage'' (JObj []) in
      bind_result (json_get usage ''prompt_tokens'') (\<lambda>prompt_tokens.
      bind_result (json_get usage ''completion_tokens'') (\<lambda>completion_tokens.
      bind_result (json_get usage ''total_tokens'') (\<lambda>total_tokens.
      bind_result (json_get choice ''finish_reason'') (\<lambda>finish_reason.
      Inr [(''provider'', JStr (cl_provider client)), (''model'', dict_get response ''model'' (JStr model)),
        (''prompt_sha256'', JStr (sha256_hex P (utf8 prompt))), (''prompt_tokens'', prompt_tokens),
        (''completion_tokens'', completion_tokens), (''total_tokens'', total_tokens),
        (''finish_reason'', finish_reason), (''temperature'', JInt 0), (''seed'', JInt 42),
        (''base_url'', JStr (cl_base_url client))])))))"

text \<open>The first choice and the source in its message.\<close>

definition compatible_choice :: "repair_schema \<Rightarrow> (string \<times> json) list \<Rightarrow> (json \<times> string) result" where
  "compatible_choice S response =
     bind_result (bind_result (json_item (JObj response) ''choices'') json_first) (\<lambda>choice.
     bind_result (bind_result (json_item choice ''message'') (\<lambda>m. json_item m ''content'')) (\<lambda>content.
     bind_result (validate_repair_json S content) (\<lambda>source. Inr (choice, source))))"

definition compatible_repair ::
  "primitives \<Rightarrow> repair_schema \<Rightarrow> transport \<Rightarrow> (string \<Rightarrow> json result) \<Rightarrow> compatible_client \<Rightarrow> string \<Rightarrow> dataset_case
     \<Rightarrow> model_repair result" where
  "compatible_repair P S urlopen loads client model c =
     bind_result (repair_prompt c) (\<lambda>prompt.
     bind_result (compatible_request urlopen loads client ''POST'' ''/chat/completions'' (Some (compatible_body S model prompt)))
       (\<lambda>response.
     case compatible_choice S response of
       Inl _ \<Rightarrow> Inl (OpenAICompatibleError ''OpenAI-compatible endpoint returned an invalid structured repair'')
     | Inr (choice, source) \<Rightarrow>
         bind_result (compatible_metadata P client model prompt response choice) (\<lambda>metadata.
         Inr \<lparr>mr_source = source, mr_metadata = metadata\<rparr>)))"

subsection \<open>NVIDIA NIM\<close>

definition DEFAULT_NIM_BASE_URL :: string where "DEFAULT_NIM_BASE_URL = ''https://integrate.api.nvidia.com/v1''"

definition nim_client ::
  "(string \<Rightarrow> bool) \<Rightarrow> (string \<Rightarrow> string option) \<Rightarrow> string option \<Rightarrow> string option \<Rightarrow> compatible_client result" where
  "nim_client ip_ok env base_url api_key =
     (let resolved_url = the (or_else (or_else base_url (env ''NIM_BASE_URL'')) (Some DEFAULT_NIM_BASE_URL));
          resolved_key = or_else (or_else api_key (env ''NVIDIA_API_KEY'')) (env ''NIM_API_KEY'') in
      bind_result (urlparse ip_ok resolved_url) (\<lambda>parsed.
      if url_hostname parsed = Some ''integrate.api.nvidia.com'' \<and> \<not> truthy resolved_key
      then Inl (ValueError ''NVIDIA_API_KEY is required for the NVIDIA API Catalog endpoint'')
      else Inr (compatible_client_of (env ''OPENAI_COMPAT_BASE_URL'') (env ''OPENAI_COMPAT_API_KEY'') (Some resolved_url)
                  (or_else resolved_key (Some ''self-hosted-nim'')) ''nvidia-nim'')))"

text \<open>\<open>asyncio.gather\<close> of the two requests; the first exception is raised.\<close>

definition deployment_info ::
  "transport \<Rightarrow> (string \<Rightarrow> json result) \<Rightarrow> compatible_client
     \<Rightarrow> ((string \<times> json) list \<times> (string \<times> json) list) result" where
  "deployment_info urlopen loads client =
     bind_result (compatible_request urlopen loads client ''GET'' ''/metadata'' None) (\<lambda>metadata.
     bind_result (compatible_request urlopen loads client ''GET'' ''/version'' None) (\<lambda>version.
     Inr (metadata, version)))"

subsection \<open>Amazon Bedrock\<close>

definition BEDROCK_REGION_PATTERN :: regex where
  "BEDROCK_REGION_PATTERN =
     Seq (exactly 2 (Cls lower_az)) (Seq (opt (lit ''-gov'')) (Seq (lit ''-'') (Seq (plus1 (Cls lower_az))
       (Seq (lit ''-'') (Seq (Cls [(CHR ''1'', CHR ''9'')]) (Star (Cls digits09)))))))"

definition BEDROCK_PROFILE_PATTERN :: regex where
  "BEDROCK_PROFILE_PATTERN = Seq (Cls (upper_az @ lower_az @ digits09))
     (up_to 127 (Cls (upper_az @ lower_az @ digits09 @ one_char CHR ''_'' @ one_char CHR ''.'' @ one_char CHR ''@''
        @ one_char CHR ''+'' @ one_char CHR ''-'')))"

record bedrock_configuration =
  bk_region :: string
  bk_profile :: "string option"
  bk_timeout_seconds :: py_float

definition make_bedrock_configuration :: "bedrock_configuration \<Rightarrow> bedrock_configuration result" where
  "make_bedrock_configuration c =
     (if \<not> fullmatch BEDROCK_REGION_PATTERN (bk_region c)
      then Inl (ValueError ''AECONTROL_BEDROCK_REGION must be a valid AWS region'')
      else if (case bk_profile c of None \<Rightarrow> False | Some p \<Rightarrow> \<not> fullmatch BEDROCK_PROFILE_PATTERN p)
      then Inl (ValueError ''AECONTROL_BEDROCK_PROFILE contains invalid characters'')
      else (case finite_float (bk_timeout_seconds c) of
          None \<Rightarrow> Inl (ValueError ''AECONTROL_BEDROCK_TIMEOUT_SECONDS must be between 1 and 300 seconds'')
        | Some t \<Rightarrow>
            if 1 \<le> t \<and> t \<le> 300 then Inr c
            else Inl (ValueError ''AECONTROL_BEDROCK_TIMEOUT_SECONDS must be between 1 and 300 seconds'')))"

definition bedrock_configuration_from_environment ::
  "(string \<Rightarrow> py_float option) \<Rightarrow> (string \<Rightarrow> string option) \<Rightarrow> bedrock_configuration result" where
  "bedrock_configuration_from_environment parse_float env =
     (let region = the (or_else (or_else (or_else (env ''AECONTROL_BEDROCK_REGION'') (env ''AWS_REGION''))
            (env ''AWS_DEFAULT_REGION'')) (Some ''us-east-1''));
          raw_timeout = (case env ''AECONTROL_BEDROCK_TIMEOUT_SECONDS'' of None \<Rightarrow> ''120'' | Some v \<Rightarrow> v) in
      case parse_float raw_timeout of
        None \<Rightarrow> Inl (ValueError ''AECONTROL_BEDROCK_TIMEOUT_SECONDS must be a number'')
      | Some timeout \<Rightarrow>
          make_bedrock_configuration
            \<lparr>bk_region = region, bk_profile = or_else (env ''AECONTROL_BEDROCK_PROFILE'') None, bk_timeout_seconds = timeout\<rparr>)"

text \<open>An answer of the AWS clients; \<open>Bedrock_error\<close> is a \<open>BotoCoreError\<close> or a \<open>ClientError\<close>.\<close>

datatype bedrock_answer = Bedrock_response json | Bedrock_error | Bedrock_raises exn

record bedrock_clients =
  bc_list_foundation_models :: "string \<Rightarrow> bedrock_answer"
  bc_converse :: "json \<Rightarrow> bedrock_answer"

datatype bedrock_creation = Bedrock_created bedrock_clients | Bedrock_misconfigured | Bedrock_creation_raises exn

text \<open>\<open>BedrockClient()\<close>: \<open>Bedrock_misconfigured\<close> is a \<open>BotoCoreError\<close> or a \<open>ValueError\<close>.\<close>

definition bedrock_client ::
  "(string \<Rightarrow> py_float option) \<Rightarrow> (string \<Rightarrow> string option) \<Rightarrow> (bedrock_configuration \<Rightarrow> bedrock_creation)
     \<Rightarrow> (bedrock_configuration \<times> bedrock_clients) result" where
  "bedrock_client parse_float env make_clients =
     bind_result (bedrock_configuration_from_environment parse_float env) (\<lambda>c.
     case make_clients c of
       Bedrock_created clients \<Rightarrow> Inr (c, clients)
     | Bedrock_misconfigured \<Rightarrow> Inl (BedrockError ''Amazon Bedrock client configuration failed'')
     | Bedrock_creation_raises e \<Rightarrow> Inl e)"

record bedrock_model =
  bm_model_id :: string
  bm_model_name :: string
  bm_provider_name :: string
  bm_input_modalities :: "string list"
  bm_output_modalities :: "string list"
  bm_inference_types :: "string list"
  bm_response_streaming_supported :: bool

definition strict_str :: "json \<Rightarrow> string result" where
  "strict_str v = (case v of JStr s \<Rightarrow> Inr s | _ \<Rightarrow> Inl (ValidationError ''BedrockModel''))"

definition strict_str_list :: "json \<Rightarrow> string list result" where
  "strict_str_list v = (case v of JList items \<Rightarrow> map_result strict_str items | _ \<Rightarrow> Inl (ValidationError ''BedrockModel''))"

definition strict_bool :: "json \<Rightarrow> bool result" where
  "strict_bool v = (case v of JBool b \<Rightarrow> Inr b | _ \<Rightarrow> Inl (ValidationError ''BedrockModel''))"

definition bedrock_model_of :: "json \<Rightarrow> bedrock_model result" where
  "bedrock_model_of item =
     (case item of
        JObj kvs \<Rightarrow>
          bind_result (bind_result (json_item item ''modelId'') strict_str) (\<lambda>model_id.
          bind_result (bind_result (json_item item ''modelName'') strict_str) (\<lambda>model_name.
          bind_result (bind_result (json_item item ''providerName'') strict_str) (\<lambda>provider_name.
          bind_result (strict_str_list (dict_get kvs ''inputModalities'' (JList []))) (\<lambda>inputs.
          bind_result (strict_str_list (dict_get kvs ''outputModalities'' (JList []))) (\<lambda>outputs.
          bind_result (strict_str_list (dict_get kvs ''inferenceTypesSupported'' (JList []))) (\<lambda>types.
          bind_result (strict_bool (dict_get kvs ''responseStreamingSupported'' (JBool False))) (\<lambda>streaming.
          Inr \<lparr>bm_model_id = model_id, bm_model_name = model_name, bm_provider_name = provider_name,
             bm_input_modalities = inputs, bm_output_modalities = outputs, bm_inference_types = types,
             bm_response_streaming_supported = streaming\<rparr>)))))))
      | _ \<Rightarrow> Inl (TypeError ''indices must be integers''))"

definition bedrock_models :: "bedrock_clients \<Rightarrow> bedrock_model list result" where
  "bedrock_models C =
     (case bc_list_foundation_models C ''TEXT'' of
        Bedrock_error \<Rightarrow> Inl (BedrockError ''Amazon Bedrock model discovery failed'')
      | Bedrock_raises e \<Rightarrow> Inl e
      | Bedrock_response response \<Rightarrow>
          (case response of
             JObj kvs \<Rightarrow>
               (case dict_get kvs ''modelSummaries'' JNull of
                  JList items \<Rightarrow>
                    (case map_result bedrock_model_of items of
                       Inl _ \<Rightarrow> Inl (BedrockError ''Amazon Bedrock returned an invalid model summary'')
                     | Inr models \<Rightarrow> Inr models)
                | _ \<Rightarrow> Inl (BedrockError ''Amazon Bedrock returned an invalid model discovery response''))
           | _ \<Rightarrow> Inl (BedrockError ''Amazon Bedrock returned an invalid model discovery response'')))"

definition bedrock_request :: "repair_schema \<Rightarrow> string \<Rightarrow> string \<Rightarrow> json" where
  "bedrock_request S model prompt =
     JObj [(''modelId'', JStr model),
       (''messages'', JList [JObj [(''role'', JStr ''user''), (''content'', JList [JObj [(''text'', JStr prompt)]])]]),
       (''inferenceConfig'', JObj [(''maxTokens'', JInt 512), (''temperature'', JInt 0)]),
       (''toolConfig'', JObj [
          (''tools'', JList [JObj [(''toolSpec'', JObj [(''name'', JStr ''coding_repair''),
             (''description'', JStr ''Return the complete replacement app.py source.''),
             (''inputSchema'', JObj [(''json'', rs_json_schema S)])])]]),
          (''toolChoice'', JObj [(''tool'', JObj [(''name'', JStr ''coding_repair'')])])]),
       (''requestMetadata'', JObj [(''application'', JStr ''aecontrol''), (''operation'', JStr ''coding-repair'')])]"

definition tool_input :: "json \<Rightarrow> json option" where
  "tool_input block = (case block of
     JObj kvs \<Rightarrow> (case dict_get kvs ''toolUse'' JNull of
         JObj use \<Rightarrow> if dict_get use ''name'' JNull = JStr ''coding_repair'' then Some (dict_get use ''input'' JNull) else None
       | _ \<Rightarrow> None)
   | _ \<Rightarrow> None)"

definition bedrock_parse_repair :: "json \<Rightarrow> string result" where
  "bedrock_parse_repair response =
     (case response of
        JObj _ \<Rightarrow>
          (case bind_result (json_item response ''output'') (\<lambda>out.
                bind_result (json_item out ''message'') (\<lambda>message. json_item message ''content'')) of
             Inl _ \<Rightarrow> Inl (BedrockError ''Amazon Bedrock returned an invalid Converse response'')
           | Inr (JList content) \<Rightarrow>
               (case List.map_filter tool_input content of
                  [payload] \<Rightarrow>
                    (case validate_repair payload of
                       Inl _ \<Rightarrow> Inl (BedrockError ''Amazon Bedrock returned an invalid coding repair payload'')
                     | Inr source \<Rightarrow>
                         if strip source = [] then Inl (BedrockError ''Amazon Bedrock returned an empty source file'')
                         else Inr source)
                | _ \<Rightarrow> Inl (BedrockError ''Amazon Bedrock did not return exactly one coding repair tool result''))
           | Inr _ \<Rightarrow> Inl (BedrockError ''Amazon Bedrock returned invalid Converse content''))
      | _ \<Rightarrow> Inl (BedrockError ''Amazon Bedrock returned a non-object Converse response''))"

definition nonnegative_integer_or_none :: "json \<Rightarrow> json" where
  "nonnegative_integer_or_none v = (case v of JInt n \<Rightarrow> if n \<ge> 0 then JInt n else JNull | _ \<Rightarrow> JNull)"

definition string_or_none :: "json \<Rightarrow> json" where
  "string_or_none v = (case v of JStr s \<Rightarrow> JStr s | _ \<Rightarrow> JNull)"

definition object_or_empty :: "json \<Rightarrow> (string \<times> json) list" where
  "object_or_empty v = (case v of JObj kvs \<Rightarrow> kvs | _ \<Rightarrow> [])"

definition bedrock_metadata ::
  "primitives \<Rightarrow> bedrock_configuration \<Rightarrow> string \<Rightarrow> string \<Rightarrow> (string \<times> json) list \<Rightarrow> (string, json) dict" where
  "bedrock_metadata P c model prompt response =
     (let usage = object_or_empty (dict_get response ''usage'' JNull);
          metrics = object_or_empty (dict_get response ''metrics'' JNull);
          response_metadata = object_or_empty (dict_get response ''ResponseMetadata'' JNull) in
      [(''provider'', JStr ''aws-bedrock''), (''model'', JStr model), (''region'', JStr (bk_region c)),
       (''prompt_sha256'', JStr (sha256_hex P (utf8 prompt))),
       (''input_tokens'', nonnegative_integer_or_none (dict_get usage ''inputTokens'' JNull)),
       (''output_tokens'', nonnegative_integer_or_none (dict_get usage ''outputTokens'' JNull)),
       (''total_tokens'', nonnegative_integer_or_none (dict_get usage ''totalTokens'' JNull)),
       (''latency_ms'', nonnegative_integer_or_none (dict_get metrics ''latencyMs'' JNull)),
       (''stop_reason'', string_or_none (dict_get response ''stopReason'' JNull)),
       (''request_id'', string_or_none (dict_get response_metadata ''RequestId'' JNull)),
       (''temperature'', JInt 0)])"

definition bedrock_repair ::
  "primitives \<Rightarrow> repair_schema \<Rightarrow> bedrock_configuration \<times> bedrock_clients \<Rightarrow> string \<Rightarrow> dataset_case \<Rightarrow> model_repair result" where
  "bedrock_repair P S = (\<lambda>(configuration, clients) model c.
     bind_result (repair_prompt c) (\<lambda>prompt.
     case bc_converse clients (bedrock_request S model prompt) of
       Bedrock_error \<Rightarrow> Inl (BedrockError ''Amazon Bedrock Converse request failed'')
     | Bedrock_raises e \<Rightarrow> Inl e
     | Bedrock_response response \<Rightarrow>
         bind_result (bedrock_parse_repair response) (\<lambda>source.
         Inr \<lparr>mr_source = source,
           mr_metadata = bedrock_metadata P configuration model prompt (object_or_empty response)\<rparr>)))"

end
