(* ===== verification/Runtime.thy ===== *)
theory Runtime
  imports Model_Clients Evaluators
begin

section \<open>Agents, plugins and the runtime (\<open>agents.py\<close>, \<open>plugins.py\<close>, \<open>runtime.py\<close>)\<close>

text \<open>
  The built-in agents, the plugin registry, and \<open>DeterministicCodingRuntime.execute\<close>: a source from an agent or a
  model service, its run in the sandbox, and the trajectory. The times of the steps, the duration and the text of an
  exception are parameters.
\<close>

subsection \<open>Agents\<close>

record agent_version =
  av_name :: string
  av_version :: string
  av_description :: string

definition BASELINE_VERSION :: agent_version where
  "BASELINE_VERSION = \<lparr>av_name = ''coding-repair-agent'', av_version = ''baseline'',
     av_description = ''Deterministic reference agent that applies the expected minimal repair.''\<rparr>"

definition REGRESSED_VERSION :: agent_version where
  "REGRESSED_VERSION = \<lparr>av_name = ''coding-repair-agent'', av_version = ''candidate_regressed'',
     av_description = ''Candidate with a subtle security validation regression on two critical cases while ''
       @ ''retaining similar aggregate performance.''\<rparr>"

definition FIXED_VERSION :: agent_version where
  "FIXED_VERSION = \<lparr>av_name = ''coding-repair-agent'', av_version = ''candidate_fixed'',
     av_description = ''Corrected candidate that restores validation behavior on the critical slice.''\<rparr>"

record coding_agent =
  ca_version :: agent_version
  ca_repair :: "dataset_case \<Rightarrow> string result"

definition regressed_repair :: "dataset_case \<Rightarrow> string result" where
  "regressed_repair c =
     (if dc_case_id c \<in> {''SEC-01'', ''SEC-04''} then insecure_security_source c else fixed_source c)"

definition AGENT_FACTORIES :: "(string, coding_agent) dict" where
  "AGENT_FACTORIES =
     [(''baseline'', \<lparr>ca_version = BASELINE_VERSION, ca_repair = fixed_source\<rparr>),
      (''candidate_regressed'', \<lparr>ca_version = REGRESSED_VERSION, ca_repair = regressed_repair\<rparr>),
      (''candidate_fixed'', \<lparr>ca_version = FIXED_VERSION, ca_repair = fixed_source\<rparr>)]"

definition get_coding_agent :: "string \<Rightarrow> coding_agent result" where
  "get_coding_agent version =
     (case map_of AGENT_FACTORIES version of
        None \<Rightarrow> Inl (KeyError ''unknown coding agent version'') | Some agent \<Rightarrow> Inr agent)"

definition list_agent_versions :: "agent_version list" where
  "list_agent_versions = map (\<lambda>(_, agent). ca_version agent) (sort_key fst AGENT_FACTORIES)"

subsection \<open>The plugin registry\<close>

definition register_plugin :: "string \<Rightarrow> 't \<Rightarrow> (string, 't) dict \<Rightarrow> (string, 't) dict result" where
  "register_plugin name item items =
     (if map_of items name \<noteq> None then Inl (ValueError (''plugin already registered: '' @ name))
      else Inr (items @ [(name, item)]))"

definition get_plugin :: "(string, 't) dict \<Rightarrow> string \<Rightarrow> 't result" where
  "get_plugin items name =
     (case map_of items name of None \<Rightarrow> Inl (KeyError (''unknown plugin: '' @ name)) | Some item \<Rightarrow> Inr item)"

definition list_plugins :: "(string, 't) dict \<Rightarrow> string list" where
  "list_plugins items = sort (map fst items)"

text \<open>An entry point: its name, and what loading it gives with the text of its \<open>name\<close> attribute, if it has one. The
  registry keeps what was registered before an exception.\<close>

fun discover_entry_points ::
  "(string \<times> ('t \<times> string option) result) list \<Rightarrow> (string, 't) dict \<Rightarrow> unit result \<times> (string, 't) dict" where
  "discover_entry_points [] items = (Inr (), items)"
| "discover_entry_points ((entry_name, loaded) # rest) items =
     (case loaded of
        Inl e \<Rightarrow> (Inl e, items)
      | Inr (plugin, name) \<Rightarrow>
          (case register_plugin (case name of None \<Rightarrow> entry_name | Some n \<Rightarrow> n) plugin items of
             Inl e \<Rightarrow> (Inl e, items)
           | Inr items' \<Rightarrow> discover_entry_points rest items'))"

subsection \<open>The runtime\<close>

text \<open>What \<open>request.variables["case"]\<close> holds.\<close>

datatype case_variable = No_variable | Other_variable | Case_variable dataset_case

record agent_input =
  ai_case_id :: string
  ai_case :: case_variable

text \<open>The service an agent version names, with its model; services are tried in the order of the \<open>elif\<close>s.\<close>

datatype model_service = Service_ollama | Service_bedrock | Service_nim | Service_openai

fun service_name :: "model_service \<Rightarrow> string" where
  "service_name Service_ollama = ''ollama''"
| "service_name Service_bedrock = ''aws-bedrock''"
| "service_name Service_nim = ''nvidia-nim''"
| "service_name Service_openai = ''openai-compatible''"

fun service_error_class :: "model_service \<Rightarrow> string" where
  "service_error_class Service_ollama = ''OllamaError''"
| "service_error_class Service_bedrock = ''BedrockError''"
| "service_error_class Service_nim = ''OpenAICompatibleError''"
| "service_error_class Service_openai = ''OpenAICompatibleError''"

definition select_service :: "string \<Rightarrow> (model_service \<times> string) option result" where
  "select_service agent_version =
     bind_result (parse_ollama_agent_version agent_version) (\<lambda>ollama_model.
     bind_result (parse_openai_agent_version agent_version) (\<lambda>openai_model.
     bind_result (parse_nim_agent_version agent_version) (\<lambda>nim_model.
     bind_result (parse_bedrock_agent_version agent_version) (\<lambda>bedrock_model.
     Inr (case ollama_model of Some m \<Rightarrow> Some (Service_ollama, m)
        | None \<Rightarrow> (case bedrock_model of Some m \<Rightarrow> Some (Service_bedrock, m)
        | None \<Rightarrow> (case nim_model of Some m \<Rightarrow> Some (Service_nim, m)
        | None \<Rightarrow> map_option (Pair Service_openai) openai_model)))))))"

text \<open>The subclasses of \<open>ValueError\<close> among the exceptions of the model, and the names of exception classes.\<close>

definition is_value_error :: "exn \<Rightarrow> bool" where
  "is_value_error e = (case e of
     ValueError _ \<Rightarrow> True | ValidationError _ \<Rightarrow> True
   | ServiceError cls _ \<Rightarrow> cls \<in> {''JSONDecodeError'', ''UnicodeDecodeError'', ''UnicodeEncodeError''}
   | _ \<Rightarrow> False)"

definition service_failure :: "model_service \<Rightarrow> exn \<Rightarrow> bool" where
  "service_failure service e \<longleftrightarrow>
     is_value_error e \<or> (case e of ServiceError cls _ \<Rightarrow> cls = service_error_class service | _ \<Rightarrow> False)"

record 's coding_runtime =
  rt_executor :: "'s test_executor"
  rt_sandbox :: coding_sandbox
  rt_repair :: "model_service \<Rightarrow> string \<Rightarrow> dataset_case \<Rightarrow> model_repair result"
  rt_error_type :: "exn \<Rightarrow> string"
  rt_error_text :: "exn \<Rightarrow> string"

text \<open>The clients of the services: given or built when they are called.\<close>

record service_clients =
  sc_ollama_url :: string
  sc_openai :: compatible_client
  sc_nim :: "compatible_client result"
  sc_bedrock :: "(bedrock_configuration \<times> bedrock_clients) result"

definition service_repair ::
  "primitives \<Rightarrow> repair_schema \<Rightarrow> transport \<Rightarrow> (string \<Rightarrow> json result) \<Rightarrow> service_clients
     \<Rightarrow> model_service \<Rightarrow> string \<Rightarrow> dataset_case \<Rightarrow> model_repair result" where
  "service_repair P S urlopen loads clients service model c =
     (case service of
        Service_ollama \<Rightarrow> ollama_repair P S urlopen loads (sc_ollama_url clients) model c
      | Service_bedrock \<Rightarrow> bind_result (sc_bedrock clients) (\<lambda>client. bedrock_repair P S client model c)
      | Service_nim \<Rightarrow> bind_result (sc_nim clients) (\<lambda>client. compatible_repair P S urlopen loads client model c)
      | Service_openai \<Rightarrow> compatible_repair P S urlopen loads (sc_openai clients) model c)"

text \<open>The trajectory grows by one step, stamped with the time of its position.\<close>

definition add_step ::
  "(nat \<Rightarrow> instant) \<Rightarrow> step_kind \<Rightarrow> (string, json) dict \<Rightarrow> trajectory_step list \<Rightarrow> trajectory_step list" where
  "add_step clock kind data steps =
     steps @ [\<lparr>ts_kind = kind, ts_timestamp = clock (length steps), ts_data = data\<rparr>]"

definition generate_call :: "string \<Rightarrow> (string, json) dict" where
  "generate_call model = [(''name'', JStr ''model_generate''), (''model'', JStr model)]"

text \<open>The answer when the service fails.\<close>

definition failed_output ::
  "'s coding_runtime \<Rightarrow> (nat \<Rightarrow> instant) \<Rightarrow> instant \<Rightarrow> rat \<Rightarrow> model_service \<Rightarrow> string \<Rightarrow> exn
     \<Rightarrow> trajectory_step list \<Rightarrow> agent_output" where
  "failed_output R clock started duration service model e steps =
     (let error_type = rt_error_type R e; message = rt_error_text R e;
          steps = add_step clock Step_error [(''error_type'', JStr error_type), (''message'', JStr message)] steps in
      \<lparr>ao_final_response = Some (''assistant'', ''Model repair failed.''),
       ao_trajectory = \<lparr>at_started_at = started, at_completed_at = Some (ts_timestamp (last steps)), at_steps = steps\<rparr>,
       ao_patch = [], ao_modified_files = [], ao_public_test_output = message, ao_hidden_test_output = ''not run'',
       ao_duration_seconds = duration, ao_status = ERROR, ao_error = Some (error_type, message),
       ao_runtime_metadata = [(''provider'', JStr (service_name service)), (''model'', JStr model)]\<rparr>)"

text \<open>The source to test with the metadata and the steps so far, or the output of a failed service.\<close>

definition propose_source ::
  "'s coding_runtime \<Rightarrow> (nat \<Rightarrow> instant) \<Rightarrow> instant \<Rightarrow> rat \<Rightarrow> string \<Rightarrow> dataset_case \<Rightarrow> trajectory_step list
     \<Rightarrow> (agent_output + string \<times> (string, json) dict \<times> trajectory_step list) result" where
  "propose_source R clock started duration agent_version c steps =
     bind_result (select_service agent_version) (\<lambda>selected.
     case selected of
       None \<Rightarrow>
         bind_result (get_coding_agent agent_version) (\<lambda>agent.
         bind_result (ca_repair agent c) (\<lambda>patched.
         Inr (Inr (patched, [(''provider'', JStr ''deterministic'')], steps))))
     | Some (service, model) \<Rightarrow>
         let steps = add_step clock Step_tool_call (generate_call model) steps in
         (case rt_repair R service model c of
            Inl e \<Rightarrow>
              if service_failure service e
              then Inr (Inl (failed_output R clock started duration service model e steps)) else Inl e
          | Inr repair \<Rightarrow>
              Inr (Inr (mr_source repair, mr_metadata repair,
                add_step clock Step_tool_result
                  [(''name'', JStr ''model_generate''), (''ok'', JBool True), (''model'', JStr model)] steps))))"

definition sandbox_steps ::
  "(nat \<Rightarrow> instant) \<Rightarrow> sandbox_result \<Rightarrow> trajectory_step list \<Rightarrow> trajectory_step list" where
  "sandbox_steps clock r steps =
     fold (\<lambda>result. add_step clock Step_tool_result
         [(''name'', JStr (tr_name result)), (''ok'', JBool (tr_ok result)), (''output'', JStr (tr_output result))])
       (sr_tool_results r)
       (fold (\<lambda>call. add_step clock Step_tool_call
           [(''name'', JStr (tc_name call)), (''arguments'', JObj (tc_arguments call))])
         (sr_tool_calls r) steps)"

fun status_value :: "execution_status \<Rightarrow> string" where
  "status_value PASSED = ''passed''"
| "status_value FAILED = ''failed''"
| "status_value ERROR = ''error''"

definition tested_output ::
  "(nat \<Rightarrow> instant) \<Rightarrow> instant \<Rightarrow> rat \<Rightarrow> (string, json) dict \<Rightarrow> trajectory_step list \<Rightarrow> sandbox_result \<Rightarrow> agent_output" where
  "tested_output clock started duration metadata steps r =
     (let metadata = dict_set ''sandbox_backend'' (JStr (sr_backend r)) metadata;
          steps = sandbox_steps clock r steps;
          status = (if sr_public_passed r \<and> sr_hidden_passed r then PASSED else FAILED) in
      \<lparr>ao_final_response = Some (''assistant'', ''Applied candidate repair.''),
       ao_trajectory = \<lparr>at_started_at = started, at_completed_at = Some (ts_timestamp (last steps)),
          at_steps = add_step clock Step_final [(''status'', JStr (status_value status))] steps\<rparr>,
       ao_patch = sr_patch r, ao_modified_files = sr_modified_files r,
       ao_public_test_output = sr_public_test_output r, ao_hidden_test_output = sr_hidden_test_output r,
       ao_duration_seconds = duration, ao_status = status, ao_error = None, ao_runtime_metadata = metadata\<rparr>)"

definition runtime_execute ::
  "'s coding_runtime \<Rightarrow> (nat \<Rightarrow> instant) \<Rightarrow> instant \<Rightarrow> rat \<Rightarrow> agent_input \<Rightarrow> string \<Rightarrow> 's
     \<Rightarrow> (agent_output result \<times> 's) option" where
  "runtime_execute R clock started duration request agent_version st =
     (case ai_case request of
        No_variable \<Rightarrow> Some (Inl (KeyError ''case''), st)
      | Other_variable \<Rightarrow>
          Some (Inl (TypeError ''deterministic runtime requires DatasetCase in request.variables''), st)
      | Case_variable c \<Rightarrow>
          (case propose_source R clock started duration agent_version c
                  (add_step clock Step_message
                    [(''role'', JStr ''user''), (''content'', JStr (''repair '' @ ai_case_id request))] []) of
             Inl e \<Rightarrow> Some (Inl e, st)
           | Inr (Inl failed) \<Rightarrow> Some (Inr failed, st)
           | Inr (Inr (patched, metadata, steps)) \<Rightarrow>
               (case sandbox_run (rt_executor R) (rt_sandbox R) c patched st of
                  None \<Rightarrow> None
                | Some (Inl e, st') \<Rightarrow> Some (Inl e, st')
                | Some (Inr r, st') \<Rightarrow> Some (Inr (tested_output clock started duration metadata steps r), st'))))"

end
