(* ===== verification/Langgraph.thy ===== *)
theory Langgraph
  imports Runtime
begin

section \<open>The LangGraph adapter (\<open>langgraph.py\<close>)\<close>

text \<open>
  Capturing the stream of a graph as a trajectory, within bounds and with redaction, and reading the output of its
  final state. A graph yields Python values; \<open>str\<close> of a value that is not a text, iterating a value of another
  class and the printed length of a float are parameters.
\<close>

subsection \<open>Python values\<close>

text \<open>A key of a mapping is a text or an object with its text. \<open>Gv_message\<close> is a \<open>Message\<close>, \<open>Gv_model\<close> another model
  or data class with the value of its dump, \<open>Gv_other\<close> any other object with its truth.\<close>

datatype graph_key = Key_str string | Key_object nat string

datatype graph_value =
    Gv_none
  | Gv_bool bool
  | Gv_int int
  | Gv_float jfloat
  | Gv_str string
  | Gv_map "(graph_key \<times> graph_value) list"
  | Gv_list "graph_value list"
  | Gv_tuple "graph_value list"
  | Gv_set "graph_value list"
  | Gv_message string string
  | Gv_model graph_value
  | Gv_other nat bool

record python_objects =
  po_str :: "graph_value \<Rightarrow> string"
  po_iterate :: "graph_value \<Rightarrow> graph_value list result"
  po_json_str :: "json \<Rightarrow> string"
  po_float_size :: "jfloat \<Rightarrow> nat"

definition value_text :: "python_objects \<Rightarrow> graph_value \<Rightarrow> string" where
  "value_text P v = (case v of Gv_str s \<Rightarrow> s | _ \<Rightarrow> po_str P v)"

fun key_text :: "graph_key \<Rightarrow> string" where
  "key_text (Key_str s) = s"
| "key_text (Key_object _ s) = s"

fun truthy_value :: "graph_value \<Rightarrow> bool" where
  "truthy_value Gv_none = False"
| "truthy_value (Gv_bool b) = b"
| "truthy_value (Gv_int n) = (n \<noteq> 0)"
| "truthy_value (Gv_float f) = (f \<notin> {Fin 0, NegZero})"
| "truthy_value (Gv_str s) = (s \<noteq> [])"
| "truthy_value (Gv_map kvs) = (kvs \<noteq> [])"
| "truthy_value (Gv_list vs) = (vs \<noteq> [])"
| "truthy_value (Gv_tuple vs) = (vs \<noteq> [])"
| "truthy_value (Gv_set vs) = (vs \<noteq> [])"
| "truthy_value (Gv_message _ _) = True"
| "truthy_value (Gv_model _) = True"
| "truthy_value (Gv_other _ b) = b"

definition iterate_value :: "python_objects \<Rightarrow> graph_value \<Rightarrow> graph_value list result" where
  "iterate_value P v = (case v of
     Gv_list vs \<Rightarrow> Inr vs | Gv_tuple vs \<Rightarrow> Inr vs | Gv_set vs \<Rightarrow> Inr vs
   | Gv_str s \<Rightarrow> Inr (map (\<lambda>c. Gv_str [c]) s)
   | Gv_map kvs \<Rightarrow> Inr (map (\<lambda>(k, _). Gv_str (key_text k)) kvs)
   | _ \<Rightarrow> po_iterate P v)"

abbreviation graph_get :: "(graph_key \<times> graph_value) list \<Rightarrow> string \<Rightarrow> graph_value \<Rightarrow> graph_value" where
  "graph_get kvs k fallback \<equiv> dict_get kvs (Key_str k) fallback"

definition has_key :: "(graph_key \<times> graph_value) list \<Rightarrow> string \<Rightarrow> bool" where
  "has_key kvs k \<longleftrightarrow> map_of kvs (Key_str k) \<noteq> None"

subsection \<open>Redacted JSON\<close>

text \<open>\<open>_json_value\<close>; a later key with the same text replaces the value of an earlier one.\<close>

fun json_value :: "python_objects \<Rightarrow> string list \<Rightarrow> graph_value \<Rightarrow> json" where
  "json_value P redacted Gv_none = JNull"
| "json_value P redacted (Gv_bool b) = JBool b"
| "json_value P redacted (Gv_int n) = JInt n"
| "json_value P redacted (Gv_float f) = JFloat f"
| "json_value P redacted (Gv_str s) = JStr s"
| "json_value P redacted (Gv_map kvs) =
     JObj (fold (\<lambda>(k, j). dict_set k j)
       (map (\<lambda>(k, v). (key_text k,
          if lower (key_text k) \<in> set redacted then JStr ''[REDACTED]'' else json_value P redacted v)) kvs) [])"
| "json_value P redacted (Gv_list vs) = JList (map (json_value P redacted) vs)"
| "json_value P redacted (Gv_tuple vs) = JList (map (json_value P redacted) vs)"
| "json_value P redacted (Gv_set vs) = JList (map (json_value P redacted) vs)"
| "json_value P redacted (Gv_message role content) =
     JObj [(''role'', if ''role'' \<in> set redacted then JStr ''[REDACTED]'' else JStr role),
           (''content'', if ''content'' \<in> set redacted then JStr ''[REDACTED]'' else JStr content)]"
| "json_value P redacted (Gv_model dumped) = json_value P redacted dumped"
| "json_value P redacted (Gv_other i b) = JStr (po_str P (Gv_other i b))"

text \<open>The length of \<open>json.dumps(value, ensure_ascii=True)\<close> with its separators of two characters.\<close>

fun dumps_size :: "(jfloat \<Rightarrow> nat) \<Rightarrow> json \<Rightarrow> nat" where
  "dumps_size fs JNull = 4"
| "dumps_size fs (JBool b) = (if b then 4 else 5)"
| "dumps_size fs (JInt n) = length (int_str n)"
| "dumps_size fs (JFloat f) = fs f"
| "dumps_size fs (JStr s) = length (print_str s)"
| "dumps_size fs (JList vs) = 2 + sum_list (map (dumps_size fs) vs) + 2 * (length vs - 1)"
| "dumps_size fs (JObj kvs) =
     2 + sum_list (map (\<lambda>(k, v). length (print_str k) + 2 + dumps_size fs v) kvs) + 2 * (length kvs - 1)"

definition json_size :: "python_objects \<Rightarrow> graph_value \<Rightarrow> nat" where
  "json_size P v = dumps_size (po_float_size P) (json_value P [] v)"

subsection \<open>Configuration\<close>

record output_mapping =
  om_final_response :: string
  om_patch :: string
  om_modified_files :: string
  om_public_test_output :: string
  om_hidden_test_output :: string
  om_status :: string
  om_tool_calls :: string
  om_tool_results :: string

definition DEFAULT_OUTPUT_MAPPING :: output_mapping where
  "DEFAULT_OUTPUT_MAPPING = \<lparr>om_final_response = ''final_response'', om_patch = ''patch'',
     om_modified_files = ''modified_files'', om_public_test_output = ''public_test_output'',
     om_hidden_test_output = ''hidden_test_output'', om_status = ''status'', om_tool_calls = ''tool_calls'',
     om_tool_results = ''tool_results''\<rparr>"

record capture_options =
  co_max_events :: nat
  co_max_event_bytes :: nat
  co_max_total_bytes :: nat
  co_capture_payloads :: bool
  co_redacted_keys :: "string list"

definition valid_capture_options :: "capture_options \<Rightarrow> bool" where
  "valid_capture_options c \<longleftrightarrow>
     1 \<le> co_max_events c \<and> co_max_events c \<le> 100000
   \<and> 1024 \<le> co_max_event_bytes c \<and> co_max_event_bytes c \<le> 10000000
   \<and> 1024 \<le> co_max_total_bytes c \<and> co_max_total_bytes c \<le> 100000000"

definition DEFAULT_CAPTURE_OPTIONS :: capture_options where
  "DEFAULT_CAPTURE_OPTIONS = \<lparr>co_max_events = 10000, co_max_event_bytes = 1000000, co_max_total_bytes = 10000000,
     co_capture_payloads = False,
     co_redacted_keys = [''api_key'', ''authorization'', ''password'', ''secret'', ''token'']\<rparr>"

text \<open>What the graph does: the parts it emits, and the exception that ends the stream, or the builders, if any.\<close>

type_synonym graph_stream = "graph_value list \<times> exn option"

record langgraph_adapter =
  la_graph_name :: string
  la_mapping :: output_mapping
  la_capture :: capture_options
  la_objects :: python_objects
  la_error_type :: "exn \<Rightarrow> string"
  la_error_text :: "exn \<Rightarrow> string"

subsection \<open>One part of the stream\<close>

definition stream_part :: "graph_value \<Rightarrow> (graph_key \<times> graph_value) list result" where
  "stream_part value = (case value of
     Gv_map kvs \<Rightarrow>
       if \<not> has_key kvs ''type'' \<or> \<not> has_key kvs ''data''
       then Inl (ValueError ''LangGraph v2 stream part requires type and data'') else Inr kvs
   | _ \<Rightarrow> Inl (ValueError ''LangGraph v2 stream parts must be mappings''))"

fun json_truthy :: "json \<Rightarrow> bool" where
  "json_truthy JNull = False"
| "json_truthy (JBool b) = b"
| "json_truthy (JInt n) = (n \<noteq> 0)"
| "json_truthy (JFloat f) = (f \<notin> {Fin 0, NegZero})"
| "json_truthy (JStr s) = (s \<noteq> [])"
| "json_truthy (JList vs) = (vs \<noteq> [])"
| "json_truthy (JObj kvs) = (kvs \<noteq> [])"

definition role_alias :: "string \<Rightarrow> string" where
  "role_alias role = (if role = ''ai'' then ''assistant'' else if role = ''human'' then ''user'' else role)"

definition message_data :: "python_objects \<Rightarrow> string list \<Rightarrow> string list \<Rightarrow> graph_value \<Rightarrow> (string, json) dict" where
  "message_data P redacted namespace value =
     (let (message, metadata) = (case value of
            Gv_list [a, b] \<Rightarrow> (a, b) | Gv_tuple [a, b] \<Rightarrow> (a, b) | _ \<Rightarrow> (value, Gv_map []));
          payload = (case json_value P redacted message of JObj kvs \<Rightarrow> kvs | v \<Rightarrow> [(''content'', v)]);
          get = (\<lambda>k. dict_get payload k JNull);
          role = (if json_truthy (get ''role'') then get ''role''
                  else if json_truthy (get ''type'') then get ''type'' else JStr ''assistant'');
          role_text = (case role of JStr s \<Rightarrow> s | v \<Rightarrow> po_json_str P v);
          node = (case json_value P redacted metadata of JObj kvs \<Rightarrow> dict_get kvs ''langgraph_node'' JNull | _ \<Rightarrow> JNull)
      in [(''role'', JStr (role_alias role_text)), (''content'', dict_get payload ''content'' (JStr [])),
          (''namespace'', JList (map JStr namespace))]
         @ (if node = JNull then [] else [(''node'', node)])
         @ map (\<lambda>k. (k, get k)) (filter (\<lambda>k. json_truthy (get k)) [''id'', ''tool_calls'', ''invalid_tool_calls'']))"

definition task_phase :: "(graph_key \<times> graph_value) list \<Rightarrow> string" where
  "task_phase data =
     (if truthy_value (graph_get data ''error'' Gv_none) then ''error''
      else if has_key data ''result'' \<or> has_key data ''error'' then ''finished'' else ''started'')"

definition sorted_keys :: "(graph_key \<times> graph_value) list \<Rightarrow> json" where
  "sorted_keys kvs = JList (map JStr (sort (map (\<lambda>(k, _). key_text k) kvs)))"

definition task_data ::
  "python_objects \<Rightarrow> capture_options \<Rightarrow> string list \<Rightarrow> (graph_key \<times> graph_value) list \<Rightarrow> (string, json) dict" where
  "task_data P capture namespace data =
     (let json_of = (\<lambda>k. (k, json_value P (co_redacted_keys capture) (graph_get data k Gv_none))) in
      [(''name'', JStr (value_text P (graph_get data ''name'' (Gv_str ''unknown'')))),
       (''phase'', JStr (task_phase data)), (''namespace'', JList (map JStr namespace))]
      @ (if has_key data ''triggers'' then [json_of ''triggers''] else [])
      @ (if co_capture_payloads capture
         then map json_of (filter (has_key data) [''input'', ''result'', ''error'', ''interrupts''])
         else (case graph_get data ''result'' Gv_none of
            Gv_map kvs \<Rightarrow> [(''result_keys'', sorted_keys kvs)] | _ \<Rightarrow> [])))"

definition event_data ::
  "python_objects \<Rightarrow> capture_options \<Rightarrow> string \<Rightarrow> string list \<Rightarrow> graph_value \<Rightarrow> (string, json) dict" where
  "event_data P capture part_type namespace data =
     [(''event'', JStr part_type), (''namespace'', JList (map JStr namespace))]
     @ (case data of Gv_map kvs \<Rightarrow> [(''keys'', sorted_keys kvs)] | _ \<Rightarrow> [])
     @ (if co_capture_payloads capture then [(''payload'', json_value P (co_redacted_keys capture) data)] else [])"

text \<open>\<open>_trajectory_step\<close>: the kind and the data of the step, if there is one.\<close>

definition graph_step ::
  "python_objects \<Rightarrow> capture_options \<Rightarrow> string \<Rightarrow> string list \<Rightarrow> graph_value
     \<Rightarrow> (step_kind \<times> (string, json) dict) option" where
  "graph_step P capture part_type namespace data =
     (case (if part_type = ''tasks'' then (case data of Gv_map kvs \<Rightarrow> Some kvs | _ \<Rightarrow> None) else None) of
        Some kvs \<Rightarrow> Some (Step_graph_node, task_data P capture namespace kvs)
      | None \<Rightarrow>
          if part_type = ''messages''
          then Some (Step_message, message_data P (co_redacted_keys capture) namespace data)
          else if part_type \<in> {''updates'', ''custom''}
          then Some (Step_graph_event, event_data P capture part_type namespace data)
          else None)"

subsection \<open>The stream\<close>

record capture_state =
  cs_steps :: "trajectory_step list"
  cs_events :: nat
  cs_stream_bytes :: nat
  cs_subgraphs :: "string list list"
  cs_final :: "(graph_key \<times> graph_value) list option"
  cs_interrupted :: bool

definition initial_capture :: capture_state where
  "initial_capture = \<lparr>cs_steps = [], cs_events = 0, cs_stream_bytes = 0, cs_subgraphs = [], cs_final = None,
     cs_interrupted = False\<rparr>"

text \<open>What a part within the bounds adds.\<close>

definition capture_part ::
  "langgraph_adapter \<Rightarrow> (nat \<Rightarrow> instant) \<Rightarrow> (graph_key \<times> graph_value) list \<Rightarrow> capture_state \<Rightarrow> unit result \<times> capture_state" where
  "capture_part A clock part s =
     (let P = la_objects A in
      case iterate_value P (graph_get part ''ns'' (Gv_tuple [])) of
        Inl e \<Rightarrow> (Inl e, s)
      | Inr items \<Rightarrow>
          let namespace = map (value_text P) items;
              part_type = value_text P (graph_get part ''type'' (Gv_str ''unknown''));
              data = graph_get part ''data'' Gv_none;
              interrupts = graph_get part ''interrupts'' (Gv_tuple []) in
          (Inr (), s\<lparr>
             cs_subgraphs := (if namespace = [] then cs_subgraphs s else List.insert namespace (cs_subgraphs s)),
             cs_interrupted := cs_interrupted s \<or> truthy_value interrupts,
             cs_final := (case data of
                 Gv_map kvs \<Rightarrow> if part_type = ''values'' \<and> namespace = [] then Some kvs else cs_final s
               | _ \<Rightarrow> cs_final s),
             cs_steps := (case graph_step P (la_capture A) part_type namespace data of
                 None \<Rightarrow> cs_steps s | Some (kind, payload) \<Rightarrow> add_step clock kind payload (cs_steps s))\<rparr>))"

definition capture_event ::
  "langgraph_adapter \<Rightarrow> (nat \<Rightarrow> instant) \<Rightarrow> graph_value \<Rightarrow> capture_state \<Rightarrow> unit result \<times> capture_state" where
  "capture_event A clock raw_part s =
     (let capture = la_capture A; s = s\<lparr>cs_events := cs_events s + 1\<rparr> in
      if cs_events s > co_max_events capture then (Inl (ValueError ''LangGraph emitted more than the allowed events''), s)
      else
        (case stream_part raw_part of
           Inl e \<Rightarrow> (Inl e, s)
         | Inr part \<Rightarrow>
             let event_bytes = json_size (la_objects A) (Gv_map part) in
             if event_bytes > co_max_event_bytes capture
             then (Inl (ValueError ''LangGraph stream event exceeded the allowed bytes''), s)
             else
               let s = s\<lparr>cs_stream_bytes := cs_stream_bytes s + event_bytes\<rparr> in
               if cs_stream_bytes s > co_max_total_bytes capture
               then (Inl (ValueError ''LangGraph stream exceeded the allowed total bytes''), s)
               else capture_part A clock part s))"

fun capture_stream ::
  "langgraph_adapter \<Rightarrow> (nat \<Rightarrow> instant) \<Rightarrow> graph_value list \<Rightarrow> exn option \<Rightarrow> capture_state \<Rightarrow> unit result \<times> capture_state" where
  "capture_stream A clock [] ended s = ((case ended of None \<Rightarrow> Inr () | Some e \<Rightarrow> Inl e), s)"
| "capture_stream A clock (part # parts) ended s =
     (case capture_event A clock part s of
        (Inl e, s') \<Rightarrow> (Inl e, s')
      | (Inr _, s') \<Rightarrow> capture_stream A clock parts ended s')"

subsection \<open>The output\<close>

definition output_text :: "graph_value \<Rightarrow> string \<Rightarrow> string result" where
  "output_text value field = (case value of
     Gv_str s \<Rightarrow> Inr s | _ \<Rightarrow> Inl (ValueError (''LangGraph '' @ field @ '' output must be text'')))"

definition final_message :: "python_objects \<Rightarrow> graph_value \<Rightarrow> (string \<times> string) option result" where
  "final_message P value = (case value of
     Gv_none \<Rightarrow> Inr None
   | Gv_message role content \<Rightarrow> Inr (Some (role, content))
   | Gv_str s \<Rightarrow> Inr (Some (''assistant'', s))
   | Gv_map kvs \<Rightarrow>
       let role = graph_get kvs ''role'' Gv_none; alternative = graph_get kvs ''type'' Gv_none;
           role = role_alias (value_text P (if truthy_value role then role
             else if truthy_value alternative then alternative else Gv_str ''assistant'')) in
       bind_result (output_text (graph_get kvs ''content'' (Gv_str [])) ''content'') (\<lambda>content.
       if role \<in> {''system'', ''user'', ''assistant'', ''tool''} then Inr (Some (role, content))
       else Inl (ValidationError ''Message''))
   | _ \<Rightarrow> Inl (ValueError ''LangGraph final_response output must be text or a message mapping''))"

definition parse_status :: "string \<Rightarrow> execution_status result" where
  "parse_status s =
     (if s = ''passed'' then Inr PASSED else if s = ''failed'' then Inr FAILED else if s = ''error'' then Inr ERROR
      else Inl (ValueError ''invalid LangGraph output status''))"

definition string_list :: "graph_value \<Rightarrow> string list result" where
  "string_list v =
     (let failure = ValueError ''LangGraph modified_files output must be a list of strings'' in
      case v of
        Gv_list items \<Rightarrow> map_result (\<lambda>item. case item of Gv_str s \<Rightarrow> Inr s | _ \<Rightarrow> Inl failure) items
      | _ \<Rightarrow> Inl failure)"

text \<open>\<open>_append_tool_steps\<close>: the steps appended so far stay when an item is refused.\<close>

fun tool_call_steps ::
  "langgraph_adapter \<Rightarrow> (nat \<Rightarrow> instant) \<Rightarrow> graph_value list \<Rightarrow> trajectory_step list \<Rightarrow> unit result \<times> trajectory_step list" where
  "tool_call_steps A clock [] steps = (Inr (), steps)"
| "tool_call_steps A clock (item # items) steps =
     (case item of
        Gv_map kvs \<Rightarrow>
          (case graph_get kvs ''name'' Gv_none of
             Gv_str name \<Rightarrow>
               (case graph_get kvs ''arguments'' (Gv_map []) of
                  Gv_map arguments \<Rightarrow>
                    tool_call_steps A clock items (add_step clock Step_tool_call
                      [(''name'', JStr name),
                       (''arguments'', json_value (la_objects A) (co_redacted_keys (la_capture A)) (Gv_map arguments))] steps)
                | _ \<Rightarrow> (Inl (ValueError ''LangGraph tool call arguments must be a mapping''), steps))
           | _ \<Rightarrow> (Inl (ValueError ''LangGraph tool call outputs require a name''), steps))
      | _ \<Rightarrow> (Inl (ValueError ''LangGraph tool call outputs require a name''), steps))"

fun tool_result_steps ::
  "langgraph_adapter \<Rightarrow> (nat \<Rightarrow> instant) \<Rightarrow> graph_value list \<Rightarrow> trajectory_step list \<Rightarrow> unit result \<times> trajectory_step list" where
  "tool_result_steps A clock [] steps = (Inr (), steps)"
| "tool_result_steps A clock (item # items) steps =
     (case item of
        Gv_map kvs \<Rightarrow>
          (case graph_get kvs ''name'' Gv_none of
             Gv_str name \<Rightarrow>
               tool_result_steps A clock items (add_step clock Step_tool_result
                 [(''name'', JStr name), (''ok'', JBool (truthy_value (graph_get kvs ''ok'' (Gv_bool False)))),
                  (''output'', JStr (value_text (la_objects A) (graph_get kvs ''output'' (Gv_str []))))] steps)
           | _ \<Rightarrow> (Inl (ValueError ''LangGraph tool result outputs require a name''), steps))
      | _ \<Rightarrow> (Inl (ValueError ''LangGraph tool result outputs require a name''), steps))"

definition append_tool_steps ::
  "langgraph_adapter \<Rightarrow> (nat \<Rightarrow> instant) \<Rightarrow> (graph_key \<times> graph_value) list \<Rightarrow> trajectory_step list
     \<Rightarrow> unit result \<times> trajectory_step list" where
  "append_tool_steps A clock state steps =
     (case (graph_get state (om_tool_calls (la_mapping A)) (Gv_list []),
            graph_get state (om_tool_results (la_mapping A)) (Gv_list [])) of
        (Gv_list calls, Gv_list results) \<Rightarrow>
          (case tool_call_steps A clock calls steps of
             (Inl e, steps') \<Rightarrow> (Inl e, steps')
           | (Inr _, steps') \<Rightarrow> tool_result_steps A clock results steps')
      | _ \<Rightarrow> (Inl (ValueError ''LangGraph tool_calls and tool_results outputs must be lists''), steps))"

definition graph_output ::
  "trajectory_step list \<Rightarrow> instant \<Rightarrow> rat \<Rightarrow> string \<Rightarrow> (string \<times> string) option \<Rightarrow> string \<Rightarrow> string list \<Rightarrow> string \<Rightarrow> string
     \<Rightarrow> execution_status \<Rightarrow> (string \<times> string) option \<Rightarrow> agent_output" where
  "graph_output steps started duration agent_version response patch files public_output hidden_output status failure =
     \<lparr>ao_final_response = response,
      ao_trajectory = \<lparr>at_started_at = started, at_completed_at = Some (ts_timestamp (last steps)), at_steps = steps\<rparr>,
      ao_patch = patch, ao_modified_files = files, ao_public_test_output = public_output,
      ao_hidden_test_output = hidden_output, ao_duration_seconds = duration, ao_status = status, ao_error = failure,
      ao_runtime_metadata = [(''agent_version'', JStr agent_version)]\<rparr>"

text \<open>\<open>_output_from_state\<close>, with the steps as it leaves them.\<close>

definition output_from_state ::
  "langgraph_adapter \<Rightarrow> (nat \<Rightarrow> instant) \<Rightarrow> instant \<Rightarrow> rat \<Rightarrow> string \<Rightarrow> (graph_key \<times> graph_value) list
     \<Rightarrow> trajectory_step list \<Rightarrow> agent_output result \<times> trajectory_step list" where
  "output_from_state A clock started duration agent_version state steps =
     (let M = la_mapping A; P = la_objects A;
          text = (\<lambda>field fallback. output_text (graph_get state field (Gv_str fallback)) field) in
      case bind_result (parse_status (value_text P (graph_get state (om_status M) (Gv_str ''passed'')))) (\<lambda>status.
           bind_result (string_list (graph_get state (om_modified_files M) (Gv_list []))) (\<lambda>files.
           Inr (status, files))) of
        Inl e \<Rightarrow> (Inl e, steps)
      | Inr (status, files) \<Rightarrow>
          (case append_tool_steps A clock state steps of
             (Inl e, steps') \<Rightarrow> (Inl e, steps')
           | (Inr _, steps') \<Rightarrow>
               let steps' = add_step clock Step_final [(''status'', JStr (status_value status))] steps' in
               (bind_result (final_message P (graph_get state (om_final_response M) Gv_none)) (\<lambda>response.
                bind_result (text (om_patch M) []) (\<lambda>patch.
                bind_result (text (om_public_test_output M) ''not provided'') (\<lambda>public_output.
                bind_result (text (om_hidden_test_output M) ''not provided'') (\<lambda>hidden_output.
                Inr (graph_output steps' started duration agent_version response patch files public_output hidden_output
                       status None))))), steps')))"

definition error_output ::
  "langgraph_adapter \<Rightarrow> (nat \<Rightarrow> instant) \<Rightarrow> instant \<Rightarrow> rat \<Rightarrow> string \<Rightarrow> exn \<Rightarrow> trajectory_step list \<Rightarrow> agent_output" where
  "error_output A clock started duration agent_version e steps =
     (let error_type = la_error_type A e; message = la_error_text A e in
      graph_output (add_step clock Step_error [(''error_type'', JStr error_type), (''message'', JStr message)] steps)
        started duration agent_version (Some (''assistant'', ''LangGraph execution failed.'')) [] [] message ''not run''
        ERROR (Some (error_type, message)))"

definition stream_metadata :: "langgraph_adapter \<Rightarrow> capture_state \<Rightarrow> (string, json) dict" where
  "stream_metadata A s =
     [(''provider'', JStr ''langgraph''), (''graph'', JStr (la_graph_name A)), (''stream_version'', JStr ''v2''),
      (''events'', JInt (int (cs_events s))), (''stream_bytes'', JInt (int (cs_stream_bytes s))),
      (''subgraphs'', JInt (int (length (cs_subgraphs s)))),
      (''payload_capture'', JBool (co_capture_payloads (la_capture A)))]"

definition finished_state :: "capture_state \<Rightarrow> (graph_key \<times> graph_value) list result" where
  "finished_state s =
     (case cs_final s of
        None \<Rightarrow> Inl (ValueError ''LangGraph did not emit a root values state'')
      | Some state \<Rightarrow>
          if cs_interrupted s then Inl (RuntimeError ''LangGraph execution interrupted before completion'') else Inr state)"

definition langgraph_execute ::
  "langgraph_adapter \<Rightarrow> (nat \<Rightarrow> instant) \<Rightarrow> instant \<Rightarrow> rat \<Rightarrow> string \<Rightarrow> graph_stream \<Rightarrow> agent_output" where
  "langgraph_execute A clock started duration agent_version = (\<lambda>(parts, ended).
     case capture_stream A clock parts ended initial_capture of (streamed, s) \<Rightarrow>
       let out = (case bind_result streamed (\<lambda>_. finished_state s) of
               Inl e \<Rightarrow> error_output A clock started duration agent_version e (cs_steps s)
             | Inr state \<Rightarrow>
                 (case output_from_state A clock started duration agent_version state (cs_steps s) of
                    (Inl e, steps) \<Rightarrow> error_output A clock started duration agent_version e steps
                  | (Inr out, _) \<Rightarrow> out)) in
       out\<lparr>ao_runtime_metadata := ao_runtime_metadata out @ stream_metadata A s\<rparr>)"

end
