(* ===== verification/Langgraph_Properties.thy ===== *)
theory Langgraph_Properties
  imports Langgraph
begin

section \<open>Properties of the LangGraph adapter\<close>

text \<open>
  Captured data does not depend on redacted members; the capture is bounded whatever the graph emits; and an output
  without an error comes from a complete run.
\<close>

subsection \<open>Redaction\<close>

text \<open>A value with the values under redacted keys erased, at every depth.\<close>

fun erase :: "string list \<Rightarrow> graph_value \<Rightarrow> graph_value" where
  "erase R (Gv_map kvs) = Gv_map (map (\<lambda>(k, v). (k, if lower (key_text k) \<in> set R then Gv_none else erase R v)) kvs)"
| "erase R (Gv_list vs) = Gv_list (map (erase R) vs)"
| "erase R (Gv_tuple vs) = Gv_tuple (map (erase R) vs)"
| "erase R (Gv_set vs) = Gv_set (map (erase R) vs)"
| "erase R (Gv_model v) = Gv_model (erase R v)"
| "erase R v = v"

text \<open>JSON in which every redacted key, at every depth, holds the placeholder.\<close>

fun redacted_json :: "string list \<Rightarrow> json \<Rightarrow> bool" where
  "redacted_json R (JObj kvs) =
     list_all (\<lambda>(k, v). if lower k \<in> set R then v = JStr ''[REDACTED]'' else redacted_json R v) kvs"
| "redacted_json R (JList vs) = list_all (redacted_json R) vs"
| "redacted_json R _ = True"

lemma json_value_erase: "json_value P R (erase R v) = json_value P R v"
proof (induction R v rule: erase.induct)
  case (1 R kvs)
  have "map (\<lambda>(k, v). (key_text k, if lower (key_text k) \<in> set R then JStr ''[REDACTED]'' else json_value P R v))
      (map (\<lambda>(k, v). (k, if lower (key_text k) \<in> set R then Gv_none else erase R v)) kvs)
    = map (\<lambda>(k, v). (key_text k, if lower (key_text k) \<in> set R then JStr ''[REDACTED]'' else json_value P R v)) kvs"
    using 1 by auto
  then show ?case by (simp only: erase.simps json_value.simps)
qed auto

lemma members_dict_set:
  "list_all (\<lambda>(k, v). Q k v) d \<Longrightarrow> Q k v \<Longrightarrow> list_all (\<lambda>(k, v). Q k v) (dict_set k v d)"
  by (induction d) auto

lemma members_fold_dict_set:
  "list_all (\<lambda>(k, v). Q k v) members \<Longrightarrow> list_all (\<lambda>(k, v). Q k v) d \<Longrightarrow>
     list_all (\<lambda>(k, v). Q k v) (fold (\<lambda>(k, j). dict_set k j) members d)"
  by (induction members arbitrary: d) (auto simp: members_dict_set)

lemma lower_role [simp]: "lower ''role'' = ''role''" "lower ''content'' = ''content''"
  by code_simp+

lemma redacted_json_value: "redacted_json R (json_value P R v)"
proof (induction P R v rule: json_value.induct)
  case (6 P R kvs)
  have "list_all (\<lambda>(k, v). if lower k \<in> set R then v = JStr ''[REDACTED]'' else redacted_json R v)
      (map (\<lambda>(k, v). (key_text k, if lower (key_text k) \<in> set R then JStr ''[REDACTED]'' else json_value P R v)) kvs)"
    using 6 by (auto simp: list_all_iff)
  from members_fold_dict_set [OF this, of "[]"] show ?case by simp
qed (auto simp: list_all_iff)

text \<open>The keys that the adapter reads from a task.\<close>

definition TASK_KEYS :: "string list" where
  "TASK_KEYS = [''name'', ''error'', ''result'', ''triggers'', ''input'', ''interrupts'']"

definition erase_members :: "string list \<Rightarrow> (graph_key \<times> graph_value) list \<Rightarrow> (graph_key \<times> graph_value) list" where
  "erase_members R kvs = map (\<lambda>(k, v). (k, if lower (key_text k) \<in> set R then Gv_none else erase R v)) kvs"

lemma erase_map [simp]: "erase R (Gv_map kvs) = Gv_map (erase_members R kvs)"
  by (simp add: erase_members_def)

declare erase.simps(1) [simp del]

lemma map_of_erase_members:
  "map_of (erase_members R kvs) k =
     map_option (\<lambda>v. if lower (key_text k) \<in> set R then Gv_none else erase R v) (map_of kvs k)"
  by (induction kvs) (auto simp: erase_members_def)

lemma has_key_erase [simp]: "has_key (erase_members R kvs) k = has_key kvs k"
  by (simp add: has_key_def map_of_erase_members)

lemma sorted_keys_erase [simp]: "sorted_keys (erase_members R kvs) = sorted_keys kvs"
  by (simp add: sorted_keys_def erase_members_def comp_def case_prod_unfold)

lemma truthy_value_erase [simp]: "truthy_value (erase R v) = truthy_value v"
  by (cases v) (auto simp: erase_members_def)

lemma graph_get_erase:
  "lower k \<notin> set R \<Longrightarrow> erase R fallback = fallback \<Longrightarrow>
     graph_get (erase_members R kvs) k fallback = erase R (graph_get kvs k fallback)"
  by (simp add: map_of_erase_members split: option.splits)

lemma lower_task_keys: "k \<in> set TASK_KEYS \<Longrightarrow> lower k = k"
proof -
  have "list_all (\<lambda>k. lower k = k) TASK_KEYS" by code_simp
  then show "k \<in> set TASK_KEYS \<Longrightarrow> lower k = k" by (simp add: list_all_iff)
qed

lemma message_data_erase: "message_data P R namespace (erase R v) = message_data P R namespace v"
proof -
  have split: "(case erase R v of Gv_list [a, b] \<Rightarrow> (a, b) | Gv_tuple [a, b] \<Rightarrow> (a, b) | _ \<Rightarrow> (erase R v, Gv_map []))
      = map_prod (erase R) (erase R)
          (case v of Gv_list [a, b] \<Rightarrow> (a, b) | Gv_tuple [a, b] \<Rightarrow> (a, b) | _ \<Rightarrow> (v, Gv_map []))"
    by (cases v) (auto simp: erase_members_def split: list.splits)
  show ?thesis unfolding message_data_def split by (simp add: json_value_erase split: prod.splits)
qed

lemma event_data_erase:
  "event_data P capture part_type namespace (erase (co_redacted_keys capture) v) = event_data P capture part_type namespace v"
proof -
  let ?R = "co_redacted_keys capture"
  have "(case erase ?R v of Gv_map kvs \<Rightarrow> [(''keys'', sorted_keys kvs)] | _ \<Rightarrow> [])
      = (case v of Gv_map kvs \<Rightarrow> [(''keys'', sorted_keys kvs)] | _ \<Rightarrow> [])"
    by (cases v) simp_all
  then show ?thesis by (simp add: event_data_def json_value_erase)
qed

lemma task_data_erase:
  assumes "\<forall>k \<in> set TASK_KEYS. k \<notin> set (co_redacted_keys capture)"
    and "erase (co_redacted_keys capture) (graph_get kvs ''name'' (Gv_str ''unknown'')) = graph_get kvs ''name'' (Gv_str ''unknown'')"
  shows "task_data P capture namespace (erase_members (co_redacted_keys capture) kvs) = task_data P capture namespace kvs"
proof -
  let ?R = "co_redacted_keys capture"
  have get: "graph_get (erase_members ?R kvs) k fallback = erase ?R (graph_get kvs k fallback)"
    if "k \<in> set TASK_KEYS" "erase ?R fallback = fallback" for k fallback
    using assms(1) that lower_task_keys [OF that(1)] by (intro graph_get_erase) auto
  have name: "graph_get (erase_members ?R kvs) ''name'' (Gv_str ''unknown'') = graph_get kvs ''name'' (Gv_str ''unknown'')"
    using get [of "''name''" "Gv_str ''unknown''"] assms(2) by (simp add: TASK_KEYS_def)
  have "graph_get (erase_members ?R kvs) ''error'' Gv_none = erase ?R (graph_get kvs ''error'' Gv_none)"
    by (rule get) (simp_all add: TASK_KEYS_def)
  then have phase: "task_phase (erase_members ?R kvs) = task_phase kvs"
    unfolding task_phase_def by (simp only: truthy_value_erase has_key_erase)
  have json: "json_value P ?R (graph_get (erase_members ?R kvs) k Gv_none) = json_value P ?R (graph_get kvs k Gv_none)"
    if "k \<in> set TASK_KEYS" for k
    using get [OF that, of Gv_none] by (simp only: erase.simps json_value_erase)
  have result: "graph_get (erase_members ?R kvs) ''result'' Gv_none = erase ?R (graph_get kvs ''result'' Gv_none)"
    by (rule get) (simp_all add: TASK_KEYS_def)
  have keys: "(case erase ?R v of Gv_map kvs \<Rightarrow> [(''result_keys'', sorted_keys kvs)] | _ \<Rightarrow> [])
      = (case v of Gv_map kvs \<Rightarrow> [(''result_keys'', sorted_keys kvs)] | _ \<Rightarrow> [])" for v
    by (cases v) simp_all
  have captured: "map (\<lambda>k. (k, json_value P ?R (graph_get (erase_members ?R kvs) k Gv_none)))
        (filter (has_key (erase_members ?R kvs)) [''input'', ''result'', ''error'', ''interrupts''])
      = map (\<lambda>k. (k, json_value P ?R (graph_get kvs k Gv_none))) (filter (has_key kvs) [''input'', ''result'', ''error'', ''interrupts''])"
    unfolding has_key_erase [abs_def] by (intro map_cong refl) (auto simp: json TASK_KEYS_def simp del: filter.simps)
  show ?thesis
    unfolding task_data_def Let_def name phase result keys captured has_key_erase json [of "''triggers''", unfolded TASK_KEYS_def, simplified]
    by simp
qed


text \<open>A task that returns a token, with the default options and with payloads.\<close>

definition ex_python :: python_objects where
  "ex_python = \<lparr>po_str = (\<lambda>_. ''object''), po_iterate = (\<lambda>_. Inl (TypeError [])), po_json_str = (\<lambda>_. ''value''),
     po_float_size = (\<lambda>_. 3)\<rparr>"

definition ex_task :: "string \<Rightarrow> graph_value" where
  "ex_task secret = Gv_map [(Key_str ''name'', Gv_str ''repair''),
     (Key_str ''result'', Gv_map [(Key_str ''API_KEY'', Gv_str secret), (Key_str ''patch'', Gv_str ''p'')])]"


text \<open>The text of a tool result is not redacted: it is \<open>str()\<close> of whatever the graph returned.\<close>

lemma tool_result_not_redacted:
  "tool_result_steps A clock [Gv_map [(Key_str ''name'', Gv_str n), (Key_str ''output'', Gv_map kvs)]] steps
     = (Inr (), add_step clock Step_tool_result
         [(''name'', JStr n), (''ok'', JBool False), (''output'', JStr (po_str (la_objects A) (Gv_map kvs)))] steps)"
  by (simp add: value_text_def)

subsection \<open>Bounds of the capture\<close>

definition within_bounds :: "capture_options \<Rightarrow> capture_state \<Rightarrow> bool" where
  "within_bounds capture s \<longleftrightarrow>
     cs_events s \<le> co_max_events capture \<and> cs_stream_bytes s \<le> co_max_total_bytes capture \<and> length (cs_steps s) \<le> cs_events s"

definition part_size :: "langgraph_adapter \<Rightarrow> graph_value \<Rightarrow> nat" where
  "part_size A part = json_size (la_objects A) part"

definition not_interrupting :: "graph_value \<Rightarrow> bool" where
  "not_interrupting part = (case part of
     Gv_map kvs \<Rightarrow> \<not> truthy_value (graph_get kvs ''interrupts'' (Gv_tuple [])) | _ \<Rightarrow> False)"

lemma capture_part_bounds:
  assumes "capture_part A clock part s = (r, s')"
  shows "cs_events s' = cs_events s \<and> cs_stream_bytes s' = cs_stream_bytes s
    \<and> (case r of Inl _ \<Rightarrow> s' = s
       | Inr _ \<Rightarrow> length (cs_steps s') \<le> length (cs_steps s) + 1
           \<and> cs_interrupted s' = (cs_interrupted s \<or> truthy_value (graph_get part ''interrupts'' (Gv_tuple []))))"
proof (cases "iterate_value (la_objects A) (graph_get part ''ns'' (Gv_tuple []))")
  case (Inl e)
  then show ?thesis using assms by (auto simp: capture_part_def Let_def)
next
  case (Inr items)
  then have "s' = snd (capture_part A clock part s)" "r = Inr ()" using assms by (simp_all add: capture_part_def Let_def)
  moreover have "length (cs_steps (snd (capture_part A clock part s))) \<le> length (cs_steps s) + 1"
    using Inr by (simp add: capture_part_def Let_def add_step_def split: option.split)
  ultimately show ?thesis using Inr by (simp add: capture_part_def Let_def)
qed

lemma capture_event_bounds:
  assumes "capture_event A clock part s = (r, s')" "within_bounds (la_capture A) s"
  shows "cs_events s' = cs_events s + 1
    \<and> (case r of
         Inl _ \<Rightarrow> cs_steps s' = cs_steps s
           \<and> cs_stream_bytes s' \<le> co_max_total_bytes (la_capture A) + co_max_event_bytes (la_capture A)
       | Inr _ \<Rightarrow> within_bounds (la_capture A) s' \<and> cs_stream_bytes s' = cs_stream_bytes s + part_size A part
           \<and> part_size A part \<le> co_max_event_bytes (la_capture A)
           \<and> cs_interrupted s' = (cs_interrupted s \<or> \<not> not_interrupting part))"
proof (cases "cs_events s + 1 > co_max_events (la_capture A)")
  case True
  then show ?thesis using assms by (auto simp: capture_event_def within_bounds_def)
next
  case events: False
  let ?s = "s\<lparr>cs_events := cs_events s + 1\<rparr>"
  show ?thesis
  proof (cases "stream_part part")
    case (Inl e)
    then show ?thesis using assms events by (auto simp: capture_event_def Let_def within_bounds_def)
  next
    case (Inr kvs)
    then have part: "part = Gv_map kvs" by (auto simp: stream_part_def split: graph_value.splits if_splits)
    let ?t = "?s\<lparr>cs_stream_bytes := cs_stream_bytes s + part_size A part\<rparr>"
    consider "part_size A part > co_max_event_bytes (la_capture A)"
      | "part_size A part \<le> co_max_event_bytes (la_capture A)"
        "cs_stream_bytes s + part_size A part > co_max_total_bytes (la_capture A)"
      | "part_size A part \<le> co_max_event_bytes (la_capture A)"
        "cs_stream_bytes s + part_size A part \<le> co_max_total_bytes (la_capture A)"
      by linarith
    then show ?thesis
    proof cases
      case 3
      then have run: "capture_part A clock kvs ?t = (r, s')"
        using assms(1) events Inr part by (simp add: capture_event_def Let_def part_size_def)
      note bounds = capture_part_bounds [OF run]
      show ?thesis
        using bounds 3 assms(2) events part
        by (cases r) (auto simp: within_bounds_def not_interrupting_def)
    qed (use assms events Inr part in \<open>auto simp: capture_event_def Let_def within_bounds_def part_size_def\<close>)
  qed
qed

lemma capture_stream_bounds:
  assumes "capture_stream A clock parts ended s = (r, s')" "within_bounds (la_capture A) s"
  shows "cs_events s' \<le> co_max_events (la_capture A) + 1
    \<and> cs_stream_bytes s' \<le> co_max_total_bytes (la_capture A) + co_max_event_bytes (la_capture A)
    \<and> length (cs_steps s') \<le> co_max_events (la_capture A)
    \<and> (r = Inr () \<longrightarrow> ended = None \<and> within_bounds (la_capture A) s' \<and> cs_events s' = cs_events s + length parts
         \<and> cs_stream_bytes s' = cs_stream_bytes s + sum_list (map (part_size A) parts)
         \<and> cs_interrupted s' = (cs_interrupted s \<or> \<not> list_all not_interrupting parts))"
  using assms
proof (induction parts arbitrary: s)
  case Nil
  then show ?case by (auto simp: within_bounds_def split: option.splits)
next
  case (Cons part parts)
  obtain r1 s1 where event: "capture_event A clock part s = (r1, s1)" by fastforce
  note bounds = capture_event_bounds [OF event Cons.prems(2)]
  show ?case
  proof (cases r1)
    case (Inl e)
    then show ?thesis using Cons.prems event bounds by (auto simp: within_bounds_def)
  next
    case (Inr u)
    then have rest: "capture_stream A clock parts ended s1 = (r, s')" "within_bounds (la_capture A) s1"
      using Cons.prems(1) event bounds by auto
    show ?thesis using Cons.IH [OF rest] Inr bounds by auto
  qed
qed

lemma capture_stream_cut:
  assumes "within_bounds (la_capture A) s" "co_max_events (la_capture A) < cs_events s + length parts"
  shows "capture_stream A clock parts ended s =
    capture_stream A clock (take (Suc (co_max_events (la_capture A)) - cs_events s) parts) None s"
  using assms
proof (induction parts arbitrary: s)
  case Nil
  then show ?case by (simp add: within_bounds_def)
next
  case (Cons part parts)
  obtain r1 s1 where event: "capture_event A clock part s = (r1, s1)" by fastforce
  note bounds = capture_event_bounds [OF event Cons.prems(1)]
  have le: "cs_events s \<le> co_max_events (la_capture A)" using Cons.prems(1) by (simp add: within_bounds_def)
  show ?case
  proof (cases r1)
    case (Inl e)
    then show ?thesis using event le by (simp add: take_Cons' Suc_diff_le)
  next
    case (Inr u)
    then have "capture_stream A clock parts ended s1 =
        capture_stream A clock (take (Suc (co_max_events (la_capture A)) - cs_events s1) parts) None s1"
      using bounds Cons.prems(2) by (intro Cons.IH) auto
    then show ?thesis using event Inr le bounds by (simp add: take_Cons' Suc_diff_le)
  qed
qed

lemma initial_within_bounds: "within_bounds capture initial_capture"
  by (simp add: within_bounds_def initial_capture_def)

text \<open>Whatever a graph emits, even without end, capturing is bounded: at most one event beyond \<open>max_events\<close> is read
  and the rest of the stream has no influence, the recorded steps never exceed \<open>max_events\<close>, the counted bytes never
  exceed the total by more than one event, and a capture that succeeds kept both limits and counted every part.\<close>

theorem langgraph_capture_bounded:
  "case capture_stream A clock parts ended initial_capture of (r, s) \<Rightarrow>
     cs_events s \<le> co_max_events (la_capture A) + 1
   \<and> cs_stream_bytes s \<le> co_max_total_bytes (la_capture A) + co_max_event_bytes (la_capture A)
   \<and> length (cs_steps s) \<le> co_max_events (la_capture A)
   \<and> (if r = Inr () then cs_events s = length parts \<and> length parts \<le> co_max_events (la_capture A)
        \<and> cs_stream_bytes s = sum_list (map (part_size A) parts) \<and> cs_stream_bytes s \<le> co_max_total_bytes (la_capture A)
      else True)
   \<and> (if length parts \<le> co_max_events (la_capture A) then True
      else (r, s) = capture_stream A clock (take (Suc (co_max_events (la_capture A))) parts) None initial_capture)"
proof -
  obtain r s where run: "capture_stream A clock parts ended initial_capture = (r, s)" by fastforce
  have "capture_stream A clock parts ended initial_capture =
      capture_stream A clock (take (Suc (co_max_events (la_capture A))) parts) None initial_capture"
    if "\<not> length parts \<le> co_max_events (la_capture A)"
    using capture_stream_cut [OF initial_within_bounds, of A parts clock ended] that by (simp add: initial_capture_def)
  with capture_stream_bounds [OF run initial_within_bounds] run show ?thesis
    by (auto simp: within_bounds_def initial_capture_def)
qed

subsection \<open>Outputs\<close>

lemma add_step_last [simp]: "ts_kind (last (add_step clock kind data steps)) = kind" "add_step clock kind data steps \<noteq> []"
  by (simp_all add: add_step_def)

lemma output_from_state_success:
  assumes "output_from_state A clock started duration version state steps = (Inr out, steps')"
  shows "ao_error out = None \<and> at_steps (ao_trajectory out) \<noteq> []
    \<and> at_completed_at (ao_trajectory out) \<noteq> None
    \<and> ts_kind (last (at_steps (ao_trajectory out))) = Step_final
    \<and> parse_status (value_text (la_objects A) (graph_get state (om_status (la_mapping A)) (Gv_str ''passed''))) = Inr (ao_status out)
    \<and> string_list (graph_get state (om_modified_files (la_mapping A)) (Gv_list [])) = Inr (ao_modified_files out)
    \<and> output_text (graph_get state (om_hidden_test_output (la_mapping A)) (Gv_str ''not provided''))
        (om_hidden_test_output (la_mapping A)) = Inr (ao_hidden_test_output out)"
proof -
  let ?M = "la_mapping A" and ?P = "la_objects A"
  let ?text = "\<lambda>field fallback. output_text (graph_get state field (Gv_str fallback)) field"
  obtain status where status: "parse_status (value_text ?P (graph_get state (om_status ?M) (Gv_str ''passed''))) = Inr status"
    using assms by (cases "parse_status (value_text ?P (graph_get state (om_status ?M) (Gv_str ''passed'')))")
      (simp_all add: output_from_state_def Let_def)
  obtain files where files: "string_list (graph_get state (om_modified_files ?M) (Gv_list [])) = Inr files"
    using assms status by (cases "string_list (graph_get state (om_modified_files ?M) (Gv_list []))")
      (simp_all add: output_from_state_def Let_def)
  obtain u steps1 where tools: "append_tool_steps A clock state steps = (Inr u, steps1)"
    using assms status files by (cases "append_tool_steps A clock state steps"; cases "fst (append_tool_steps A clock state steps)")
      (auto simp: output_from_state_def Let_def)
  let ?steps = "add_step clock Step_final [(''status'', JStr (status_value status))] steps1"
  have "\<exists>response patch public_output hidden_output. ?text (om_hidden_test_output ?M) ''not provided'' = Inr hidden_output
      \<and> out = graph_output ?steps started duration version response patch files public_output hidden_output status None"
    using assms status files tools unfolding output_from_state_def Let_def by (auto simp: bind_result_def split: sum.splits)
  then obtain response patch public_output hidden_output where
    "?text (om_hidden_test_output ?M) ''not provided'' = Inr hidden_output"
    "out = graph_output ?steps started duration version response patch files public_output hidden_output status None"
    by blast
  then show ?thesis using status files by (simp add: graph_output_def)
qed

text \<open>A LangGraph run always ends in an output, and only a complete one counts: an output without an error comes from a
  stream that ended by itself within the limits, in which no part interrupted, with the status and files that its last
  root state holds and a final step; every other run has status \<open>error\<close>, no files and an error step.\<close>

theorem langgraph_output_sound:
  "let out = langgraph_execute A clock started duration version (parts, ended) in
   if ao_error out = None
   then (\<exists>s state. capture_stream A clock parts None initial_capture = (Inr (), s) \<and> ended = None
       \<and> list_all not_interrupting parts \<and> cs_final s = Some state
       \<and> parse_status (value_text (la_objects A) (graph_get state (om_status (la_mapping A)) (Gv_str ''passed''))) = Inr (ao_status out)
       \<and> string_list (graph_get state (om_modified_files (la_mapping A)) (Gv_list [])) = Inr (ao_modified_files out)
       \<and> ts_kind (last (at_steps (ao_trajectory out))) = Step_final)
   else ao_status out = ERROR \<and> ao_patch out = [] \<and> ao_modified_files out = [] \<and> ao_hidden_test_output out = ''not run''
     \<and> ts_kind (last (at_steps (ao_trajectory out))) = Step_error"
proof -
  obtain r s where run: "capture_stream A clock parts ended initial_capture = (r, s)" by fastforce
  let ?extend = "\<lambda>out. out\<lparr>ao_runtime_metadata := ao_runtime_metadata out @ stream_metadata A s\<rparr>"
  let ?out = "langgraph_execute A clock started duration version (parts, ended)"
  have error: ?thesis if "?out = ?extend (error_output A clock started duration version e steps)" for e steps
    using that by (simp add: error_output_def graph_output_def Let_def)
  show ?thesis
  proof (cases "bind_result r (\<lambda>_. finished_state s)")
    case (Inl e)
    then show ?thesis using run by (intro error) (simp add: langgraph_execute_def Let_def)
  next
    case (Inr state)
    then have ended: "r = Inr ()" "cs_final s = Some state" "\<not> cs_interrupted s"
      by (auto simp: bind_result_def finished_state_def split: sum.splits option.splits if_splits)
    obtain r2 steps2 where read: "output_from_state A clock started duration version state (cs_steps s) = (r2, steps2)" by fastforce
    show ?thesis
    proof (cases r2)
      case (Inl e)
      then show ?thesis using run Inr read by (intro error) (simp add: langgraph_execute_def Let_def)
    next
      case success: (Inr out)
      have out: "?out = ?extend out" using run Inr read success by (simp add: langgraph_execute_def Let_def)
      have "ended = None" "list_all not_interrupting parts"
        using capture_stream_bounds [OF run initial_within_bounds] ended by (auto simp: initial_capture_def)
      then show ?thesis
        using out output_from_state_success [OF read [unfolded success]] run ended by (auto simp: Let_def)
    qed
  qed
qed

end
