(* ===== verification/Kubernetes_Sandbox.thy ===== *)
theory Kubernetes_Sandbox
  imports Sandbox
begin

section \<open>The Kubernetes sandbox (\<open>kubernetes_sandbox.py\<close>)\<close>

text \<open>
  The configuration, the operations over the official client, the manifests and a run of a test in a job of an
  isolated runtime class. The functions of the client package, the clock, sleeping and the nonce are a record of
  functions on the state of the cluster; a loop that may not end is a partial function, \<open>None\<close> when it does not.
\<close>

abbreviation KubernetesSandboxError :: "string \<Rightarrow> exn" where
  "KubernetesSandboxError \<equiv> ServiceError ''KubernetesSandboxError''"

subsection \<open>Configuration\<close>

definition DNS_LABEL_PATTERN :: regex where
  "DNS_LABEL_PATTERN =
     (let c = lower_az @ digits09 in
      Seq (Cls c) (opt (Seq (up_to 61 (Cls (one_char CHR ''-'' @ c))) (Cls c))))"

definition DNS_SUBDOMAIN_PATTERN :: regex where
  "DNS_SUBDOMAIN_PATTERN =
     (let c = lower_az @ digits09 in
      Seq (Cls c) (opt (Seq (up_to 251 (Cls (one_char CHR ''-'' @ c @ one_char CHR ''.''))) (Cls c))))"

record sandbox_configuration =
  kc_namespace :: string
  kc_runtime_class :: string
  kc_runtime_handler :: string
  kc_image :: string
  kc_startup_timeout_seconds :: rat
  kc_poll_interval_seconds :: rat

text \<open>The two floats are given as parsed; a configuration holds them as the numbers they must be.\<close>

definition make_sandbox_configuration ::
  "string \<Rightarrow> string \<Rightarrow> string \<Rightarrow> string \<Rightarrow> py_float \<Rightarrow> py_float \<Rightarrow> sandbox_configuration result" where
  "make_sandbox_configuration namespace runtime_class runtime_handler reference startup interval =
     (if \<not> fullmatch DNS_LABEL_PATTERN namespace
      then Inl (ValueError ''AECONTROL_SANDBOX_KUBERNETES_NAMESPACE must be a DNS label'')
      else if \<not> fullmatch DNS_SUBDOMAIN_PATTERN runtime_class
      then Inl (ValueError ''AECONTROL_SANDBOX_KUBERNETES_RUNTIME_CLASS must be a DNS subdomain'')
      else if \<not> fullmatch DNS_LABEL_PATTERN runtime_handler
      then Inl (ValueError ''AECONTROL_SANDBOX_KUBERNETES_RUNTIME_HANDLER must be a DNS label'')
      else if \<not> digest_pinned reference
      then Inl (ValueError ''AECONTROL_SANDBOX_IMAGE must be pinned by SHA-256 digest'')
      else
        (case finite_float startup of
           None \<Rightarrow> Inl (ValueError ''AECONTROL_SANDBOX_KUBERNETES_STARTUP_TIMEOUT_SECONDS must be between 1 and 300 seconds'')
         | Some s \<Rightarrow>
             if \<not> (1 \<le> s \<and> s \<le> 300)
             then Inl (ValueError ''AECONTROL_SANDBOX_KUBERNETES_STARTUP_TIMEOUT_SECONDS must be between 1 and 300 seconds'')
             else
               (case finite_float interval of
                  None \<Rightarrow> Inl (ValueError ''AECONTROL_SANDBOX_KUBERNETES_POLL_INTERVAL_SECONDS must be between 0.1 and 5 seconds'')
                | Some p \<Rightarrow>
                    if \<not> (1 / 10 \<le> p \<and> p \<le> 5)
                    then Inl (ValueError ''AECONTROL_SANDBOX_KUBERNETES_POLL_INTERVAL_SECONDS must be between 0.1 and 5 seconds'')
                    else Inr \<lparr>kc_namespace = namespace, kc_runtime_class = runtime_class,
                           kc_runtime_handler = runtime_handler, kc_image = reference,
                           kc_startup_timeout_seconds = s, kc_poll_interval_seconds = p\<rparr>)))"

definition environment_float :: "(string \<Rightarrow> py_float option) \<Rightarrow> string \<Rightarrow> string \<Rightarrow> py_float result" where
  "environment_float parse_float value name =
     (case parse_float value of None \<Rightarrow> Inl (ValueError (name @ '' must be a number'')) | Some v \<Rightarrow> Inr v)"

text \<open>The namespace file: its size and what reading it gives; \<open>None\<close> when it is not a file or for an \<open>OSError\<close>.\<close>

definition sandbox_namespace ::
  "(nat \<times> string result) option \<Rightarrow> (string \<Rightarrow> string option) \<Rightarrow> string result" where
  "sandbox_namespace namespace_file env =
     (let namespace = (case env ''AECONTROL_SANDBOX_KUBERNETES_NAMESPACE'' of None \<Rightarrow> [] | Some v \<Rightarrow> strip v) in
      if namespace \<noteq> [] then Inr namespace
      else
        (case namespace_file of
           None \<Rightarrow> Inl (ValueError ''AECONTROL_SANDBOX_KUBERNETES_NAMESPACE is required'')
         | Some (bytes, content) \<Rightarrow>
             if bytes > 253 then Inl (ValueError ''AECONTROL_SANDBOX_KUBERNETES_NAMESPACE is required'')
             else bind_result content (\<lambda>text. Inr (strip text))))"

definition sandbox_configuration_from_environment ::
  "(string \<Rightarrow> py_float option) \<Rightarrow> (nat \<times> string result) option \<Rightarrow> (string \<Rightarrow> string option)
     \<Rightarrow> sandbox_configuration result" where
  "sandbox_configuration_from_environment parse_float namespace_file env =
     (let get = (\<lambda>name fallback. case env name of None \<Rightarrow> fallback | Some v \<Rightarrow> v) in
      bind_result (sandbox_namespace namespace_file env) (\<lambda>namespace.
      let runtime_class = strip (get ''AECONTROL_SANDBOX_KUBERNETES_RUNTIME_CLASS'' []);
          runtime_handler = strip (get ''AECONTROL_SANDBOX_KUBERNETES_RUNTIME_HANDLER'' []);
          reference = strip (get ''AECONTROL_SANDBOX_IMAGE'' []) in
      if runtime_class = [] \<or> runtime_handler = [] \<or> reference = []
      then Inl (ValueError ''runtime class, runtime handler, and image must be set together'')
      else
        bind_result (environment_float parse_float (get ''AECONTROL_SANDBOX_KUBERNETES_STARTUP_TIMEOUT_SECONDS'' ''30'')
            ''AECONTROL_SANDBOX_KUBERNETES_STARTUP_TIMEOUT_SECONDS'') (\<lambda>startup.
        bind_result (environment_float parse_float (get ''AECONTROL_SANDBOX_KUBERNETES_POLL_INTERVAL_SECONDS'' ''0.5'')
            ''AECONTROL_SANDBOX_KUBERNETES_POLL_INTERVAL_SECONDS'') (\<lambda>interval.
        make_sandbox_configuration namespace runtime_class runtime_handler reference startup interval))))"

subsection \<open>The official client\<close>

text \<open>An answer of the client: a value, an \<open>ApiException\<close> with its status, or any other exception.\<close>

datatype 'a kube_answer = Kube_ok 'a | Kube_status "nat option" | Kube_failure

text \<open>The attributes the code reads. An exit code is \<open>Some None\<close> when it is not an integer.\<close>

record container_state =
  cn_terminated :: "int option option"
  cn_waiting_reason :: "string option"

record sandbox_pod =
  pd_name :: string
  pd_container :: "container_state option"
  pd_phase :: "string option"

record sandbox_job =
  sj_failed :: bool
  sj_condition_reasons :: "string option list"

record 's kube_clients =
  kk_read_runtime_class :: "string \<Rightarrow> 's \<Rightarrow> string option kube_answer \<times> 's"
  kk_create_config_map :: "string \<Rightarrow> json \<Rightarrow> 's \<Rightarrow> unit kube_answer \<times> 's"
  kk_create_network_policy :: "string \<Rightarrow> json \<Rightarrow> 's \<Rightarrow> unit kube_answer \<times> 's"
  kk_create_job :: "string \<Rightarrow> json \<Rightarrow> 's \<Rightarrow> unit kube_answer \<times> 's"
  kk_read_job_status :: "string \<Rightarrow> string \<Rightarrow> 's \<Rightarrow> sandbox_job kube_answer \<times> 's"
  kk_list_pods :: "string \<Rightarrow> string \<Rightarrow> 's \<Rightarrow> sandbox_pod list kube_answer \<times> 's"
  kk_read_pod_log :: "string \<Rightarrow> string \<Rightarrow> 's \<Rightarrow> string option kube_answer \<times> 's"
  kk_delete_job :: "string \<Rightarrow> string \<Rightarrow> 's \<Rightarrow> unit kube_answer \<times> 's"
  kk_read_job :: "string \<Rightarrow> string \<Rightarrow> 's \<Rightarrow> unit kube_answer \<times> 's"
  kk_delete_network_policy :: "string \<Rightarrow> string \<Rightarrow> 's \<Rightarrow> unit kube_answer \<times> 's"
  kk_delete_config_map :: "string \<Rightarrow> string \<Rightarrow> 's \<Rightarrow> unit kube_answer \<times> 's"
  kk_monotonic :: "'s \<Rightarrow> rat \<times> 's"
  kk_sleep :: "rat \<Rightarrow> 's \<Rightarrow> 's"
  kk_run_id :: "'s \<Rightarrow> string \<times> 's"

text \<open>\<open>_call\<close> and \<open>_delete\<close>: every exception becomes a \<open>KubernetesSandboxError\<close>.\<close>

definition kube_call :: "string \<Rightarrow> 'a kube_answer \<times> 's \<Rightarrow> 'a result \<times> 's" where
  "kube_call operation = (\<lambda>(answer, st).
     ((case answer of
         Kube_ok v \<Rightarrow> Inr v
       | Kube_status _ \<Rightarrow> Inl (KubernetesSandboxError (operation @ '' failed with HTTP status''))
       | Kube_failure \<Rightarrow> Inl (KubernetesSandboxError (operation @ '' request failed''))), st))"

definition kube_delete :: "string \<Rightarrow> unit kube_answer \<times> 's \<Rightarrow> unit result \<times> 's" where
  "kube_delete operation = (\<lambda>(answer, st).
     ((case answer of
         Kube_ok _ \<Rightarrow> Inr ()
       | Kube_status status \<Rightarrow>
           if status = Some 404 then Inr ()
           else Inl (KubernetesSandboxError (operation @ '' failed with HTTP status''))
       | Kube_failure \<Rightarrow> Inl (KubernetesSandboxError (operation @ '' request failed''))), st))"

definition verify_runtime_class :: "'s kube_clients \<Rightarrow> string \<Rightarrow> string \<Rightarrow> 's \<Rightarrow> unit result \<times> 's" where
  "verify_runtime_class C name expected_handler st =
     (case kube_call ''read RuntimeClass'' (kk_read_runtime_class C name st) of
        (Inl e, st1) \<Rightarrow> (Inl e, st1)
      | (Inr handler, st1) \<Rightarrow>
          (if handler \<noteq> Some expected_handler
           then Inl (KubernetesSandboxError ''Kubernetes RuntimeClass handler does not match the pinned handler'')
           else Inr (), st1))"

definition START_FAILURES :: "string list" where
  "START_FAILURES = [''CreateContainerConfigError'', ''ErrImageNeverPull'', ''ErrImagePull'', ''ImagePullBackOff'',
     ''InvalidImageName'', ''RunContainerError'']"

text \<open>\<open>job_outcome\<close> in its two parts: what the pod tells, and the job before it.\<close>

definition pod_outcome ::
  "'s kube_clients \<Rightarrow> string \<Rightarrow> sandbox_pod \<Rightarrow> 's \<Rightarrow> (bool \<times> string) option result \<times> 's" where
  "pod_outcome C namespace pod st =
     (let phase_verdict =
        (if pd_phase pod = Some ''Failed''
         then Inl (KubernetesSandboxError ''Kubernetes sandbox pod failed before candidate completion'')
         else Inr None) in
      case pd_container pod of
        None \<Rightarrow> (phase_verdict, st)
      | Some state \<Rightarrow>
          (case cn_terminated state of
             Some exit_code \<Rightarrow>
               (case kube_call ''read sandbox pod log'' (kk_read_pod_log C (pd_name pod) namespace st) of
                  (Inl e, st1) \<Rightarrow> (Inl e, st1)
                | (Inr None, st1) \<Rightarrow> (Inl (KubernetesSandboxError ''Kubernetes sandbox returned an invalid pod log''), st1)
                | (Inr (Some text), st1) \<Rightarrow>
                    ((case exit_code of
                        None \<Rightarrow> Inl (KubernetesSandboxError ''Kubernetes sandbox returned an invalid container exit status'')
                      | Some code \<Rightarrow> Inr (Some (code = 0, if strip text = [] then ''ok'' else strip text))), st1))
           | None \<Rightarrow>
               (case cn_waiting_reason state of
                  Some reason \<Rightarrow>
                    if reason \<in> set START_FAILURES
                    then (Inl (KubernetesSandboxError ''Kubernetes sandbox pod could not start''), st)
                    else (phase_verdict, st)
                | None \<Rightarrow> (phase_verdict, st))))"

definition job_outcome ::
  "'s kube_clients \<Rightarrow> string \<Rightarrow> string \<Rightarrow> 's \<Rightarrow> (bool \<times> string) option result \<times> 's" where
  "job_outcome C namespace name st =
     (case kube_call ''read sandbox Job'' (kk_read_job_status C name namespace st) of
        (Inl e, st1) \<Rightarrow> (Inl e, st1)
      | (Inr job, st1) \<Rightarrow>
          if sj_failed job \<and> Some ''DeadlineExceeded'' \<in> set (sj_condition_reasons job)
          then (Inr (Some (False, ''microVM sandbox execution deadline exceeded'')), st1)
          else
            (case kube_call ''list sandbox pods'' (kk_list_pods C namespace (''job-name='' @ name) st1) of
               (Inl e, st2) \<Rightarrow> (Inl e, st2)
             | (Inr [], st2) \<Rightarrow>
                 (if sj_failed job
                  then Inl (KubernetesSandboxError ''Kubernetes sandbox Job failed before pod creation'')
                  else Inr None, st2)
             | (Inr (pod # _), st2) \<Rightarrow> pod_outcome C namespace pod st2))"

text \<open>The loop of \<open>delete_job\<close>: poll until the job is gone.\<close>

partial_function (option) wait_deleted ::
  "'s kube_clients \<Rightarrow> string \<Rightarrow> string \<Rightarrow> rat \<Rightarrow> 's \<Rightarrow> (unit result \<times> 's) option" where
  "wait_deleted C namespace name deadline st =
     (case kk_monotonic C st of (t, st1) \<Rightarrow>
        if t < deadline then
          (case kk_read_job C name namespace st1 of
             (Kube_status status, st2) \<Rightarrow>
               Some (if status = Some 404 then Inr ()
                     else Inl (KubernetesSandboxError ''verify sandbox Job deletion failed with HTTP status''), st2)
           | (Kube_failure, st2) \<Rightarrow>
               Some (Inl (KubernetesSandboxError ''verify sandbox Job deletion request failed''), st2)
           | (Kube_ok _, st2) \<Rightarrow> wait_deleted C namespace name deadline (kk_sleep C (1 / 10) st2))
        else Some (Inl (KubernetesSandboxError ''Kubernetes sandbox Job deletion did not complete''), st1))"

definition delete_sandbox_job :: "'s kube_clients \<Rightarrow> string \<Rightarrow> string \<Rightarrow> 's \<Rightarrow> (unit result \<times> 's) option" where
  "delete_sandbox_job C namespace name st =
     (case kk_delete_job C name namespace st of
        (Kube_status status, st1) \<Rightarrow>
          Some (if status = Some 404 then Inr ()
                else Inl (KubernetesSandboxError ''delete sandbox Job failed with HTTP status''), st1)
      | (Kube_failure, st1) \<Rightarrow> Some (Inl (KubernetesSandboxError ''delete sandbox Job request failed''), st1)
      | (Kube_ok _, st1) \<Rightarrow>
          (case kk_monotonic C st1 of (t, st2) \<Rightarrow> wait_deleted C namespace name (t + 10) st2))"

subsection \<open>The interface of the executor\<close>

record 's sandbox_api =
  sb_verify_runtime_class :: "string \<Rightarrow> string \<Rightarrow> 's \<Rightarrow> unit result \<times> 's"
  sb_create_config_map :: "string \<Rightarrow> json \<Rightarrow> 's \<Rightarrow> unit result \<times> 's"
  sb_create_network_policy :: "string \<Rightarrow> json \<Rightarrow> 's \<Rightarrow> unit result \<times> 's"
  sb_create_job :: "string \<Rightarrow> json \<Rightarrow> 's \<Rightarrow> unit result \<times> 's"
  sb_job_outcome :: "string \<Rightarrow> string \<Rightarrow> 's \<Rightarrow> (bool \<times> string) option result \<times> 's"
  sb_delete_job :: "string \<Rightarrow> string \<Rightarrow> 's \<Rightarrow> (unit result \<times> 's) option"
  sb_delete_network_policy :: "string \<Rightarrow> string \<Rightarrow> 's \<Rightarrow> (unit result \<times> 's) option"
  sb_delete_config_map :: "string \<Rightarrow> string \<Rightarrow> 's \<Rightarrow> (unit result \<times> 's) option"
  sb_monotonic :: "'s \<Rightarrow> rat \<times> 's"
  sb_sleep :: "rat \<Rightarrow> 's \<Rightarrow> 's"
  sb_run_id :: "'s \<Rightarrow> string \<times> 's"

definition official_api :: "'s kube_clients \<Rightarrow> 's sandbox_api" where
  "official_api C =
     \<lparr>sb_verify_runtime_class = verify_runtime_class C,
      sb_create_config_map = (\<lambda>ns body st. kube_call ''create sandbox ConfigMap'' (kk_create_config_map C ns body st)),
      sb_create_network_policy =
        (\<lambda>ns body st. kube_call ''create sandbox NetworkPolicy'' (kk_create_network_policy C ns body st)),
      sb_create_job = (\<lambda>ns body st. kube_call ''create sandbox Job'' (kk_create_job C ns body st)),
      sb_job_outcome = job_outcome C, sb_delete_job = delete_sandbox_job C,
      sb_delete_network_policy =
        (\<lambda>ns name st. Some (kube_delete ''delete sandbox NetworkPolicy'' (kk_delete_network_policy C name ns st))),
      sb_delete_config_map =
        (\<lambda>ns name st. Some (kube_delete ''delete sandbox ConfigMap'' (kk_delete_config_map C name ns st))),
      sb_monotonic = kk_monotonic C, sb_sleep = kk_sleep C, sb_run_id = kk_run_id C\<rparr>"

subsection \<open>Manifests\<close>

definition sandbox_labels :: "string \<Rightarrow> json" where
  "sandbox_labels nonce =
     JObj [(''app.kubernetes.io/name'', JStr ''aecontrol-sandbox''), (''aecontrol.dev/run-id'', JStr nonce)]"

definition sandbox_metadata :: "string \<Rightarrow> string \<Rightarrow> json" where
  "sandbox_metadata name nonce = JObj [(''name'', JStr name), (''labels'', sandbox_labels nonce)]"

text \<open>\<open>read_text()\<close> of the two files; a file that is missing is an \<open>OSError\<close>.\<close>

definition config_map_manifest :: "string \<Rightarrow> string \<Rightarrow> directory \<Rightarrow> string \<Rightarrow> json result" where
  "config_map_manifest name nonce files test_name =
     (case (map_of files ''app.py'', map_of files test_name) of
        (Some app, Some test) \<Rightarrow>
          Inr (JObj [(''apiVersion'', JStr ''v1''), (''kind'', JStr ''ConfigMap''),
            (''metadata'', sandbox_metadata name nonce), (''immutable'', JBool True),
            (''data'', JObj (dict_set test_name (JStr test) [(''app.py'', JStr app)]))])
      | _ \<Rightarrow> Inl (ServiceError ''FileNotFoundError'' []))"

definition network_policy_manifest :: "string \<Rightarrow> string \<Rightarrow> json" where
  "network_policy_manifest name nonce =
     JObj [(''apiVersion'', JStr ''networking.k8s.io/v1''), (''kind'', JStr ''NetworkPolicy''),
       (''metadata'', sandbox_metadata name nonce),
       (''spec'', JObj [
          (''podSelector'', JObj [(''matchLabels'', JObj [(''aecontrol.dev/run-id'', JStr nonce)])]),
          (''policyTypes'', JList [JStr ''Ingress'', JStr ''Egress'']), (''ingress'', JList []), (''egress'', JList [])])]"

definition candidate_container :: "sandbox_configuration \<Rightarrow> string \<Rightarrow> sandbox_policy \<Rightarrow> json" where
  "candidate_container c test_name policy =
     (let resources = JObj [(''cpu'', JStr ''500m''), (''memory'', JStr (int_str (sp_memory_bytes policy))),
            (''ephemeral-storage'', JStr (int_str (sp_max_file_bytes policy)))] in
      JObj [(''name'', JStr ''candidate''), (''image'', JStr (kc_image c)), (''imagePullPolicy'', JStr ''IfNotPresent''),
        (''command'', JList [JStr ''python'', JStr ''-B'', JStr (''/workspace/'' @ test_name)]),
        (''env'', JList [
           JObj [(''name'', JStr ''PYTHONDONTWRITEBYTECODE''), (''value'', JStr ''1'')],
           JObj [(''name'', JStr ''PYTHONPATH''), (''value'', JStr ''/workspace'')]]),
        (''resources'', JObj [(''requests'', resources), (''limits'', resources)]),
        (''securityContext'', JObj [(''allowPrivilegeEscalation'', JBool False), (''readOnlyRootFilesystem'', JBool True),
           (''capabilities'', JObj [(''drop'', JList [JStr ''ALL''])])]),
        (''volumeMounts'', JList [JObj [(''name'', JStr ''workspace''), (''mountPath'', JStr ''/workspace''),
           (''readOnly'', JBool True)]])])"

definition sandbox_pod_spec :: "sandbox_configuration \<Rightarrow> string \<Rightarrow> string \<Rightarrow> sandbox_policy \<Rightarrow> (string, json) dict" where
  "sandbox_pod_spec c name test_name policy =
     [(''runtimeClassName'', JStr (kc_runtime_class c)), (''automountServiceAccountToken'', JBool False),
      (''enableServiceLinks'', JBool False), (''restartPolicy'', JStr ''Never''),
      (''terminationGracePeriodSeconds'', JInt 1), (''hostNetwork'', JBool False), (''hostPID'', JBool False),
      (''hostIPC'', JBool False), (''shareProcessNamespace'', JBool False),
      (''securityContext'', JObj [(''runAsNonRoot'', JBool True), (''runAsUser'', JInt 65534),
         (''runAsGroup'', JInt 65534), (''seccompProfile'', JObj [(''type'', JStr ''RuntimeDefault'')])]),
      (''containers'', JList [candidate_container c test_name policy]),
      (''volumes'', JList [JObj [(''name'', JStr ''workspace''),
         (''configMap'', JObj [(''name'', JStr name), (''defaultMode'', JInt 292)])]])]"

definition sandbox_job_manifest ::
  "sandbox_configuration \<Rightarrow> string \<Rightarrow> string \<Rightarrow> string \<Rightarrow> sandbox_policy \<Rightarrow> json" where
  "sandbox_job_manifest c name nonce test_name policy =
     JObj [(''apiVersion'', JStr ''batch/v1''), (''kind'', JStr ''Job''), (''metadata'', sandbox_metadata name nonce),
       (''spec'', JObj [(''backoffLimit'', JInt 0),
          (''activeDeadlineSeconds'', JInt \<lceil>sp_timeout_seconds policy + kc_startup_timeout_seconds c\<rceil>),
          (''ttlSecondsAfterFinished'', JInt 300),
          (''template'', JObj [(''metadata'', JObj [(''labels'', sandbox_labels nonce)]),
             (''spec'', JObj (sandbox_pod_spec c name test_name policy))])])]"

subsection \<open>A run\<close>

text \<open>The resources whose creation was attempted.\<close>

datatype sandbox_resource = Config_map | Network_policy | Sandbox_job

partial_function (option) poll_outcome ::
  "'s sandbox_api \<Rightarrow> sandbox_configuration \<Rightarrow> string \<Rightarrow> rat \<Rightarrow> 's \<Rightarrow> ((bool \<times> string) result \<times> 's) option" where
  "poll_outcome A c name deadline st =
     (case sb_monotonic A st of (t, st1) \<Rightarrow>
        if t < deadline then
          (case sb_job_outcome A (kc_namespace c) name st1 of
             (Inl e, st2) \<Rightarrow> Some (Inl e, st2)
           | (Inr (Some outcome), st2) \<Rightarrow> Some (Inr outcome, st2)
           | (Inr None, st2) \<Rightarrow> poll_outcome A c name deadline (sb_sleep A (kc_poll_interval_seconds c) st2))
        else Some (Inl (KubernetesSandboxError ''Kubernetes sandbox exceeded its bounded completion deadline''), st1))"

text \<open>The body of the \<open>try\<close>: its result, what it attempted, and the state.\<close>

definition sandbox_attempt ::
  "'s sandbox_api \<Rightarrow> sandbox_configuration \<Rightarrow> string \<Rightarrow> json \<Rightarrow> json \<Rightarrow> json \<Rightarrow> rat \<Rightarrow> 's
     \<Rightarrow> ((bool \<times> string) result \<times> sandbox_resource list \<times> 's) option" where
  "sandbox_attempt A c name config_map network_policy job timeout st =
     (case sb_create_config_map A (kc_namespace c) config_map st of
        (Inl e, st1) \<Rightarrow> Some (Inl e, [Config_map], st1)
      | (Inr _, st1) \<Rightarrow>
          (case sb_create_network_policy A (kc_namespace c) network_policy st1 of
             (Inl e, st2) \<Rightarrow> Some (Inl e, [Config_map, Network_policy], st2)
           | (Inr _, st2) \<Rightarrow>
               (case sb_create_job A (kc_namespace c) job st2 of
                  (Inl e, st3) \<Rightarrow> Some (Inl e, [Config_map, Network_policy, Sandbox_job], st3)
                | (Inr _, st3) \<Rightarrow>
                    (case sb_monotonic A st3 of (t, st4) \<Rightarrow>
                       map_option (\<lambda>(r, st5). (r, [Config_map, Network_policy, Sandbox_job], st5))
                         (poll_outcome A c name (t + timeout + kc_startup_timeout_seconds c) st4)))))"

text \<open>\<open>_cleanup\<close>: a \<open>KubernetesSandboxError\<close> is kept and the next deletion tried, another exception is raised
  at once.\<close>

definition delete_resource ::
  "'s sandbox_api \<Rightarrow> string \<Rightarrow> string \<Rightarrow> sandbox_resource \<Rightarrow> 's \<Rightarrow> (unit result \<times> 's) option" where
  "delete_resource A namespace name resource =
     (case resource of
        Sandbox_job \<Rightarrow> sb_delete_job A namespace name
      | Network_policy \<Rightarrow> sb_delete_network_policy A namespace name
      | Config_map \<Rightarrow> sb_delete_config_map A namespace name)"

fun cleanup_each ::
  "'s sandbox_api \<Rightarrow> string \<Rightarrow> string \<Rightarrow> sandbox_resource list \<Rightarrow> bool \<Rightarrow> 's \<Rightarrow> (unit result \<times> 's) option" where
  "cleanup_each A namespace name [] failed st =
     Some (if failed then Inl (KubernetesSandboxError ''Kubernetes sandbox cleanup failed'') else Inr (), st)"
| "cleanup_each A namespace name (resource # resources) failed st =
     (case delete_resource A namespace name resource st of
        None \<Rightarrow> None
      | Some (Inr _, st1) \<Rightarrow> cleanup_each A namespace name resources failed st1
      | Some (Inl e, st1) \<Rightarrow>
          if (case e of ServiceError cls _ \<Rightarrow> cls = ''KubernetesSandboxError'' | _ \<Rightarrow> False)
          then cleanup_each A namespace name resources True st1
          else Some (Inl e, st1))"

definition sandbox_cleanup ::
  "'s sandbox_api \<Rightarrow> string \<Rightarrow> string \<Rightarrow> sandbox_resource list \<Rightarrow> 's \<Rightarrow> (unit result \<times> 's) option" where
  "sandbox_cleanup A namespace name attempted =
     cleanup_each A namespace name (filter (\<lambda>r. r \<in> set attempted) [Sandbox_job, Network_policy, Config_map]) False"

text \<open>\<open>finally\<close>: an exception of the clean-up replaces the result of the body.\<close>

definition kubernetes_run_test ::
  "'s sandbox_api \<Rightarrow> sandbox_configuration \<Rightarrow> (string \<Rightarrow> string) \<Rightarrow> string \<Rightarrow> directory \<Rightarrow> string \<Rightarrow> sandbox_policy
     \<Rightarrow> 's \<Rightarrow> ((bool \<times> string) result \<times> directory \<times> 's) option" where
  "kubernetes_run_test A c decode_replace dir_path files test_name policy st =
     (case sb_run_id A st of (nonce, st1) \<Rightarrow>
      let name = ''aecontrol-'' @ nonce in
      case config_map_manifest name nonce files test_name of
        Inl e \<Rightarrow> Some (Inl e, files, st1)
      | Inr config_map \<Rightarrow>
          (case sandbox_attempt A c name config_map (network_policy_manifest name nonce)
                  (sandbox_job_manifest c name nonce test_name policy) (sp_timeout_seconds policy) st1 of
             None \<Rightarrow> None
           | Some (r, attempted, st2) \<Rightarrow>
               (case sandbox_cleanup A (kc_namespace c) name attempted st2 of
                  None \<Rightarrow> None
                | Some (Inl e, st3) \<Rightarrow> Some (Inl e, files, st3)
                | Some (Inr _, st3) \<Rightarrow>
                    Some (bind_result r (\<lambda>(passed, output).
                        Inr (passed, truncate_output decode_replace output (sp_max_output_bytes policy))), files, st3))))"

text \<open>The constructor reads the runtime class before there is an executor.\<close>

definition kubernetes_executor ::
  "'s sandbox_api \<Rightarrow> sandbox_configuration \<Rightarrow> (string \<Rightarrow> string) \<Rightarrow> 's \<Rightarrow> 's test_executor result \<times> 's" where
  "kubernetes_executor A c decode_replace st =
     (case sb_verify_runtime_class A (kc_runtime_class c) (kc_runtime_handler c) st of
        (Inl e, st1) \<Rightarrow> (Inl e, st1)
      | (Inr _, st1) \<Rightarrow>
          (Inr \<lparr>te_name = ''kubernetes-runtimeclass/'' @ kc_runtime_class c,
             te_run_test = kubernetes_run_test A c decode_replace\<rparr>, st1))"

end
