(* ===== verification/Sandbox_Properties.thy ===== *)
theory Sandbox_Properties
  imports Kubernetes_Sandbox
begin

section \<open>Properties of the sandboxes\<close>

text \<open>
  What screening accepts, what the verdicts of a run rest on, and for the Kubernetes sandbox that a candidate runs
  only in isolation, that its verdict is the exit status of its container, that a run cleans up behind itself and
  that it ends.
\<close>

subsection \<open>Screening\<close>

definition called_names :: "py_node \<Rightarrow> string list" where
  "called_names node = (case node of Call_of_name name \<Rightarrow> [name] | _ \<Rightarrow> [])"

definition permitted_node :: "sandbox_policy \<Rightarrow> py_node \<Rightarrow> bool" where
  "permitted_node policy node \<longleftrightarrow>
     set (imported_names node) \<inter> set (sp_denied_imports policy) = {}
   \<and> set (called_names node) \<inter> set (sp_denied_calls policy) = {}"

lemma sorted_set_Nil [simp]: "sorted_set xs = [] \<longleftrightarrow> xs = []"
  using set_sorted_set [of xs] by (metis set_empty)

lemma node_rejection_None: "node_rejection policy node = None \<longleftrightarrow> permitted_node policy node"
proof -
  let ?denied = "filter (\<lambda>n. n \<in> set (sp_denied_imports policy)) (imported_names node)"
  have "?denied = [] \<longleftrightarrow> set (imported_names node) \<inter> set (sp_denied_imports policy) = {}"
    by (auto simp: filter_empty_conv)
  moreover have "node_rejection policy node = None \<longleftrightarrow>
      ?denied = [] \<and> set (called_names node) \<inter> set (sp_denied_calls policy) = {}"
    unfolding node_rejection_def sorted_set_Nil [of ?denied, symmetric]
    by (cases "sorted_set ?denied") (auto simp: called_names_def simp del: sorted_set_Nil split: py_node.splits)
  ultimately show ?thesis by (simp add: permitted_node_def)
qed

lemma first_rejection_None: "first_rejection policy nodes = None \<longleftrightarrow> list_all (permitted_node policy) nodes"
  by (induction nodes) (auto simp: node_rejection_None [symmetric] split: option.splits)

lemma validate_source_accepts:
  "validate_source parse source policy = Inr None \<longleftrightarrow>
     length (utf8 source) \<le> sp_max_source_bytes policy
     \<and> (\<exists>nodes. parse source = Parsed_source nodes \<and> list_all (permitted_node policy) nodes)"
  by (auto simp: validate_source_def first_rejection_None split: py_parse.splits)

subsection \<open>The verdicts of a run\<close>

text \<open>The tests of a run, each with the files it was given and left.\<close>

definition tests_performed ::
  "'s test_executor \<Rightarrow> coding_sandbox \<Rightarrow> dataset_case \<Rightarrow> string \<Rightarrow> 's \<Rightarrow> sandbox_result \<Rightarrow> 's \<Rightarrow> bool" where
  "tests_performed executor box c patched st r st' \<longleftrightarrow>
     (\<exists>files st1 left.
        te_run_test executor (cs_root box) [(''app.py'', patched), (''_aecontrol_test.py'', public_test_source c)]
          ''_aecontrol_test.py'' (cs_policy box) st = Some (Inr (sr_public_passed r, sr_public_test_output r), files, st1)
      \<and> te_run_test executor (cs_root box) (dict_set ''_aecontrol_test.py'' (hidden_test_source c) files)
          ''_aecontrol_test.py'' (cs_policy box) st1 = Some (Inr (sr_hidden_passed r, sr_hidden_test_output r), left, st'))"

definition TOOL_NAMES :: "string list" where
  "TOOL_NAMES = [''read_file'', ''search_code'', ''apply_patch'', ''run_tests'']"

lemma recorded_names:
  "map tc_name (fst (recorded i name arguments output ok so_far)) = map tc_name (fst so_far) @ [name]"
  "map tr_name (snd (recorded i name arguments output ok so_far)) = map tr_name (snd so_far) @ [name]"
  "map tc_call_id (fst (recorded i name arguments output ok so_far)) = map tc_call_id (fst so_far) @ [i]"
  "map tr_call_id (snd (recorded i name arguments output ok so_far)) = map tr_call_id (snd so_far) @ [i]"
  by (cases so_far; simp add: recorded_def)+

lemma sandbox_run_tested:
  assumes "sandbox_run executor box c patched st = Some (Inr r, st')"
    and "validate_source (cs_parse box) patched (cs_policy box) = Inr None"
  shows "tests_performed executor box c patched st r st'
    \<and> (\<exists>before. vulnerable_source c = Inr before
         \<and> sr_modified_files r = (if before = patched then [] else [''app.py'']))
    \<and> map tc_name (sr_tool_calls r) = TOOL_NAMES \<and> map tr_name (sr_tool_results r) = TOOL_NAMES
    \<and> map tc_call_id (sr_tool_calls r) = map tr_call_id (sr_tool_results r)"
proof -
  obtain before where before: "vulnerable_source c = Inr before"
    using assms by (auto simp: sandbox_run_def split: sum.splits)
  obtain public_passed public_output files st1 where
    public: "sandbox_test executor box [(''app.py'', patched)] (public_test_source c) st
      = Some (Inr (public_passed, public_output), files, st1)"
    using assms before by (auto simp: sandbox_run_def Let_def split: option.splits prod.splits sum.splits)
  obtain hidden_passed hidden_output left where
    hidden: "sandbox_test executor box files (hidden_test_source c) st1
      = Some (Inr (hidden_passed, hidden_output), left, st')"
    using assms before public by (auto simp: sandbox_run_def Let_def split: option.splits prod.splits sum.splits)
  have r: "sr_public_passed r = public_passed" "sr_public_test_output r = public_output"
    "sr_hidden_passed r = hidden_passed" "sr_hidden_test_output r = hidden_output"
    "sr_modified_files r = (if before = patched then [] else [''app.py''])"
    "map tc_name (sr_tool_calls r) = TOOL_NAMES" "map tr_name (sr_tool_results r) = TOOL_NAMES"
    "map tc_call_id (sr_tool_calls r) = map tr_call_id (sr_tool_results r)"
    using assms before public hidden by (auto simp: sandbox_run_def Let_def TOOL_NAMES_def recorded_names)
  moreover have "tests_performed executor box c patched st r st'"
    using public hidden r unfolding tests_performed_def
    by (auto simp: sandbox_test_def Let_def split: if_splits)
  ultimately show ?thesis using before by blast
qed

text \<open>A run that reports a passed test reports the executor's verdict: the source had passed the screening, the
  public test ran over exactly that source, the hidden test over the files it left, and the four tool calls of the
  trajectory are recorded in order with their results. A rejected source never reaches the executor.\<close>

theorem sandbox_verdicts_sound:
  assumes "sandbox_run executor box c patched st = Some (Inr r, st')"
  shows "(case validate_source (cs_parse box) patched (cs_policy box) of
        Inl _ \<Rightarrow> False
      | Inr (Some rejection) \<Rightarrow> st' = st \<and> \<not> sr_public_passed r \<and> \<not> sr_hidden_passed r
          \<and> sr_public_test_output r = rejection \<and> sr_tool_calls r = [] \<and> sr_modified_files r = []
      | Inr None \<Rightarrow> tests_performed executor box c patched st r st'
          \<and> map tc_name (sr_tool_calls r) = TOOL_NAMES
          \<and> map tc_call_id (sr_tool_calls r) = map tr_call_id (sr_tool_results r)
          \<and> (vulnerable_source c = Inr patched \<longleftrightarrow> sr_modified_files r = []))
    \<and> sr_backend r = te_name executor"
proof (cases "validate_source (cs_parse box) patched (cs_policy box)")
  case (Inl e)
  then show ?thesis using assms by (simp add: sandbox_run_def)
next
  case (Inr rejected)
  have backend: "sr_backend r = te_name executor"
    using assms by (auto simp: sandbox_run_def Let_def split: sum.splits option.splits prod.splits)
  show ?thesis
  proof (cases rejected)
    case None
    then show ?thesis using Inr backend sandbox_run_tested [OF assms] by (auto split: if_splits)
  next
    case (Some m)
    then show ?thesis using Inr assms by (auto simp: sandbox_run_def)
  qed
qed

text \<open>A correct repair of a division, and a process that answers with status zero.\<close>

definition ex_case :: dataset_case where
  "ex_case = \<lparr>dc_case_id = ''D-1'', dc_title = ''d'', dc_slice = ''s'', dc_bug_kind = ''divide'', dc_severity = ''low'',
     dc_expected_tools = [], dc_forbidden_tools = [], dc_expected_modified_files = [], dc_forbidden_modified_files = []\<rparr>"

definition ex_sandbox :: coding_sandbox where
  "ex_sandbox = \<lparr>cs_policy = DEFAULT_SANDBOX_POLICY, cs_parse = (\<lambda>_. Parsed_source [Other_node]),
     cs_unified_diff = (\<lambda>before after. after), cs_call_id = of_nat, cs_root = ''/tmp/s''\<rparr>"

definition ex_executor :: "nat test_executor" where
  "ex_executor = process_executor ''python'' (\<lambda>_. ''5.0'') (\<lambda>s. s) (\<lambda>request st. (Process_exit 0 [] [], pr_files request, st + 1))"

definition ex_patched :: string where
  "ex_patched = unlines [''def solve(a, b):'', ''    return a / b'']"

lemma ex_screened: "validate_source (cs_parse ex_sandbox) ex_patched (cs_policy ex_sandbox) = Inr None"
  by (simp add: validate_source_accepts ex_sandbox_def ex_patched_def unlines_def utf8_def DEFAULT_SANDBOX_POLICY_def
      permitted_node_def imported_names_def called_names_def)

lemma ex_verdict:
  "map_of files ''app.py'' \<noteq> None \<Longrightarrow> sandbox_test ex_executor ex_sandbox files test st
     = Some (Inr (True, ''ok''), dict_set ''_aecontrol_test.py'' test files, st + 1)"
  by (cases "map_of (dict_set ''_aecontrol_test.py'' test files) ''app.py''")
    (auto simp: sandbox_test_def Let_def ex_executor_def process_executor_def process_run_test_def process_verdict_def
      strip_def truncate_output_def utf8_def ex_sandbox_def DEFAULT_SANDBOX_POLICY_def)

lemma ex_sandbox_run:
  "\<exists>r. sandbox_run ex_executor ex_sandbox ex_case ex_patched 0 = Some (Inr r, 2) \<and> sr_public_passed r \<and> sr_hidden_passed r"
proof -
  obtain before where before: "vulnerable_source ex_case = Inr before" by (simp add: vulnerable_source_def ex_case_def)
  have kept: "map_of (dict_set ''_aecontrol_test.py'' test [(''app.py'', ex_patched)]) ''app.py'' \<noteq> None" for test
    by simp
  show ?thesis
    unfolding sandbox_run_def ex_screened before sum.case option.case Let_def
    by (simp add: ex_verdict kept)
qed

theorem sandbox_verdicts_sound_witness:
  "\<exists>r. sr_public_passed r \<and> tests_performed ex_executor ex_sandbox ex_case ex_patched 0 r 2"
proof -
  obtain r where r: "sandbox_run ex_executor ex_sandbox ex_case ex_patched 0 = Some (Inr r, 2)" "sr_public_passed r"
    using ex_sandbox_run by blast
  from sandbox_verdicts_sound [OF r(1)] r(2) show ?thesis by (auto simp: ex_screened)
qed

end
