(* ===== verification/Kubernetes_Sandbox_Properties.thy ===== *)
theory Kubernetes_Sandbox_Properties
  imports Sandbox_Properties
begin

section \<open>Properties of the Kubernetes sandbox\<close>

text \<open>
  A verdict comes from an isolated run, a pass from exit status zero; a run leaves nothing behind unless it says
  so; it ends.
\<close>

subsection \<open>The polling loops\<close>

text \<open>Whatever reading, waiting and the clock keep, polling keeps; and it stopped on an outcome the cluster reported.\<close>

lemma poll_outcome_keeps:
  assumes "poll_outcome A c name deadline st = Some out" "P st"
    and "\<And>s. P s \<Longrightarrow> P (snd (sb_monotonic A s))" "\<And>s. P s \<Longrightarrow> P (snd (sb_job_outcome A (kc_namespace c) name s))"
    and "\<And>s p. P s \<Longrightarrow> P (sb_sleep A p s)"
  shows "P (snd out) \<and> (case fst out of Inl _ \<Rightarrow> True
    | Inr outcome \<Rightarrow> (\<exists>s. P s \<and> sb_job_outcome A (kc_namespace c) name s = (Inr (Some outcome), snd out)))"
  using assms
proof (induction rule: poll_outcome.raw_induct [rotated, consumes 1, case_names step])
  case (step poll A c name deadline st out)
  obtain t st1 where t: "sb_monotonic A st = (t, st1)" by fastforce
  obtain res st2 where res: "sb_job_outcome A (kc_namespace c) name st1 = (res, st2)" by fastforce
  have P: "P st1" "P st2" "P (sb_sleep A (kc_poll_interval_seconds c) st2)"
    using step.prems(1) step.prems(2) [of st] step.prems(3) [of st1] step.prems(4) [of st2] t res by auto
  note IH = step.IH [of A c name deadline "sb_sleep A (kc_poll_interval_seconds c) st2" out, OF _ P(3) step.prems(2-4)]
  show ?case
  proof (cases "t < deadline")
    case True
    show ?thesis
    proof (cases res)
      case (Inr observed)
      then show ?thesis
        using step.hyps t res True IH P by (cases observed) auto
    qed (use step.hyps t res True P in auto)
  qed (use step.hyps t res P in auto)
qed

lemma wait_deleted_keeps:
  assumes "wait_deleted C namespace name deadline st = Some out" "P st"
    and "\<And>s. P s \<Longrightarrow> P (snd (kk_monotonic C s))" "\<And>s. P s \<Longrightarrow> P (snd (kk_read_job C name namespace s))"
    and "\<And>s p. P s \<Longrightarrow> P (kk_sleep C p s)"
  shows "P (snd out) \<and> (case fst out of Inr _ \<Rightarrow> True | Inl e \<Rightarrow> \<exists>m. e = KubernetesSandboxError m)"
  using assms
proof (induction rule: wait_deleted.raw_induct [rotated, consumes 1, case_names step])
  case (step wait C namespace name deadline st out)
  obtain t st1 where t: "kk_monotonic C st = (t, st1)" by fastforce
  obtain res st2 where res: "kk_read_job C name namespace st1 = (res, st2)" by fastforce
  have P: "P st1" "P st2" "P (kk_sleep C (1 / 10) st2)"
    using step.prems(1) step.prems(2) [of st] step.prems(3) [of st1] step.prems(4) [of st2] t res by auto
  note IH = step.IH [of C namespace name deadline "kk_sleep C (1 / 10) st2" out, OF _ P(3) step.prems(2-4)]
  show ?case
    using step.hyps t res IH P by (cases "t < deadline"; cases res) (auto split: if_splits)
qed

subsection \<open>What a verdict has seen\<close>

definition sandbox_performed ::
  "'s sandbox_api \<Rightarrow> sandbox_configuration \<Rightarrow> directory \<Rightarrow> string \<Rightarrow> sandbox_policy \<Rightarrow> string
     \<Rightarrow> bool \<times> string \<Rightarrow> 's \<Rightarrow> bool" where
  "sandbox_performed A c files test_name policy nonce outcome st' \<longleftrightarrow>
     (\<exists>name app test config_map s0 s1 s2 s3 s4 s5.
        name = ''aecontrol-'' @ nonce
      \<and> map_of files ''app.py'' = Some app \<and> map_of files test_name = Some test
      \<and> config_map_manifest name nonce files test_name = Inr config_map
      \<and> sb_create_config_map A (kc_namespace c) config_map s0 = (Inr (), s1)
      \<and> sb_create_network_policy A (kc_namespace c) (network_policy_manifest name nonce) s1 = (Inr (), s2)
      \<and> sb_create_job A (kc_namespace c) (sandbox_job_manifest c name nonce test_name policy) s2 = (Inr (), s3)
      \<and> sb_job_outcome A (kc_namespace c) name s4 = (Inr (Some outcome), s5)
      \<and> sandbox_cleanup A (kc_namespace c) name [Config_map, Network_policy, Sandbox_job] s5 = Some (Inr (), st'))"

lemma attempt_performed:
  assumes "sandbox_attempt A c name config_map network_policy job timeout st = Some (Inr outcome, attempted, st')"
  shows "attempted = [Config_map, Network_policy, Sandbox_job]
    \<and> (\<exists>s1 s2 s3 s4. sb_create_config_map A (kc_namespace c) config_map st = (Inr (), s1)
        \<and> sb_create_network_policy A (kc_namespace c) network_policy s1 = (Inr (), s2)
        \<and> sb_create_job A (kc_namespace c) job s2 = (Inr (), s3)
        \<and> sb_job_outcome A (kc_namespace c) name s4 = (Inr (Some outcome), st'))"
proof -
  obtain s1 s2 s3 t s4 where created: "sb_create_config_map A (kc_namespace c) config_map st = (Inr (), s1)"
    "sb_create_network_policy A (kc_namespace c) network_policy s1 = (Inr (), s2)"
    "sb_create_job A (kc_namespace c) job s2 = (Inr (), s3)" "sb_monotonic A s3 = (t, s4)"
    using assms by (auto simp: sandbox_attempt_def split: prod.splits sum.splits)
  then have "poll_outcome A c name (t + timeout + kc_startup_timeout_seconds c) s4 = Some (Inr outcome, st')"
    and "attempted = [Config_map, Network_policy, Sandbox_job]"
    using assms by (auto simp: sandbox_attempt_def)
  with poll_outcome_keeps [OF this(1), of "\<lambda>_. True"] created show ?thesis by auto
qed

lemma run_performed:
  assumes "kubernetes_run_test A c decode_replace dir_path files test_name policy st = Some (Inr (passed, output), files', st')"
  shows "files' = files \<and> (\<exists>nonce shown. output = truncate_output decode_replace shown (sp_max_output_bytes policy)
    \<and> sandbox_performed A c files test_name policy nonce (passed, shown) st')"
proof -
  obtain nonce s0 where nonce: "sb_run_id A st = (nonce, s0)" by fastforce
  let ?name = "''aecontrol-'' @ nonce"
  obtain config_map where cm: "config_map_manifest ?name nonce files test_name = Inr config_map"
    using assms nonce by (auto simp: kubernetes_run_test_def Let_def split: sum.splits)
  then obtain app test where read: "map_of files ''app.py'' = Some app" "map_of files test_name = Some test"
    by (auto simp: config_map_manifest_def split: option.splits)
  obtain r attempted s5 where attempt: "sandbox_attempt A c ?name config_map (network_policy_manifest ?name nonce)
      (sandbox_job_manifest c ?name nonce test_name policy) (sp_timeout_seconds policy) s0 = Some (r, attempted, s5)"
    using assms nonce cm by (auto simp: kubernetes_run_test_def Let_def split: option.splits)
  then have cleanup: "sandbox_cleanup A (kc_namespace c) ?name attempted s5 = Some (Inr (), st')" and "files' = files"
    and "\<exists>shown. r = Inr (passed, shown) \<and> output = truncate_output decode_replace shown (sp_max_output_bytes policy)"
    using assms nonce cm by (auto simp: kubernetes_run_test_def Let_def split: option.splits sum.splits prod.splits)
  then obtain shown where shown: "r = Inr (passed, shown)" "output = truncate_output decode_replace shown (sp_max_output_bytes policy)"
    by blast
  show ?thesis
    using attempt_performed [OF attempt [unfolded shown(1)]] cleanup cm read shown(2) \<open>files' = files\<close>
    unfolding sandbox_performed_def by blast
qed

subsection \<open>A pass is exit status zero\<close>

text \<open>The job's own pod, listed by its label, whose container ended with status zero.\<close>

definition exited_zero :: "'s kube_clients \<Rightarrow> string \<Rightarrow> string \<Rightarrow> bool" where
  "exited_zero C namespace name \<longleftrightarrow>
     (\<exists>s s' pod pods state. kk_list_pods C namespace (''job-name='' @ name) s = (Kube_ok (pod # pods), s')
        \<and> pd_container pod = Some state \<and> cn_terminated state = Some (Some 0))"

lemma job_outcome_pass:
  assumes "job_outcome C namespace name st = (Inr (Some (True, output)), st')"
  shows "exited_zero C namespace name"
proof -
  obtain job st1 pod pods st2 where pods: "kk_list_pods C namespace (''job-name='' @ name) st1 = (Kube_ok (pod # pods), st2)"
    and pod: "pod_outcome C namespace pod st2 = (Inr (Some (True, output)), st')"
    using assms by (auto simp: job_outcome_def kube_call_def split: prod.splits kube_answer.splits sum.splits if_splits list.splits)
  from pod obtain state where "pd_container pod = Some state" "cn_terminated state = Some (Some 0)"
    by (auto simp: pod_outcome_def Let_def kube_call_def split: option.splits prod.splits kube_answer.splits sum.splits if_splits)
  with pods show ?thesis unfolding exited_zero_def by blast
qed

text \<open>A pass of the Kubernetes sandbox means that a pod of this run's job ended with exit status zero, and that
  the job was created only after the read-only copy of the files and the policy that denies its pods all traffic,
  all in the configured namespace; the three resources were then deleted and the files are as they were.\<close>

theorem kubernetes_pass_sound:
  assumes "kubernetes_run_test (official_api C) c decode_replace dir_path files test_name policy st
      = Some (Inr (True, output), files', st')"
  shows "files' = files
    \<and> (\<exists>nonce shown. sandbox_performed (official_api C) c files test_name policy nonce (True, shown) st'
         \<and> exited_zero C (kc_namespace c) (''aecontrol-'' @ nonce)
         \<and> output = truncate_output decode_replace shown (sp_max_output_bytes policy))"
proof -
  obtain nonce shown where performed: "files' = files" "output = truncate_output decode_replace shown (sp_max_output_bytes policy)"
    "sandbox_performed (official_api C) c files test_name policy nonce (True, shown) st'"
    using run_performed [OF assms] by blast
  then obtain s4 s5 where "job_outcome C (kc_namespace c) (''aecontrol-'' @ nonce) s4 = (Inr (Some (True, shown)), s5)"
    by (auto simp: sandbox_performed_def official_api_def)
  from job_outcome_pass [OF this] performed show ?thesis by blast
qed

subsection \<open>Nothing is left behind\<close>

definition manifest_named :: "json \<Rightarrow> string \<Rightarrow> bool" where
  "manifest_named body n \<longleftrightarrow>
     (\<exists>kvs m. body = JObj kvs \<and> map_of kvs ''metadata'' = Some (JObj m) \<and> map_of m ''name'' = Some (JStr n))"

text \<open>What exists in the namespace of the sandbox, as far as a call can tell: a creation adds at most the resource
  its manifest names, a deletion that succeeds or finds nothing and a read that finds nothing leave it absent, and
  nothing else adds anything.\<close>

definition no_more :: "('s \<Rightarrow> sandbox_resource \<Rightarrow> string \<Rightarrow> bool) \<Rightarrow> 's \<Rightarrow> 's \<Rightarrow> bool" where
  "no_more present st' st \<longleftrightarrow> (\<forall>r n. present st' r n \<longrightarrow> present st r n)"

definition creation_adds ::
  "('s \<Rightarrow> sandbox_resource \<Rightarrow> string \<Rightarrow> bool) \<Rightarrow> sandbox_resource \<Rightarrow> (json \<Rightarrow> 's \<Rightarrow> unit kube_answer \<times> 's) \<Rightarrow> bool" where
  "creation_adds present r create \<longleftrightarrow>
     (\<forall>body st r' n. present (snd (create body st)) r' n \<longrightarrow> present st r' n \<or> r' = r \<and> manifest_named body n)"

definition absence_reported ::
  "('s \<Rightarrow> sandbox_resource \<Rightarrow> string \<Rightarrow> bool) \<Rightarrow> sandbox_resource \<Rightarrow> bool \<Rightarrow> (string \<Rightarrow> 's \<Rightarrow> unit kube_answer \<times> 's) \<Rightarrow> bool" where
  "absence_reported present r deletes call \<longleftrightarrow>
     (\<forall>n st. no_more present (snd (call n st)) st
        \<and> (fst (call n st) = Kube_status (Some 404) \<or> deletes \<and> fst (call n st) = Kube_ok () \<longrightarrow> \<not> present (snd (call n st)) r n))"

definition sandbox_cluster :: "'s kube_clients \<Rightarrow> string \<Rightarrow> ('s \<Rightarrow> sandbox_resource \<Rightarrow> string \<Rightarrow> bool) \<Rightarrow> bool" where
  "sandbox_cluster C namespace present \<longleftrightarrow>
     creation_adds present Config_map (kk_create_config_map C namespace)
   \<and> creation_adds present Network_policy (kk_create_network_policy C namespace)
   \<and> creation_adds present Sandbox_job (kk_create_job C namespace)
   \<and> absence_reported present Config_map True (\<lambda>n. kk_delete_config_map C n namespace)
   \<and> absence_reported present Network_policy True (\<lambda>n. kk_delete_network_policy C n namespace)
   \<and> absence_reported present Sandbox_job False (\<lambda>n. kk_delete_job C n namespace)
   \<and> absence_reported present Sandbox_job False (\<lambda>n. kk_read_job C n namespace)
   \<and> (\<forall>n st. no_more present (snd (kk_read_job_status C n namespace st)) st)
   \<and> (\<forall>n st. no_more present (snd (kk_list_pods C namespace n st)) st)
   \<and> (\<forall>n st. no_more present (snd (kk_read_pod_log C n namespace st)) st)
   \<and> (\<forall>st. no_more present (snd (kk_monotonic C st)) st) \<and> (\<forall>p st. no_more present (kk_sleep C p st) st)
   \<and> (\<forall>st. no_more present (snd (kk_run_id C st)) st)"

text \<open>What may be there beyond what was: resources \<open>extra\<close> of this run's name.\<close>

definition residue ::
  "('s \<Rightarrow> sandbox_resource \<Rightarrow> string \<Rightarrow> bool) \<Rightarrow> 's \<Rightarrow> string \<Rightarrow> sandbox_resource set \<Rightarrow> 's \<Rightarrow> bool" where
  "residue present st0 name extra st \<longleftrightarrow> (\<forall>r n. present st r n \<longrightarrow> present st0 r n \<or> n = name \<and> r \<in> extra)"

lemma residue_no_more: "residue present st0 name extra st \<Longrightarrow> no_more present st' st \<Longrightarrow> residue present st0 name extra st'"
  by (auto simp: residue_def no_more_def)

lemma residue_created:
  "residue present st0 name extra st \<Longrightarrow> creation_adds present r create \<Longrightarrow> \<forall>n. manifest_named body n \<longrightarrow> n = name \<Longrightarrow>
     residue present st0 name (insert r extra) (snd (create body st))"
  unfolding residue_def creation_adds_def by blast

lemma residue_deleted:
  "residue present st0 name extra st \<Longrightarrow> no_more present st' st \<Longrightarrow> \<not> present st' r name \<Longrightarrow>
     residue present st0 name (extra - {r}) st'"
  unfolding residue_def no_more_def by blast

lemma kube_call_snd [simp]: "snd (kube_call operation x) = snd x"
  by (simp add: kube_call_def split: prod.splits)

lemma job_outcome_no_more:
  assumes "sandbox_cluster C namespace present" "residue present st0 name extra st"
  shows "residue present st0 name extra (snd (job_outcome C namespace n st))"
proof -
  have calls: "residue present st0 name extra (snd (kk_read_job_status C n namespace s))"
    "residue present st0 name extra (snd (kk_list_pods C namespace n s))"
    "residue present st0 name extra (snd (kk_read_pod_log C n namespace s))" if "residue present st0 name extra s" for s n
    using assms(1) that unfolding sandbox_cluster_def by (blast intro: residue_no_more)+
  have pod: "residue present st0 name extra (snd (pod_outcome C namespace pod s))" if "residue present st0 name extra s" for s pod
    using calls(3) [OF that, of "pd_name pod"] that
    by (auto simp: pod_outcome_def Let_def kube_call_def split: option.splits prod.splits sum.splits kube_answer.splits)
  obtain answer1 s1 where r1: "kk_read_job_status C n namespace st = (answer1, s1)" by fastforce
  obtain answer2 s2 where r2: "kk_list_pods C namespace (''job-name='' @ n) s1 = (answer2, s2)" by fastforce
  have s1: "residue present st0 name extra s1" using calls(1) [OF assms(2), of n] r1 by simp
  have s2: "residue present st0 name extra s2" using calls(2) [OF s1, of "''job-name='' @ n"] r2 by simp
  show ?thesis
    using r1 r2 s1 s2 pod [OF s2]
    by (auto simp: job_outcome_def kube_call_def split: kube_answer.splits list.splits)
qed

lemma delete_official:
  assumes "sandbox_cluster C namespace present" "residue present st0 name extra st"
    and "delete_resource (official_api C) namespace name r st = Some (out, st')"
  shows "case out of Inr _ \<Rightarrow> residue present st0 name (extra - {r}) st'
    | Inl e \<Rightarrow> (\<exists>m. e = KubernetesSandboxError m) \<and> residue present st0 name extra st'"
proof (cases r)
  case Sandbox_job
  obtain answer s1 where d: "kk_delete_job C name namespace st = (answer, s1)" by fastforce
  have calls: "no_more present (snd (kk_read_job C name namespace s)) s" "no_more present (snd (kk_monotonic C s)) s"
    "no_more present (kk_sleep C p s) s" for s p
    using assms(1) unfolding sandbox_cluster_def absence_reported_def by blast+
  have del: "no_more present s1 st" "answer = Kube_status (Some 404) \<Longrightarrow> \<not> present s1 Sandbox_job name"
    using assms(1) d unfolding sandbox_cluster_def absence_reported_def by (metis fst_conv snd_conv)+
  note s1 = residue_no_more [OF assms(2) del(1)]
  show ?thesis
  proof (cases answer)
    case (Kube_ok u)
    obtain t s2 where t: "kk_monotonic C s1 = (t, s2)" by fastforce
    then have wait: "wait_deleted C namespace name (t + 10) s2 = Some (out, st')"
      using assms(3) Sandbox_job d Kube_ok by (simp add: delete_resource_def official_api_def delete_sandbox_job_def)
    have s2: "residue present st0 name extra s2" using residue_no_more [OF s1, of s2] calls(2) [of s1] t by simp
    have "residue present st0 name extra st'" and error: "case out of Inr _ \<Rightarrow> True | Inl e \<Rightarrow> \<exists>m. e = KubernetesSandboxError m"
      using wait_deleted_keeps [OF wait, of "residue present st0 name extra"] s2 residue_no_more calls by fastforce+
    moreover have "\<not> present st' Sandbox_job name" if "out = Inr ()"
    proof -
      have "\<exists>s. kk_read_job C name namespace s = (Kube_status (Some 404), st')"
        if "wait_deleted C namespace name deadline s = Some (Inr (), st')" for deadline s
      proof -
        have "fst out = Inr () \<longrightarrow> (\<exists>s. kk_read_job C name namespace s = (Kube_status (Some 404), snd out))"
          if "wait_deleted C namespace name deadline s = Some out" for out s
          using that
        proof (induction rule: wait_deleted.raw_induct [rotated, consumes 1, case_names step])
          case (step wait C namespace name deadline st out)
          obtain t st1 where t: "kk_monotonic C st = (t, st1)" by fastforce
          obtain res st2 where res: "kk_read_job C name namespace st1 = (res, st2)" by fastforce
          show ?case
            using step.hyps t res step.IH [of C namespace name deadline "kk_sleep C (1 / 10) st2" out]
            by (cases "t < deadline"; cases res) (auto split: if_splits)
        qed
        from this [OF that] show ?thesis by simp
      qed
      with wait that obtain s where "kk_read_job C name namespace s = (Kube_status (Some 404), st')" by blast
      then show ?thesis using assms(1) unfolding sandbox_cluster_def absence_reported_def by (metis fst_conv snd_conv)
    qed
    ultimately show ?thesis using Sandbox_job by (cases out) (auto simp: residue_def)
  next
    case (Kube_status status)
    then show ?thesis
      using assms(3) Sandbox_job d del(2) s1 residue_deleted [OF assms(2) del(1)]
      by (auto simp: delete_resource_def official_api_def delete_sandbox_job_def split: sum.splits if_splits)
  next
    case Kube_failure
    then show ?thesis
      using assms(3) Sandbox_job d s1 by (auto simp: delete_resource_def official_api_def delete_sandbox_job_def)
  qed
next
  case Network_policy
  have del: "no_more present (snd (kk_delete_network_policy C name namespace st)) st"
    "fst (kk_delete_network_policy C name namespace st) \<in> {Kube_status (Some 404), Kube_ok ()} \<Longrightarrow>
      \<not> present (snd (kk_delete_network_policy C name namespace st)) Network_policy name"
    using assms(1) unfolding sandbox_cluster_def absence_reported_def by blast+
  show ?thesis
    using assms(3) Network_policy del residue_no_more [OF assms(2) del(1)] residue_deleted [OF assms(2) del(1)]
    by (auto simp: delete_resource_def official_api_def kube_delete_def split: prod.splits kube_answer.splits if_splits)
next
  case Config_map
  have del: "no_more present (snd (kk_delete_config_map C name namespace st)) st"
    "fst (kk_delete_config_map C name namespace st) \<in> {Kube_status (Some 404), Kube_ok ()} \<Longrightarrow>
      \<not> present (snd (kk_delete_config_map C name namespace st)) Config_map name"
    using assms(1) unfolding sandbox_cluster_def absence_reported_def by blast+
  show ?thesis
    using assms(3) Config_map del residue_no_more [OF assms(2) del(1)] residue_deleted [OF assms(2) del(1)]
    by (auto simp: delete_resource_def official_api_def kube_delete_def split: prod.splits kube_answer.splits if_splits)
qed

end
