(* ===== verification/Kubernetes_Cleanup_Properties.thy ===== *)
theory Kubernetes_Cleanup_Properties
  imports Kubernetes_Sandbox_Properties
begin

section \<open>A run in the Kubernetes sandbox cleans up and ends\<close>

text \<open>
  A run whose clean-up did not report a failure leaves the namespace as it found it; and a run ends once the clock
  advances while it sleeps.
\<close>

subsection \<open>Nothing is left behind\<close>

lemma residue_mono: "residue present st0 name extra st \<Longrightarrow> extra \<subseteq> extra' \<Longrightarrow> residue present st0 name extra' st"
  unfolding residue_def by blast

lemma cleanup_official:
  assumes "sandbox_cluster C namespace present" "residue present st0 name extra st"
    and "cleanup_each (official_api C) namespace name resources failed st = Some (out, st')"
  shows "case out of Inr _ \<Rightarrow> residue present st0 name (extra - set resources) st'
    | Inl e \<Rightarrow> e = KubernetesSandboxError ''Kubernetes sandbox cleanup failed''"
  using assms(2,3)
proof (induction resources arbitrary: extra failed st)
  case (Cons r resources)
  obtain out1 st1 where del: "delete_resource (official_api C) namespace name r st = Some (out1, st1)"
    using Cons.prems(2) by (auto split: option.splits)
  note after = delete_official [OF assms(1) Cons.prems(1) del]
  show ?case
  proof (cases out1)
    case (Inr u)
    then show ?thesis using Cons.IH [of "extra - {r}" st1 failed] Cons.prems(2) del after
      by (auto simp: Diff_insert2 [symmetric] split: sum.splits)
  next
    case (Inl e)
    obtain m where e: "e = KubernetesSandboxError m" and kept: "residue present st0 name extra st1" using after Inl by auto
    have rest: "cleanup_each (official_api C) namespace name resources True st1 = Some (out, st')"
      using Cons.prems(2) del Inl e by simp
    moreover have "\<exists>x. out = Inl x"
    proof -
      have "\<exists>x. out = Inl x" if "cleanup_each A n m rs True s = Some (out, s')" for A :: "'a sandbox_api" and n m rs s s'
        using that
      proof (induction rs arbitrary: s)
        case (Cons r rs)
        then show ?case by (auto split: option.splits prod.splits sum.splits if_splits)
      qed auto
      from this [OF rest] show ?thesis .
    qed
    ultimately show ?thesis using Cons.IH [OF kept rest] by auto
  qed
qed auto

lemma manifest_named_metadata [simp]:
  "manifest_named (JObj ((a, b) # (c, d) # (''metadata'', sandbox_metadata name nonce) # rest)) n \<longleftrightarrow> n = name"
  if "a \<noteq> ''metadata''" "c \<noteq> ''metadata''"
  using that by (auto simp: manifest_named_def sandbox_metadata_def)

lemma manifests_named:
  "config_map_manifest name nonce files test_name = Inr body \<Longrightarrow> \<forall>n. manifest_named body n \<longrightarrow> n = name"
  "\<forall>n. manifest_named (network_policy_manifest name nonce) n \<longrightarrow> n = name"
  "\<forall>n. manifest_named (sandbox_job_manifest c name nonce test_name policy) n \<longrightarrow> n = name"
  by (auto simp: config_map_manifest_def network_policy_manifest_def sandbox_job_manifest_def split: option.splits)

lemma attempt_residue:
  assumes "sandbox_cluster C (kc_namespace c) present" "residue present st0 name {} st"
    and "sandbox_attempt (official_api C) c name config_map network_policy job timeout st = Some (r, attempted, st')"
    and "\<forall>n. manifest_named config_map n \<longrightarrow> n = name" "\<forall>n. manifest_named network_policy n \<longrightarrow> n = name"
    and "\<forall>n. manifest_named job n \<longrightarrow> n = name"
  shows "residue present st0 name (set attempted) st'"
proof -
  let ?ns = "kc_namespace c"
  have adds: "creation_adds present Config_map (kk_create_config_map C ?ns)"
    "creation_adds present Network_policy (kk_create_network_policy C ?ns)"
    "creation_adds present Sandbox_job (kk_create_job C ?ns)"
    using assms(1) unfolding sandbox_cluster_def by blast+
  have quiet: "no_more present (snd (kk_monotonic C s)) s" "no_more present (kk_sleep C p s) s" for s p
    using assms(1) unfolding sandbox_cluster_def by blast+
  obtain o1 s1 where c1: "kk_create_config_map C ?ns config_map st = (o1, s1)" by fastforce
  obtain o2 s2 where c2: "kk_create_network_policy C ?ns network_policy s1 = (o2, s2)" by fastforce
  obtain o3 s3 where c3: "kk_create_job C ?ns job s2 = (o3, s3)" by fastforce
  obtain t s4 where t: "kk_monotonic C s3 = (t, s4)" by fastforce
  have r1: "residue present st0 name {Config_map} s1"
    using residue_created [OF assms(2) adds(1) assms(4)] c1 by simp
  have r2: "residue present st0 name {Config_map, Network_policy} s2"
    using residue_created [OF r1 adds(2) assms(5)] c2 by (simp add: insert_commute)
  have r3: "residue present st0 name {Config_map, Network_policy, Sandbox_job} s3"
    using residue_created [OF r2 adds(3) assms(6)] c3 by (simp add: insert_commute)
  have r4: "residue present st0 name {Config_map, Network_policy, Sandbox_job} s4"
    using residue_no_more [OF r3, of s4] quiet(1) [of s3] t by simp
  note keep = poll_outcome_keeps [where A = "official_api C" and P = "residue present st0 name {Config_map, Network_policy, Sandbox_job}"]
  have polled: "residue present st0 name {Config_map, Network_policy, Sandbox_job} s5"
    if "poll_outcome (official_api C) c name deadline s4 = Some (r, s5)" for deadline s5
    using keep [OF that r4 _ _ _, THEN conjunct1] residue_no_more [OF _ quiet(1)] residue_no_more [OF _ quiet(2)]
      job_outcome_no_more [OF assms(1)] by (simp add: official_api_def)
  show ?thesis
    using assms(3) c1 c2 c3 t r1 r2 r3 polled
    by (cases o1; cases o2; cases o3)
      (auto simp: sandbox_attempt_def kube_call_def official_api_def)
qed

lemma kubernetes_run_unfold:
  assumes "kubernetes_run_test A c decode_replace dir_path files test_name policy st = Some (r, files', st')"
    and "sb_run_id A st = (nonce, s0)" "config_map_manifest (''aecontrol-'' @ nonce) nonce files test_name = Inr config_map"
  shows "\<exists>r1 attempted s1 out.
    sandbox_attempt A c (''aecontrol-'' @ nonce) config_map (network_policy_manifest (''aecontrol-'' @ nonce) nonce)
        (sandbox_job_manifest c (''aecontrol-'' @ nonce) nonce test_name policy) (sp_timeout_seconds policy) s0
       = Some (r1, attempted, s1)
  \<and> sandbox_cleanup A (kc_namespace c) (''aecontrol-'' @ nonce) attempted s1 = Some (out, st')
  \<and> (\<forall>e. out = Inl e \<longrightarrow> r = Inl e)"
proof -
  obtain r1 attempted s1 where attempt: "sandbox_attempt A c (''aecontrol-'' @ nonce) config_map
      (network_policy_manifest (''aecontrol-'' @ nonce) nonce)
      (sandbox_job_manifest c (''aecontrol-'' @ nonce) nonce test_name policy) (sp_timeout_seconds policy) s0
        = Some (r1, attempted, s1)"
    using assms unfolding kubernetes_run_test_def Let_def by (simp split: option.splits prod.splits)
  obtain out s2 where "sandbox_cleanup A (kc_namespace c) (''aecontrol-'' @ nonce) attempted s1 = Some (out, s2)"
    using assms attempt unfolding kubernetes_run_test_def Let_def by (simp split: option.splits prod.splits)
  with attempt assms show ?thesis unfolding kubernetes_run_test_def Let_def by (cases out) auto
qed

text \<open>C32. A run in the Kubernetes sandbox leaves nothing behind without saying so: whatever happened in it, an error
  of the cluster, a failed creation, a run past its deadline, once it returns anything but a failed clean-up, every
  resource of the namespace was there before.\<close>

theorem kubernetes_run_leaves_nothing:
  assumes "sandbox_cluster C (kc_namespace c) present"
    and "kubernetes_run_test (official_api C) c decode_replace dir_path files test_name policy st = Some (r, files', st')"
    and "r \<noteq> Inl (KubernetesSandboxError ''Kubernetes sandbox cleanup failed'')"
  shows "no_more present st' st"
proof -
  obtain nonce s0 where nonce: "kk_run_id C st = (nonce, s0)" by fastforce
  let ?name = "''aecontrol-'' @ nonce"
  have "no_more present s0 st" using assms(1) nonce unfolding sandbox_cluster_def by (metis snd_conv)
  then have s0: "residue present st ?name {} s0" by (auto simp: residue_def no_more_def)
  have "residue present st ?name {} st'"
  proof (cases "config_map_manifest ?name nonce files test_name")
    case (Inl e)
    then show ?thesis using assms(2) nonce s0 by (simp add: kubernetes_run_test_def official_api_def)
  next
    case (Inr config_map)
    have id: "sb_run_id (official_api C) st = (nonce, s0)" using nonce by (simp add: official_api_def)
    obtain r1 attempted s1 out where attempt: "sandbox_attempt (official_api C) c ?name config_map
        (network_policy_manifest ?name nonce) (sandbox_job_manifest c ?name nonce test_name policy) (sp_timeout_seconds policy) s0
          = Some (r1, attempted, s1)"
      and cleanup: "sandbox_cleanup (official_api C) (kc_namespace c) ?name attempted s1 = Some (out, st')"
      and raised: "\<forall>e. out = Inl e \<longrightarrow> r = Inl e"
      using kubernetes_run_unfold [OF assms(2) id Inr] by blast
    have s1: "residue present st ?name (set attempted) s1"
      by (rule attempt_residue [OF assms(1) s0 attempt]) (rule manifests_named(1) [OF Inr] manifests_named(2,3))+
    note cleaned = cleanup_official [OF assms(1) s1 cleanup [unfolded sandbox_cleanup_def]]
    show ?thesis
    proof (cases out)
      case (Inl e)
      then show ?thesis using assms(3) raised cleaned by simp
    next
      case (Inr u)
      have "r \<in> {Sandbox_job, Network_policy, Config_map}" for r by (cases r) simp_all
      then have "set attempted - set (filter (\<lambda>r. r \<in> set attempted) [Sandbox_job, Network_policy, Config_map]) = {}"
        unfolding set_filter list.set by blast
      then have "residue present st ?name {} st'" using cleaned Inr by (simp only: sum.case)
      then show ?thesis .
    qed
  qed
  then show ?thesis by (auto simp: residue_def no_more_def)
qed

subsection \<open>A run ends\<close>

text \<open>The clock reads the state without changing it, no call turns it back, and sleeping advances it.\<close>

definition cluster_clock :: "'s kube_clients \<Rightarrow> ('s \<Rightarrow> rat) \<Rightarrow> bool" where
  "cluster_clock C time \<longleftrightarrow>
     (\<forall>st. kk_monotonic C st = (time st, st))
   \<and> (\<forall>name namespace st. time st \<le> time (snd (kk_read_job_status C name namespace st)))
   \<and> (\<forall>namespace selector st. time st \<le> time (snd (kk_list_pods C namespace selector st)))
   \<and> (\<forall>name namespace st. time st \<le> time (snd (kk_read_pod_log C name namespace st)))
   \<and> (\<forall>name namespace st. time st \<le> time (snd (kk_read_job C name namespace st)))
   \<and> (\<forall>p st. time st + p \<le> time (kk_sleep C p st))"

lemma job_outcome_clock:
  assumes "cluster_clock C time"
  shows "time st \<le> time (snd (job_outcome C namespace name st))"
proof -
  have calls: "time s \<le> time (snd (kk_read_job_status C n m s))" "time s \<le> time (snd (kk_list_pods C n m s))"
    "time s \<le> time (snd (kk_read_pod_log C n m s))" for n m s
    using assms unfolding cluster_clock_def by blast+
  have pod: "time s \<le> time (snd (pod_outcome C namespace pod s))" for pod s
    using calls(3) [of s "pd_name pod" namespace]
    by (auto simp: pod_outcome_def Let_def kube_call_def split: option.splits prod.splits sum.splits kube_answer.splits)
  obtain answer1 s1 where r1: "kk_read_job_status C name namespace st = (answer1, s1)" by fastforce
  obtain answer2 s2 where r2: "kk_list_pods C namespace (''job-name='' @ name) s1 = (answer2, s2)" by fastforce
  have "time st \<le> time s1" "time s1 \<le> time s2"
    using calls(1) [of st name namespace] calls(2) [of s1 namespace "''job-name='' @ name"] r1 r2 by simp_all
  then show ?thesis
    using r1 r2 pod [of s2] order_trans [OF _ pod [of s2]]
    by (auto simp: job_outcome_def kube_call_def split: kube_answer.splits list.splits)
qed

lemma poll_outcome_ends:
  assumes "cluster_clock C time" "0 < kc_poll_interval_seconds c"
  shows "\<exists>out. poll_outcome (official_api C) c name deadline st = Some out"
proof (induction "nat \<lceil>(deadline - time st) / kc_poll_interval_seconds c\<rceil>" arbitrary: st rule: less_induct)
  case less
  have clock: "sb_monotonic (official_api C) st = (time st, st)"
    using assms(1) by (simp add: cluster_clock_def official_api_def)
  obtain r st2 where r: "sb_job_outcome (official_api C) (kc_namespace c) name st = (r, st2)" by fastforce
  show ?case
  proof (cases "time st < deadline \<and> r = Inr None")
    case False
    then show ?thesis using clock r by (subst poll_outcome.simps) (auto split: sum.splits option.splits)
  next
    case True
    let ?next = "sb_sleep (official_api C) (kc_poll_interval_seconds c) st2"
    have "time st \<le> time st2" using job_outcome_clock [OF assms(1), of st "kc_namespace c" name] r by (simp add: official_api_def)
    moreover have "time st2 + kc_poll_interval_seconds c \<le> time ?next"
      using assms(1) by (simp add: cluster_clock_def official_api_def)
    ultimately have "nat \<lceil>(deadline - time ?next) / kc_poll_interval_seconds c\<rceil> < nat \<lceil>(deadline - time st) / kc_poll_interval_seconds c\<rceil>"
      using True assms(2) by (intro deadline_rounds_less) simp_all
    from less [OF this] show ?thesis using True clock r by (subst poll_outcome.simps) simp
  qed
qed

lemma wait_deleted_ends:
  assumes "cluster_clock C time"
  shows "\<exists>out. wait_deleted C namespace name deadline st = Some out"
proof (induction "nat \<lceil>(deadline - time st) / (1 / 10)\<rceil>" arbitrary: st rule: less_induct)
  case less
  have clock: "kk_monotonic C st = (time st, st)" using assms by (simp add: cluster_clock_def)
  obtain r st2 where r: "kk_read_job C name namespace st = (r, st2)" by fastforce
  show ?case
  proof (cases "time st < deadline \<and> r = Kube_ok ()")
    case False
    then show ?thesis using clock r by (subst wait_deleted.simps) (auto split: kube_answer.splits)
  next
    case True
    have "time st \<le> time st2" "time st2 + 1 / 10 \<le> time (kk_sleep C (1 / 10) st2)"
      using assms r unfolding cluster_clock_def by (metis snd_conv)+
    then have "nat \<lceil>(deadline - time (kk_sleep C (1 / 10) st2)) / (1 / 10)\<rceil> < nat \<lceil>(deadline - time st) / (1 / 10)\<rceil>"
      using True by (intro deadline_rounds_less) simp_all
    from less [OF this] show ?thesis using True clock r by (subst wait_deleted.simps) simp
  qed
qed

lemma cleanup_ends:
  assumes "cluster_clock C time"
  shows "\<exists>out. cleanup_each (official_api C) namespace name resources failed st = Some out"
proof (induction resources arbitrary: failed st)
  case (Cons r resources)
  have job: "\<exists>out. delete_sandbox_job C namespace name st = Some out"
    using wait_deleted_ends [OF assms] by (auto simp: delete_sandbox_job_def split: prod.splits kube_answer.splits)
  have "\<exists>out. delete_resource (official_api C) namespace name r st = Some out"
    using job by (cases r) (simp_all add: delete_resource_def official_api_def)
  then obtain res st1 where "delete_resource (official_api C) namespace name r st = Some (res, st1)" by fastforce
  then show ?case using Cons.IH by (cases res) auto
qed simp

text \<open>C33. A run in the Kubernetes sandbox returns: with a clock that advances while it sleeps, both of its polling
  loops reach their deadlines, whatever the cluster answers.\<close>

theorem kubernetes_run_ends:
  assumes "cluster_clock C time"
    and "make_sandbox_configuration namespace runtime_class runtime_handler reference startup interval = Inr c"
  shows "\<exists>out. kubernetes_run_test (official_api C) c decode_replace dir_path files test_name policy st = Some out"
proof -
  have positive: "0 < kc_poll_interval_seconds c"
    using assms(2) by (auto simp: make_sandbox_configuration_def split: if_splits option.splits)
  have attempt: "\<exists>r a s'. sandbox_attempt (official_api C) c name cm np job timeout s = Some (r, a, s')" for name cm np job timeout s
    using poll_outcome_ends [OF assms(1) positive]
    unfolding sandbox_attempt_def by (fastforce split: prod.splits sum.splits)
  obtain nonce s0 where id: "sb_run_id (official_api C) st = (nonce, s0)" by fastforce
  show ?thesis
  proof (cases "config_map_manifest (''aecontrol-'' @ nonce) nonce files test_name")
    case (Inl e)
    then show ?thesis using id by (simp add: kubernetes_run_test_def)
  next
    case (Inr config_map)
    let ?name = "''aecontrol-'' @ nonce"
    obtain r a s1 where ran: "sandbox_attempt (official_api C) c ?name config_map (network_policy_manifest ?name nonce)
        (sandbox_job_manifest c ?name nonce test_name policy) (sp_timeout_seconds policy) s0 = Some (r, a, s1)"
      using attempt by blast
    obtain out s2 where "sandbox_cleanup (official_api C) (kc_namespace c) ?name a s1 = Some (out, s2)"
      using cleanup_ends [OF assms(1)] unfolding sandbox_cleanup_def by fastforce
    then show ?thesis using id Inr ran unfolding kubernetes_run_test_def Let_def by (cases out) simp_all
  qed
qed

subsection \<open>A concrete cluster\<close>

text \<open>A clock and what exists in the namespace. The pod of a job has ended with status zero.\<close>

type_synonym toy_cluster = "rat \<times> (sandbox_resource \<times> string) list"

definition toy_name :: "json \<Rightarrow> string option" where
  "toy_name body = (case body of
     JObj kvs \<Rightarrow> (case map_of kvs ''metadata'' of
       Some (JObj m) \<Rightarrow> (case map_of m ''name'' of Some (JStr n) \<Rightarrow> Some n | _ \<Rightarrow> None) | _ \<Rightarrow> None) | _ \<Rightarrow> None)"

definition toy_create :: "sandbox_resource \<Rightarrow> string \<Rightarrow> json \<Rightarrow> toy_cluster \<Rightarrow> unit kube_answer \<times> toy_cluster" where
  "toy_create r namespace body st =
     (Kube_ok (), fst st, (case toy_name body of None \<Rightarrow> snd st | Some n \<Rightarrow> (r, n) # snd st))"

definition toy_delete :: "sandbox_resource \<Rightarrow> string \<Rightarrow> string \<Rightarrow> toy_cluster \<Rightarrow> unit kube_answer \<times> toy_cluster" where
  "toy_delete r name namespace st =
     (if (r, name) \<in> set (snd st) then Kube_ok () else Kube_status (Some 404), fst st, removeAll (r, name) (snd st))"

definition toy_clients :: "toy_cluster kube_clients" where
  "toy_clients =
     \<lparr>kk_read_runtime_class = (\<lambda>name st. (Kube_ok (Some ''kata''), st)),
      kk_create_config_map = toy_create Config_map, kk_create_network_policy = toy_create Network_policy,
      kk_create_job = toy_create Sandbox_job,
      kk_read_job_status = (\<lambda>name namespace st. (Kube_ok \<lparr>sj_failed = False, sj_condition_reasons = []\<rparr>, st)),
      kk_list_pods = (\<lambda>namespace selector st.
        (Kube_ok [\<lparr>pd_name = ''p'', pd_container = Some \<lparr>cn_terminated = Some (Some 0), cn_waiting_reason = None\<rparr>,
                   pd_phase = Some ''Succeeded''\<rparr>], st)),
      kk_read_pod_log = (\<lambda>name namespace st. (Kube_ok (Some ''ok''), st)),
      kk_delete_job = toy_delete Sandbox_job,
      kk_read_job = (\<lambda>name namespace st. (if (Sandbox_job, name) \<in> set (snd st) then Kube_ok () else Kube_status (Some 404), st)),
      kk_delete_network_policy = toy_delete Network_policy, kk_delete_config_map = toy_delete Config_map,
      kk_monotonic = (\<lambda>st. (fst st, st)), kk_sleep = (\<lambda>p st. (fst st + p, snd st)), kk_run_id = (\<lambda>st. (''n1'', st))\<rparr>"

definition toy_present :: "toy_cluster \<Rightarrow> sandbox_resource \<Rightarrow> string \<Rightarrow> bool" where
  "toy_present st r n \<longleftrightarrow> (r, n) \<in> set (snd st)"

lemma toy_named: "toy_name body = Some n \<Longrightarrow> manifest_named body n"
  by (auto simp: toy_name_def manifest_named_def split: json.splits option.splits)

lemma toy_creation_adds: "creation_adds toy_present r (toy_create r namespace)"
  by (auto simp: creation_adds_def toy_present_def toy_create_def toy_named split: option.splits)

lemma toy_is_cluster: "sandbox_cluster toy_clients namespace toy_present"
  by (auto simp: sandbox_cluster_def toy_clients_def toy_creation_adds absence_reported_def no_more_def toy_present_def
      toy_delete_def)

lemma toy_has_clock: "cluster_clock toy_clients fst"
  by (simp add: cluster_clock_def toy_clients_def)

definition toy_configuration :: sandbox_configuration where
  "toy_configuration = \<lparr>kc_namespace = ''sb'', kc_runtime_class = ''kata'', kc_runtime_handler = ''kata'',
     kc_image = ''r/i@sha256:'' @ replicate 64 CHR ''a'', kc_startup_timeout_seconds = 30, kc_poll_interval_seconds = 1 / 2\<rparr>"

definition toy_files :: directory where
  "toy_files = [(''app.py'', ''a''), (''t.py'', ''b'')]"

lemma toy_outcome:
  "poll_outcome (official_api toy_clients) toy_configuration name 35 (0, present) = Some (Inr (True, ''ok''), 0, present)"
  by (subst poll_outcome.simps)
    (simp add: official_api_def toy_clients_def job_outcome_def pod_outcome_def kube_call_def strip_def is_space_def)

lemma toy_deleted:
  "(Sandbox_job, name) \<notin> set present \<Longrightarrow> wait_deleted toy_clients namespace name 10 (0, present) = Some (Inr (), 0, present)"
  by (subst wait_deleted.simps) (simp add: toy_clients_def)

lemma toy_attempted:
  assumes "toy_name config_map = Some name" "toy_name network_policy = Some name" "toy_name job = Some name"
  shows "sandbox_attempt (official_api toy_clients) toy_configuration name config_map network_policy job 5 (0, [])
    = Some (Inr (True, ''ok''), [Config_map, Network_policy, Sandbox_job],
        0, [(Sandbox_job, name), (Network_policy, name), (Config_map, name)])"
proof -
  have "sb_monotonic (official_api toy_clients) (0, present) = (0, 0, present)" for present
    by (simp add: official_api_def toy_clients_def)
  moreover have "sb_create_config_map (official_api toy_clients) namespace config_map (0, present) = (Inr (), 0, (Config_map, name) # present)"
    "sb_create_network_policy (official_api toy_clients) namespace network_policy (0, present) = (Inr (), 0, (Network_policy, name) # present)"
    "sb_create_job (official_api toy_clients) namespace job (0, present) = (Inr (), 0, (Sandbox_job, name) # present)"
    for namespace present
    using assms by (simp_all add: official_api_def toy_clients_def toy_create_def kube_call_def)
  moreover have "0 + 5 + kc_startup_timeout_seconds toy_configuration = 35" by (simp add: toy_configuration_def)
  ultimately show ?thesis using toy_outcome unfolding sandbox_attempt_def by simp
qed

lemma toy_cleaned:
  "sandbox_cleanup (official_api toy_clients) namespace name [Config_map, Network_policy, Sandbox_job]
     (0, [(Sandbox_job, name), (Network_policy, name), (Config_map, name)]) = Some (Inr (), 0, [])"
proof -
  have job: "delete_sandbox_job toy_clients namespace name (0, [(Sandbox_job, name), (Network_policy, name), (Config_map, name)])
      = Some (Inr (), 0, [(Network_policy, name), (Config_map, name)])"
    using toy_deleted [of name "[(Network_policy, name), (Config_map, name)]" namespace]
    by (simp add: delete_sandbox_job_def toy_clients_def toy_delete_def)
  have "sb_delete_job (official_api toy_clients) = delete_sandbox_job toy_clients" by (simp add: official_api_def)
  moreover have "sb_delete_network_policy (official_api toy_clients) namespace name (0, [(Network_policy, name), (Config_map, name)])
      = Some (Inr (), 0, [(Config_map, name)])"
    "sb_delete_config_map (official_api toy_clients) namespace name (0, [(Config_map, name)]) = Some (Inr (), 0, [])"
    by (simp_all add: official_api_def toy_clients_def toy_delete_def kube_delete_def)
  ultimately show ?thesis using job by (simp add: sandbox_cleanup_def delete_resource_def)
qed

lemma toy_run_files:
  assumes "map_of files ''app.py'' = Some app" "map_of files test_name = Some test"
  shows "kubernetes_run_test (official_api toy_clients) toy_configuration decode_replace dir_path files test_name
     DEFAULT_SANDBOX_POLICY (0, []) = Some (Inr (True, ''ok''), files, (0, []))"
proof -
  let ?name = "''aecontrol-'' @ ''n1''"
  have id: "sb_run_id (official_api toy_clients) (0, []) = (''n1'', (0, []))"
    by (simp add: official_api_def toy_clients_def)
  have policy: "sp_timeout_seconds DEFAULT_SANDBOX_POLICY = 5" "truncate_output decode_replace ''ok'' (sp_max_output_bytes DEFAULT_SANDBOX_POLICY) = ''ok''"
    by (simp_all add: DEFAULT_SANDBOX_POLICY_def utf8_def truncate_output_def)
  obtain config_map where config_map: "config_map_manifest ?name ''n1'' files test_name = Inr config_map"
    using assms by (simp add: config_map_manifest_def)
  have "toy_name config_map = Some ?name" "toy_name (network_policy_manifest ?name ''n1'') = Some ?name"
    "toy_name (sandbox_job_manifest toy_configuration ?name ''n1'' test_name DEFAULT_SANDBOX_POLICY) = Some ?name"
    using config_map assms by (auto simp: toy_name_def config_map_manifest_def network_policy_manifest_def
        sandbox_job_manifest_def sandbox_metadata_def)
  note run = toy_attempted [OF this]
  show ?thesis
    unfolding kubernetes_run_test_def Let_def id prod.case config_map sum.case policy(1) run option.case toy_cleaned
    by (simp add: policy(2) bind_result_def)
qed

lemma toy_run:
  "kubernetes_run_test (official_api toy_clients) toy_configuration decode_replace dir_path toy_files ''t.py''
     DEFAULT_SANDBOX_POLICY (0, []) = Some (Inr (True, ''ok''), toy_files, (0, []))"
  by (rule toy_run_files) (simp_all add: toy_files_def)

theorem kubernetes_pass_sound_witness:
  "\<exists>nonce shown. sandbox_performed (official_api toy_clients) toy_configuration toy_files ''t.py'' DEFAULT_SANDBOX_POLICY nonce
     (True, shown) (0, [])"
  using kubernetes_pass_sound [OF toy_run] by blast

theorem kubernetes_run_leaves_nothing_witness:
  "no_more toy_present ((0, []) :: toy_cluster) (0, [])"
  by (rule kubernetes_run_leaves_nothing [OF toy_is_cluster toy_run [where decode_replace = id and dir_path = "[]"]]) simp

lemma toy_configuration_made:
  "make_sandbox_configuration ''sb'' ''kata'' ''kata'' (kc_image toy_configuration) (PyFinite 30) (PyFinite (1 / 2)) = Inr toy_configuration"
  by code_simp

theorem kubernetes_run_ends_witness:
  "\<exists>out. kubernetes_run_test (official_api toy_clients) toy_configuration id [] toy_files ''t.py'' DEFAULT_SANDBOX_POLICY
     (0, []) = Some out"
  by (rule kubernetes_run_ends [OF toy_has_clock toy_configuration_made])

end
