(* ===== verification/Runtime_Properties.thy ===== *)
theory Runtime_Properties
  imports Runtime Kubernetes_Cleanup_Properties
begin

section \<open>Properties of the runtime\<close>

text \<open>
  What the status of an output rests on, from the runtime down to the exit status of a pod; which trajectory a run
  leaves for the evaluators; what a failing model service does; and that a silent failure counts as a success for
  the evaluators of the tests.
\<close>

subsection \<open>Where a source comes from\<close>

definition proposed :: "'s coding_runtime \<Rightarrow> string \<Rightarrow> dataset_case \<Rightarrow> string \<Rightarrow> bool" where
  "proposed R version c patched \<longleftrightarrow>
     (\<exists>agent. select_service version = Inr None \<and> get_coding_agent version = Inr agent \<and> ca_repair agent c = Inr patched)
   \<or> (\<exists>service model repair. select_service version = Inr (Some (service, model))
        \<and> rt_repair R service model c = Inr repair \<and> mr_source repair = patched)"

definition service_failed :: "'s coding_runtime \<Rightarrow> string \<Rightarrow> dataset_case \<Rightarrow> exn \<Rightarrow> bool" where
  "service_failed R version c e \<longleftrightarrow>
     (\<exists>service model. select_service version = Inr (Some (service, model))
        \<and> rt_repair R service model c = Inl e \<and> service_failure service e)"

lemma propose_source_cases:
  assumes "propose_source R clock started duration version c steps = Inr p"
  shows "case p of
      Inl out \<Rightarrow> \<exists>e. service_failed R version c e \<and> ao_status out = ERROR \<and> ao_patch out = [] \<and> ao_modified_files out = []
        \<and> ao_error out = Some (rt_error_type R e, rt_error_text R e)
    | Inr (patched, metadata, steps') \<Rightarrow> proposed R version c patched"
proof -
  obtain selected where selected: "select_service version = Inr selected"
    using assms by (cases "select_service version") (auto simp: propose_source_def)
  show ?thesis
  proof (cases selected)
    case None
    then show ?thesis
      using assms selected by (cases "get_coding_agent version") (auto simp: propose_source_def proposed_def bind_result_def split: sum.splits)
  next
    case (Some choice)
    then obtain service model where choice: "selected = Some (service, model)" by (cases choice) auto
    show ?thesis
    proof (cases "rt_repair R service model c")
      case (Inl e)
      then show ?thesis
        using assms selected choice
        by (auto simp: propose_source_def service_failed_def failed_output_def Let_def split: if_splits)
    next
      case (Inr repair)
      then show ?thesis
        using assms selected choice by (auto simp: propose_source_def proposed_def Let_def)
    qed
  qed
qed

text \<open>The parts of an output that the sandbox decides.\<close>

definition reports :: "agent_output \<Rightarrow> sandbox_result \<Rightarrow> bool" where
  "reports out r \<longleftrightarrow>
     ao_status out = (if sr_public_passed r \<and> sr_hidden_passed r then PASSED else FAILED)
   \<and> ao_patch out = sr_patch r \<and> ao_modified_files out = sr_modified_files r
   \<and> ao_public_test_output out = sr_public_test_output r \<and> ao_hidden_test_output out = sr_hidden_test_output r
   \<and> ao_error out = None"

lemma tested_output_reports: "reports (tested_output clock started duration metadata steps r) r"
  by (simp add: reports_def tested_output_def Let_def)

lemma runtime_execute_cases:
  assumes "runtime_execute R clock started duration request version st = Some (Inr out, st')"
  obtains (failed) c e where "ai_case request = Case_variable c" "service_failed R version c e" "ao_status out = ERROR"
      "ao_patch out = []" "ao_modified_files out = []" "ao_error out = Some (rt_error_type R e, rt_error_text R e)" "st' = st"
  | (tested) c patched r where "ai_case request = Case_variable c" "proposed R version c patched"
      "sandbox_run (rt_executor R) (rt_sandbox R) c patched st = Some (Inr r, st')" "reports out r"
proof -
  obtain c where c: "ai_case request = Case_variable c"
    using assms by (cases "ai_case request") (simp_all add: runtime_execute_def)
  let ?steps = "add_step clock Step_message [(''role'', JStr ''user''), (''content'', JStr (''repair '' @ ai_case_id request))] []"
  obtain p where p: "propose_source R clock started duration version c ?steps = Inr p"
    using assms c by (cases "propose_source R clock started duration version c ?steps") (simp_all add: runtime_execute_def)
  note proposal = propose_source_cases [OF p]
  show ?thesis
  proof (cases p)
    case (Inl failed_out)
    then show ?thesis using assms c p proposal failed by (auto simp: runtime_execute_def)
  next
    case (Inr test)
    obtain patched metadata steps where test: "test = (patched, metadata, steps)" by (cases test)
    obtain r where "sandbox_run (rt_executor R) (rt_sandbox R) c patched st = Some (Inr r, st')"
      "out = tested_output clock started duration metadata steps r"
      using assms c p Inr test by (auto simp: runtime_execute_def split: option.splits prod.splits sum.splits)
    then show ?thesis using tested [OF c] proposal Inr test tested_output_reports by auto
  qed
qed

subsection \<open>From a status to an exit status\<close>

lemma kubernetes_te_run:
  assumes "kubernetes_executor A cfg decode_replace st0 = (Inr executor, st1)"
  shows "te_run_test executor = kubernetes_run_test A cfg decode_replace"
  using assms by (auto simp: kubernetes_executor_def split: prod.splits sum.splits)

text \<open>The test over these files ran in a job of its own, whose pod ended with status zero.\<close>

definition test_passed_in_cluster ::
  "'s kube_clients \<Rightarrow> sandbox_configuration \<Rightarrow> directory \<Rightarrow> sandbox_policy \<Rightarrow> bool" where
  "test_passed_in_cluster C cfg files policy \<longleftrightarrow>
     (\<exists>nonce shown st'. sandbox_performed (official_api C) cfg files ''_aecontrol_test.py'' policy nonce (True, shown) st'
        \<and> exited_zero C (kc_namespace cfg) (''aecontrol-'' @ nonce))"

lemma kubernetes_test_passed:
  assumes "kubernetes_run_test (official_api C) cfg decode_replace dir_path files ''_aecontrol_test.py'' policy st
      = Some (Inr (True, output), files', st')"
  shows "files' = files \<and> test_passed_in_cluster C cfg files policy"
proof -
  obtain nonce shown where performed: "files' = files"
    "sandbox_performed (official_api C) cfg files ''_aecontrol_test.py'' policy nonce (True, shown) st'"
    using run_performed [OF assms] by blast
  then obtain s4 s5 where "job_outcome C (kc_namespace cfg) (''aecontrol-'' @ nonce) s4 = (Inr (Some (True, shown)), s5)"
    by (auto simp: sandbox_performed_def official_api_def)
  from job_outcome_pass [OF this] performed show ?thesis unfolding test_passed_in_cluster_def by blast
qed

text \<open>Every output of the engine's runtime is an outcome of \<open>execute\<close> on the case, at some point of the run.\<close>

definition runs_on :: "'s coding_runtime \<Rightarrow> (dataset_case \<Rightarrow> string \<Rightarrow> agent_output result) \<Rightarrow> bool" where
  "runs_on R execute \<longleftrightarrow>
     (\<forall>c version out. execute c version = Inr out \<longrightarrow>
        (\<exists>clock started duration st st'. runtime_execute R clock started duration
           \<lparr>ai_case_id = dc_case_id c, ai_case = Case_variable c\<rparr> version st = Some (Inr out, st')))"

lemma map_result_member:
  "map_result f xs = Inr ys \<Longrightarrow> y \<in> set ys \<Longrightarrow> \<exists>x \<in> set xs. f x = Inr y"
  by (induction xs arbitrary: ys) (auto simp: bind_result_def split: sum.splits)

lemma engine_run_case:
  assumes "engine_run execute clock started completed fresh dataset suite version = Inr run" "cr \<in> set (run_case_results run)"
  shows "cr_case cr \<in> set (dset_cases dataset) \<and> execute (cr_case cr) version = Inr (cr_output cr)
    \<and> cr_status cr = ao_status (cr_output cr)
    \<and> map_result (evaluate_named (cr_case cr) (cr_output cr)) (es_evaluators suite) = Inr (cr_evaluator_results cr)"
proof -
  let ?f = "\<lambda>(i, c). run_case execute suite version (fst (clock i)) (snd (clock i)) c"
  obtain results where results: "map_result ?f (enumerate 0 (dset_cases dataset)) = Inr results" "cr \<in> set results"
    using assms by (auto simp: engine_run_def bind_result_def split: sum.splits)
  obtain i c where "(i, c) \<in> set (enumerate 0 (dset_cases dataset))" "run_case execute suite version (fst (clock i)) (snd (clock i)) c = Inr cr"
    using map_result_member [OF results] by (auto simp: case_prod_beta)
  moreover from this(1) have "c \<in> set (dset_cases dataset)" by (auto simp: in_set_enumerate_eq)
  ultimately show ?thesis
    by (auto simp: run_case_def bind_result_def split: sum.splits)
qed

text \<open>C12. A case that an evaluation run records as passed was passed by pods that ended with exit status zero: with the
  Kubernetes executor, whatever agent or model service proposed the source, the engine records \<open>passed\<close> only for a
  source that the screening accepts, after a job that ran the public test over exactly that source and a job that ran
  the hidden test over it, each with a pod that ended with status zero.\<close>

theorem passed_case_exited_zero:
  assumes "engine_run execute clock started completed fresh dataset suite version = Inr run" "runs_on R execute"
    and "kubernetes_executor (official_api C) cfg decode_replace st0 = (Inr (rt_executor R), st1)"
    and "cr \<in> set (run_case_results run)" "cr_status cr = PASSED"
  shows "\<exists>patched. proposed R version (cr_case cr) patched
    \<and> validate_source (cs_parse (rt_sandbox R)) patched (cs_policy (rt_sandbox R)) = Inr None
    \<and> test_passed_in_cluster C cfg [(''app.py'', patched), (''_aecontrol_test.py'', public_test_source (cr_case cr))]
        (cs_policy (rt_sandbox R))
    \<and> test_passed_in_cluster C cfg [(''app.py'', patched), (''_aecontrol_test.py'', hidden_test_source (cr_case cr))]
        (cs_policy (rt_sandbox R))"
proof -
  obtain clock' started' duration st st' where executed: "runtime_execute R clock' started' duration
      \<lparr>ai_case_id = dc_case_id (cr_case cr), ai_case = Case_variable (cr_case cr)\<rparr> version st = Some (Inr (cr_output cr), st')"
    and status: "ao_status (cr_output cr) = PASSED"
    using engine_run_case [OF assms(1,4)] assms(2,5) unfolding runs_on_def by metis
  show ?thesis
  proof (cases rule: runtime_execute_cases [OF executed])
    case (1 c e)
    then show ?thesis using status by simp
  next
    case (2 c patched r)
    have passed: "sr_public_passed r" "sr_hidden_passed r" using 2(4) status by (auto simp: reports_def split: if_splits)
    have screened: "validate_source (cs_parse (rt_sandbox R)) patched (cs_policy (rt_sandbox R)) = Inr None"
      using 2(3) passed by (auto simp: sandbox_run_def split: sum.splits option.splits)
    have case_eq: "c = cr_case cr" using 2(1) by simp
    have "tests_performed (rt_executor R) (rt_sandbox R) c patched st r st'"
      using sandbox_run_tested [OF 2(3) screened] by blast
    then obtain files between left where tests:
      "kubernetes_run_test (official_api C) cfg decode_replace (cs_root (rt_sandbox R))
         [(''app.py'', patched), (''_aecontrol_test.py'', public_test_source c)] ''_aecontrol_test.py'' (cs_policy (rt_sandbox R)) st
         = Some (Inr (True, sr_public_test_output r), files, between)"
      "kubernetes_run_test (official_api C) cfg decode_replace (cs_root (rt_sandbox R))
         (dict_set ''_aecontrol_test.py'' (hidden_test_source c) files) ''_aecontrol_test.py'' (cs_policy (rt_sandbox R)) between
         = Some (Inr (True, sr_hidden_test_output r), left, st')"
      using passed by (auto simp: tests_performed_def kubernetes_te_run [OF assms(3)])
    note public = kubernetes_test_passed [OF tests(1)]
    from public kubernetes_test_passed [OF tests(2)] show ?thesis using 2(2) screened case_eq by auto
  qed
qed

subsection \<open>What the trajectory says\<close>

definition call_names :: "trajectory_step list \<Rightarrow> json list" where
  "call_names steps = map (\<lambda>s. dict_get (ts_data s) ''name'' JNull) (filter (\<lambda>s. ts_kind s = Step_tool_call) steps)"

lemma call_names_add_step [simp]:
  "call_names (add_step clock kind data steps) =
     call_names steps @ (if kind = Step_tool_call then [dict_get data ''name'' JNull] else [])"
  by (simp add: call_names_def add_step_def)

lemma call_names_sandbox_steps:
  "call_names (sandbox_steps clock r steps) = call_names steps @ map (JStr \<circ> tc_name) (sr_tool_calls r)"
proof -
  have results: "call_names (fold (\<lambda>result. add_step clock Step_tool_result (f result)) results steps) = call_names steps"
    for f :: "tool_result \<Rightarrow> (string, json) dict" and results steps
    by (induction results arbitrary: steps) simp_all
  have calls: "call_names (fold (\<lambda>call. add_step clock Step_tool_call [(''name'', JStr (tc_name call)), (''arguments'', g call)]) calls steps)
      = call_names steps @ map (JStr \<circ> tc_name) calls" for g :: "tool_call \<Rightarrow> json" and calls steps
    by (induction calls arbitrary: steps) simp_all
  show ?thesis by (simp add: sandbox_steps_def results calls)
qed

lemma tool_names_of_steps:
  assumes "\<forall>n \<in> set (call_names (at_steps (ao_trajectory out))). hashable n"
  shows "tool_names out = Inr (call_names (at_steps (ao_trajectory out)))"
proof -
  have "map_result (\<lambda>s. let n = dict_get (ts_data s) ''name'' JNull in if hashable n then Inr n else Inl (TypeError ''unhashable type''))
      (filter (\<lambda>s. ts_kind s = Step_tool_call) (at_steps (ao_trajectory out)))
    = Inr (map (\<lambda>s. dict_get (ts_data s) ''name'' JNull) (filter (\<lambda>s. ts_kind s = Step_tool_call) (at_steps (ao_trajectory out))))"
    using assms by (intro map_result_all_Inr) (auto simp: call_names_def Let_def)
  then show ?thesis by (simp add: tool_names_def call_names_def)
qed

text \<open>The calls the steps of a proposal hold.\<close>

definition proposal_calls :: "string \<Rightarrow> json list" where
  "proposal_calls version = (if select_service version = Inr None then [] else [JStr ''model_generate''])"

lemma propose_source_calls:
  assumes "propose_source R clock started duration version c steps = Inr (Inr (patched, metadata, steps'))"
  shows "call_names steps' = call_names steps @ proposal_calls version"
  using assms
  by (auto simp: propose_source_def proposal_calls_def bind_result_def Let_def generate_call_def
      split: sum.splits option.splits if_splits)

text \<open>The trajectory tells the evaluators which tools ran: an output that is not an error names, in order, the call
  of a model service if one was asked and then the four tools of the sandbox exactly when the screening accepted the
  source; so \<open>expected_tool_usage\<close> judges a rejected source on nothing but the service call.\<close>

theorem trajectory_names_tools:
  assumes "runtime_execute R clock started duration request version st = Some (Inr out, st')" "ao_error out = None"
  shows "\<exists>c patched. ai_case request = Case_variable c \<and> proposed R version c patched
    \<and> tool_names out = Inr (proposal_calls version @
        (if validate_source (cs_parse (rt_sandbox R)) patched (cs_policy (rt_sandbox R)) = Inr None
         then map JStr TOOL_NAMES else []))"
proof -
  obtain c where c: "ai_case request = Case_variable c"
    using assms by (cases "ai_case request") (simp_all add: runtime_execute_def)
  let ?steps = "add_step clock Step_message [(''role'', JStr ''user''), (''content'', JStr (''repair '' @ ai_case_id request))] []"
  obtain p where p: "propose_source R clock started duration version c ?steps = Inr p"
    using assms c by (cases "propose_source R clock started duration version c ?steps") (simp_all add: runtime_execute_def)
  obtain patched metadata steps where proposal: "p = Inr (patched, metadata, steps)"
    using propose_source_cases [OF p] assms c p by (cases p) (auto simp: runtime_execute_def)
  obtain r where r: "sandbox_run (rt_executor R) (rt_sandbox R) c patched st = Some (Inr r, st')"
    "out = tested_output clock started duration metadata steps r"
    using assms c p proposal by (auto simp: runtime_execute_def split: option.splits prod.splits sum.splits)
  have steps: "call_names (at_steps (ao_trajectory out)) = proposal_calls version @ map (JStr \<circ> tc_name) (sr_tool_calls r)"
    using r(2) propose_source_calls [OF p [unfolded proposal]]
    by (simp add: tested_output_def Let_def call_names_sandbox_steps) (simp add: call_names_def)
  have calls: "map tc_name (sr_tool_calls r) =
      (if validate_source (cs_parse (rt_sandbox R)) patched (cs_policy (rt_sandbox R)) = Inr None then TOOL_NAMES else [])"
  proof (cases "validate_source (cs_parse (rt_sandbox R)) patched (cs_policy (rt_sandbox R)) = Inr None")
    case True
    then show ?thesis using sandbox_run_tested [OF r(1)] by simp
  next
    case False
    then show ?thesis using r(1) by (auto simp: sandbox_run_def split: sum.splits option.splits)
  qed
  have "tool_names out = Inr (call_names (at_steps (ao_trajectory out)))"
    by (rule tool_names_of_steps) (auto simp: steps proposal_calls_def)
  then show ?thesis
    using c steps calls propose_source_cases [OF p] proposal
    by (auto simp: map_map [symmetric] simp del: map_map)
qed

subsection \<open>Failures of the model services\<close>

lemma nested_failure [simp]: "service_failure service (ServiceError (service_error_class service) m)"
  by (simp add: service_failure_def)

text \<open>The environment of the clients: HTTP requests fail only as \<open>urlopen\<close> documents, decoding only with a
  \<open>ValueError\<close>, the AWS clients only with their own errors.\<close>

definition documented_failures ::
  "transport \<Rightarrow> (string \<Rightarrow> json result) \<Rightarrow> service_clients \<Rightarrow> bool" where
  "documented_failures urlopen loads clients \<longleftrightarrow>
     (\<forall>request e. urlopen request = Inl e \<longrightarrow> request_failure e)
   \<and> (\<forall>body e. loads body = Inl e \<longrightarrow> request_failure e \<or> is_value_error e)
   \<and> (\<forall>e. sc_nim clients = Inl e \<longrightarrow> is_value_error e)
   \<and> (\<forall>e. sc_bedrock clients = Inl e \<longrightarrow> service_failure Service_bedrock e)
   \<and> (\<forall>c C request e. sc_bedrock clients = Inr (c, C) \<longrightarrow> bc_converse C request \<noteq> Bedrock_raises e)"

lemma repair_prompt_failure: "repair_prompt c = Inl e \<Longrightarrow> is_value_error e"
  by (auto simp: repair_prompt_def vulnerable_source_def bind_result_def is_value_error_def split: if_splits)

lemma object_request_failure:
  assumes "object_request urlopen loads (ServiceError cls) failed not_object request = Inl e" "documented_failures urlopen loads clients"
  shows "is_value_error e \<or> (\<exists>m. e = ServiceError cls m)"
  using assms unfolding object_request_def documented_failures_def
  by (auto simp: bind_result_def split: sum.splits if_splits json.splits)

lemma bedrock_parse_failure: "bedrock_parse_repair response = Inl e \<Longrightarrow> \<exists>m. e = BedrockError m"
  by (auto simp: bedrock_parse_repair_def split: json.splits sum.splits list.splits if_splits)

lemma json_get_failure: "json_get v k = Inl e \<Longrightarrow> \<exists>m. e = AttributeError m"
  by (auto simp: json_get_def split: json.splits)

lemma compatible_repair_failure:
  assumes "compatible_repair P S urlopen loads client model c = Inl e" "documented_failures urlopen loads clients"
  shows "is_value_error e \<or> (\<exists>m. e = OpenAICompatibleError m) \<or> (\<exists>m. e = AttributeError m)"
proof (cases "repair_prompt c")
  case (Inl e')
  then show ?thesis using assms(1) repair_prompt_failure by (auto simp: compatible_repair_def)
next
  case prompt: (Inr prompt)
  let ?request = "compatible_request urlopen loads client ''POST'' ''/chat/completions'' (Some (compatible_body S model prompt))"
  show ?thesis
  proof (cases ?request)
    case (Inl e')
    then have "e' = e" using assms(1) prompt by (simp add: compatible_repair_def)
    then show ?thesis using object_request_failure [OF Inl [unfolded compatible_request_def] assms(2)] by blast
  next
    case (Inr response)
    have metadata: "\<exists>m. e' = AttributeError m" if "compatible_metadata P client model prompt response choice = Inl e'" for e' choice
      using that unfolding compatible_metadata_def Let_def bind_result_def
      by (auto dest: json_get_failure split: sum.splits)
    show ?thesis
      using assms(1) prompt Inr metadata
      by (auto simp: compatible_repair_def bind_result_def split: sum.splits prod.splits)
  qed
qed

lemma service_repair_failure:
  assumes "service_repair P S urlopen loads clients service model c = Inl e" "documented_failures urlopen loads clients"
  shows "service_failure service e \<or> service \<in> {Service_nim, Service_openai} \<and> (\<exists>m. e = AttributeError m)"
proof (cases service)
  case Service_ollama
  then show ?thesis
    using assms(1) repair_prompt_failure object_request_failure [OF _ assms(2)]
    by (cases "repair_prompt c")
      (fastforce simp: service_repair_def ollama_repair_def ollama_request_def bind_result_def service_failure_def
        split: sum.splits if_splits)+
next
  case Service_bedrock
  show ?thesis
  proof (cases "sc_bedrock clients")
    case (Inl e')
    then show ?thesis using assms Service_bedrock by (auto simp: service_repair_def documented_failures_def)
  next
    case (Inr client)
    obtain cfg C where client: "client = (cfg, C)" by (cases client)
    have "bc_converse C request \<noteq> Bedrock_raises e'" for request e'
      using assms(2) Inr client unfolding documented_failures_def by blast
    then show ?thesis
      using assms(1) Service_bedrock Inr client repair_prompt_failure bedrock_parse_failure
      by (cases "repair_prompt c")
        (fastforce simp: service_repair_def bedrock_repair_def bind_result_def service_failure_def
          split: sum.splits bedrock_answer.splits)+
  qed
next
  case Service_nim
  then show ?thesis
    using assms compatible_repair_failure [OF _ assms(2)]
    by (cases "sc_nim clients") (fastforce simp: service_repair_def service_failure_def documented_failures_def)+
next
  case Service_openai
  then show ?thesis
    using assms compatible_repair_failure [OF _ assms(2)] by (fastforce simp: service_repair_def service_failure_def)
qed

text \<open>A model service that fails makes an output with status \<open>error\<close> and never reaches the sandbox, for every
  documented failure of its transport and every answer; only an OpenAI-compatible or NIM answer whose \<open>usage\<close> is not
  an object escapes, as an \<open>AttributeError\<close>.\<close>

theorem service_failures_reported:
  assumes "rt_repair R = service_repair P S urlopen loads clients" "documented_failures urlopen loads clients"
    and "select_service version = Inr (Some (service, model))" "rt_repair R service model c = Inl e"
  shows "case runtime_execute R clock started duration \<lparr>ai_case_id = i, ai_case = Case_variable c\<rparr> version st of
      Some (Inr out, st') \<Rightarrow> st' = st \<and> ao_status out = ERROR \<and> ao_error out = Some (rt_error_type R e, rt_error_text R e)
        \<and> ao_patch out = [] \<and> ao_modified_files out = [] \<and> ao_hidden_test_output out = ''not run''
    | Some (Inl raised, st') \<Rightarrow> st' = st \<and> raised = e \<and> service \<in> {Service_nim, Service_openai} \<and> (\<exists>m. e = AttributeError m)
    | None \<Rightarrow> False"
proof -
  have failure: "service_failure service e \<or> service \<in> {Service_nim, Service_openai} \<and> (\<exists>m. e = AttributeError m)"
    using service_repair_failure [OF _ assms(2)] assms(1,4) by metis
  show ?thesis
  proof (cases "service_failure service e")
    case True
    then show ?thesis using assms(3,4)
      by (simp add: runtime_execute_def propose_source_def failed_output_def Let_def)
  next
    case False
    then show ?thesis using assms(3,4) failure by (simp add: runtime_execute_def propose_source_def Let_def)
  qed
qed

subsection \<open>Concrete runs\<close>

text \<open>The baseline agent on the division case, on the toy cluster; and an Ollama service that does not answer.\<close>

definition toy_executor :: "toy_cluster test_executor" where
  "toy_executor = \<lparr>te_name = ''kubernetes-runtimeclass/kata'',
     te_run_test = kubernetes_run_test (official_api toy_clients) toy_configuration (\<lambda>s. s)\<rparr>"

definition toy_services :: service_clients where
  "toy_services = \<lparr>sc_ollama_url = DEFAULT_OLLAMA_URL,
     sc_openai = \<lparr>cl_base_url = DEFAULT_BASE_URL, cl_api_key = ''k'', cl_provider = ''openai-compatible''\<rparr>,
     sc_nim = Inl (ValueError ''no key''), sc_bedrock = Inl (BedrockError ''not configured'')\<rparr>"

definition toy_runtime :: "toy_cluster coding_runtime" where
  "toy_runtime = \<lparr>rt_executor = toy_executor, rt_sandbox = ex_sandbox,
     rt_repair = service_repair toy_primitives \<lparr>rs_json_schema = JObj [], rs_parse_json = (\<lambda>_. None)\<rparr>
       (\<lambda>_. Inl (ServiceError ''URLError'' ''refused'')) (\<lambda>_. Inl (ServiceError ''JSONDecodeError'' [])) toy_services,
     rt_error_type = (\<lambda>_. ''OllamaError''), rt_error_text = (\<lambda>_. ''refused'')\<rparr>"

definition toy_request :: agent_input where
  "toy_request = \<lparr>ai_case_id = dc_case_id ex_case, ai_case = Case_variable ex_case\<rparr>"

lemma toy_test:
  "map_of files ''app.py'' \<noteq> None \<Longrightarrow> sandbox_test toy_executor ex_sandbox files test (0, [])
     = Some (Inr (True, ''ok''), dict_set ''_aecontrol_test.py'' test files, (0, []))"
  by (auto simp: sandbox_test_def Let_def toy_executor_def ex_sandbox_def toy_run_files)

lemma toy_sandbox_run:
  "\<exists>r. sandbox_run toy_executor ex_sandbox ex_case ex_patched (0, []) = Some (Inr r, (0, [])) \<and> sr_public_passed r \<and> sr_hidden_passed r
     \<and> sr_hidden_test_output r = ''ok''"
proof -
  obtain before where before: "vulnerable_source ex_case = Inr before" by (simp add: vulnerable_source_def ex_case_def)
  show ?thesis
    unfolding sandbox_run_def ex_screened before sum.case option.case Let_def by (simp add: toy_test)
qed

lemma toy_proposed:
  "propose_source R clock started duration ''baseline'' ex_case steps = Inr (Inr (ex_patched, [(''provider'', JStr ''deterministic'')], steps))"
  by (simp add: propose_source_def select_service_def parse_ollama_agent_version_def parse_openai_agent_version_def
      parse_nim_agent_version_def parse_bedrock_agent_version_def parse_prefixed_version_def starts_with_def
      get_coding_agent_def AGENT_FACTORIES_def fixed_source_def ex_case_def ex_patched_def)

lemma toy_executed:
  "\<exists>out. runtime_execute toy_runtime int 0 0 toy_request ''baseline'' (0, []) = Some (Inr out, (0, []))
     \<and> ao_status out = PASSED \<and> ao_error out = None"
proof -
  obtain r where "sandbox_run toy_executor ex_sandbox ex_case ex_patched (0, []) = Some (Inr r, (0, []))"
    "sr_public_passed r" "sr_hidden_passed r"
    using toy_sandbox_run by blast
  then show ?thesis
    by (simp add: runtime_execute_def toy_request_def toy_proposed toy_runtime_def tested_output_def Let_def)
qed

definition toy_outcome_of :: "dataset_case \<Rightarrow> string \<Rightarrow> agent_output result" where
  "toy_outcome_of c version =
     (if c = ex_case \<and> version = ''baseline''
      then (case runtime_execute toy_runtime int 0 0 toy_request version (0, []) of Some (r, _) \<Rightarrow> r | None \<Rightarrow> Inl (ValueError []))
      else Inl (ValueError []))"

lemma toy_runs_on: "runs_on toy_runtime toy_outcome_of"
proof -
  have "\<exists>clock started duration st st'. runtime_execute toy_runtime clock started duration
      \<lparr>ai_case_id = dc_case_id c, ai_case = Case_variable c\<rparr> version st = Some (Inr out, st')"
    if "toy_outcome_of c version = Inr out" for c version out
  proof -
    obtain out' where "runtime_execute toy_runtime int 0 0 toy_request ''baseline'' (0, []) = Some (Inr out', (0, []))"
      using toy_executed by blast
    moreover from this have "c = ex_case" "version = ''baseline''" "out' = out"
      using that by (auto simp: toy_outcome_of_def split: if_splits)
    ultimately show ?thesis unfolding toy_request_def by blast
  qed
  then show ?thesis unfolding runs_on_def by blast
qed

theorem passed_case_exited_zero_witness:
  "\<exists>patched. test_passed_in_cluster toy_clients toy_configuration
     [(''app.py'', patched), (''_aecontrol_test.py'', hidden_test_source ex_case)] DEFAULT_SANDBOX_POLICY"
proof -
  let ?suite = "\<lparr>es_name = ''s'', es_dataset_path = ''d'', es_evaluators = [], es_concurrency = 1\<rparr>"
  let ?dataset = "\<lparr>dset_name = ''d'', dset_version = ''v'', dset_cases = [ex_case], dset_slices = []\<rparr>"
  obtain out where out: "toy_outcome_of ex_case ''baseline'' = Inr out" "ao_status out = PASSED"
    using toy_executed by (auto simp: toy_outcome_of_def)
  obtain run cr where run: "engine_run toy_outcome_of (\<lambda>_. (0, 0)) 0 0 0 ?dataset ?suite ''baseline'' = Inr run"
    and cr: "cr \<in> set (run_case_results run)" "cr_status cr = PASSED" "cr_case cr = ex_case"
    using out by (simp add: engine_run_def run_case_def)
  have executor: "kubernetes_executor (official_api toy_clients) toy_configuration (\<lambda>s. s) (0, [])
      = (Inr (rt_executor toy_runtime), (0, []))"
    by (simp add: kubernetes_executor_def official_api_def verify_runtime_class_def toy_clients_def kube_call_def
        toy_configuration_def toy_runtime_def toy_executor_def)
  from passed_case_exited_zero [OF run toy_runs_on executor cr(1,2)] cr(3)
  show ?thesis by (auto simp: toy_runtime_def ex_sandbox_def)
qed

theorem trajectory_names_tools_witness:
  "\<exists>out. tool_names out = Inr (map JStr TOOL_NAMES)"
proof -
  obtain out where out: "runtime_execute toy_runtime int 0 0 toy_request ''baseline'' (0, []) = Some (Inr out, (0, []))"
    "ao_error out = None"
    using toy_executed by blast
  have "select_service ''baseline'' = Inr None"
    by (simp add: select_service_def parse_ollama_agent_version_def parse_openai_agent_version_def
        parse_nim_agent_version_def parse_bedrock_agent_version_def parse_prefixed_version_def starts_with_def)
  then have baseline: "patched = ex_patched" if "proposed toy_runtime ''baseline'' ex_case patched" for patched
    using that by (simp add: proposed_def get_coding_agent_def AGENT_FACTORIES_def fixed_source_def ex_case_def ex_patched_def)
  obtain patched where patched: "proposed toy_runtime ''baseline'' ex_case patched"
    "tool_names out = Inr (proposal_calls ''baseline'' @
       (if validate_source (cs_parse (rt_sandbox toy_runtime)) patched (cs_policy (rt_sandbox toy_runtime)) = Inr None
        then map JStr TOOL_NAMES else []))"
    using trajectory_names_tools [OF out] by (auto simp: toy_request_def)
  have "rt_sandbox toy_runtime = ex_sandbox" by (simp add: toy_runtime_def)
  then have "tool_names out = Inr (map JStr TOOL_NAMES)"
    using patched(2) ex_screened \<open>select_service ''baseline'' = Inr None\<close>
    unfolding baseline [OF patched(1)] by (simp add: proposal_calls_def)
  then show ?thesis by blast
qed

theorem service_failures_reported_witness:
  "\<exists>out. runtime_execute toy_runtime int 0 0 toy_request ''ollama/m'' (0, []) = Some (Inr out, (0, [])) \<and> ao_status out = ERROR"
proof -
  have selected: "select_service ''ollama/m'' = Inr (Some (Service_ollama, ''m''))"
    by (simp add: select_service_def parse_ollama_agent_version_def parse_openai_agent_version_def
        parse_nim_agent_version_def parse_bedrock_agent_version_def parse_prefixed_version_def starts_with_def strip_def is_space_def)
  have documented: "documented_failures (\<lambda>_. Inl (ServiceError ''URLError'' ''refused'')) (\<lambda>_. Inl (ServiceError ''JSONDecodeError'' [])) toy_services"
    by (simp add: documented_failures_def toy_services_def request_failure_def is_value_error_def service_failure_def)
  have failed: "rt_repair toy_runtime Service_ollama ''m'' ex_case = Inl (OllamaError ''Ollama request failed'')"
    by (simp add: toy_runtime_def service_repair_def ollama_repair_def repair_prompt_def vulnerable_source_def ex_case_def
        ollama_request_def object_request_def request_failure_def)
  have repair: "rt_repair toy_runtime = service_repair toy_primitives \<lparr>rs_json_schema = JObj [], rs_parse_json = (\<lambda>_. None)\<rparr>
      (\<lambda>_. Inl (ServiceError ''URLError'' ''refused'')) (\<lambda>_. Inl (ServiceError ''JSONDecodeError'' [])) toy_services"
    by (simp add: toy_runtime_def)
  from service_failures_reported [OF repair documented selected failed, where clock = int and started = 0 and duration = 0 and i = "dc_case_id ex_case" and st = "(0, [])"]
  show ?thesis unfolding toy_request_def
    by (cases "runtime_execute toy_runtime int 0 0 \<lparr>ai_case_id = dc_case_id ex_case, ai_case = Case_variable ex_case\<rparr> ''ollama/m'' (0, [])")
      (auto split: sum.splits, metis sum.exhaust)
qed

end
