(* ===== verification/Adapter_Properties.thy ===== *)
theory Adapter_Properties
  imports Langgraph_Properties Runtime_Properties
begin

section \<open>The engine over any runtime adapter\<close>

text \<open>
  What every runtime adapter promises about an output, proved of the deterministic runtime and of the LangGraph
  adapter, and what follows for an evaluation run; and two behaviours of the deterministic runtime: a test that fails
  without printing anything counts as a success for the evaluators, and an answer with a null \<open>usage\<close> escapes.
\<close>

subsection \<open>The contract of an adapter\<close>

definition well_formed_output :: "agent_output \<Rightarrow> bool" where
  "well_formed_output out \<longleftrightarrow>
     at_steps (ao_trajectory out) \<noteq> [] \<and> at_completed_at (ao_trajectory out) \<noteq> None
   \<and> ts_kind (last (at_steps (ao_trajectory out))) = (if ao_error out = None then Step_final else Step_error)
   \<and> (ao_error out \<noteq> None \<longrightarrow> ao_status out = ERROR \<and> ao_modified_files out = [] \<and> ao_hidden_test_output out = ''not run'')"

lemma evaluate_named_name:
  assumes "evaluate_named c out name = Inr r"
  shows "er_name r = name"
proof -
  obtain f where f: "map_of EVALUATOR_CLASSES name = Some f" "f c out = Inr r"
    using assms by (auto simp: evaluate_named_def split: option.splits)
  have "list_all (\<lambda>(n, f). \<forall>r. f c out = Inr r \<longrightarrow> er_name r = n) EVALUATOR_CLASSES"
    by (auto simp: EVALUATOR_CLASSES_def public_test_success_def hidden_test_success_def expected_tool_usage_def
        forbidden_tool_usage_def expected_file_modification_def forbidden_file_modification_def patch_scope_score_def
        test_weakening_detection_def execution_success_def execution_duration_def composite_score_def result_of_def
        bind_result_def Let_def split: sum.splits)
  then show ?thesis using f map_of_SomeD [OF f(1)] by (fastforce simp: list_all_iff)
qed

lemma evaluate_hidden: "evaluate_named c out ''hidden_test_success'' = Inr (result_of ''hidden_test_success'' (ao_hidden_test_output out = ''ok''))"
  by (simp add: evaluate_named_def EVALUATOR_CLASSES_def hidden_test_success_def)

lemma engine_hidden_success:
  assumes "engine_run execute clock started completed fresh dataset suite version = Inr run" "cr \<in> set (run_case_results run)"
  shows "hidden_success cr \<longleftrightarrow>
    ''hidden_test_success'' \<in> set (es_evaluators suite) \<and> ao_hidden_test_output (cr_output cr) = ''ok''"
proof
  let ?evaluate = "evaluate_named (cr_case cr) (cr_output cr)"
  have results: "map_result ?evaluate (es_evaluators suite) = Inr (cr_evaluator_results cr)"
    using engine_run_case [OF assms] by blast
  {
    assume "hidden_success cr"
    then obtain r where r: "r \<in> set (cr_evaluator_results cr)" "er_name r = ''hidden_test_success''" "er_passed r"
      by (auto simp: hidden_success_def list_ex_iff)
    obtain name where name: "name \<in> set (es_evaluators suite)" "?evaluate name = Inr r"
      using map_result_member [OF results r(1)] by blast
    with r show "''hidden_test_success'' \<in> set (es_evaluators suite) \<and> ao_hidden_test_output (cr_output cr) = ''ok''"
      using evaluate_named_name [OF name(2)] evaluate_hidden [of "cr_case cr" "cr_output cr"] by (auto simp: result_of_def)
  next
    assume wanted: "''hidden_test_success'' \<in> set (es_evaluators suite) \<and> ao_hidden_test_output (cr_output cr) = ''ok''"
    have "?evaluate x = Inr y \<Longrightarrow> x \<in> set xs \<Longrightarrow> map_result ?evaluate xs = Inr ys \<Longrightarrow> y \<in> set ys" for x y xs ys
      by (induction xs arbitrary: ys) (auto simp: bind_result_def split: sum.splits)
    from this [OF evaluate_hidden _ results] wanted show "hidden_success cr"
      by (auto simp: hidden_success_def list_ex_iff result_of_def intro!: bexI)
  }
qed

locale runtime_adapter =
  fixes gives :: "dataset_case \<Rightarrow> string \<Rightarrow> agent_output \<Rightarrow> bool"
  assumes well_formed: "gives c version out \<Longrightarrow> well_formed_output out"
begin

lemma case_output_well_formed:
  assumes "engine_run execute clock started completed fresh dataset suite version = Inr run"
    and "\<forall>c out. execute c version = Inr out \<longrightarrow> gives c version out" "cr \<in> set (run_case_results run)"
  shows "well_formed_output (cr_output cr)"
  using engine_run_case [OF assms(1,3)] assms(2) well_formed by blast

lemma failed_case_never_succeeds:
  assumes "engine_run execute clock started completed fresh dataset suite version = Inr run"
    and "\<forall>c out. execute c version = Inr out \<longrightarrow> gives c version out" "cr \<in> set (run_case_results run)"
    and "ao_error (cr_output cr) \<noteq> None"
  shows "cr_status cr = ERROR \<and> \<not> hidden_success cr"
  using case_output_well_formed [OF assms(1-3)] engine_hidden_success [OF assms(1,3)] engine_run_case [OF assms(1,3)] assms(4)
  by (auto simp: well_formed_output_def)

end

subsection \<open>The two adapters\<close>

definition deterministic_gives :: "'s coding_runtime \<Rightarrow> dataset_case \<Rightarrow> string \<Rightarrow> agent_output \<Rightarrow> bool" where
  "deterministic_gives R c version out \<longleftrightarrow>
     (\<exists>clock started duration i st st'. runtime_execute R clock started duration
        \<lparr>ai_case_id = i, ai_case = Case_variable c\<rparr> version st = Some (Inr out, st'))"

lemma runtime_output_well_formed:
  assumes "runtime_execute R clock started duration request version st = Some (Inr out, st')"
  shows "well_formed_output out"
proof -
  obtain c where c: "ai_case request = Case_variable c"
    using assms by (cases "ai_case request") (simp_all add: runtime_execute_def)
  let ?steps = "add_step clock Step_message [(''role'', JStr ''user''), (''content'', JStr (''repair '' @ ai_case_id request))] []"
  obtain p where p: "propose_source R clock started duration version c ?steps = Inr p"
    using assms c by (cases "propose_source R clock started duration version c ?steps") (simp_all add: runtime_execute_def)
  show ?thesis
  proof (cases p)
    case (Inl failed)
    then have "out = failed" using assms c p by (simp add: runtime_execute_def)
    moreover from p Inl obtain service model e steps where "failed = failed_output R clock started duration service model e steps"
      by (auto simp: propose_source_def Let_def bind_result_def split: sum.splits option.splits if_splits)
    ultimately show ?thesis by (simp add: well_formed_output_def failed_output_def Let_def)
  next
    case (Inr test)
    obtain patched metadata steps where test: "test = (patched, metadata, steps)" by (cases test)
    obtain r where "out = tested_output clock started duration metadata steps r"
      using assms c p Inr test by (auto simp: runtime_execute_def split: option.splits prod.splits sum.splits)
    then show ?thesis by (simp add: well_formed_output_def tested_output_def Let_def)
  qed
qed

interpretation det: runtime_adapter "deterministic_gives R" for R
  by unfold_locales (auto simp: deterministic_gives_def dest: runtime_output_well_formed)

definition langgraph_gives :: "langgraph_adapter \<Rightarrow> dataset_case \<Rightarrow> string \<Rightarrow> agent_output \<Rightarrow> bool" where
  "langgraph_gives A c version out \<longleftrightarrow>
     (\<exists>clock started duration stream. out = langgraph_execute A clock started duration version stream)"

lemma langgraph_output_well_formed: "well_formed_output (langgraph_execute A clock started duration version (parts, ended))"
proof -
  obtain r s where run: "capture_stream A clock parts ended initial_capture = (r, s)" by fastforce
  have error: "well_formed_output (out\<lparr>ao_runtime_metadata := m\<rparr>)"
    if "out = error_output A clock started duration version e steps" for out e steps m
    using that by (simp add: well_formed_output_def error_output_def graph_output_def Let_def)
  show ?thesis
  proof (cases "bind_result r (\<lambda>_. finished_state s)")
    case (Inl e)
    then show ?thesis using run by (simp add: langgraph_execute_def Let_def error [OF refl])
  next
    case (Inr state)
    obtain r2 steps2 where read: "output_from_state A clock started duration version state (cs_steps s) = (r2, steps2)" by fastforce
    show ?thesis
    proof (cases r2)
      case (Inl e)
      then show ?thesis using run Inr read by (simp add: langgraph_execute_def Let_def error [OF refl])
    next
      case success: (Inr out)
      then show ?thesis using run Inr read output_from_state_success [OF read [unfolded success]]
        by (simp add: langgraph_execute_def Let_def well_formed_output_def)
    qed
  qed
qed

interpretation lang: runtime_adapter "langgraph_gives A" for A
  by unfold_locales (auto simp: langgraph_gives_def langgraph_output_well_formed)

text \<open>C13. Whichever adapter runs the cases, an evaluation counts a case as a hidden success exactly when the suite evaluates
  \<open>hidden_test_success\<close>, no error ended the case, and the hidden test's output is \<open>ok\<close>; and a case that an error
  ended is recorded with status \<open>error\<close>.\<close>

theorem hidden_success_exact:
  assumes "engine_run execute clock started completed fresh dataset suite version = Inr run" "cr \<in> set (run_case_results run)"
    and "(\<forall>c out. execute c version = Inr out \<longrightarrow> deterministic_gives R c version out)
       \<or> (\<forall>c out. execute c version = Inr out \<longrightarrow> langgraph_gives A c version out)"
  shows "(hidden_success cr \<longleftrightarrow> ''hidden_test_success'' \<in> set (es_evaluators suite) \<and> ao_error (cr_output cr) = None
        \<and> ao_hidden_test_output (cr_output cr) = ''ok'')
    \<and> (ao_error (cr_output cr) = None \<or> cr_status cr = ERROR)"
proof -
  have "ao_error (cr_output cr) \<noteq> None \<Longrightarrow> cr_status cr = ERROR \<and> \<not> hidden_success cr"
    using assms(3) det.failed_case_never_succeeds [OF assms(1) _ assms(2)] lang.failed_case_never_succeeds [OF assms(1) _ assms(2)]
    by blast
  then show ?thesis using engine_hidden_success [OF assms(1,2)] by blast
qed

theorem hidden_success_exact_witness:
  "\<exists>(run :: evaluation_run) cr. cr \<in> set (run_case_results run) \<and> cr_status cr = PASSED \<and> hidden_success cr"
proof -
  let ?suite = "\<lparr>es_name = ''s'', es_dataset_path = ''d'', es_evaluators = [''hidden_test_success''], es_concurrency = 1\<rparr>"
  let ?dataset = "\<lparr>dset_name = ''d'', dset_version = ''v'', dset_cases = [ex_case], dset_slices = []\<rparr>"
  obtain r where r: "sandbox_run toy_executor ex_sandbox ex_case ex_patched (0, []) = Some (Inr r, (0, []))"
    "sr_public_passed r" "sr_hidden_passed r" "sr_hidden_test_output r = ''ok''"
    using toy_sandbox_run by blast
  have "runtime_execute toy_runtime int 0 0 toy_request ''baseline'' (0, [])
      = Some (Inr (tested_output int 0 0 [(''provider'', JStr ''deterministic'')]
          (add_step int Step_message [(''role'', JStr ''user''), (''content'', JStr (''repair '' @ ai_case_id toy_request))] []) r), (0, []))"
    using r by (simp add: runtime_execute_def toy_request_def toy_proposed toy_runtime_def)
  then obtain out where out: "toy_outcome_of ex_case ''baseline'' = Inr out" "ao_status out = PASSED" "ao_error out = None"
    "ao_hidden_test_output out = ''ok''"
    using r by (simp add: toy_outcome_of_def tested_output_def Let_def)
  obtain run cr where run: "engine_run toy_outcome_of (\<lambda>_. (0, 0)) 0 0 0 ?dataset ?suite ''baseline'' = Inr run"
    and cr: "cr \<in> set (run_case_results run)" "cr_status cr = PASSED" "cr_output cr = out"
    using out by (simp add: engine_run_def run_case_def evaluate_hidden)
  have "\<forall>c out. toy_outcome_of c ''baseline'' = Inr out \<longrightarrow> deterministic_gives toy_runtime c ''baseline'' out"
    using toy_runs_on unfolding runs_on_def deterministic_gives_def by blast
  from hidden_success_exact [OF run cr(1) disjI1 [OF this]] cr out have "hidden_success cr" by simp
  then show ?thesis using cr by blast
qed

subsection \<open>A silent failure counts as a success\<close>

text \<open>C14. A test that fails without output counts as passed for the evaluators: when the test process ends with a status
  other than zero and prints nothing (as after \<open>raise SystemExit(1)\<close>), the runtime records the case as failed, yet both
  test evaluators pass it, because the executor turns an empty output into \<open>ok\<close>, the text the evaluators look for.\<close>

theorem silent_failure_counts_as_success:
  assumes "rt_executor R = process_executor python show_float decode_replace subprocess"
    and "\<And>request st. subprocess request st = (Process_exit code [] [], pr_files request, st)" "code \<noteq> 0"
    and "propose_source R clock started duration version c
           (add_step clock Step_message [(''role'', JStr ''user''), (''content'', JStr (''repair '' @ i))] [])
         = Inr (Inr (patched, metadata, steps))"
    and "validate_source (cs_parse (rt_sandbox R)) patched (cs_policy (rt_sandbox R)) = Inr None"
    and "vulnerable_source c = Inr before" "2 \<le> sp_max_output_bytes (cs_policy (rt_sandbox R))"
  shows "\<exists>out. runtime_execute R clock started duration \<lparr>ai_case_id = i, ai_case = Case_variable c\<rparr> version st = Some (Inr out, st)
    \<and> ao_status out = FAILED
    \<and> public_test_success c out = Inr (result_of ''public_test_success'' True)
    \<and> hidden_test_success c out = Inr (result_of ''hidden_test_success'' True)"
proof -
  have test: "sandbox_test (rt_executor R) (rt_sandbox R) files source s
      = Some (Inr (False, ''ok''), dict_set ''_aecontrol_test.py'' source files, s)"
    if "map_of files ''app.py'' \<noteq> None" for files source s
    using that assms(2,3,7)
    by (auto simp: assms(1) sandbox_test_def Let_def process_executor_def process_run_test_def process_verdict_def strip_def
        truncate_output_def utf8_def)
  have "\<exists>r. sandbox_run (rt_executor R) (rt_sandbox R) c patched st = Some (Inr r, st) \<and> \<not> sr_public_passed r
      \<and> sr_public_test_output r = ''ok'' \<and> sr_hidden_test_output r = ''ok''"
    unfolding sandbox_run_def assms(5,6) sum.case option.case Let_def by (simp add: test)
  then obtain r where r: "sandbox_run (rt_executor R) (rt_sandbox R) c patched st = Some (Inr r, st)" "\<not> sr_public_passed r"
    "sr_public_test_output r = ''ok''" "sr_hidden_test_output r = ''ok''" by blast
  then show ?thesis
    using assms(4) by (simp add: runtime_execute_def tested_output_def Let_def public_test_success_def hidden_test_success_def)
qed

definition ex_silent_runtime :: "nat coding_runtime" where
  "ex_silent_runtime = \<lparr>rt_executor = process_executor ''python'' (\<lambda>_. ''5.0'') (\<lambda>s. s) (\<lambda>request st. (Process_exit 1 [] [], pr_files request, st)),
     rt_sandbox = ex_sandbox, rt_repair = (\<lambda>_ _ _. Inl (ValueError [])), rt_error_type = (\<lambda>_. ''E''), rt_error_text = (\<lambda>_. [])\<rparr>"

theorem silent_failure_counts_as_success_witness:
  "\<exists>out. ao_status out = FAILED \<and> hidden_test_success ex_case out = Inr (result_of ''hidden_test_success'' True)"
proof -
  obtain before where before: "vulnerable_source ex_case = Inr before" by (simp add: vulnerable_source_def ex_case_def)
  have executor: "rt_executor ex_silent_runtime =
      process_executor ''python'' (\<lambda>_. ''5.0'') (\<lambda>s. s) (\<lambda>request st. (Process_exit 1 [] [], pr_files request, st))"
    and sandbox: "rt_sandbox ex_silent_runtime = ex_sandbox"
    by (simp_all add: ex_silent_runtime_def)
  have "2 \<le> sp_max_output_bytes (cs_policy (rt_sandbox ex_silent_runtime))"
    by (simp add: sandbox ex_sandbox_def DEFAULT_SANDBOX_POLICY_def)
  from silent_failure_counts_as_success [OF executor refl _ toy_proposed ex_screened [folded sandbox] before this, of int 0 0 "[]" 0]
  show ?thesis by auto
qed

subsection \<open>A null usage escapes\<close>

text \<open>An answer of an OpenAI-compatible endpoint with a valid repair and a \<open>usage\<close> of null does not become an output:
  the \<open>AttributeError\<close> of \<open>usage.get\<close> passes the runtime's handlers and ends the run, although a repair was there.\<close>

theorem null_usage_escapes:
  assumes "rt_repair R = service_repair P S urlopen loads clients"
    and "select_service version = Inr (Some (Service_openai, model))" "repair_prompt c = Inr prompt"
    and "compatible_request urlopen loads (sc_openai clients) ''POST'' ''/chat/completions'' (Some (compatible_body S model prompt))
           = Inr response"
    and "compatible_choice S response = Inr (choice, source)" "map_of response ''usage'' = Some JNull"
  shows "runtime_execute R clock started duration \<lparr>ai_case_id = i, ai_case = Case_variable c\<rparr> version st
    = Some (Inl (AttributeError ''object has no attribute get''), st)"
proof -
  have "rt_repair R Service_openai model c = Inl (AttributeError ''object has no attribute get'')"
    using assms by (simp add: service_repair_def compatible_repair_def compatible_metadata_def json_get_def Let_def)
  then show ?thesis
    using assms(2) by (simp add: runtime_execute_def propose_source_def Let_def service_failure_def is_value_error_def)
qed

definition ex_completion :: "(string \<times> json) list" where
  "ex_completion = [(''choices'', JList [JObj [(''message'', JObj [(''content'', JStr ''payload'')])]]), (''usage'', JNull)]"

theorem null_usage_escapes_witness:
  "\<exists>R :: nat coding_runtime. runtime_execute R int 0 0 \<lparr>ai_case_id = ''D-1'', ai_case = Case_variable ex_case\<rparr> ''openai/m'' 0
     = Some (Inl (AttributeError ''object has no attribute get''), 0)"
proof -
  let ?S = "\<lparr>rs_json_schema = JObj [], rs_parse_json = (\<lambda>_. Some ''source'')\<rparr>"
  let ?urlopen = "(\<lambda>_. Inr ''body'') :: transport" and ?loads = "\<lambda>_. Inr (JObj ex_completion)"
  let ?R = "ex_silent_runtime\<lparr>rt_repair := service_repair toy_primitives ?S ?urlopen ?loads toy_services\<rparr>"
  have repair: "rt_repair ?R = service_repair toy_primitives ?S ?urlopen ?loads toy_services" by simp
  have selected: "select_service ''openai/m'' = Inr (Some (Service_openai, ''m''))"
    by (simp add: select_service_def parse_ollama_agent_version_def parse_openai_agent_version_def
        parse_nim_agent_version_def parse_bedrock_agent_version_def parse_prefixed_version_def starts_with_def strip_def is_space_def)
  obtain prompt where prompt: "repair_prompt ex_case = Inr prompt"
    by (simp add: repair_prompt_def vulnerable_source_def ex_case_def)
  have request: "compatible_request ?urlopen ?loads (sc_openai toy_services) ''POST'' ''/chat/completions'' body = Inr ex_completion" for body
    by (simp add: compatible_request_def object_request_def)
  have answer: "compatible_choice ?S ex_completion = Inr (JObj [(''message'', JObj [(''content'', JStr ''payload'')])], ''source'')"
    "map_of ex_completion ''usage'' = Some JNull"
    by (simp_all add: compatible_choice_def ex_completion_def json_item_def json_first_def validate_repair_json_def)
  show ?thesis using null_usage_escapes [OF repair selected prompt request answer] by blast
qed

subsection \<open>The regressed agent\<close>

text \<open>The regressed agent differs from the baseline on its two security cases and nowhere else.\<close>

lemma regressed_agent_differs:
  "regressed_repair c \<noteq> fixed_source c \<longleftrightarrow> dc_bug_kind c = ''security'' \<and> dc_case_id c \<in> {''SEC-01'', ''SEC-04''}"
proof -
  have "insecure_security_source c \<noteq> fixed_source c" if "dc_bug_kind c = ''security''"
    using that by (simp add: insecure_security_source_def fixed_source_def unlines_def)
  then show ?thesis by (auto simp: regressed_repair_def insecure_security_source_def)
qed

end
