(* ===== verification/Tracing.thy ===== *)
theory Tracing
  imports Job_Models Url
begin

section \<open>Traces and telemetry settings (\<open>tracing.py\<close>, \<open>telemetry.py\<close>, \<open>database.py\<close>)\<close>

text \<open>
  The W3C trace context, spans around an operation with the context variable they bind, the choice of the trace
  exporter, and the database pool settings. A backend of spans is a record of functions on the state of the world;
  the OpenTelemetry library, the random tokens and the number parsers are parameters.
\<close>

subsection \<open>The trace context\<close>

definition lower_hex :: "(char \<times> char) list" where "lower_hex = digits09 @ [(CHR ''a'', CHR ''f'')]"

record trace_context =
  tx_trace_id :: string
  tx_span_id :: string
  tx_flags :: string
  tx_parent_span_id :: "string option"

definition traceparent_of :: "trace_context \<Rightarrow> string" where
  "traceparent_of c = ''00-'' @ tx_trace_id c @ ''-'' @ tx_span_id c @ ''-'' @ tx_flags c"

definition TRACEPARENT_PATTERN :: regex where
  "TRACEPARENT_PATTERN =
     Seq (lit ''00-'') (Seq (exactly 32 (Cls lower_hex)) (Seq (lit ''-'') (Seq (exactly 16 (Cls lower_hex))
       (Seq (lit ''-'') (exactly 2 (Cls lower_hex))))))"

text \<open>The groups of a match stand at fixed positions.\<close>

definition parse_traceparent :: "string option \<Rightarrow> trace_context option" where
  "parse_traceparent value =
     (case value of
        None \<Rightarrow> None
      | Some text \<Rightarrow>
          let s = lower (strip text);
              trace_id = take 32 (List.drop 3 s); span_id = take 16 (List.drop 36 s); flags = List.drop 53 s in
          if text = [] \<or> \<not> fullmatch TRACEPARENT_PATTERN s
             \<or> trace_id = replicate 32 CHR ''0'' \<or> span_id = replicate 16 CHR ''0''
          then None
          else Some \<lparr>tx_trace_id = trace_id, tx_span_id = span_id, tx_flags = flags, tx_parent_span_id = None\<rparr>)"

text \<open>\<open>token_hex(16)\<close> and \<open>token_hex(8)\<close> are arguments.\<close>

definition new_trace :: "string \<Rightarrow> string \<Rightarrow> string option \<Rightarrow> trace_context" where
  "new_trace token16 token8 parent =
     (case parse_traceparent parent of
        None \<Rightarrow> \<lparr>tx_trace_id = token16, tx_span_id = token8, tx_flags = ''01'', tx_parent_span_id = None\<rparr>
      | Some p \<Rightarrow>
          \<lparr>tx_trace_id = tx_trace_id p, tx_span_id = token8, tx_flags = tx_flags p,
           tx_parent_span_id = Some (tx_span_id p)\<rparr>)"

subsection \<open>Spans\<close>

text \<open>A backend, with the state it keeps behind a span as a number; \<open>None\<close> is a span without one.\<close>

record active_span =
  as_context :: trace_context
  as_state :: "nat option"

type_synonym span_attributes = "(string, json) dict"

record 's span_backend =
  sb_start :: "string \<Rightarrow> string option \<Rightarrow> span_attributes \<Rightarrow> 's \<Rightarrow> active_span result \<times> 's"
  sb_finish :: "active_span \<Rightarrow> string \<Rightarrow> exn option \<Rightarrow> 's \<Rightarrow> unit result \<times> 's"

record 's trace_world =
  tw_random :: "nat \<Rightarrow> 's \<Rightarrow> string \<times> 's"
  tw_serializable :: "span_attributes \<Rightarrow> bool"

definition local_backend :: "'s trace_world \<Rightarrow> 's span_backend" where
  "local_backend W =
     \<lparr>sb_start = (\<lambda>name parent attributes st.
        case parse_traceparent parent of
          None \<Rightarrow> (case tw_random W 16 st of (token16, st1) \<Rightarrow>
                  case tw_random W 8 st1 of (token8, st2) \<Rightarrow>
                    (Inr \<lparr>as_context = new_trace token16 token8 parent, as_state = None\<rparr>, st2))
        | Some _ \<Rightarrow> (case tw_random W 8 st of (token8, st1) \<Rightarrow>
                    (Inr \<lparr>as_context = new_trace [] token8 parent, as_state = None\<rparr>, st1))),
      sb_finish = (\<lambda>active outcome error st. (Inr (), st))\<rparr>"

text \<open>\<open>attach_trace\<close>; the context variable is part of the state.\<close>

definition attach_trace :: "string \<Rightarrow> string option \<Rightarrow> string option result" where
  "attach_trace traceparent current =
     (if parse_traceparent (Some traceparent) = None then Inl (ValueError ''invalid W3C traceparent'')
      else Inr (Some traceparent))"

text \<open>
  \<open>span\<close> around a body: the body runs on the context variable and the world, and so does what is around it. The
  message of the span is logged with its attributes, which have to be serialisable.
\<close>

definition with_span ::
  "'s trace_world \<Rightarrow> 's span_backend \<Rightarrow> string \<Rightarrow> string option \<Rightarrow> span_attributes
     \<Rightarrow> (trace_context \<Rightarrow> string option \<times> 's \<Rightarrow> 'a result \<times> string option \<times> 's)
     \<Rightarrow> string option \<times> 's \<Rightarrow> 'a result \<times> string option \<times> 's" where
  "with_span W backend name parent attributes body = (\<lambda>(current, st).
     let resolved_parent = (case parent of None \<Rightarrow> current | Some p \<Rightarrow> if p = [] then current else Some p) in
     case (case sb_start backend name resolved_parent attributes st of
             (Inr active, st1) \<Rightarrow> (backend, active, st1)
           | (Inl _, st1) \<Rightarrow>
               (case sb_start (local_backend W) name resolved_parent attributes st1 of
                  (Inr active, st2) \<Rightarrow> (local_backend W, active, st2)
                | (Inl _, st2) \<Rightarrow> (local_backend W, \<lparr>as_context = new_trace [] [] None, as_state = None\<rparr>, st2))) of
       (used, active, st1) \<Rightarrow>
         let context = as_context active in
         (case attach_trace (traceparent_of context) current of
            Inl e \<Rightarrow> (Inl e, current, st1)
          | Inr attached \<Rightarrow>
              (case body context (attached, st1) of
                 (r, inner, st2) \<Rightarrow>
                   let (outcome, error) = (case r of Inl e \<Rightarrow> (''error'', Some e) | Inr _ \<Rightarrow> (''ok'', None)) in
                   (case sb_finish used active outcome error st2 of
                      (_, st3) \<Rightarrow>
                        if tw_serializable W attributes then (r, current, st3)
                        else (Inl (TypeError ''Object is not JSON serializable''), inner, st3)))))"

subsection \<open>Telemetry\<close>

record telemetry_configuration =
  tc_enabled :: bool
  tc_mode :: string
  tc_protocol :: "string option"
  tc_endpoint_host :: "string option"

definition env_is_true :: "string option \<Rightarrow> bool" where
  "env_is_true value = (case value of
     None \<Rightarrow> False | Some v \<Rightarrow> lower (strip v) \<in> {''1'', ''true'', ''yes'', ''on''})"

definition first_nonempty :: "string option list \<Rightarrow> string \<Rightarrow> string" where
  "first_nonempty candidates fallback = (case filter truthy candidates of Some v # _ \<Rightarrow> v | _ \<Rightarrow> fallback)"

definition telemetry_configuration_from_environment ::
  "(string \<Rightarrow> bool) \<Rightarrow> (string \<Rightarrow> string option) \<Rightarrow> telemetry_configuration result" where
  "telemetry_configuration_from_environment ip_ok env =
     (let disabled = \<lparr>tc_enabled = False, tc_mode = ''json-log'', tc_protocol = None, tc_endpoint_host = None\<rparr>;
          get = (\<lambda>name. case env name of None \<Rightarrow> [] | Some v \<Rightarrow> strip v);
          endpoint = (if get ''OTEL_EXPORTER_OTLP_TRACES_ENDPOINT'' \<noteq> [] then get ''OTEL_EXPORTER_OTLP_TRACES_ENDPOINT''
                      else get ''OTEL_EXPORTER_OTLP_ENDPOINT'');
          protocol = lower (strip (first_nonempty [env ''OTEL_EXPORTER_OTLP_TRACES_PROTOCOL'', env ''OTEL_EXPORTER_OTLP_PROTOCOL'']
                      ''http/protobuf'')) in
      if env_is_true (env ''OTEL_SDK_DISABLED'') then Inr disabled
      else if endpoint = [] then Inr disabled
      else if protocol \<noteq> ''http/protobuf''
      then Inl (ValueError ''AgentEval supports OTLP trace export over http/protobuf'')
      else
        bind_result (urlsplit ip_ok endpoint) (\<lambda>parsed.
        if up_scheme parsed \<notin> {''http'', ''https''} \<or> \<not> truthy (url_hostname parsed)
        then Inl (ValueError ''OTLP endpoint must be an absolute HTTP(S) URL'')
        else Inr \<lparr>tc_enabled = True, tc_mode = ''otlp/http'', tc_protocol = Some protocol,
               tc_endpoint_host = url_hostname parsed\<rparr>))"

datatype span_kind = Server | Consumer | Internal

definition span_kind_of :: "string \<Rightarrow> span_kind" where
  "span_kind_of name = (if name = ''http.request'' then Server else if name = ''evaluation.job'' then Consumer else Internal)"

definition attribute_name :: "string \<Rightarrow> string" where
  "attribute_name key =
     dict_get [(''method'', ''http.request.method''), (''path'', ''url.path''), (''job_id'', ''aecontrol.job.id''),
       (''worker_id'', ''aecontrol.worker.id''), (''agent_version'', ''aecontrol.agent.version'')] key (''aecontrol.'' @ key)"

fun is_scalar_attribute :: "json \<Rightarrow> bool" where
  "is_scalar_attribute (JBool _) = True"
| "is_scalar_attribute (JInt _) = True"
| "is_scalar_attribute (JFloat _) = True"
| "is_scalar_attribute (JStr _) = True"
| "is_scalar_attribute _ = False"

definition is_attribute_value :: "json \<Rightarrow> bool" where
  "is_attribute_value v = (is_scalar_attribute v \<or> (case v of JList vs \<Rightarrow> list_all is_scalar_attribute vs | _ \<Rightarrow> False))"

definition semantic_attributes :: "span_attributes \<Rightarrow> span_attributes" where
  "semantic_attributes attributes =
     fold (\<lambda>(key, value) sanitized.
         if is_attribute_value value then dict_set (attribute_name key) value sanitized else sanitized) attributes []"

subsection \<open>The backend variable\<close>

text \<open>A backend by its name: the local one or an exporter's.\<close>

datatype backend_choice = Local_backend | Exporter_backend string

text \<open>\<open>configure_telemetry_from_environment\<close>: its result, the backend afterwards, and the backend that was shut down.\<close>

definition configure_telemetry ::
  "(string \<Rightarrow> bool) \<Rightarrow> (string \<Rightarrow> string option) \<Rightarrow> backend_choice
     \<Rightarrow> telemetry_configuration result \<times> backend_choice \<times> backend_choice option" where
  "configure_telemetry ip_ok env backend =
     (case telemetry_configuration_from_environment ip_ok env of
        Inl e \<Rightarrow> (Inl e, backend, None)
      | Inr c \<Rightarrow>
          if \<not> tc_enabled c then (Inr c, Local_backend, Some backend)
          else
            let name = (case env ''OTEL_SERVICE_NAME'' of None \<Rightarrow> ''aecontrol'' | Some v \<Rightarrow> strip v) in
            (Inr c, Exporter_backend (if name = [] then ''aecontrol'' else name), Some backend))"

subsection \<open>Database settings\<close>

record database_configuration =
  db_pool_min_size :: int
  db_pool_max_size :: int
  db_pool_timeout_seconds :: py_float
  db_pool_max_waiting :: int
  db_migration_lock_timeout_seconds :: py_float

definition float_within :: "rat \<Rightarrow> rat \<Rightarrow> py_float \<Rightarrow> bool" where
  "float_within lo hi x = (case x of PyFinite v \<Rightarrow> lo \<le> v \<and> v \<le> hi | _ \<Rightarrow> False)"

definition make_database_configuration :: "database_configuration \<Rightarrow> database_configuration result" where
  "make_database_configuration c =
     (if db_pool_max_size c = 0 \<and> db_pool_min_size c \<noteq> 0
      then Inl (ValueError ''database pool minimum must be zero when pooling is disabled'')
      else if db_pool_max_size c \<noteq> 0
          \<and> \<not> (1 \<le> db_pool_min_size c \<and> db_pool_min_size c \<le> db_pool_max_size c \<and> db_pool_max_size c \<le> 100)
      then Inl (ValueError ''database pool sizes must satisfy 1 <= min <= max <= 100'')
      else if \<not> float_within (1 / 10) 60 (db_pool_timeout_seconds c)
      then Inl (ValueError ''database pool timeout must be between 0.1 and 60 seconds'')
      else if \<not> (0 \<le> db_pool_max_waiting c \<and> db_pool_max_waiting c \<le> 10000)
      then Inl (ValueError ''database pool maximum waiting requests must be between 0 and 10000'')
      else if \<not> float_within (1 / 10) 300 (db_migration_lock_timeout_seconds c)
      then Inl (ValueError ''database migration lock timeout must be between 0.1 and 300 seconds'')
      else Inr c)"

definition pooling_enabled :: "database_configuration \<Rightarrow> bool" where
  "pooling_enabled c = (db_pool_max_size c > 0)"

definition env_number :: "(string \<Rightarrow> 'n option) \<Rightarrow> string \<Rightarrow> (string \<Rightarrow> string option) \<Rightarrow> string \<Rightarrow> 'n \<Rightarrow> 'n result" where
  "env_number parse message env name fallback =
     (case env name of
        None \<Rightarrow> Inr fallback
      | Some v \<Rightarrow> (case parse v of None \<Rightarrow> Inl (ValueError (name @ message)) | Some n \<Rightarrow> Inr n))"

definition database_configuration_from_environment ::
  "(string \<Rightarrow> int option) \<Rightarrow> (string \<Rightarrow> py_float option) \<Rightarrow> (string \<Rightarrow> string option) \<Rightarrow> database_configuration result" where
  "database_configuration_from_environment parse_int parse_float env =
     (let integer = env_number parse_int '' must be an integer'' env;
          floating = env_number parse_float '' must be a number'' env in
      bind_result (integer ''AECONTROL_DATABASE_POOL_MAX_SIZE'' 0) (\<lambda>maximum.
      bind_result (integer ''AECONTROL_DATABASE_POOL_MIN_SIZE'' (if maximum > 0 then 1 else 0)) (\<lambda>minimum.
      bind_result (floating ''AECONTROL_DATABASE_POOL_TIMEOUT_SECONDS'' (PyFinite 5)) (\<lambda>timeout.
      bind_result (integer ''AECONTROL_DATABASE_POOL_MAX_WAITING'' 20) (\<lambda>waiting.
      bind_result (floating ''AECONTROL_DATABASE_MIGRATION_LOCK_TIMEOUT_SECONDS'' (PyFinite 30)) (\<lambda>migration.
      make_database_configuration
        \<lparr>db_pool_min_size = minimum, db_pool_max_size = maximum, db_pool_timeout_seconds = timeout,
         db_pool_max_waiting = waiting, db_migration_lock_timeout_seconds = migration\<rparr>))))))"

end
