(* ===== verification/Tracing_Properties.thy ===== *)
theory Tracing_Properties
  imports Tracing
begin

section \<open>Properties of traces\<close>

text \<open>
  A trace context survives its header; a span leaves the context variable as it found it, whatever its body does, and
  its body runs under the trace of the parent.
\<close>

definition hex_word :: "nat \<Rightarrow> string \<Rightarrow> bool" where
  "hex_word n s \<longleftrightarrow> length s = n \<and> (\<forall>c \<in> set s. in_class c lower_hex)"

definition valid_trace_context :: "trace_context \<Rightarrow> bool" where
  "valid_trace_context c \<longleftrightarrow>
     hex_word 32 (tx_trace_id c) \<and> hex_word 16 (tx_span_id c) \<and> hex_word 2 (tx_flags c)
   \<and> tx_trace_id c \<noteq> replicate 32 CHR ''0'' \<and> tx_span_id c \<noteq> replicate 16 CHR ''0''"

lemma hex_word_exactly: "in_lang s (exactly n (Cls lower_hex)) \<longleftrightarrow> hex_word n s"
  by (simp add: in_lang_exactly_Cls hex_word_def)

lemma in_lang_lit_Seq: "in_lang s (Seq (lit u) r) \<longleftrightarrow> (\<exists>v. s = u @ v \<and> in_lang v r)"
  by (simp add: in_lang_Seq in_lang_lit)

lemma in_lang_hex_Seq:
  "in_lang s (Seq (exactly n (Cls lower_hex)) r) \<longleftrightarrow> (\<exists>u v. s = u @ v \<and> hex_word n u \<and> in_lang v r)"
  by (simp only: in_lang_Seq hex_word_exactly)

lemma traceparent_match:
  "fullmatch TRACEPARENT_PATTERN s \<longleftrightarrow>
     (\<exists>t p f. s = ''00-'' @ t @ ''-'' @ p @ ''-'' @ f \<and> hex_word 32 t \<and> hex_word 16 p \<and> hex_word 2 f)"
  unfolding fullmatch_iff TRACEPARENT_PATTERN_def in_lang_lit_Seq in_lang_hex_Seq hex_word_exactly
  by (metis (no_types, lifting))

lemma hex_plain: "in_class c lower_hex \<Longrightarrow> \<not> is_space c \<and> lower_char c = c"
  by (auto simp: in_class_def lower_hex_def is_space_def lower_char_def)

lemma plain_text:
  assumes "\<forall>c \<in> set s. \<not> is_space c \<and> lower_char c = c"
  shows "lower (strip s) = s"
proof -
  have keep: "dropWhile is_space xs = xs" if "\<forall>c \<in> set xs. \<not> is_space c" for xs
    using that by (cases xs) auto
  have "strip s = s" using assms by (simp add: strip_def keep)
  then show ?thesis using assms by (simp add: lower_def map_idI)
qed

lemma traceparent_plain:
  assumes "hex_word 32 t" "hex_word 16 p" "hex_word 2 f"
  shows "lower (strip (''00-'' @ t @ ''-'' @ p @ ''-'' @ f)) = ''00-'' @ t @ ''-'' @ p @ ''-'' @ f"
  using assms hex_plain by (intro plain_text) (auto simp: hex_word_def is_space_def lower_char_def)

lemma parse_traceparent_of:
  assumes "hex_word 32 t" "hex_word 16 p" "hex_word 2 f" "t \<noteq> replicate 32 CHR ''0''" "p \<noteq> replicate 16 CHR ''0''"
  shows "parse_traceparent (Some (''00-'' @ t @ ''-'' @ p @ ''-'' @ f))
    = Some \<lparr>tx_trace_id = t, tx_span_id = p, tx_flags = f, tx_parent_span_id = None\<rparr>"
proof -
  have lengths: "length t = 32" "length p = 16" using assms by (simp_all add: hex_word_def)
  have "fullmatch TRACEPARENT_PATTERN (''00-'' @ t @ ''-'' @ p @ ''-'' @ f)" using assms traceparent_match by blast
  then show ?thesis
    unfolding parse_traceparent_def option.case Let_def traceparent_plain [OF assms(1-3)]
    using assms(4,5) lengths by (simp del: fullmatch.simps)
qed

lemma parse_traceparent_valid:
  assumes "parse_traceparent v = Some c"
  shows "valid_trace_context c \<and> tx_parent_span_id c = None"
proof -
  obtain raw where raw: "v = Some raw" "raw \<noteq> []" "fullmatch TRACEPARENT_PATTERN (lower (strip raw))"
    using assms by (auto simp: parse_traceparent_def Let_def simp del: fullmatch.simps split: option.splits if_splits)
  obtain t p f where parts: "lower (strip raw) = ''00-'' @ t @ ''-'' @ p @ ''-'' @ f" "hex_word 32 t" "hex_word 16 p" "hex_word 2 f"
    using raw(3) traceparent_match by blast
  have lengths: "length t = 32" "length p = 16" using parts by (simp_all add: hex_word_def)
  have slices: "take 32 (List.drop 3 (lower (strip raw))) = t" "take 16 (List.drop 36 (lower (strip raw))) = p"
    "List.drop 53 (lower (strip raw)) = f"
    using parts(1) lengths by simp_all
  have "c = \<lparr>tx_trace_id = t, tx_span_id = p, tx_flags = f, tx_parent_span_id = None\<rparr>"
    and "t \<noteq> replicate 32 CHR ''0''" "p \<noteq> replicate 16 CHR ''0''"
    using assms raw(1,2) unfolding parse_traceparent_def raw(1) option.case Let_def slices
    by (simp_all del: fullmatch.simps split: if_splits)
  with parts show ?thesis by (simp add: valid_trace_context_def)
qed

text \<open>A trace context survives its header: parsing the header of a valid context gives the context without its parent,
  and every header that parses gives a valid context, so a trace is never continued under the reserved all-zero ids.\<close>

theorem traceparent_roundtrip:
  "(if valid_trace_context c
    then parse_traceparent (Some (traceparent_of c)) = Some (c\<lparr>tx_parent_span_id := None\<rparr>)
    else True)
   \<and> (case parse_traceparent header of None \<Rightarrow> True
      | Some p \<Rightarrow> valid_trace_context p \<and> parse_traceparent (Some (traceparent_of p)) = Some p)"
proof -
  have print: "parse_traceparent (Some (traceparent_of c)) = Some (c\<lparr>tx_parent_span_id := None\<rparr>)" if "valid_trace_context c" for c
    using parse_traceparent_of [of "tx_trace_id c" "tx_span_id c" "tx_flags c"] that
    by (simp add: valid_trace_context_def traceparent_of_def)
  show ?thesis using print parse_traceparent_valid [of header] by (auto split: option.splits)
qed

subsection \<open>Spans\<close>

definition good_tokens :: "'s trace_world \<Rightarrow> bool" where
  "good_tokens W \<longleftrightarrow>
     (\<forall>n st. 0 < n \<longrightarrow> hex_word (2 * n) (fst (tw_random W n st)) \<and> fst (tw_random W n st) \<noteq> replicate (2 * n) CHR ''0'')"

lemma good_token_words:
  assumes "good_tokens W"
  shows "hex_word 16 (fst (tw_random W 8 st))" "fst (tw_random W 8 st) \<noteq> replicate 16 CHR ''0''"
    "hex_word 32 (fst (tw_random W 16 st))" "fst (tw_random W 16 st) \<noteq> replicate 32 CHR ''0''"
  using assms [unfolded good_tokens_def, rule_format, of 8 st] assms [unfolded good_tokens_def, rule_format, of 16 st]
  by simp_all

lemma hex_word_01: "hex_word 2 ''01''"
  by (simp add: hex_word_def in_class_def lower_hex_def)

lemma new_trace_valid:
  assumes "hex_word 16 token8" "token8 \<noteq> replicate 16 CHR ''0''"
    and "parse_traceparent parent = None \<Longrightarrow> hex_word 32 token16 \<and> token16 \<noteq> replicate 32 CHR ''0''"
  shows "valid_trace_context (new_trace token16 token8 parent)"
  using assms parse_traceparent_valid [of parent] hex_word_01
  by (auto simp: new_trace_def valid_trace_context_def split: option.splits)

lemma new_trace_continues:
  "parse_traceparent parent = Some p \<Longrightarrow>
     tx_trace_id (new_trace token16 token8 parent) = tx_trace_id p
     \<and> tx_parent_span_id (new_trace token16 token8 parent) = Some (tx_span_id p)"
  by (simp add: new_trace_def)

text \<open>A backend that fails or starts a valid span.\<close>

definition backend_sound :: "'s span_backend \<Rightarrow> bool" where
  "backend_sound B \<longleftrightarrow> (\<forall>name parent attributes st active st'.
     sb_start B name parent attributes st = (Inr active, st') \<longrightarrow> valid_trace_context (as_context active))"

lemma local_start_valid:
  assumes "good_tokens W"
  shows "\<exists>active st'. sb_start (local_backend W) name parent attributes st = (Inr active, st')
     \<and> valid_trace_context (as_context active)"
proof (cases "parse_traceparent parent")
  case None
  obtain t16 st1 where t16: "tw_random W 16 st = (t16, st1)" by force
  obtain t8 st2 where t8: "tw_random W 8 st1 = (t8, st2)" by force
  have "valid_trace_context (new_trace t16 t8 parent)"
    using good_token_words [OF assms, of st] good_token_words [OF assms, of st1] t16 t8 by (intro new_trace_valid) auto
  then show ?thesis by (simp add: local_backend_def None t16 t8)
next
  case (Some p)
  obtain t8 st1 where t8: "tw_random W 8 st = (t8, st1)" by force
  have "valid_trace_context (new_trace [] t8 parent)"
    using good_token_words [OF assms, of st] t8 Some by (intro new_trace_valid) auto
  then show ?thesis by (simp add: local_backend_def Some t8)
qed

lemma local_backend_sound: "good_tokens W \<Longrightarrow> backend_sound (local_backend W)"
  unfolding backend_sound_def by (metis local_start_valid prod.inject sum.inject(2))

lemma header_attaches:
  "valid_trace_context c \<Longrightarrow> attach_trace (traceparent_of c) current = Inr (Some (traceparent_of c))"
  using parse_traceparent_of [of "tx_trace_id c" "tx_span_id c" "tx_flags c"]
  by (simp add: attach_trace_def valid_trace_context_def traceparent_of_def)

lemma span_after_start:
  assumes start: "(case sb_start B name resolved attributes st of
             (Inr active, st1) \<Rightarrow> (B, active, st1)
           | (Inl _, st1) \<Rightarrow>
               (case sb_start (local_backend W) name resolved attributes st1 of
                  (Inr active, st2) \<Rightarrow> (local_backend W, active, st2)
                | (Inl _, st2) \<Rightarrow> (local_backend W, \<lparr>as_context = new_trace [] [] None, as_state = None\<rparr>, st2)))
      = (used, active, st1)"
    and resolved: "resolved = (case parent of None \<Rightarrow> current | Some p \<Rightarrow> if p = [] then current else Some p)"
    and valid: "valid_trace_context (as_context active)" and logged: "tw_serializable W attributes"
    and body: "body (as_context active) (Some (traceparent_of (as_context active)), st1) = (r, inner, st2)"
  shows "\<exists>st3. with_span W B name parent attributes body (current, st) = (r, current, st3)"
  unfolding with_span_def Let_def prod.case resolved [symmetric] start header_attaches [OF valid] sum.case body
  using logged by (auto split: sum.splits prod.splits)

text \<open>A span is transparent: whether the exporter starts the span or fails and the local backend takes over, the body
  runs with a valid trace context bound to the context variable, its result or its exception is the span's, no failure
  of the exporter reaches the caller, and the context variable is what it was before.\<close>

theorem span_transparent:
  assumes "good_tokens W" "backend_sound B" "tw_serializable W attributes"
  shows "\<exists>c st1 st3. valid_trace_context c
     \<and> with_span W B name parent attributes body (current, st)
         = (fst (body c (Some (traceparent_of c), st1)), current, st3)"
proof -
  define resolved where "resolved = (case parent of None \<Rightarrow> current | Some p \<Rightarrow> if p = [] then current else Some p)"
  let ?start = "case sb_start B name resolved attributes st of
             (Inr active, st1) \<Rightarrow> (B, active, st1)
           | (Inl _, st1) \<Rightarrow>
               (case sb_start (local_backend W) name resolved attributes st1 of
                  (Inr active, st2) \<Rightarrow> (local_backend W, active, st2)
                | (Inl _, st2) \<Rightarrow> (local_backend W, \<lparr>as_context = new_trace [] [] None, as_state = None\<rparr>, st2))"
  have "\<exists>used active st1. ?start = (used, active, st1) \<and> valid_trace_context (as_context active)"
  proof (cases "sb_start B name resolved attributes st")
    case (Pair r s)
    show ?thesis
    proof (cases r)
      case (Inr active)
      then have "valid_trace_context (as_context active)"
        using Pair assms(2) [unfolded backend_sound_def, rule_format, of name resolved attributes st active s] by simp
      then show ?thesis using Pair Inr by simp
    next
      case (Inl e)
      obtain active s2 where "sb_start (local_backend W) name resolved attributes s = (Inr active, s2)"
        "valid_trace_context (as_context active)"
        using local_start_valid [OF assms(1)] by blast
      then show ?thesis using Pair Inl by simp
    qed
  qed
  then obtain used active st1 where start: "?start = (used, active, st1)" and valid: "valid_trace_context (as_context active)"
    by blast
  obtain r inner st2 where body: "body (as_context active) (Some (traceparent_of (as_context active)), st1) = (r, inner, st2)"
    by (rule prod_cases3)
  from span_after_start [where body = body, OF start resolved_def valid assms(3) body] valid body
  show ?thesis by (metis fst_conv)
qed

definition toy_world :: "unit trace_world" where
  "toy_world = \<lparr>tw_random = (\<lambda>n st. (replicate (2 * n) CHR ''1'', st)), tw_serializable = (\<lambda>attributes. True)\<rparr>"

definition broken_backend :: "unit span_backend" where
  "broken_backend = \<lparr>sb_start = (\<lambda>name parent attributes st. (Inl (RuntimeError ''exporter down''), st)),
     sb_finish = (\<lambda>active outcome error st. (Inl (RuntimeError ''exporter down''), st))\<rparr>"

lemma toy_world_good: "good_tokens toy_world"
  unfolding good_tokens_def
proof (intro allI impI conjI)
  fix n :: nat and st :: unit
  assume "0 < n"
  show "hex_word (2 * n) (fst (tw_random toy_world n st))"
    by (simp add: toy_world_def hex_word_def in_class_def lower_hex_def)
  from \<open>0 < n\<close> show "fst (tw_random toy_world n st) \<noteq> replicate (2 * n) CHR ''0''"
    by (simp add: toy_world_def replicate_eq_replicate)
qed

theorem span_transparent_witness:
  "\<exists>c st1 st3. valid_trace_context c
     \<and> with_span toy_world broken_backend ''evaluation.job'' None [] (\<lambda>c s. (Inl (ValueError ''boom'') :: unit result, s)) (None, ())
         = (Inl (ValueError ''boom''), None, st3)"
  using span_transparent [OF toy_world_good, of broken_backend "[]" "''evaluation.job''" None
      "\<lambda>c s. (Inl (ValueError ''boom'') :: unit result, s)" None "()"]
  by (simp add: broken_backend_def backend_sound_def toy_world_def)

end
