(* ===== verification/Observability.thy ===== *)
theory Observability
  imports Fleet Demand Guardrails Url
begin

section \<open>Metrics in the Prometheus text format (\<open>observability.py\<close>)\<close>

text \<open>
  The text of \<open>render_prometheus\<close> as its lines, one definition per block of the function, and the escaping of label
  values. The format \<open>:.6f\<close> of a float is a parameter.
\<close>

subsection \<open>Label values\<close>

text \<open>\<open>str.replace\<close> of one character.\<close>

definition replace_char :: "char \<Rightarrow> string \<Rightarrow> string \<Rightarrow> string" where
  "replace_char c r s = concat (map (\<lambda>d. if d = c then r else [d]) s)"

definition escape_label :: "string \<Rightarrow> string" where
  "escape_label value =
     replace_char CHR 0x22 [CHR 0x5C, CHR 0x22] (replace_char CHR 0x0A [CHR 0x5C, CHR ''n'']
       (replace_char CHR 0x5C [CHR 0x5C, CHR 0x5C] value))"

definition quoted :: "string \<Rightarrow> string" where
  "quoted s = CHR 0x22 # s @ [CHR 0x22]"

definition metric_ratio :: "int \<Rightarrow> int \<Rightarrow> rat" where
  "metric_ratio numerator denominator = (if denominator \<noteq> 0 then of_int numerator / of_int denominator else 0)"

subsection \<open>The blocks of the text\<close>

definition metric_help :: "string \<Rightarrow> string \<Rightarrow> string list" where
  "metric_help name help = [''# HELP '' @ name @ '' '' @ help, ''# TYPE '' @ name @ '' gauge'']"

definition sample :: "string \<Rightarrow> string \<Rightarrow> string" where
  "sample name value = name @ '' '' @ value"

definition labelled :: "string \<Rightarrow> string \<Rightarrow> string \<Rightarrow> string" where
  "labelled name labels value = name @ ''{'' @ labels @ ''} '' @ value"

definition job_status_value :: "job_status \<Rightarrow> string" where
  "job_status_value s = (case s of
     QUEUED \<Rightarrow> ''queued'' | RUNNING \<Rightarrow> ''running'' | COMPLETED \<Rightarrow> ''completed'' | FAILED_JOB \<Rightarrow> ''failed''
   | CANCELLED \<Rightarrow> ''cancelled'')"

definition gate_outcome_value :: "gate_outcome \<Rightarrow> string" where
  "gate_outcome_value g = (case g of
     PASS \<Rightarrow> ''PASS'' | WARN \<Rightarrow> ''WARN'' | BLOCK \<Rightarrow> ''BLOCK'' | INCONCLUSIVE \<Rightarrow> ''INCONCLUSIVE'')"

definition confidence_value :: "confidence \<Rightarrow> string" where
  "confidence_value c = (case c of confidence.Unavailable \<Rightarrow> ''unavailable'' | Low \<Rightarrow> ''low'' | High \<Rightarrow> ''high'')"

definition telemetry_source_value :: "telemetry_source \<Rightarrow> string" where
  "telemetry_source_value s = (case s of
     Nvidia_smi \<Rightarrow> ''nvidia-smi'' | Dcgm_exporter \<Rightarrow> ''dcgm-exporter'' | telemetry_source.Unavailable \<Rightarrow> ''unavailable'')"

definition snapshot_lines :: "operational_snapshot \<Rightarrow> string list" where
  "snapshot_lines s =
     metric_help ''aecontrol_runs_total'' ''Persisted evaluation runs.'' @
     [sample ''aecontrol_runs_total'' (nat_str (os_runs_total s))] @
     metric_help ''aecontrol_comparisons_total'' ''Persisted run comparisons.'' @
     [sample ''aecontrol_comparisons_total'' (nat_str (os_comparisons_total s))] @
     metric_help ''aecontrol_guardrail_evidence_total'' ''Persisted NeMo Guardrails checks.'' @
     [sample ''aecontrol_guardrail_evidence_total'' (nat_str (os_guardrail_evidence_total s))] @
     metric_help ''aecontrol_guardrail_interventions_total''
       ''Guardrails checks that changed the submitted text.'' @
     [sample ''aecontrol_guardrail_interventions_total'' (nat_str (os_guardrail_interventions_total s))] @
     metric_help ''aecontrol_jobs'' ''Evaluation jobs by lifecycle state.'' @
     map (\<lambda>status. labelled ''aecontrol_jobs'' (''status='' @ quoted (job_status_value status))
            (nat_str (dict_get (os_job_counts s) status 0)))
       [QUEUED, RUNNING, COMPLETED, FAILED_JOB, CANCELLED]"

record database_pool_snapshot =
  dp_minimum :: int
  dp_maximum :: int
  dp_size :: int
  dp_available :: int
  dp_waiting :: int

definition pool_lines :: "database_pool_snapshot \<Rightarrow> string list" where
  "pool_lines p =
     metric_help ''aecontrol_database_pool_connections'' ''Database connections by pool state.'' @
     [labelled ''aecontrol_database_pool_connections'' (''state='' @ quoted ''size'') (int_str (dp_size p)),
      labelled ''aecontrol_database_pool_connections'' (''state='' @ quoted ''available'') (int_str (dp_available p))] @
     metric_help ''aecontrol_database_pool_limit'' ''Configured database connection pool bounds.'' @
     [labelled ''aecontrol_database_pool_limit'' (''bound='' @ quoted ''minimum'') (int_str (dp_minimum p)),
      labelled ''aecontrol_database_pool_limit'' (''bound='' @ quoted ''maximum'') (int_str (dp_maximum p))] @
     metric_help ''aecontrol_database_pool_waiting_requests''
       ''Requests waiting for a database connection.'' @
     [sample ''aecontrol_database_pool_waiting_requests'' (int_str (dp_waiting p))]"

definition efficacy_lines :: "(py_float \<Rightarrow> string) \<Rightarrow> efficacy_report \<Rightarrow> string list" where
  "efficacy_lines fmt r =
     (let correct = sum_list (map (\<lambda>m. int (em_true_positives m) + int (em_true_negatives m)) (rp_versions r));
          false_positives = sum_list (map (\<lambda>m. int (em_false_positives m)) (rp_versions r));
          true_negatives = sum_list (map (\<lambda>m. int (em_true_negatives m)) (rp_versions r));
          checked = int (rp_labeled_checks r) in
      metric_help ''aecontrol_guardrail_labeled_checks''
        ''Guardrails checks carrying expected-action labels in the reporting window.'' @
      [sample ''aecontrol_guardrail_labeled_checks'' (int_str checked)] @
      metric_help ''aecontrol_guardrail_label_coverage''
        ''Ratio of checks carrying expected-action labels in the reporting window.'' @
      [sample ''aecontrol_guardrail_label_coverage'' (fmt (PyFinite (metric_ratio checked (int (rp_total_checks r)))))] @
      (if checked \<noteq> 0
       then metric_help ''aecontrol_guardrail_policy_accuracy''
              ''Correct expected-action decisions among labeled checks.'' @
            [sample ''aecontrol_guardrail_policy_accuracy'' (fmt (PyFinite (metric_ratio correct checked)))]
       else []) @
      (if false_positives + true_negatives \<noteq> 0
       then metric_help ''aecontrol_guardrail_false_positive_rate''
              ''Unexpected interventions among expected pass-through checks.'' @
            [sample ''aecontrol_guardrail_false_positive_rate''
               (fmt (PyFinite (metric_ratio false_positives (false_positives + true_negatives))))]
       else []))"

definition confidence_lines :: "string \<Rightarrow> confidence \<Rightarrow> string list" where
  "confidence_lines name c =
     map (\<lambda>level. labelled name (''level='' @ quoted level) (if confidence_value c = level then ''1'' else ''0''))
       [''unavailable'', ''low'', ''high'']"

definition optional_sample :: "(py_float \<Rightarrow> string) \<Rightarrow> string \<Rightarrow> rat option \<Rightarrow> string list" where
  "optional_sample fmt name value = (case value of None \<Rightarrow> [] | Some v \<Rightarrow> [sample name (fmt (PyFinite v))])"

definition duration_lines :: "(py_float \<Rightarrow> string) \<Rightarrow> gpu_duration_estimate \<Rightarrow> string list" where
  "duration_lines fmt e =
     (let profile = ''mig_profile='' @ quoted (escape_label (case de_mig_profile e of
             None \<Rightarrow> ''all'' | Some p \<Rightarrow> if p = [] then ''all'' else p)) in
      [labelled ''aecontrol_gpu_job_duration_seconds'' (profile @ '',quantile='' @ quoted ''average'')
         (fmt (PyFinite (de_average_seconds e))),
       labelled ''aecontrol_gpu_job_duration_seconds'' (profile @ '',quantile='' @ quoted ''p90'')
         (fmt (PyFinite (de_p90_seconds e))),
       labelled ''aecontrol_gpu_job_duration_samples'' profile (int_str (de_sample_count e))])"

definition capacity_lines :: "(py_float \<Rightarrow> string) \<Rightarrow> gpu_capacity_forecast \<Rightarrow> string list" where
  "capacity_lines fmt c =
     metric_help ''aecontrol_gpu_queue_jobs'' ''CUDA jobs by forecast state.'' @
     [labelled ''aecontrol_gpu_queue_jobs'' (''state='' @ quoted ''first_wave'') (nat_str (cf_first_wave_jobs c)),
      labelled ''aecontrol_gpu_queue_jobs'' (''state='' @ quoted ''deferred'') (nat_str (cf_deferred_jobs c)),
      labelled ''aecontrol_gpu_queue_jobs'' (''state='' @ quoted ''blocked'') (nat_str (cf_blocked_jobs c))] @
     metric_help ''aecontrol_gpu_queue_clearance_waves''
       ''Minimum scheduling waves for compatible queued CUDA jobs.'' @
     [sample ''aecontrol_gpu_queue_clearance_waves'' (nat_str (cf_minimum_clearance_waves c))] @
     metric_help ''aecontrol_gpu_active_workers'' ''Active CUDA worker scheduling slots.'' @
     [sample ''aecontrol_gpu_active_workers'' (nat_str (cf_active_cuda_workers c))] @
     metric_help ''aecontrol_gpu_queue_estimated_clearance_seconds''
       ''Historical p90 estimate for compatible CUDA queue clearance.'' @
     metric_help ''aecontrol_gpu_queue_estimate_confidence''
       ''Historical queue estimate confidence by fixed level.'' @
     optional_sample fmt ''aecontrol_gpu_queue_estimated_clearance_seconds'' (cf_estimated_clearance_seconds c) @
     confidence_lines ''aecontrol_gpu_queue_estimate_confidence'' (cf_estimate_confidence c) @
     metric_help ''aecontrol_gpu_job_duration_seconds''
       ''Historical completed CUDA attempt duration by request class.'' @
     metric_help ''aecontrol_gpu_job_duration_samples''
       ''Completed CUDA attempts in each duration estimate.'' @
     concat (map (duration_lines fmt) (cf_duration_estimates c))"

definition demand_lines :: "(py_float \<Rightarrow> string) \<Rightarrow> gpu_demand_forecast \<Rightarrow> string list" where
  "demand_lines fmt d =
     metric_help ''aecontrol_gpu_demand_predicted_arrivals''
       ''Seasonal CUDA arrivals predicted over the forecast horizon.'' @
     [sample ''aecontrol_gpu_demand_predicted_arrivals'' (fmt (PyFinite (df_predicted_cuda_arrivals d)))] @
     metric_help ''aecontrol_gpu_demand_capacity_ratio''
       ''Projected GPU seconds divided by active worker capacity.'' @
     metric_help ''aecontrol_gpu_demand_confidence'' ''Seasonal demand forecast confidence by fixed level.'' @
     optional_sample fmt ''aecontrol_gpu_demand_capacity_ratio'' (df_projected_capacity_ratio d) @
     confidence_lines ''aecontrol_gpu_demand_confidence'' (df_confidence d)"

definition gate_lines :: "(py_float \<Rightarrow> string) \<Rightarrow> operational_snapshot \<Rightarrow> string list" where
  "gate_lines fmt s =
     metric_help ''aecontrol_gate_decisions'' ''Persisted gate decisions by outcome.'' @
     map (\<lambda>outcome. labelled ''aecontrol_gate_decisions'' (''outcome='' @ quoted (gate_outcome_value outcome))
            (nat_str (dict_get (os_gate_counts s) outcome 0)))
       [PASS, WARN, BLOCK, INCONCLUSIVE] @
     [sample ''aecontrol_workers_registered'' (nat_str (os_workers_registered s)),
      sample ''aecontrol_workers_active'' (nat_str (os_workers_active s)),
      sample ''aecontrol_expired_leases'' (nat_str (os_expired_leases s)),
      sample ''aecontrol_oldest_queued_seconds'' (fmt (PyFinite (os_oldest_queued_seconds s))),
      sample ''aecontrol_average_completed_job_seconds'' (fmt (PyFinite (os_average_completed_job_seconds s)))]"

definition gpu_help_lines :: "string list" where
  "gpu_help_lines =
     metric_help ''aecontrol_gpu_memory_total_bytes'' ''GPU framebuffer memory capacity.'' @
     metric_help ''aecontrol_gpu_memory_used_bytes'' ''GPU framebuffer memory in use.'' @
     metric_help ''aecontrol_gpu_memory_available_bytes'' ''GPU framebuffer memory currently available.'' @
     metric_help ''aecontrol_gpu_utilization_ratio'' ''GPU utilization from zero to one.'' @
     metric_help ''aecontrol_gpu_temperature_celsius'' ''GPU temperature in degrees Celsius.'' @
     metric_help ''aecontrol_gpu_power_draw_watts'' ''GPU board power draw in watts.'' @
     metric_help ''aecontrol_gpu_telemetry_timestamp_seconds'' ''Unix time of the worker telemetry sample.''"

definition gpu_labels :: "string \<Rightarrow> gpu_device \<Rightarrow> string" where
  "gpu_labels worker_id g =
     ''worker='' @ quoted (escape_label worker_id) @ '',gpu='' @ quoted (int_str (gpu_index g)) @
     '',uuid='' @ quoted (escape_label (gpu_uuid g)) @ '',name='' @ quoted (escape_label (gpu_name g)) @
     '',partition='' @ quoted (if truthy (gpu_mig_profile g) then ''mig'' else ''full'') @
     '',mig_profile='' @ quoted (escape_label (case gpu_mig_profile g of None \<Rightarrow> [] | Some p \<Rightarrow> p)) @
     '',telemetry_source='' @ quoted (telemetry_source_value (gpu_telemetry_source g))"

definition mebibyte :: int where "mebibyte = 1024 ^ 2"

definition available_mb :: "gpu_device \<Rightarrow> int option" where
  "available_mb g = map_option (\<lambda>used. max 0 (gpu_memory_total_mb g - used)) (gpu_memory_used_mb g)"

definition gpu_lines :: "(py_float \<Rightarrow> string) \<Rightarrow> worker_record \<Rightarrow> gpu_device \<Rightarrow> string list" where
  "gpu_lines fmt w g =
     (let labels = gpu_labels (wr_worker_id w) g;
          optional = (\<lambda>name value. case value of None \<Rightarrow> [] | Some v \<Rightarrow> [labelled name labels v]) in
      [labelled ''aecontrol_gpu_telemetry_timestamp_seconds'' labels (fmt (PyFinite (seconds (wr_last_seen_at w)))),
       labelled ''aecontrol_gpu_memory_total_bytes'' labels (int_str (gpu_memory_total_mb g * mebibyte))] @
      optional ''aecontrol_gpu_memory_used_bytes'' (map_option (\<lambda>used. int_str (used * mebibyte)) (gpu_memory_used_mb g)) @
      optional ''aecontrol_gpu_memory_available_bytes'' (map_option (\<lambda>mb. int_str (mb * mebibyte)) (available_mb g)) @
      optional ''aecontrol_gpu_utilization_ratio'' (map_option (\<lambda>u. fmt (PyFinite (u / 100))) (gpu_utilization_percent g)) @
      optional ''aecontrol_gpu_temperature_celsius'' (map_option fmt (gpu_temperature_celsius g)) @
      optional ''aecontrol_gpu_power_draw_watts'' (map_option fmt (gpu_power_draw_watts g)))"

definition optional_lines :: "('a \<Rightarrow> string list) \<Rightarrow> 'a option \<Rightarrow> string list" where
  "optional_lines f x = (case x of None \<Rightarrow> [] | Some a \<Rightarrow> f a)"

definition prometheus_lines ::
  "(py_float \<Rightarrow> string) \<Rightarrow> operational_snapshot \<Rightarrow> worker_record list \<Rightarrow> gpu_capacity_forecast option
     \<Rightarrow> efficacy_report option \<Rightarrow> database_pool_snapshot option \<Rightarrow> gpu_demand_forecast option \<Rightarrow> string list" where
  "prometheus_lines fmt snapshot workers gpu_capacity guardrail_efficacy database_pool gpu_demand =
     snapshot_lines snapshot @ optional_lines pool_lines database_pool @
     optional_lines (efficacy_lines fmt) guardrail_efficacy @ optional_lines (capacity_lines fmt) gpu_capacity @
     optional_lines (demand_lines fmt) gpu_demand @ gate_lines fmt snapshot @ gpu_help_lines @
     concat (map (\<lambda>w. concat (map (gpu_lines fmt w) (wc_gpus (wr_capabilities w)))) workers)"

definition render_prometheus ::
  "(py_float \<Rightarrow> string) \<Rightarrow> operational_snapshot \<Rightarrow> worker_record list \<Rightarrow> gpu_capacity_forecast option
     \<Rightarrow> efficacy_report option \<Rightarrow> database_pool_snapshot option \<Rightarrow> gpu_demand_forecast option \<Rightarrow> string" where
  "render_prometheus fmt snapshot workers gpu_capacity guardrail_efficacy database_pool gpu_demand =
     (let lines = prometheus_lines fmt snapshot workers gpu_capacity guardrail_efficacy database_pool gpu_demand in
      concat (map (\<lambda>line. line @ [CHR 0x0A]) lines))"

end
