(* ===== verification/Observability_Properties.thy ===== *)
theory Observability_Properties
  imports Observability
begin

section \<open>Properties of the metrics text\<close>

text \<open>
  Whatever a worker reports, the text keeps its shape: every metric stays on its own line, and a scraper reads each
  label value back as it was.
\<close>

subsection \<open>Escaping\<close>

definition escape_char_label :: "char \<Rightarrow> string" where
  "escape_char_label c =
     (if c = CHR 0x5C then [CHR 0x5C, CHR 0x5C]
      else if c = CHR 0x0A then [CHR 0x5C, CHR ''n'']
      else if c = CHR 0x22 then [CHR 0x5C, CHR 0x22] else [c])"

lemma replace_char_append [simp]: "replace_char c r (s @ t) = replace_char c r s @ replace_char c r t"
  by (simp add: replace_char_def)

lemma replace_char_Nil [simp]: "replace_char c r [] = []"
  by (simp add: replace_char_def)

lemma replace_char_Cons: "replace_char c r (d # s) = (if d = c then r else [d]) @ replace_char c r s"
  by (simp add: replace_char_def)

lemma escape_label_one_pass: "escape_label s = concat (map escape_char_label s)"
proof (induction s)
  case Nil
  then show ?case by (simp add: escape_label_def)
next
  case (Cons c s)
  then show ?case by (simp add: escape_label_def escape_char_label_def replace_char_Cons)
qed

lemma escape_label_clean: "CHR 0x0A \<notin> set (escape_label s)"
  by (auto simp: escape_label_one_pass escape_char_label_def)

text \<open>The reader of a scraper: a quoted value, then a list of labels.\<close>

fun read_value :: "string \<Rightarrow> (string \<times> string) option" where
  "read_value [] = None"
| "read_value (c # s) =
     (if c = CHR 0x22 then Some ([], s)
      else if c = CHR 0x5C
      then (case s of
              [] \<Rightarrow> None
            | d # t \<Rightarrow> map_option (\<lambda>(v, rest). ((if d = CHR ''n'' then CHR 0x0A else d) # v, rest)) (read_value t))
      else map_option (\<lambda>(v, rest). (c # v, rest)) (read_value s))"

fun read_labels :: "nat \<Rightarrow> string \<Rightarrow> (string \<times> string) list option" where
  "read_labels 0 s = None"
| "read_labels (Suc n) s =
     (case dropWhile (\<lambda>c. c \<noteq> CHR ''='') s of
        e # q # t \<Rightarrow>
          if q \<noteq> CHR 0x22 then None
          else (case read_value t of
                  None \<Rightarrow> None
                | Some (v, []) \<Rightarrow> Some [(takeWhile (\<lambda>c. c \<noteq> CHR ''='') s, v)]
                | Some (v, c # rest) \<Rightarrow>
                    if c = CHR '','' then map_option (Cons (takeWhile (\<lambda>c. c \<noteq> CHR ''='') s, v)) (read_labels n rest)
                    else None)
      | _ \<Rightarrow> None)"

lemma read_value_escaped: "read_value (escape_label v @ CHR 0x22 # rest) = Some (v, rest)"
  by (induction v) (simp_all add: escape_label_one_pass escape_char_label_def)

lemma name_splits:
  assumes "CHR ''='' \<notin> set name"
  shows "takeWhile (\<lambda>c. c \<noteq> CHR ''='') (name @ CHR ''='' # t) = name"
    and "dropWhile (\<lambda>c. c \<noteq> CHR ''='') (name @ CHR ''='' # t) = CHR ''='' # t"
  using assms by (induction name) auto

lemma read_labels_last:
  assumes "CHR ''='' \<notin> set name"
  shows "read_labels (Suc n) (name @ CHR ''='' # quoted (escape_label v)) = Some [(name, v)]"
  by (simp add: name_splits [OF assms] quoted_def read_value_escaped)

lemma read_labels_more:
  assumes "CHR ''='' \<notin> set name"
  shows "read_labels (Suc n) (name @ CHR ''='' # quoted (escape_label v) @ CHR '','' # rest)
    = map_option (Cons (name, v)) (read_labels n rest)"
  by (simp add: name_splits [OF assms] quoted_def read_value_escaped)

lemma escape_plain: "\<forall>c \<in> set s. escape_char_label c = [c] \<Longrightarrow> escape_label s = s"
  by (induction s) (simp_all add: escape_label_one_pass)

lemma escape_int_str: "escape_label (int_str i) = int_str i"
proof (rule escape_plain, rule ballI)
  fix c
  assume "c \<in> set (int_str i)"
  then have "c = CHR ''-'' \<or> is_dec c" using is_dec_nat_str by (auto simp: int_str_def split: if_splits)
  then show "escape_char_label c = [c]" by (auto simp: escape_char_label_def is_dec_def)
qed

lemma quoted_plain: "escape_label s = s \<Longrightarrow> quoted s = quoted (escape_label s)"
  by simp

lemma escape_source: "escape_label (telemetry_source_value x) = telemetry_source_value x"
  by (cases x) (simp_all add: telemetry_source_value_def escape_label_one_pass escape_char_label_def)

text \<open>The labels of a GPU sample read back exactly: whatever characters a worker id, a device name or a profile
  contains, a reader of the format finds the seven labels with the values the worker reported, so no value can end its
  quotation and add a label.\<close>

theorem gpu_labels_read_back:
  "read_labels 7 (gpu_labels worker_id g) =
     Some [(''worker'', worker_id), (''gpu'', int_str (gpu_index g)), (''uuid'', gpu_uuid g), (''name'', gpu_name g),
           (''partition'', if truthy (gpu_mig_profile g) then ''mig'' else ''full''),
           (''mig_profile'', case gpu_mig_profile g of None \<Rightarrow> [] | Some p \<Rightarrow> p),
           (''telemetry_source'', telemetry_source_value (gpu_telemetry_source g))]"
proof -
  have partition: "escape_label (if b then ''mig'' else ''full'') = (if b then ''mig'' else ''full'')" for b
    by (simp add: escape_label_one_pass escape_char_label_def)
  have labels: "gpu_labels worker_id g =
      ''worker'' @ CHR ''='' # quoted (escape_label worker_id) @ CHR '','' #
      ''gpu'' @ CHR ''='' # quoted (escape_label (int_str (gpu_index g))) @ CHR '','' #
      ''uuid'' @ CHR ''='' # quoted (escape_label (gpu_uuid g)) @ CHR '','' #
      ''name'' @ CHR ''='' # quoted (escape_label (gpu_name g)) @ CHR '','' #
      ''partition'' @ CHR ''='' # quoted (escape_label (if truthy (gpu_mig_profile g) then ''mig'' else ''full'')) @ CHR '','' #
      ''mig_profile'' @ CHR ''='' # quoted (escape_label (case gpu_mig_profile g of None \<Rightarrow> [] | Some p \<Rightarrow> p)) @ CHR '','' #
      ''telemetry_source'' @ CHR ''='' # quoted (escape_label (telemetry_source_value (gpu_telemetry_source g)))"
    by (simp add: gpu_labels_def escape_int_str partition escape_source)
  have names: "CHR ''='' \<notin> set ''worker''" "CHR ''='' \<notin> set ''gpu''" "CHR ''='' \<notin> set ''uuid''"
    "CHR ''='' \<notin> set ''name''" "CHR ''='' \<notin> set ''partition''" "CHR ''='' \<notin> set ''mig_profile''"
    "CHR ''='' \<notin> set ''telemetry_source''"
    by simp_all
  have seven: "(7::nat) = Suc (Suc (Suc (Suc (Suc (Suc (Suc 0))))))" by simp
  show ?thesis
    unfolding labels seven names [THEN read_labels_more] names(7) [THEN read_labels_last] by simp
qed

subsection \<open>Lines\<close>

definition one_line :: "string \<Rightarrow> bool" where
  "one_line l \<longleftrightarrow> CHR 0x0A \<notin> set l"

fun read_lines :: "string \<Rightarrow> string \<Rightarrow> string list" where
  "read_lines acc [] = (if acc = [] then [] else [rev acc])"
| "read_lines acc (c # s) = (if c = CHR 0x0A then rev acc # read_lines [] s else read_lines (c # acc) s)"

lemma read_lines_line: "one_line l \<Longrightarrow> read_lines acc (l @ CHR 0x0A # s) = (rev acc @ l) # read_lines [] s"
  by (induction l arbitrary: acc) (auto simp: one_line_def)

lemma read_lines_joined:
  "list_all one_line ls \<Longrightarrow> read_lines [] (concat (map (\<lambda>line. line @ [CHR 0x0A]) ls)) = ls"
  by (induction ls) (simp_all add: read_lines_line)

lemma one_line_append [simp]: "one_line (s @ t) \<longleftrightarrow> one_line s \<and> one_line t"
  by (simp add: one_line_def)

lemma one_line_quoted [simp]: "one_line (quoted s) \<longleftrightarrow> one_line s"
  by (simp add: one_line_def quoted_def)

lemma one_line_escaped [simp]: "one_line (escape_label s)"
  using escape_label_clean by (simp add: one_line_def)

lemma one_line_Nil [simp]: "one_line []"
  by (simp add: one_line_def)

lemma one_line_Cons [simp]: "one_line (c # s) \<longleftrightarrow> c \<noteq> CHR 0x0A \<and> one_line s"
  by (auto simp: one_line_def)

lemma one_line_nat_str [simp]: "one_line (nat_str n)"
  using is_dec_nat_str [of n] by (auto simp: one_line_def is_dec_def)

lemma one_line_int_str [simp]: "one_line (int_str i)"
  by (simp add: int_str_def)

lemma one_line_values [simp]:
  "one_line (job_status_value st)" "one_line (gate_outcome_value g)" "one_line (telemetry_source_value x)"
  by (simp add: job_status_value_def split: job_status.split)
     (simp add: gate_outcome_value_def split: gate_outcome.split,
      simp add: telemetry_source_value_def split: telemetry_source.split)

lemmas line_defs = metric_help_def sample_def labelled_def Let_def optional_lines_def optional_sample_def
  confidence_lines_def

lemma list_all_concat: "list_all P (concat (map f xs)) \<longleftrightarrow> (\<forall>x \<in> set xs. list_all P (f x))"
  by (auto simp: list_all_iff)

lemma lines_of_snapshot: "list_all one_line (snapshot_lines s)"
  by (simp add: snapshot_lines_def line_defs list_all_iff)

lemma lines_of_pool: "list_all one_line (pool_lines p)"
  by (simp add: pool_lines_def line_defs)

lemma lines_of_efficacy:
  "\<forall>x. one_line (fmt x) \<Longrightarrow> list_all one_line (efficacy_lines fmt r)"
  by (simp add: efficacy_lines_def line_defs)

lemma lines_of_duration: "\<forall>x. one_line (fmt x) \<Longrightarrow> list_all one_line (duration_lines fmt e)"
  by (simp add: duration_lines_def line_defs)

lemma lines_of_capacity: "\<forall>x. one_line (fmt x) \<Longrightarrow> list_all one_line (capacity_lines fmt c)"
  using lines_of_duration [of fmt]
  by (simp add: capacity_lines_def line_defs list_all_concat split: option.split)

lemma lines_of_demand: "\<forall>x. one_line (fmt x) \<Longrightarrow> list_all one_line (demand_lines fmt d)"
  by (simp add: demand_lines_def line_defs split: option.split)

lemma lines_of_gate: "\<forall>x. one_line (fmt x) \<Longrightarrow> list_all one_line (gate_lines fmt s)"
  by (simp add: gate_lines_def line_defs)

lemma lines_of_gpu_help: "list_all one_line gpu_help_lines"
  by (simp add: gpu_help_lines_def line_defs)

lemma one_line_labels: "one_line (gpu_labels w g)"
  by (simp add: gpu_labels_def)

lemma lines_of_gpu: "\<forall>x. one_line (fmt x) \<Longrightarrow> list_all one_line (gpu_lines fmt w g)"
  using one_line_labels by (simp add: gpu_lines_def line_defs split: option.split)

text \<open>No metric is split and none is injected: with a float format that prints no line break, the lines a scraper reads
  are exactly the lines rendered, so no name or id that a worker or an operator chose adds a sample of its own.\<close>

theorem rendered_lines_exact:
  assumes "\<forall>x. one_line (fmt x)"
  shows "read_lines [] (render_prometheus fmt snapshot workers gpu_capacity guardrail_efficacy database_pool gpu_demand)
    = prometheus_lines fmt snapshot workers gpu_capacity guardrail_efficacy database_pool gpu_demand"
proof -
  have optional: "list_all one_line (optional_lines f x)" if "\<And>a. list_all one_line (f a)" for f :: "'x \<Rightarrow> string list" and x
    using that by (simp add: optional_lines_def split: option.split)
  have "list_all one_line (prometheus_lines fmt snapshot workers gpu_capacity guardrail_efficacy database_pool gpu_demand)"
    unfolding prometheus_lines_def list_all_append
    using lines_of_gpu [OF assms] lines_of_snapshot lines_of_gate [OF assms] lines_of_gpu_help
      optional [of pool_lines database_pool, OF lines_of_pool]
      optional [of "efficacy_lines fmt" guardrail_efficacy, OF lines_of_efficacy [OF assms]]
      optional [of "capacity_lines fmt" gpu_capacity, OF lines_of_capacity [OF assms]]
      optional [of "demand_lines fmt" gpu_demand, OF lines_of_demand [OF assms]]
    by (simp add: list_all_concat)
  then show ?thesis by (simp add: render_prometheus_def read_lines_joined)
qed

definition toy_snapshot :: operational_snapshot where
  "toy_snapshot = \<lparr>os_runs_total = 1, os_comparisons_total = 0, os_guardrail_evidence_total = 0,
     os_guardrail_interventions_total = 0, os_job_counts = [(QUEUED, 2)], os_gate_counts = [],
     os_workers_registered = 1, os_workers_active = 1, os_expired_leases = 0, os_oldest_queued_seconds = 1 / 2,
     os_average_completed_job_seconds = 0\<rparr>"

theorem rendered_lines_exact_witness:
  "read_lines [] (render_prometheus (\<lambda>x. ''0.500000'') toy_snapshot [] None None None None)
     = prometheus_lines (\<lambda>x. ''0.500000'') toy_snapshot [] None None None None"
  by (rule rendered_lines_exact) (simp add: one_line_def)

end
