(* ===== verification/Gateway.thy ===== *)
theory Gateway
  imports Auth Demand Runtime Fleet Tracing
begin

section \<open>The HTTP gateway: tenants and jobs (\<open>api.py\<close>)\<close>

text \<open>
  The routes of the gateway over the tenant registry and the job queue: the context of a request, the principal its
  dependency requires, the bounds of its body, the handler with the store's operations, and the status of the answer.
  A handler runs in the tenant its principal binds. FastAPI's order is kept: the dependencies of a route run before the
  fields of its body are checked, and both before the handler.

  The clock, \<open>uuid4\<close>, \<open>token_urlsafe\<close> and the text of an exception are parameters of a call.
\<close>

subsection \<open>The application and a call\<close>

record gateway =
  gw_primitives :: primitives
  gw_env_tenant :: "string option"
  gw_auth_config :: "api_key list option"
  gw_verifier :: "(string \<Rightarrow> federated_identity result) option"
  gw_allowed_files :: "(string, string) dict"
  gw_float :: "string \<Rightarrow> rat option"
  gw_error_text :: "exn \<Rightarrow> string"

record http_call =
  hc_credential :: "string option"
  hc_request_id :: string
  hc_fresh_request_id :: string
  hc_traceparent :: string
  hc_now :: instant
  hc_clock :: instant
  hc_fresh_id :: uuid
  hc_secret :: string

text \<open>The authenticator of \<open>create_app\<close> asks the store.\<close>

definition gateway_authenticator :: "gateway \<Rightarrow> control_db \<Rightarrow> authenticator" where
  "gateway_authenticator G db =
     \<lparr>au_config = gw_auth_config G, au_credential_lookup = Some (\<lambda>d. resolve_tenant_api_key d db),
      au_tenant_access_allowed = Some (\<lambda>t. tenant_access_allowed t db), au_verifier = gw_verifier G\<rparr>"

definition REQUEST_ID_PATTERN :: regex where
  "REQUEST_ID_PATTERN =
     (let c = Cls ([(CHR ''A'', CHR ''Z''), (CHR ''a'', CHR ''z''), (CHR ''0'', CHR ''9'')]
                   @ one_char CHR ''.'' @ one_char CHR ''_'' @ one_char CHR ''-'') in Seq c (up_to 63 c))"

definition resolved_request_id :: "http_call \<Rightarrow> string" where
  "resolved_request_id c =
     (if fullmatch REQUEST_ID_PATTERN (hc_request_id c) then hc_request_id c else hc_fresh_request_id c)"

subsection \<open>Errors and statuses\<close>

text \<open>An \<open>except\<close> clause that raises an \<open>HTTPException\<close>: the status and detail it gives an exception, if it catches it.\<close>

definition answering :: "(exn \<Rightarrow> (nat \<times> string) option) \<Rightarrow> 'a result \<Rightarrow> 'a result" where
  "answering handler m =
     (case m of
        Inr x \<Rightarrow> Inr x
      | Inl e \<Rightarrow> (case handler e of None \<Rightarrow> Inl e | Some (code, detail) \<Rightarrow> Inl (HTTPException code detail)))"

definition not_found :: "string \<Rightarrow> exn \<Rightarrow> (nat \<times> string) option" where
  "not_found detail e = (case e of KeyError _ \<Rightarrow> Some (404, detail) | _ \<Rightarrow> None)"

definition else_handler ::
  "(exn \<Rightarrow> (nat \<times> string) option) \<Rightarrow> (exn \<Rightarrow> (nat \<times> string) option) \<Rightarrow> exn \<Rightarrow> (nat \<times> string) option" where
  "else_handler f g e = (case f e of None \<Rightarrow> g e | Some x \<Rightarrow> Some x)"

definition caught :: "(exn \<Rightarrow> bool) \<Rightarrow> nat \<Rightarrow> (exn \<Rightarrow> string) \<Rightarrow> exn \<Rightarrow> (nat \<times> string) option" where
  "caught of_class code detail e = (if of_class e then Some (code, detail e) else None)"

text \<open>The exception handlers of the application; what none of them takes is an internal error.\<close>

definition status_of_exn :: "exn \<Rightarrow> nat" where
  "status_of_exn e = (case e of
     HTTPException code _ \<Rightarrow> code
   | ArtifactSigningError \<Rightarrow> 503
   | ServiceError cls _ \<Rightarrow> if cls = ''KubernetesSandboxError'' then 503 else 500
   | _ \<Rightarrow> 500)"

subsection \<open>Dependencies\<close>

text \<open>
  What every route under \<open>/api\<close> does before its handler: the middleware binds the default tenant, the dependency
  authenticates the credential for the scope and binds the principal's tenant, and the body is checked.
\<close>

definition with_principal ::
  "gateway \<Rightarrow> http_call \<Rightarrow> auth_scope \<Rightarrow> bool \<Rightarrow> (principal \<Rightarrow> tenant \<Rightarrow> control_db \<Rightarrow> 'a result \<times> control_db)
     \<Rightarrow> control_db \<Rightarrow> 'a result \<times> control_db" where
  "with_principal G c scope valid handler db =
     (case default_tenant_id (gw_env_tenant G) of
        Inl e \<Rightarrow> (Inl e, db)
      | Inr t0 \<Rightarrow>
          (case authenticate (gw_primitives G) (gw_env_tenant G) (gateway_authenticator G db) scope (hc_credential c)
                  \<lparr>bound_tenant = Some t0\<rparr> of
             Inl e \<Rightarrow> (Inl e, db)
           | Inr (p, ctx) \<Rightarrow>
               if \<not> valid then (Inl (HTTPException 422 ''request validation''), db)
               else (case current_tenant_id (gw_env_tenant G) ctx of
                       Inl e \<Rightarrow> (Inl e, db)
                     | Inr t \<Rightarrow> handler p t db)))"

text \<open>A transaction of the store: what raises changes nothing.\<close>

definition transaction :: "(control_db \<Rightarrow> (control_db \<times> 'a) result) \<Rightarrow> control_db \<Rightarrow> 'a result \<times> control_db" where
  "transaction op db = (case op db of Inl e \<Rightarrow> (Inl e, db) | Inr (db', x) \<Rightarrow> (Inr x, db'))"

text \<open>An operation on the tables of the queue.\<close>

definition on_jobs :: "(job_db \<Rightarrow> (job_db \<times> 'a) result) \<Rightarrow> control_db \<Rightarrow> (control_db \<times> 'a) result" where
  "on_jobs op db =
     bind_result (op (job_db.truncate db)) (\<lambda>(j, x).
       Inr (job_db.extend j (control_db.fields (cp_tenants db) (cp_keys db)), x))"

definition on_quotas :: "(quota_table \<Rightarrow> (quota_table \<times> 'a) result) \<Rightarrow> control_db \<Rightarrow> (control_db \<times> 'a) result" where
  "on_quotas op db = bind_result (op (db_quotas db)) (\<lambda>(q, x). Inr (db\<lparr>db_quotas := q\<rparr>, x))"

definition reading :: "(control_db \<Rightarrow> 'a result) \<Rightarrow> control_db \<Rightarrow> 'a result \<times> control_db" where
  "reading f db = (f db, db)"

definition mapped :: "('a result \<Rightarrow> 'b result) \<Rightarrow> 'a result \<times> 's \<Rightarrow> 'b result \<times> 's" where
  "mapped f r = (f (fst r), snd r)"

subsection \<open>Replies\<close>

datatype api_reply =
    Tenants_reply "tenant_record list"
  | Tenant_reply tenant_record
  | Quota_reply tenant_quota_record
  | Quota_status_reply tenant_quota_record tenant_quota_usage
  | Keys_reply "tenant_api_key_record list"
  | Key_reply tenant_api_key_record
  | Issued_reply tenant_record tenant_api_key_record string
  | Jobs_reply "evaluation_job list"
  | Job_reply evaluation_job
  | Placement_reply job_placement_diagnostic
  | Workers_reply "worker_record list"
  | Demand_reply gpu_demand_forecast

definition replying :: "('a \<Rightarrow> api_reply) \<Rightarrow> 'a result \<Rightarrow> api_reply result" where
  "replying f m = bind_result m (\<lambda>x. Inr (f x))"

text \<open>\<open>IssuedTenantAPIKey(tenant, key, secret)\<close>\<close>

definition issued_reply :: "tenant_record \<Rightarrow> tenant_api_key_record \<Rightarrow> string \<Rightarrow> api_reply result" where
  "issued_reply t k secret =
     (if length secret < 32 then Inl (ValidationError ''IssuedTenantAPIKey'') else Inr (Issued_reply t k secret))"

subsection \<open>The routes of the registry\<close>

definition list_tenants_route :: "gateway \<Rightarrow> http_call \<Rightarrow> control_db \<Rightarrow> api_reply result \<times> control_db" where
  "list_tenants_route G c =
     with_principal G c Operator_scope True (\<lambda>p t. reading (\<lambda>db. Inr (Tenants_reply (list_tenants db))))"

definition tenant_create_valid :: "string \<Rightarrow> string \<Rightarrow> string \<Rightarrow> bool" where
  "tenant_create_valid tenant_id display_name initial_key_id \<longleftrightarrow>
     fullmatch TENANT_ID_PATTERN tenant_id \<and> text_between 1 200 display_name
   \<and> fullmatch API_KEY_ID_PATTERN initial_key_id"

definition is_conflict :: "exn \<Rightarrow> bool" where
  "is_conflict e = (case e of TenantConflictError \<Rightarrow> True | _ \<Rightarrow> False)"

definition create_tenant_route ::
  "gateway \<Rightarrow> http_call \<Rightarrow> string \<Rightarrow> string \<Rightarrow> string \<Rightarrow> control_db \<Rightarrow> api_reply result \<times> control_db" where
  "create_tenant_route G c tenant_id display_name initial_key_id =
     with_principal G c Operator_scope (tenant_create_valid tenant_id display_name initial_key_id) (\<lambda>p t db.
       mapped (\<lambda>m. bind_result (answering (caught is_conflict 409 (gw_error_text G)) m)
                (\<lambda>(r, k). issued_reply r k (hc_secret c)))
         (transaction (\<lambda>db. bind_result (hash_api_key (gw_primitives G) (hc_secret c)) (\<lambda>digest.
            create_tenant (hc_now c) tenant_id display_name initial_key_id digest (pr_key_id p) db)) db))"

definition set_tenant_status_route ::
  "gateway \<Rightarrow> http_call \<Rightarrow> tenant \<Rightarrow> tenant_status \<Rightarrow> control_db \<Rightarrow> api_reply result \<times> control_db" where
  "set_tenant_status_route G c tenant_id status =
     with_principal G c Operator_scope True (\<lambda>p t db.
       mapped (\<lambda>m. replying Tenant_reply (answering (not_found ''tenant was not found'') m))
         (transaction (set_tenant_status (hc_now c) tenant_id status (pr_key_id p)) db))"

definition get_tenant_quota_route :: "gateway \<Rightarrow> http_call \<Rightarrow> tenant \<Rightarrow> control_db \<Rightarrow> api_reply result \<times> control_db" where
  "get_tenant_quota_route G c tenant_id =
     with_principal G c Operator_scope True (\<lambda>p t. reading (\<lambda>db.
       replying Quota_reply (answering (not_found ''tenant was not found'') (get_tenant_quota (db_quotas db) tenant_id))))"

definition is_Inr :: "'a result \<Rightarrow> bool" where
  "is_Inr m = (case m of Inl _ \<Rightarrow> False | Inr _ \<Rightarrow> True)"

definition set_tenant_quota_route ::
  "gateway \<Rightarrow> http_call \<Rightarrow> tenant \<Rightarrow> tenant_quota_limits \<Rightarrow> control_db \<Rightarrow> api_reply result \<times> control_db" where
  "set_tenant_quota_route G c tenant_id quota =
     with_principal G c Operator_scope (is_Inr (validate_quota_limits quota)) (\<lambda>p t db.
       mapped (\<lambda>m. replying Quota_reply (answering (not_found ''tenant was not found'') m))
         (transaction (on_quotas (set_tenant_quota (hc_now c) tenant_id quota (pr_key_id p))) db))"

definition get_current_tenant_route :: "gateway \<Rightarrow> http_call \<Rightarrow> control_db \<Rightarrow> api_reply result \<times> control_db" where
  "get_current_tenant_route G c =
     with_principal G c (Tenant_scope Read_scope) True (\<lambda>p t. reading (\<lambda>db.
       replying Tenant_reply (answering (not_found ''tenant was not found'') (get_tenant (pr_tenant_id p) db))))"

definition get_current_quota_route :: "gateway \<Rightarrow> http_call \<Rightarrow> control_db \<Rightarrow> api_reply result \<times> control_db" where
  "get_current_quota_route G c =
     with_principal G c (Tenant_scope Read_scope) True (\<lambda>p t. reading (\<lambda>db.
       replying (\<lambda>(quota, usage). Quota_status_reply quota usage) (answering (not_found ''tenant was not found'')
         (tenant_quota_status (hc_now c) t (db_quotas db) (visible t (db_jobs db))))))"

definition list_keys_route :: "gateway \<Rightarrow> http_call \<Rightarrow> control_db \<Rightarrow> api_reply result \<times> control_db" where
  "list_keys_route G c =
     with_principal G c (Tenant_scope Admin_scope) True (\<lambda>p t. reading (\<lambda>db.
       replying Keys_reply (answering (not_found ''tenant was not found'') (list_tenant_api_keys (pr_tenant_id p) db))))"

definition is_suspended :: "exn \<Rightarrow> bool" where
  "is_suspended e = (case e of TenantSuspendedError \<Rightarrow> True | _ \<Rightarrow> False)"

definition issue_key_route ::
  "gateway \<Rightarrow> http_call \<Rightarrow> string \<Rightarrow> tenant_scope list \<Rightarrow> control_db \<Rightarrow> api_reply result \<times> control_db" where
  "issue_key_route G c key_id scopes =
     with_principal G c (Tenant_scope Admin_scope) (fullmatch API_KEY_ID_PATTERN key_id \<and> scopes \<noteq> []) (\<lambda>p t db.
       case transaction (\<lambda>db. bind_result (hash_api_key (gw_primitives G) (hc_secret c)) (\<lambda>digest.
              issue_tenant_api_key (hc_now c) (pr_tenant_id p) key_id digest scopes (pr_key_id p) db)) db of
         (issued, db') \<Rightarrow>
           (bind_result
              (answering (else_handler (not_found ''tenant was not found'')
                 (else_handler (caught is_conflict 409 (gw_error_text G)) (caught is_suspended 409 (gw_error_text G))))
                 (bind_result issued (\<lambda>k. bind_result (get_tenant (pr_tenant_id p) db') (\<lambda>r. Inr (r, k)))))
              (\<lambda>(r, k). issued_reply r k (hc_secret c)), db'))"

definition is_last_admin :: "exn \<Rightarrow> bool" where
  "is_last_admin e = (case e of LastTenantAdminError \<Rightarrow> True | _ \<Rightarrow> False)"

definition revoke_key_route :: "gateway \<Rightarrow> http_call \<Rightarrow> string \<Rightarrow> control_db \<Rightarrow> api_reply result \<times> control_db" where
  "revoke_key_route G c key_id =
     with_principal G c (Tenant_scope Admin_scope) True (\<lambda>p t db.
       mapped (\<lambda>m. replying Key_reply (answering (else_handler (not_found ''API key was not found'')
                (caught is_last_admin 409 (gw_error_text G))) m))
         (transaction (revoke_tenant_api_key (hc_now c) (pr_tenant_id p) key_id (pr_key_id p)) db))"

text \<open>\<open>platform_fleet\<close> reads the rollups as well.\<close>

definition platform_fleet_route ::
  "gateway \<Rightarrow> http_call \<Rightarrow> fleet_rollups \<Rightarrow> int \<Rightarrow> control_db \<Rightarrow> platform_report result \<times> control_db" where
  "platform_fleet_route G c rolls window_seconds =
     with_principal G c Operator_scope (30 \<le> window_seconds \<and> window_seconds \<le> 3600) (\<lambda>p t.
       reading (\<lambda>db. platform_fleet_report (hc_clock c) (hc_now c) window_seconds db rolls))"

subsection \<open>The routes of the queue\<close>

definition existing_file :: "string \<Rightarrow> (string, string) dict \<Rightarrow> string result" where
  "existing_file requested allowed_files =
     (case map_of allowed_files requested of
        None \<Rightarrow> Inl (HTTPException 422 ''file is not available under the allowed input root'')
      | Some resolved \<Rightarrow> Inr resolved)"

text \<open>The fields of \<open>EvaluationJobRequest\<close>; the traceparent and the request id are not among them.\<close>

definition job_body :: "job_request \<Rightarrow> job_request result" where
  "job_body r =
     bind_result (normalize_optional_mig (jr_required_mig_profile r)) (\<lambda>profile.
     if in_range (- 100) 100 (jr_priority r) \<and> in_range 1 10 (jr_max_attempts r) \<and> 0 \<le> jr_minimum_gpu_memory_mb r
        \<and> opt_all (\<lambda>x. 1 \<le> x) (jr_minimum_cuda_compute_capability r) \<and> 0 \<le> jr_minimum_gpu_memory_available_mb r
        \<and> opt_all (in_range 0 100) (jr_maximum_gpu_utilization_percent r) \<and> opt_all (fullmatch MIG_PROFILE_PATTERN) profile
     then Inr (r\<lparr>jr_required_mig_profile := profile\<rparr>) else Inl (ValidationError ''EvaluationJobRequest''))"

definition quota_answer :: "exn \<Rightarrow> (nat \<times> string) option" where
  "quota_answer e = (case e of TenantQuotaExceededError quota limit observed \<Rightarrow> Some (429, ''tenant_quota_exceeded'') | _ \<Rightarrow> None)"

definition enqueue_job_route :: "gateway \<Rightarrow> http_call \<Rightarrow> job_request \<Rightarrow> control_db \<Rightarrow> api_reply result \<times> control_db" where
  "enqueue_job_route G c body =
     with_principal G c (Tenant_scope Write_scope) (is_Inr (job_body body)) (\<lambda>p t db.
       case bind_result (job_body body) (\<lambda>r. bind_result (existing_file (jr_suite_path r) (gw_allowed_files G)) (\<lambda>path.
              Inr (r\<lparr>jr_suite_path := path, jr_traceparent := Some (hc_traceparent c),
                      jr_request_id := Some (resolved_request_id c)\<rparr>))) of
         Inl e \<Rightarrow> (Inl e, db)
       | Inr r \<Rightarrow>
           mapped (\<lambda>m. replying Job_reply
                (answering (else_handler quota_answer (caught is_value_error 422 (gw_error_text G))) m))
             (transaction (on_jobs (enqueue_job (hc_fresh_id c) (hc_clock c) (hc_now c) t r)) db))"

definition list_jobs_route ::
  "gateway \<Rightarrow> http_call \<Rightarrow> int \<Rightarrow> job_status option \<Rightarrow> control_db \<Rightarrow> api_reply result \<times> control_db" where
  "list_jobs_route G c limit status =
     with_principal G c (Tenant_scope Read_scope) True (\<lambda>p t. reading (\<lambda>db.
       if \<not> (1 \<le> limit \<and> limit \<le> 500) then Inl (HTTPException 422 ''limit must be between 1 and 500'')
       else Inr (Jobs_reply (list_jobs t (nat limit) status (job_db.truncate db)))))"

definition get_job_route :: "gateway \<Rightarrow> http_call \<Rightarrow> uuid \<Rightarrow> control_db \<Rightarrow> api_reply result \<times> control_db" where
  "get_job_route G c job_id =
     with_principal G c (Tenant_scope Read_scope) True (\<lambda>p t. reading (\<lambda>db.
       replying Job_reply (answering (not_found ''job was not found'') (get_job t job_id (job_db.truncate db)))))"

definition cancel_job_route :: "gateway \<Rightarrow> http_call \<Rightarrow> uuid \<Rightarrow> control_db \<Rightarrow> api_reply result \<times> control_db" where
  "cancel_job_route G c job_id =
     with_principal G c (Tenant_scope Write_scope) True (\<lambda>p t db.
       mapped (\<lambda>m. replying Job_reply (answering (else_handler (not_found ''job was not found'')
                (caught is_value_error 409 (gw_error_text G))) m))
         (transaction (on_jobs (cancel_job (hc_now c) t job_id)) db))"

definition job_placement_route :: "gateway \<Rightarrow> http_call \<Rightarrow> uuid \<Rightarrow> control_db \<Rightarrow> api_reply result \<times> control_db" where
  "job_placement_route G c job_id =
     with_principal G c (Tenant_scope Read_scope) True (\<lambda>p t. reading (\<lambda>db.
       replying Placement_reply (answering (not_found ''job was not found'')
         (placement_diagnostic (gw_float G) (hc_clock c) t job_id (job_db.truncate db)))))"

definition list_workers_route :: "gateway \<Rightarrow> http_call \<Rightarrow> control_db \<Rightarrow> api_reply result \<times> control_db" where
  "list_workers_route G c =
     with_principal G c (Tenant_scope Read_scope) True (\<lambda>p t. reading (\<lambda>db.
       Inr (Workers_reply (list_workers t (job_db.truncate db)))))"

definition gpu_demand_route :: "gateway \<Rightarrow> http_call \<Rightarrow> control_db \<Rightarrow> api_reply result \<times> control_db" where
  "gpu_demand_route G c =
     with_principal G c (Tenant_scope Read_scope) True (\<lambda>p t. reading (\<lambda>db.
       replying Demand_reply (store_gpu_demand_forecast (hc_clock c) t None (job_db.truncate db))))"

subsection \<open>Dispatch\<close>

datatype api_request =
    Get_tenants
  | Post_tenant string string string
  | Patch_tenant tenant tenant_status
  | Get_tenant_quota tenant
  | Put_tenant_quota tenant tenant_quota_limits
  | Get_current_tenant
  | Get_current_quota
  | Get_api_keys
  | Post_api_key string "tenant_scope list"
  | Delete_api_key string
  | Get_jobs int "job_status option"
  | Post_job job_request
  | Get_job uuid
  | Delete_job uuid
  | Get_placement uuid
  | Get_workers
  | Get_demand

fun handle :: "gateway \<Rightarrow> http_call \<Rightarrow> api_request \<Rightarrow> control_db \<Rightarrow> api_reply result \<times> control_db" where
  "handle G c Get_tenants = list_tenants_route G c"
| "handle G c (Post_tenant tenant_id name key_id) = create_tenant_route G c tenant_id name key_id"
| "handle G c (Patch_tenant tenant_id status) = set_tenant_status_route G c tenant_id status"
| "handle G c (Get_tenant_quota tenant_id) = get_tenant_quota_route G c tenant_id"
| "handle G c (Put_tenant_quota tenant_id quota) = set_tenant_quota_route G c tenant_id quota"
| "handle G c Get_current_tenant = get_current_tenant_route G c"
| "handle G c Get_current_quota = get_current_quota_route G c"
| "handle G c Get_api_keys = list_keys_route G c"
| "handle G c (Post_api_key key_id scopes) = issue_key_route G c key_id scopes"
| "handle G c (Delete_api_key key_id) = revoke_key_route G c key_id"
| "handle G c (Get_jobs limit status) = list_jobs_route G c limit status"
| "handle G c (Post_job body) = enqueue_job_route G c body"
| "handle G c (Get_job job_id) = get_job_route G c job_id"
| "handle G c (Delete_job job_id) = cancel_job_route G c job_id"
| "handle G c (Get_placement job_id) = job_placement_route G c job_id"
| "handle G c Get_workers = list_workers_route G c"
| "handle G c Get_demand = gpu_demand_route G c"

declare handle.simps [simp del]

definition success_status :: "api_request \<Rightarrow> nat" where
  "success_status r = (case r of Post_tenant _ _ _ \<Rightarrow> 201 | Post_api_key _ _ \<Rightarrow> 201 | Post_job _ \<Rightarrow> 202 | _ \<Rightarrow> 200)"

definition response_status :: "api_request \<Rightarrow> 'a result \<Rightarrow> nat" where
  "response_status r m = (case m of Inl e \<Rightarrow> status_of_exn e | Inr _ \<Rightarrow> success_status r)"

end
