(* ===== verification/Gateway_Evidence.thy ===== *)
theory Gateway_Evidence
  imports Gateway Guardrail_Store Checkpoint_Store Gate
begin

section \<open>The HTTP gateway: evidence (\<open>api.py\<close>)\<close>

text \<open>
  The routes of the gateway over artifacts: runs, comparisons and release decisions, guardrail configurations and
  evidence, the integrity report and ledger checkpoints. The principal comes from the registry; a handler works on the
  tables of its component. What the code reads from a payload (\<open>model_validate\<close>), writes as one (\<open>model_dump\<close>) or loads
  from a file is a parameter of the application, as are the service of the rails and the sink of the checkpoints.
\<close>

record 's evidence_app =
  ea_gateway :: gateway
  ea_keyring :: "keyring option"
  ea_jsonb :: "json \<Rightarrow> json"
  ea_isotime :: "instant \<Rightarrow> string"
  ea_parse_run :: "json \<Rightarrow> evaluation_run result"
  ea_parse_evidence :: "json \<Rightarrow> stored_guardrail_evidence result"
  ea_parse_checkpoint :: "json \<Rightarrow> checkpoint_payload option"
  ea_run_json :: "evaluation_run \<Rightarrow> json"
  ea_comparison_json :: "uuid \<Rightarrow> instant \<Rightarrow> run_comparison \<Rightarrow> quality_gate_decision \<Rightarrow> json"
  ea_load_policy :: "string \<Rightarrow> quality_gate_policy result"
  ea_evaluate :: "string \<Rightarrow> string \<Rightarrow> evaluation_run result"
  ea_pick :: "nat \<Rightarrow> nat \<Rightarrow> nat"
  ea_urlopen :: transport
  ea_loads :: "string \<Rightarrow> json result"
  ea_py_str :: "json \<Rightarrow> string"
  ea_client :: guardrails_client
  ea_sink :: "(signed_checkpoint \<Rightarrow> 's \<Rightarrow> publication result \<times> 's) option"

abbreviation ea_primitives :: "'s evidence_app \<Rightarrow> primitives" where
  "ea_primitives E \<equiv> gw_primitives (ea_gateway E)"

definition is_verification_error :: "exn \<Rightarrow> bool" where
  "is_verification_error e = (case e of
     ArtifactVerificationError \<Rightarrow> True | ArtifactIntegrityError _ _ _ _ \<Rightarrow> True
   | ArtifactAuthenticityError _ _ _ _ _ \<Rightarrow> True | _ \<Rightarrow> False)"

definition is_key_error :: "exn \<Rightarrow> bool" where
  "is_key_error e = (case e of KeyError _ \<Rightarrow> True | _ \<Rightarrow> False)"

definition is_guardrails_error :: "exn \<Rightarrow> bool" where
  "is_guardrails_error e = (case e of ServiceError cls _ \<Rightarrow> cls = ''GuardrailsError'' | _ \<Rightarrow> False)"

definition is_publication_error :: "exn \<Rightarrow> bool" where
  "is_publication_error e = (case e of CheckpointPublicationError _ \<Rightarrow> True | _ \<Rightarrow> False)"

text \<open>A route whose handler works on \<open>'t\<close>, with the registry \<open>db\<close> behind its dependency.\<close>

definition with_reader ::
  "'s evidence_app \<Rightarrow> http_call \<Rightarrow> control_db \<Rightarrow> auth_scope \<Rightarrow> bool \<Rightarrow> (principal \<Rightarrow> tenant \<Rightarrow> 't \<Rightarrow> 'a result \<times> 't)
     \<Rightarrow> 't \<Rightarrow> 'a result \<times> 't" where
  "with_reader E c db scope valid handler st =
     (case with_principal (ea_gateway E) c scope valid (\<lambda>p t. reading (\<lambda>db. Inr (p, t))) db of
        (Inl e, _) \<Rightarrow> (Inl e, st)
      | (Inr (p, t), _) \<Rightarrow> handler p t st)"

text \<open>A store's operation, undone when it raises.\<close>

definition attempt :: "('t \<Rightarrow> ('t \<times> 'a) result) \<Rightarrow> 't \<Rightarrow> 'a result \<times> 't" where
  "attempt op st = (case op st of Inl e \<Rightarrow> (Inl e, st) | Inr (st', x) \<Rightarrow> (Inr x, st'))"

subsection \<open>Runs and comparisons\<close>

definition fetch_run :: "'s evidence_app \<Rightarrow> tenant \<Rightarrow> uuid \<Rightarrow> 'a artifact_db_scheme \<Rightarrow> evaluation_run result" where
  "fetch_run E t i db =
     answering (else_handler (not_found ''run was not found'')
         (caught is_verification_error 409 (gw_error_text (ea_gateway E))))
       (bind_result (get_artifact (ea_primitives E) (ea_keyring E) t Run i db) (ea_parse_run E))"

definition get_run_route ::
  "'s evidence_app \<Rightarrow> http_call \<Rightarrow> control_db \<Rightarrow> uuid \<Rightarrow> artifact_db \<Rightarrow> evaluation_run result \<times> artifact_db" where
  "get_run_route E c db i =
     with_reader E c db (Tenant_scope Read_scope) True (\<lambda>p t st. (fetch_run E t i st, st))"

definition get_case_route ::
  "'s evidence_app \<Rightarrow> http_call \<Rightarrow> control_db \<Rightarrow> uuid \<Rightarrow> string \<Rightarrow> artifact_db \<Rightarrow> case_result result \<times> artifact_db" where
  "get_case_route E c db i case_id =
     with_reader E c db (Tenant_scope Read_scope) True (\<lambda>p t st.
       (bind_result (fetch_run E t i st) (\<lambda>run.
          case find (\<lambda>item. dc_case_id (cr_case item) = case_id) (run_case_results run) of
            None \<Rightarrow> Inl (HTTPException 404 ''case was not found'')
          | Some x \<Rightarrow> Inr x), st))"

text \<open>The run that an evaluation returns is stored; \<open>save_run\<close> is outside the \<open>try\<close>.\<close>

definition evaluate_route ::
  "'s evidence_app \<Rightarrow> http_call \<Rightarrow> control_db \<Rightarrow> string \<Rightarrow> string \<Rightarrow> artifact_db \<Rightarrow> evaluation_run result \<times> artifact_db" where
  "evaluate_route E c db suite_path agent_version =
     with_reader E c db (Tenant_scope Write_scope) True (\<lambda>p t. attempt (\<lambda>st.
       bind_result (existing_file suite_path (gw_allowed_files (ea_gateway E))) (\<lambda>path.
       bind_result (answering (caught (\<lambda>e. is_value_error e \<or> is_key_error e) 422 (gw_error_text (ea_gateway E)))
           (ea_evaluate E path agent_version)) (\<lambda>run.
       bind_result (save_run (ea_primitives E) (ea_keyring E) (ea_jsonb E) t (run_id run) (ea_run_json E run) st) (\<lambda>st'.
         Inr (st', run))))))"

definition create_comparison_route ::
  "'s evidence_app \<Rightarrow> http_call \<Rightarrow> control_db \<Rightarrow> uuid \<Rightarrow> uuid \<Rightarrow> string \<Rightarrow> artifact_db
     \<Rightarrow> (uuid \<times> run_comparison \<times> quality_gate_decision) result \<times> artifact_db" where
  "create_comparison_route E c db baseline_id candidate_id policy_path =
     with_reader E c db (Tenant_scope Write_scope) True (\<lambda>p t. attempt (\<lambda>st.
       bind_result (fetch_run E t baseline_id st) (\<lambda>baseline.
       bind_result (fetch_run E t candidate_id st) (\<lambda>candidate.
       bind_result (existing_file policy_path (gw_allowed_files (ea_gateway E))) (\<lambda>path.
         let comparison = compare_runs (ea_pick E) baseline candidate in
         bind_result (ea_load_policy E path) (\<lambda>policy.
           let decision = evaluate_gate comparison policy in
           bind_result (save_comparison (ea_primitives E) (ea_keyring E) (ea_jsonb E) t (hc_fresh_id c)
               (rc_baseline_run_id comparison) (rc_candidate_run_id comparison)
               (ea_comparison_json E (hc_fresh_id c) (hc_clock c) comparison decision) st) (\<lambda>st'.
             Inr (st', hc_fresh_id c, comparison, decision))))))))"

subsection \<open>Guardrail configurations\<close>

definition guardrail_configs_route ::
  "'s evidence_app \<Rightarrow> http_call \<Rightarrow> control_db \<Rightarrow> guardrail_db \<Rightarrow> string list result \<times> guardrail_db" where
  "guardrail_configs_route E c db =
     with_reader E c db (Tenant_scope Read_scope) True (\<lambda>p t st.
       (answering (caught is_guardrails_error 502 (gw_error_text (ea_gateway E)))
          (guardrails_configs (ea_urlopen E) (ea_loads E) (ea_client E)), st))"

definition list_config_versions_route ::
  "'s evidence_app \<Rightarrow> http_call \<Rightarrow> control_db \<Rightarrow> guardrail_db \<Rightarrow> guardrail_config_version list result \<times> guardrail_db" where
  "list_config_versions_route E c db =
     with_reader E c db (Tenant_scope Read_scope) True (\<lambda>p t st. (list_guardrail_config_versions t st, st))"

definition register_config_version_route ::
  "'s evidence_app \<Rightarrow> http_call \<Rightarrow> control_db \<Rightarrow> string \<Rightarrow> string \<Rightarrow> sha256 \<Rightarrow> string \<Rightarrow> guardrail_db
     \<Rightarrow> guardrail_config_version result \<times> guardrail_db" where
  "register_config_version_route E c db config_id version bundle_sha256 description =
     with_reader E c db (Tenant_scope Admin_scope)
       (text_between 1 500 config_id \<and> fullmatch GUARDRAIL_VERSION_PATTERN version \<and> is_sha256 bundle_sha256
        \<and> length description \<le> 1000)
       (\<lambda>p t st. case attempt (register_guardrail_config_version (hc_clock c) t config_id version bundle_sha256
            description (pr_key_id p)) st of
          (m, st') \<Rightarrow> (answering (caught is_value_error 409 (gw_error_text (ea_gateway E))) m, st'))"

definition list_activations_route ::
  "'s evidence_app \<Rightarrow> http_call \<Rightarrow> control_db \<Rightarrow> string option \<Rightarrow> int \<Rightarrow> guardrail_db
     \<Rightarrow> guardrail_config_activation list result \<times> guardrail_db" where
  "list_activations_route E c db config_id limit =
     with_reader E c db (Tenant_scope Read_scope)
       ((case config_id of None \<Rightarrow> True | Some i \<Rightarrow> text_between 1 500 i) \<and> 1 \<le> limit \<and> limit \<le> 500)
       (\<lambda>p t st. (list_guardrail_config_activations t config_id (nat limit) st, st))"

definition activate_config_route ::
  "'s evidence_app \<Rightarrow> http_call \<Rightarrow> control_db \<Rightarrow> string \<Rightarrow> string \<Rightarrow> guardrail_db
     \<Rightarrow> guardrail_config_activation result \<times> guardrail_db" where
  "activate_config_route E c db config_id version =
     with_reader E c db (Tenant_scope Admin_scope)
       (text_between 1 500 config_id \<and> fullmatch GUARDRAIL_VERSION_PATTERN version)
       (\<lambda>p t st.
          case answering (caught is_guardrails_error 502 (gw_error_text (ea_gateway E)))
              (guardrails_configs (ea_urlopen E) (ea_loads E) (ea_client E)) of
            Inl e \<Rightarrow> (Inl e, st)
          | Inr upstream \<Rightarrow>
              if config_id \<notin> set upstream
              then (Inl (HTTPException 409 ''NeMo Guardrails is not serving configuration''), st)
              else (case attempt (activate_guardrail_config (hc_fresh_id c) (hc_clock c) t config_id version (pr_key_id p)) st of
                      (m, st') \<Rightarrow> (answering (not_found ''guardrail configuration version was not found'') m, st')))"

subsection \<open>Guardrail evidence\<close>

definition list_evidence_route ::
  "'s evidence_app \<Rightarrow> http_call \<Rightarrow> control_db \<Rightarrow> int \<Rightarrow> guardrail_db \<Rightarrow> guardrail_evidence_summary list result \<times> guardrail_db" where
  "list_evidence_route E c db limit =
     with_reader E c db (Tenant_scope Read_scope) True (\<lambda>p t st.
       (if \<not> (1 \<le> limit \<and> limit \<le> 500) then Inl (HTTPException 422 ''limit must be between 1 and 500'')
        else Inr (list_guardrail_evidence t (nat limit) st), st))"

definition get_evidence_route ::
  "'s evidence_app \<Rightarrow> http_call \<Rightarrow> control_db \<Rightarrow> uuid \<Rightarrow> guardrail_db \<Rightarrow> stored_guardrail_evidence result \<times> guardrail_db" where
  "get_evidence_route E c db i =
     with_reader E c db (Tenant_scope Read_scope) True (\<lambda>p t st.
       (answering (else_handler (not_found ''guardrail evidence was not found'')
            (caught is_verification_error 409 (gw_error_text (ea_gateway E))))
          (bind_result (get_artifact (ea_primitives E) (ea_keyring E) t Guardrail_evidence i st) (ea_parse_evidence E)), st))"

text \<open>\<open>datetime.min\<close> in UTC.\<close>

definition MIN_INSTANT :: instant where "MIN_INSTANT = - 62135596800 * second"

definition efficacy_request_window ::
  "instant \<Rightarrow> timestamp option \<Rightarrow> timestamp option \<Rightarrow> (timestamp \<times> timestamp) result" where
  "efficacy_request_window now since until =
     (let window_end = (case until of None \<Rightarrow> Aware now | Some e \<Rightarrow> e) in
      bind_result
        (case since of
           Some s \<Rightarrow> Inr s
         | None \<Rightarrow> if instant_of window_end - 30 * day < MIN_INSTANT then Inl (OverflowError ''date value out of range'')
                  else Inr (minus_days 30 window_end)) (\<lambda>window_start.
        if is_naive window_start \<or> is_naive window_end
        then Inl (HTTPException 422 ''efficacy timestamps must include a timezone'')
        else if instant_of window_start \<ge> instant_of window_end
        then Inl (HTTPException 422 ''since must be before until'')
        else if instant_of window_end - instant_of window_start > 366 * day
        then Inl (HTTPException 422 ''efficacy windows cannot exceed 366 days'')
        else Inr (window_start, window_end)))"

definition efficacy_route ::
  "'s evidence_app \<Rightarrow> http_call \<Rightarrow> control_db \<Rightarrow> string option \<Rightarrow> timestamp option \<Rightarrow> timestamp option \<Rightarrow> guardrail_db
     \<Rightarrow> efficacy_report result \<times> guardrail_db" where
  "efficacy_route E c db config_id since until =
     with_reader E c db (Tenant_scope Read_scope) (case config_id of None \<Rightarrow> True | Some i \<Rightarrow> text_between 1 500 i)
       (\<lambda>p t st.
          (bind_result (efficacy_request_window (hc_clock c) since until) (\<lambda>(window_start, window_end).
             answering (caught is_verification_error 409 (gw_error_text (ea_gateway E)))
               (guardrail_efficacy_report (ea_primitives E) (ea_keyring E) (ea_parse_evidence E) (hc_clock c) t config_id
                  (Some window_start) (Some window_end) st)), st))"

text \<open>
  \<open>check_guardrails\<close> awaits the service between its read of the active configuration and its write of the evidence;
  \<open>interim\<close> is what other requests do to the store in between.
\<close>

record check_request =
  cq_model :: string
  cq_config_id :: string
  cq_input_text :: string
  cq_output_text :: "string option"
  cq_config_version :: "string option"
  cq_expected_action :: "expected_guardrail_action option"

definition check_request_valid :: "check_request \<Rightarrow> bool" where
  "check_request_valid r \<longleftrightarrow>
     text_between 1 500 (cq_model r) \<and> text_between 1 500 (cq_config_id r) \<and> text_between 1 1000000 (cq_input_text r)
   \<and> opt_all (\<lambda>t. length t \<le> 1000000) (cq_output_text r)
   \<and> opt_all (fullmatch GUARDRAIL_VERSION_PATTERN) (cq_config_version r)"

definition with_provenance ::
  "check_request \<Rightarrow> guardrail_config_activation option \<Rightarrow> guardrail_evidence \<Rightarrow> guardrail_evidence" where
  "with_provenance r active e =
     (let e = e\<lparr>ge_expected_action := cq_expected_action r\<rparr> in
      case active of
        None \<Rightarrow> e
      | Some a \<Rightarrow> e\<lparr>ge_config_version := Some (ga_version a), ge_config_bundle_sha256 := Some (ga_bundle_sha256 a),
                    ge_config_activation_id := Some (ga_activation_id a)\<rparr>)"

definition check_guardrails_route ::
  "'s evidence_app \<Rightarrow> http_call \<Rightarrow> control_db \<Rightarrow> (guardrail_db \<Rightarrow> guardrail_db) \<Rightarrow> check_request \<Rightarrow> guardrail_db
     \<Rightarrow> stored_guardrail_evidence result \<times> guardrail_db" where
  "check_guardrails_route E c db interim r =
     with_reader E c db (Tenant_scope Write_scope) (check_request_valid r) (\<lambda>p t st.
       case get_active_guardrail_config t (cq_config_id r) st of
         Inl e \<Rightarrow> (Inl e, st)
       | Inr active \<Rightarrow>
           if cq_config_version r \<noteq> None \<and> (active = None \<or> map_option ga_version active \<noteq> cq_config_version r)
           then (Inl (HTTPException 409 ''guardrail configuration is not active at version''), st)
           else
             (case answering (caught is_guardrails_error 502 (gw_error_text (ea_gateway E)))
                 (guardrails_check (ea_urlopen E) (ea_loads E) (ea_py_str E) (ea_client E) (cq_model r) (cq_config_id r)
                    (cq_input_text r) (cq_output_text r)) of
                Inl e \<Rightarrow> (Inl e, interim st)
              | Inr evidence \<Rightarrow>
                  attempt (store_guardrail_evidence (ea_primitives E) (ea_keyring E) (ea_jsonb E) (ea_isotime E)
                    (hc_fresh_id c) (hc_clock c) t (with_provenance r active evidence)) (interim st)))"

subsection \<open>Integrity and checkpoints\<close>

definition integrity_route ::
  "'s evidence_app \<Rightarrow> http_call \<Rightarrow> control_db \<Rightarrow> checkpoint_db \<Rightarrow> integrity_report result \<times> checkpoint_db" where
  "integrity_route E c db =
     with_reader E c db (Tenant_scope Read_scope) True (\<lambda>p t st.
       (verify_artifacts (ea_primitives E) (ea_keyring E) (ea_isotime E) (ea_parse_checkpoint E) t st, st))"

definition list_checkpoints_route ::
  "'s evidence_app \<Rightarrow> http_call \<Rightarrow> control_db \<Rightarrow> checkpoint_db \<Rightarrow> signed_checkpoint list result \<times> checkpoint_db" where
  "list_checkpoints_route E c db =
     with_reader E c db (Tenant_scope Read_scope) True (\<lambda>p t st.
       (answering (caught is_verification_error 409 (gw_error_text (ea_gateway E)))
          (list_ledger_checkpoints (ea_primitives E) (ea_keyring E) (ea_isotime E) (ea_parse_checkpoint E) t st), st))"

text \<open>The checkpoint is committed before it is published; the state has the tables and what the sink keeps.\<close>

definition publish_checkpoint_route ::
  "'s evidence_app \<Rightarrow> http_call \<Rightarrow> control_db \<Rightarrow> int \<Rightarrow> checkpoint_db \<times> 's
     \<Rightarrow> publication result \<times> checkpoint_db \<times> 's" where
  "publish_checkpoint_route E c db retention_days =
     with_reader E c db (Tenant_scope Admin_scope) (1 \<le> retention_days \<and> retention_days \<le> 3650) (\<lambda>p t (st, world).
       case ea_sink E of
         None \<Rightarrow> (Inl (HTTPException 503 ''checkpoint publisher is not configured''), st, world)
       | Some publish \<Rightarrow>
           let caught_here = else_handler (caught is_value_error 409 (gw_error_text (ea_gateway E)))
                 (caught is_publication_error 502 (gw_error_text (ea_gateway E))) in
           (case attempt (create_ledger_checkpoint (ea_primitives E) (ea_keyring E) (ea_isotime E) (ea_parse_checkpoint E)
                  (ea_jsonb E) t retention_days (hc_fresh_id c) (hc_now c) (hc_clock c)) st of
              (Inl e, st') \<Rightarrow> (answering caught_here (Inl e), st', world)
            | (Inr checkpoint, st') \<Rightarrow>
                (case publish checkpoint world of (m, world') \<Rightarrow> (answering caught_here m, st', world'))))"

subsection \<open>Operational routes\<close>

text \<open>\<open>readyz\<close>: the status and what it shows of the default tenant's snapshot.\<close>

definition readiness_route :: "operational_snapshot result \<Rightarrow> (nat \<times> string \<times> nat \<times> nat \<times> nat) result" where
  "readiness_route snapshot =
     bind_result snapshot (\<lambda>s.
       let queued = dict_get (os_job_counts s) QUEUED 0; ready = (queued = 0 \<or> os_workers_active s > 0) in
       Inr (if ready then 200 else 503, if ready then ''ready'' else ''degraded'', queued, os_workers_active s,
            os_expired_leases s))"

end
