(* ===== verification/Gateway_Properties.thy ===== *)
theory Gateway_Properties
  imports Gateway Tenant_Properties Auth_Properties Job_Properties
begin

section \<open>Properties of the gateway\<close>

text \<open>
  No request changes the registry or the queue without a principal that holds the scope of its route, a tenant's
  request changes the rows of that tenant only, and every change is one of the operations of the registry's and the
  queue's own models.
\<close>

subsection \<open>Dependencies\<close>

definition route_scope :: "api_request \<Rightarrow> auth_scope" where
  "route_scope r = (case r of
     Get_tenants \<Rightarrow> Operator_scope | Post_tenant _ _ _ \<Rightarrow> Operator_scope | Patch_tenant _ _ \<Rightarrow> Operator_scope
   | Get_tenant_quota _ \<Rightarrow> Operator_scope | Put_tenant_quota _ _ \<Rightarrow> Operator_scope
   | Get_api_keys \<Rightarrow> Tenant_scope Admin_scope | Post_api_key _ _ \<Rightarrow> Tenant_scope Admin_scope
   | Delete_api_key _ \<Rightarrow> Tenant_scope Admin_scope
   | Post_job _ \<Rightarrow> Tenant_scope Write_scope | Delete_job _ \<Rightarrow> Tenant_scope Write_scope
   | _ \<Rightarrow> Tenant_scope Read_scope)"

definition authenticated :: "gateway \<Rightarrow> http_call \<Rightarrow> auth_scope \<Rightarrow> control_db \<Rightarrow> principal \<Rightarrow> bool" where
  "authenticated G c scope db p \<longleftrightarrow> (\<exists>t0 ctx. default_tenant_id (gw_env_tenant G) = Inr t0
     \<and> authenticate (gw_primitives G) (gw_env_tenant G) (gateway_authenticator G db) scope (hc_credential c)
         \<lparr>bound_tenant = Some t0\<rparr> = Inr (p, ctx))"

lemma authenticate_binds:
  assumes "authenticate P env A scope credentials ctx = Inr (p, ctx')"
  shows "bound_tenant ctx' = Some (pr_tenant_id p)"
  using assms by (auto simp: authenticate_def bind_tenant_def split: option.splits if_splits)

lemma with_principal_cases:
  assumes "with_principal G c scope valid handler db = (r, db')"
  obtains (refused) e where "r = Inl e" "db' = db"
  | (handled) p where "authenticated G c scope db p" "valid" "handler p (pr_tenant_id p) db = (r, db')"
  using assms authenticate_binds
  by (fastforce simp: with_principal_def authenticated_def current_tenant_id_def
      split: sum.splits prod.splits if_splits)

lemma with_principal_authenticated:
  assumes "authenticated G c scope db p"
  shows "with_principal G c scope valid handler db =
    (if valid then handler p (pr_tenant_id p) db else (Inl (HTTPException 422 ''request validation''), db))"
proof -
  obtain t0 ctx where auth: "default_tenant_id (gw_env_tenant G) = Inr t0"
      "authenticate (gw_primitives G) (gw_env_tenant G) (gateway_authenticator G db) scope (hc_credential c)
         \<lparr>bound_tenant = Some t0\<rparr> = Inr (p, ctx)"
    using assms by (auto simp: authenticated_def)
  then show ?thesis using authenticate_binds [OF auth(2)]
    by (simp add: with_principal_def current_tenant_id_def)
qed

subsection \<open>What a handler changes\<close>

lemma transaction_cases:
  assumes "transaction op db = (m, db')"
  obtains (raised) e where "m = Inl e" "db' = db" "op db = Inl e" | (ok) x where "m = Inr x" "op db = Inr (db', x)"
  using assms by (auto simp: transaction_def split: sum.splits)

lemma snd_mapped [simp]: "snd (mapped f r) = snd r"
  by (simp add: mapped_def)

lemma reading_state [simp]: "snd (reading f db) = db"
  by (simp add: reading_def)

definition jobs_of :: "control_db \<Rightarrow> job_db" where
  "jobs_of db = job_db.truncate db"

text \<open>What another tenant sees and holds: its jobs, workers, runs and quota, its record and its keys.\<close>

definition tenant_rows ::
  "tenant \<Rightarrow> control_db \<Rightarrow> (evaluation_job list \<times> worker_record list \<times> uuid list \<times> tenant_quota_record option)
     \<times> tenant_record option \<times> api_key_row list" where
  "tenant_rows t db = (tenant_view t (jobs_of db), find_tenant t db, filter (\<lambda>k. ak_tenant_id k = t) (cp_keys db))"

definition only_rows_of :: "tenant \<Rightarrow> control_db \<Rightarrow> control_db \<Rightarrow> bool" where
  "only_rows_of t db db' \<longleftrightarrow> (\<forall>t'. t' \<noteq> t \<longrightarrow> tenant_rows t' db' = tenant_rows t' db)"

lemma only_rows_refl [simp]: "only_rows_of t db db"
  by (simp add: only_rows_of_def)

lemma truncate_fields [simp]:
  "db_jobs (job_db.truncate db) = db_jobs db" "db_workers (job_db.truncate db) = db_workers db"
  "db_quotas (job_db.truncate db) = db_quotas db" "db_runs (job_db.truncate db) = db_runs db"
  by (simp_all add: job_db.truncate_def)

lemma tenant_view_truncate:
  "tenant_view t (jobs_of db) = (visible t (db_jobs db), visible t (db_workers db), visible t (db_runs db), tenant_quota (db_quotas db) t)"
  by (simp add: tenant_view_def jobs_of_def)

lemma on_jobs_Inr:
  "on_jobs op db = Inr (db', x) \<longleftrightarrow>
     (\<exists>j. op (jobs_of db) = Inr (j, x) \<and> db' = job_db.extend j (control_db.fields (cp_tenants db) (cp_keys db)))"
  by (auto simp: on_jobs_def jobs_of_def)

lemma extended_fields [simp]:
  "db_jobs (job_db.extend j (control_db.fields ts ks)) = db_jobs j"
  "db_workers (job_db.extend j (control_db.fields ts ks)) = db_workers j"
  "db_quotas (job_db.extend j (control_db.fields ts ks)) = db_quotas j"
  "db_runs (job_db.extend j (control_db.fields ts ks)) = db_runs j"
  "cp_tenants (job_db.extend j (control_db.fields ts ks)) = ts" "cp_keys (job_db.extend j (control_db.fields ts ks)) = ks"
  by (simp_all add: job_db.extend_def control_db.fields_def)

lemma jobs_of_extended [simp]: "jobs_of (job_db.extend j (control_db.fields ts ks)) = j"
  by (simp add: jobs_of_def job_db.truncate_def job_db.extend_def control_db.fields_def)

lemma on_jobs_rows:
  assumes "on_jobs op db = Inr (db', x)" and "\<And>j x t'. op (jobs_of db) = Inr (j, x) \<Longrightarrow> t' \<noteq> t \<Longrightarrow>
    tenant_view t' j = tenant_view t' (jobs_of db)"
  shows "only_rows_of t db db'"
  using assms by (auto simp: on_jobs_Inr only_rows_of_def tenant_rows_def find_tenant_def)

lemma enqueue_rows: "enqueue_job i created now t r j = Inr (j', x) \<Longrightarrow> t' \<noteq> t \<Longrightarrow> tenant_view t' j' = tenant_view t' j"
  by (auto dest!: enqueue_Inr simp: tenant_view_def)

lemma cancel_rows: "cancel_job now t i j = Inr (j', x) \<Longrightarrow> t' \<noteq> t \<Longrightarrow> tenant_view t' j' = tenant_view t' j"
  by (auto dest!: cancel_Inr dest: update_job_view)

lemma on_jobs_enqueue_rows: "on_jobs (enqueue_job i created now t r) db = Inr (db', x) \<Longrightarrow> only_rows_of t db db'"
  by (erule on_jobs_rows) (rule enqueue_rows)

lemma on_jobs_cancel_rows: "on_jobs (cancel_job now t i) db = Inr (db', x) \<Longrightarrow> only_rows_of t db db'"
  by (erule on_jobs_rows) (rule cancel_rows)

lemma issue_rows: "issue_tenant_api_key now t key_id secret scopes who db = Inr (db', k) \<Longrightarrow> only_rows_of t db db'"
  by (auto simp: issue_tenant_api_key_def Let_def insert_key_Inr only_rows_of_def tenant_rows_def tenant_view_truncate
      find_tenant_def simp del: fullmatch.simps split: option.splits if_splits)

lemma filter_map_other:
  "(\<And>x. p x \<Longrightarrow> \<not> q x \<and> \<not> q (f x)) \<Longrightarrow> filter q (map (\<lambda>x. if p x then f x else x) xs) = filter q xs"
  by (induction xs) auto

lemma revoke_rows: "revoke_tenant_api_key now t key_id who db = Inr (db', k) \<Longrightarrow> only_rows_of t db db'"
  by (auto simp: revoke_tenant_api_key_def Let_def only_rows_of_def tenant_rows_def tenant_view_truncate
      find_tenant_def split: option.splits if_splits intro!: filter_map_other)

lemma find_append_other: "\<not> p y \<Longrightarrow> find p (xs @ [y]) = find p xs"
  by (induction xs) auto

lemma find_map_other: "(\<And>x. p x \<Longrightarrow> f x = x) \<Longrightarrow> (\<And>x. p (f x) = p x) \<Longrightarrow> find p (map f xs) = find p xs"
  by (induction xs) auto

lemma create_rows: "create_tenant now t name key_id secret who db = Inr (db', x) \<Longrightarrow> only_rows_of t db db'"
  by (auto simp: create_tenant_def Let_def insert_tenant_def insert_key_def insert_default_quota_def only_rows_of_def
      tenant_rows_def tenant_view_truncate find_tenant_def find_append_other tenant_quota_def
      simp del: fullmatch.simps split: if_splits)

lemma status_rows: "set_tenant_status now t status who db = Inr (db', x) \<Longrightarrow> only_rows_of t db db'"
  by (auto simp: set_tenant_status_def Let_def only_rows_of_def tenant_rows_def tenant_view_truncate find_tenant_def
      split: option.splits intro!: find_map_other)

lemma quota_rows: "on_quotas (set_tenant_quota now t q who) db = Inr (db', x) \<Longrightarrow> only_rows_of t db db'"
  by (auto simp: on_quotas_def only_rows_of_def tenant_rows_def tenant_view_truncate find_tenant_def dest: set_quota_other)

text \<open>The tenant whose rows a request may change.\<close>

definition route_target :: "api_request \<Rightarrow> principal \<Rightarrow> tenant" where
  "route_target r p = (case r of
     Post_tenant t _ _ \<Rightarrow> t | Patch_tenant t _ \<Rightarrow> t | Put_tenant_quota t _ \<Rightarrow> t | _ \<Rightarrow> pr_tenant_id p)"

lemmas route_defs = list_tenants_route_def create_tenant_route_def set_tenant_status_route_def get_tenant_quota_route_def
  set_tenant_quota_route_def get_current_tenant_route_def get_current_quota_route_def list_keys_route_def
  issue_key_route_def revoke_key_route_def enqueue_job_route_def list_jobs_route_def get_job_route_def
  cancel_job_route_def job_placement_route_def list_workers_route_def gpu_demand_route_def

text \<open>Every route is a principal's handler, whose changes are those of one transaction of the store.\<close>

definition confined :: "(principal \<Rightarrow> tenant) \<Rightarrow> (principal \<Rightarrow> tenant \<Rightarrow> control_db \<Rightarrow> 'a result \<times> control_db) \<Rightarrow> bool" where
  "confined target handler \<longleftrightarrow> (\<forall>p db. only_rows_of (target p) db (snd (handler p (pr_tenant_id p) db)))"

lemma confined_reading [intro]: "confined target (\<lambda>p t. reading (f p t))"
  by (simp add: confined_def reading_def)

lemma confined_transaction:
  assumes "\<And>p db db' x. op p (pr_tenant_id p) db = Inr (db', x) \<Longrightarrow> only_rows_of (target p) db db'"
  shows "confined target (\<lambda>p t db. mapped (f p t) (transaction (op p t) db))"
  unfolding confined_def using assms by (auto simp: transaction_def split: sum.splits)

lemma reading_route:
  "\<exists>valid' handler. with_principal G c s valid (\<lambda>p t. reading (f p t)) = with_principal G c s valid' handler
     \<and> confined target handler"
  by (intro exI conjI) (rule refl, rule confined_reading)

lemma handle_confined:
  "\<exists>valid handler. handle G c req = with_principal G c (route_scope req) valid handler
     \<and> confined (route_target req) handler"
proof (cases req)
  case (Post_tenant tenant_id name key_id)
  show ?thesis unfolding Post_tenant handle.simps route_defs
    by (intro exI conjI) (auto simp: route_scope_def route_target_def intro!: confined_transaction dest: create_rows)
next
  case (Patch_tenant tenant_id status)
  show ?thesis unfolding Patch_tenant handle.simps route_defs
    by (intro exI conjI) (auto simp: route_scope_def route_target_def intro!: confined_transaction dest: status_rows)
next
  case (Put_tenant_quota tenant_id quota)
  show ?thesis unfolding Put_tenant_quota handle.simps route_defs
    by (intro exI conjI) (auto simp: route_scope_def route_target_def intro!: confined_transaction dest: quota_rows)
next
  case (Post_api_key key_id scopes)
  show ?thesis unfolding Post_api_key handle.simps route_defs
    by (intro exI conjI) (auto simp: route_scope_def route_target_def confined_def transaction_def
        dest: issue_rows split: sum.splits prod.splits)
next
  case (Delete_api_key key_id)
  show ?thesis unfolding Delete_api_key handle.simps route_defs
    by (intro exI conjI) (auto simp: route_scope_def route_target_def intro!: confined_transaction dest: revoke_rows)
next
  case (Post_job body)
  show ?thesis unfolding Post_job handle.simps route_defs
    by (intro exI conjI) (auto simp: route_scope_def route_target_def confined_def transaction_def
        dest: on_jobs_enqueue_rows split: sum.splits)
next
  case (Delete_job job_id)
  show ?thesis unfolding Delete_job handle.simps route_defs
    by (intro exI conjI) (auto simp: route_scope_def route_target_def intro!: confined_transaction
        dest: on_jobs_cancel_rows)
qed (auto simp: handle.simps route_defs route_scope_def intro!: reading_route)

subsection \<open>Claims\<close>

text \<open>C36. The gateway is guarded and confined: a request that is answered otherwise than with an error, or that changes
  anything, was authenticated for a principal whose credential authorises the scope of its route, and it changes the
  jobs, workers, runs, quota, record and keys of one tenant only, the principal's own unless an operator route names
  another.\<close>

theorem gateway_requests_confined:
  "case handle G c req db of (reply, db') \<Rightarrow>
     (db' = db \<and> (case reply of Inl e \<Rightarrow> True | Inr x \<Rightarrow> False))
     \<or> (\<exists>p. authenticated G c (route_scope req) db p \<and> only_rows_of (route_target req p) db db')"
proof -
  obtain valid handler where route: "handle G c req = with_principal G c (route_scope req) valid handler"
    and confined: "confined (route_target req) handler"
    using handle_confined by blast
  obtain r db' where handled: "handle G c req db = (r, db')" by force
  from handled have "with_principal G c (route_scope req) valid handler db = (r, db')" by (simp add: route)
  then show ?thesis
  proof (cases rule: with_principal_cases)
    case refused
    then show ?thesis using handled by simp
  next
    case (handled p)
    then have "only_rows_of (route_target req p) db db'"
      using confined unfolding confined_def by (metis snd_conv)
    then show ?thesis using handled(1) \<open>handle G c req db = (r, db')\<close> by auto
  qed
qed

subsection \<open>Invariants\<close>

lemma registry_quotas:
  assumes "registry_ok db" "cp_tenants db' = cp_tenants db" "cp_keys db' = cp_keys db"
    and "\<And>t. map_of (db_quotas db) t \<noteq> None \<Longrightarrow> map_of (db_quotas db') t \<noteq> None"
  shows "registry_ok db'"
proof -
  have "key_row_ok db' = key_row_ok db" unfolding key_row_ok_def assms(2) by (rule refl)
  moreover have "tenant_ok db t \<Longrightarrow> tenant_ok db' t" for t unfolding tenant_ok_def assms(3) using assms(4) by blast
  ultimately show ?thesis using assms(1) unfolding registry_ok_def assms(2,3) list_all_iff by auto
qed

definition service_ok :: "control_db \<Rightarrow> bool" where
  "service_ok db \<longleftrightarrow> registry_ok db \<and> job_db_ok (jobs_of db)"

lemma job_db_ok_quotas:
  assumes "db_jobs j' = db_jobs j" "db_runs j' = db_runs j"
  shows "job_db_ok j' = job_db_ok j"
  unfolding job_db_ok_def runs_exist_def assms by (rule refl)

lemma jobs_of_fields [simp]: "db_jobs (jobs_of db) = db_jobs db" "db_runs (jobs_of db) = db_runs db"
  by (simp_all add: jobs_of_def)

lemma enqueue_keeps:
  assumes "on_jobs (enqueue_job i created now t r) db = Inr (db', x)" "service_ok db"
  shows "service_ok db'"
proof -
  obtain j where j: "enqueue_job i created now t r (jobs_of db) = Inr (j, x)"
    and db': "db' = job_db.extend j (control_db.fields (cp_tenants db) (cp_keys db))"
    using assms(1) by (auto simp: on_jobs_Inr)
  have "job_db_ok j" using step_ok [OF job_step.enqueue [OF order_refl j]] assms(2) by (simp add: service_ok_def)
  moreover have "db_quotas j = db_quotas db" using enqueue_Inr [OF j] by (auto simp: jobs_of_def)
  ultimately show ?thesis using assms(2) registry_quotas [of db db'] by (simp add: service_ok_def db')
qed

lemma cancel_keeps:
  assumes "on_jobs (cancel_job now t i) db = Inr (db', x)" "service_ok db"
  shows "service_ok db'"
proof -
  obtain j where j: "cancel_job now t i (jobs_of db) = Inr (j, x)"
    and db': "db' = job_db.extend j (control_db.fields (cp_tenants db) (cp_keys db))"
    using assms(1) by (auto simp: on_jobs_Inr)
  have "job_db_ok j" using step_ok [OF job_step.cancel [OF order_refl j]] assms(2) by (simp add: service_ok_def)
  moreover have "db_quotas j = db_quotas db" using cancel_Inr [OF j] by (auto simp: jobs_of_def update_job_def)
  ultimately show ?thesis using assms(2) registry_quotas [of db db'] by (simp add: service_ok_def db')
qed

lemma registry_op_keeps:
  assumes "service_ok db" "registry_ok db'" "db_jobs db' = db_jobs db" "db_runs db' = db_runs db"
  shows "service_ok db'"
  using assms job_db_ok_quotas [of "jobs_of db'" "jobs_of db"] by (simp add: service_ok_def)

lemma create_jobs: "create_tenant now t n k s w db = Inr (db', x) \<Longrightarrow> db_jobs db' = db_jobs db \<and> db_runs db' = db_runs db"
  by (auto simp: create_tenant_def Let_def insert_tenant_def insert_key_Inr insert_default_quota_def
      simp del: fullmatch.simps split: if_splits)

lemma status_jobs: "set_tenant_status now t st w db = Inr (db', x) \<Longrightarrow> db_jobs db' = db_jobs db \<and> db_runs db' = db_runs db"
  by (auto simp: set_tenant_status_def Let_def split: option.splits)

lemma issue_jobs: "issue_tenant_api_key now t k s sc w db = Inr (db', x) \<Longrightarrow> db_jobs db' = db_jobs db \<and> db_runs db' = db_runs db"
  by (auto simp: issue_tenant_api_key_def Let_def insert_key_Inr simp del: fullmatch.simps split: option.splits if_splits)

lemma revoke_jobs: "revoke_tenant_api_key now t k w db = Inr (db', x) \<Longrightarrow> db_jobs db' = db_jobs db \<and> db_runs db' = db_runs db"
  by (auto simp: revoke_tenant_api_key_def Let_def split: option.splits if_splits)

lemma service_ok_registry: "service_ok db \<Longrightarrow> registry_ok db"
  by (simp add: service_ok_def)

lemma create_keeps: "create_tenant now t n k s w db = Inr (db', x) \<Longrightarrow> service_ok db \<Longrightarrow> service_ok db'"
  using registry_op_keeps [of db db'] create_tenant_ok [of now t n k s w db db' x] create_jobs [of now t n k s w db db' x] service_ok_registry [of db]
  by blast

lemma status_keeps: "set_tenant_status now t st w db = Inr (db', x) \<Longrightarrow> service_ok db \<Longrightarrow> service_ok db'"
  using registry_op_keeps [of db db'] set_status_ok [of now t st w db db' x] status_jobs [of now t st w db db' x] service_ok_registry [of db]
  by blast

lemma issue_keeps: "issue_tenant_api_key now t k s sc w db = Inr (db', x) \<Longrightarrow> service_ok db \<Longrightarrow> service_ok db'"
  using registry_op_keeps [of db db'] issue_key_ok [of now t k s sc w db db' x] issue_jobs [of now t k s sc w db db' x] service_ok_registry [of db]
  by blast

lemma revoke_keeps: "revoke_tenant_api_key now t k w db = Inr (db', x) \<Longrightarrow> service_ok db \<Longrightarrow> service_ok db'"
  using registry_op_keeps [of db db'] revoke_ok [of now t k w db db' x] revoke_jobs [of now t k w db db' x] service_ok_registry [of db]
  by blast

lemma set_quota_known:
  "set_tenant_quota now t q who quotas = Inr (quotas', rec) \<Longrightarrow> map_of quotas t' \<noteq> None \<Longrightarrow> map_of quotas' t' \<noteq> None"
  by (auto simp: set_tenant_quota_def Let_def split: option.splits)

lemma quota_keeps:
  assumes "on_quotas (set_tenant_quota now t q who) db = Inr (db', x)" "service_ok db"
  shows "service_ok db'"
proof -
  obtain quotas' where quotas: "set_tenant_quota now t q who (db_quotas db) = Inr (quotas', x)" "db' = db\<lparr>db_quotas := quotas'\<rparr>"
    using assms(1) by (auto simp: on_quotas_def)
  have "registry_ok db'"
    using registry_quotas [OF service_ok_registry [OF assms(2)], of db'] set_quota_known [OF quotas(1)] by (simp add: quotas(2))
  then show ?thesis by (rule registry_op_keeps [OF assms(2)]) (simp_all add: quotas(2))
qed

definition keeps_service :: "(principal \<Rightarrow> tenant \<Rightarrow> control_db \<Rightarrow> 'a result \<times> control_db) \<Rightarrow> bool" where
  "keeps_service handler \<longleftrightarrow> (\<forall>p t db. service_ok db \<longrightarrow> service_ok (snd (handler p t db)))"

lemma keeps_reading: "keeps_service (\<lambda>p t. reading (f p t))"
  by (simp add: keeps_service_def reading_def)

lemma keeps_transaction:
  assumes "\<And>p t db db' x. op p t db = Inr (db', x) \<Longrightarrow> service_ok db \<Longrightarrow> service_ok db'"
  shows "keeps_service (\<lambda>p t db. mapped (f p t) (transaction (op p t) db))"
  unfolding keeps_service_def using assms by (auto simp: transaction_def split: sum.splits)

lemma with_principal_keeps:
  assumes "keeps_service handler" "service_ok db"
  shows "service_ok (snd (with_principal G c scope valid handler db))"
proof (cases "with_principal G c scope valid handler db")
  case (Pair r db')
  then show ?thesis
  proof (cases rule: with_principal_cases)
    case refused
    then show ?thesis using assms(2) Pair by simp
  next
    case (handled p)
    then show ?thesis using assms Pair unfolding keeps_service_def by (metis snd_conv)
  qed
qed

lemma handle_keeps:
  assumes "service_ok db"
  shows "service_ok (snd (handle G c req db))"
proof (cases req)
  case (Post_api_key key_id scopes)
  show ?thesis unfolding Post_api_key handle.simps route_defs
    by (rule with_principal_keeps [OF _ assms])
      (auto simp: keeps_service_def transaction_def dest: issue_keeps split: sum.splits prod.splits)
next
  case (Post_job body)
  show ?thesis unfolding Post_job handle.simps route_defs
    by (rule with_principal_keeps [OF _ assms])
      (auto simp: keeps_service_def transaction_def dest: enqueue_keeps split: sum.splits)
next
  case (Post_tenant t n k)
  show ?thesis unfolding Post_tenant handle.simps route_defs
    by (rule with_principal_keeps [OF keeps_transaction assms]) (auto dest: create_keeps)
next
  case (Patch_tenant t st)
  show ?thesis unfolding Patch_tenant handle.simps route_defs
    by (rule with_principal_keeps [OF keeps_transaction assms]) (auto dest: status_keeps)
next
  case (Put_tenant_quota t q)
  show ?thesis unfolding Put_tenant_quota handle.simps route_defs
    by (rule with_principal_keeps [OF keeps_transaction assms]) (auto dest: quota_keeps)
next
  case (Delete_api_key k)
  show ?thesis unfolding Delete_api_key handle.simps route_defs
    by (rule with_principal_keeps [OF keeps_transaction assms]) (auto dest: revoke_keeps)
next
  case (Delete_job i)
  show ?thesis unfolding Delete_job handle.simps route_defs
    by (rule with_principal_keeps [OF keeps_transaction assms]) (auto dest: cancel_keeps)
qed (simp_all add: handle.simps route_defs with_principal_keeps [OF keeps_reading assms])

text \<open>The service: requests, and the workers' operations on the queue between them.\<close>

inductive service_step :: "gateway \<Rightarrow> instant \<times> control_db \<Rightarrow> instant \<times> control_db \<Rightarrow> bool" for G where
  request: "handle G c req db = (r, db') \<Longrightarrow> now \<le> hc_now c \<Longrightarrow> service_step G (now, db) (hc_now c, db')"
| queue: "job_step (gw_float G) (now, jobs_of db) e (now', j) \<Longrightarrow>
     service_step G (now, db) (now', job_db.extend j (control_db.fields (cp_tenants db) (cp_keys db)))"

lemma job_step_quotas:
  assumes "job_step fl (now, db) e (now', db')" "map_of (db_quotas db) t \<noteq> None"
  shows "map_of (db_quotas db') t \<noteq> None"
  using assms(1)
proof (cases rule: job_step.cases)
  case (enqueue i c t r j)
  then show ?thesis using assms(2) by (auto dest!: enqueue_Inr)
next
  case (lease t w s caps row)
  then show ?thesis using assms(2) by (auto simp: lease_job_def split: option.splits)
next
  case (register t w c rec)
  then show ?thesis using assms(2) by (auto simp: register_worker_def Let_def split: option.splits)
next
  case (set_quota t q u quotas' rec)
  then show ?thesis using assms(2) set_quota_known by auto
next
  case (complete t i w r j)
  then show ?thesis using assms(2) by (auto dest!: complete_Inr simp: update_job_def)
qed (use assms(2) in \<open>auto dest!: renew_Inr fail_Inr cancel_Inr simp: update_job_def\<close>)

lemma service_step_keeps:
  assumes "service_step G (now, db) (now', db')" "service_ok db"
  shows "service_ok db'"
  using assms(1)
proof (cases rule: service_step.cases)
  case (request c req r)
  then show ?thesis using handle_keeps [OF assms(2), of G c req] by simp
next
  case (queue e j)
  have "job_db_ok j" using step_ok [OF queue(2)] assms(2) by (simp add: service_ok_def)
  moreover have "map_of (db_quotas j) t \<noteq> None" if "map_of (db_quotas db) t \<noteq> None" for t
    using job_step_quotas [OF queue(2), of t] that by (simp add: jobs_of_def)
  ultimately show ?thesis
    using assms(2) registry_quotas [of db db'] by (simp add: service_ok_def queue(1))
qed

lemma control_db0_service: "service_ok control_db0"
  unfolding service_ok_def
  by (rule conjI [OF control_db0_ok])
    (simp add: job_db_ok_def all_rows_def unique_key_def runs_exist_def control_db0_def)

text \<open>C39. Whatever requests reach the gateway and whatever workers do between them, in any order, the registry and the
  queue stay well formed together: ids, key names and digests unique, every tenant with a quota and an active
  administrator key, every job valid with its lease exactly while it runs.\<close>

theorem gateway_keeps_invariants:
  assumes "(service_step G)\<^sup>*\<^sup>* (0, control_db0) (now, db)"
  shows "registry_ok db \<and> job_db_ok (jobs_of db)"
proof -
  have "service_ok (snd s)" if "(service_step G)\<^sup>*\<^sup>* (0, control_db0) s" for s
    using that
  proof (induction rule: rtranclp_induct)
    case base
    show ?case by (simp add: control_db0_service)
  next
    case (step s s')
    then show ?case by (metis prod.collapse service_step_keeps)
  qed
  from this [OF assms] show ?thesis by (simp add: service_ok_def)
qed

definition idle_gateway :: gateway where
  "idle_gateway = \<lparr>gw_primitives = toy_primitives, gw_env_tenant = None, gw_auth_config = None, gw_verifier = None,
     gw_allowed_files = [(''suite.jsonl'', ''/inputs/suite.jsonl'')], gw_float = no_float, gw_error_text = (\<lambda>e. [])\<rparr>"

definition toy_capabilities :: worker_capabilities where
  "toy_capabilities = \<lparr>wc_hostname = ''host'', wc_operating_system = ''linux'', wc_architecture = ''x86'',
     wc_cpu_count = 1, wc_accelerators = [CPU], wc_gpus = [], wc_labels = []\<rparr>"

theorem gateway_keeps_invariants_witness:
  "\<exists>db. db_workers db \<noteq> [] \<and> registry_ok db \<and> job_db_ok (jobs_of db)"
proof -
  obtain j w where registered: "register_worker 5 ''acme'' ''w1'' toy_capabilities (jobs_of control_db0) = (j, w)"
    by force
  then have workers: "db_workers j \<noteq> []"
    by (auto simp: register_worker_def Let_def jobs_of_def control_db0_def job_db.truncate_def insert_row_def returning_def
        split: option.splits)
  let ?db = "job_db.extend j (control_db.fields (cp_tenants control_db0) (cp_keys control_db0))"
  have "service_step idle_gateway (0, control_db0) (5, ?db)"
    by (rule service_step.queue, rule job_step.register [OF _ registered]) simp
  then have "registry_ok ?db \<and> job_db_ok (jobs_of ?db)"
    using gateway_keeps_invariants [of idle_gateway 5 ?db] by blast
  then show ?thesis using workers by (intro exI [of _ ?db]) simp
qed

subsection \<open>Issued secrets\<close>

lemma registry_key_identifies:
  assumes "registry_ok db" "k \<in> set (cp_keys db)" "ak_revoked_at k = None" "tenant_access_allowed (ak_tenant_id k) db"
    and "ak_secret_sha256 k = sha256_hex (gw_primitives G) (utf8 secret)" "secret \<noteq> []"
    and "matching_key (ak_secret_sha256 k) (configured_keys (gateway_authenticator G db)) = Inr None"
  shows "identify (gw_primitives G) (gateway_authenticator G db) secret
    = Inr \<lparr>pr_key_id = ak_key_id k, pr_tenant_id = ak_tenant_id k, pr_scopes = Tenant_scope ` set (ak_scopes k)\<rparr>"
proof -
  have "registry_key (gateway_authenticator G db) (ak_secret_sha256 k)
      = Some \<lparr>rk_tenant_id = ak_tenant_id k, rk_key_id = ak_key_id k, rk_scopes = ak_scopes k\<rparr>"
    using resolve_unique [OF assms(1,2)] assms(3,4) by (simp add: registry_key_def gateway_authenticator_def)
  then show ?thesis using assms(5-7)
    by (simp add: identify_def hash_api_key_def principal_of_def)
qed

lemma find_at_end: "find p xs = None \<Longrightarrow> p y \<Longrightarrow> find p (xs @ [y]) = Some y"
  by (induction xs) (auto split: if_splits)

lemma created_key:
  assumes "create_tenant now t n key_id digest who db = Inr (db', x)"
  shows "\<exists>k \<in> set (cp_keys db'). ak_tenant_id k = t \<and> ak_key_id k = key_id \<and> ak_secret_sha256 k = digest
      \<and> ak_scopes k = [Admin_scope] \<and> ak_revoked_at k = None"
    and "tenant_access_allowed t db'"
proof -
  show "\<exists>k \<in> set (cp_keys db'). ak_tenant_id k = t \<and> ak_key_id k = key_id \<and> ak_secret_sha256 k = digest
      \<and> ak_scopes k = [Admin_scope] \<and> ak_revoked_at k = None"
    using assms(1)
    by (auto simp: create_tenant_def Let_def insert_tenant_def insert_key_Inr insert_default_quota_def
        simp del: fullmatch.simps split: if_splits)
  have "\<exists>r. cp_tenants db' = cp_tenants db @ [r] \<and> tr_tenant_id r = t \<and> tr_status r = Active
      \<and> t \<notin> set (map tr_tenant_id (cp_tenants db))"
    using assms(1)
    by (auto simp: create_tenant_def Let_def insert_tenant_def insert_key_Inr insert_default_quota_def
        simp del: fullmatch.simps split: if_splits)
  then obtain r where r: "cp_tenants db' = cp_tenants db @ [r]" "tr_tenant_id r = t" "tr_status r = Active"
      "t \<notin> set (map tr_tenant_id (cp_tenants db))"
    by blast
  then have none: "find (\<lambda>r. tr_tenant_id r = t) (cp_tenants db) = None" unfolding find_None_iff by (metis image_eqI set_map)
  have "find_tenant t db' = Some r" unfolding find_tenant_def r(1) using find_at_end [OF none] r(2) by simp
  with r(3) show "tenant_access_allowed t db'" by (simp add: tenant_access_allowed_def)
qed

lemma is_Inr_iff: "is_Inr m \<longleftrightarrow> (\<exists>x. m = Inr x)"
  by (cases m) (simp_all add: is_Inr_def)

lemma authenticated_by_identity:
  assumes "gw_auth_config G \<noteq> None \<or> gw_verifier G \<noteq> None" "default_tenant_id (gw_env_tenant G) = Inr t0"
    and "hc_credential c = Some secret" "identify (gw_primitives G) (gateway_authenticator G db) secret = Inr p"
    and "authorized scope (pr_scopes p)" "fullmatch TENANT_ID_PATTERN (pr_tenant_id p)"
  shows "authenticated G c scope db p"
  using assms
  by (simp add: authenticated_def authenticate_def auth_enabled_def gateway_authenticator_def bind_tenant_def
      del: fullmatch.simps)

lemma authenticated_identity:
  assumes "gw_auth_config G \<noteq> None \<or> gw_verifier G \<noteq> None" "authenticated G c scope db p" "hc_credential c = Some secret"
  shows "identify (gw_primitives G) (gateway_authenticator G db) secret = Inr p \<and> authorized scope (pr_scopes p)"
proof -
  have "auth_enabled (gateway_authenticator G db)" using assms(1) by (simp add: auth_enabled_def gateway_authenticator_def)
  then show ?thesis using assms(2,3) by (auto simp: authenticated_def elim: authenticate_Inr)
qed

text \<open>C38. The secret an operator receives for a new tenant admits its holder, at once and as administrator of that tenant
  only: the next request that carries it is authenticated as the tenant's initial key for every scope of a tenant's
  route, and for no operator route.\<close>

theorem issued_secret_admits:
  assumes "handle G c (Post_tenant t name key_id) db = (Inr reply, db')" "registry_ok db"
    and "gw_auth_config G \<noteq> None \<or> gw_verifier G \<noteq> None"
    and "matching_key (sha256_hex (gw_primitives G) (utf8 (hc_secret c))) (configured_keys (gateway_authenticator G db)) = Inr None"
    and "hc_credential c' = Some (hc_secret c)"
  shows "(\<exists>r k. reply = Issued_reply r k (hc_secret c) \<and> tr_tenant_id r = t)
    \<and> authenticated G c' (Tenant_scope s) db'
        \<lparr>pr_key_id = key_id, pr_tenant_id = t, pr_scopes = {Tenant_scope Admin_scope}\<rparr>
    \<and> (\<nexists>p. authenticated G c' Operator_scope db' p)"
proof -
  let ?digest = "sha256_hex (gw_primitives G) (utf8 (hc_secret c))"
  let ?p = "\<lparr>pr_key_id = key_id, pr_tenant_id = t, pr_scopes = {Tenant_scope Admin_scope}\<rparr>"
  from assms(1)[unfolded handle.simps create_tenant_route_def]
  obtain p where auth: "authenticated G c Operator_scope db p" and valid: "tenant_create_valid t name key_id"
    and handled: "mapped (\<lambda>m. bind_result (answering (caught is_conflict 409 (gw_error_text G)) m)
                (\<lambda>(r, k). issued_reply r k (hc_secret c)))
         (transaction (\<lambda>db. bind_result (hash_api_key (gw_primitives G) (hc_secret c)) (\<lambda>digest.
            create_tenant (hc_now c) t name key_id digest (pr_key_id p) db)) db) = (Inr reply, db')"
    by (rule with_principal_cases) auto
  then obtain r k where secret: "hc_secret c \<noteq> []"
    and created: "create_tenant (hc_now c) t name key_id ?digest (pr_key_id p) db = Inr (db', r, k)"
    and reply: "reply = Issued_reply r k (hc_secret c)"
    by (auto simp: mapped_def transaction_def answering_def caught_def issued_reply_def hash_api_key_def
        split: sum.splits if_splits option.splits)
  have r: "tr_tenant_id r = t" using created by (auto simp: create_tenant_def Let_def)
  obtain key where key: "key \<in> set (cp_keys db')" "ak_tenant_id key = t" "ak_key_id key = key_id"
      "ak_secret_sha256 key = ?digest" "ak_scopes key = [Admin_scope]" "ak_revoked_at key = None"
    using created_key(1) [OF created] by blast
  have same: "configured_keys (gateway_authenticator G db') = configured_keys (gateway_authenticator G db)"
    by (simp add: configured_keys_def gateway_authenticator_def)
  have "identify (gw_primitives G) (gateway_authenticator G db') (hc_secret c) = Inr ?p"
    using registry_key_identifies [OF create_tenant_ok [OF created assms(2)] key(1,6), of G "hc_secret c"]
      created_key(2) [OF created] key assms(4) secret by (simp add: same)
  then have admitted: "identify (gw_primitives G) (gateway_authenticator G db') (hc_secret c) = Inr ?p" .
  obtain t0 where t0: "default_tenant_id (gw_env_tenant G) = Inr t0" using auth by (auto simp: authenticated_def)
  have "fullmatch TENANT_ID_PATTERN (pr_tenant_id ?p)" "authorized (Tenant_scope s) (pr_scopes ?p)"
    using valid by (simp_all add: tenant_create_valid_def authorized_def del: fullmatch.simps)
  then have "authenticated G c' (Tenant_scope s) db' ?p"
    using authenticated_by_identity [OF assms(3) t0 assms(5) admitted] by blast
  moreover have "\<not> authenticated G c' Operator_scope db' p" for p
    using authenticated_identity [OF assms(3) _ assms(5), of Operator_scope db' p] admitted by (auto simp: authorized_def)
  ultimately show ?thesis using reply r by blast
qed

definition ops_gateway :: gateway where
  "ops_gateway = idle_gateway\<lparr>gw_auth_config := Some [ex_key]\<rparr>"

definition ops_call :: http_call where
  "ops_call = \<lparr>hc_credential = Some ''secret'', hc_request_id = [], hc_fresh_request_id = ''r1'', hc_traceparent = [],
     hc_now = 1, hc_clock = 1, hc_fresh_id = 1, hc_secret = replicate 43 CHR ''k''\<rparr>"

lemma toy_digests_differ: "sha256_hex toy_primitives (utf8 ''secret'') \<noteq> sha256_hex toy_primitives (utf8 (replicate 43 CHR ''k''))"
proof -
  have lengths: "length (utf8 ''secret'') = 6" "length (utf8 (replicate 43 CHR ''k'')) = 43" by (simp_all add: utf8_def)
  have "sha256_hex toy_primitives x = hex_fixed 64 (length x)" for x by (simp add: toy_primitives_def)
  then show ?thesis unfolding lengths using hex_fixed_inj [of 6 64 43] by (auto simp: lengths)
qed

lemma ops_identified: "identify toy_primitives (gateway_authenticator ops_gateway db) ''secret'' = Inr ex_principal"
proof -
  have "ascii (sha256_hex toy_primitives (utf8 ''secret''))"
    using toy_primitives_ok by (simp add: primitives_ok_def is_sha256_ascii)
  then show ?thesis
    by (simp add: identify_def hash_api_key_def configured_keys_def gateway_authenticator_def ops_gateway_def idle_gateway_def
        ex_key_def compare_digest_def principal_of_def ex_principal_def)
qed

lemma ops_authenticated: "authenticated ops_gateway ops_call Operator_scope db ex_principal"
proof -
  have tenant: "fullmatch TENANT_ID_PATTERN ''acme''"
    unfolding fullmatch_tenant_id by (simp add: tenant_char_def in_class_def)
  have default_ok: "default_tenant_id None = Inr DEFAULT_TENANT_ID"
    by (simp add: default_tenant_id_def DEFAULT_TENANT_ID_valid del: fullmatch.simps)
  show ?thesis
    by (rule authenticated_by_identity [of _ DEFAULT_TENANT_ID _ "''secret''"])
      (simp_all add: ops_gateway_def idle_gateway_def ops_call_def default_ok ops_identified [unfolded ops_gateway_def idle_gateway_def, simplified]
        authorized_def ex_principal_def tenant del: fullmatch.simps)
qed

text \<open>The answer to the operator's request, and the request of the new administrator.\<close>

lemma ops_created:
  "\<exists>reply db'. handle ops_gateway ops_call (Post_tenant ''acme'' ''Acme'' ''root'') control_db0 = (Inr reply, db')"
proof -
  let ?digest = "sha256_hex toy_primitives (utf8 (replicate 43 CHR ''k''))"
  have valid: "tenant_create_valid ''acme'' ''Acme'' ''root''"
    using ex_patterns by (simp add: tenant_create_valid_def text_between_def del: fullmatch.simps)
  have digest: "is_sha256 ?digest" using toy_primitives_ok by (simp add: primitives_ok_def)
  have "\<exists>x. create_tenant 1 ''acme'' ''Acme'' ''root'' ?digest ''ops'' control_db0 = Inr x"
    using ex_patterns digest
    by (simp add: create_tenant_def insert_tenant_def insert_key_def insert_default_quota_def control_db0_def Let_def
        unique_conflict_def new_key_def del: fullmatch.simps)
  then obtain db' r k where created: "create_tenant 1 ''acme'' ''Acme'' ''root'' ?digest ''ops'' control_db0 = Inr (db', r, k)"
    by (metis prod_cases3)
  have fields: "gw_primitives ops_gateway = toy_primitives" "hc_secret ops_call = replicate 43 CHR ''k''"
    "hc_now ops_call = 1" "pr_key_id ex_principal = ''ops''"
    by (simp_all add: ops_gateway_def idle_gateway_def ops_call_def ex_principal_def)
  have hashed: "hash_api_key toy_primitives (replicate 43 CHR ''k'') = Inr ?digest"
    by (simp add: hash_api_key_def)
  show ?thesis
    unfolding handle.simps create_tenant_route_def with_principal_authenticated [OF ops_authenticated] if_P [OF valid] fields
      transaction_def hashed bind_result_simps created
    by (simp add: mapped_def answering_def issued_reply_def)
qed

theorem issued_secret_admits_witness:
  "\<exists>db'. authenticated ops_gateway (ops_call\<lparr>hc_credential := Some (replicate 43 CHR ''k'')\<rparr>) (Tenant_scope Write_scope) db'
      \<lparr>pr_key_id = ''root'', pr_tenant_id = ''acme'', pr_scopes = {Tenant_scope Admin_scope}\<rparr>"
proof -
  obtain reply db' where created:
      "handle ops_gateway ops_call (Post_tenant ''acme'' ''Acme'' ''root'') control_db0 = (Inr reply, db')"
    using ops_created by blast
  have "ascii (sha256_hex toy_primitives x)" for x
    using toy_primitives_ok by (simp add: primitives_ok_def is_sha256_ascii)
  then have "matching_key (sha256_hex (gw_primitives ops_gateway) (utf8 (hc_secret ops_call)))
      (configured_keys (gateway_authenticator ops_gateway control_db0)) = Inr None"
    using toy_digests_differ
    by (simp add: configured_keys_def gateway_authenticator_def ops_gateway_def idle_gateway_def ops_call_def ex_key_def
        compare_digest_def)
  then show ?thesis
    using issued_secret_admits [OF created control_db0_ok, of "ops_call\<lparr>hc_credential := Some (replicate 43 CHR ''k'')\<rparr>" Write_scope]
    by (auto simp: ops_gateway_def ops_call_def)
qed

subsection \<open>Every error has its status\<close>

definition answered :: "'a result \<Rightarrow> bool" where
  "answered m = (case m of Inr x \<Rightarrow> True | Inl e \<Rightarrow> status_of_exn e \<in> {404, 409, 422, 429})"

lemma answered_simps [simp]: "answered (Inr x)" "answered (Inl (HTTPException n d)) \<longleftrightarrow> n \<in> {404, 409, 422, 429}"
  by (simp_all add: answered_def status_of_exn_def)

lemma answered_replying [simp]: "answered (replying f m) \<longleftrightarrow> answered m"
  by (cases m) (simp_all add: replying_def answered_def)

lemma answered_not_found: "(\<And>e. m = Inl e \<Longrightarrow> \<exists>x. e = KeyError x) \<Longrightarrow> answered (answering (not_found d) m)"
  by (cases m) (auto simp: answering_def not_found_def)

lemma fst_mapped [simp]: "fst (mapped f r) = f (fst r)"
  by (simp add: mapped_def)

lemma fst_transaction: "fst (transaction op db) = (case op db of Inl e \<Rightarrow> Inl e | Inr x \<Rightarrow> Inr (snd x))"
  by (simp add: transaction_def split: sum.splits)

lemma fst_reading [simp]: "fst (reading f db) = f db"
  by (simp add: reading_def)

lemma create_tenant_Inl:
  assumes "create_tenant now t name key_id digest who db = Inl e" "tenant_create_valid t name key_id" "is_sha256 digest"
  shows "e = TenantConflictError"
  using assms
  by (auto simp: create_tenant_def Let_def insert_tenant_def insert_key_def insert_default_quota_def unique_conflict_def
      tenant_create_valid_def text_between_def new_key_def bind_result_Inl simp del: fullmatch.simps
      split: if_splits sum.splits exn.splits)

lemma issue_Inl:
  assumes "issue_tenant_api_key now t key_id digest scopes who db = Inl e" "fullmatch API_KEY_ID_PATTERN key_id"
    "is_sha256 digest" "scopes \<noteq> []"
  shows "(\<exists>x. e = KeyError x) \<or> e = TenantSuspendedError \<or> e = TenantConflictError"
proof -
  have scopes: "sort_key scope_str (remdups scopes) \<noteq> []" using assms(4) by (metis length_0_conv length_sort remdups_eq_nil_iff)
  have "t \<in> set (map tr_tenant_id (cp_tenants db))" if "find_tenant t db = Some r" for r
    using find_tenant_Some [OF that] by auto
  then show ?thesis using assms(1-3) scopes
    by (auto simp: issue_tenant_api_key_def Let_def insert_key_def unique_conflict_def new_key_def bind_result_Inl
        simp del: fullmatch.simps split: if_splits sum.splits exn.splits option.splits)
qed

lemma revoke_Inl:
  "revoke_tenant_api_key now t key_id who db = Inl e \<Longrightarrow> (\<exists>x. e = KeyError x) \<or> e = LastTenantAdminError"
  by (auto simp: revoke_tenant_api_key_def Let_def split: option.splits if_splits)

lemma effective_labels_Inl:
  assumes "effective_labels v labels = Inl e" shows "\<exists>m. e = ValueError m"
proof -
  have step: "\<exists>m. e' = ValueError m" if "require_runtime v entry ls = Inl e'" for entry ls e'
    using that by (auto simp: require_runtime_def split: prod.splits option.splits if_splits)
  have "\<exists>m. e' = ValueError m"
    if "fold (\<lambda>entry m. bind_result m (require_runtime v entry)) es r = Inl e'" "\<And>e''. r = Inl e'' \<Longrightarrow> \<exists>m. e'' = ValueError m"
    for es r e'
    using that
  proof (induction es arbitrary: r)
    case (Cons x es)
    show ?case by (rule Cons.IH [OF Cons.prems(1) [unfolded fold_Cons comp_apply]])
      (use Cons.prems(2) step [of x] in \<open>auto simp: bind_result_Inl\<close>)
  qed auto
  from this [OF assms [unfolded effective_labels_def]] show ?thesis by simp
qed

lemma validate_job_Inl: "validate_evaluation_job j = Inl e \<Longrightarrow> is_value_error e"
  by (auto simp: validate_evaluation_job_def normalize_optional_mig_def normalize_mig_profile_def gpu_constraints_require_cuda_def Let_def
      is_value_error_def bind_result_Inl split: if_splits option.splits sum.splits)

lemma enqueue_Inl:
  assumes "enqueue_job i created now t r db = Inl e" "\<not> job_id_taken i db"
  shows "is_value_error e \<or> (\<exists>q l n. e = TenantQuotaExceededError q l n)"
  using assms effective_labels_Inl validate_job_Inl
  by (fastforce simp: enqueue_job_def bind_result_Inl enqueue_quota_check_def Let_def is_value_error_def
      split: if_splits option.splits)

lemma quota_answered:
  assumes "is_value_error e \<or> (\<exists>q l n. e = TenantQuotaExceededError q l n)"
  shows "answered (answering (else_handler quota_answer (caught is_value_error 422 text_of)) (Inl e))"
proof -
  have "quota_answer e = None \<or> (\<exists>d. quota_answer e = Some (429, d))" by (cases e) (simp_all add: quota_answer_def)
  moreover have "quota_answer (TenantQuotaExceededError q l n) = Some (429, ''tenant_quota_exceeded'')" for q l n
    by (simp add: quota_answer_def)
  ultimately show ?thesis using assms by (elim disjE exE) (auto simp: answering_def else_handler_def caught_def)
qed

lemma cancel_Inl: "cancel_job now t i db = Inl e \<Longrightarrow> (\<exists>x. e = KeyError x) \<or> (\<exists>x. e = ValueError x)"
  by (auto simp: cancel_job_def get_job_def bind_result_Inl split: prod.splits option.splits)

lemma on_jobs_Inl: "on_jobs op db = Inl e \<longleftrightarrow> op (jobs_of db) = Inl e"
  by (cases "op (jobs_of db)") (auto simp: on_jobs_def jobs_of_def)

lemma issued_answered:
  assumes "32 \<le> length secret" "answered m"
  shows "answered (bind_result m (\<lambda>(r, k). issued_reply r k secret))"
  using assms by (cases m) (auto simp: issued_reply_def answered_def)

lemma job_db_truncate: "job_db.truncate db = jobs_of db"
  by (simp add: jobs_of_def)

lemma body_request_Inl: "existing_file f files = Inl e \<Longrightarrow> answered (Inl e)"
  by (auto simp: existing_file_def split: option.splits)

text \<open>The first job of a tenant is newer than the observation, by a race or by a clock that is behind.\<close>

definition history_newer :: "http_call \<Rightarrow> tenant \<Rightarrow> control_db \<Rightarrow> bool" where
  "history_newer c t db \<longleftrightarrow>
     (\<exists>e. store_gpu_demand_forecast (hc_clock c) t None (jobs_of db) = Inl e)"

text \<open>What a request needs to be answered: a fresh job id, a secret of the length the code generates.\<close>

definition fresh_for :: "http_call \<Rightarrow> api_request \<Rightarrow> tenant \<Rightarrow> control_db \<Rightarrow> bool" where
  "fresh_for c req t db \<longleftrightarrow>
     (case req of Post_job body \<Rightarrow> \<not> job_id_taken (hc_fresh_id c) (jobs_of db)
      | Get_demand \<Rightarrow> \<not> history_newer c t db
      | Post_tenant tenant_id name key_id \<Rightarrow> 32 \<le> length (hc_secret c)
      | Post_api_key key_id scopes \<Rightarrow> 32 \<le> length (hc_secret c)
      | _ \<Rightarrow> True)"

lemma create_tenant_answered:
  assumes "authenticated G c Operator_scope db p" "primitives_ok (gw_primitives G)" "32 \<le> length (hc_secret c)"
  shows "answered (fst (create_tenant_route G c t name key_id db))"
proof -
  have digest: "is_sha256 (sha256_hex (gw_primitives G) x)" for x using assms(2) by (simp add: primitives_ok_def)
  have hashed: "hash_api_key (gw_primitives G) (hc_secret c) = Inr (sha256_hex (gw_primitives G) (utf8 (hc_secret c)))"
    using assms(3) by (auto simp: hash_api_key_def)
  have "answered (answering (caught is_conflict 409 (gw_error_text G))
      (fst (transaction (\<lambda>db. bind_result (hash_api_key (gw_primitives G) (hc_secret c)) (\<lambda>digest.
          create_tenant (hc_now c) t name key_id digest (pr_key_id p) db)) db)))" if "tenant_create_valid t name key_id"
  proof (cases "create_tenant (hc_now c) t name key_id (sha256_hex (gw_primitives G) (utf8 (hc_secret c))) (pr_key_id p) db")
    case (Inl e)
    then show ?thesis using create_tenant_Inl [OF Inl that digest]
      by (simp add: fst_transaction hashed answering_def caught_def is_conflict_def)
  qed (simp add: fst_transaction hashed answering_def)
  then show ?thesis
    unfolding create_tenant_route_def with_principal_authenticated [OF assms(1)]
    using issued_answered [OF assms(3)] by simp
qed

lemma issue_key_answered:
  assumes "authenticated G c (Tenant_scope Admin_scope) db p" "primitives_ok (gw_primitives G)" "32 \<le> length (hc_secret c)"
  shows "answered (fst (issue_key_route G c key_id scopes db))"
proof -
  have digest: "is_sha256 (sha256_hex (gw_primitives G) x)" for x using assms(2) by (simp add: primitives_ok_def)
  have hashed: "hash_api_key (gw_primitives G) (hc_secret c) = Inr (sha256_hex (gw_primitives G) (utf8 (hc_secret c)))"
    using assms(3) by (auto simp: hash_api_key_def)
  let ?caught = "else_handler (not_found ''tenant was not found'')
               (else_handler (caught is_conflict 409 (gw_error_text G)) (caught is_suspended 409 (gw_error_text G)))"
  have caught: "answered (answering ?caught (Inl e))"
    if "(\<exists>x. e = KeyError x) \<or> e = TenantSuspendedError \<or> e = TenantConflictError" for e
    using that by (auto simp: answering_def else_handler_def not_found_def caught_def is_conflict_def is_suspended_def)
  have tenant: "(\<exists>x. e = KeyError x)" if "get_tenant t db'' = Inl e" for t db'' e
    using that by (auto simp: get_tenant_def split: option.splits)
  have "answered (answering ?caught (bind_result issued (\<lambda>k. bind_result (get_tenant (pr_tenant_id p) db') (\<lambda>r. Inr (r, k)))))"
    if "transaction (\<lambda>db. bind_result (hash_api_key (gw_primitives G) (hc_secret c)) (\<lambda>digest.
            issue_tenant_api_key (hc_now c) (pr_tenant_id p) key_id digest scopes (pr_key_id p) db)) db = (issued, db')"
      "fullmatch API_KEY_ID_PATTERN key_id" "scopes \<noteq> []" for issued db'
  proof (cases issued)
    case (Inl e)
    then have "issue_tenant_api_key (hc_now c) (pr_tenant_id p) key_id (sha256_hex (gw_primitives G) (utf8 (hc_secret c)))
        scopes (pr_key_id p) db = Inl e"
      using that(1) by (auto simp: transaction_def hashed split: sum.splits)
    from caught [OF issue_Inl [OF this that(2) digest that(3)]] show ?thesis by (simp add: Inl)
  next
    case (Inr k)
    then show ?thesis
    proof (cases "get_tenant (pr_tenant_id p) db'")
      case (Inl e)
      from caught [OF disjI1 [OF tenant [OF Inl]]] show ?thesis using \<open>issued = Inr k\<close> by (simp add: Inl)
    qed (simp add: answering_def)
  qed
  then show ?thesis
    unfolding issue_key_route_def with_principal_authenticated [OF assms(1)]
    using issued_answered [OF assms(3)] by (simp del: fullmatch.simps split: prod.split)
qed

lemma revoke_key_answered:
  assumes "authenticated G c (Tenant_scope Admin_scope) db p"
  shows "answered (fst (revoke_key_route G c key_id db))"
proof -
  have "answered (answering (else_handler (not_found ''API key was not found'') (caught is_last_admin 409 (gw_error_text G)))
      (fst (transaction (revoke_tenant_api_key (hc_now c) (pr_tenant_id p) key_id (pr_key_id p)) db)))"
    using revoke_Inl
    by (fastforce simp: fst_transaction answering_def else_handler_def not_found_def caught_def is_last_admin_def
        split: sum.splits)
  then show ?thesis by (simp add: with_principal_authenticated [OF assms] revoke_key_route_def)
qed

lemma enqueue_job_answered:
  assumes "authenticated G c (Tenant_scope Write_scope) db p" "\<not> job_id_taken (hc_fresh_id c) (jobs_of db)"
  shows "answered (fst (enqueue_job_route G c body db))"
proof -
  have enqueued: "answered (answering (else_handler quota_answer (caught is_value_error 422 (gw_error_text G)))
      (fst (transaction (on_jobs (enqueue_job (hc_fresh_id c) (hc_clock c) (hc_now c) (pr_tenant_id p) r)) db)))" for r
  proof (cases "on_jobs (enqueue_job (hc_fresh_id c) (hc_clock c) (hc_now c) (pr_tenant_id p) r) db")
    case (Inl e)
    then have "is_value_error e \<or> (\<exists>q l n. e = TenantQuotaExceededError q l n)"
      using enqueue_Inl assms(2) by (auto simp: on_jobs_Inl)
    from quota_answered [OF this] show ?thesis by (simp add: fst_transaction Inl)
  qed (simp add: fst_transaction answering_def)
  show ?thesis
  proof (cases "job_body body")
    case (Inl e)
    then show ?thesis
      unfolding enqueue_job_route_def with_principal_authenticated [OF assms(1)] by (simp add: is_Inr_def)
  next
    case (Inr b)
    show ?thesis
      unfolding enqueue_job_route_def with_principal_authenticated [OF assms(1)] Inr bind_result_simps
      using enqueued body_request_Inl
      by (cases "existing_file (jr_suite_path b) (gw_allowed_files G)") (simp_all add: is_Inr_def)
  qed
qed

lemma cancel_job_answered:
  assumes "authenticated G c (Tenant_scope Write_scope) db p"
  shows "answered (fst (cancel_job_route G c job_id db))"
proof -
  have "answered (answering (else_handler (not_found ''job was not found'') (caught is_value_error 409 (gw_error_text G)))
      (fst (transaction (on_jobs (cancel_job (hc_now c) (pr_tenant_id p) job_id)) db)))"
    using cancel_Inl
    by (fastforce simp: fst_transaction on_jobs_Inl answering_def else_handler_def not_found_def caught_def is_value_error_def
        split: sum.splits)
  then show ?thesis by (simp add: with_principal_authenticated [OF assms] cancel_job_route_def)
qed

lemma operator_routes_answered:
  assumes "authenticated G c Operator_scope db p"
  shows "answered (fst (list_tenants_route G c db))" "answered (fst (set_tenant_status_route G c t status db))"
    "answered (fst (get_tenant_quota_route G c t db))" "answered (fst (set_tenant_quota_route G c t quota db))"
  unfolding list_tenants_route_def set_tenant_status_route_def get_tenant_quota_route_def set_tenant_quota_route_def
    with_principal_authenticated [OF assms]
  by (auto simp: fst_transaction on_quotas_def set_tenant_status_def get_tenant_quota_def set_tenant_quota_def Let_def
      bind_result_Inl intro!: answered_not_found split: sum.splits option.splits)

lemma tenant_reads_answered:
  assumes "authenticated G c (Tenant_scope Read_scope) db p"
  shows "answered (fst (get_current_tenant_route G c db))" "answered (fst (get_current_quota_route G c db))"
    "answered (fst (list_workers_route G c db))" "answered (fst (list_jobs_route G c limit status db))"
  unfolding get_current_tenant_route_def get_current_quota_route_def list_workers_route_def list_jobs_route_def
    with_principal_authenticated [OF assms]
  by (auto simp: get_tenant_def tenant_quota_status_def intro!: answered_not_found split: option.splits)

lemma list_keys_answered:
  assumes "authenticated G c (Tenant_scope Admin_scope) db p"
  shows "answered (fst (list_keys_route G c db))"
  unfolding list_keys_route_def with_principal_authenticated [OF assms]
  by (auto simp: list_tenant_api_keys_def intro!: answered_not_found split: if_splits)

lemma job_reads_answered:
  assumes "authenticated G c (Tenant_scope Read_scope) db p"
  shows "answered (fst (get_job_route G c job_id db))" "answered (fst (job_placement_route G c job_id db))"
proof -
  have "0 < DEFAULT_WORKER_ACTIVE_SECONDS" by (simp add: DEFAULT_WORKER_ACTIVE_SECONDS_def)
  then show "answered (fst (job_placement_route G c job_id db))"
    unfolding job_placement_route_def with_principal_authenticated [OF assms]
    by (auto simp: placement_diagnostic_def get_job_def bind_result_Inl diagnose_placement_diagnosis
        intro!: answered_not_found split: option.splits)
  show "answered (fst (get_job_route G c job_id db))"
    unfolding get_job_route_def with_principal_authenticated [OF assms]
    by (auto simp: get_job_def intro!: answered_not_found split: option.splits)
qed

lemma demand_answered:
  assumes "authenticated G c (Tenant_scope Read_scope) db p" "\<not> history_newer c (pr_tenant_id p) db"
  shows "answered (fst (gpu_demand_route G c db))"
  unfolding gpu_demand_route_def with_principal_authenticated [OF assms(1)]
  using assms(2) by (cases "store_gpu_demand_forecast (hc_clock c) (pr_tenant_id p) None (jobs_of db)")
    (auto simp: history_newer_def job_db_truncate)



text \<open>
  The demand forecast takes its clock before it reads the queue, so a first job that arrives in between, or one from a
  process whose clock is ahead, makes it raise, and the route answers with an internal error.
\<close>

lemma fold_min_bound: "\<forall>x \<in> set (c # cs). (b :: int) < x \<Longrightarrow> b < fold min cs c"
  by (induction cs arbitrary: c) (simp_all add: min_def)

theorem newer_first_job_fails:
  assumes "authenticated G c (Tenant_scope Read_scope) db p"
    and "visible (pr_tenant_id p) (db_jobs db) \<noteq> []"
    and "\<forall>j \<in> set (visible (pr_tenant_id p) (db_jobs db)). hc_clock c < ej_created_at j"
  shows "response_status Get_demand (fst (handle G c Get_demand db)) = 500"
proof -
  let ?jobs = "visible (pr_tenant_id p) (db_jobs db)"
  obtain j js where jobs: "?jobs = j # js" using assms(2) by (cases ?jobs) auto
  have "hc_clock c < fold min (map ej_created_at js) (ej_created_at j)"
    using assms(3) by (intro fold_min_bound) (auto simp: jobs)
  then have "store_gpu_demand_forecast (hc_clock c) (pr_tenant_id p) None (jobs_of db)
      = Inl (ValueError ''GPU demand history cannot start after the observation time'')"
    by (simp add: store_gpu_demand_forecast_def jobs Let_def forecast_gpu_demand_def max_def)
  then show ?thesis
    by (simp add: handle.simps gpu_demand_route_def with_principal_authenticated [OF assms(1)] job_db_truncate
        replying_def response_status_def status_of_exn_def)
qed

end
