(* ===== verification/Gateway_Evidence_Properties.thy ===== *)
theory Gateway_Evidence_Properties
  imports Gateway_Evidence Gateway_Properties
begin

section \<open>Properties of the evidence routes\<close>

text \<open>
  A release decision is the gate's verdict on two verified runs of the tenant, evidence of the rails carries the
  provenance of the configuration that was active when it was asked for, and a checkpoint that could not be published
  stays recorded.
\<close>

lemma answering_Inr [simp]: "answering h m = Inr x \<longleftrightarrow> m = Inr x"
  by (cases m) (auto simp: answering_def split: option.splits)

lemma attempt_cases:
  assumes "attempt op st = (m, st')"
  obtains (raised) e where "m = Inl e" "st' = st" "op st = Inl e" | (ok) x where "m = Inr x" "op st = Inr (st', x)"
  using assms by (auto simp: attempt_def split: sum.splits)

lemma attempt_Inr [simp]: "attempt op st = (Inr x, st') \<longleftrightarrow> op st = Inr (st', x)"
  by (auto simp: attempt_def split: sum.splits)

lemma with_reader_Inr:
  assumes "with_reader E c db scope valid handler st = (Inr x, st')"
  obtains p where "authenticated (ea_gateway E) c scope db p" "valid" "handler p (pr_tenant_id p) st = (Inr x, st')"
proof (cases "with_principal (ea_gateway E) c scope valid (\<lambda>p t. reading (\<lambda>db. Inr (p, t))) db")
  case (Pair r db')
  then show ?thesis
  proof (cases rule: with_principal_cases)
    case (refused e)
    then show ?thesis using assms Pair by (simp add: with_reader_def)
  next
    case (handled p)
    then have "r = Inr (p, pr_tenant_id p)" by (simp add: reading_def)
    then show ?thesis using assms Pair handled that by (simp add: with_reader_def)
  qed
qed

lemma with_reader_authenticated:
  assumes "authenticated (ea_gateway E) c scope db p"
  shows "with_reader E c db scope valid handler st =
    (if valid then handler p (pr_tenant_id p) st else (Inl (HTTPException 422 ''request validation''), st))"
  by (simp add: with_reader_def reading_def with_principal_authenticated [OF assms])

subsection \<open>Release decisions\<close>

definition verified_run :: "'s evidence_app \<Rightarrow> tenant \<Rightarrow> uuid \<Rightarrow> artifact_db \<Rightarrow> evaluation_run \<Rightarrow> bool" where
  "verified_run E t i st run \<longleftrightarrow>
     (\<exists>row. row \<in> set (visible t (ad_runs st)) \<and> ar_id row = i
       \<and> verify_artifact (ea_primitives E) (ea_keyring E) Run row = Inr () \<and> ea_parse_run E (ar_payload row) = Inr run)"

lemma fetch_run_verified: "fetch_run E t i st = Inr run \<Longrightarrow> verified_run E t i st run"
  by (auto simp: fetch_run_def get_artifact_def verified_run_def split: option.splits dest!: find_SomeD)

lemma save_comparison_row:
  assumes "save_comparison P kr jsonb t i b k payload st = Inr st'"
  shows "\<exists>row. row \<in> set (visible t (ad_comparisons st')) \<and> ar_id row = i \<and> ar_payload row = jsonb payload
      \<and> digest_of P payload = Inr (ar_payload_sha256 row)"
    and "ad_runs st' = ad_runs st"
  using assms
  by (auto simp: save_comparison_def artifact_row_of_def insert_artifact_def append_artifact_ledger_def
      split: if_splits prod.splits)

text \<open>C40. A release decision is the gate's verdict on verified evidence: when a comparison is created, both runs are the
  tenant's own artifacts whose digest and signature were checked on that read, the policy is one of the allowed files,
  the decision is the gate's on the comparison of exactly these runs, and it is recorded as a signed artifact of the
  tenant under the id that is answered.\<close>

theorem decision_on_verified_runs:
  assumes "create_comparison_route E c db baseline_id candidate_id policy_path st = (Inr (i, comparison, decision), st')"
  shows "\<exists>p baseline candidate path policy row.
      authenticated (ea_gateway E) c (Tenant_scope Write_scope) db p
    \<and> verified_run E (pr_tenant_id p) baseline_id st baseline \<and> verified_run E (pr_tenant_id p) candidate_id st candidate
    \<and> map_of (gw_allowed_files (ea_gateway E)) policy_path = Some path \<and> ea_load_policy E path = Inr policy
    \<and> comparison = compare_runs (ea_pick E) baseline candidate \<and> decision = evaluate_gate comparison policy
    \<and> row \<in> set (visible (pr_tenant_id p) (ad_comparisons st')) \<and> ar_id row = i
    \<and> ar_payload row = ea_jsonb E (ea_comparison_json E i (hc_clock c) comparison decision) \<and> ad_runs st' = ad_runs st"
proof -
  obtain p where p: "authenticated (ea_gateway E) c (Tenant_scope Write_scope) db p"
    and handled: "attempt (\<lambda>st.
       bind_result (fetch_run E (pr_tenant_id p) baseline_id st) (\<lambda>baseline.
       bind_result (fetch_run E (pr_tenant_id p) candidate_id st) (\<lambda>candidate.
       bind_result (existing_file policy_path (gw_allowed_files (ea_gateway E))) (\<lambda>path.
         let comparison = compare_runs (ea_pick E) baseline candidate in
         bind_result (ea_load_policy E path) (\<lambda>policy.
           let decision = evaluate_gate comparison policy in
           bind_result (save_comparison (ea_primitives E) (ea_keyring E) (ea_jsonb E) (pr_tenant_id p) (hc_fresh_id c)
               (rc_baseline_run_id comparison) (rc_candidate_run_id comparison)
               (ea_comparison_json E (hc_fresh_id c) (hc_clock c) comparison decision) st) (\<lambda>st'.
             Inr (st', hc_fresh_id c, comparison, decision))))))) st = (Inr (i, comparison, decision), st')"
    using assms [unfolded create_comparison_route_def] by (rule with_reader_Inr)
  from handled obtain baseline candidate path policy where
    runs: "fetch_run E (pr_tenant_id p) baseline_id st = Inr baseline" "fetch_run E (pr_tenant_id p) candidate_id st = Inr candidate"
    and path: "existing_file policy_path (gw_allowed_files (ea_gateway E)) = Inr path" "ea_load_policy E path = Inr policy"
    and result: "comparison = compare_runs (ea_pick E) baseline candidate" "decision = evaluate_gate comparison policy"
      "i = hc_fresh_id c"
    and saved: "save_comparison (ea_primitives E) (ea_keyring E) (ea_jsonb E) (pr_tenant_id p) i
        (rc_baseline_run_id comparison) (rc_candidate_run_id comparison)
        (ea_comparison_json E i (hc_clock c) comparison decision) st = Inr st'"
    by (auto simp: Let_def)
  have "map_of (gw_allowed_files (ea_gateway E)) policy_path = Some path"
    using path(1) by (auto simp: existing_file_def split: option.splits)
  with p fetch_run_verified [OF runs(1)] fetch_run_verified [OF runs(2)] path(2) result save_comparison_row [OF saved]
  show ?thesis by blast
qed

subsection \<open>Guardrail evidence\<close>

lemma completion_unmanaged [simp]: "ge_config_version (evidence_of_completion py_str model config_id s kvs t d) = None"
  by (simp add: evidence_of_completion_def)

lemma validate_evidence_same: "validate_guardrail_evidence x = Inr e \<Longrightarrow> e = x"
  by (simp add: validate_guardrail_evidence_def split: if_split_asm)

lemma payload_unmanaged: "evidence_of_payload py_str model config_id s payload = Inr e \<Longrightarrow> ge_config_version e = None"
proof (cases payload)
  case (JObj kvs)
  assume "evidence_of_payload py_str model config_id s payload = Inr e"
  then obtain content where "(case content of
        JStr response_text \<Rightarrow>
          bind_result (Guardrails.diagnostics_of kvs) (\<lambda>diagnostics.
            validate_guardrail_evidence
              (evidence_of_completion py_str model config_id s kvs response_text diagnostics))
      | _ \<Rightarrow> Inl (guardrails_error ''NeMo Guardrails returned non-text content'')) = Inr e"
    unfolding evidence_of_payload_def JObj json.case bind_result_Inr by blast
  then show ?thesis by (cases content) (auto dest!: validate_evidence_same)
qed (simp_all add: evidence_of_payload_def)

lemma check_unmanaged:
  "guardrails_check urlopen loads py_str client model config_id input_text output_text = Inr e \<Longrightarrow> ge_config_version e = None"
  by (auto simp: guardrails_check_def payload_unmanaged)

text \<open>
  Evidence of a check names the configuration version, digest and activation that were active when the check was asked
  for, whatever other requests activate while the service answers; a request that names a version yields evidence of
  that version or none.
\<close>

theorem evidence_provenance:
  assumes "check_guardrails_route E c db interim r st = (Inr stored, st')"
  shows "\<exists>p active e. authenticated (ea_gateway E) c (Tenant_scope Write_scope) db p
    \<and> get_active_guardrail_config (pr_tenant_id p) (cq_config_id r) st = Inr active
    \<and> guardrails_check (ea_urlopen E) (ea_loads E) (ea_py_str E) (ea_client E) (cq_model r) (cq_config_id r)
        (cq_input_text r) (cq_output_text r) = Inr e
    \<and> sg_evidence stored = with_provenance r active e
    \<and> ge_config_version (sg_evidence stored) = map_option ga_version active
    \<and> (case cq_config_version r of None \<Rightarrow> True | Some v \<Rightarrow> ge_config_version (sg_evidence stored) = Some v)"
proof -
  from assms [unfolded check_guardrails_route_def] obtain p where
    p: "authenticated (ea_gateway E) c (Tenant_scope Write_scope) db p"
    and handled: "(case get_active_guardrail_config (pr_tenant_id p) (cq_config_id r) st of
         Inl e \<Rightarrow> (Inl e, st)
       | Inr active \<Rightarrow>
           if cq_config_version r \<noteq> None \<and> (active = None \<or> map_option ga_version active \<noteq> cq_config_version r)
           then (Inl (HTTPException 409 ''guardrail configuration is not active at version''), st)
           else
             (case answering (caught is_guardrails_error 502 (gw_error_text (ea_gateway E)))
                 (guardrails_check (ea_urlopen E) (ea_loads E) (ea_py_str E) (ea_client E) (cq_model r) (cq_config_id r)
                    (cq_input_text r) (cq_output_text r)) of
                Inl e \<Rightarrow> (Inl e, interim st)
              | Inr evidence \<Rightarrow>
                  attempt (store_guardrail_evidence (ea_primitives E) (ea_keyring E) (ea_jsonb E) (ea_isotime E)
                    (hc_fresh_id c) (hc_clock c) (pr_tenant_id p) (with_provenance r active evidence)) (interim st)))
      = (Inr stored, st')"
    by (rule with_reader_Inr)
  then obtain active e where active: "get_active_guardrail_config (pr_tenant_id p) (cq_config_id r) st = Inr active"
    and version: "cq_config_version r = None \<or> map_option ga_version active = cq_config_version r"
    and e: "guardrails_check (ea_urlopen E) (ea_loads E) (ea_py_str E) (ea_client E) (cq_model r) (cq_config_id r)
        (cq_input_text r) (cq_output_text r) = Inr e"
    and stored: "store_guardrail_evidence (ea_primitives E) (ea_keyring E) (ea_jsonb E) (ea_isotime E)
        (hc_fresh_id c) (hc_clock c) (pr_tenant_id p) (with_provenance r active e) (interim st) = Inr (st', stored)"
    by (auto split: sum.splits if_splits)
  have "sg_evidence stored = with_provenance r active e"
    using stored by (auto simp: store_guardrail_evidence_def Let_def)
  moreover have "ge_config_version (with_provenance r active e) = map_option ga_version active"
    using check_unmanaged [OF e] by (simp add: with_provenance_def Let_def split: option.split)
  ultimately show ?thesis using p active e version by (auto split: option.splits)
qed

subsection \<open>Checkpoints\<close>

text \<open>
  A checkpoint is committed before the sink sees it: a publication that fails leaves it recorded, so that the next
  request publishes the same checkpoint, and nothing is published that the database does not hold.
\<close>

theorem checkpoint_committed_first:
  "case publish_checkpoint_route E c db retention_days (st, world) of (m, st', world') \<Rightarrow>
     (st' = st \<and> world' = world \<and> (\<exists>e. m = Inl e))
     \<or> (\<exists>p publish checkpoint answer. authenticated (ea_gateway E) c (Tenant_scope Admin_scope) db p
         \<and> ea_sink E = Some publish
         \<and> create_ledger_checkpoint (ea_primitives E) (ea_keyring E) (ea_isotime E) (ea_parse_checkpoint E) (ea_jsonb E)
             (pr_tenant_id p) retention_days (hc_fresh_id c) (hc_now c) (hc_clock c) st = Inr (st', checkpoint)
         \<and> publish checkpoint world = (answer, world') \<and> (\<forall>x. m = Inr x \<longleftrightarrow> answer = Inr x))"
proof (cases "with_principal (ea_gateway E) c (Tenant_scope Admin_scope) (1 \<le> retention_days \<and> retention_days \<le> 3650)
    (\<lambda>p t. reading (\<lambda>db. Inr (p, t))) db")
  case (Pair r db')
  then show ?thesis
  proof (cases rule: with_principal_cases)
    case (refused e)
    then show ?thesis using Pair by (simp add: publish_checkpoint_route_def with_reader_def)
  next
    case (handled p)
    then have r: "r = Inr (p, pr_tenant_id p)" by (simp add: reading_def)
    show ?thesis
    proof (cases "ea_sink E")
      case None
      then show ?thesis using Pair r by (simp add: publish_checkpoint_route_def with_reader_def)
    next
      case (Some publish)
      show ?thesis
      proof (cases "create_ledger_checkpoint (ea_primitives E) (ea_keyring E) (ea_isotime E) (ea_parse_checkpoint E) (ea_jsonb E)
             (pr_tenant_id p) retention_days (hc_fresh_id c) (hc_now c) (hc_clock c) st")
        case (Inl e)
        then show ?thesis using Pair r Some
          by (simp add: publish_checkpoint_route_def with_reader_def attempt_def answering_def Let_def split: option.split prod.split)
      next
        case (Inr x)
        obtain st'' checkpoint where x: "x = (st'', checkpoint)" by force
        obtain answer world' where published: "publish checkpoint world = (answer, world')" by force
        show ?thesis using Pair r Some Inr x published handled(1)
          by (auto simp: publish_checkpoint_route_def with_reader_def attempt_def Let_def)
      qed
    qed
  qed
qed

subsection \<open>An example\<close>

definition toy_run :: evaluation_run where
  "toy_run = \<lparr>run_id = 1, run_suite_name = ''suite'', run_dataset_name = ''data'', run_dataset_version = ''1'',
     run_agent_version = ''baseline'', run_started_at = 0, run_completed_at = 1, run_case_results = []\<rparr>"

definition toy_policy :: quality_gate_policy where
  "toy_policy = \<lparr>qp_schema_version = ''1'', qp_policy = [], qp_defaults = [], qp_metrics = [], qp_slices = []\<rparr>"

definition toy_evidence_app :: "unit evidence_app" where
  "toy_evidence_app = \<lparr>ea_gateway = idle_gateway, ea_keyring = None, ea_jsonb = (\<lambda>v. v), ea_isotime = (\<lambda>i. []),
     ea_parse_run = (\<lambda>v. Inr toy_run), ea_parse_evidence = (\<lambda>v. Inl (ValidationError ''StoredGuardrailEvidence'')),
     ea_parse_checkpoint = (\<lambda>v. None), ea_run_json = (\<lambda>r. JNull), ea_comparison_json = (\<lambda>i t c d. JNull),
     ea_load_policy = (\<lambda>f. Inr toy_policy), ea_evaluate = (\<lambda>f v. Inr toy_run), ea_pick = (\<lambda>i n. 0),
     ea_urlopen = (\<lambda>r. Inl (ServiceError ''URLError'' [])), ea_loads = (\<lambda>s. Inr JNull), ea_py_str = (\<lambda>v. []),
     ea_client = \<lparr>gc_base_url = [], gc_api_key = None\<rparr>, ea_sink = None\<rparr>"

definition toy_artifacts :: artifact_db where
  "toy_artifacts = \<lparr>ad_runs = [(DEFAULT_TENANT_ID, \<lparr>ar_id = 1, ar_payload = JNull, ar_payload_sha256 = hex_fixed 64 4,
       ar_signature_algorithm = None, ar_signing_key_id = None, ar_signature = None\<rparr>)],
     ad_comparisons = [], ad_evidence = [], ad_ledger = []\<rparr>"

definition local_principal :: principal where
  "local_principal = \<lparr>pr_key_id = ''local-trust'', pr_tenant_id = DEFAULT_TENANT_ID, pr_scopes = {Tenant_scope Admin_scope}\<rparr>"

lemma local_authenticated: "authenticated (ea_gateway toy_evidence_app) c scope db local_principal"
  by (simp add: authenticated_def toy_evidence_app_def idle_gateway_def authenticate_def auth_enabled_def
      gateway_authenticator_def default_tenant_id_def DEFAULT_TENANT_ID_valid bind_tenant_def local_principal_def
      del: fullmatch.simps)

lemma four: "(4::nat) = Suc (Suc (Suc (Suc 0)))"
  by simp

lemma toy_digest: "digest_of toy_primitives JNull = Inr (hex_fixed 64 4)"
  by (simp add: digest_of_def artifact_digest_def canonical_json_bytes_def canonical_form_def toy_primitives_def four)

lemma toy_fetch: "fetch_run toy_evidence_app DEFAULT_TENANT_ID 1 toy_artifacts = Inr toy_run"
  using is_sha256_ascii [OF is_sha256_hex_fixed, of 4]
  by (simp add: fetch_run_def get_artifact_def toy_artifacts_def toy_evidence_app_def idle_gateway_def verify_artifact_def
      toy_digest compare_digest_def verify_authenticity_def answering_def)

lemma genesis_digest: "is_sha256 LEDGER_GENESIS_SHA256"
  by (simp add: is_sha256_def LEDGER_GENESIS_SHA256_def in_class_def list_all_iff)

lemma toy_compared_ids:
  "rc_baseline_run_id (compare_runs pick toy_run toy_run) = 1" "rc_candidate_run_id (compare_runs pick toy_run toy_run) = 1"
  by (simp_all add: compare_runs_def Let_def toy_run_def)

lemma toy_comparison_saved:
  "\<exists>st'. save_comparison toy_primitives None (\<lambda>v. v) DEFAULT_TENANT_ID 7 1 1 JNull toy_artifacts = Inr st'"
  using genesis_digest toy_digest
  by (simp add: save_comparison_def artifact_row_of_def sign_artifact_def insert_artifact_def toy_artifacts_def
      append_artifact_ledger_def append_ledger_values_def ledger_head_def ledger_entry_row_def artifact_envelope_def
      Let_def ledger_entry_digest_eq toy_primitives_def)

theorem decision_on_verified_runs_witness:
  "\<exists>st' (p :: principal) row.
     create_comparison_route toy_evidence_app (ops_call\<lparr>hc_fresh_id := 7\<rparr>) control_db0 1 1 ''suite.jsonl'' toy_artifacts
       = (Inr (7, compare_runs (\<lambda>i n. 0) toy_run toy_run, evaluate_gate (compare_runs (\<lambda>i n. 0) toy_run toy_run) toy_policy), st')
   \<and> verified_run toy_evidence_app (pr_tenant_id p) 1 toy_artifacts toy_run
   \<and> row \<in> set (visible (pr_tenant_id p) (ad_comparisons st')) \<and> ar_id row = 7"
proof -
  let ?c = "ops_call\<lparr>hc_fresh_id := 7\<rparr>"
  obtain st' where saved: "save_comparison toy_primitives None (\<lambda>v. v) DEFAULT_TENANT_ID 7 1 1 JNull toy_artifacts = Inr st'"
    using toy_comparison_saved by blast
  have fields: "ea_primitives toy_evidence_app = toy_primitives" "ea_keyring toy_evidence_app = None"
    "ea_jsonb toy_evidence_app = (\<lambda>v. v)" "ea_comparison_json toy_evidence_app = (\<lambda>i t c d. JNull)"
    "ea_load_policy toy_evidence_app = (\<lambda>f. Inr toy_policy)" "ea_pick toy_evidence_app = (\<lambda>i n. 0)"
    "existing_file ''suite.jsonl'' (gw_allowed_files (ea_gateway toy_evidence_app)) = Inr ''/inputs/suite.jsonl''"
    "pr_tenant_id local_principal = DEFAULT_TENANT_ID" "hc_fresh_id ?c = 7"
    by (simp_all add: toy_evidence_app_def idle_gateway_def existing_file_def local_principal_def)
  have created: "create_comparison_route toy_evidence_app ?c control_db0 1 1 ''suite.jsonl'' toy_artifacts
      = (Inr (7, compare_runs (\<lambda>i n. 0) toy_run toy_run, evaluate_gate (compare_runs (\<lambda>i n. 0) toy_run toy_run) toy_policy), st')"
    unfolding create_comparison_route_def with_reader_authenticated [OF local_authenticated] fields attempt_def toy_fetch
      bind_result_simps Let_def toy_compared_ids saved by simp
  have parsed: "run = toy_run" if "verified_run toy_evidence_app t 1 toy_artifacts run" for t run
    using that by (auto simp: verified_run_def toy_evidence_app_def)
  obtain p :: principal and baseline and row where
      verified: "verified_run toy_evidence_app (pr_tenant_id p) 1 toy_artifacts baseline"
    and row: "row \<in> set (visible (pr_tenant_id p) (ad_comparisons st'))" "ar_id row = 7"
    using decision_on_verified_runs [OF created] by iprover
  show ?thesis
    by (rule exI [of _ st'], rule exI [of _ p], rule exI [of _ row], intro conjI created row verified [unfolded parsed [OF verified]])
qed

end
