(* ===== verification/Spec2Isabelle.thy ===== *)
theory Spec2Isabelle
  imports Evaluators Gate Worker_Properties Demand Tenant_Properties Auth_Properties
    Recovery_Properties Promotion_Properties Guardrail_Store_Properties Fleet_Properties
    Drill_Properties Dcgm_Properties Key_Service_Properties Adapter_Properties
    Tracing_Properties Observability_Properties Gateway_Evidence_Properties
begin

text \<open>A verification development for the Agent Evaluation Control Plane.\<close>

end
